(* ===== verification/Obs_Prelude.thy ===== *)
theory Obs_Prelude
  imports Complex_Main "HOL-Library.Multiset"
begin

text \<open>
  Prelude of the development: the conventions every other theory uses and the generic lemmas
  the component proofs share.

  \<^item> Time. A Go \<open>time.Time\<close> is the number of nanoseconds since the Unix epoch (an \<open>int\<close>), a
    \<open>time.Duration\<close> a number of nanoseconds. \<open>Before\<close> is \<open><\<close>, \<open>Add\<close> is \<open>+\<close>, \<open>Unix()\<close> is the
    floor of the division by \<open>10 ^ 9\<close> and \<open>time.Unix(s, 0)\<close> is the multiplication. The zero
    \<open>time.Time\<close> is the first instant of year 1.
  \<^item> Errors. A Go error is a tree: a sentinel made by \<open>errors.New\<close>, or a message that wraps
    other errors (\<open>fmt.Errorf\<close> with \<open>%w\<close>, \<open>errors.Join\<close>). \<open>errors.Is\<close> searches the tree.
  \<^item> Sorting. \<open>slices.SortFunc\<close> and \<open>sort.Slice\<close> need a strict weak order; the locale
    \<open>strict_weak_order\<close> states that contract and its lemmas give the sortedness of the result.
\<close>

subsection \<open>Hint collections\<close>

named_theorems go_error_simps \<open>evaluation of errors.Is on the sentinels of the program\<close>
named_theorems store_ops \<open>definitions of the operations of the OAuth state stores\<close>
named_theorems grant_ops \<open>definitions of the operations of the grant lifecycle\<close>

subsection \<open>Time\<close>

type_synonym gtime = int
type_synonym duration = int

definition nanosecond :: duration where "nanosecond = 1"
definition second :: duration where "second = 1000000000"
definition minute :: duration where "minute = 60 * second"
definition hour :: duration where "hour = 60 * minute"

lemmas duration_defs = nanosecond_def second_def minute_def hour_def

definition time_zero :: gtime where
  "time_zero = - 62135596800 * 1000000000"

definition unix :: "gtime \<Rightarrow> int" where
  "unix t = t div 1000000000"

definition time_unix :: "int \<Rightarrow> gtime" where
  "time_unix s = s * 1000000000"

lemma unix_time_unix [simp]: "unix (time_unix s) = s"
  by (simp add: unix_def time_unix_def)

lemma time_unix_unix_le: "time_unix (unix t) \<le> t"
  using minus_mod_eq_div_mult [of t 1000000000] pos_mod_sign [of 1000000000 t]
  by (simp add: unix_def time_unix_def)

lemma time_unix_unix_gt: "t < time_unix (unix t) + second"
  using minus_mod_eq_div_mult [of t 1000000000] pos_mod_bound [of 1000000000 t]
  by (simp add: unix_def time_unix_def second_def)

lemma time_unix_mono: "a \<le> b \<Longrightarrow> time_unix a \<le> time_unix b"
  by (simp add: time_unix_def)

lemma unix_mono: "a \<le> b \<Longrightarrow> unix a \<le> unix b"
  by (simp add: unix_def zdiv_mono1)

subsection \<open>Errors\<close>

datatype go_error = Sentinel string | Wrap string "go_error list"

fun errors_is :: "go_error \<Rightarrow> go_error \<Rightarrow> bool" where
  "errors_is (Sentinel m) t = (Sentinel m = t)"
| "errors_is (Wrap m es) t = (Wrap m es = t \<or> (\<exists>e \<in> set es. errors_is e t))"

lemma errors_is_refl [simp]: "errors_is e e"
  by (cases e) simp_all

text \<open>\<open>Error()\<close>: the message.\<close>

fun err_text :: "go_error \<Rightarrow> string" where
  "err_text (Sentinel m) = m"
| "err_text (Wrap m es) = m"

lemma errors_is_Wrap1: "errors_is e t \<Longrightarrow> errors_is (Wrap m [e]) t"
  by simp

text \<open>
  \<open>errors.Join\<close>: nil errors are dropped, and the joined error is nil when none is left.
\<close>

definition errors_join :: "go_error list \<Rightarrow> go_error option" where
  "errors_join es = (if es = [] then None else Some (Wrap ''join'' es))"

lemma errors_join_None [simp]: "errors_join es = None \<longleftrightarrow> es = []"
  by (simp add: errors_join_def)

subsection \<open>Sorting by a strict weak order\<close>

text \<open>
  Insertion sort by a less function: the element is placed before the first element it is not
  greater than, so equal elements keep their order (a stable sort). Where the program uses an
  unstable sort with a comparison that leaves no ties, the result is the same list.
\<close>

fun insert_less :: "('a \<Rightarrow> 'a \<Rightarrow> bool) \<Rightarrow> 'a \<Rightarrow> 'a list \<Rightarrow> 'a list" where
  "insert_less lt x [] = [x]"
| "insert_less lt x (y # ys) = (if lt y x then y # insert_less lt x ys else x # y # ys)"

fun sort_less :: "('a \<Rightarrow> 'a \<Rightarrow> bool) \<Rightarrow> 'a list \<Rightarrow> 'a list" where
  "sort_less lt [] = []"
| "sort_less lt (x # xs) = insert_less lt x (sort_less lt xs)"

lemma mset_insert_less [simp]: "mset (insert_less lt x ys) = add_mset x (mset ys)"
  by (induction ys) auto

lemma mset_sort_less [simp]: "mset (sort_less lt xs) = mset xs"
  by (induction xs) auto

lemma set_insert_less [simp]: "set (insert_less lt x ys) = insert x (set ys)"
  by (induction ys) auto

lemma set_sort_less [simp]: "set (sort_less lt xs) = set xs"
  by (induction xs) auto

lemma length_sort_less [simp]: "length (sort_less lt xs) = length xs"
  by (metis mset_sort_less size_mset)

lemma distinct_sort_less [simp]: "distinct (sort_less lt xs) = distinct xs"
  by (metis mset_eq_imp_distinct_iff mset_sort_less)

locale strict_weak_order =
  fixes lt :: "'a \<Rightarrow> 'a \<Rightarrow> bool"
  assumes asym: "lt x y \<Longrightarrow> \<not> lt y x"
    and neg_trans: "\<not> lt x y \<Longrightarrow> \<not> lt y z \<Longrightarrow> \<not> lt x z"
begin

lemma irrefl: "\<not> lt x x"
  using asym by blast

lemma trans: "lt x y \<Longrightarrow> lt y z \<Longrightarrow> lt x z"
  using asym neg_trans by blast

lemma sorted_insert_less:
  "sorted_wrt (\<lambda>x y. \<not> lt y x) ys \<Longrightarrow> sorted_wrt (\<lambda>x y. \<not> lt y x) (insert_less lt x ys)"
proof (induction ys)
  case Nil
  then show ?case by simp
next
  case (Cons y ys)
  show ?case
  proof (cases "lt y x")
    case True
    with Cons show ?thesis by (simp add: asym)
  next
    case False
    then have "\<not> lt z x" if "z \<in> set ys" for z
      using Cons.prems that neg_trans [of z y x] by simp
    with False Cons.prems show ?thesis by simp
  qed
qed

lemma sorted_sort_less: "sorted_wrt (\<lambda>x y. \<not> lt y x) (sort_less lt xs)"
  by (induction xs) (auto intro: sorted_insert_less)

text \<open>Taking the first elements of a sorted list keeps the best: nothing dropped is less.\<close>

lemma take_sort_less_best:
  assumes "a \<in> set (take n (sort_less lt xs))" "b \<in> set (drop n (sort_less lt xs))"
  shows "\<not> lt b a"
proof -
  have "sorted_wrt (\<lambda>x y. \<not> lt y x) (take n (sort_less lt xs) @ drop n (sort_less lt xs))"
    using sorted_sort_less by simp
  with assms show ?thesis
    unfolding sorted_wrt_append by blast
qed

end

subsection \<open>Maps\<close>

lemma map_upd_Some_iff: "(m(k \<mapsto> v)) k' = Some w \<longleftrightarrow> (if k' = k then w = v else m k' = Some w)"
  by auto

subsection \<open>Lists\<close>

lemma filter_eq_length_le: "length (filter P xs) \<le> length xs"
  by (rule length_filter_le)

text \<open>\<open>slices.IndexFunc\<close>: the position of the first element satisfying a test.\<close>

fun index_func :: "('a \<Rightarrow> bool) \<Rightarrow> 'a list \<Rightarrow> nat option" where
  "index_func P [] = None"
| "index_func P (x # xs) = (if P x then Some 0 else map_option Suc (index_func P xs))"

lemma index_func_Some:
  "index_func P xs = Some i \<Longrightarrow> i < length xs \<and> P (xs ! i) \<and> (\<forall>j < i. \<not> P (xs ! j))"
proof (induction xs arbitrary: i)
  case Nil
  then show ?case by simp
next
  case (Cons x xs)
  then show ?case by (auto split: if_splits simp: nth_Cons split: nat.splits)
qed

lemma index_func_None: "index_func P xs = None \<longleftrightarrow> (\<forall>x \<in> set xs. \<not> P x)"
  by (induction xs) auto

text \<open>\<open>slices.Delete(xs, i, i + 1)\<close>.\<close>

definition delete_at :: "nat \<Rightarrow> 'a list \<Rightarrow> 'a list" where
  "delete_at i xs = take i xs @ drop (Suc i) xs"

lemma mset_delete_at:
  "i < length xs \<Longrightarrow> add_mset (xs ! i) (mset (delete_at i xs)) = mset xs"
proof -
  assume "i < length xs"
  then have "xs = take i xs @ xs ! i # drop (Suc i) xs" by (rule id_take_nth_drop)
  then have "mset xs = mset (take i xs @ xs ! i # drop (Suc i) xs)" by simp
  then show ?thesis by (simp add: delete_at_def)
qed

lemma set_delete_at_subset: "set (delete_at i xs) \<subseteq> set xs"
  using set_take_subset set_drop_subset by (fastforce simp: delete_at_def)

lemma distinct_map_delete_at: "distinct (map f xs) \<Longrightarrow> distinct (map f (delete_at i xs))"
proof -
  assume d: "distinct (map f xs)"
  have "distinct (take i (map f xs) @ drop i (map f xs))" using d by simp
  moreover have "set (drop (Suc i) (map f xs)) \<subseteq> set (drop i (map f xs))"
    by (rule set_drop_subset_set_drop) simp
  moreover have "distinct (drop (Suc i) (map f xs))" using d by (rule distinct_drop)
  ultimately have "distinct (take i (map f xs) @ drop (Suc i) (map f xs))"
    unfolding distinct_append by blast
  then show ?thesis by (simp add: delete_at_def take_map drop_map)
qed

text \<open>A list sorted by an order that is antisymmetric on its elements is determined by its multiset.\<close>

lemma sorted_wrt_unique:
  assumes "sorted_wrt R xs" "sorted_wrt R ys" "mset xs = mset ys"
    and "\<And>x y. x \<in> set xs \<Longrightarrow> y \<in> set xs \<Longrightarrow> R x y \<Longrightarrow> R y x \<Longrightarrow> x = y"
  shows "xs = ys"
  using assms
proof (induction xs arbitrary: ys)
  case Nil
  then show ?case by simp
next
  case (Cons x xs)
  then obtain y zs where ys: "ys = y # zs" by (cases ys) auto
  have set: "set (x # xs) = set (y # zs)" using Cons.prems(3) ys mset_eq_setD by blast
  have "x = y"
  proof (rule ccontr)
    assume neq: "x \<noteq> y"
    with set have "x \<in> set zs" "y \<in> set xs" by auto
    then have "R y x" "R x y" using Cons.prems(1,2) ys by auto
    with neq show False using Cons.prems(4) \<open>y \<in> set xs\<close> by auto
  qed
  moreover have "xs = zs"
    using Cons.prems ys \<open>x = y\<close> by (intro Cons.IH) auto
  ultimately show ?case using ys by simp
qed

end
