(* ===== verification/Oauth_Store.thy ===== *)
theory Oauth_Store
  imports Obs_Prelude
begin

text \<open>
  The OAuth security state (\<open>internal/authsrv/store.go\<close> and the
  transition rules at the end of \<open>grants.go\<close>): the three kinds of records, the decisions taken
  on them and the in-memory adapter. The Firestore adapter is in \<open>Oauth_Firestore\<close>.

  The interface \<open>oauthStateStore\<close> of the code is a record of operations, and the locale
  \<open>oauth_state_store\<close> is its contract: every operation is described by what it may do to the
  three tables, including the operations that report a failure after which the write may or may
  not have happened. Both adapters satisfy it; the Firestore adapter does so for every Firestore
  client with the documented behaviour (\<open>firestore_client\<close>), which is a parameter.
\<close>

subsection \<open>Sentinel errors\<close>

definition errStateNotFound :: go_error where "errStateNotFound = Sentinel ''oauth state not found''"
definition errStateReplay :: go_error where "errStateReplay = Sentinel ''oauth state replay''"
definition errCodeReplay :: go_error where "errCodeReplay = Sentinel ''authorization code replay''"
definition errGrantReplay :: go_error where "errGrantReplay = Sentinel ''refresh token replay''"
definition errGrantInactive :: go_error where "errGrantInactive = Sentinel ''oauth grant inactive''"
definition errGrantCorrupt :: go_error where "errGrantCorrupt = Sentinel ''decoding OAuth grant''"
definition errInvalidBlob :: go_error where "errInvalidBlob = Sentinel ''invalid sealed blob''"
definition errUnknownKeyID :: go_error where
  "errUnknownKeyID = Wrap ''sealed with a key not in the ring (rotated away or foreign deployment)'' [errInvalidBlob]"
definition errBlobExpired :: go_error where "errBlobExpired = Wrap ''expired'' [errInvalidBlob]"

lemmas sentinel_defs =
  errStateNotFound_def errStateReplay_def errCodeReplay_def errGrantReplay_def errGrantInactive_def
  errGrantCorrupt_def errInvalidBlob_def errUnknownKeyID_def errBlobExpired_def

definition oauth_sentinels :: "go_error list" where
  "oauth_sentinels = [errStateNotFound, errStateReplay, errCodeReplay, errGrantReplay, errGrantInactive,
     errGrantCorrupt, errInvalidBlob, errUnknownKeyID, errBlobExpired]"

text \<open>An error that comes from outside the program wraps none of its sentinels.\<close>

definition foreign_error :: "go_error \<Rightarrow> bool" where
  "foreign_error e = (\<forall>t \<in> set oauth_sentinels. \<not> errors_is e t)"

lemma foreign_errorD:
  assumes "foreign_error e"
  shows "\<not> errors_is e errStateNotFound" "\<not> errors_is e errStateReplay" "\<not> errors_is e errCodeReplay"
    "\<not> errors_is e errGrantReplay" "\<not> errors_is e errGrantInactive" "\<not> errors_is e errBlobExpired"
  using assms by (auto simp: foreign_error_def oauth_sentinels_def)

lemma foreign_Wrap: "foreign_error e \<Longrightarrow> foreign_error (Wrap m [e])"
  by (auto simp: foreign_error_def oauth_sentinels_def sentinel_defs)

lemmas foreign_WrapD = foreign_errorD [OF foreign_Wrap]

lemma foreign_Sentinel:
  "m \<notin> {''oauth state not found'', ''oauth state replay'', ''authorization code replay'',
        ''refresh token replay'', ''oauth grant inactive'', ''decoding OAuth grant'', ''invalid sealed blob''}
   \<Longrightarrow> foreign_error (Sentinel m)"
  by (auto simp: foreign_error_def oauth_sentinels_def sentinel_defs)

subsection \<open>Records\<close>

record authorizationStateRecord =
  as_Claims :: string
  as_Status :: string
  as_ExpiresAt :: gtime
  as_UsedAt :: gtime

record codeRecord =
  c_Claims :: string
  c_Status :: string
  c_FamilyID :: string
  c_ExpiresAt :: gtime
  c_UsedAt :: gtime

record grantRecord =
  g_Claims :: string
  g_ActiveSecretHash :: string
  g_Generation :: int
  g_Status :: string
  g_ExpiresAt :: gtime
  g_UpdatedAt :: gtime

definition zero_authorizationStateRecord :: authorizationStateRecord where
  "zero_authorizationStateRecord =
     \<lparr>as_Claims = [], as_Status = [], as_ExpiresAt = time_zero, as_UsedAt = time_zero\<rparr>"

definition zero_grantRecord :: grantRecord where
  "zero_grantRecord = \<lparr>g_Claims = [], g_ActiveSecretHash = [], g_Generation = 0, g_Status = [],
     g_ExpiresAt = time_zero, g_UpdatedAt = time_zero\<rparr>"

subsection \<open>Transition rules\<close>

definition grantActive :: "grantRecord \<Rightarrow> gtime \<Rightarrow> bool" where
  "grantActive rec now = (g_Status rec = ''active'' \<and> now < g_ExpiresAt rec)"

definition codeRedemptionDecision :: "codeRecord \<Rightarrow> gtime \<Rightarrow> go_error option" where
  "codeRedemptionDecision rec now =
     (if \<not> now < c_ExpiresAt rec then Some errStateNotFound
      else if c_Status rec \<noteq> ''active'' then Some errCodeReplay
      else None)"

definition grantRotationDecision :: "grantRecord \<Rightarrow> string \<Rightarrow> gtime \<Rightarrow> go_error option" where
  "grantRotationDecision rec expected now =
     (if \<not> grantActive rec now then Some errGrantInactive
      else if g_ActiveSecretHash rec \<noteq> expected then Some errGrantReplay
      else None)"

definition revokeGrantRecord :: "grantRecord \<Rightarrow> gtime \<Rightarrow> grantRecord" where
  "revokeGrantRecord rec now = rec\<lparr>g_Status := ''revoked'', g_UpdatedAt := now\<rparr>"

definition grantRevokePossessed :: "grantRecord \<Rightarrow> string \<Rightarrow> bool" where
  "grantRevokePossessed rec expected = (g_ActiveSecretHash rec = expected)"

lemma revoked_not_active [simp]: "\<not> grantActive (revokeGrantRecord g now) t"
  by (simp add: grantActive_def revokeGrantRecord_def)

lemma revokeGrantRecord_simps [simp]:
  "g_Claims (revokeGrantRecord g now) = g_Claims g"
  "g_ActiveSecretHash (revokeGrantRecord g now) = g_ActiveSecretHash g"
  "g_Generation (revokeGrantRecord g now) = g_Generation g"
  "g_Status (revokeGrantRecord g now) = ''revoked''"
  "g_ExpiresAt (revokeGrantRecord g now) = g_ExpiresAt g"
  by (simp_all add: revokeGrantRecord_def)

lemma codeRedemptionDecision_None_iff:
  "codeRedemptionDecision rec now = None \<longleftrightarrow> now < c_ExpiresAt rec \<and> c_Status rec = ''active''"
  by (simp add: codeRedemptionDecision_def)

lemma codeRedemptionDecision_replay_iff:
  "codeRedemptionDecision rec now = Some errCodeReplay \<longleftrightarrow> now < c_ExpiresAt rec \<and> c_Status rec \<noteq> ''active''"
  by (simp add: codeRedemptionDecision_def sentinel_defs)

lemma codeRedemptionDecision_cases:
  "codeRedemptionDecision rec now \<in> {None, Some errCodeReplay, Some errStateNotFound}"
  by (simp add: codeRedemptionDecision_def)

lemma grantRotationDecision_None_iff:
  "grantRotationDecision rec h now = None \<longleftrightarrow> grantActive rec now \<and> g_ActiveSecretHash rec = h"
  by (simp add: grantRotationDecision_def)

lemma grantRotationDecision_replay_iff:
  "grantRotationDecision rec h now = Some errGrantReplay \<longleftrightarrow> grantActive rec now \<and> g_ActiveSecretHash rec \<noteq> h"
  by (simp add: grantRotationDecision_def sentinel_defs)

lemma grantRotationDecision_cases:
  "grantRotationDecision rec h now \<in> {None, Some errGrantReplay, Some errGrantInactive}"
  by (simp add: grantRotationDecision_def)

subsection \<open>The in-memory adapter\<close>

record memoryStateStore =
  ms_states :: "string \<Rightarrow> authorizationStateRecord option"
  ms_codes :: "string \<Rightarrow> codeRecord option"
  ms_grants :: "string \<Rightarrow> grantRecord option"

definition newMemoryStateStore :: memoryStateStore where
  "newMemoryStateStore = \<lparr>ms_states = Map.empty, ms_codes = Map.empty, ms_grants = Map.empty\<rparr>"

definition mem_PutAuthorizationState ::
    "memoryStateStore \<Rightarrow> string \<Rightarrow> authorizationStateRecord \<Rightarrow> memoryStateStore \<times> go_error option" where [store_ops]:
  "mem_PutAuthorizationState s key rec =
     (case ms_states s key of
        Some _ \<Rightarrow> (s, Some (Sentinel ''duplicate authorization state''))
      | None \<Rightarrow> (s\<lparr>ms_states := (ms_states s)(key \<mapsto> rec)\<rparr>, None))"

definition mem_GetAuthorizationState ::
    "memoryStateStore \<Rightarrow> string \<Rightarrow> go_error + authorizationStateRecord" where [store_ops]:
  "mem_GetAuthorizationState s key =
     (case ms_states s key of None \<Rightarrow> Inl errStateNotFound | Some rec \<Rightarrow> Inr rec)"

definition mem_UseAuthorizationState ::
    "memoryStateStore \<Rightarrow> string \<Rightarrow> gtime \<Rightarrow> memoryStateStore \<times> (go_error + authorizationStateRecord)" where [store_ops]:
  "mem_UseAuthorizationState s key now =
     (case ms_states s key of
        None \<Rightarrow> (s, Inl errStateNotFound)
      | Some rec \<Rightarrow>
          if \<not> now < as_ExpiresAt rec then (s, Inl errBlobExpired)
          else if as_Status rec \<noteq> ''active'' then (s, Inl errStateReplay)
          else (let rec' = rec\<lparr>as_Status := ''used'', as_UsedAt := now\<rparr>
                in (s\<lparr>ms_states := (ms_states s)(key \<mapsto> rec')\<rparr>, Inr rec')))"

definition mem_PutCode ::
    "memoryStateStore \<Rightarrow> string \<Rightarrow> codeRecord \<Rightarrow> memoryStateStore \<times> go_error option" where [store_ops]:
  "mem_PutCode s key rec =
     (case ms_codes s key of
        Some _ \<Rightarrow> (s, Some (Sentinel ''duplicate authorization code''))
      | None \<Rightarrow> (s\<lparr>ms_codes := (ms_codes s)(key \<mapsto> rec)\<rparr>, None))"

definition mem_GetCode :: "memoryStateStore \<Rightarrow> string \<Rightarrow> go_error + codeRecord" where [store_ops]:
  "mem_GetCode s key = (case ms_codes s key of None \<Rightarrow> Inl errStateNotFound | Some rec \<Rightarrow> Inr rec)"

definition mem_RedeemCode ::
    "memoryStateStore \<Rightarrow> string \<Rightarrow> gtime \<Rightarrow> grantRecord \<Rightarrow> memoryStateStore \<times> go_error option" where [store_ops]:
  "mem_RedeemCode s key now grant =
     (case ms_codes s key of
        None \<Rightarrow> (s, Some errStateNotFound)
      | Some rec \<Rightarrow>
          let decision = codeRedemptionDecision rec now;
              s1 = (if decision = Some errCodeReplay
                    then (case ms_grants s (c_FamilyID rec) of
                            Some g \<Rightarrow> s\<lparr>ms_grants := (ms_grants s)(c_FamilyID rec \<mapsto> revokeGrantRecord g now)\<rparr>
                          | None \<Rightarrow> s)
                    else s)
          in (case decision of
                Some e \<Rightarrow> (s1, Some e)
              | None \<Rightarrow>
                  (s1\<lparr>ms_codes := (ms_codes s1)(key \<mapsto> rec\<lparr>c_Status := ''used'', c_UsedAt := now\<rparr>),
                      ms_grants := (ms_grants s1)(c_FamilyID rec \<mapsto> grant)\<rparr>, None)))"

definition mem_GetGrant :: "memoryStateStore \<Rightarrow> string \<Rightarrow> go_error + grantRecord" where [store_ops]:
  "mem_GetGrant s gid = (case ms_grants s gid of None \<Rightarrow> Inl errStateNotFound | Some rec \<Rightarrow> Inr rec)"

definition mem_RotateGrant ::
    "memoryStateStore \<Rightarrow> string \<Rightarrow> string \<Rightarrow> grantRecord \<Rightarrow> gtime \<Rightarrow> memoryStateStore \<times> go_error option" where [store_ops]:
  "mem_RotateGrant s gid expected next_rec now =
     (case ms_grants s gid of
        None \<Rightarrow> (s, Some errGrantInactive)
      | Some rec \<Rightarrow>
          let decision = grantRotationDecision rec expected now;
              s1 = (if decision = Some errGrantReplay
                    then s\<lparr>ms_grants := (ms_grants s)(gid \<mapsto> revokeGrantRecord rec now)\<rparr> else s)
          in (case decision of
                Some e \<Rightarrow> (s1, Some e)
              | None \<Rightarrow> (s1\<lparr>ms_grants := (ms_grants s1)(gid \<mapsto> next_rec)\<rparr>, None)))"

definition mem_RevokeGrant ::
    "memoryStateStore \<Rightarrow> string \<Rightarrow> gtime \<Rightarrow> memoryStateStore \<times> go_error option" where [store_ops]:
  "mem_RevokeGrant s gid now =
     (case ms_grants s gid of
        None \<Rightarrow> (s, None)
      | Some rec \<Rightarrow> (s\<lparr>ms_grants := (ms_grants s)(gid \<mapsto> revokeGrantRecord rec now)\<rparr>, None))"

definition mem_RevokeGrantIfSecret ::
    "memoryStateStore \<Rightarrow> string \<Rightarrow> string \<Rightarrow> gtime \<Rightarrow> memoryStateStore \<times> (go_error + bool)" where [store_ops]:
  "mem_RevokeGrantIfSecret s gid expected now =
     (case ms_grants s gid of
        None \<Rightarrow> (s, Inr False)
      | Some rec \<Rightarrow>
          if \<not> grantRevokePossessed rec expected then (s, Inr False)
          else (s\<lparr>ms_grants := (ms_grants s)(gid \<mapsto> revokeGrantRecord rec now)\<rparr>, Inr True))"

subsection \<open>The interface and its contract\<close>

record 's oauthStateStore =
  PutAuthorizationState :: "'s \<Rightarrow> string \<Rightarrow> authorizationStateRecord \<Rightarrow> 's \<times> go_error option"
  GetAuthorizationState :: "'s \<Rightarrow> string \<Rightarrow> go_error + authorizationStateRecord"
  UseAuthorizationState :: "'s \<Rightarrow> string \<Rightarrow> gtime \<Rightarrow> 's \<times> (go_error + authorizationStateRecord)"
  PutCode :: "'s \<Rightarrow> string \<Rightarrow> codeRecord \<Rightarrow> 's \<times> go_error option"
  GetCode :: "'s \<Rightarrow> string \<Rightarrow> go_error + codeRecord"
  RedeemCode :: "'s \<Rightarrow> string \<Rightarrow> gtime \<Rightarrow> grantRecord \<Rightarrow> 's \<times> go_error option"
  GetGrant :: "'s \<Rightarrow> string \<Rightarrow> go_error + grantRecord"
  RotateGrant :: "'s \<Rightarrow> string \<Rightarrow> string \<Rightarrow> grantRecord \<Rightarrow> gtime \<Rightarrow> 's \<times> go_error option"
  RevokeGrant :: "'s \<Rightarrow> string \<Rightarrow> gtime \<Rightarrow> 's \<times> go_error option"
  RevokeGrantIfSecret :: "'s \<Rightarrow> string \<Rightarrow> string \<Rightarrow> gtime \<Rightarrow> 's \<times> (go_error + bool)"

definition memory_store :: "memoryStateStore oauthStateStore" where
  "memory_store =
     \<lparr>PutAuthorizationState = mem_PutAuthorizationState, GetAuthorizationState = mem_GetAuthorizationState,
      UseAuthorizationState = mem_UseAuthorizationState, PutCode = mem_PutCode, GetCode = mem_GetCode,
      RedeemCode = mem_RedeemCode, GetGrant = mem_GetGrant, RotateGrant = mem_RotateGrant,
      RevokeGrant = mem_RevokeGrant, RevokeGrantIfSecret = mem_RevokeGrantIfSecret\<rparr>"

text \<open>
  The effects an operation may have on the three tables, as relations between the tables before
  and after. Revoking a family that has no record leaves no record, or (the merging write of the
  Firestore adapter) a record that holds nothing but the revocation.
\<close>

definition revoked_family :: "memoryStateStore \<Rightarrow> string \<Rightarrow> gtime \<Rightarrow> memoryStateStore \<Rightarrow> bool" where
  "revoked_family db F now db' =
     (case ms_grants db F of
        Some g \<Rightarrow> db' = db\<lparr>ms_grants := (ms_grants db)(F \<mapsto> revokeGrantRecord g now)\<rparr>
      | None \<Rightarrow> db' = db \<or> db' = db\<lparr>ms_grants := (ms_grants db)(F \<mapsto> revokeGrantRecord zero_grantRecord now)\<rparr>)"

definition revoked_existing :: "memoryStateStore \<Rightarrow> string \<Rightarrow> gtime \<Rightarrow> memoryStateStore \<Rightarrow> bool" where
  "revoked_existing db F now db' =
     (\<exists>g. ms_grants db F = Some g \<and> db' = db\<lparr>ms_grants := (ms_grants db)(F \<mapsto> revokeGrantRecord g now)\<rparr>)"

definition redeemed :: "memoryStateStore \<Rightarrow> string \<Rightarrow> gtime \<Rightarrow> grantRecord \<Rightarrow> memoryStateStore \<Rightarrow> bool" where
  "redeemed db key now g db' =
     (\<exists>rec. ms_codes db key = Some rec \<and> codeRedemptionDecision rec now = None \<and>
        db' = db\<lparr>ms_codes := (ms_codes db)(key \<mapsto> rec\<lparr>c_Status := ''used'', c_UsedAt := now\<rparr>),
                  ms_grants := (ms_grants db)(c_FamilyID rec \<mapsto> g)\<rparr>)"

definition redeem_replayed :: "memoryStateStore \<Rightarrow> string \<Rightarrow> gtime \<Rightarrow> memoryStateStore \<Rightarrow> bool" where
  "redeem_replayed db key now db' =
     (\<exists>rec. ms_codes db key = Some rec \<and> codeRedemptionDecision rec now = Some errCodeReplay \<and>
        revoked_family db (c_FamilyID rec) now db')"

definition rotated :: "memoryStateStore \<Rightarrow> string \<Rightarrow> string \<Rightarrow> grantRecord \<Rightarrow> gtime \<Rightarrow> memoryStateStore \<Rightarrow> bool" where
  "rotated db F expected next_rec now db' =
     (\<exists>cur. ms_grants db F = Some cur \<and> grantRotationDecision cur expected now = None \<and>
        db' = db\<lparr>ms_grants := (ms_grants db)(F \<mapsto> next_rec)\<rparr>)"

definition rotate_replayed :: "memoryStateStore \<Rightarrow> string \<Rightarrow> string \<Rightarrow> gtime \<Rightarrow> memoryStateStore \<Rightarrow> bool" where
  "rotate_replayed db F expected now db' =
     (\<exists>cur. ms_grants db F = Some cur \<and> grantRotationDecision cur expected now = Some errGrantReplay \<and>
        db' = db\<lparr>ms_grants := (ms_grants db)(F \<mapsto> revokeGrantRecord cur now)\<rparr>)"

definition revoked_possessed :: "memoryStateStore \<Rightarrow> string \<Rightarrow> string \<Rightarrow> gtime \<Rightarrow> memoryStateStore \<Rightarrow> bool" where
  "revoked_possessed db F expected now db' =
     (\<exists>cur. ms_grants db F = Some cur \<and> grantRevokePossessed cur expected \<and>
        db' = db\<lparr>ms_grants := (ms_grants db)(F \<mapsto> revokeGrantRecord cur now)\<rparr>)"

definition state_used :: "memoryStateStore \<Rightarrow> string \<Rightarrow> gtime \<Rightarrow> memoryStateStore \<Rightarrow> bool" where
  "state_used db key now db' =
     (\<exists>rec. ms_states db key = Some rec \<and> now < as_ExpiresAt rec \<and> as_Status rec = ''active'' \<and>
        db' = db\<lparr>ms_states := (ms_states db)(key \<mapsto> rec\<lparr>as_Status := ''used'', as_UsedAt := now\<rparr>)\<rparr>)"

locale oauth_state_store =
  fixes ops :: "'s oauthStateStore"
    and view :: "'s \<Rightarrow> memoryStateStore"
  assumes get_state: "GetAuthorizationState ops s k = Inr sr \<Longrightarrow> ms_states (view s) k = Some sr"
    and get_code: "GetCode ops s k = Inr cr \<Longrightarrow> ms_codes (view s) k = Some cr"
    and get_grant: "GetGrant ops s k = Inr gr \<Longrightarrow> ms_grants (view s) k = Some gr"
    and put_state_ok: "PutAuthorizationState ops s k sr = (s', None) \<Longrightarrow>
          ms_states (view s) k = None \<and> view s' = (view s)\<lparr>ms_states := (ms_states (view s))(k \<mapsto> sr)\<rparr>"
    and put_state_err: "PutAuthorizationState ops s k sr = (s', Some e) \<Longrightarrow>
          view s' = view s \<or>
          ms_states (view s) k = None \<and> view s' = (view s)\<lparr>ms_states := (ms_states (view s))(k \<mapsto> sr)\<rparr>"
    and put_code_ok: "PutCode ops s k cr = (s', None) \<Longrightarrow>
          ms_codes (view s) k = None \<and> view s' = (view s)\<lparr>ms_codes := (ms_codes (view s))(k \<mapsto> cr)\<rparr>"
    and put_code_err: "PutCode ops s k cr = (s', Some e) \<Longrightarrow>
          view s' = view s \<or>
          ms_codes (view s) k = None \<and> view s' = (view s)\<lparr>ms_codes := (ms_codes (view s))(k \<mapsto> cr)\<rparr>"
    and use_state_ok: "UseAuthorizationState ops s k now = (s', Inr sr) \<Longrightarrow>
          state_used (view s) k now (view s') \<and> map_option as_Claims (ms_states (view s) k) = Some (as_Claims sr)"
    and use_state_err: "UseAuthorizationState ops s k now = (s', Inl e) \<Longrightarrow>
          view s' = view s \<or> state_used (view s) k now (view s')"
    and redeem_ok: "RedeemCode ops s k now g = (s', None) \<Longrightarrow> redeemed (view s) k now g (view s')"
    and redeem_replay: "RedeemCode ops s k now g = (s', Some e) \<Longrightarrow> errors_is e errCodeReplay \<Longrightarrow>
          redeem_replayed (view s) k now (view s')"
    and redeem_err: "RedeemCode ops s k now g = (s', Some e) \<Longrightarrow>
          view s' = view s \<or> redeemed (view s) k now g (view s') \<or> redeem_replayed (view s) k now (view s')"
    and rotate_ok: "RotateGrant ops s F h gr now = (s', None) \<Longrightarrow> rotated (view s) F h gr now (view s')"
    and rotate_replay: "RotateGrant ops s F h gr now = (s', Some e) \<Longrightarrow> errors_is e errGrantReplay \<Longrightarrow>
          rotate_replayed (view s) F h now (view s')"
    and rotate_err: "RotateGrant ops s F h gr now = (s', Some e) \<Longrightarrow>
          view s' = view s \<or> rotated (view s) F h gr now (view s') \<or> rotate_replayed (view s) F h now (view s')"
    and revoke_ok: "RevokeGrant ops s F now = (s', None) \<Longrightarrow>
          ms_grants (view s) F = None \<and> view s' = view s \<or> revoked_existing (view s) F now (view s')"
    and revoke_err: "RevokeGrant ops s F now = (s', Some e) \<Longrightarrow>
          view s' = view s \<or> revoked_existing (view s) F now (view s')"
    and revoke_secret_ok: "RevokeGrantIfSecret ops s F h now = (s', Inr b) \<Longrightarrow>
          (if b then revoked_possessed (view s) F h now (view s') else view s' = view s)"
    and revoke_secret_err: "RevokeGrantIfSecret ops s F h now = (s', Inl e) \<Longrightarrow>
          view s' = view s \<or> revoked_possessed (view s) F h now (view s')"

lemmas memory_store_simps = memory_store_def store_ops

lemmas effect_defs =
  revoked_family_def revoked_existing_def redeemed_def redeem_replayed_def rotated_def rotate_replayed_def
  revoked_possessed_def state_used_def

lemma sentinels_distinct [simp]:
  "\<not> errors_is errStateNotFound errCodeReplay" "\<not> errors_is errGrantInactive errGrantReplay"
  "errCodeReplay \<noteq> errStateNotFound" "errGrantReplay \<noteq> errGrantInactive"
  "errStateNotFound \<noteq> errCodeReplay" "errGrantInactive \<noteq> errGrantReplay"
  by (simp_all add: sentinel_defs)

lemma mem_RedeemCode_cases:
  assumes "mem_RedeemCode s k now g = (s', r)"
  shows "case r of None \<Rightarrow> redeemed s k now g s'
         | Some e \<Rightarrow> (if e = errCodeReplay then redeem_replayed s k now s' else e = errStateNotFound \<and> s' = s)"
proof (cases "ms_codes s k")
  case None
  then have "s' = s \<and> r = Some errStateNotFound" using assms by (simp add: mem_RedeemCode_def)
  then show ?thesis by simp
next
  case (Some rec)
  consider (ok) "codeRedemptionDecision rec now = None"
    | (replay) "codeRedemptionDecision rec now = Some errCodeReplay"
    | (expired) "codeRedemptionDecision rec now = Some errStateNotFound"
    using codeRedemptionDecision_cases [of rec now] by auto
  then show ?thesis
  proof cases
    case ok
    with Some assms have "r = None"
      and "s' = s\<lparr>ms_codes := (ms_codes s)(k \<mapsto> rec\<lparr>c_Status := ''used'', c_UsedAt := now\<rparr>),
                 ms_grants := (ms_grants s)(c_FamilyID rec \<mapsto> g)\<rparr>"
      by (simp_all add: mem_RedeemCode_def Let_def)
    with Some ok show ?thesis by (simp add: redeemed_def)
  next
    case replay
    with Some assms have "r = Some errCodeReplay"
      and "s' = (case ms_grants s (c_FamilyID rec) of
                   Some g \<Rightarrow> s\<lparr>ms_grants := (ms_grants s)(c_FamilyID rec \<mapsto> revokeGrantRecord g now)\<rparr> | None \<Rightarrow> s)"
      by (simp_all add: mem_RedeemCode_def Let_def)
    with Some replay show ?thesis
      by (cases "ms_grants s (c_FamilyID rec)") (simp_all add: redeem_replayed_def revoked_family_def)
  next
    case expired
    with Some assms have "r = Some errStateNotFound" and "s' = s"
      by (simp_all add: mem_RedeemCode_def Let_def)
    then show ?thesis by simp
  qed
qed

lemma mem_RotateGrant_cases:
  assumes "mem_RotateGrant s F h nx now = (s', r)"
  shows "case r of None \<Rightarrow> rotated s F h nx now s'
         | Some e \<Rightarrow> (if e = errGrantReplay then rotate_replayed s F h now s' else e = errGrantInactive \<and> s' = s)"
proof (cases "ms_grants s F")
  case None
  then have "s' = s \<and> r = Some errGrantInactive" using assms by (simp add: mem_RotateGrant_def)
  then show ?thesis by simp
next
  case (Some cur)
  consider (ok) "grantRotationDecision cur h now = None"
    | (replay) "grantRotationDecision cur h now = Some errGrantReplay"
    | (inactive) "grantRotationDecision cur h now = Some errGrantInactive"
    using grantRotationDecision_cases [of cur h now] by auto
  then show ?thesis
  proof cases
    case ok
    with Some assms have "r = None" and "s' = s\<lparr>ms_grants := (ms_grants s)(F \<mapsto> nx)\<rparr>"
      by (simp_all add: mem_RotateGrant_def Let_def)
    with Some ok show ?thesis by (simp add: rotated_def)
  next
    case replay
    with Some assms have "r = Some errGrantReplay"
      and "s' = s\<lparr>ms_grants := (ms_grants s)(F \<mapsto> revokeGrantRecord cur now)\<rparr>"
      by (simp_all add: mem_RotateGrant_def Let_def)
    with Some replay show ?thesis by (simp add: rotate_replayed_def)
  next
    case inactive
    with Some assms have "r = Some errGrantInactive" and "s' = s"
      by (simp_all add: mem_RotateGrant_def Let_def)
    then show ?thesis by simp
  qed
qed

interpretation mem: oauth_state_store memory_store "\<lambda>s. s"
proof (unfold_locales, goal_cases)
  case (10 s k now g s')
  then show ?case using mem_RedeemCode_cases [of s k now g s' None] by (simp add: memory_store_def)
next
  case (11 s k now g s' e)
  then show ?case using mem_RedeemCode_cases [of s k now g s' "Some e"]
    by (auto simp: memory_store_def split: if_splits)
next
  case (12 s k now g s' e)
  then show ?case using mem_RedeemCode_cases [of s k now g s' "Some e"]
    by (auto simp: memory_store_def split: if_splits)
next
  case (13 s F h gr now s')
  then show ?case using mem_RotateGrant_cases [of s F h gr now s' None] by (simp add: memory_store_def)
next
  case (14 s F h gr now s' e)
  then show ?case using mem_RotateGrant_cases [of s F h gr now s' "Some e"]
    by (auto simp: memory_store_def split: if_splits)
next
  case (15 s F h gr now s' e)
  then show ?case using mem_RotateGrant_cases [of s F h gr now s' "Some e"]
    by (auto simp: memory_store_def split: if_splits)
qed (auto simp: memory_store_simps effect_defs Let_def split: option.splits if_splits)

end
