(* ===== verification/Oauth_Firestore.thy ===== *)
theory Oauth_Firestore
  imports Oauth_Store
begin

text \<open>
  The Firestore adapter (\<open>internal/authsrv/firestore_store.go\<close>). The Firestore client library
  is not part of the repository: it is the record \<open>fs_client\<close> of the calls the adapter makes,
  and \<open>firestore_client\<close> states the documented behaviour of the calls it relies on: reads see the
  committed documents, \<open>Create\<close> fails on a document that exists, \<open>Update\<close> on one that does not,
  a transaction commits all of its writes or none, and a failed commit may still have happened.
  Each transaction body is the code's closure: a function from what the transaction reads to the
  writes it stages, or to an error that aborts it.
\<close>

subsection \<open>Documents, reads and writes\<close>

datatype fs_value = FStr string | FInt int | FTime gtime

datatype fs_ref = StateRef string | CodeRef string | GrantRef string

datatype fs_write =
    FsUpdate fs_ref "(string \<times> fs_value) list"
  | FsMerge fs_ref "(string \<times> fs_value) list"
  | FsCreateGrant string grantRecord
  | FsSetGrant string grantRecord

datatype 'r fs_read = FsNotFound | FsFail go_error | FsDoc "go_error + 'r"

record 'd fs_client =
  fs_get_state :: "'d \<Rightarrow> string \<Rightarrow> authorizationStateRecord fs_read"
  fs_get_code :: "'d \<Rightarrow> string \<Rightarrow> codeRecord fs_read"
  fs_get_grant :: "'d \<Rightarrow> string \<Rightarrow> grantRecord fs_read"
  fs_create_state :: "'d \<Rightarrow> string \<Rightarrow> authorizationStateRecord \<Rightarrow> 'd \<times> go_error option"
  fs_create_code :: "'d \<Rightarrow> string \<Rightarrow> codeRecord \<Rightarrow> 'd \<times> go_error option"
  fs_stage :: "'d \<Rightarrow> fs_write \<Rightarrow> go_error option"
  fs_commit :: "'d \<Rightarrow> fs_write list \<Rightarrow> 'd \<times> go_error option"

subsection \<open>The transaction bodies\<close>

text \<open>
  A body stages its writes one by one; staging can fail, which aborts the transaction with the
  wrapped error. \<open>stage_all\<close> goes through the writes with the message of each.
\<close>

fun stage_all :: "('d, 'e) fs_client_scheme \<Rightarrow> 'd \<Rightarrow> (string \<times> fs_write) list \<Rightarrow> go_error + fs_write list" where
  "stage_all c d [] = Inr []"
| "stage_all c d ((msg, w) # ws) =
     (case fs_stage c d w of
        Some e \<Rightarrow> Inl (Wrap msg [e])
      | None \<Rightarrow> (case stage_all c d ws of Inl e \<Rightarrow> Inl e | Inr ws' \<Rightarrow> Inr (w # ws')))"

declare stage_all.simps [simp del]

definition use_state_tx ::
    "('d, 'e) fs_client_scheme \<Rightarrow> 'd \<Rightarrow> string \<Rightarrow> gtime \<Rightarrow> (go_error + fs_write list) \<times> authorizationStateRecord option" where
  "use_state_tx c d key now =
     (case fs_get_state c d key of
        FsNotFound \<Rightarrow> (Inl errStateNotFound, None)
      | FsFail e \<Rightarrow> (Inl (Wrap ''reading OAuth authorization state in transaction'' [e]), None)
      | FsDoc (Inl e) \<Rightarrow> (Inl (Wrap ''decoding OAuth authorization state in transaction'' [e]), None)
      | FsDoc (Inr rec) \<Rightarrow>
          if \<not> now < as_ExpiresAt rec then (Inl errBlobExpired, Some rec)
          else if as_Status rec \<noteq> ''active'' then (Inl errStateReplay, Some rec)
          else (stage_all c d [(''marking OAuth authorization state used'',
                  FsUpdate (StateRef key) [(''status'', FStr ''used''), (''used_at'', FTime now)])], Some rec))"

definition redeem_tx ::
    "('d, 'e) fs_client_scheme \<Rightarrow> 'd \<Rightarrow> string \<Rightarrow> gtime \<Rightarrow> grantRecord \<Rightarrow> (go_error + fs_write list) \<times> bool" where
  "redeem_tx c d key now grant =
     (case fs_get_code c d key of
        FsNotFound \<Rightarrow> (Inl errStateNotFound, False)
      | FsFail e \<Rightarrow> (Inl (Wrap ''reading OAuth authorization code in transaction'' [e]), False)
      | FsDoc (Inl e) \<Rightarrow> (Inl (Wrap ''decoding OAuth authorization code in transaction'' [e]), False)
      | FsDoc (Inr rec) \<Rightarrow>
          (let decision = codeRedemptionDecision rec now in
           if decision = Some errCodeReplay
           then (stage_all c d [(''revoking replayed OAuth grant'',
                   FsMerge (GrantRef (c_FamilyID rec)) [(''status'', FStr ''revoked''), (''updated_at'', FTime now)])], True)
           else (case decision of
                   Some e \<Rightarrow> (Inl e, False)
                 | None \<Rightarrow>
                     (stage_all c d
                        [(''marking OAuth authorization code used'',
                           FsUpdate (CodeRef key) [(''status'', FStr ''used''), (''used_at'', FTime now)]),
                         (''creating OAuth grant'', FsCreateGrant (c_FamilyID rec) grant)], False))))"

definition rotate_tx ::
    "('d, 'e) fs_client_scheme \<Rightarrow> 'd \<Rightarrow> string \<Rightarrow> string \<Rightarrow> grantRecord \<Rightarrow> gtime \<Rightarrow> (go_error + fs_write list) \<times> bool" where
  "rotate_tx c d gid expected next_rec now =
     (case fs_get_grant c d gid of
        FsNotFound \<Rightarrow> (Inl errGrantInactive, False)
      | FsFail e \<Rightarrow> (Inl (Wrap ''reading OAuth grant in transaction'' [e]), False)
      | FsDoc (Inl e) \<Rightarrow> (Inl (Wrap ''decoding OAuth grant in transaction'' [e]), False)
      | FsDoc (Inr current) \<Rightarrow>
          (let decision = grantRotationDecision current expected now in
           if decision = Some errGrantReplay
           then (stage_all c d [(''revoking replayed OAuth grant'',
                   FsUpdate (GrantRef gid) [(''status'', FStr ''revoked''), (''updated_at'', FTime now)])], True)
           else (case decision of
                   Some e \<Rightarrow> (Inl e, False)
                 | None \<Rightarrow> (stage_all c d [(''rotating OAuth grant'', FsSetGrant gid next_rec)], False))))"

definition revoke_tx :: "('d, 'e) fs_client_scheme \<Rightarrow> 'd \<Rightarrow> string \<Rightarrow> gtime \<Rightarrow> go_error + fs_write list" where
  "revoke_tx c d gid now =
     (case fs_get_grant c d gid of
        FsNotFound \<Rightarrow> Inr []
      | FsFail e \<Rightarrow> Inl (Wrap ''reading OAuth grant for revocation'' [e])
      | FsDoc _ \<Rightarrow>
          stage_all c d [(''revoking OAuth grant'',
            FsUpdate (GrantRef gid) [(''status'', FStr ''revoked''), (''updated_at'', FTime now)])])"

definition revoke_if_secret_tx ::
    "('d, 'e) fs_client_scheme \<Rightarrow> 'd \<Rightarrow> string \<Rightarrow> string \<Rightarrow> gtime \<Rightarrow> (go_error + fs_write list) \<times> bool" where
  "revoke_if_secret_tx c d gid expected now =
     (case fs_get_grant c d gid of
        FsNotFound \<Rightarrow> (Inr [], False)
      | FsFail e \<Rightarrow> (Inl (Wrap ''reading OAuth grant for conditional revocation'' [e]), False)
      | FsDoc (Inl e) \<Rightarrow> (Inl (Wrap ''decoding OAuth grant for conditional revocation'' [e]), False)
      | FsDoc (Inr current) \<Rightarrow>
          if \<not> grantRevokePossessed current expected then (Inr [], False)
          else (stage_all c d [(''revoking possessed OAuth grant'',
                  FsUpdate (GrantRef gid) [(''status'', FStr ''revoked''), (''updated_at'', FTime now)])], True))"

text \<open>\<open>RunTransaction\<close>: the body's error aborts, otherwise the staged writes are committed.\<close>

definition run_transaction ::
    "('d, 'e) fs_client_scheme \<Rightarrow> 'd \<Rightarrow> go_error + fs_write list \<Rightarrow> 'd \<times> go_error option" where
  "run_transaction c d body =
     (case body of Inl e \<Rightarrow> (d, Some e) | Inr ws \<Rightarrow> fs_commit c d ws)"

subsection \<open>The operations\<close>

definition fs_PutAuthorizationState ::
    "('d, 'e) fs_client_scheme \<Rightarrow> 'd \<Rightarrow> string \<Rightarrow> authorizationStateRecord \<Rightarrow> 'd \<times> go_error option" where
  "fs_PutAuthorizationState c d key rec =
     (case fs_create_state c d key rec of
        (d', Some e) \<Rightarrow> (d', Some (Wrap ''creating OAuth authorization state'' [e])) | (d', None) \<Rightarrow> (d', None))"

definition fs_GetAuthorizationState ::
    "('d, 'e) fs_client_scheme \<Rightarrow> 'd \<Rightarrow> string \<Rightarrow> go_error + authorizationStateRecord" where
  "fs_GetAuthorizationState c d key =
     (case fs_get_state c d key of
        FsNotFound \<Rightarrow> Inl errStateNotFound
      | FsFail e \<Rightarrow> Inl (Wrap ''reading OAuth authorization state'' [e])
      | FsDoc (Inl e) \<Rightarrow> Inl (Wrap ''decoding OAuth authorization state'' [e])
      | FsDoc (Inr rec) \<Rightarrow> Inr rec)"

definition fs_UseAuthorizationState ::
    "('d, 'e) fs_client_scheme \<Rightarrow> 'd \<Rightarrow> string \<Rightarrow> gtime \<Rightarrow> 'd \<times> (go_error + authorizationStateRecord)" where
  "fs_UseAuthorizationState c d key now =
     (let (body, rec) = use_state_tx c d key now in
      case run_transaction c d body of
        (d', Some e) \<Rightarrow> (d', Inl (Wrap ''consuming OAuth authorization state'' [e]))
      | (d', None) \<Rightarrow> (d', Inr (case rec of Some r \<Rightarrow> r | None \<Rightarrow> zero_authorizationStateRecord)))"

definition fs_PutCode ::
    "('d, 'e) fs_client_scheme \<Rightarrow> 'd \<Rightarrow> string \<Rightarrow> codeRecord \<Rightarrow> 'd \<times> go_error option" where
  "fs_PutCode c d key rec =
     (case fs_create_code c d key rec of
        (d', Some e) \<Rightarrow> (d', Some (Wrap ''creating OAuth authorization code'' [e])) | (d', None) \<Rightarrow> (d', None))"

definition fs_GetCode :: "('d, 'e) fs_client_scheme \<Rightarrow> 'd \<Rightarrow> string \<Rightarrow> go_error + codeRecord" where
  "fs_GetCode c d key =
     (case fs_get_code c d key of
        FsNotFound \<Rightarrow> Inl errStateNotFound
      | FsFail e \<Rightarrow> Inl (Wrap ''reading OAuth authorization code'' [e])
      | FsDoc (Inl e) \<Rightarrow> Inl (Wrap ''decoding OAuth authorization code'' [e])
      | FsDoc (Inr rec) \<Rightarrow> Inr rec)"

definition fs_RedeemCode ::
    "('d, 'e) fs_client_scheme \<Rightarrow> 'd \<Rightarrow> string \<Rightarrow> gtime \<Rightarrow> grantRecord \<Rightarrow> 'd \<times> go_error option" where
  "fs_RedeemCode c d key now grant =
     (let (body, replayed) = redeem_tx c d key now grant in
      case run_transaction c d body of
        (d', Some e) \<Rightarrow> (d', Some (Wrap ''redeeming OAuth authorization code'' [e]))
      | (d', None) \<Rightarrow> (d', if replayed then Some errCodeReplay else None))"

definition corruptGrantError :: "go_error \<Rightarrow> go_error" where
  "corruptGrantError e = Wrap ''corrupt grant'' [errStateNotFound, errGrantCorrupt, e]"

definition fs_GetGrant :: "('d, 'e) fs_client_scheme \<Rightarrow> 'd \<Rightarrow> string \<Rightarrow> go_error + grantRecord" where
  "fs_GetGrant c d gid =
     (case fs_get_grant c d gid of
        FsNotFound \<Rightarrow> Inl errStateNotFound
      | FsFail e \<Rightarrow> Inl (Wrap ''reading OAuth grant'' [e])
      | FsDoc (Inl e) \<Rightarrow> Inl (corruptGrantError e)
      | FsDoc (Inr rec) \<Rightarrow> Inr rec)"

definition fs_RotateGrant ::
    "('d, 'e) fs_client_scheme \<Rightarrow> 'd \<Rightarrow> string \<Rightarrow> string \<Rightarrow> grantRecord \<Rightarrow> gtime \<Rightarrow> 'd \<times> go_error option" where
  "fs_RotateGrant c d gid expected next_rec now =
     (let (body, replayed) = rotate_tx c d gid expected next_rec now in
      case run_transaction c d body of
        (d', Some e) \<Rightarrow> (d', Some (Wrap ''rotating OAuth refresh token'' [e]))
      | (d', None) \<Rightarrow> (d', if replayed then Some errGrantReplay else None))"

definition fs_RevokeGrant :: "('d, 'e) fs_client_scheme \<Rightarrow> 'd \<Rightarrow> string \<Rightarrow> gtime \<Rightarrow> 'd \<times> go_error option" where
  "fs_RevokeGrant c d gid now =
     (case run_transaction c d (revoke_tx c d gid now) of
        (d', Some e) \<Rightarrow> (d', Some (Wrap ''running OAuth grant revocation transaction'' [e]))
      | (d', None) \<Rightarrow> (d', None))"

definition fs_RevokeGrantIfSecret ::
    "('d, 'e) fs_client_scheme \<Rightarrow> 'd \<Rightarrow> string \<Rightarrow> string \<Rightarrow> gtime \<Rightarrow> 'd \<times> (go_error + bool)" where
  "fs_RevokeGrantIfSecret c d gid expected now =
     (let (body, revoked) = revoke_if_secret_tx c d gid expected now in
      case run_transaction c d body of
        (d', Some e) \<Rightarrow> (d', Inl (Wrap ''running conditional OAuth grant revocation transaction'' [e]))
      | (d', None) \<Rightarrow> (d', Inr revoked))"

definition firestore_store :: "('d, 'e) fs_client_scheme \<Rightarrow> 'd oauthStateStore" where
  "firestore_store c =
     \<lparr>PutAuthorizationState = fs_PutAuthorizationState c, GetAuthorizationState = fs_GetAuthorizationState c,
      UseAuthorizationState = fs_UseAuthorizationState c, PutCode = fs_PutCode c, GetCode = fs_GetCode c,
      RedeemCode = fs_RedeemCode c, GetGrant = fs_GetGrant c, RotateGrant = fs_RotateGrant c,
      RevokeGrant = fs_RevokeGrant c, RevokeGrantIfSecret = fs_RevokeGrantIfSecret c\<rparr>"

subsection \<open>The documented behaviour of the client\<close>

text \<open>
  How the fields of a document are those of the records: the \<open>firestore\<close> struct tags of
  \<open>store.go\<close>, for the fields the adapter updates.
\<close>

fun state_field :: "authorizationStateRecord \<Rightarrow> string \<times> fs_value \<Rightarrow> authorizationStateRecord" where
  "state_field r (f, FStr v) = (if f = ''status'' then r\<lparr>as_Status := v\<rparr> else r)"
| "state_field r (f, FTime t) = (if f = ''used_at'' then r\<lparr>as_UsedAt := t\<rparr> else r)"
| "state_field r (f, FInt _) = r"

fun code_field :: "codeRecord \<Rightarrow> string \<times> fs_value \<Rightarrow> codeRecord" where
  "code_field r (f, FStr v) = (if f = ''status'' then r\<lparr>c_Status := v\<rparr> else r)"
| "code_field r (f, FTime t) = (if f = ''used_at'' then r\<lparr>c_UsedAt := t\<rparr> else r)"
| "code_field r (f, FInt _) = r"

fun grant_field :: "grantRecord \<Rightarrow> string \<times> fs_value \<Rightarrow> grantRecord" where
  "grant_field r (f, FStr v) = (if f = ''status'' then r\<lparr>g_Status := v\<rparr> else r)"
| "grant_field r (f, FTime t) = (if f = ''updated_at'' then r\<lparr>g_UpdatedAt := t\<rparr> else r)"
| "grant_field r (f, FInt _) = r"

text \<open>
  What committing one write does to the tables; \<open>None\<close> is a failed precondition. A merge into a
  missing document creates one with the merged fields only, which reads back with zero values.
\<close>

fun apply_write :: "memoryStateStore \<Rightarrow> fs_write \<Rightarrow> memoryStateStore option" where
  "apply_write db (FsUpdate (StateRef k) fs) =
     (case ms_states db k of None \<Rightarrow> None
      | Some r \<Rightarrow> Some (db\<lparr>ms_states := (ms_states db)(k \<mapsto> foldl state_field r fs)\<rparr>))"
| "apply_write db (FsUpdate (CodeRef k) fs) =
     (case ms_codes db k of None \<Rightarrow> None
      | Some r \<Rightarrow> Some (db\<lparr>ms_codes := (ms_codes db)(k \<mapsto> foldl code_field r fs)\<rparr>))"
| "apply_write db (FsUpdate (GrantRef k) fs) =
     (case ms_grants db k of None \<Rightarrow> None
      | Some r \<Rightarrow> Some (db\<lparr>ms_grants := (ms_grants db)(k \<mapsto> foldl grant_field r fs)\<rparr>))"
| "apply_write db (FsMerge (GrantRef k) fs) =
     Some (db\<lparr>ms_grants := (ms_grants db)
       (k \<mapsto> foldl grant_field (case ms_grants db k of None \<Rightarrow> zero_grantRecord | Some r \<Rightarrow> r) fs)\<rparr>)"
| "apply_write db (FsMerge _ fs) = None"
| "apply_write db (FsCreateGrant k g) =
     (case ms_grants db k of None \<Rightarrow> Some (db\<lparr>ms_grants := (ms_grants db)(k \<mapsto> g)\<rparr>) | Some _ \<Rightarrow> None)"
| "apply_write db (FsSetGrant k g) = Some (db\<lparr>ms_grants := (ms_grants db)(k \<mapsto> g)\<rparr>)"

fun apply_writes :: "memoryStateStore \<Rightarrow> fs_write list \<Rightarrow> memoryStateStore option" where
  "apply_writes db [] = Some db"
| "apply_writes db (w # ws) =
     (case apply_write db w of None \<Rightarrow> None | Some db' \<Rightarrow> apply_writes db' ws)"

locale firestore_client =
  fixes c :: "'d fs_client"
    and docs :: "'d \<Rightarrow> memoryStateStore"
  assumes read_state: "fs_get_state c d k = FsDoc (Inr sr) \<Longrightarrow> ms_states (docs d) k = Some sr"
    and read_code: "fs_get_code c d k = FsDoc (Inr cr) \<Longrightarrow> ms_codes (docs d) k = Some cr"
    and read_grant: "fs_get_grant c d k = FsDoc (Inr gr) \<Longrightarrow> ms_grants (docs d) k = Some gr"
    and missing_grant: "fs_get_grant c d k = FsNotFound \<Longrightarrow> ms_grants (docs d) k = None"
    and read_foreign:
      "fs_get_state c d k = FsFail e \<or> fs_get_state c d k = FsDoc (Inl e) \<Longrightarrow> foreign_error e"
      "fs_get_code c d k = FsFail e \<or> fs_get_code c d k = FsDoc (Inl e) \<Longrightarrow> foreign_error e"
      "fs_get_grant c d k = FsFail e \<or> fs_get_grant c d k = FsDoc (Inl e) \<Longrightarrow> foreign_error e"
    and create_state_ok: "fs_create_state c d k sr = (d', None) \<Longrightarrow>
      ms_states (docs d) k = None \<and> docs d' = (docs d)\<lparr>ms_states := (ms_states (docs d))(k \<mapsto> sr)\<rparr>"
    and create_state_err: "fs_create_state c d k sr = (d', Some e) \<Longrightarrow> docs d' = docs d \<or>
      ms_states (docs d) k = None \<and> docs d' = (docs d)\<lparr>ms_states := (ms_states (docs d))(k \<mapsto> sr)\<rparr>"
    and create_code_ok: "fs_create_code c d k cr = (d', None) \<Longrightarrow>
      ms_codes (docs d) k = None \<and> docs d' = (docs d)\<lparr>ms_codes := (ms_codes (docs d))(k \<mapsto> cr)\<rparr>"
    and create_code_err: "fs_create_code c d k cr = (d', Some e) \<Longrightarrow> docs d' = docs d \<or>
      ms_codes (docs d) k = None \<and> docs d' = (docs d)\<lparr>ms_codes := (ms_codes (docs d))(k \<mapsto> cr)\<rparr>"
    and stage_foreign: "fs_stage c d w = Some e \<Longrightarrow> foreign_error e"
    and commit_ok: "fs_commit c d ws = (d', None) \<Longrightarrow> apply_writes (docs d) ws = Some (docs d')"
    and commit_err: "fs_commit c d ws = (d', Some e) \<Longrightarrow>
      foreign_error e \<and> (docs d' = docs d \<or> apply_writes (docs d) ws = Some (docs d'))"
begin

lemma stage_all_ok: "stage_all c d ws = Inr ws' \<Longrightarrow> ws' = map snd ws"
  by (induction ws arbitrary: ws') (auto simp: stage_all.simps split: option.splits sum.splits)

lemma stage_all_err: "stage_all c d ws = Inl e \<Longrightarrow> foreign_error e"
  by (induction ws arbitrary: e)
     (auto simp: stage_all.simps split: option.splits sum.splits intro: foreign_Wrap [OF stage_foreign])

text \<open>
  What a transaction can do, given its staged writes: it commits them and reports success, or it
  reports an error, after which they may be committed nevertheless.
\<close>

lemma run_staged_ok:
  assumes "run_transaction c d (stage_all c d ws) = (d', None)"
  shows "apply_writes (docs d) (map snd ws) = Some (docs d')"
  using assms commit_ok stage_all_ok
  by (auto simp: run_transaction_def split: sum.splits)

lemma run_staged_err:
  assumes "run_transaction c d (stage_all c d ws) = (d', Some e)"
  shows "foreign_error e \<and> (docs d' = docs d \<or> apply_writes (docs d) (map snd ws) = Some (docs d'))"
proof (cases "stage_all c d ws")
  case (Inl e')
  with assms stage_all_err show ?thesis by (simp add: run_transaction_def)
next
  case (Inr ws')
  with assms have "fs_commit c d ws' = (d', Some e)" by (simp add: run_transaction_def)
  with commit_err stage_all_ok [OF Inr] show ?thesis by blast
qed

text \<open>What a transaction body can be, by what it read.\<close>

lemma redeem_tx_cases:
  assumes "redeem_tx c d k now g = (body, replayed)"
  obtains (err) e where "body = Inl e" "\<not> errors_is e errCodeReplay"
  | (replay) rec where "ms_codes (docs d) k = Some rec" "codeRedemptionDecision rec now = Some errCodeReplay"
      "replayed" "body = stage_all c d [(''revoking replayed OAuth grant'',
         FsMerge (GrantRef (c_FamilyID rec)) [(''status'', FStr ''revoked''), (''updated_at'', FTime now)])]"
  | (ok) rec where "ms_codes (docs d) k = Some rec" "codeRedemptionDecision rec now = None"
      "\<not> replayed" "body = stage_all c d
         [(''marking OAuth authorization code used'',
           FsUpdate (CodeRef k) [(''status'', FStr ''used''), (''used_at'', FTime now)]),
          (''creating OAuth grant'', FsCreateGrant (c_FamilyID rec) g)]"
proof (cases "fs_get_code c d k")
  case FsNotFound
  with assms show ?thesis by (intro err [of errStateNotFound]) (simp_all add: redeem_tx_def)
next
  case (FsFail e)
  then have "foreign_error e" using read_foreign by blast
  with FsFail assms show ?thesis
    using foreign_WrapD(3) [of e] by (intro err [of "Wrap ''reading OAuth authorization code in transaction'' [e]"])
      (simp_all add: redeem_tx_def del: errors_is.simps)
next
  case (FsDoc x)
  show ?thesis
  proof (cases x)
    case (Inl e)
    then have "foreign_error e" using read_foreign FsDoc by blast
    with FsDoc Inl assms show ?thesis
      using foreign_WrapD(3) [of e] by (intro err [of "Wrap ''decoding OAuth authorization code in transaction'' [e]"])
      (simp_all add: redeem_tx_def del: errors_is.simps)
  next
    case (Inr rec)
    with FsDoc have rec: "ms_codes (docs d) k = Some rec" using read_code by simp
    consider (a) "codeRedemptionDecision rec now = None"
      | (b) "codeRedemptionDecision rec now = Some errCodeReplay"
      | (c) "codeRedemptionDecision rec now = Some errStateNotFound"
      using codeRedemptionDecision_cases [of rec now] by auto
    then show ?thesis
    proof cases
      case a
      with FsDoc Inr assms rec show ?thesis by (intro ok) (auto simp: redeem_tx_def Let_def)
    next
      case b
      with FsDoc Inr assms rec show ?thesis by (intro replay) (auto simp: redeem_tx_def Let_def)
    next
      case c
      with FsDoc Inr assms show ?thesis
        by (intro err [of errStateNotFound]) (simp_all add: redeem_tx_def Let_def)
    qed
  qed
qed

lemma rotate_tx_cases:
  assumes "rotate_tx c d F h nx now = (body, replayed)"
  obtains (err) e where "body = Inl e" "\<not> errors_is e errGrantReplay"
  | (replay) cur where "ms_grants (docs d) F = Some cur" "grantRotationDecision cur h now = Some errGrantReplay"
      "replayed" "body = stage_all c d [(''revoking replayed OAuth grant'',
         FsUpdate (GrantRef F) [(''status'', FStr ''revoked''), (''updated_at'', FTime now)])]"
  | (ok) cur where "ms_grants (docs d) F = Some cur" "grantRotationDecision cur h now = None"
      "\<not> replayed" "body = stage_all c d [(''rotating OAuth grant'', FsSetGrant F nx)]"
proof (cases "fs_get_grant c d F")
  case FsNotFound
  with assms show ?thesis by (intro err [of errGrantInactive]) (simp_all add: rotate_tx_def)
next
  case (FsFail e)
  then have "foreign_error e" using read_foreign by blast
  with FsFail assms show ?thesis
    using foreign_WrapD(4) [of e] by (intro err [of "Wrap ''reading OAuth grant in transaction'' [e]"])
      (simp_all add: rotate_tx_def del: errors_is.simps)
next
  case (FsDoc x)
  show ?thesis
  proof (cases x)
    case (Inl e)
    then have "foreign_error e" using read_foreign FsDoc by blast
    with FsDoc Inl assms show ?thesis
      using foreign_WrapD(4) [of e] by (intro err [of "Wrap ''decoding OAuth grant in transaction'' [e]"])
      (simp_all add: rotate_tx_def del: errors_is.simps)
  next
    case (Inr cur)
    with FsDoc have cur: "ms_grants (docs d) F = Some cur" using read_grant by simp
    consider (a) "grantRotationDecision cur h now = None"
      | (b) "grantRotationDecision cur h now = Some errGrantReplay"
      | (c) "grantRotationDecision cur h now = Some errGrantInactive"
      using grantRotationDecision_cases [of cur h now] by auto
    then show ?thesis
    proof cases
      case a
      with FsDoc Inr assms cur show ?thesis by (intro ok) (auto simp: rotate_tx_def Let_def)
    next
      case b
      with FsDoc Inr assms cur show ?thesis by (intro replay) (auto simp: rotate_tx_def Let_def)
    next
      case c
      with FsDoc Inr assms show ?thesis
        by (intro err [of errGrantInactive]) (simp_all add: rotate_tx_def Let_def)
    qed
  qed
qed

text \<open>The effects of the writes each transaction stages.\<close>

lemma redeem_replay_writes:
  assumes "ms_codes db k = Some rec" "codeRedemptionDecision rec now = Some errCodeReplay"
    "apply_writes db [FsMerge (GrantRef (c_FamilyID rec)) [(''status'', FStr ''revoked''), (''updated_at'', FTime now)]] = Some db'"
  shows "redeem_replayed db k now db'"
  using assms
  by (cases "ms_grants db (c_FamilyID rec)")
     (auto simp: redeem_replayed_def revoked_family_def revokeGrantRecord_def)

lemma redeem_ok_writes:
  assumes "ms_codes db k = Some rec" "codeRedemptionDecision rec now = None"
    "apply_writes db [FsUpdate (CodeRef k) [(''status'', FStr ''used''), (''used_at'', FTime now)],
                      FsCreateGrant (c_FamilyID rec) g] = Some db'"
  shows "redeemed db k now g db'"
  using assms by (auto simp: redeemed_def split: option.splits)

lemma grant_revoke_writes:
  assumes "ms_grants db F = Some cur"
  shows "apply_writes db [FsUpdate (GrantRef F) [(''status'', FStr ''revoked''), (''updated_at'', FTime now)]]
           = Some (db\<lparr>ms_grants := (ms_grants db)(F \<mapsto> revokeGrantRecord cur now)\<rparr>)"
  using assms by (simp add: revokeGrantRecord_def)

lemma state_used_writes:
  assumes "ms_states db k = Some rec" "now < as_ExpiresAt rec" "as_Status rec = ''active''"
    "apply_writes db [FsUpdate (StateRef k) [(''status'', FStr ''used''), (''used_at'', FTime now)]] = Some db'"
  shows "state_used db k now db'"
  using assms by (auto simp: state_used_def)

lemma run_transaction_Inl [simp]: "run_transaction c d (Inl e) = (d, Some e)"
  by (simp add: run_transaction_def)

lemma fs_RedeemCode_cases:
  assumes "fs_RedeemCode c d k now g = (d', r)"
  shows "case r of None \<Rightarrow> redeemed (docs d) k now g (docs d')
         | Some e \<Rightarrow> (errors_is e errCodeReplay \<longrightarrow> redeem_replayed (docs d) k now (docs d')) \<and>
             (docs d' = docs d \<or> redeemed (docs d) k now g (docs d') \<or> redeem_replayed (docs d) k now (docs d'))"
proof -
  obtain body replayed where tx: "redeem_tx c d k now g = (body, replayed)" by force
  obtain d1 r1 where run: "run_transaction c d body = (d1, r1)" by force
  have d': "d' = d1" and r: "r = (case r1 of Some e \<Rightarrow> Some (Wrap ''redeeming OAuth authorization code'' [e])
      | None \<Rightarrow> if replayed then Some errCodeReplay else None)"
    using assms tx run by (auto simp: fs_RedeemCode_def split: option.splits)
  from tx show ?thesis
  proof (cases rule: redeem_tx_cases)
    case (err e)
    with run have "d1 = d" "r1 = Some e" by simp_all
    with err r d' show ?thesis by (simp add: errCodeReplay_def)
  next
    case (replay rec)
    show ?thesis
    proof (cases r1)
      case None
      with run replay(4) have "apply_writes (docs d) [FsMerge (GrantRef (c_FamilyID rec))
          [(''status'', FStr ''revoked''), (''updated_at'', FTime now)]] = Some (docs d')"
        using run_staged_ok d' by fastforce
      with redeem_replay_writes replay(1,2) have "redeem_replayed (docs d) k now (docs d')" by blast
      with r None replay(3) show ?thesis by simp
    next
      case (Some e)
      with run replay(4) have "foreign_error e" and eff: "docs d' = docs d \<or> apply_writes (docs d)
          [FsMerge (GrantRef (c_FamilyID rec)) [(''status'', FStr ''revoked''), (''updated_at'', FTime now)]] = Some (docs d')"
        using run_staged_err d' by fastforce+
      from \<open>foreign_error e\<close> have "\<not> errors_is (Wrap ''redeeming OAuth authorization code'' [e]) errCodeReplay"
        by (rule foreign_WrapD)
      moreover have "docs d' = docs d \<or> redeem_replayed (docs d) k now (docs d')"
        using eff redeem_replay_writes replay(1,2) by blast
      ultimately show ?thesis using r Some by (simp del: errors_is.simps) blast
    qed
  next
    case (ok rec)
    show ?thesis
    proof (cases r1)
      case None
      with run ok(4) have "apply_writes (docs d) [FsUpdate (CodeRef k) [(''status'', FStr ''used''), (''used_at'', FTime now)],
                      FsCreateGrant (c_FamilyID rec) g] = Some (docs d')"
        using run_staged_ok d' by fastforce
      with redeem_ok_writes ok(1,2) have "redeemed (docs d) k now g (docs d')" by blast
      with r None ok(3) show ?thesis by simp
    next
      case (Some e)
      with run ok(4) have "foreign_error e" and eff: "docs d' = docs d \<or> apply_writes (docs d)
          [FsUpdate (CodeRef k) [(''status'', FStr ''used''), (''used_at'', FTime now)],
           FsCreateGrant (c_FamilyID rec) g] = Some (docs d')"
        using run_staged_err d' by fastforce+
      from \<open>foreign_error e\<close> have "\<not> errors_is (Wrap ''redeeming OAuth authorization code'' [e]) errCodeReplay"
        by (rule foreign_WrapD)
      moreover have "docs d' = docs d \<or> redeemed (docs d) k now g (docs d')"
        using eff redeem_ok_writes ok(1,2) by blast
      ultimately show ?thesis using r Some by (simp del: errors_is.simps) blast
    qed
  qed
qed

lemma fs_RotateGrant_cases:
  assumes "fs_RotateGrant c d F h nx now = (d', r)"
  shows "case r of None \<Rightarrow> rotated (docs d) F h nx now (docs d')
         | Some e \<Rightarrow> (errors_is e errGrantReplay \<longrightarrow> rotate_replayed (docs d) F h now (docs d')) \<and>
             (docs d' = docs d \<or> rotated (docs d) F h nx now (docs d') \<or> rotate_replayed (docs d) F h now (docs d'))"
proof -
  obtain body replayed where tx: "rotate_tx c d F h nx now = (body, replayed)" by force
  obtain d1 r1 where run: "run_transaction c d body = (d1, r1)" by force
  have d': "d' = d1" and r: "r = (case r1 of Some e \<Rightarrow> Some (Wrap ''rotating OAuth refresh token'' [e])
      | None \<Rightarrow> if replayed then Some errGrantReplay else None)"
    using assms tx run by (auto simp: fs_RotateGrant_def split: option.splits)
  from tx show ?thesis
  proof (cases rule: rotate_tx_cases)
    case (err e)
    with run have "d1 = d" "r1 = Some e" by simp_all
    with err r d' show ?thesis by (simp add: errGrantReplay_def)
  next
    case (replay cur)
    let ?ws = "[FsUpdate (GrantRef F) [(''status'', FStr ''revoked''), (''updated_at'', FTime now)]]"
    have eff: "rotate_replayed (docs d) F h now (docs d')" if "apply_writes (docs d) ?ws = Some (docs d')"
      using that grant_revoke_writes [OF replay(1)] replay(1,2) by (simp add: rotate_replayed_def)
    show ?thesis
    proof (cases r1)
      case None
      with run replay(4) have "apply_writes (docs d) ?ws = Some (docs d')"
        using run_staged_ok d' by fastforce
      with eff r None replay(3) show ?thesis by simp
    next
      case (Some e)
      with run replay(4) have "foreign_error e" and "docs d' = docs d \<or> apply_writes (docs d) ?ws = Some (docs d')"
        using run_staged_err d' by fastforce+
      then show ?thesis using eff foreign_WrapD(4) r Some by (simp del: errors_is.simps) blast
    qed
  next
    case (ok cur)
    have eff: "rotated (docs d) F h nx now (docs d')" if "apply_writes (docs d) [FsSetGrant F nx] = Some (docs d')"
      using that ok(1,2) by (simp add: rotated_def)
    show ?thesis
    proof (cases r1)
      case None
      with run ok(4) have "apply_writes (docs d) [FsSetGrant F nx] = Some (docs d')"
        using run_staged_ok d' by fastforce
      with eff r None ok(3) show ?thesis by simp
    next
      case (Some e)
      with run ok(4) have "foreign_error e"
        and "docs d' = docs d \<or> apply_writes (docs d) [FsSetGrant F nx] = Some (docs d')"
        using run_staged_err d' by fastforce+
      then show ?thesis using eff foreign_WrapD(4) r Some by (simp del: errors_is.simps) blast
    qed
  qed
qed

text \<open>
  A revocation updates the document its transaction read. The document may be one that does not
  decode; the tables then do not say what it holds, and a successful update of it is a
  successful update of the entry \<open>docs\<close> gives it.
\<close>

lemma fs_RevokeGrant_cases:
  assumes "fs_RevokeGrant c d F now = (d', r)"
  shows "case r of
           None \<Rightarrow> ms_grants (docs d) F = None \<and> docs d' = docs d \<or> revoked_existing (docs d) F now (docs d')
         | Some e \<Rightarrow> docs d' = docs d \<or> revoked_existing (docs d) F now (docs d')"
proof -
  let ?ws = "[(''revoking OAuth grant'', FsUpdate (GrantRef F) [(''status'', FStr ''revoked''), (''updated_at'', FTime now)])]"
  have eff: "revoked_existing (docs d) F now (docs d')"
    if "apply_writes (docs d) (map snd ?ws) = Some (docs d')"
    using that by (auto simp: revoked_existing_def revokeGrantRecord_def split: option.splits)
  show ?thesis
  proof (cases "fs_get_grant c d F")
    case FsNotFound
    with assms have fc: "r \<noteq> None \<Longrightarrow> \<exists>e. fs_commit c d [] = (d', Some e)" "r = None \<Longrightarrow> fs_commit c d [] = (d', None)"
      by (auto simp: fs_RevokeGrant_def revoke_tx_def run_transaction_def split: prod.splits option.splits)
    then have "docs d' = docs d" using commit_ok commit_err by (cases "r = None") fastforce+
    with missing_grant [OF FsNotFound] show ?thesis by (simp split: option.splits)
  next
    case (FsFail e)
    with assms show ?thesis by (auto simp: fs_RevokeGrant_def revoke_tx_def)
  next
    case (FsDoc x)
    then have tx: "revoke_tx c d F now = stage_all c d ?ws" by (simp add: revoke_tx_def)
    obtain d1 r1 where run: "run_transaction c d (stage_all c d ?ws) = (d1, r1)" by force
    show ?thesis
    proof (cases r1)
      case None
      with run tx assms have "r = None" "d' = d1" by (auto simp: fs_RevokeGrant_def)
      moreover from this run None have "apply_writes (docs d) (map snd ?ws) = Some (docs d')"
        using run_staged_ok by blast
      ultimately show ?thesis using eff by auto
    next
      case (Some e)
      with run tx assms have "r \<noteq> None" "d' = d1" by (auto simp: fs_RevokeGrant_def)
      moreover from this run Some have "docs d' = docs d \<or> apply_writes (docs d) (map snd ?ws) = Some (docs d')"
        using run_staged_err by blast
      ultimately show ?thesis using eff by auto
    qed
  qed
qed

lemma fs_RevokeGrantIfSecret_cases:
  assumes "fs_RevokeGrantIfSecret c d F h now = (d', r)"
  shows "case r of Inr b \<Rightarrow> (if b then revoked_possessed (docs d) F h now (docs d') else docs d' = docs d)
         | Inl e \<Rightarrow> docs d' = docs d \<or> revoked_possessed (docs d) F h now (docs d')"
proof -
  let ?ws = "[(''revoking possessed OAuth grant'', FsUpdate (GrantRef F) [(''status'', FStr ''revoked''), (''updated_at'', FTime now)])]"
  show ?thesis
  proof (cases "\<exists>cur. fs_get_grant c d F = FsDoc (Inr cur) \<and> grantRevokePossessed cur h")
    case True
    then obtain cur where cur: "fs_get_grant c d F = FsDoc (Inr cur)" "grantRevokePossessed cur h" by blast
    then have g: "ms_grants (docs d) F = Some cur" using read_grant by blast
    have tx: "revoke_if_secret_tx c d F h now = (stage_all c d ?ws, True)"
      using cur by (simp add: revoke_if_secret_tx_def)
    have eff: "revoked_possessed (docs d) F h now (docs d')" if "apply_writes (docs d) (map snd ?ws) = Some (docs d')"
      using that grant_revoke_writes [OF g] g cur(2) by (simp add: revoked_possessed_def)
    obtain d1 r1 where run: "run_transaction c d (stage_all c d ?ws) = (d1, r1)" by force
    show ?thesis
    proof (cases r1)
      case None
      with run tx assms have "r = Inr True" "d' = d1" by (auto simp: fs_RevokeGrantIfSecret_def)
      moreover from this run None have "apply_writes (docs d) (map snd ?ws) = Some (docs d')"
        using run_staged_ok by blast
      ultimately show ?thesis using eff by simp
    next
      case (Some e)
      with run tx assms have "\<exists>e'. r = Inl e'" "d' = d1" by (auto simp: fs_RevokeGrantIfSecret_def)
      moreover from this run Some have "docs d' = docs d \<or> apply_writes (docs d) (map snd ?ws) = Some (docs d')"
        using run_staged_err by blast
      ultimately show ?thesis using eff by auto
    qed
  next
    case False
    obtain body b where tx: "revoke_if_secret_tx c d F h now = (body, b)" by force
    with False have "\<not> b" and "(\<exists>e. body = Inl e) \<or> body = Inr []"
      by (auto simp: revoke_if_secret_tx_def split: fs_read.splits sum.splits if_splits)
    moreover have "docs d1 = docs d" if "fs_commit c d [] = (d1, x)" for d1 x
      using that commit_ok [of d "[]"] commit_err [of d "[]"] by (cases x) fastforce+
    ultimately show ?thesis using assms tx
      by (auto simp: fs_RevokeGrantIfSecret_def run_transaction_def [of c d "Inr []"] split: prod.splits option.splits)
  qed
qed

lemma fs_UseAuthorizationState_cases:
  assumes "fs_UseAuthorizationState c d k now = (d', r)"
  shows "case r of
           Inr sr \<Rightarrow> state_used (docs d) k now (docs d') \<and> map_option as_Claims (ms_states (docs d) k) = Some (as_Claims sr)
         | Inl e \<Rightarrow> docs d' = docs d \<or> state_used (docs d) k now (docs d')"
proof -
  let ?ws = "[(''marking OAuth authorization state used'',
                  FsUpdate (StateRef k) [(''status'', FStr ''used''), (''used_at'', FTime now)])]"
  show ?thesis
  proof (cases "\<exists>rec. fs_get_state c d k = FsDoc (Inr rec) \<and> now < as_ExpiresAt rec \<and> as_Status rec = ''active''")
    case True
    then obtain rec where rec: "fs_get_state c d k = FsDoc (Inr rec)" "now < as_ExpiresAt rec" "as_Status rec = ''active''"
      by blast
    then have s: "ms_states (docs d) k = Some rec" using read_state by blast
    have tx: "use_state_tx c d k now = (stage_all c d ?ws, Some rec)"
      using rec by (simp add: use_state_tx_def)
    obtain d1 r1 where run: "run_transaction c d (stage_all c d ?ws) = (d1, r1)" by force
    show ?thesis
    proof (cases r1)
      case None
      with run tx assms have "r = Inr rec" "d' = d1" by (auto simp: fs_UseAuthorizationState_def)
      moreover from this run None have "apply_writes (docs d) (map snd ?ws) = Some (docs d')"
        using run_staged_ok by blast
      ultimately show ?thesis using state_used_writes [OF s rec(2,3)] s by simp
    next
      case (Some e)
      with run tx assms have "\<exists>e'. r = Inl e'" "d' = d1" by (auto simp: fs_UseAuthorizationState_def)
      moreover from this run Some have "docs d' = docs d \<or> apply_writes (docs d) (map snd ?ws) = Some (docs d')"
        using run_staged_err by blast
      ultimately show ?thesis using state_used_writes [OF s rec(2,3)] by auto
    qed
  next
    case False
    then have "\<exists>e x. use_state_tx c d k now = (Inl e, x)"
      by (auto simp: use_state_tx_def split: fs_read.splits sum.splits)
    then obtain e x where "use_state_tx c d k now = (Inl e, x)" by blast
    with assms show ?thesis by (auto simp: fs_UseAuthorizationState_def)
  qed
qed

end

text \<open>
  Every Firestore client with the documented behaviour makes the adapter satisfy the contract of
  the state store.
\<close>

sublocale firestore_client \<subseteq> fs: oauth_state_store "firestore_store c" docs
proof (unfold_locales, goal_cases)
  case (10 s k now g s')
  then show ?case using fs_RedeemCode_cases [of s k now g s' None] by (simp add: firestore_store_def)
next
  case (11 s k now g s' e)
  then show ?case using fs_RedeemCode_cases [of s k now g s' "Some e"] by (simp add: firestore_store_def)
next
  case (12 s k now g s' e)
  then show ?case using fs_RedeemCode_cases [of s k now g s' "Some e"] by (simp add: firestore_store_def)
next
  case (13 s F h gr now s')
  then show ?case using fs_RotateGrant_cases [of s F h gr now s' None] by (simp add: firestore_store_def)
next
  case (14 s F h gr now s' e)
  then show ?case using fs_RotateGrant_cases [of s F h gr now s' "Some e"] by (simp add: firestore_store_def)
next
  case (15 s F h gr now s' e)
  then show ?case using fs_RotateGrant_cases [of s F h gr now s' "Some e"] by (simp add: firestore_store_def)
next
  case (8 s k now s' sr)
  then show ?case using fs_UseAuthorizationState_cases [of s k now s' "Inr sr"] by (simp add: firestore_store_def)
next
  case (9 s k now s' e)
  then show ?case using fs_UseAuthorizationState_cases [of s k now s' "Inl e"] by (simp add: firestore_store_def)
next
  case (16 s F now s')
  then show ?case using fs_RevokeGrant_cases [of s F now s' None] by (simp add: firestore_store_def)
next
  case (17 s F now s' e)
  then show ?case using fs_RevokeGrant_cases [of s F now s' "Some e"] by (simp add: firestore_store_def)
next
  case (18 s F h now s' b)
  then show ?case using fs_RevokeGrantIfSecret_cases [of s F h now s' "Inr b"] by (simp add: firestore_store_def)
next
  case (19 s F h now s' e)
  then show ?case using fs_RevokeGrantIfSecret_cases [of s F h now s' "Inl e"] by (simp add: firestore_store_def)
qed (auto simp: firestore_store_def fs_GetAuthorizationState_def fs_GetCode_def fs_GetGrant_def
       fs_PutAuthorizationState_def fs_PutCode_def
       split: fs_read.splits sum.splits prod.splits option.splits
       dest: read_state read_code read_grant create_state_ok create_state_err create_code_ok create_code_err)

subsection \<open>A client with that behaviour\<close>

text \<open>
  The documents themselves as the database, every commit applied or refused as a whole: the
  documented behaviour, without outages.
\<close>

definition reference_client :: "memoryStateStore fs_client" where
  "reference_client =
     \<lparr>fs_get_state = (\<lambda>d k. case ms_states d k of None \<Rightarrow> FsNotFound | Some r \<Rightarrow> FsDoc (Inr r)),
      fs_get_code = (\<lambda>d k. case ms_codes d k of None \<Rightarrow> FsNotFound | Some r \<Rightarrow> FsDoc (Inr r)),
      fs_get_grant = (\<lambda>d k. case ms_grants d k of None \<Rightarrow> FsNotFound | Some r \<Rightarrow> FsDoc (Inr r)),
      fs_create_state = (\<lambda>d k r. case ms_states d k of
         None \<Rightarrow> (d\<lparr>ms_states := (ms_states d)(k \<mapsto> r)\<rparr>, None) | Some _ \<Rightarrow> (d, Some (Sentinel ''already exists''))),
      fs_create_code = (\<lambda>d k r. case ms_codes d k of
         None \<Rightarrow> (d\<lparr>ms_codes := (ms_codes d)(k \<mapsto> r)\<rparr>, None) | Some _ \<Rightarrow> (d, Some (Sentinel ''already exists''))),
      fs_stage = (\<lambda>d w. None),
      fs_commit = (\<lambda>d ws. case apply_writes d ws of
         None \<Rightarrow> (d, Some (Sentinel ''precondition failed'')) | Some d' \<Rightarrow> (d', None))\<rparr>"

lemma foreign_precondition: "foreign_error (Sentinel ''precondition failed'')"
  by (rule foreign_Sentinel) simp

interpretation ref_client: firestore_client reference_client "\<lambda>d. d"
  by unfold_locales
     (auto simp: reference_client_def foreign_precondition split: option.splits)

end
