(* ===== verification/Go_Strings.thy ===== *)
theory Go_Strings
  imports Obs_Prelude
begin

text \<open>
  The functions of Go's \<open>strings\<close> and \<open>encoding/base64\<close> packages the program calls. A Go string
  is a sequence of bytes, here a \<open>string\<close> (a list of 8-bit characters), so \<open>length\<close> is Go's
  \<open>len\<close>. \<open>ToLower\<close> and \<open>EqualFold\<close> are given on ASCII letters; bytes above 127 are left alone,
  where Go maps whole Unicode code points.
\<close>

subsection \<open>Prefixes, cutting, searching\<close>

fun cut_prefix :: "string \<Rightarrow> string \<Rightarrow> string option" where
  "cut_prefix s [] = Some s"
| "cut_prefix [] (p # ps) = None"
| "cut_prefix (c # cs) (p # ps) = (if c = p then cut_prefix cs ps else None)"

definition has_prefix :: "string \<Rightarrow> string \<Rightarrow> bool" where
  "has_prefix s p = (cut_prefix s p \<noteq> None)"

lemma cut_prefix_append [simp]: "cut_prefix (p @ s) p = Some s"
  by (induction p) auto

lemma cut_prefix_Some_iff: "cut_prefix s p = Some r \<longleftrightarrow> s = p @ r"
  by (induction s p rule: cut_prefix.induct) auto

lemma has_prefix_append [simp]: "has_prefix (p @ s) p"
  by (simp add: has_prefix_def)

text \<open>\<open>strings.Cut\<close> at a one-byte separator: the first one splits the string.\<close>

fun cut_char :: "char \<Rightarrow> string \<Rightarrow> (string \<times> string) option" where
  "cut_char c [] = None"
| "cut_char c (x # xs) =
     (if x = c then Some ([], xs)
      else (case cut_char c xs of None \<Rightarrow> None | Some (a, b) \<Rightarrow> Some (x # a, b)))"

lemma cut_char_append: "c \<notin> set a \<Longrightarrow> cut_char c (a @ c # b) = Some (a, b)"
  by (induction a) auto

lemma cut_char_SomeD: "cut_char c s = Some (a, b) \<Longrightarrow> s = a @ c # b \<and> c \<notin> set a"
proof (induction s arbitrary: a)
  case (Cons x xs)
  show ?case
  proof (cases "x = c")
    case False
    with Cons.prems obtain a' where "cut_char c xs = Some (a', b)" "a = x # a'"
      by (simp split: option.split_asm prod.split_asm)
    with Cons.IH [of a'] False show ?thesis by simp
  qed (use Cons.prems in simp)
qed simp

lemma cut_char_Some_iff: "cut_char c s = Some (a, b) \<longleftrightarrow> s = a @ c # b \<and> c \<notin> set a"
  using cut_char_append cut_char_SomeD by metis

lemma cut_char_None_iff: "cut_char c s = None \<longleftrightarrow> c \<notin> set s"
  by (induction s) (auto split: option.splits)

text \<open>\<open>strings.TrimRight(s, c)\<close> for a one-byte cutset.\<close>

definition trim_right :: "char \<Rightarrow> string \<Rightarrow> string" where
  "trim_right c s = rev (dropWhile (\<lambda>x. x = c) (rev s))"

lemma trim_right_last: "trim_right c s = [] \<or> last (trim_right c s) \<noteq> c"
proof (cases "dropWhile (\<lambda>x. x = c) (rev s)")
  case Nil
  then show ?thesis by (simp add: trim_right_def)
next
  case (Cons a list)
  then have "a \<noteq> c" by (simp add: dropWhile_eq_Cons_conv)
  with Cons show ?thesis by (simp add: trim_right_def)
qed

lemma trim_right_id: "s = [] \<or> last s \<noteq> c \<Longrightarrow> trim_right c s = s"
  by (cases s rule: rev_cases) (auto simp: trim_right_def)

lemma trim_right_idem [simp]: "trim_right c (trim_right c s) = trim_right c s"
  by (rule trim_right_id) (rule trim_right_last)

text \<open>\<open>strings.Contains\<close>, \<open>strings.HasPrefix\<close> at every position.\<close>

fun contains :: "string \<Rightarrow> string \<Rightarrow> bool" where
  "contains [] p = (p = [])"
| "contains (c # cs) p = (has_prefix (c # cs) p \<or> contains cs p)"

lemma contains_iff: "contains s p \<longleftrightarrow> (\<exists>a b. s = a @ p @ b)"
proof (induction s)
  case Nil
  then show ?case by auto
next
  case (Cons c cs)
  note IH = Cons.IH
  show ?case
  proof
    assume "contains (c # cs) p"
    then show "\<exists>a b. c # cs = a @ p @ b"
    proof (cases "has_prefix (c # cs) p")
      case True
      then obtain r where "c # cs = [] @ p @ r" by (auto simp: has_prefix_def cut_prefix_Some_iff)
      then show ?thesis by blast
    next
      case False
      with \<open>contains (c # cs) p\<close> obtain a b where "cs = a @ p @ b" using Cons by auto
      then have "c # cs = (c # a) @ p @ b" by simp
      then show ?thesis by blast
    qed
  next
    assume "\<exists>a b. c # cs = a @ p @ b"
    then obtain a b where eq: "c # cs = a @ p @ b" by blast
    show "contains (c # cs) p"
    proof (cases a)
      case Nil
      with eq have "has_prefix (c # cs) p" by simp
      then show ?thesis by simp
    next
      case (Cons d as)
      with eq have "cs = as @ p @ b" by simp
      then have "contains cs p" using IH by blast
      then show ?thesis by simp
    qed
  qed
qed

lemma contains_empty [simp]: "contains s []"
  by (auto simp: contains_iff)

text \<open>\<open>strings.LastIndex\<close> of a one-byte substring, as the text after it.\<close>

definition after_last :: "char \<Rightarrow> string \<Rightarrow> string option" where
  "after_last c s = (if c \<in> set s then Some (rev (takeWhile (\<lambda>x. x \<noteq> c) (rev s))) else None)"

lemma after_last_append: "c \<notin> set b \<Longrightarrow> after_last c (a @ c # b) = Some b"
  by (simp add: after_last_def) (subst takeWhile_append2, auto)

subsection \<open>Letter case\<close>

definition to_lower_char :: "char \<Rightarrow> char" where
  "to_lower_char c =
     (if 65 \<le> (of_char c :: nat) \<and> (of_char c :: nat) \<le> 90 then char_of ((of_char c :: nat) + 32) else c)"

definition to_lower :: "string \<Rightarrow> string" where
  "to_lower s = map to_lower_char s"

definition equal_fold :: "string \<Rightarrow> string \<Rightarrow> bool" where
  "equal_fold a b = (to_lower a = to_lower b)"

lemma to_lower_char_idem [simp]: "to_lower_char (to_lower_char c) = to_lower_char c"
  by (simp add: to_lower_char_def)

lemma to_lower_idem [simp]: "to_lower (to_lower s) = to_lower s"
  by (simp add: to_lower_def)

lemma equal_fold_refl [simp]: "equal_fold a a"
  by (simp add: equal_fold_def)

lemma equal_fold_sym: "equal_fold a b \<longleftrightarrow> equal_fold b a"
  by (auto simp: equal_fold_def)

subsection \<open>Splitting and joining\<close>

definition is_space :: "char \<Rightarrow> bool" where
  "is_space c = (c \<in> {CHR '' '', CHR 0x09, CHR 0x0A, CHR 0x0B, CHR 0x0C, CHR 0x0D})"

text \<open>\<open>strings.Fields\<close>: the maximal runs of non-space bytes.\<close>

fun fields_acc :: "string \<Rightarrow> string \<Rightarrow> string list" where
  "fields_acc acc [] = (if acc = [] then [] else [rev acc])"
| "fields_acc acc (c # cs) =
     (if is_space c then (if acc = [] then fields_acc [] cs else rev acc # fields_acc [] cs)
      else fields_acc (c # acc) cs)"

definition fields :: "string \<Rightarrow> string list" where
  "fields s = fields_acc [] s"

fun join :: "string \<Rightarrow> string list \<Rightarrow> string" where
  "join sep [] = []"
| "join sep [x] = x"
| "join sep (x # y # ys) = x @ sep @ join sep (y # ys)"

lemma fields_acc_run: "(\<forall>c \<in> set w. \<not> is_space c) \<Longrightarrow> fields_acc acc (w @ s) = fields_acc (rev w @ acc) s"
  by (induction w arbitrary: acc) auto

lemma fields_acc_word:
  "w \<noteq> [] \<Longrightarrow> (\<forall>c \<in> set w. \<not> is_space c) \<Longrightarrow> fields_acc [] (w @ '' '' @ s) = w # fields_acc [] s"
  using fields_acc_run [of w "[]" "'' '' @ s"] by (simp add: is_space_def)

lemma fields_acc_last_word:
  "w \<noteq> [] \<Longrightarrow> (\<forall>c \<in> set w. \<not> is_space c) \<Longrightarrow> fields_acc [] w = [w]"
  using fields_acc_run [of w "[]" "[]"] by simp

lemma fields_join:
  "(\<forall>w \<in> set ws. w \<noteq> [] \<and> (\<forall>c \<in> set w. \<not> is_space c)) \<Longrightarrow> fields (join '' '' ws) = ws"
proof (induction ws)
  case Nil
  then show ?case by (simp add: fields_def)
next
  case (Cons x ys)
  then have x: "x \<noteq> []" "\<forall>c \<in> set x. \<not> is_space c" and IH: "fields (join '' '' ys) = ys" by auto
  show ?case
  proof (cases ys)
    case Nil
    with x show ?thesis by (simp add: fields_def fields_acc_last_word)
  next
    case (Cons y zs)
    have "fields_acc [] (x @ '' '' @ join '' '' ys) = x # fields_acc [] (join '' '' ys)"
      using x by (rule fields_acc_word)
    with IH Cons show ?thesis by (simp add: fields_def)
  qed
qed

end
