(* ===== verification/Go_Base64.thy ===== *)
theory Go_Base64
  imports Go_Strings
begin

text \<open>
  Go's \<open>encoding/base64\<close>, the four encodings the program uses: \<open>StdEncoding\<close> and
  \<open>URLEncoding\<close>, padded or raw. The decoder skips carriage returns and line feeds, and is not
  strict: the unused low bits of the last character are ignored. The encoder and the decoder are
  executable; the round trip is \<open>b64_decode_encode\<close>.
\<close>

record b64_encoding =
  b64_url :: bool
  b64_padded :: bool

definition StdEncoding :: b64_encoding where "StdEncoding = \<lparr>b64_url = False, b64_padded = True\<rparr>"
definition RawStdEncoding :: b64_encoding where "RawStdEncoding = \<lparr>b64_url = False, b64_padded = False\<rparr>"
definition URLEncoding :: b64_encoding where "URLEncoding = \<lparr>b64_url = True, b64_padded = True\<rparr>"
definition RawURLEncoding :: b64_encoding where "RawURLEncoding = \<lparr>b64_url = True, b64_padded = False\<rparr>"

lemmas b64_encodings = StdEncoding_def RawStdEncoding_def URLEncoding_def RawURLEncoding_def

subsection \<open>The alphabet\<close>

definition b64_char :: "bool \<Rightarrow> nat \<Rightarrow> char" where
  "b64_char url n =
     (if n < 26 then char_of (65 + n)
      else if n < 52 then char_of (97 + (n - 26))
      else if n < 62 then char_of (48 + (n - 52))
      else if n = 62 then (if url then CHR ''-'' else CHR ''+'')
      else (if url then CHR ''_'' else CHR ''/''))"

definition b64_val :: "bool \<Rightarrow> char \<Rightarrow> nat option" where
  "b64_val url c =
     (let n = (of_char c :: nat) in
      if 65 \<le> n \<and> n \<le> 90 then Some (n - 65)
      else if 97 \<le> n \<and> n \<le> 122 then Some (n - 97 + 26)
      else if 48 \<le> n \<and> n \<le> 57 then Some (n - 48 + 52)
      else if c = (if url then CHR ''-'' else CHR ''+'') then Some 62
      else if c = (if url then CHR ''_'' else CHR ''/'') then Some 63
      else None)"

lemma b64_val_char [simp]: "n < 64 \<Longrightarrow> b64_val url (b64_char url n) = Some n"
proof -
  assume "n < 64"
  then consider "n < 26" | "26 \<le> n" "n < 52" | "52 \<le> n" "n < 62" | "n = 62" | "n = 63" by linarith
  then show ?thesis
    by cases (auto simp: b64_char_def b64_val_def Let_def)
qed

definition is_newline :: "char \<Rightarrow> bool" where
  "is_newline c = (c = CHR 0x0A \<or> c = CHR 0x0D)"

lemma b64_char_code:
  "of_char (b64_char url n) \<in> {45, 43, 95, 47 :: nat} \<union> {48..57} \<union> {65..90} \<union> {97..122}"
  by (auto simp: b64_char_def of_char_of)

lemma b64_char_neq [simp]:
  "b64_char url n \<noteq> CHR ''.''" "b64_char url n \<noteq> CHR 0x0A" "b64_char url n \<noteq> CHR 0x0D"
  using b64_char_code [of url n] by auto

subsection \<open>Encoding\<close>

abbreviation byte :: "char \<Rightarrow> nat" where "byte \<equiv> of_char"

fun b64_encode :: "b64_encoding \<Rightarrow> string \<Rightarrow> string" where
  "b64_encode e [] = []"
| "b64_encode e [a] =
     [b64_char (b64_url e) (byte a div 4), b64_char (b64_url e) (byte a mod 4 * 16)]
     @ (if b64_padded e then ''=='' else [])"
| "b64_encode e [a, b] =
     [b64_char (b64_url e) (byte a div 4),
      b64_char (b64_url e) (byte a mod 4 * 16 + byte b div 16),
      b64_char (b64_url e) (byte b mod 16 * 4)]
     @ (if b64_padded e then ''='' else [])"
| "b64_encode e (a # b # c # rest) =
     [b64_char (b64_url e) (byte a div 4),
      b64_char (b64_url e) (byte a mod 4 * 16 + byte b div 16),
      b64_char (b64_url e) (byte b mod 16 * 4 + byte c div 64),
      b64_char (b64_url e) (byte c mod 64)] @ b64_encode e rest"

subsection \<open>Decoding\<close>

definition sext3 :: "nat \<Rightarrow> nat \<Rightarrow> nat \<Rightarrow> nat \<Rightarrow> string" where
  "sext3 p q r s = [char_of (p * 4 + q div 16), char_of (q mod 16 * 16 + r div 4), char_of (r mod 4 * 64 + s)]"

definition sext2 :: "nat \<Rightarrow> nat \<Rightarrow> nat \<Rightarrow> string" where
  "sext2 p q r = [char_of (p * 4 + q div 16), char_of (q mod 16 * 16 + r div 4)]"

definition sext1 :: "nat \<Rightarrow> nat \<Rightarrow> string" where
  "sext1 p q = [char_of (p * 4 + q div 16)]"

fun b64_quanta :: "b64_encoding \<Rightarrow> string \<Rightarrow> string option" where
  "b64_quanta e [] = Some []"
| "b64_quanta e [_] = None"
| "b64_quanta e [a, b] =
     (if b64_padded e then None
      else (case (b64_val (b64_url e) a, b64_val (b64_url e) b) of
              (Some p, Some q) \<Rightarrow> Some (sext1 p q) | _ \<Rightarrow> None))"
| "b64_quanta e [a, b, c] =
     (if b64_padded e then None
      else (case (b64_val (b64_url e) a, b64_val (b64_url e) b, b64_val (b64_url e) c) of
              (Some p, Some q, Some r) \<Rightarrow> Some (sext2 p q r) | _ \<Rightarrow> None))"
| "b64_quanta e (a # b # c # d # rest) =
     (case (b64_val (b64_url e) a, b64_val (b64_url e) b) of
        (Some p, Some q) \<Rightarrow>
          (case b64_val (b64_url e) c of
             None \<Rightarrow>
               (if b64_padded e \<and> c = CHR ''='' \<and> d = CHR ''='' \<and> rest = [] then Some (sext1 p q) else None)
           | Some r \<Rightarrow>
               (case b64_val (b64_url e) d of
                  None \<Rightarrow>
                    (if b64_padded e \<and> d = CHR ''='' \<and> rest = [] then Some (sext2 p q r) else None)
                | Some s \<Rightarrow> map_option (\<lambda>bs. sext3 p q r s @ bs) (b64_quanta e rest)))
      | _ \<Rightarrow> None)"

definition b64_decode :: "b64_encoding \<Rightarrow> string \<Rightarrow> string option" where
  "b64_decode e s = b64_quanta e (filter (\<lambda>c. \<not> is_newline c) s)"

subsection \<open>Round trip\<close>

lemma char_byte_lt [simp]: "byte c < 256"
  using nat_of_char_less_256 by simp

lemma sext1_byte: "sext1 (byte a div 4) (byte a mod 4 * 16) = [a]"
proof -
  have "byte a div 4 * 4 + byte a mod 4 * 16 div 16 = byte a" by simp
  then show ?thesis by (simp add: sext1_def)
qed

lemma sext2_bytes:
  "sext2 (byte a div 4) (byte a mod 4 * 16 + byte b div 16) (byte b mod 16 * 4) = [a, b]"
proof -
  have b: "byte b div 16 < 16" using char_byte_lt [of b] by linarith
  have "byte a div 4 * 4 + (byte a mod 4 * 16 + byte b div 16) div 16 = byte a"
    using b by simp
  moreover have "(byte a mod 4 * 16 + byte b div 16) mod 16 * 16 + byte b mod 16 * 4 div 4 = byte b"
    using b by simp
  ultimately show ?thesis by (simp add: sext2_def)
qed

lemma sext3_bytes:
  "sext3 (byte a div 4) (byte a mod 4 * 16 + byte b div 16) (byte b mod 16 * 4 + byte c div 64) (byte c mod 64)
     = [a, b, c]"
proof -
  have b: "byte b div 16 < 16" using char_byte_lt [of b] by linarith
  have c: "byte c div 64 < 4" using char_byte_lt [of c] by linarith
  have "byte a div 4 * 4 + (byte a mod 4 * 16 + byte b div 16) div 16 = byte a"
    using b by simp
  moreover have "(byte a mod 4 * 16 + byte b div 16) mod 16 * 16 + (byte b mod 16 * 4 + byte c div 64) div 4 = byte b"
    using b c by simp
  moreover have "(byte b mod 16 * 4 + byte c div 64) mod 4 * 64 + byte c mod 64 = byte c"
    using c by simp
  ultimately show ?thesis by (simp add: sext3_def)
qed

lemma b64_bounds:
  "byte a div 4 < 64" "byte a mod 4 * 16 < 64" "byte a mod 4 * 16 + byte b div 16 < 64"
  "byte b mod 16 * 4 < 64" "byte b mod 16 * 4 + byte c div 64 < 64" "byte c mod 64 < 64"
proof -
  have a: "byte a div 4 \<le> 63" and b: "byte b div 16 \<le> 15" and c: "byte c div 64 \<le> 3"
    using char_byte_lt [of a] char_byte_lt [of b] char_byte_lt [of c] by linarith+
  have ma: "byte a mod 4 \<le> 3" and mb: "byte b mod 16 \<le> 15"
    using mod_less_divisor [of 4 "byte a"] mod_less_divisor [of 16 "byte b"] by linarith+
  show "byte a div 4 < 64" using a by linarith
  show "byte a mod 4 * 16 < 64" using ma by linarith
  show "byte a mod 4 * 16 + byte b div 16 < 64" using ma b by linarith
  show "byte b mod 16 * 4 < 64" using mb by linarith
  show "byte b mod 16 * 4 + byte c div 64 < 64" using mb c by linarith
  show "byte c mod 64 < 64" by simp
qed

lemma b64_val_pad [simp]: "b64_val url CHR ''='' = None"
  by (cases url) (simp_all add: b64_val_def)

lemma b64_quanta_encode: "b64_quanta e (b64_encode e bs) = Some bs"
proof (induction e bs rule: b64_encode.induct)
  case (1 e)
  then show ?case by simp
next
  case (2 e a)
  show ?case by (simp add: b64_bounds sext1_byte)
next
  case (3 e a b)
  show ?case by (simp add: b64_bounds sext2_bytes)
next
  case (4 e a b c rest)
  then show ?case by (simp add: b64_bounds sext3_bytes)
qed

lemma b64_encode_chars:
  "c \<in> set (b64_encode e bs) \<Longrightarrow> c = CHR ''='' \<or> (\<exists>n. c = b64_char (b64_url e) n)"
  by (induction e bs rule: b64_encode.induct) (auto split: if_splits)

lemma b64_encode_no_newline: "c \<in> set (b64_encode e bs) \<Longrightarrow> \<not> is_newline c"
  by (drule b64_encode_chars) (auto simp: is_newline_def)

lemma b64_decode_encode [simp]: "b64_decode e (b64_encode e bs) = Some bs"
  by (simp add: b64_decode_def filter_id_conv [THEN iffD2] b64_quanta_encode b64_encode_no_newline)

lemma b64_encode_no_dot [simp]: "CHR ''.'' \<notin> set (b64_encode e bs)"
  using b64_encode_chars [of "CHR ''.''" e bs] b64_char_neq(1) by auto (metis b64_char_neq(1))

lemma b64_encode_inj: "b64_encode e a = b64_encode e b \<Longrightarrow> a = b"
  by (metis b64_decode_encode option.inject)

lemma b64_encode_eq_iff [simp]: "b64_encode e a = b64_encode e b \<longleftrightarrow> a = b"
  using b64_encode_inj by blast

lemma b64_encode_Nil_iff [simp]: "b64_encode e bs = [] \<longleftrightarrow> bs = []"
  by (induction e bs rule: b64_encode.induct) simp_all

end
