(* ===== verification/Oauth_Seal.thy ===== *)
theory Oauth_Seal
  imports Oauth_Store Go_Base64
begin

text \<open>
  Keys, sealed blobs and signed client IDs (\<open>internal/authsrv/keys.go\<close>, \<open>seal.go\<close>,
  \<open>tokens.go\<close>, and the token helpers at the head of \<open>store.go\<close>).

  The cryptographic primitives and the JSON codec of the claims are parameters, the record
  \<open>runtime\<close>; what the program relies on is stated in \<open>aead_law\<close> (the round trip of AES-GCM) and,
  per claims value, as the round trip of its JSON encoding. Random bytes are arguments.
\<close>

subsection \<open>Claims\<close>

record stateClaims =
  sc_ClientID :: string
  sc_RedirectURI :: string
  sc_ClientState :: string
  sc_CodeChallenge :: string
  sc_Resource :: string
  sc_IssuedAt :: int

record codeClaims =
  cc_Subject :: string
  cc_Email :: string
  cc_Domain :: string
  cc_ClientID :: string
  cc_RedirectURI :: string
  cc_CodeChallenge :: string
  cc_Resource :: string
  cc_Scopes :: "string list"
  cc_GoogleAccessToken :: string
  cc_GoogleExpiry :: int
  cc_GoogleRefreshToken :: string
  cc_IssuedAt :: int

record accessClaims =
  ac_Subject :: string
  ac_Email :: string
  ac_Domain :: string
  ac_ClientID :: string
  ac_Resource :: string
  ac_FamilyID :: string
  ac_Scopes :: "string list"
  ac_GoogleAccessToken :: string
  ac_GoogleExpiry :: int
  ac_IssuedAt :: int
  ac_ExpiresAt :: int

record refreshClaims =
  rc_Subject :: string
  rc_Email :: string
  rc_Domain :: string
  rc_ClientID :: string
  rc_Resource :: string
  rc_Scopes :: "string list"
  rc_GoogleRefreshToken :: string
  rc_IssuedAt :: int

record clientIDClaims =
  ci_RedirectURIs :: "string list"
  ci_ClientName :: string
  ci_IssuedAt :: int

definition stateTTL :: duration where "stateTTL = 10 * minute"
definition codeTTL :: duration where "codeTTL = 60 * second"
definition accessTokenTTL :: duration where "accessTokenTTL = 55 * minute"

definition expired :: "int \<Rightarrow> duration \<Rightarrow> gtime \<Rightarrow> bool" where
  "expired iat ttl now = (time_unix iat + ttl < now)"

subsection \<open>The runtime: cryptography and JSON\<close>

record 'c codec =
  marshal :: "'c \<Rightarrow> string"
  unmarshal :: "string \<Rightarrow> 'c option"

record runtime =
  rt_sha256 :: "string \<Rightarrow> string"
  rt_hkdf :: "string \<Rightarrow> string \<Rightarrow> string"
  rt_seal :: "string \<Rightarrow> string \<Rightarrow> string \<Rightarrow> string \<Rightarrow> string"
  rt_open :: "string \<Rightarrow> string \<Rightarrow> string \<Rightarrow> string \<Rightarrow> string option"
  rt_hmac :: "string \<Rightarrow> string \<Rightarrow> string"
  json_state :: "stateClaims codec"
  json_code :: "codeClaims codec"
  json_access :: "accessClaims codec"
  json_refresh :: "refreshClaims codec"
  json_client :: "clientIDClaims codec"

text \<open>The nonce size of the GCM instance the program creates (the default one).\<close>

definition nonce_size :: nat where "nonce_size = 12"

text \<open>
  Opening what was sealed with the same key, nonce and additional data gives the plaintext, and
  whatever opens is what sealing its plaintext gives (GCM is deterministic and its tag is
  recomputed when opening).
\<close>

definition aead_law :: "runtime \<Rightarrow> bool" where
  "aead_law rt =
     ((\<forall>k n p a. rt_open rt k n (rt_seal rt k n p a) a = Some p) \<and>
      (\<forall>k n ct a p. rt_open rt k n ct a = Some p \<longrightarrow> ct = rt_seal rt k n p a))"

subsection \<open>Opaque values and refresh tokens\<close>

definition prefixCode :: string where "prefixCode = ''mcp_ac_v2_''"
definition prefixState :: string where "prefixState = ''mcp_state_v2_''"
definition prefixAccess :: string where "prefixAccess = ''mcp_at_v2_''"
definition prefixRefresh :: string where "prefixRefresh = ''mcp_rt_v2_''"
definition prefixClientID :: string where "prefixClientID = ''mcp_cid_v2_''"

definition randomOpaque :: "string \<Rightarrow> string" where
  "randomOpaque bytes = b64_encode RawURLEncoding bytes"

definition tokenHash :: "runtime \<Rightarrow> string \<Rightarrow> string" where
  "tokenHash rt raw = b64_encode RawURLEncoding (rt_sha256 rt raw)"

definition secretMatches :: "runtime \<Rightarrow> string \<Rightarrow> string \<Rightarrow> bool" where
  "secretMatches rt raw expected = (tokenHash rt raw = expected)"

definition makeAuthorizationCode :: "runtime \<Rightarrow> string \<Rightarrow> string \<times> string" where
  "makeAuthorizationCode rt rnd = (let raw = prefixCode @ randomOpaque rnd in (raw, tokenHash rt raw))"

definition makeRefreshToken :: "runtime \<Rightarrow> string \<Rightarrow> string \<Rightarrow> string \<times> string" where
  "makeRefreshToken rt familyID rnd =
     (let secret = randomOpaque rnd in (prefixRefresh @ familyID @ ''.'' @ secret, tokenHash rt secret))"

definition parseRefreshToken :: "string \<Rightarrow> go_error + (string \<times> string)" where
  "parseRefreshToken raw =
     (case cut_prefix raw prefixRefresh of
        None \<Rightarrow> Inl errGrantInactive
      | Some body \<Rightarrow>
          (case cut_char CHR ''.'' body of
             None \<Rightarrow> Inl errGrantInactive
           | Some (familyID, secret) \<Rightarrow>
               if familyID = [] \<or> secret = [] then Inl errGrantInactive else Inr (familyID, secret)))"

lemma parse_make_refresh:
  assumes "CHR ''.'' \<notin> set F" "F \<noteq> []" "rnd \<noteq> []"
  shows "parseRefreshToken (fst (makeRefreshToken rt F rnd)) = Inr (F, randomOpaque rnd)"
    and "snd (makeRefreshToken rt F rnd) = tokenHash rt (randomOpaque rnd)"
  using assms cut_char_append [of "CHR ''.''" F "randomOpaque rnd"]
  by (simp_all add: makeRefreshToken_def parseRefreshToken_def Let_def randomOpaque_def)

lemma parseRefreshToken_Inr:
  "parseRefreshToken raw = Inr (F, secret) \<Longrightarrow>
     raw = prefixRefresh @ F @ ''.'' @ secret \<and> F \<noteq> [] \<and> secret \<noteq> [] \<and> CHR ''.'' \<notin> set F"
  by (auto simp: parseRefreshToken_def cut_prefix_Some_iff split: option.splits if_splits
      dest!: cut_char_SomeD)

lemma randomOpaque_no_dot [simp]: "CHR ''.'' \<notin> set (randomOpaque rnd)"
  by (simp add: randomOpaque_def)

subsection \<open>The key ring\<close>

record ringKey =
  rk_id :: char
  rk_aead :: string
  rk_mac :: string

definition hkdfInfoAEAD :: string where "hkdfInfoAEAD = ''mcp-gcp-observability/authsrv/aead/v1''"
definition hkdfInfoMAC :: string where "hkdfInfoMAC = ''mcp-gcp-observability/authsrv/mac/v1''"
definition masterKeyLen :: nat where "masterKeyLen = 32"

text \<open>
  SHA-256 always returns 32 bytes, so indexing its first byte is safe; \<open>sum0\<close> is that byte.
\<close>

definition sum0 :: "string \<Rightarrow> char" where
  "sum0 s = (case s of [] \<Rightarrow> CHR 0x00 | c # _ \<Rightarrow> c)"

definition deriveRingKey :: "runtime \<Rightarrow> string \<Rightarrow> ringKey" where
  "deriveRingKey rt master =
     \<lparr>rk_id = sum0 (rt_sha256 rt master), rk_aead = rt_hkdf rt master hkdfInfoAEAD,
      rk_mac = rt_hkdf rt master hkdfInfoMAC\<rparr>"

fun decode_first :: "b64_encoding list \<Rightarrow> string \<Rightarrow> go_error + string" where
  "decode_first [] e = Inl (Sentinel ''key is not valid base64'')"
| "decode_first (enc # encs) e =
     (case b64_decode enc e of
        Some b \<Rightarrow> if length b \<noteq> masterKeyLen then Inl (Sentinel ''decoded key has the wrong length'') else Inr b
      | None \<Rightarrow> decode_first encs e)"

definition decodeMasterKey :: "string \<Rightarrow> go_error + string" where
  "decodeMasterKey e = decode_first [StdEncoding, RawStdEncoding, URLEncoding, RawURLEncoding] e"

fun build_ring :: "runtime \<Rightarrow> ringKey list \<Rightarrow> string list \<Rightarrow> go_error + ringKey list" where
  "build_ring rt ks [] = Inr ks"
| "build_ring rt ks (e # es) =
     (case decodeMasterKey e of
        Inl err \<Rightarrow> Inl (Wrap ''key'' [err])
      | Inr master \<Rightarrow>
          (let k = deriveRingKey rt master in
           if rk_id k \<in> rk_id ` set ks then Inl (Sentinel ''keys collide on a key ID'')
           else build_ring rt (ks @ [k]) es))"

definition newKeyRing :: "runtime \<Rightarrow> string list \<Rightarrow> go_error + ringKey list" where
  "newKeyRing rt encoded =
     (if encoded = [] then Inl (Sentinel ''no keys provided'') else build_ring rt [] encoded)"

definition sealKey :: "ringKey list \<Rightarrow> ringKey" where
  "sealKey ring = hd ring"

fun byID :: "ringKey list \<Rightarrow> char \<Rightarrow> ringKey option" where
  "byID [] i = None"
| "byID (k # ks) i = (if rk_id k = i then Some k else byID ks i)"

definition ring_wf :: "ringKey list \<Rightarrow> bool" where
  "ring_wf ring = (ring \<noteq> [] \<and> distinct (map rk_id ring))"

lemma build_ring_wf:
  "build_ring rt ks es = Inr ring \<Longrightarrow> distinct (map rk_id ks) \<Longrightarrow>
     distinct (map rk_id ring) \<and> length ring = length ks + length es"
  by (induction rt ks es rule: build_ring.induct)
     (auto simp: Let_def split: sum.splits if_splits)

lemma newKeyRing_wf: "newKeyRing rt es = Inr ring \<Longrightarrow> ring_wf ring \<and> length ring = length es"
  using build_ring_wf [of rt "[]" es ring]
  by (auto simp: newKeyRing_def ring_wf_def split: if_splits)

text \<open>The keys of a ring are the derived keys of its entries, in their order.\<close>

definition entry_key :: "runtime \<Rightarrow> string \<Rightarrow> ringKey \<Rightarrow> bool" where
  "entry_key rt e k = (\<exists>m. decodeMasterKey e = Inr m \<and> k = deriveRingKey rt m)"

lemma build_ring_keys:
  "build_ring rt ks es = Inr ring \<Longrightarrow> \<exists>ks'. ring = ks @ ks' \<and> list_all2 (entry_key rt) es ks'"
proof (induction es arbitrary: ks)
  case Nil
  then show ?case by simp
next
  case (Cons e es)
  from Cons.prems obtain m where m: "decodeMasterKey e = Inr m"
    and rest: "build_ring rt (ks @ [deriveRingKey rt m]) es = Inr ring"
    by (auto simp: Let_def split: sum.splits if_splits)
  from Cons.IH [OF rest] obtain ks' where
    "ring = ks @ deriveRingKey rt m # ks'" "list_all2 (entry_key rt) es ks'" by auto
  moreover have "entry_key rt e (deriveRingKey rt m)" using m by (simp add: entry_key_def)
  ultimately show ?case by (intro exI [of _ "deriveRingKey rt m # ks'"]) simp
qed

lemma newKeyRing_keys: "newKeyRing rt es = Inr ring \<Longrightarrow> list_all2 (entry_key rt) es ring"
  using build_ring_keys [of rt "[]" es ring] by (auto simp: newKeyRing_def split: if_splits)

lemma entry_key_unique:
  "list_all2 (entry_key rt) es ks \<Longrightarrow> list_all2 (entry_key rt) es ks' \<Longrightarrow> ks = ks'"
  by (induction es ks arbitrary: ks' rule: list_all2_induct) (auto simp: list_all2_Cons1 entry_key_def)

text \<open>Keys added in front of a ring leave the older keys in it.\<close>

lemma newKeyRing_rotated:
  assumes "newKeyRing rt olds = Inr ring" "newKeyRing rt (news @ olds) = Inr ring'"
  shows "set ring \<subseteq> set ring'" "length ring' = length news + length ring"
proof -
  obtain r1 r2 where "ring' = r1 @ r2" "list_all2 (entry_key rt) olds r2"
    using newKeyRing_keys [OF assms(2)] by (auto simp: list_all2_append1)
  with entry_key_unique [OF newKeyRing_keys [OF assms(1)]] show "set ring \<subseteq> set ring'" by auto
  show "length ring' = length news + length ring"
    using newKeyRing_wf [OF assms(1)] newKeyRing_wf [OF assms(2)] by simp
qed

lemma byID_distinct:
  "distinct (map rk_id ring) \<Longrightarrow> k \<in> set ring \<Longrightarrow> byID ring (rk_id k) = Some k"
  by (induction ring) (auto simp: rev_image_eqI)

lemma byID_SomeD: "byID ring i = Some k \<Longrightarrow> k \<in> set ring \<and> rk_id k = i"
  by (induction ring) (auto split: if_splits)

lemma byID_None_iff: "byID ring i = None \<longleftrightarrow> i \<notin> rk_id ` set ring"
  by (induction ring) auto

lemma sealKey_in [simp]: "ring_wf ring \<Longrightarrow> sealKey ring \<in> set ring"
  by (simp add: ring_wf_def sealKey_def)

subsection \<open>Sealed blobs\<close>

record 'c blobSpec =
  bs_kind :: string
  bs_prefix :: string
  bs_ttl :: duration
  bs_json :: "'c codec"
  bs_issuedAt :: "'c \<Rightarrow> int"

definition kindState :: string where "kindState = ''state_v2''"
definition kindStoredCode :: string where "kindStoredCode = ''stored_code_v2''"
definition kindAccess :: string where "kindAccess = ''access_v2''"
definition kindStoredGrant :: string where "kindStoredGrant = ''stored_grant_v2''"
definition kindClientID :: string where "kindClientID = ''client_id_v2''"

definition stateBlob :: "runtime \<Rightarrow> stateClaims blobSpec" where
  "stateBlob rt = \<lparr>bs_kind = kindState, bs_prefix = [], bs_ttl = stateTTL, bs_json = json_state rt, bs_issuedAt = sc_IssuedAt\<rparr>"
definition storedCodeBlob :: "runtime \<Rightarrow> codeClaims blobSpec" where
  "storedCodeBlob rt = \<lparr>bs_kind = kindStoredCode, bs_prefix = [], bs_ttl = 0, bs_json = json_code rt, bs_issuedAt = cc_IssuedAt\<rparr>"
definition accessBlob :: "runtime \<Rightarrow> accessClaims blobSpec" where
  "accessBlob rt = \<lparr>bs_kind = kindAccess, bs_prefix = prefixAccess, bs_ttl = 0, bs_json = json_access rt, bs_issuedAt = ac_IssuedAt\<rparr>"
definition storedGrantBlob :: "runtime \<Rightarrow> refreshClaims blobSpec" where
  "storedGrantBlob rt = \<lparr>bs_kind = kindStoredGrant, bs_prefix = [], bs_ttl = 0, bs_json = json_refresh rt, bs_issuedAt = rc_IssuedAt\<rparr>"

lemmas blob_specs = stateBlob_def storedCodeBlob_def accessBlob_def storedGrantBlob_def

record sealer =
  sl_ring :: "ringKey list"
  sl_issuer :: string

definition aad :: "sealer \<Rightarrow> string \<Rightarrow> string" where
  "aad s kind = sl_issuer s @ ''|'' @ kind"

definition sealBlob :: "runtime \<Rightarrow> sealer \<Rightarrow> 'c blobSpec \<Rightarrow> string \<Rightarrow> 'c \<Rightarrow> string" where
  "sealBlob rt s spec nonce v =
     (let payload = marshal (bs_json spec) v;
          k = sealKey (sl_ring s)
      in bs_prefix spec @
         b64_encode RawURLEncoding (rk_id k # nonce @ rt_seal rt (rk_aead k) nonce payload (aad s (bs_kind spec))))"

definition openBlob :: "runtime \<Rightarrow> sealer \<Rightarrow> 'c blobSpec \<Rightarrow> string \<Rightarrow> gtime \<Rightarrow> go_error + 'c" where
  "openBlob rt s spec blob now =
     (case cut_prefix blob (bs_prefix spec) of
        None \<Rightarrow> Inl errInvalidBlob
      | Some raw \<Rightarrow>
          (case b64_decode RawURLEncoding raw of
             None \<Rightarrow> Inl errInvalidBlob
           | Some [] \<Rightarrow> Inl errInvalidBlob
           | Some (kid # buf) \<Rightarrow>
               (case byID (sl_ring s) kid of
                  None \<Rightarrow> Inl (Wrap ''key id'' [errUnknownKeyID])
                | Some k \<Rightarrow>
                    if length (kid # buf) < 1 + nonce_size then Inl errInvalidBlob
                    else
                      (case rt_open rt (rk_aead k) (take nonce_size buf) (drop nonce_size buf) (aad s (bs_kind spec)) of
                         None \<Rightarrow> Inl errInvalidBlob
                       | Some payload \<Rightarrow>
                           (case unmarshal (bs_json spec) payload of
                              None \<Rightarrow> Inl errInvalidBlob
                            | Some v \<Rightarrow>
                                if 0 < bs_ttl spec \<and> expired (bs_issuedAt spec v) (bs_ttl spec) now
                                then Inl errBlobExpired
                                else Inr v)))))"

text \<open>
  A blob opens with every sealer of the same deployment whose ring still holds the key it was
  sealed with, wherever in the ring the key is.
\<close>

lemma open_sealed:
  assumes "aead_law rt" "ring_wf (sl_ring s)" "length nonce = nonce_size"
    and "unmarshal (bs_json spec) (marshal (bs_json spec) v) = Some v"
    and "distinct (map rk_id (sl_ring s'))" "sealKey (sl_ring s) \<in> set (sl_ring s')" "sl_issuer s' = sl_issuer s"
  shows "openBlob rt s' spec (sealBlob rt s spec nonce v) now =
           (if 0 < bs_ttl spec \<and> expired (bs_issuedAt spec v) (bs_ttl spec) now then Inl errBlobExpired else Inr v)"
proof -
  have "byID (sl_ring s') (rk_id (sealKey (sl_ring s))) = Some (sealKey (sl_ring s))"
    using assms(5,6) by (rule byID_distinct)
  moreover have "aad s' = aad s" using assms(7) by (simp add: aad_def fun_eq_iff)
  ultimately show ?thesis
    using assms(1,3,4) by (simp add: openBlob_def sealBlob_def Let_def aead_law_def)
qed

text \<open>Whatever opens was sealed under a key of the ring for this kind and issuer.\<close>

lemma openBlob_authentic:
  assumes "aead_law rt" "openBlob rt s spec blob now = Inr v"
  obtains raw k nonce payload where
    "blob = bs_prefix spec @ raw" "k \<in> set (sl_ring s)" "length nonce = nonce_size"
    "b64_decode RawURLEncoding raw = Some (rk_id k # nonce @ rt_seal rt (rk_aead k) nonce payload (aad s (bs_kind spec)))"
    "unmarshal (bs_json spec) payload = Some v"
    "0 < bs_ttl spec \<longrightarrow> \<not> expired (bs_issuedAt spec v) (bs_ttl spec) now"
proof -
  from assms(2) obtain raw kid buf k payload where
    raw: "cut_prefix blob (bs_prefix spec) = Some raw" and dec: "b64_decode RawURLEncoding raw = Some (kid # buf)"
    and k: "byID (sl_ring s) kid = Some k" and len: "\<not> length (kid # buf) < 1 + nonce_size"
    and op: "rt_open rt (rk_aead k) (take nonce_size buf) (drop nonce_size buf) (aad s (bs_kind spec)) = Some payload"
    and v: "unmarshal (bs_json spec) payload = Some v"
      "\<not> (0 < bs_ttl spec \<and> expired (bs_issuedAt spec v) (bs_ttl spec) now)"
    by (auto simp: openBlob_def split: option.splits list.splits if_splits)
  have "drop nonce_size buf = rt_seal rt (rk_aead k) (take nonce_size buf) payload (aad s (bs_kind spec))"
    using assms(1) op by (simp add: aead_law_def)
  then have "buf = take nonce_size buf @ rt_seal rt (rk_aead k) (take nonce_size buf) payload (aad s (bs_kind spec))"
    by (metis append_take_drop_id)
  with raw dec k len v show ?thesis
    by (intro that [of raw k "take nonce_size buf" payload]) (auto simp: cut_prefix_Some_iff dest: byID_SomeD)
qed

text \<open>A blob sealed with a key that left the ring is reported as such, never opened.\<close>

lemma open_rotated_away:
  assumes "rk_id (sealKey (sl_ring s)) \<notin> rk_id ` set (sl_ring s')"
  shows "openBlob rt s' spec (sealBlob rt s spec nonce v) now = Inl (Wrap ''key id'' [errUnknownKeyID])"
  using assms byID_None_iff [of "sl_ring s'" "rk_id (sealKey (sl_ring s))"]
  by (simp add: openBlob_def sealBlob_def Let_def)

lemma openBlob_err_invalid: "openBlob rt s spec blob now = Inl e \<Longrightarrow> errors_is e errInvalidBlob"
  by (auto simp: openBlob_def errUnknownKeyID_def errBlobExpired_def split: option.splits list.splits if_splits)

subsection \<open>Signed client IDs\<close>

definition blob_mac :: "runtime \<Rightarrow> sealer \<Rightarrow> ringKey \<Rightarrow> string \<Rightarrow> string \<Rightarrow> string" where
  "blob_mac rt s k kind payload = rt_hmac rt (rk_mac k) (aad s kind @ [CHR 0x00] @ payload)"

definition signClientID :: "runtime \<Rightarrow> sealer \<Rightarrow> clientIDClaims \<Rightarrow> string" where
  "signClientID rt s v =
     (let payload = marshal (json_client rt) v;
          k = sealKey (sl_ring s)
      in prefixClientID @ b64_encode RawURLEncoding payload @ ''.'' @
         b64_encode RawURLEncoding (blob_mac rt s k kindClientID payload))"

fun verify_keys :: "runtime \<Rightarrow> sealer \<Rightarrow> ringKey list \<Rightarrow> string \<Rightarrow> string \<Rightarrow> go_error + clientIDClaims" where
  "verify_keys rt s [] payload mac = Inl errInvalidBlob"
| "verify_keys rt s (k # ks) payload mac =
     (if mac = blob_mac rt s k kindClientID payload
      then (case unmarshal (json_client rt) payload of None \<Rightarrow> Inl errInvalidBlob | Some v \<Rightarrow> Inr v)
      else verify_keys rt s ks payload mac)"

definition verifyClientID :: "runtime \<Rightarrow> sealer \<Rightarrow> string \<Rightarrow> go_error + clientIDClaims" where
  "verifyClientID rt s blob =
     (case cut_prefix blob prefixClientID of
        None \<Rightarrow> Inl errInvalidBlob
      | Some raw \<Rightarrow>
          (case cut_char CHR ''.'' raw of
             None \<Rightarrow> Inl errInvalidBlob
           | Some (payloadB64, macB64) \<Rightarrow>
               (case b64_decode RawURLEncoding payloadB64 of
                  None \<Rightarrow> Inl errInvalidBlob
                | Some payload \<Rightarrow>
                    (case b64_decode RawURLEncoding macB64 of
                       None \<Rightarrow> Inl errInvalidBlob
                     | Some mac \<Rightarrow> verify_keys rt s (sl_ring s) payload mac))))"

lemma verify_keys_hit:
  assumes "\<exists>k \<in> set ks. mac = blob_mac rt s k kindClientID payload" "unmarshal (json_client rt) payload = Some v"
  shows "verify_keys rt s ks payload mac = Inr v"
  using assms by (induction ks) auto

lemma verify_keys_Inr:
  "verify_keys rt s ks payload mac = Inr v \<Longrightarrow>
     unmarshal (json_client rt) payload = Some v \<and> (\<exists>k \<in> set ks. mac = blob_mac rt s k kindClientID payload)"
  by (induction ks) (auto split: if_splits option.splits)

lemma verify_signed:
  assumes "unmarshal (json_client rt) (marshal (json_client rt) v) = Some v"
    and "sealKey (sl_ring s) \<in> set (sl_ring s')" "sl_issuer s' = sl_issuer s"
  shows "verifyClientID rt s' (signClientID rt s v) = Inr v"
proof -
  let ?p = "marshal (json_client rt) v"
  have "blob_mac rt s (sealKey (sl_ring s)) kindClientID ?p = blob_mac rt s' (sealKey (sl_ring s)) kindClientID ?p"
    using assms(3) by (simp add: blob_mac_def aad_def)
  with assms(2) have "verify_keys rt s' (sl_ring s') ?p (blob_mac rt s (sealKey (sl_ring s)) kindClientID ?p) = Inr v"
    by (intro verify_keys_hit [OF _ assms(1)]) blast
  moreover have "cut_char CHR ''.'' (b64_encode RawURLEncoding ?p @ CHR ''.'' # b64_encode RawURLEncoding m)
      = Some (b64_encode RawURLEncoding ?p, b64_encode RawURLEncoding m)" for m
    by (rule cut_char_append) simp
  ultimately show ?thesis
    by (simp add: verifyClientID_def signClientID_def Let_def)
qed

lemma verifyClientID_Inr:
  assumes "verifyClientID rt s blob = Inr v"
  obtains payload k where "unmarshal (json_client rt) payload = Some v" "k \<in> set (sl_ring s)"
    "\<exists>macB64. b64_decode RawURLEncoding macB64 = Some (blob_mac rt s k kindClientID payload)"
  using assms by (auto simp: verifyClientID_def split: option.splits prod.splits dest!: verify_keys_Inr)

end
