(* ===== verification/Oauth_Config.thy ===== *)
theory Oauth_Config
  imports Oauth_Seal
begin

text \<open>
  Deployment configuration and redirect policy of the authorization server
  (\<open>internal/authsrv/config.go\<close>, \<open>redirect.go\<close>).

  URL parsing and IP literals are those of Go's \<open>net/url\<close> and \<open>net\<close>: the record \<open>netlib\<close> holds
  \<open>url.Parse\<close> and the test "is a loopback IP literal"; everything the program computes from a
  parsed URL, its host name included, is defined here.
\<close>

subsection \<open>URLs\<close>

record go_url =
  u_Scheme :: string
  u_Opaque :: string
  u_HasUser :: bool
  u_Host :: string
  u_Path :: string
  u_RawQuery :: string
  u_Fragment :: string

record netlib =
  url_parse :: "string \<Rightarrow> go_url option"
  loopback_ip :: "string \<Rightarrow> bool"

definition u_IsAbs :: "go_url \<Rightarrow> bool" where
  "u_IsAbs u = (u_Scheme u \<noteq> [])"

definition is_digit :: "char \<Rightarrow> bool" where
  "is_digit c = (48 \<le> byte c \<and> byte c \<le> 57)"

definition is_lower :: "char \<Rightarrow> bool" where
  "is_lower c = (97 \<le> byte c \<and> byte c \<le> 122)"

text \<open>
  \<open>URL.Hostname\<close>: the host without a valid port and without the brackets of an IPv6 literal.
\<close>

definition strip_port :: "string \<Rightarrow> string" where
  "strip_port h =
     (case after_last CHR '':'' h of
        None \<Rightarrow> h
      | Some port \<Rightarrow> if list_all is_digit port then take (length h - length port - 1) h else h)"

definition strip_brackets :: "string \<Rightarrow> string" where
  "strip_brackets h =
     (if 2 \<le> length h \<and> hd h = CHR ''['' \<and> last h = CHR '']'' then butlast (tl h) else h)"

definition u_Hostname :: "go_url \<Rightarrow> string" where
  "u_Hostname u = strip_brackets (strip_port (u_Host u))"

subsection \<open>Redirect policy\<close>

definition isLoopbackHost :: "netlib \<Rightarrow> string \<Rightarrow> bool" where
  "isLoopbackHost net host = (if equal_fold host ''localhost'' then True else loopback_ip net host)"

definition defaultExtraRedirects :: "string list" where
  "defaultExtraRedirects =
     [''https://claude.ai/api/mcp/auth_callback'', ''https://claude.com/api/mcp/auth_callback'']"

definition newRedirectPolicy :: "string list \<Rightarrow> string list" where
  "newRedirectPolicy extra = defaultExtraRedirects @ extra"

definition redirect_allowed :: "netlib \<Rightarrow> string list \<Rightarrow> string \<Rightarrow> bool" where
  "redirect_allowed net exact raw =
     (case url_parse net raw of
        None \<Rightarrow> False
      | Some u \<Rightarrow>
          if \<not> u_IsAbs u \<or> u_HasUser u \<or> u_Fragment u \<noteq> [] \<or> (u_Host u = [] \<and> u_Opaque u = []) then False
          else if u_Scheme u = ''http'' then isLoopbackHost net (u_Hostname u)
          else raw \<in> set exact)"

definition validAllowlistedRedirect :: "netlib \<Rightarrow> string \<Rightarrow> bool" where
  "validAllowlistedRedirect net raw =
     (case url_parse net raw of
        None \<Rightarrow> False
      | Some u \<Rightarrow>
          if \<not> u_IsAbs u \<or> u_HasUser u \<or> u_Fragment u \<noteq> [] then False
          else if u_Scheme u = ''http'' then u_Host u \<noteq> [] \<and> isLoopbackHost net (u_Hostname u)
          else if u_Scheme u = ''https'' then u_Host u \<noteq> []
          else u_Scheme u \<noteq> [] \<and> (u_Host u \<noteq> [] \<or> u_Opaque u \<noteq> [] \<or> u_Path u \<noteq> []))"

definition same_but_port :: "netlib \<Rightarrow> go_url \<Rightarrow> string \<Rightarrow> bool" where
  "same_but_port net u r =
     (case url_parse net r of
        None \<Rightarrow> False
      | Some ru \<Rightarrow>
          if u_Scheme ru \<noteq> ''http'' \<or> \<not> isLoopbackHost net (u_Hostname ru) then False
          else \<not> u_HasUser ru \<and> u_Fragment ru = [] \<and> equal_fold (u_Hostname ru) (u_Hostname u) \<and>
               u_Path ru = u_Path u \<and> u_RawQuery ru = u_RawQuery u)"

definition matchRegistered :: "netlib \<Rightarrow> string list \<Rightarrow> string \<Rightarrow> bool" where
  "matchRegistered net registered raw =
     (if raw \<in> set registered then True
      else (case url_parse net raw of
              None \<Rightarrow> False
            | Some u \<Rightarrow>
                if u_Scheme u \<noteq> ''http'' \<or> \<not> isLoopbackHost net (u_Hostname u) \<or> u_HasUser u \<or> u_Fragment u \<noteq> []
                then False
                else list_ex (same_but_port net u) registered))"

subsection \<open>Configuration\<close>

record Config =
  cf_IssuerURL :: string
  cf_GoogleClientID :: string
  cf_GoogleClientSecret :: string
  cf_AllowedDomains :: "string list"
  cf_PinnedProject :: string
  cf_StateProject :: string
  cf_StateDatabase :: string
  cf_TokenKeys :: "string list"
  cf_ExtraRedirects :: "string list"
  cf_Scopes :: "string list"
  cf_RefreshTokenTTL :: duration
  cf_SkipConsent :: bool
  cf_hasStore :: bool

text \<open>The pattern \<open>^[a-z][a-z0-9-]{4,28}[a-z0-9]$\<close>.\<close>

definition gcpProjectIDPattern :: "string \<Rightarrow> bool" where
  "gcpProjectIDPattern p =
     (6 \<le> length p \<and> length p \<le> 30 \<and> is_lower (hd p) \<and>
      list_all (\<lambda>c. is_lower c \<or> is_digit c \<or> c = CHR ''-'') (butlast (tl p)) \<and>
      (is_lower (last p) \<or> is_digit (last p)))"

text \<open>
  \<open>strings.TrimSpace\<close> of a domain is empty exactly when every byte is a space (for ASCII).
\<close>

definition blank :: "string \<Rightarrow> bool" where
  "blank s = list_all is_space s"

definition config_error :: "string \<Rightarrow> go_error + Config" where
  "config_error m = Inl (Sentinel m)"

definition Validate :: "runtime \<Rightarrow> netlib \<Rightarrow> Config \<Rightarrow> go_error + Config" where
  "Validate rt net c0 =
     (let c = c0\<lparr>cf_IssuerURL := trim_right CHR ''/'' (cf_IssuerURL c0)\<rparr> in
      case url_parse net (cf_IssuerURL c) of
        None \<Rightarrow> config_error ''invalid issuer URL''
      | Some u \<Rightarrow>
          if \<not> u_IsAbs u \<or> u_HasUser u then config_error ''invalid issuer URL''
          else if (u_Scheme u \<noteq> ''https'' \<or> u_Host u = []) \<and>
                  (u_Scheme u \<noteq> ''http'' \<or> \<not> isLoopbackHost net (u_Hostname u))
            then config_error ''issuer URL must be https (or http on localhost)''
          else if u_RawQuery u \<noteq> [] \<or> u_Fragment u \<noteq> []
            then config_error ''issuer URL must not contain userinfo, query, or fragment''
          else if cf_GoogleClientID c = [] \<or> cf_GoogleClientSecret c = []
            then config_error ''google client ID and secret are required''
          else if cf_PinnedProject c = [] \<and> cf_AllowedDomains c = []
            then config_error ''AUTH_ALLOWED_DOMAINS is required for an unpinned HTTP deployment''
          else if cf_PinnedProject c \<noteq> [] \<and> \<not> gcpProjectIDPattern (cf_PinnedProject c)
            then config_error ''invalid GCP_DEFAULT_PROJECT''
          else if \<not> cf_hasStore c \<and> cf_StateProject c = []
            then config_error ''AUTH_STATE_PROJECT is required''
          else if cf_StateProject c \<noteq> [] \<and> \<not> gcpProjectIDPattern (cf_StateProject c)
            then config_error ''invalid AUTH_STATE_PROJECT''
          else
            (let c' = (if cf_StateDatabase c = [] then c\<lparr>cf_StateDatabase := ''(default)''\<rparr> else c) in
             if list_ex blank (cf_AllowedDomains c')
             then config_error ''allowed domains must not contain empty entries''
             else if cf_TokenKeys c' = [] then config_error ''at least one token key is required''
             else (case newKeyRing rt (cf_TokenKeys c') of
                     Inl e \<Rightarrow> Inl (Wrap ''invalid token keys'' [e])
                   | Inr _ \<Rightarrow>
                       if \<not> list_all (validAllowlistedRedirect net) (cf_ExtraRedirects c')
                       then config_error ''invalid extra redirect URI''
                       else if cf_RefreshTokenTTL c' < 0
                       then config_error ''refresh token TTL must not be negative''
                       else Inr c')))"

definition DefaultScopes :: "string list" where
  "DefaultScopes = [''openid'', ''email'', ''https://www.googleapis.com/auth/cloud-platform'']"

definition cfg_scopes :: "Config \<Rightarrow> string list" where
  "cfg_scopes c = (if cf_Scopes c \<noteq> [] then cf_Scopes c else DefaultScopes)"

definition requiredGrantedScopes :: "Config \<Rightarrow> string list" where
  "requiredGrantedScopes c = filter (\<lambda>s. s \<noteq> ''openid'' \<and> s \<noteq> ''email'' \<and> s \<noteq> ''profile'') (cfg_scopes c)"

definition defaultRefreshTokenTTL :: duration where "defaultRefreshTokenTTL = 30 * 24 * hour"

definition refreshTokenTTL :: "Config \<Rightarrow> duration" where
  "refreshTokenTTL c = (if 0 < cf_RefreshTokenTTL c then cf_RefreshTokenTTL c else defaultRefreshTokenTTL)"

definition isConsumerDomain :: "string \<Rightarrow> bool" where
  "isConsumerDomain d = (equal_fold d ''gmail.com'' \<or> equal_fold d ''googlemail.com'')"

definition domain_listed :: "Config \<Rightarrow> string \<Rightarrow> bool" where
  "domain_listed c d = list_ex (equal_fold d) (cf_AllowedDomains c)"

definition domainAllowed :: "Config \<Rightarrow> string \<Rightarrow> string \<Rightarrow> bool" where
  "domainAllowed c hd_claim email =
     (if hd_claim \<noteq> [] then domain_listed c hd_claim
      else (case after_last CHR ''@'' email of
              None \<Rightarrow> False
            | Some d \<Rightarrow> isConsumerDomain d \<and> domain_listed c d))"

subsection \<open>Lemmas\<close>

lemma refreshTokenTTL_pos: "0 < refreshTokenTTL c"
  by (simp add: refreshTokenTTL_def defaultRefreshTokenTTL_def duration_defs)

lemma redirect_allowedD:
  assumes "redirect_allowed net exact raw"
  shows "raw \<in> set exact \<or> (\<exists>u. url_parse net raw = Some u \<and> u_Scheme u = ''http'' \<and> isLoopbackHost net (u_Hostname u))"
    and "\<exists>u. url_parse net raw = Some u \<and> u_IsAbs u \<and> \<not> u_HasUser u \<and> u_Fragment u = []"
  using assms by (auto simp: redirect_allowed_def split: option.splits if_splits)

lemma matchRegisteredD:
  assumes "matchRegistered net registered raw" "raw \<notin> set registered"
  obtains u r ru where "url_parse net raw = Some u" "r \<in> set registered" "url_parse net r = Some ru"
    "u_Scheme u = ''http''" "u_Scheme ru = ''http''" "isLoopbackHost net (u_Hostname u)"
    "equal_fold (u_Hostname ru) (u_Hostname u)" "u_Path ru = u_Path u" "u_RawQuery ru = u_RawQuery u"
    "\<not> u_HasUser u" "u_Fragment u = []"
  using assms
  by (auto simp: matchRegistered_def same_but_port_def list_ex_iff split: option.splits if_splits)

lemma Validate_ok:
  assumes "Validate rt net c0 = Inr c"
  obtains u ring where
    "c = c0\<lparr>cf_IssuerURL := trim_right CHR ''/'' (cf_IssuerURL c0),
             cf_StateDatabase := (if cf_StateDatabase c0 = [] then ''(default)'' else cf_StateDatabase c0)\<rparr>"
    "url_parse net (cf_IssuerURL c) = Some u" "u_IsAbs u" "\<not> u_HasUser u" "u_RawQuery u = []" "u_Fragment u = []"
    "u_Scheme u = ''https'' \<and> u_Host u \<noteq> [] \<or> u_Scheme u = ''http'' \<and> isLoopbackHost net (u_Hostname u)"
    "cf_GoogleClientID c \<noteq> []" "cf_GoogleClientSecret c \<noteq> []"
    "cf_PinnedProject c \<noteq> [] \<or> cf_AllowedDomains c \<noteq> []"
    "cf_PinnedProject c = [] \<or> gcpProjectIDPattern (cf_PinnedProject c)"
    "cf_hasStore c \<or> cf_StateProject c \<noteq> []"
    "cf_StateProject c = [] \<or> gcpProjectIDPattern (cf_StateProject c)"
    "\<not> list_ex blank (cf_AllowedDomains c)" "cf_TokenKeys c \<noteq> []"
    "newKeyRing rt (cf_TokenKeys c) = Inr ring" "list_all (validAllowlistedRedirect net) (cf_ExtraRedirects c)"
    "0 \<le> cf_RefreshTokenTTL c"
  using assms
  by (simp add: Validate_def Let_def config_error_def split: option.splits if_split_asm sum.splits)

end
