(* ===== verification/Oauth_Grants.thy ===== *)
theory Oauth_Grants
  imports Oauth_Firestore Oauth_Config
begin

text \<open>
  The grant lifecycle (\<open>internal/authsrv/grants.go\<close>) and the minting of access tokens
  (\<open>writeMintedTokens\<close>, \<open>verifyPKCE\<close> of \<open>token.go\<close>).

  Every operation takes the operations of a state store (a value of the interface record of
  \<open>Oauth_Store\<close>), the store's state, the clock reading it takes once at its start and the random
  bytes it draws; it returns the new state with a classified failure or its result. The lemmas
  are proved once for every store that satisfies the contract, in the context of its locale.
\<close>

subsection \<open>Data\<close>

record codeExchange =
  ce_Code :: string
  ce_ClientID :: string
  ce_RedirectURI :: string
  ce_CodeVerifier :: string
  ce_Resource :: string

record grantTokens =
  gt_Subject :: string
  gt_Email :: string
  gt_Domain :: string
  gt_ClientID :: string
  gt_Resource :: string
  gt_FamilyID :: string
  gt_Scopes :: "string list"
  gt_GoogleAccessToken :: string
  gt_GoogleExpiry :: int
  gt_RefreshToken :: string

record preparedRefresh =
  pr_familyID :: string
  pr_record :: grantRecord
  pr_claims :: refreshClaims
  pr_startedAt :: gtime

definition GoogleRefreshToken :: "preparedRefresh \<Rightarrow> string" where
  "GoogleRefreshToken p = rc_GoogleRefreshToken (pr_claims p)"

record revokedGrant =
  rg_FamilyID :: string
  rg_Email :: string
  rg_GoogleToken :: string

text \<open>\<open>grantRejection\<close> and \<open>grantStoreError\<close>.\<close>

datatype grant_error =
    Rejection string string string
  | StoreFailure string go_error

text \<open>The failures of \<open>VerifyAccess\<close>: a rejected token, or \<open>errStoreUnavailable\<close>.\<close>

datatype access_error = TokenRejection string | StoreUnavailable go_error

record auth_server =
  sv_cfg :: Config
  sv_sealer :: sealer
  sv_policy :: "string list"
  sv_hasAccess :: bool

definition codeReplay :: grant_error where
  "codeReplay = Rejection ''invalid_grant'' ''authorization_code_reused'' ''authorization code was already used''"

definition refreshReplay :: grant_error where
  "refreshReplay = Rejection ''invalid_grant'' ''refresh_token_replayed'' ''refresh token replay revoked this grant family''"

definition verifyPKCE :: "runtime \<Rightarrow> string \<Rightarrow> string \<Rightarrow> bool" where
  "verifyPKCE rt verifier challenge =
     (if verifier = [] \<or> challenge = [] then False
      else b64_encode RawURLEncoding (rt_sha256 rt verifier) = challenge)"

subsection \<open>Code exchange\<close>

definition code_refresh_claims :: "codeClaims \<Rightarrow> gtime \<Rightarrow> refreshClaims" where
  "code_refresh_claims cc now =
     \<lparr>rc_Subject = cc_Subject cc, rc_Email = cc_Email cc, rc_Domain = cc_Domain cc, rc_ClientID = cc_ClientID cc,
      rc_Resource = cc_Resource cc, rc_Scopes = cc_Scopes cc, rc_GoogleRefreshToken = cc_GoogleRefreshToken cc,
      rc_IssuedAt = unix now\<rparr>"

definition ExchangeCode ::
    "runtime \<Rightarrow> auth_server \<Rightarrow> 's oauthStateStore \<Rightarrow> 's \<Rightarrow> gtime \<Rightarrow> string \<Rightarrow> string \<Rightarrow> codeExchange
       \<Rightarrow> 's \<times> (grant_error + grantTokens)" where
  "ExchangeCode rt srv ops s now rnd nonce ex =
     (let key = tokenHash rt (ce_Code ex) in
      case GetCode ops s key of
        Inl e \<Rightarrow> (s, Inl (StoreFailure ''get_code'' e))
      | Inr rec \<Rightarrow>
          if c_Status rec \<noteq> ''active'' then
            (fst (RedeemCode ops s key now zero_grantRecord), Inl codeReplay)
          else if \<not> now < c_ExpiresAt rec then
            (s, Inl (Rejection ''invalid_grant'' ''authorization_code_expired'' ''authorization code expired''))
          else (case openBlob rt (sv_sealer srv) (storedCodeBlob rt) (c_Claims rec) now of
            Inl _ \<Rightarrow>
              (s, Inl (Rejection ''invalid_grant'' ''invalid_authorization_code'' ''invalid authorization code''))
          | Inr cc \<Rightarrow>
              if ce_ClientID ex \<noteq> cc_ClientID cc \<or> ce_RedirectURI ex \<noteq> cc_RedirectURI cc \<or>
                 \<not> verifyPKCE rt (ce_CodeVerifier ex) (cc_CodeChallenge cc) then
                (s, Inl (Rejection ''invalid_grant'' ''authorization_code_binding_failed'' ''authorization code binding failed''))
              else if ce_Resource ex \<noteq> [] \<and> trim_right CHR ''/'' (ce_Resource ex) \<noteq> cf_IssuerURL (sv_cfg srv) then
                (s, Inl (Rejection ''invalid_target'' ''unknown_resource'' ''unknown resource''))
              else
                (let (refreshToken, secretHash) = makeRefreshToken rt (c_FamilyID rec) rnd;
                     claims = sealBlob rt (sv_sealer srv) (storedGrantBlob rt) nonce (code_refresh_claims cc now);
                     grant = \<lparr>g_Claims = claims, g_ActiveSecretHash = secretHash, g_Generation = 1,
                              g_Status = ''active'', g_ExpiresAt = now + refreshTokenTTL (sv_cfg srv),
                              g_UpdatedAt = now\<rparr>
                 in case RedeemCode ops s key now grant of
                      (s', Some e) \<Rightarrow>
                        (s', Inl (if errors_is e errCodeReplay then codeReplay else StoreFailure ''redeem_code'' e))
                    | (s', None) \<Rightarrow>
                        (s', Inr \<lparr>gt_Subject = cc_Subject cc, gt_Email = cc_Email cc, gt_Domain = cc_Domain cc,
                                   gt_ClientID = cc_ClientID cc, gt_Resource = cc_Resource cc,
                                   gt_FamilyID = c_FamilyID rec, gt_Scopes = cc_Scopes cc,
                                   gt_GoogleAccessToken = cc_GoogleAccessToken cc,
                                   gt_GoogleExpiry = cc_GoogleExpiry cc, gt_RefreshToken = refreshToken\<rparr>))))"

subsection \<open>Refresh\<close>

definition PrepareRefresh ::
    "runtime \<Rightarrow> auth_server \<Rightarrow> 's oauthStateStore \<Rightarrow> 's \<Rightarrow> gtime \<Rightarrow> string \<Rightarrow> string
       \<Rightarrow> 's \<times> (grant_error + preparedRefresh)" where
  "PrepareRefresh rt srv ops s now token clientID =
     (case parseRefreshToken token of
        Inl _ \<Rightarrow> (s, Inl (Rejection ''invalid_grant'' ''invalid_refresh_token'' ''invalid refresh token''))
      | Inr (familyID, secret) \<Rightarrow>
          (case GetGrant ops s familyID of
             Inl e \<Rightarrow> (s, Inl (StoreFailure ''get_grant'' e))
           | Inr rec \<Rightarrow>
               if \<not> grantActive rec now then
                 (s, Inl (Rejection ''invalid_grant'' ''grant_inactive'' ''refresh grant is inactive or expired''))
               else if \<not> secretMatches rt secret (g_ActiveSecretHash rec) then
                 (case RotateGrant ops s familyID (tokenHash rt secret) zero_grantRecord now of
                    (s', r) \<Rightarrow>
                      (case r of
                         Some e \<Rightarrow>
                           if \<not> errors_is e errGrantReplay \<and> \<not> errors_is e errGrantInactive
                           then (s', Inl (StoreFailure ''revoke_replayed_grant'' e))
                           else (s', Inl refreshReplay)
                       | None \<Rightarrow> (s', Inl refreshReplay)))
               else (case openBlob rt (sv_sealer srv) (storedGrantBlob rt) (g_Claims rec) now of
                 Inl _ \<Rightarrow> (s, Inl (Rejection ''invalid_grant'' ''invalid_grant_record'' ''refresh grant is invalid''))
               | Inr rc \<Rightarrow>
                   if rc_GoogleRefreshToken rc = [] then
                     (s, Inl (Rejection ''invalid_grant'' ''invalid_grant_record'' ''refresh grant is invalid''))
                   else if clientID \<noteq> [] \<and> clientID \<noteq> rc_ClientID rc then
                     (s, Inl (Rejection ''invalid_grant'' ''client_id_mismatch'' ''client_id mismatch''))
                   else if cf_AllowedDomains (sv_cfg srv) \<noteq> [] \<and>
                           \<not> domainAllowed (sv_cfg srv) (rc_Domain rc) (rc_Email rc) then
                     (s, Inl (Rejection ''invalid_grant'' ''domain_not_allowed'' ''account domain is not allowed''))
                   else (s, Inr \<lparr>pr_familyID = familyID, pr_record = rec, pr_claims = rc, pr_startedAt = now\<rparr>))))"

definition rotation_record ::
    "runtime \<Rightarrow> auth_server \<Rightarrow> string \<Rightarrow> string \<Rightarrow> preparedRefresh \<Rightarrow> refreshClaims \<Rightarrow> grantRecord" where
  "rotation_record rt srv rnd nonce p rc =
     \<lparr>g_Claims = sealBlob rt (sv_sealer srv) (storedGrantBlob rt) nonce rc,
      g_ActiveSecretHash = snd (makeRefreshToken rt (pr_familyID p) rnd),
      g_Generation = g_Generation (pr_record p) + 1, g_Status = ''active'',
      g_ExpiresAt = g_ExpiresAt (pr_record p), g_UpdatedAt = pr_startedAt p\<rparr>"

definition RotateRefresh ::
    "runtime \<Rightarrow> auth_server \<Rightarrow> 's oauthStateStore \<Rightarrow> 's \<Rightarrow> string \<Rightarrow> string \<Rightarrow> preparedRefresh \<Rightarrow> string
       \<Rightarrow> 's \<times> (grant_error + grantTokens)" where
  "RotateRefresh rt srv ops s rnd nonce p googleRefresh =
     (let rc = (if googleRefresh \<noteq> [] then (pr_claims p)\<lparr>rc_GoogleRefreshToken := googleRefresh\<rparr> else pr_claims p);
          next_rec = rotation_record rt srv rnd nonce p rc
      in case RotateGrant ops s (pr_familyID p) (g_ActiveSecretHash (pr_record p)) next_rec (pr_startedAt p) of
           (s', Some e) \<Rightarrow>
             (s', Inl (if errors_is e errGrantReplay \<or> errors_is e errGrantInactive then refreshReplay
                       else StoreFailure ''rotate_grant'' e))
         | (s', None) \<Rightarrow>
             (s', Inr \<lparr>gt_Subject = rc_Subject rc, gt_Email = rc_Email rc, gt_Domain = rc_Domain rc,
                        gt_ClientID = rc_ClientID rc, gt_Resource = rc_Resource rc, gt_FamilyID = pr_familyID p,
                        gt_Scopes = rc_Scopes rc, gt_GoogleAccessToken = [], gt_GoogleExpiry = 0,
                        gt_RefreshToken = fst (makeRefreshToken rt (pr_familyID p) rnd)\<rparr>))"

definition RevokeFamily ::
    "'s oauthStateStore \<Rightarrow> 's \<Rightarrow> preparedRefresh \<Rightarrow> 's \<times> grant_error option" where
  "RevokeFamily ops s p =
     (case RevokeGrant ops s (pr_familyID p) (pr_startedAt p) of
        (s', Some e) \<Rightarrow> (s', Some (StoreFailure ''revoke_grant'' e)) | (s', None) \<Rightarrow> (s', None))"

subsection \<open>Access and revocation\<close>

definition VerifyAccess ::
    "runtime \<Rightarrow> auth_server \<Rightarrow> 's oauthStateStore \<Rightarrow> 's \<Rightarrow> gtime \<Rightarrow> string \<Rightarrow> access_error + accessClaims" where
  "VerifyAccess rt srv ops s now token =
     (case openBlob rt (sv_sealer srv) (accessBlob rt) token now of
        Inl _ \<Rightarrow> Inl (TokenRejection ''invalid_access_token'')
      | Inr c \<Rightarrow>
          (let grant = GetGrant ops s (ac_FamilyID c) in
           case grant of
             Inl e \<Rightarrow>
               if \<not> errors_is e errStateNotFound then Inl (StoreUnavailable e)
               else if \<not> now < time_unix (ac_ExpiresAt c) then Inl (TokenRejection ''access_token_expired'')
               else Inl (TokenRejection ''grant_not_found'')
           | Inr g \<Rightarrow>
               if \<not> now < time_unix (ac_ExpiresAt c) then Inl (TokenRejection ''access_token_expired'')
               else if \<not> grantActive g now then Inl (TokenRejection ''grant_inactive'')
               else if cf_AllowedDomains (sv_cfg srv) \<noteq> [] \<and>
                       \<not> domainAllowed (sv_cfg srv) (ac_Domain c) (ac_Email c) then
                 Inl (TokenRejection ''domain_not_allowed'')
               else Inr c))"

definition RevokeToken ::
    "runtime \<Rightarrow> auth_server \<Rightarrow> 's oauthStateStore \<Rightarrow> 's \<Rightarrow> gtime \<Rightarrow> string
       \<Rightarrow> 's \<times> (grant_error + revokedGrant option)" where
  "RevokeToken rt srv ops s now token =
     (case openBlob rt (sv_sealer srv) (accessBlob rt) token now of
        Inr ac \<Rightarrow>
          (case RevokeGrant ops s (ac_FamilyID ac) now of
             (s', Some e) \<Rightarrow> (s', Inl (StoreFailure ''revoke_grant'' e))
           | (s', None) \<Rightarrow> (s', Inr (Some \<lparr>rg_FamilyID = ac_FamilyID ac, rg_Email = ac_Email ac,
                                           rg_GoogleToken = ac_GoogleAccessToken ac\<rparr>)))
      | Inl _ \<Rightarrow>
          (case parseRefreshToken token of
             Inl _ \<Rightarrow> (s, Inr None)
           | Inr (fam, secret) \<Rightarrow>
               (case GetGrant ops s fam of
                  Inl e \<Rightarrow> if errors_is e errStateNotFound then (s, Inr None)
                           else (s, Inl (StoreFailure ''revoke_get_grant'' e))
                | Inr rec \<Rightarrow>
                    if \<not> secretMatches rt secret (g_ActiveSecretHash rec) then (s, Inr None)
                    else
                      (let out = (case openBlob rt (sv_sealer srv) (storedGrantBlob rt) (g_Claims rec) now of
                                    Inr rc \<Rightarrow> \<lparr>rg_FamilyID = fam, rg_Email = rc_Email rc,
                                               rg_GoogleToken = rc_GoogleRefreshToken rc\<rparr>
                                  | Inl _ \<Rightarrow> \<lparr>rg_FamilyID = fam, rg_Email = [], rg_GoogleToken = []\<rparr>)
                       in case RevokeGrantIfSecret ops s fam (tokenHash rt secret) now of
                            (s', Inl e) \<Rightarrow> (s', Inl (StoreFailure ''revoke_grant'' e))
                          | (s', Inr revoked) \<Rightarrow> (s', Inr (if \<not> revoked then None else Some out))))))"

subsection \<open>Minting\<close>

record tokenResponse =
  tr_AccessToken :: string
  tr_TokenType :: string
  tr_ExpiresIn :: int
  tr_RefreshToken :: string
  tr_Scope :: string

definition mint_expiry :: "gtime \<Rightarrow> int \<Rightarrow> gtime" where
  "mint_expiry now googleExpiry =
     (let exp = now + accessTokenTTL; upstream = time_unix googleExpiry
      in if upstream < exp then upstream else exp)"

text \<open>
  \<open>int64(exp.Sub(now).Seconds())\<close> is the number of whole seconds (the duration is positive).
\<close>

definition mint_access ::
    "runtime \<Rightarrow> auth_server \<Rightarrow> gtime \<Rightarrow> string \<Rightarrow> grantTokens \<Rightarrow> grant_error + (accessClaims \<times> tokenResponse)" where
  "mint_access rt srv now nonce t =
     (let exp = mint_expiry now (gt_GoogleExpiry t) in
      if \<not> now < exp then
        Inl (Rejection ''invalid_grant'' ''upstream_token_expired'' ''upstream token already expired'')
      else
        (let claims = \<lparr>ac_Subject = gt_Subject t, ac_Email = gt_Email t, ac_Domain = gt_Domain t,
                ac_ClientID = gt_ClientID t, ac_Resource = gt_Resource t, ac_FamilyID = gt_FamilyID t,
                ac_Scopes = gt_Scopes t, ac_GoogleAccessToken = gt_GoogleAccessToken t,
                ac_GoogleExpiry = gt_GoogleExpiry t, ac_IssuedAt = unix now, ac_ExpiresAt = unix exp\<rparr>
         in Inr (claims, \<lparr>tr_AccessToken = sealBlob rt (sv_sealer srv) (accessBlob rt) nonce claims,
                           tr_TokenType = ''Bearer'', tr_ExpiresIn = (exp - now) div second,
                           tr_RefreshToken = gt_RefreshToken t, tr_Scope = join '' '' (gt_Scopes t)\<rparr>)))"

lemmas [grant_ops] =
  ExchangeCode_def PrepareRefresh_def RotateRefresh_def RevokeFamily_def VerifyAccess_def RevokeToken_def

end
