(* ===== verification/Oauth_Http.thy ===== *)
theory Oauth_Http
  imports Oauth_Grants
begin

text \<open>
  The HTTP endpoints of the authorization server: \<open>authorize.go\<close>, \<open>callback.go\<close>, \<open>token.go\<close>,
  \<open>dcr.go\<close>, \<open>revoke.go\<close>, \<open>verifier.go\<close>, \<open>accesscheck.go\<close>, \<open>metadata.go\<close> and the project gate of
  \<open>server.go\<close> (all under \<open>internal/authsrv\<close>).

  A request is its query or form (a function that gives the empty string for an absent key), a
  response is a value of \<open>http_response\<close>, which keeps what the client and the diagnostics see:
  the page or the status, the OAuth code, the reason class and the description. The identity
  provider and Cloud Resource Manager are parameters. A handler that reads the clock several
  times takes the readings as a function of their number.
\<close>

subsection \<open>Data\<close>

type_synonym form = "string \<Rightarrow> string"

record idp_token =
  tok_AccessToken :: string
  tok_Expiry :: gtime
  tok_RefreshToken :: string
  tok_IDToken :: string
  tok_Scope :: string

record identityClaims =
  id_Subject :: string
  id_Email :: string
  id_EmailVerified :: bool
  id_HostedDomain :: string

record idp =
  idp_Exchange :: "string \<Rightarrow> go_error + idp_token"
  idp_Refresh :: "string \<Rightarrow> go_error + idp_token"
  idp_ValidateIDToken :: "string \<Rightarrow> go_error + identityClaims"
  idp_Revoke :: "string \<Rightarrow> go_error option"
  idp_isRetrieveError :: "go_error \<Rightarrow> bool"
  idp_HasProjectAccess :: "string \<Rightarrow> string \<Rightarrow> go_error + bool"

datatype http_response =
    ErrorPage nat string
  | RedirectTo string "(string \<times> string) list"
  | RedirectGoogle string "string option"
  | ConsentPage string string string
  | OAuthError nat string string string
  | TokenJSON tokenResponse
  | Registered string "string list"
  | EmptyOK
  | PlainError nat string

subsection \<open>Redirects\<close>

definition redirectWithParams :: "netlib \<Rightarrow> string \<Rightarrow> string \<Rightarrow> (string \<times> string) list \<Rightarrow> http_response" where
  "redirectWithParams net redirectURI state params =
     (case url_parse net redirectURI of
        None \<Rightarrow> PlainError 400 ''invalid_redirect''
      | Some _ \<Rightarrow> RedirectTo redirectURI (params @ (if state \<noteq> [] then [(''state'', state)] else [])))"

definition redirectError :: "netlib \<Rightarrow> string \<Rightarrow> string \<Rightarrow> string \<Rightarrow> string \<Rightarrow> http_response" where
  "redirectError net redirectURI state code description =
     redirectWithParams net redirectURI state [(''error'', code), (''error_description'', description)]"

definition redirectToGoogle :: "Config \<Rightarrow> string \<Rightarrow> http_response" where
  "redirectToGoogle cfg stateToken =
     RedirectGoogle stateToken
       (case cf_AllowedDomains cfg of
          [d] \<Rightarrow> if \<not> isConsumerDomain d then Some d else None
        | _ \<Rightarrow> None)"

definition renderStoreUnavailable :: http_response where
  "renderStoreUnavailable = ErrorPage 503 ''oauth_store_unavailable''"

subsection \<open>Registration\<close>

record clientMetadata =
  cm_RedirectURIs :: "string list"
  cm_GrantTypes :: "string list"
  cm_ResponseTypes :: "string list"
  cm_ClientName :: string

definition registrationError :: "string \<Rightarrow> string \<Rightarrow> http_response" where
  "registrationError code reason = OAuthError 400 code reason []"

text \<open>\<open>None\<close> is a body that is not valid client metadata JSON.\<close>

definition handleRegister ::
    "runtime \<Rightarrow> netlib \<Rightarrow> auth_server \<Rightarrow> gtime \<Rightarrow> clientMetadata option \<Rightarrow> http_response" where
  "handleRegister rt net srv now body =
     (case body of
        None \<Rightarrow> registrationError ''invalid_client_metadata'' ''invalid_client_metadata_json''
      | Some meta \<Rightarrow>
          if cm_RedirectURIs meta = [] then registrationError ''invalid_redirect_uri'' ''missing_redirect_uri''
          else if list_ex (\<lambda>u. \<not> redirect_allowed net (sv_policy srv) u) (cm_RedirectURIs meta)
            then registrationError ''invalid_redirect_uri'' ''redirect_uri_not_allowed''
          else if list_ex (\<lambda>gt. gt \<noteq> ''authorization_code'' \<and> gt \<noteq> ''refresh_token'') (cm_GrantTypes meta)
            then registrationError ''invalid_client_metadata'' ''unsupported_grant_type''
          else if list_ex (\<lambda>r. r \<noteq> ''code'') (cm_ResponseTypes meta)
            then registrationError ''invalid_client_metadata'' ''unsupported_response_type''
          else Registered (signClientID rt (sv_sealer srv)
                 \<lparr>ci_RedirectURIs = cm_RedirectURIs meta, ci_ClientName = cm_ClientName meta, ci_IssuedAt = unix now\<rparr>)
                 (cm_RedirectURIs meta))"

definition clientDisplayName :: "clientIDClaims \<Rightarrow> string" where
  "clientDisplayName c = (if ci_ClientName c \<noteq> [] then ci_ClientName c else ''An MCP client'')"

subsection \<open>Authorization\<close>

text \<open>\<open>clk 0\<close> and \<open>clk 1\<close> are the two clock readings, \<open>rnd\<close> and \<open>nonce\<close> the random bytes.\<close>

definition state_claims_of :: "form \<Rightarrow> gtime \<Rightarrow> stateClaims" where
  "state_claims_of q now =
     \<lparr>sc_ClientID = q ''client_id'', sc_RedirectURI = q ''redirect_uri'', sc_ClientState = q ''state'',
      sc_CodeChallenge = q ''code_challenge'', sc_Resource = q ''resource'', sc_IssuedAt = unix now\<rparr>"

definition handleAuthorize ::
    "runtime \<Rightarrow> netlib \<Rightarrow> auth_server \<Rightarrow> 's oauthStateStore \<Rightarrow> 's \<Rightarrow> (nat \<Rightarrow> gtime) \<Rightarrow> string \<Rightarrow> string \<Rightarrow> form
       \<Rightarrow> 's \<times> http_response" where
  "handleAuthorize rt net srv ops s clk rnd nonce q =
     (case verifyClientID rt (sv_sealer srv) (q ''client_id'') of
        Inl _ \<Rightarrow> (s, ErrorPage 400 ''unknown_client'')
      | Inr client \<Rightarrow>
          (let redirectURI = q ''redirect_uri''; state = q ''state'' in
           if redirectURI = [] \<or> \<not> matchRegistered net (ci_RedirectURIs client) redirectURI \<or>
              \<not> redirect_allowed net (sv_policy srv) redirectURI
           then (s, ErrorPage 400 ''invalid_redirect_uri'')
           else if q ''response_type'' \<noteq> ''code''
           then (s, redirectError net redirectURI state ''unsupported_response_type'' ''only response_type=code is supported'')
           else if q ''code_challenge'' = [] \<or> q ''code_challenge_method'' \<noteq> ''S256''
           then (s, redirectError net redirectURI state ''invalid_request'' ''PKCE with code_challenge_method=S256 is required'')
           else if q ''resource'' \<noteq> [] \<and> trim_right CHR ''/'' (q ''resource'') \<noteq> cf_IssuerURL (sv_cfg srv)
           then (s, redirectError net redirectURI state ''invalid_target'' ''unknown resource'')
           else
             (let claims = sealBlob rt (sv_sealer srv) (stateBlob rt) nonce (state_claims_of q (clk 0));
                  stateToken = prefixState @ randomOpaque rnd
              in case PutAuthorizationState ops s (tokenHash rt stateToken)
                        \<lparr>as_Claims = claims, as_Status = ''active'', as_ExpiresAt = clk 1 + stateTTL, as_UsedAt = time_zero\<rparr> of
                   (s', Some e) \<Rightarrow>
                     (s', redirectError net redirectURI state ''server_error'' ''authorization state store unavailable'')
                 | (s', None) \<Rightarrow>
                     if cf_SkipConsent (sv_cfg srv) then (s', redirectToGoogle (sv_cfg srv) stateToken)
                     else (s', ConsentPage (clientDisplayName client) redirectURI stateToken))))"

definition loadAuthorizationState ::
    "runtime \<Rightarrow> 's oauthStateStore \<Rightarrow> 's \<Rightarrow> gtime \<Rightarrow> string \<Rightarrow> bool \<Rightarrow> 's \<times> (go_error + authorizationStateRecord)" where
  "loadAuthorizationState rt ops s now raw consume =
     (if \<not> has_prefix raw prefixState then (s, Inl errStateNotFound)
      else if consume then UseAuthorizationState ops s (tokenHash rt raw) now
      else (case GetAuthorizationState ops s (tokenHash rt raw) of
              Inl e \<Rightarrow> (s, Inl e)
            | Inr rec \<Rightarrow> if \<not> now < as_ExpiresAt rec then (s, Inl errBlobExpired) else (s, Inr rec)))"

text \<open>The classification of a failed load, the same for the confirmation and the callback.\<close>

definition load_failure :: "string \<Rightarrow> string \<Rightarrow> go_error \<Rightarrow> http_response" where
  "load_failure expired_reason invalid_reason e =
     (if errors_is e errBlobExpired then ErrorPage 400 expired_reason
      else if \<not> errors_is e errStateNotFound \<and> \<not> errors_is e errStateReplay then renderStoreUnavailable
      else ErrorPage 400 invalid_reason)"

text \<open>\<open>None\<close> is a body that does not parse as a form.\<close>

definition handleAuthorizeConfirm ::
    "runtime \<Rightarrow> auth_server \<Rightarrow> 's oauthStateStore \<Rightarrow> 's \<Rightarrow> gtime \<Rightarrow> form option \<Rightarrow> 's \<times> http_response" where
  "handleAuthorizeConfirm rt srv ops s now body =
     (case body of
        None \<Rightarrow> (s, ErrorPage 400 ''malformed_consent_form'')
      | Some form \<Rightarrow>
          (let stateToken = form ''request'' in
           case loadAuthorizationState rt ops s now stateToken False of
             (s', Inl e) \<Rightarrow> (s', load_failure ''authorization_request_expired'' ''invalid_authorization_request'' e)
           | (s', Inr rec) \<Rightarrow>
               if as_Status rec \<noteq> ''active'' then (s', ErrorPage 400 ''authorization_request_used'')
               else (s', redirectToGoogle (sv_cfg srv) stateToken)))"

subsection \<open>The callback from Google\<close>

fun firstMissing :: "string list \<Rightarrow> string list \<Rightarrow> string" where
  "firstMissing [] got = []"
| "firstMissing (w # ws) got = (if w \<notin> set got then w else firstMissing ws got)"

definition grantedScopes :: "string \<Rightarrow> string list" where
  "grantedScopes s = (if s = [] then [] else Go_Strings.fields s)"

definition checkProjectAccess :: "auth_server \<Rightarrow> idp \<Rightarrow> string \<Rightarrow> string \<Rightarrow> go_error + bool" where
  "checkProjectAccess srv p token project =
     (if \<not> sv_hasAccess srv \<or> project = [] then Inr True else idp_HasProjectAccess p token project)"

text \<open>
  The admission checks of the callback, up to the point where it stores a code: the error to
  return to the client's redirect URI, or the tokens, the identity and the granted scopes.
\<close>

definition callback_admission ::
    "auth_server \<Rightarrow> idp \<Rightarrow> form \<Rightarrow> (string \<times> string) + (idp_token \<times> identityClaims \<times> string list)" where
  "callback_admission srv p q =
     (if q ''error'' \<noteq> [] then Inl (q ''error'', q ''error_description'')
      else if q ''code'' = [] then Inl (''invalid_request'', ''missing authorization code'')
      else (case idp_Exchange p (q ''code'') of
        Inl _ \<Rightarrow> Inl (''server_error'', ''upstream token exchange failed'')
      | Inr tok \<Rightarrow>
          if tok_RefreshToken tok = [] then Inl (''access_denied'',
            ''Google did not issue an offline refresh token; revoke the app grant and authorize again'')
          else if tok_IDToken tok = [] then Inl (''server_error'', ''upstream response missing id_token'')
          else (case idp_ValidateIDToken p (tok_IDToken tok) of
            Inl _ \<Rightarrow> Inl (''access_denied'', ''identity verification failed'')
          | Inr i \<Rightarrow>
              if \<not> id_EmailVerified i \<or> id_Email i = [] \<or> id_Subject i = []
              then Inl (''access_denied'', ''account email is not verified'')
              else if cf_AllowedDomains (sv_cfg srv) \<noteq> [] \<and> \<not> domainAllowed (sv_cfg srv) (id_HostedDomain i) (id_Email i)
              then Inl (''access_denied'', ''account domain is not allowed'')
              else if firstMissing (requiredGrantedScopes (sv_cfg srv)) (grantedScopes (tok_Scope tok)) \<noteq> []
              then Inl (''access_denied'', ''the Google Cloud permission was not granted'')
              else (case checkProjectAccess srv p (tok_AccessToken tok) (cf_PinnedProject (sv_cfg srv)) of
                Inl _ \<Rightarrow> Inl (''server_error'', ''access check failed, try again'')
              | Inr has \<Rightarrow>
                  if \<not> has then Inl (''access_denied'', ''account has no access to GCP project'')
                  else Inr (tok, i, grantedScopes (tok_Scope tok))))))"

definition callback_claims :: "stateClaims \<Rightarrow> idp_token \<Rightarrow> identityClaims \<Rightarrow> string list \<Rightarrow> gtime \<Rightarrow> codeClaims" where
  "callback_claims sc tok i granted now =
     \<lparr>cc_Subject = id_Subject i, cc_Email = id_Email i, cc_Domain = id_HostedDomain i, cc_ClientID = sc_ClientID sc,
      cc_RedirectURI = sc_RedirectURI sc, cc_CodeChallenge = sc_CodeChallenge sc, cc_Resource = sc_Resource sc,
      cc_Scopes = granted, cc_GoogleAccessToken = tok_AccessToken tok, cc_GoogleExpiry = unix (tok_Expiry tok),
      cc_GoogleRefreshToken = tok_RefreshToken tok, cc_IssuedAt = unix now\<rparr>"

text \<open>
  The clock is read when the state is loaded (\<open>clk 0\<close>), opened (\<open>clk 1\<close>), and for the code's
  claims (\<open>clk 2\<close>) and expiry (\<open>clk 3\<close>).
\<close>

definition handleCallback ::
    "runtime \<Rightarrow> netlib \<Rightarrow> auth_server \<Rightarrow> idp \<Rightarrow> 's oauthStateStore \<Rightarrow> 's \<Rightarrow> (nat \<Rightarrow> gtime) \<Rightarrow> string \<Rightarrow> string \<Rightarrow> string
       \<Rightarrow> form \<Rightarrow> 's \<times> http_response" where
  "handleCallback rt net srv p ops s clk rndFamily rndCode nonce q =
     (case loadAuthorizationState rt ops s (clk 0) (q ''state'') True of
        (s', Inl e) \<Rightarrow> (s', load_failure ''login_expired'' ''invalid_callback_state'' e)
      | (s', Inr rec) \<Rightarrow>
          (case openBlob rt (sv_sealer srv) (stateBlob rt) (as_Claims rec) (clk 1) of
             Inl _ \<Rightarrow> (s', ErrorPage 400 ''undecryptable_callback_state'')
           | Inr sc \<Rightarrow>
               (case callback_admission srv p q of
                  Inl (code, desc) \<Rightarrow> (s', redirectError net (sc_RedirectURI sc) (sc_ClientState sc) code desc)
                | Inr (tok, i, granted) \<Rightarrow>
                    (let claims = sealBlob rt (sv_sealer srv) (storedCodeBlob rt) nonce
                                    (callback_claims sc tok i granted (clk 2));
                         familyID = randomOpaque rndFamily;
                         (code, key) = makeAuthorizationCode rt rndCode
                     in case PutCode ops s' key
                               \<lparr>c_Claims = claims, c_Status = ''active'', c_FamilyID = familyID,
                                c_ExpiresAt = clk 3 + codeTTL, c_UsedAt = time_zero\<rparr> of
                          (s'', Some e) \<Rightarrow>
                            (s'', redirectError net (sc_RedirectURI sc) (sc_ClientState sc) ''server_error''
                                    ''authorization state store unavailable'')
                        | (s'', None) \<Rightarrow>
                            (s'', redirectWithParams net (sc_RedirectURI sc) (sc_ClientState sc) [(''code'', code)])))))"

subsection \<open>The token endpoint\<close>

definition tokenError :: "nat \<Rightarrow> string \<Rightarrow> string \<Rightarrow> string \<Rightarrow> http_response" where
  "tokenError status code reason description = OAuthError status code reason description"

definition storeTokenError :: "go_error \<Rightarrow> http_response" where
  "storeTokenError e =
     (if errors_is e errStateNotFound
      then tokenError 400 ''invalid_grant'' ''oauth_state_not_found'' ''invalid or expired OAuth grant''
      else tokenError 503 ''temporarily_unavailable'' ''oauth_store_unavailable'' ''OAuth state store unavailable'')"

fun grantTokenError :: "grant_error \<Rightarrow> http_response" where
  "grantTokenError (StoreFailure op e) = storeTokenError e"
| "grantTokenError (Rejection code reason desc) = tokenError 400 code reason desc"

definition writeMintedTokens :: "runtime \<Rightarrow> auth_server \<Rightarrow> gtime \<Rightarrow> string \<Rightarrow> grantTokens \<Rightarrow> http_response" where
  "writeMintedTokens rt srv now nonce t =
     (case mint_access rt srv now nonce t of Inl e \<Rightarrow> grantTokenError e | Inr (c, resp) \<Rightarrow> TokenJSON resp)"

definition tokenFromCode ::
    "runtime \<Rightarrow> auth_server \<Rightarrow> 's oauthStateStore \<Rightarrow> 's \<Rightarrow> (nat \<Rightarrow> gtime) \<Rightarrow> string \<Rightarrow> (nat \<Rightarrow> string) \<Rightarrow> form
       \<Rightarrow> 's \<times> http_response" where
  "tokenFromCode rt srv ops s clk rnd nonce f =
     (case ExchangeCode rt srv ops s (clk 0) rnd (nonce 0)
             \<lparr>ce_Code = f ''code'', ce_ClientID = f ''client_id'', ce_RedirectURI = f ''redirect_uri'',
              ce_CodeVerifier = f ''code_verifier'', ce_Resource = f ''resource''\<rparr> of
        (s', Inl e) \<Rightarrow> (s', grantTokenError e)
      | (s', Inr t) \<Rightarrow> (s', writeMintedTokens rt srv (clk 1) (nonce 1) t))"

text \<open>
  After the preparation the upstream refresh and the project check run while other requests may
  change the store: \<open>between\<close> is what they do to it before the family is revoked or rotated.
\<close>

definition tokenFromRefresh ::
    "runtime \<Rightarrow> auth_server \<Rightarrow> idp \<Rightarrow> 's oauthStateStore \<Rightarrow> 's \<Rightarrow> ('s \<Rightarrow> 's) \<Rightarrow> (nat \<Rightarrow> gtime) \<Rightarrow> string
       \<Rightarrow> (nat \<Rightarrow> string) \<Rightarrow> form \<Rightarrow> 's \<times> http_response" where
  "tokenFromRefresh rt srv p ops s between clk rnd nonce f =
     (case PrepareRefresh rt srv ops s (clk 0) (f ''refresh_token'') (f ''client_id'') of
        (s1, Inl e) \<Rightarrow> (s1, grantTokenError e)
      | (s1, Inr prepared) \<Rightarrow>
          (let s2 = between s1 in
           case idp_Refresh p (GoogleRefreshToken prepared) of
             Inl e \<Rightarrow>
               if idp_isRetrieveError p e
               then (fst (RevokeFamily ops s2 prepared),
                     tokenError 400 ''invalid_grant'' ''upstream_grant_revoked'' ''upstream grant revoked, log in again'')
               else (s2, tokenError 503 ''temporarily_unavailable'' ''upstream_refresh_failed'' ''upstream token refresh failed'')
           | Inr tok \<Rightarrow>
               (let rotate = (case RotateRefresh rt srv ops s2 rnd (nonce 0) prepared (tok_RefreshToken tok) of
                       (s3, Inl e) \<Rightarrow> (s3, grantTokenError e)
                     | (s3, Inr t) \<Rightarrow>
                         (s3, writeMintedTokens rt srv (clk 1) (nonce 1)
                                (t\<lparr>gt_GoogleAccessToken := tok_AccessToken tok,
                                   gt_GoogleExpiry := unix (tok_Expiry tok)\<rparr>)))
                in if cf_PinnedProject (sv_cfg srv) \<noteq> []
                   then (case checkProjectAccess srv p (tok_AccessToken tok) (cf_PinnedProject (sv_cfg srv)) of
                           Inl e \<Rightarrow> (s2, tokenError 503 ''temporarily_unavailable'' ''project_access_check_failed''
                                           ''access check failed'')
                         | Inr allowed \<Rightarrow>
                             if \<not> allowed
                             then (fst (RevokeFamily ops s2 prepared),
                                   tokenError 400 ''invalid_grant'' ''project_access_lost''
                                     ''account no longer has access to the pinned project'')
                             else rotate)
                   else rotate)))"

definition handleToken ::
    "runtime \<Rightarrow> auth_server \<Rightarrow> idp \<Rightarrow> 's oauthStateStore \<Rightarrow> 's \<Rightarrow> ('s \<Rightarrow> 's) \<Rightarrow> (nat \<Rightarrow> gtime) \<Rightarrow> string
       \<Rightarrow> (nat \<Rightarrow> string) \<Rightarrow> form option \<Rightarrow> 's \<times> http_response" where
  "handleToken rt srv p ops s between clk rnd nonce body =
     (case body of
        None \<Rightarrow> (s, tokenError 400 ''invalid_request'' ''malformed_form_body'' ''malformed form body'')
      | Some f \<Rightarrow>
          if f ''grant_type'' = ''authorization_code'' then tokenFromCode rt srv ops s clk rnd nonce f
          else if f ''grant_type'' = ''refresh_token'' then tokenFromRefresh rt srv p ops s between clk rnd nonce f
          else (s, tokenError 400 ''unsupported_grant_type'' ''unsupported_grant_type''
                     ''supported grant types: authorization_code, refresh_token''))"

subsection \<open>Revocation\<close>

definition handleRevoke ::
    "runtime \<Rightarrow> auth_server \<Rightarrow> idp \<Rightarrow> 's oauthStateStore \<Rightarrow> 's \<Rightarrow> gtime \<Rightarrow> form option \<Rightarrow> 's \<times> http_response" where
  "handleRevoke rt srv p ops s now body =
     (case body of
        None \<Rightarrow> (s, tokenError 400 ''invalid_request'' ''malformed_form_body'' ''malformed form body'')
      | Some f \<Rightarrow>
          (case RevokeToken rt srv ops s now (f ''token'') of
             (s', Inl e) \<Rightarrow> (s', grantTokenError e)
           | (s', Inr None) \<Rightarrow> (s', EmptyOK)
           | (s', Inr (Some g)) \<Rightarrow>
               if rg_GoogleToken g \<noteq> [] \<and> idp_Revoke p (rg_GoogleToken g) \<noteq> None
               then (s', tokenError 503 ''temporarily_unavailable'' ''upstream_revocation_failed''
                           ''upstream revocation failed, retry'')
               else (s', EmptyOK)))"

subsection \<open>The bearer middleware\<close>

record tokenInfo =
  ti_Scopes :: "string list"
  ti_UserID :: string
  ti_Email :: string
  ti_Domain :: string
  ti_GoogleAccessToken :: string
  ti_GoogleExpiry :: gtime

definition verifyAccessToken ::
    "runtime \<Rightarrow> auth_server \<Rightarrow> 's oauthStateStore \<Rightarrow> 's \<Rightarrow> gtime \<Rightarrow> string \<Rightarrow> access_error + tokenInfo" where
  "verifyAccessToken rt srv ops s now token =
     (case VerifyAccess rt srv ops s now token of
        Inl e \<Rightarrow> Inl e
      | Inr c \<Rightarrow> Inr \<lparr>ti_Scopes = ac_Scopes c, ti_UserID = ac_Subject c, ti_Email = ac_Email c, ti_Domain = ac_Domain c,
                      ti_GoogleAccessToken = ac_GoogleAccessToken c, ti_GoogleExpiry = time_unix (ac_GoogleExpiry c)\<rparr>)"

datatype bearer_outcome = Serve tokenInfo | Deny nat string

definition RequireBearerToken ::
    "runtime \<Rightarrow> auth_server \<Rightarrow> 's oauthStateStore \<Rightarrow> 's \<Rightarrow> gtime \<Rightarrow> string \<Rightarrow> bearer_outcome" where
  "RequireBearerToken rt srv ops s now header =
     (case Go_Strings.fields header of
        [scheme, token] \<Rightarrow>
          if \<not> equal_fold scheme ''bearer'' then Deny 401 ''missing_bearer_token''
          else (case verifyAccessToken rt srv ops s now token of
                  Inl (StoreUnavailable _) \<Rightarrow> Deny 503 ''oauth_store_unavailable''
                | Inl (TokenRejection reason) \<Rightarrow> Deny 401 reason
                | Inr info \<Rightarrow> Serve info)
      | _ \<Rightarrow> Deny 401 ''missing_bearer_token'')"

text \<open>\<open>Identity\<close> and \<open>GoogleTokenSource\<close> on the verified token of a request (none on stdio).\<close>

definition Identity :: "tokenInfo option \<Rightarrow> (string \<times> string \<times> string) option" where
  "Identity info =
     (case info of
        None \<Rightarrow> None
      | Some i \<Rightarrow> if ti_UserID i = [] then None else Some (ti_UserID i, ti_Email i, ti_Domain i))"

definition GoogleTokenSource :: "tokenInfo option \<Rightarrow> (string \<times> gtime) option" where
  "GoogleTokenSource info =
     (case info of
        None \<Rightarrow> None
      | Some i \<Rightarrow> if ti_GoogleAccessToken i = [] then None else Some (ti_GoogleAccessToken i, ti_GoogleExpiry i))"

subsection \<open>The project access probe\<close>

definition projectAccessPermission :: string where
  "projectAccessPermission = ''resourcemanager.projects.get''"

text \<open>
  \<open>crm project token\<close> is the answer of Cloud Resource Manager: a transport error, or a status
  with the permissions of its body (\<open>None\<close> when the body does not decode).
\<close>

definition HasProjectAccess ::
    "(string \<Rightarrow> string \<Rightarrow> go_error + (nat \<times> string list option)) \<Rightarrow> string \<Rightarrow> string \<Rightarrow> go_error + bool" where
  "HasProjectAccess crm token project =
     (case crm project token of
        Inl e \<Rightarrow> Inl (Wrap ''calling testIamPermissions'' [e])
      | Inr (status, perms) \<Rightarrow>
          if status = 200 then
            (case perms of
               None \<Rightarrow> Inl (Sentinel ''decoding testIamPermissions response'')
             | Some ps \<Rightarrow> Inr (projectAccessPermission \<in> set ps))
          else if status = 403 \<or> status = 404 then Inr False
          else Inl (Sentinel ''testIamPermissions: unexpected status''))"

text \<open>The upstream revocation: 200 and 400 both mean that the grant is dead.\<close>

definition google_Revoke :: "(string \<Rightarrow> go_error + nat) \<Rightarrow> string \<Rightarrow> go_error option" where
  "google_Revoke post token =
     (case post token of
        Inl e \<Rightarrow> Some (Wrap ''calling Google revoke endpoint'' [e])
      | Inr status \<Rightarrow> if status = 200 \<or> status = 400 then None
                      else Some (Sentinel ''google revoke endpoint returned an unexpected status''))"

end
