(* ===== verification/Oauth_Examples.thy ===== *)
theory Oauth_Examples
  imports Oauth_Grants
begin

text \<open>
  A small concrete deployment on which the hypotheses of the properties are checked: a runtime
  whose cipher and codecs are the simplest functions with the laws the program relies on, a key
  ring of two keys, a configuration, and a store holding one pending code and one grant.
\<close>

definition const_codec :: "'c \<Rightarrow> 'c codec" where
  "const_codec v = \<lparr>marshal = (\<lambda>_. ''{}''), unmarshal = (\<lambda>_. Some v)\<rparr>"

definition ex_issuer :: string where "ex_issuer = ''https://mcp.example''"

definition ex_code_claims :: codeClaims where
  "ex_code_claims = \<lparr>cc_Subject = ''1'', cc_Email = ''a@corp.example'', cc_Domain = ''corp.example'',
     cc_ClientID = ''client'', cc_RedirectURI = ''http://localhost:1/cb'',
     cc_CodeChallenge = b64_encode RawURLEncoding ''verifier'', cc_Resource = ex_issuer,
     cc_Scopes = [''openid'', ''email''], cc_GoogleAccessToken = ''ga'', cc_GoogleExpiry = 3600,
     cc_GoogleRefreshToken = ''gr'', cc_IssuedAt = 0\<rparr>"

definition ex_refresh_claims :: refreshClaims where
  "ex_refresh_claims = code_refresh_claims ex_code_claims 0"

definition ex_access_claims :: accessClaims where
  "ex_access_claims = \<lparr>ac_Subject = ''1'', ac_Email = ''a@corp.example'', ac_Domain = ''corp.example'',
     ac_ClientID = ''client'', ac_Resource = ex_issuer, ac_FamilyID = ''fam'',
     ac_Scopes = [''openid'', ''email''], ac_GoogleAccessToken = ''ga'', ac_GoogleExpiry = 3600,
     ac_IssuedAt = 0, ac_ExpiresAt = 3300\<rparr>"

definition ex_state_claims :: stateClaims where
  "ex_state_claims = \<lparr>sc_ClientID = ''client'', sc_RedirectURI = ''http://localhost:1/cb'',
     sc_ClientState = ''st'', sc_CodeChallenge = b64_encode RawURLEncoding ''verifier'',
     sc_Resource = ex_issuer, sc_IssuedAt = 0\<rparr>"

definition ex_client_claims :: clientIDClaims where
  "ex_client_claims = \<lparr>ci_RedirectURIs = [''http://localhost:1/cb''], ci_ClientName = ''c'', ci_IssuedAt = 0\<rparr>"

definition ex_runtime :: runtime where
  "ex_runtime = \<lparr>rt_sha256 = (\<lambda>s. s), rt_hkdf = (\<lambda>m i. m @ i), rt_seal = (\<lambda>k n p a. p),
     rt_open = (\<lambda>k n ct a. Some ct), rt_hmac = (\<lambda>k m. m),
     json_state = const_codec ex_state_claims, json_code = const_codec ex_code_claims,
     json_access = const_codec ex_access_claims, json_refresh = const_codec ex_refresh_claims,
     json_client = const_codec ex_client_claims\<rparr>"

definition ex_key :: "char \<Rightarrow> ringKey" where
  "ex_key i = \<lparr>rk_id = i, rk_aead = ''aead'', rk_mac = ''mac''\<rparr>"

definition ex_sealer :: sealer where
  "ex_sealer = \<lparr>sl_ring = [ex_key CHR ''A'', ex_key CHR ''B''], sl_issuer = ex_issuer\<rparr>"

definition ex_nonce :: string where "ex_nonce = ''0123456789ab''"

definition ex_config :: Config where
  "ex_config = \<lparr>cf_IssuerURL = ex_issuer, cf_GoogleClientID = ''g'', cf_GoogleClientSecret = ''s'',
     cf_AllowedDomains = [''corp.example''], cf_PinnedProject = [], cf_StateProject = ''state-project'',
     cf_StateDatabase = [], cf_TokenKeys = [], cf_ExtraRedirects = [], cf_Scopes = [],
     cf_RefreshTokenTTL = 0, cf_SkipConsent = False, cf_hasStore = False\<rparr>"

definition ex_server :: auth_server where
  "ex_server = \<lparr>sv_cfg = ex_config, sv_sealer = ex_sealer, sv_policy = defaultExtraRedirects, sv_hasAccess = True\<rparr>"

definition ex_exchange :: codeExchange where
  "ex_exchange = \<lparr>ce_Code = ''code'', ce_ClientID = ''client'', ce_RedirectURI = ''http://localhost:1/cb'',
     ce_CodeVerifier = ''verifier'', ce_Resource = ex_issuer @ ''/''\<rparr>"

definition ex_code :: codeRecord where
  "ex_code = \<lparr>c_Claims = sealBlob ex_runtime ex_sealer (storedCodeBlob ex_runtime) ex_nonce ex_code_claims,
     c_Status = ''active'', c_FamilyID = ''fam'', c_ExpiresAt = codeTTL, c_UsedAt = time_zero\<rparr>"

definition ex_used_code :: codeRecord where
  "ex_used_code = ex_code\<lparr>c_Status := ''used'', c_UsedAt := 1\<rparr>"

definition ex_grant :: grantRecord where
  "ex_grant = \<lparr>g_Claims = sealBlob ex_runtime ex_sealer (storedGrantBlob ex_runtime) ex_nonce ex_refresh_claims,
     g_ActiveSecretHash = tokenHash ex_runtime (randomOpaque ''r''), g_Generation = 1, g_Status = ''active'',
     g_ExpiresAt = 100 * hour, g_UpdatedAt = 0\<rparr>"

definition ex_token :: string where
  "ex_token = fst (makeRefreshToken ex_runtime ''fam'' ''r'')"

definition ex_store :: memoryStateStore where
  "ex_store = \<lparr>ms_states = Map.empty, ms_codes = [tokenHash ex_runtime ''code'' \<mapsto> ex_code],
     ms_grants = [''fam'' \<mapsto> ex_grant]\<rparr>"

definition ex_access_token :: string where
  "ex_access_token = sealBlob ex_runtime ex_sealer (accessBlob ex_runtime) ex_nonce ex_access_claims"

definition ex_prepared :: preparedRefresh where
  "ex_prepared = \<lparr>pr_familyID = ''fam'', pr_record = ex_grant, pr_claims = ex_refresh_claims, pr_startedAt = 1\<rparr>"

lemmas ex_defs =
  const_codec_def ex_issuer_def ex_code_claims_def ex_refresh_claims_def ex_access_claims_def
  ex_state_claims_def ex_client_claims_def ex_runtime_def ex_key_def ex_sealer_def ex_nonce_def
  ex_config_def ex_server_def ex_exchange_def ex_code_def ex_used_code_def ex_grant_def ex_token_def
  ex_store_def ex_access_token_def

lemma ex_aead: "aead_law ex_runtime"
  by (simp add: aead_law_def ex_runtime_def)

lemma ex_ring: "ring_wf (sl_ring ex_sealer)" "length ex_nonce = nonce_size"
  by (simp_all add: ring_wf_def ex_sealer_def ex_key_def ex_nonce_def nonce_size_def)

lemma ex_server_simps [simp]: "sv_sealer ex_server = ex_sealer" "sv_cfg ex_server = ex_config"
  by (simp_all add: ex_server_def)

lemma ex_json:
  "unmarshal (json_code ex_runtime) x = Some ex_code_claims"
  "unmarshal (json_refresh ex_runtime) x = Some ex_refresh_claims"
  "unmarshal (json_access ex_runtime) x = Some ex_access_claims"
  "unmarshal (json_client ex_runtime) x = Some ex_client_claims"
  "unmarshal (json_state ex_runtime) x = Some ex_state_claims"
  by (simp_all add: ex_runtime_def const_codec_def)

lemma ex_open_sealed:
  assumes "unmarshal (bs_json spec) (marshal (bs_json spec) v) = Some v" "bs_ttl spec = 0"
  shows "openBlob ex_runtime ex_sealer spec (sealBlob ex_runtime ex_sealer spec ex_nonce v) now = Inr v"
proof -
  have "distinct (map rk_id (sl_ring ex_sealer))" using ex_ring(1) by (simp add: ring_wf_def)
  from open_sealed [OF ex_aead ex_ring assms(1) this sealKey_in [OF ex_ring(1)] refl] assms(2)
  show ?thesis by simp
qed

lemma ex_open:
  "openBlob ex_runtime ex_sealer (storedCodeBlob ex_runtime) (c_Claims ex_code) now = Inr ex_code_claims"
  "openBlob ex_runtime ex_sealer (storedGrantBlob ex_runtime) (g_Claims ex_grant) now = Inr ex_refresh_claims"
  "openBlob ex_runtime ex_sealer (accessBlob ex_runtime) ex_access_token now = Inr ex_access_claims"
  unfolding ex_code_def ex_grant_def ex_access_token_def codeRecord.simps grantRecord.simps
  by (rule ex_open_sealed; simp add: blob_specs ex_json)+

lemma ex_parse: "parseRefreshToken ex_token = Inr (''fam'', randomOpaque ''r'')"
  by (simp add: ex_token_def parse_make_refresh)

end
