(* ===== verification/Oauth_Lifecycle.thy ===== *)
theory Oauth_Lifecycle
  imports Oauth_Examples
begin

text \<open>
  The laws of the grant lifecycle. The lemmas of the first part hold for every state store that
  satisfies the contract \<open>oauth_state_store\<close>, and are stated over its \<open>view\<close>, the three tables;
  the properties of the second part instantiate them or are stated for the in-memory adapter
  where they say exactly what a call answers.
\<close>

subsection \<open>What a successful operation did, for every store\<close>

definition installed_grant ::
    "runtime \<Rightarrow> auth_server \<Rightarrow> gtime \<Rightarrow> string \<Rightarrow> string \<Rightarrow> codeRecord \<Rightarrow> codeClaims \<Rightarrow> grantRecord" where
  "installed_grant rt srv now rnd nonce rec cc =
     \<lparr>g_Claims = sealBlob rt (sv_sealer srv) (storedGrantBlob rt) nonce (code_refresh_claims cc now),
      g_ActiveSecretHash = snd (makeRefreshToken rt (c_FamilyID rec) rnd), g_Generation = 1,
      g_Status = ''active'', g_ExpiresAt = now + refreshTokenTTL (sv_cfg srv), g_UpdatedAt = now\<rparr>"

definition exchange_admitted ::
    "runtime \<Rightarrow> auth_server \<Rightarrow> gtime \<Rightarrow> codeExchange \<Rightarrow> codeRecord \<Rightarrow> codeClaims \<Rightarrow> bool" where
  "exchange_admitted rt srv now ex rec cc =
     (c_Status rec = ''active'' \<and> now < c_ExpiresAt rec \<and>
      openBlob rt (sv_sealer srv) (storedCodeBlob rt) (c_Claims rec) now = Inr cc \<and>
      ce_ClientID ex = cc_ClientID cc \<and> ce_RedirectURI ex = cc_RedirectURI cc \<and>
      verifyPKCE rt (ce_CodeVerifier ex) (cc_CodeChallenge cc) \<and>
      (ce_Resource ex = [] \<or> trim_right CHR ''/'' (ce_Resource ex) = cf_IssuerURL (sv_cfg srv)))"

definition exchange_tokens :: "runtime \<Rightarrow> string \<Rightarrow> codeRecord \<Rightarrow> codeClaims \<Rightarrow> grantTokens" where
  "exchange_tokens rt rnd rec cc =
     \<lparr>gt_Subject = cc_Subject cc, gt_Email = cc_Email cc, gt_Domain = cc_Domain cc,
      gt_ClientID = cc_ClientID cc, gt_Resource = cc_Resource cc, gt_FamilyID = c_FamilyID rec,
      gt_Scopes = cc_Scopes cc, gt_GoogleAccessToken = cc_GoogleAccessToken cc,
      gt_GoogleExpiry = cc_GoogleExpiry cc, gt_RefreshToken = fst (makeRefreshToken rt (c_FamilyID rec) rnd)\<rparr>"

lemma ExchangeCode_rejected:
  assumes "GetCode ops s (tokenHash rt (ce_Code ex)) = Inr rec" "c_Status rec = ''active''"
    and "\<forall>cc. \<not> exchange_admitted rt srv now ex rec cc"
  shows "\<exists>code reason desc. ExchangeCode rt srv ops s now rnd nonce ex = (s, Inl (Rejection code reason desc))"
  using assms
  by (cases "openBlob rt (sv_sealer srv) (storedCodeBlob rt) (c_Claims rec) now")
     (auto simp: ExchangeCode_def exchange_admitted_def Let_def)

lemma ExchangeCode_admitted:
  assumes "GetCode ops s (tokenHash rt (ce_Code ex)) = Inr rec" "exchange_admitted rt srv now ex rec cc"
  shows "ExchangeCode rt srv ops s now rnd nonce ex =
    (case RedeemCode ops s (tokenHash rt (ce_Code ex)) now (installed_grant rt srv now rnd nonce rec cc) of
       (s', Some e) \<Rightarrow> (s', Inl (if errors_is e errCodeReplay then codeReplay else StoreFailure ''redeem_code'' e))
     | (s', None) \<Rightarrow> (s', Inr (exchange_tokens rt rnd rec cc)))"
  using assms unfolding exchange_admitted_def
  by (elim conjE, simp add: ExchangeCode_def installed_grant_def exchange_tokens_def Let_def case_prod_beta',
      blast)

lemma ExchangeCode_not_active:
  assumes "GetCode ops s (tokenHash rt (ce_Code ex)) = Inr rec" "c_Status rec \<noteq> ''active''"
  shows "ExchangeCode rt srv ops s now rnd nonce ex =
    (fst (RedeemCode ops s (tokenHash rt (ce_Code ex)) now zero_grantRecord), Inl codeReplay)"
  using assms by (simp add: ExchangeCode_def Let_def)

lemma ExchangeCode_no_code:
  assumes "GetCode ops s (tokenHash rt (ce_Code ex)) = Inl e"
  shows "ExchangeCode rt srv ops s now rnd nonce ex = (s, Inl (StoreFailure ''get_code'' e))"
  using assms by (simp add: ExchangeCode_def Let_def)

lemma ExchangeCode_Inr:
  assumes "ExchangeCode rt srv ops s now rnd nonce ex = (s', Inr t)"
  obtains rec cc where "GetCode ops s (tokenHash rt (ce_Code ex)) = Inr rec"
    "exchange_admitted rt srv now ex rec cc" "t = exchange_tokens rt rnd rec cc"
    "RedeemCode ops s (tokenHash rt (ce_Code ex)) now (installed_grant rt srv now rnd nonce rec cc) = (s', None)"
proof (cases "GetCode ops s (tokenHash rt (ce_Code ex))")
  case (Inl e)
  with assms show ?thesis using ExchangeCode_no_code [OF Inl] by simp
next
  case (Inr rec)
  show ?thesis
  proof (cases "c_Status rec = ''active''")
    case False
    with assms show ?thesis using ExchangeCode_not_active [OF Inr False] by simp
  next
    case True
    show ?thesis
    proof (cases "\<exists>cc. exchange_admitted rt srv now ex rec cc")
      case False
      then show ?thesis
        using ExchangeCode_rejected [OF Inr True, of srv now rnd nonce] assms by fastforce
    next
      case ex: True
      then obtain cc where "exchange_admitted rt srv now ex rec cc" ..
      with ExchangeCode_admitted [OF Inr this] assms Inr show ?thesis
        by (intro that [of rec cc]) (auto split: prod.splits option.splits)
    qed
  qed
qed


definition refresh_admitted ::
    "runtime \<Rightarrow> auth_server \<Rightarrow> gtime \<Rightarrow> string \<Rightarrow> string \<Rightarrow> grantRecord \<Rightarrow> refreshClaims \<Rightarrow> bool" where
  "refresh_admitted rt srv now secret clientID rec rc =
     (grantActive rec now \<and> secretMatches rt secret (g_ActiveSecretHash rec) \<and>
      openBlob rt (sv_sealer srv) (storedGrantBlob rt) (g_Claims rec) now = Inr rc \<and>
      rc_GoogleRefreshToken rc \<noteq> [] \<and> (clientID = [] \<or> clientID = rc_ClientID rc) \<and>
      (cf_AllowedDomains (sv_cfg srv) = [] \<or> domainAllowed (sv_cfg srv) (rc_Domain rc) (rc_Email rc)))"

lemma PrepareRefresh_mismatch:
  assumes "parseRefreshToken token = Inr (F, secret)" "GetGrant ops s F = Inr rec"
    and "grantActive rec now" "\<not> secretMatches rt secret (g_ActiveSecretHash rec)"
    and "RotateGrant ops s F (tokenHash rt secret) zero_grantRecord now = (s', r)"
  shows "PrepareRefresh rt srv ops s now token clientID =
    (s', Inl (case r of None \<Rightarrow> refreshReplay
              | Some e \<Rightarrow> if errors_is e errGrantReplay \<or> errors_is e errGrantInactive then refreshReplay
                         else StoreFailure ''revoke_replayed_grant'' e))"
  using assms by (cases r) (simp_all add: PrepareRefresh_def)

lemma PrepareRefresh_inactive:
  assumes "parseRefreshToken token = Inr (F, secret)" "GetGrant ops s F = Inr rec" "\<not> grantActive rec now"
  shows "PrepareRefresh rt srv ops s now token clientID =
    (s, Inl (Rejection ''invalid_grant'' ''grant_inactive'' ''refresh grant is inactive or expired''))"
  using assms by (simp add: PrepareRefresh_def)

lemma PrepareRefresh_matching:
  assumes "parseRefreshToken token = Inr (F, secret)" "GetGrant ops s F = Inr rec"
    and "grantActive rec now" "secretMatches rt secret (g_ActiveSecretHash rec)"
  shows "refresh_admitted rt srv now secret clientID rec rc \<Longrightarrow>
           PrepareRefresh rt srv ops s now token clientID =
             (s, Inr \<lparr>pr_familyID = F, pr_record = rec, pr_claims = rc, pr_startedAt = now\<rparr>)"
    and "\<forall>rc. \<not> refresh_admitted rt srv now secret clientID rec rc \<Longrightarrow>
           \<exists>e. PrepareRefresh rt srv ops s now token clientID = (s, Inl e)"
proof -
  show "PrepareRefresh rt srv ops s now token clientID =
          (s, Inr \<lparr>pr_familyID = F, pr_record = rec, pr_claims = rc, pr_startedAt = now\<rparr>)"
    if "refresh_admitted rt srv now secret clientID rec rc"
    using assms that by (auto simp: PrepareRefresh_def refresh_admitted_def)
  show "\<exists>e. PrepareRefresh rt srv ops s now token clientID = (s, Inl e)"
    if "\<forall>rc. \<not> refresh_admitted rt srv now secret clientID rec rc"
    using assms that
    by (cases "openBlob rt (sv_sealer srv) (storedGrantBlob rt) (g_Claims rec) now")
       (simp_all add: PrepareRefresh_def refresh_admitted_def, blast)
qed

lemma PrepareRefresh_Inr:
  assumes "PrepareRefresh rt srv ops s now token clientID = (s', Inr p)"
  obtains F secret rec rc where "parseRefreshToken token = Inr (F, secret)" "GetGrant ops s F = Inr rec"
    "refresh_admitted rt srv now secret clientID rec rc" "s' = s"
    "p = \<lparr>pr_familyID = F, pr_record = rec, pr_claims = rc, pr_startedAt = now\<rparr>"
proof (cases "parseRefreshToken token")
  case (Inl e)
  with assms show ?thesis by (simp add: PrepareRefresh_def)
next
  case (Inr fs)
  obtain F secret where parsed: "parseRefreshToken token = Inr (F, secret)" using Inr by (cases fs) simp
  show ?thesis
  proof (cases "GetGrant ops s F")
    case (Inl e)
    with assms parsed show ?thesis by (simp add: PrepareRefresh_def)
  next
    case (Inr rec)
    consider (inactive) "\<not> grantActive rec now"
      | (mismatch) "grantActive rec now" "\<not> secretMatches rt secret (g_ActiveSecretHash rec)"
      | (match) "grantActive rec now" "secretMatches rt secret (g_ActiveSecretHash rec)"
      by blast
    then show ?thesis
    proof cases
      case inactive
      with assms show ?thesis using PrepareRefresh_inactive [OF parsed Inr, of now rt srv clientID] by simp
    next
      case mismatch
      obtain t r where "RotateGrant ops s F (tokenHash rt secret) zero_grantRecord now = (t, r)"
        by (cases "RotateGrant ops s F (tokenHash rt secret) zero_grantRecord now")
      with assms mismatch show ?thesis using PrepareRefresh_mismatch [OF parsed Inr mismatch, of t r srv clientID] by simp
    next
      case match
      show ?thesis
      proof (cases "\<exists>rc. refresh_admitted rt srv now secret clientID rec rc")
        case True
        then obtain rc where "refresh_admitted rt srv now secret clientID rec rc" ..
        with PrepareRefresh_matching(1) [OF parsed Inr match this] assms parsed Inr show ?thesis
          by (intro that) auto
      next
        case False
        with PrepareRefresh_matching(2) [OF parsed Inr match, of srv clientID] assms show ?thesis by auto
      qed
    qed
  qed
qed

definition rotated_claims :: "preparedRefresh \<Rightarrow> string \<Rightarrow> refreshClaims" where
  "rotated_claims p googleRefresh =
     (if googleRefresh \<noteq> [] then (pr_claims p)\<lparr>rc_GoogleRefreshToken := googleRefresh\<rparr> else pr_claims p)"

lemma RotateRefresh_call:
  assumes "RotateGrant ops s (pr_familyID p) (g_ActiveSecretHash (pr_record p))
             (rotation_record rt srv rnd nonce p (rotated_claims p gr)) (pr_startedAt p) = (s', r)"
  shows "fst (RotateRefresh rt srv ops s rnd nonce p gr) = s'"
    and "r = None \<Longrightarrow> \<exists>t. snd (RotateRefresh rt srv ops s rnd nonce p gr) = Inr t \<and>
           gt_FamilyID t = pr_familyID p \<and> gt_RefreshToken t = fst (makeRefreshToken rt (pr_familyID p) rnd)"
    and "r = Some e \<Longrightarrow> snd (RotateRefresh rt srv ops s rnd nonce p gr) =
           Inl (if errors_is e errGrantReplay \<or> errors_is e errGrantInactive then refreshReplay
                else StoreFailure ''rotate_grant'' e)"
  using assms by (simp_all add: RotateRefresh_def rotated_claims_def Let_def split: option.splits)

lemma RotateRefresh_Inr:
  assumes "RotateRefresh rt srv ops s rnd nonce p gr = (s', Inr t)"
  shows "RotateGrant ops s (pr_familyID p) (g_ActiveSecretHash (pr_record p))
           (rotation_record rt srv rnd nonce p (rotated_claims p gr)) (pr_startedAt p) = (s', None)"
    and "gt_FamilyID t = pr_familyID p" "gt_RefreshToken t = fst (makeRefreshToken rt (pr_familyID p) rnd)"
  using assms by (auto simp: RotateRefresh_def rotated_claims_def Let_def split: prod.splits option.splits)

lemma VerifyAccess_Inr_iff:
  "VerifyAccess rt srv ops s now token = Inr c \<longleftrightarrow>
     openBlob rt (sv_sealer srv) (accessBlob rt) token now = Inr c \<and> now < time_unix (ac_ExpiresAt c) \<and>
     (\<exists>g. GetGrant ops s (ac_FamilyID c) = Inr g \<and> grantActive g now) \<and>
     (cf_AllowedDomains (sv_cfg srv) = [] \<or> domainAllowed (sv_cfg srv) (ac_Domain c) (ac_Email c))"
  by (auto simp: VerifyAccess_def Let_def split: sum.splits if_splits)

lemma VerifyAccess_cases:
  assumes "openBlob rt (sv_sealer srv) (accessBlob rt) token now = Inr c"
  shows "VerifyAccess rt srv ops s now token =
    (case GetGrant ops s (ac_FamilyID c) of
       Inl e \<Rightarrow> if \<not> errors_is e errStateNotFound then Inl (StoreUnavailable e)
                else Inl (TokenRejection (if now < time_unix (ac_ExpiresAt c) then ''grant_not_found''
                                          else ''access_token_expired''))
     | Inr g \<Rightarrow> if \<not> now < time_unix (ac_ExpiresAt c) then Inl (TokenRejection ''access_token_expired'')
                else if \<not> grantActive g now then Inl (TokenRejection ''grant_inactive'')
                else if cf_AllowedDomains (sv_cfg srv) \<noteq> [] \<and>
                        \<not> domainAllowed (sv_cfg srv) (ac_Domain c) (ac_Email c)
                then Inl (TokenRejection ''domain_not_allowed'') else Inr c)"
  using assms by (simp add: VerifyAccess_def Let_def split: sum.splits)

subsection \<open>The laws of the lifecycle, for every store\<close>

text \<open>A family is dead in the tables when its record, if it has one, is not active.\<close>

definition family_dead :: "memoryStateStore \<Rightarrow> string \<Rightarrow> bool" where
  "family_dead db F = (\<forall>g. ms_grants db F = Some g \<longrightarrow> g_Status g \<noteq> ''active'')"

text \<open>
  Nothing is granted to a family any more: no access token of it verifies and no refresh token of
  it is accepted, at any time, by any server that shares the store.
\<close>

definition family_refused :: "'s oauthStateStore \<Rightarrow> 's \<Rightarrow> string \<Rightarrow> bool" where
  "family_refused ops s F =
     (\<forall>rt srv now token.
        (\<forall>c. VerifyAccess rt srv ops s now token = Inr c \<longrightarrow> ac_FamilyID c \<noteq> F) \<and>
        (\<forall>secret clientID p. parseRefreshToken token = Inr (F, secret) \<longrightarrow>
           snd (PrepareRefresh rt srv ops s now token clientID) \<noteq> Inr p))"

lemma family_dead_revoked: "revoked_family db F now db' \<Longrightarrow> family_dead db' F"
  by (auto simp: revoked_family_def family_dead_def split: option.splits)

lemma rotate_replayed_dead: "rotate_replayed db F h now db' \<Longrightarrow> family_dead db' F"
  by (auto simp: rotate_replayed_def family_dead_def)

lemma redeem_replayed_dead:
  "redeem_replayed db k now db' \<Longrightarrow> ms_codes db k = Some rec \<Longrightarrow> family_dead db' (c_FamilyID rec)"
  by (auto simp: redeem_replayed_def intro: family_dead_revoked)

lemma family_dead_inactive: "family_dead db F \<Longrightarrow> ms_grants db F = Some g \<Longrightarrow> \<not> grantActive g now"
  by (simp add: family_dead_def grantActive_def)

context oauth_state_store begin

lemma exchange_ok:
  assumes "ExchangeCode rt srv ops s now rnd nonce ex = (s', Inr t)"
  shows "\<exists>rec cc. ms_codes (view s) (tokenHash rt (ce_Code ex)) = Some rec \<and>
           exchange_admitted rt srv now ex rec cc \<and> t = exchange_tokens rt rnd rec cc \<and>
           redeemed (view s) (tokenHash rt (ce_Code ex)) now (installed_grant rt srv now rnd nonce rec cc) (view s')"
  using assms
proof (rule ExchangeCode_Inr)
  fix rec cc
  assume "GetCode ops s (tokenHash rt (ce_Code ex)) = Inr rec" "exchange_admitted rt srv now ex rec cc"
    "t = exchange_tokens rt rnd rec cc"
    "RedeemCode ops s (tokenHash rt (ce_Code ex)) now (installed_grant rt srv now rnd nonce rec cc) = (s', None)"
  with get_code redeem_ok show ?thesis by blast
qed

text \<open>A code that is not in the active state is never exchanged.\<close>

lemma exchange_needs_active:
  assumes "ms_codes (view s) (tokenHash rt (ce_Code ex)) = Some rec" "c_Status rec \<noteq> ''active''"
  shows "\<nexists>t. snd (ExchangeCode rt srv ops s now rnd nonce ex) = Inr t"
proof
  assume "\<exists>t. snd (ExchangeCode rt srv ops s now rnd nonce ex) = Inr t"
  then obtain s' t where "ExchangeCode rt srv ops s now rnd nonce ex = (s', Inr t)"
    by (metis prod.collapse)
  from exchange_ok [OF this] assms show False by (auto simp: exchange_admitted_def)
qed

lemma exchange_spends_code:
  assumes "ExchangeCode rt srv ops s now rnd nonce ex = (s', Inr t)"
  shows "\<exists>rec. ms_codes (view s') (tokenHash rt (ce_Code ex)) = Some rec \<and> c_Status rec = ''used''"
  using exchange_ok [OF assms] by (auto simp: redeemed_def)

lemma prepare_ok:
  assumes "PrepareRefresh rt srv ops s now token clientID = (s', Inr p)"
  shows "s' = s \<and> ms_grants (view s) (pr_familyID p) = Some (pr_record p) \<and> pr_startedAt p = now \<and>
         (\<exists>secret. parseRefreshToken token = Inr (pr_familyID p, secret) \<and>
            refresh_admitted rt srv now secret clientID (pr_record p) (pr_claims p))"
  using assms by (rule PrepareRefresh_Inr) (use get_grant in auto)

text \<open>Rotation installs the next record only over the record it was prepared from.\<close>

lemma rotate_refresh_ok:
  assumes "RotateRefresh rt srv ops s rnd nonce p gr = (s', Inr t)"
  shows "\<exists>cur. ms_grants (view s) (pr_familyID p) = Some cur \<and> grantActive cur (pr_startedAt p) \<and>
           g_ActiveSecretHash cur = g_ActiveSecretHash (pr_record p) \<and>
           view s' = (view s)\<lparr>ms_grants := (ms_grants (view s))
             (pr_familyID p \<mapsto> rotation_record rt srv rnd nonce p (rotated_claims p gr))\<rparr>"
  using rotate_ok [OF RotateRefresh_Inr(1) [OF assms]]
  by (auto simp: rotated_def grantRotationDecision_None_iff)

lemma rotate_refresh_once:
  assumes "RotateRefresh rt srv ops s rnd nonce p gr = (s', Inr t)"
    and "tokenHash rt (randomOpaque rnd) \<noteq> g_ActiveSecretHash (pr_record p)"
  shows "\<nexists>t'. snd (RotateRefresh rt srv ops s' rnd' nonce' p gr') = Inr t'"
proof
  assume "\<exists>t'. snd (RotateRefresh rt srv ops s' rnd' nonce' p gr') = Inr t'"
  then obtain s'' t' where "RotateRefresh rt srv ops s' rnd' nonce' p gr' = (s'', Inr t')"
    by (metis prod.collapse)
  from rotate_refresh_ok [OF this] rotate_refresh_ok [OF assms(1)] assms(2) show False
    by (auto simp: rotation_record_def makeRefreshToken_def Let_def)
qed

lemma verify_access_ok:
  assumes "VerifyAccess rt srv ops s now token = Inr c"
  shows "\<exists>g. ms_grants (view s) (ac_FamilyID c) = Some g \<and> grantActive g now \<and> now < time_unix (ac_ExpiresAt c)"
  using assms get_grant by (auto simp: VerifyAccess_Inr_iff)

lemma verify_access_dead:
  assumes "family_dead (view s) F"
  shows "VerifyAccess rt srv ops s now token = Inr c \<Longrightarrow> ac_FamilyID c \<noteq> F"
  using verify_access_ok [of rt srv s now token c] family_dead_inactive [OF assms] by blast

lemma prepare_dead:
  assumes "family_dead (view s) F" "parseRefreshToken token = Inr (F, secret)"
  shows "\<nexists>p. snd (PrepareRefresh rt srv ops s now token clientID) = Inr p"
proof
  assume "\<exists>p. snd (PrepareRefresh rt srv ops s now token clientID) = Inr p"
  then obtain s' p where "PrepareRefresh rt srv ops s now token clientID = (s', Inr p)"
    by (metis prod.collapse)
  from prepare_ok [OF this] assms family_dead_inactive [OF assms(1)] show False
    by (auto simp: refresh_admitted_def)
qed

lemma dead_family_refused:
  assumes "family_dead (view s) F"
  shows "family_refused ops s F"
  using verify_access_dead [OF assms] prepare_dead [OF assms] by (simp add: family_refused_def)

lemma revoke_family_dead:
  assumes "RevokeFamily ops s p = (s', None)"
  shows "family_dead (view s') (pr_familyID p)"
proof -
  have "RevokeGrant ops s (pr_familyID p) (pr_startedAt p) = (s', None)"
    using assms by (auto simp: RevokeFamily_def split: prod.splits option.splits)
  from revoke_ok [OF this] show ?thesis by (auto simp: family_dead_def revoked_existing_def)
qed

lemma revoke_token_cases:
  assumes "RevokeToken rt srv ops s now token = (s', Inr r)"
  shows "case r of None \<Rightarrow> view s' = view s | Some g \<Rightarrow> family_dead (view s') (rg_FamilyID g)"
proof (cases "openBlob rt (sv_sealer srv) (accessBlob rt) token now")
  case (Inr ac)
  obtain s1 r1 where call: "RevokeGrant ops s (ac_FamilyID ac) now = (s1, r1)"
    by (cases "RevokeGrant ops s (ac_FamilyID ac) now")
  show ?thesis
  proof (cases r1)
    case None
    with assms Inr call revoke_ok [of s "ac_FamilyID ac" now s1] show ?thesis
      by (auto simp: RevokeToken_def family_dead_def revoked_existing_def split: option.splits)
  next
    case (Some e)
    with assms Inr call show ?thesis by (simp add: RevokeToken_def)
  qed
next
  case (Inl e0)
  show ?thesis
  proof (cases "parseRefreshToken token")
    case (Inl e)
    with assms \<open>openBlob _ _ _ _ _ = Inl e0\<close> show ?thesis by (auto simp: RevokeToken_def)
  next
    case (Inr fs)
    obtain F secret where parsed: "parseRefreshToken token = Inr (F, secret)" using Inr by (cases fs) simp
    show ?thesis
    proof (cases "GetGrant ops s F")
      case (Inl e)
      with assms parsed \<open>openBlob _ _ _ _ _ = Inl e0\<close> show ?thesis
        by (auto simp: RevokeToken_def split: if_splits)
    next
      case (Inr rec)
      obtain s1 r1 where call: "RevokeGrantIfSecret ops s F (tokenHash rt secret) now = (s1, r1)"
        by (cases "RevokeGrantIfSecret ops s F (tokenHash rt secret) now")
      show ?thesis
      proof (cases r1)
        case (Inl e)
        with assms parsed Inr call \<open>openBlob _ _ _ _ _ = Inl e0\<close> show ?thesis
          by (auto simp: RevokeToken_def split: if_splits)
      next
        case (Inr b)
        with revoke_secret_ok [of s F "tokenHash rt secret" now s1 b] call
        have "if b then family_dead (view s1) F else view s1 = view s"
          by (auto simp: revoked_possessed_def family_dead_def split: if_splits)
        with assms parsed \<open>GetGrant ops s F = Inr rec\<close> Inr call \<open>openBlob _ _ _ _ _ = Inl e0\<close> show ?thesis
          by (auto simp: RevokeToken_def Let_def split: if_splits sum.splits)
      qed
    qed
  qed
qed

end

end
