(* ===== verification/Oauth_Config_Props.thy ===== *)
theory Oauth_Config_Props
  imports Oauth_Examples
begin

text \<open>The properties of the key ring, the sealed values and the deployment configuration.\<close>

text \<open>
  C10: key rotation is transparent: whatever was sealed with the key ring built from a list of
  configured keys opens, to the value that was sealed, under any ring built by putting further keys in
  front of that list, unless the blob's own lifetime is over.
\<close>

theorem key_rotation_keeps_blobs:
  assumes "newKeyRing rt olds = Inr ring" "newKeyRing rt (news @ olds) = Inr ring'"
    and "aead_law rt" "length nonce = nonce_size"
    and "unmarshal (bs_json spec) (marshal (bs_json spec) v) = Some v"
  shows "openBlob rt \<lparr>sl_ring = ring', sl_issuer = iss\<rparr> spec
           (sealBlob rt \<lparr>sl_ring = ring, sl_issuer = iss\<rparr> spec nonce v) now =
         (if 0 < bs_ttl spec \<and> expired (bs_issuedAt spec v) (bs_ttl spec) now then Inl errBlobExpired else Inr v)"
proof (rule open_sealed [OF assms(3) _ assms(4,5)])
  show "ring_wf (sl_ring \<lparr>sl_ring = ring, sl_issuer = iss\<rparr>)" using newKeyRing_wf [OF assms(1)] by simp
  then show "sealKey (sl_ring \<lparr>sl_ring = ring, sl_issuer = iss\<rparr>) \<in> set (sl_ring \<lparr>sl_ring = ring', sl_issuer = iss\<rparr>)"
    using newKeyRing_rotated(1) [OF assms(1,2)] sealKey_in [of ring] by auto
  show "distinct (map rk_id (sl_ring \<lparr>sl_ring = ring', sl_issuer = iss\<rparr>))"
    using newKeyRing_wf [OF assms(2)] by (simp add: ring_wf_def)
qed simp

definition ex_master :: "char \<Rightarrow> string" where
  "ex_master c = b64_encode StdEncoding (c # replicate 31 CHR ''k'')"

lemma ex_decode: "decodeMasterKey (ex_master c) = Inr (c # replicate 31 CHR ''k'')"
  by (simp add: decodeMasterKey_def ex_master_def masterKeyLen_def del: b64_encode.simps)

lemma ex_rings:
  "newKeyRing ex_runtime [ex_master CHR ''A''] = Inr [deriveRingKey ex_runtime (CHR ''A'' # replicate 31 CHR ''k'')]"
  "newKeyRing ex_runtime ([ex_master CHR ''B''] @ [ex_master CHR ''A'']) =
     Inr [deriveRingKey ex_runtime (CHR ''B'' # replicate 31 CHR ''k''),
          deriveRingKey ex_runtime (CHR ''A'' # replicate 31 CHR ''k'')]"
  by (simp_all add: newKeyRing_def ex_decode deriveRingKey_def sum0_def ex_runtime_def)

theorem key_rotation_keeps_blobs_witness:
  "openBlob ex_runtime \<lparr>sl_ring = [deriveRingKey ex_runtime (CHR ''B'' # replicate 31 CHR ''k''),
          deriveRingKey ex_runtime (CHR ''A'' # replicate 31 CHR ''k'')], sl_issuer = ex_issuer\<rparr> (accessBlob ex_runtime)
     (sealBlob ex_runtime \<lparr>sl_ring = [deriveRingKey ex_runtime (CHR ''A'' # replicate 31 CHR ''k'')],
        sl_issuer = ex_issuer\<rparr> (accessBlob ex_runtime) ex_nonce ex_access_claims) 7 = Inr ex_access_claims"
  using key_rotation_keeps_blobs [OF ex_rings ex_aead ex_ring(2), of "accessBlob ex_runtime" ex_access_claims ex_issuer 7]
  by (simp add: accessBlob_def ex_json)

text \<open>
  An accepted configuration is a fixed point of its validation, and it is safe to serve: the
  issuer has no trailing slash, is https or a loopback http URL and carries no user, query or
  fragment; an unpinned deployment restricts the account domains; the keys form a ring with
  distinct IDs; and every extra redirect is a valid exact-match entry.
\<close>

theorem validated_config:
  assumes "Validate rt net c0 = Inr c"
  shows "Validate rt net c = Inr c \<and>
         (cf_IssuerURL c = [] \<or> last (cf_IssuerURL c) \<noteq> CHR ''/'') \<and>
         (\<exists>u. url_parse net (cf_IssuerURL c) = Some u \<and> \<not> u_HasUser u \<and> u_RawQuery u = [] \<and> u_Fragment u = [] \<and>
              (u_Scheme u = ''https'' \<and> u_Host u \<noteq> [] \<or> u_Scheme u = ''http'' \<and> isLoopbackHost net (u_Hostname u))) \<and>
         (cf_PinnedProject c = [] \<longrightarrow> cf_AllowedDomains c \<noteq> []) \<and>
         (\<exists>ring. newKeyRing rt (cf_TokenKeys c) = Inr ring \<and> ring_wf ring) \<and>
         list_all (validAllowlistedRedirect net) (cf_ExtraRedirects c)"
  using assms
proof (rule Validate_ok)
  fix u ring
  assume c: "c = c0\<lparr>cf_IssuerURL := trim_right CHR ''/'' (cf_IssuerURL c0),
             cf_StateDatabase := (if cf_StateDatabase c0 = [] then ''(default)'' else cf_StateDatabase c0)\<rparr>"
    and u: "url_parse net (cf_IssuerURL c) = Some u" "u_IsAbs u" "\<not> u_HasUser u" "u_RawQuery u = []" "u_Fragment u = []"
      "u_Scheme u = ''https'' \<and> u_Host u \<noteq> [] \<or> u_Scheme u = ''http'' \<and> isLoopbackHost net (u_Hostname u)"
    and k: "cf_GoogleClientID c \<noteq> []" "cf_GoogleClientSecret c \<noteq> []"
      "cf_PinnedProject c \<noteq> [] \<or> cf_AllowedDomains c \<noteq> []"
      "cf_PinnedProject c = [] \<or> gcpProjectIDPattern (cf_PinnedProject c)"
      "cf_hasStore c \<or> cf_StateProject c \<noteq> []"
      "cf_StateProject c = [] \<or> gcpProjectIDPattern (cf_StateProject c)"
      "\<not> list_ex blank (cf_AllowedDomains c)" "cf_TokenKeys c \<noteq> []"
      "newKeyRing rt (cf_TokenKeys c) = Inr ring" "list_all (validAllowlistedRedirect net) (cf_ExtraRedirects c)"
      "0 \<le> cf_RefreshTokenTTL c"
  have issuer: "cf_IssuerURL c = trim_right CHR ''/'' (cf_IssuerURL c0)" and db: "cf_StateDatabase c \<noteq> []"
    by (simp_all add: c)
  have same: "c\<lparr>cf_IssuerURL := trim_right CHR ''/'' (cf_IssuerURL c)\<rparr> = c"
    by (simp add: issuer)
  have "Validate rt net c = Inr c"
    using u k db unfolding Validate_def same Let_def by auto
  moreover have "cf_IssuerURL c = [] \<or> last (cf_IssuerURL c) \<noteq> CHR ''/''"
    using trim_right_last [of "CHR ''/''" "cf_IssuerURL c0"] by (auto simp: issuer)
  moreover have "ring_wf ring" using newKeyRing_wf [OF k(9)] ..
  ultimately show ?thesis using u k by blast
qed

definition ex_url :: "string \<Rightarrow> go_url option" where
  "ex_url s = (if s = ex_issuer
     then Some \<lparr>u_Scheme = ''https'', u_Opaque = [], u_HasUser = False, u_Host = ''mcp.example'', u_Path = [],
                u_RawQuery = [], u_Fragment = []\<rparr>
     else if s = ''http://localhost:1/cb''
     then Some \<lparr>u_Scheme = ''http'', u_Opaque = [], u_HasUser = False, u_Host = ''localhost:1'', u_Path = ''/cb'',
                u_RawQuery = [], u_Fragment = []\<rparr>
     else if s = ''http://localhost:2/cb''
     then Some \<lparr>u_Scheme = ''http'', u_Opaque = [], u_HasUser = False, u_Host = ''localhost:2'', u_Path = ''/cb'',
                u_RawQuery = [], u_Fragment = []\<rparr>
     else None)"

definition ex_net :: netlib where
  "ex_net = \<lparr>url_parse = ex_url, loopback_ip = (\<lambda>h. h = ''127.0.0.1'')\<rparr>"

definition ex_raw_config :: Config where
  "ex_raw_config = ex_config\<lparr>cf_IssuerURL := ex_issuer @ ''//'', cf_TokenKeys := [ex_master CHR ''A'']\<rparr>"

lemma ex_validate:
  "Validate ex_runtime ex_net ex_raw_config =
     Inr (ex_raw_config\<lparr>cf_IssuerURL := ex_issuer, cf_StateDatabase := ''(default)''\<rparr>)"
  using ex_rings(1)
  by (simp add: Validate_def Let_def ex_raw_config_def ex_config_def ex_net_def ex_url_def ex_issuer_def
      trim_right_def u_IsAbs_def gcpProjectIDPattern_def is_lower_def is_digit_def blank_def is_space_def)

theorem validated_config_witness:
  "Validate ex_runtime ex_net (ex_raw_config\<lparr>cf_IssuerURL := ex_issuer, cf_StateDatabase := ''(default)''\<rparr>) =
     Inr (ex_raw_config\<lparr>cf_IssuerURL := ex_issuer, cf_StateDatabase := ''(default)''\<rparr>)"
  using validated_config [OF ex_validate] by blast

end
