(* ===== verification/Oauth_Http_Props.thy ===== *)
theory Oauth_Http_Props
  imports Oauth_Http Oauth_Lifecycle Oauth_Config_Props
begin

text \<open>The properties of the HTTP endpoints.\<close>

subsection \<open>Authorization\<close>

definition authorize_trusted :: "runtime \<Rightarrow> netlib \<Rightarrow> auth_server \<Rightarrow> form \<Rightarrow> clientIDClaims \<Rightarrow> bool" where
  "authorize_trusted rt net srv q client =
     (verifyClientID rt (sv_sealer srv) (q ''client_id'') = Inr client \<and> q ''redirect_uri'' \<noteq> [] \<and>
      matchRegistered net (ci_RedirectURIs client) (q ''redirect_uri'') \<and>
      redirect_allowed net (sv_policy srv) (q ''redirect_uri''))"

definition authorize_wellformed :: "auth_server \<Rightarrow> form \<Rightarrow> bool" where
  "authorize_wellformed srv q =
     (q ''response_type'' = ''code'' \<and> q ''code_challenge'' \<noteq> [] \<and> q ''code_challenge_method'' = ''S256'' \<and>
      (q ''resource'' = [] \<or> trim_right CHR ''/'' (q ''resource'') = cf_IssuerURL (sv_cfg srv)))"

definition authorize_record ::
    "runtime \<Rightarrow> auth_server \<Rightarrow> (nat \<Rightarrow> gtime) \<Rightarrow> string \<Rightarrow> form \<Rightarrow> authorizationStateRecord" where
  "authorize_record rt srv clk nonce q =
     \<lparr>as_Claims = sealBlob rt (sv_sealer srv) (stateBlob rt) nonce (state_claims_of q (clk 0)),
      as_Status = ''active'', as_ExpiresAt = clk 1 + stateTTL, as_UsedAt = time_zero\<rparr>"

lemma handleAuthorize_untrusted:
  assumes "\<forall>client. \<not> authorize_trusted rt net srv q client"
  shows "\<exists>reason. handleAuthorize rt net srv ops s clk rnd nonce q = (s, ErrorPage 400 reason)"
proof (cases "verifyClientID rt (sv_sealer srv) (q ''client_id'')")
  case (Inl e)
  then show ?thesis by (simp add: handleAuthorize_def)
next
  case (Inr client)
  with assms have "q ''redirect_uri'' = [] \<or> \<not> matchRegistered net (ci_RedirectURIs client) (q ''redirect_uri'') \<or>
      \<not> redirect_allowed net (sv_policy srv) (q ''redirect_uri'')"
    by (auto simp: authorize_trusted_def)
  with Inr show ?thesis by (simp add: handleAuthorize_def Let_def)
qed

lemma handleAuthorize_malformed:
  assumes "authorize_trusted rt net srv q client" "\<not> authorize_wellformed srv q"
  shows "\<exists>code desc. handleAuthorize rt net srv ops s clk rnd nonce q =
           (s, redirectError net (q ''redirect_uri'') (q ''state'') code desc)"
  using assms unfolding authorize_trusted_def authorize_wellformed_def
  by (simp add: handleAuthorize_def Let_def, blast)

lemma handleAuthorize_stored:
  assumes "authorize_trusted rt net srv q client" "authorize_wellformed srv q"
  shows "handleAuthorize rt net srv ops s clk rnd nonce q =
    (case PutAuthorizationState ops s (tokenHash rt (prefixState @ randomOpaque rnd)) (authorize_record rt srv clk nonce q) of
       (s', Some e) \<Rightarrow> (s', redirectError net (q ''redirect_uri'') (q ''state'') ''server_error''
                              ''authorization state store unavailable'')
     | (s', None) \<Rightarrow>
         (s', if cf_SkipConsent (sv_cfg srv) then redirectToGoogle (sv_cfg srv) (prefixState @ randomOpaque rnd)
              else ConsentPage (clientDisplayName client) (q ''redirect_uri'') (prefixState @ randomOpaque rnd)))"
  using assms unfolding authorize_trusted_def authorize_wellformed_def
  by (auto simp: handleAuthorize_def authorize_record_def Let_def split: prod.split option.split)

lemma redirectError_target: "redirectError net uri st code desc = RedirectTo u ps \<Longrightarrow> u = uri"
  by (auto simp: redirectError_def redirectWithParams_def split: option.splits)

lemma redirectToGoogle_target [simp]: "redirectToGoogle cfg tok \<noteq> RedirectTo u ps"
  by (simp add: redirectToGoogle_def)

text \<open>
  C9: the authorization endpoint is not an open redirector: whenever it redirects the browser
  back to a client, the target is the requested redirect URI, that URI matches the registration
  inside the verified client ID (exactly, or as a loopback URI that differs in the port only), and
  the server's own policy allows it (a loopback http URI or an exactly listed one).
\<close>

theorem authorize_redirect_safe:
  assumes "handleAuthorize rt net srv ops s clk rnd nonce q = (s', RedirectTo uri params)"
  shows "uri = q ''redirect_uri'' \<and>
         (\<exists>client. verifyClientID rt (sv_sealer srv) (q ''client_id'') = Inr client \<and>
            matchRegistered net (ci_RedirectURIs client) uri) \<and>
         (uri \<in> set (sv_policy srv) \<or>
          (\<exists>u. url_parse net uri = Some u \<and> u_Scheme u = ''http'' \<and> isLoopbackHost net (u_Hostname u)))"
proof -
  obtain client where t: "authorize_trusted rt net srv q client"
    using assms handleAuthorize_untrusted [of rt net srv q ops s clk rnd nonce] by fastforce
  have "uri = q ''redirect_uri''"
  proof (cases "authorize_wellformed srv q")
    case True
    with assms handleAuthorize_stored [OF t True, of ops s clk rnd nonce] show ?thesis
      by (auto split: prod.splits option.splits if_splits dest: redirectError_target)
  next
    case False
    with assms handleAuthorize_malformed [OF t False, of ops s clk rnd nonce] show ?thesis
      by (auto dest: redirectError_target [OF sym])
  qed
  with t redirect_allowedD(1) [of net "sv_policy srv" uri] show ?thesis by (auto simp: authorize_trusted_def)
qed

definition ex_client_id :: string where
  "ex_client_id = signClientID ex_runtime ex_sealer ex_client_claims"

definition ex_query :: form where
  "ex_query k = (if k = ''client_id'' then ex_client_id
     else if k = ''redirect_uri'' then ''http://localhost:1/cb''
     else if k = ''response_type'' then ''code''
     else if k = ''code_challenge'' then b64_encode RawURLEncoding ''verifier''
     else if k = ''code_challenge_method'' then ''S256''
     else if k = ''resource'' then ex_issuer
     else if k = ''state'' then ''st'' else [])"

lemma ex_verify_client: "verifyClientID ex_runtime ex_sealer ex_client_id = Inr ex_client_claims"
  unfolding ex_client_id_def by (rule verify_signed) (simp_all add: ex_json ex_ring(1))

lemma ex_trusted: "authorize_trusted ex_runtime ex_net ex_server ex_query ex_client_claims"
  using ex_verify_client
  by (simp add: authorize_trusted_def ex_query_def matchRegistered_def ex_client_claims_def redirect_allowed_def
      ex_net_def ex_url_def ex_issuer_def u_IsAbs_def u_Hostname_def strip_port_def strip_brackets_def
      after_last_def is_digit_def isLoopbackHost_def equal_fold_def)

lemma ex_redirect:
  "redirectError ex_net ''http://localhost:1/cb'' st code desc =
     RedirectTo ''http://localhost:1/cb'' ([(''error'', code), (''error_description'', desc)] @
       (if st \<noteq> [] then [(''state'', st)] else []))"
  by (simp add: redirectError_def redirectWithParams_def ex_net_def ex_url_def ex_issuer_def)

theorem authorize_redirect_safe_witness:
  "\<exists>uri params. handleAuthorize ex_runtime ex_net ex_server memory_store ex_store (\<lambda>_. 0) ''x'' ex_nonce
       (ex_query(''response_type'' := ''token'')) = (ex_store, RedirectTo uri params) \<and> uri = ''http://localhost:1/cb''"
proof -
  let ?q = "ex_query(''response_type'' := ''token'')"
  have "authorize_trusted ex_runtime ex_net ex_server ?q ex_client_claims"
    using ex_trusted by (simp add: authorize_trusted_def)
  moreover have "\<not> authorize_wellformed ex_server ?q" by (simp add: authorize_wellformed_def)
  ultimately obtain code desc where
    r: "handleAuthorize ex_runtime ex_net ex_server memory_store ex_store (\<lambda>_. 0) ''x'' ex_nonce ?q =
     (ex_store, redirectError ex_net (?q ''redirect_uri'') (?q ''state'') code desc)"
    using handleAuthorize_malformed [of ex_runtime ex_net ex_server ?q ex_client_claims memory_store ex_store] by blast
  moreover have "?q ''redirect_uri'' = ''http://localhost:1/cb''" by (simp add: ex_query_def)
  ultimately have "handleAuthorize ex_runtime ex_net ex_server memory_store ex_store (\<lambda>_. 0) ''x'' ex_nonce ?q =
     (ex_store, RedirectTo ''http://localhost:1/cb'' ([(''error'', code), (''error_description'', desc)] @
       (if ?q ''state'' \<noteq> [] then [(''state'', ?q ''state'')] else [])))"
    by (simp add: ex_redirect)
  then show ?thesis using authorize_redirect_safe by blast
qed

subsection \<open>The callback\<close>

definition callback_record ::
    "runtime \<Rightarrow> auth_server \<Rightarrow> (nat \<Rightarrow> gtime) \<Rightarrow> string \<Rightarrow> string \<Rightarrow> stateClaims \<Rightarrow> idp_token \<Rightarrow> identityClaims
       \<Rightarrow> string list \<Rightarrow> codeRecord" where
  "callback_record rt srv clk rndFamily nonce sc tok i granted =
     \<lparr>c_Claims = sealBlob rt (sv_sealer srv) (storedCodeBlob rt) nonce (callback_claims sc tok i granted (clk 2)),
      c_Status = ''active'', c_FamilyID = randomOpaque rndFamily, c_ExpiresAt = clk 3 + codeTTL, c_UsedAt = time_zero\<rparr>"

lemma handleCallback_load_failed:
  assumes "loadAuthorizationState rt ops s (clk 0) (q ''state'') True = (s', Inl e)"
  shows "\<exists>status reason. handleCallback rt net srv p ops s clk f c n q = (s', ErrorPage status reason)"
  using assms by (simp add: handleCallback_def load_failure_def renderStoreUnavailable_def)

lemma handleCallback_unopened:
  assumes "loadAuthorizationState rt ops s (clk 0) (q ''state'') True = (s', Inr rec)"
    and "openBlob rt (sv_sealer srv) (stateBlob rt) (as_Claims rec) (clk 1) = Inl e"
  shows "handleCallback rt net srv p ops s clk f c n q = (s', ErrorPage 400 ''undecryptable_callback_state'')"
  using assms by (simp add: handleCallback_def)

lemma handleCallback_refused:
  assumes "loadAuthorizationState rt ops s (clk 0) (q ''state'') True = (s', Inr rec)"
    and "openBlob rt (sv_sealer srv) (stateBlob rt) (as_Claims rec) (clk 1) = Inr sc"
    and "callback_admission srv p q = Inl (code, desc)"
  shows "handleCallback rt net srv p ops s clk f c n q =
           (s', redirectError net (sc_RedirectURI sc) (sc_ClientState sc) code desc)"
  using assms by (simp add: handleCallback_def)

lemma handleCallback_admitted:
  assumes "loadAuthorizationState rt ops s (clk 0) (q ''state'') True = (s', Inr rec)"
    and "openBlob rt (sv_sealer srv) (stateBlob rt) (as_Claims rec) (clk 1) = Inr sc"
    and "callback_admission srv p q = Inr (tok, i, granted)"
  shows "handleCallback rt net srv p ops s clk f c n q =
    (case PutCode ops s' (snd (makeAuthorizationCode rt c)) (callback_record rt srv clk f n sc tok i granted) of
       (s'', Some e) \<Rightarrow> (s'', redirectError net (sc_RedirectURI sc) (sc_ClientState sc) ''server_error''
                              ''authorization state store unavailable'')
     | (s'', None) \<Rightarrow> (s'', redirectWithParams net (sc_RedirectURI sc) (sc_ClientState sc)
                              [(''code'', fst (makeAuthorizationCode rt c))]))"
  using assms by (simp add: handleCallback_def callback_record_def Let_def split: prod.split option.split)

lemma handleCallback_redirects:
  assumes "handleCallback rt net srv p ops s clk f c n q = (s', RedirectTo uri params)"
  obtains s1 rec sc where "loadAuthorizationState rt ops s (clk 0) (q ''state'') True = (s1, Inr rec)"
    "openBlob rt (sv_sealer srv) (stateBlob rt) (as_Claims rec) (clk 1) = Inr sc" "uri = sc_RedirectURI sc"
proof -
  obtain s1 r where load: "loadAuthorizationState rt ops s (clk 0) (q ''state'') True = (s1, r)"
    by (cases "loadAuthorizationState rt ops s (clk 0) (q ''state'') True")
  show ?thesis
  proof (cases r)
    case (Inl e)
    with load handleCallback_load_failed [of rt ops s clk q s1 e net srv p f c n] assms show ?thesis by auto
  next
    case (Inr rec)
    show ?thesis
    proof (cases "openBlob rt (sv_sealer srv) (stateBlob rt) (as_Claims rec) (clk 1)")
      case (Inl e)
      with load Inr handleCallback_unopened [of rt ops s clk q s1 rec srv e net p f c n] assms
      show ?thesis using \<open>r = Inr rec\<close> by auto
    next
      case opened: (Inr sc)
      have "uri = sc_RedirectURI sc"
      proof (cases "callback_admission srv p q")
        case (Inl cd)
        with load Inr opened handleCallback_refused [of rt ops s clk q s1 rec srv sc p _ _ net f c n] assms
        show ?thesis by (cases cd) (auto dest: redirectError_target [OF sym])
      next
        case admitted: (Inr tig)
        with load Inr opened handleCallback_admitted [of rt ops s clk q s1 rec srv sc p _ _ _ net f c n] assms
        show ?thesis
          by (cases tig)
            (auto split: prod.splits option.splits dest: redirectError_target [OF sym] simp: redirectWithParams_def)
      qed
      with load Inr opened show ?thesis using that by blast
    qed
  qed
qed

context oauth_state_store begin

lemma use_marks_used:
  assumes "loadAuthorizationState rt ops s now raw True = (s1, Inr r)"
  shows "has_prefix raw prefixState \<and>
    (\<exists>rec. ms_states (view s) (tokenHash rt raw) = Some rec \<and> as_Status rec = ''active'' \<and> now < as_ExpiresAt rec \<and>
       as_Claims r = as_Claims rec \<and>
       ms_states (view s1) (tokenHash rt raw) = Some (rec\<lparr>as_Status := ''used'', as_UsedAt := now\<rparr>))"
proof -
  have pre: "has_prefix raw prefixState" and use: "UseAuthorizationState ops s (tokenHash rt raw) now = (s1, Inr r)"
    using assms by (auto simp: loadAuthorizationState_def split: if_splits)
  from use_state_ok [OF use] pre show ?thesis by (auto simp: state_used_def)
qed

lemma callback_redirect:
  assumes "handleCallback rt net srv p ops s clk f c n q = (s', RedirectTo uri params)"
  shows "\<exists>rec sc. ms_states (view s) (tokenHash rt (q ''state'')) = Some rec \<and> as_Status rec = ''active'' \<and>
           clk 0 < as_ExpiresAt rec \<and> openBlob rt (sv_sealer srv) (stateBlob rt) (as_Claims rec) (clk 1) = Inr sc \<and>
           uri = sc_RedirectURI sc"
  using assms by (rule handleCallback_redirects) (use use_marks_used in fastforce)

lemma callback_used_state:
  assumes "ms_states (view s) (tokenHash rt (q ''state'')) = Some rec" "as_Status rec \<noteq> ''active''"
  shows "\<nexists>uri params. snd (handleCallback rt net srv p ops s clk f c n q) = RedirectTo uri params"
proof
  assume "\<exists>uri params. snd (handleCallback rt net srv p ops s clk f c n q) = RedirectTo uri params"
  then obtain s' uri params where "handleCallback rt net srv p ops s clk f c n q = (s', RedirectTo uri params)"
    by (metis prod.collapse)
  from callback_redirect [OF this] assms show False by auto
qed

lemma put_code_states: "PutCode ops s k cr = (s', r) \<Longrightarrow> ms_states (view s') = ms_states (view s)"
  using put_code_ok [of s k cr s'] put_code_err [of s k cr s'] by (cases r) auto

lemma callback_spends_state:
  assumes "handleCallback rt net srv p ops s clk f c n q = (s', RedirectTo uri params)"
  shows "\<exists>rec. ms_states (view s') (tokenHash rt (q ''state'')) = Some rec \<and> as_Status rec = ''used''"
  using assms
proof (rule handleCallback_redirects)
  fix s1 rec sc
  assume load: "loadAuthorizationState rt ops s (clk 0) (q ''state'') True = (s1, Inr rec)"
    and opened: "openBlob rt (sv_sealer srv) (stateBlob rt) (as_Claims rec) (clk 1) = Inr sc"
  have "ms_states (view s') = ms_states (view s1)"
  proof (cases "callback_admission srv p q")
    case (Inl cd)
    with assms handleCallback_refused [of rt ops s clk q s1 rec srv sc p _ _ net f c n, OF load opened] show ?thesis by (cases cd) auto
  next
    case (Inr tig)
    obtain tok i granted where "callback_admission srv p q = Inr (tok, i, granted)"
      using Inr by (cases tig) auto
    from handleCallback_admitted [of rt ops s clk q s1 rec srv sc, OF load opened this, of net f c n] assms put_code_states
    show ?thesis by (auto split: prod.splits option.splits)
  qed
  with use_marks_used [OF load] show ?thesis by auto
qed

end

text \<open>
  The browser state of a login is used once: the callback redirects to a client only with a
  stored, active, unexpired state, to the redirect URI sealed into that state at authorization;
  the state is spent by it, so presenting the same state again (with any query, at any time, by
  whatever adapter) never redirects.
\<close>

theorem callback_state_single_use:
  assumes "oauth_state_store ops view"
    and "handleCallback rt net srv p ops s clk f c n q = (s', RedirectTo uri params)"
    and "ms_states (view sr) (tokenHash rt (q ''state'')) = ms_states (view s') (tokenHash rt (q ''state''))"
    and "qr ''state'' = q ''state''"
  shows "(\<exists>rec sc. ms_states (view s) (tokenHash rt (q ''state'')) = Some rec \<and> as_Status rec = ''active'' \<and>
            clk 0 < as_ExpiresAt rec \<and> openBlob rt (sv_sealer srv) (stateBlob rt) (as_Claims rec) (clk 1) = Inr sc \<and>
            uri = sc_RedirectURI sc) \<and>
         (\<nexists>uri2 params2. snd (handleCallback rt net srvr pr ops sr clkr fr cr nr qr) = RedirectTo uri2 params2)"
proof
  show "\<exists>rec sc. ms_states (view s) (tokenHash rt (q ''state'')) = Some rec \<and> as_Status rec = ''active'' \<and>
            clk 0 < as_ExpiresAt rec \<and> openBlob rt (sv_sealer srv) (stateBlob rt) (as_Claims rec) (clk 1) = Inr sc \<and>
            uri = sc_RedirectURI sc"
    by (rule oauth_state_store.callback_redirect [OF assms(1,2)])
  obtain rec where "ms_states (view s') (tokenHash rt (q ''state'')) = Some rec" "as_Status rec = ''used''"
    using oauth_state_store.callback_spends_state [OF assms(1,2)] by blast
  with assms(3,4) have "ms_states (view sr) (tokenHash rt (qr ''state'')) = Some rec" "as_Status rec \<noteq> ''active''"
    by simp_all
  then show "\<nexists>uri2 params2. snd (handleCallback rt net srvr pr ops sr clkr fr cr nr qr) = RedirectTo uri2 params2"
    by (rule oauth_state_store.callback_used_state [OF assms(1)])
qed

text \<open>
  C8: a login comes back to where it started: when the authorization endpoint has accepted a
  request and sent the browser on, then the callback with the issued state token, in time and for
  an admitted account, redirects exactly to the requested redirect URI with the client's own
  state and a fresh code, and the stored code carries the client, the redirect URI and the PKCE
  challenge of the request and the identity Google vouched for.
\<close>

theorem login_round_trip:
  assumes "handleAuthorize rt net srv memory_store s0 clk rnd nonce q = (s1, resp)"
    and "resp = ConsentPage name uri tk \<or> resp = RedirectGoogle tk hint"
    and "aead_law rt" "ring_wf (sl_ring (sv_sealer srv))" "length nonce = nonce_size"
    and "unmarshal (json_state rt) (marshal (json_state rt) (state_claims_of q (clk 0))) = Some (state_claims_of q (clk 0))"
    and "q2 ''state'' = tk" "clk2 0 < clk 1 + stateTTL" "clk2 1 \<le> time_unix (unix (clk 0)) + stateTTL"
    and "callback_admission srv p q2 = Inr (tok, i, granted)"
    and "ms_codes s1 (snd (makeAuthorizationCode rt c)) = None"
  shows "\<exists>s2. handleCallback rt net srv p memory_store s1 clk2 f c n q2 =
           (s2, RedirectTo (q ''redirect_uri'') ([(''code'', fst (makeAuthorizationCode rt c))] @
                 (if q ''state'' \<noteq> [] then [(''state'', q ''state'')] else []))) \<and>
         ms_codes s2 (snd (makeAuthorizationCode rt c)) =
           Some (callback_record rt srv clk2 f n (state_claims_of q (clk 0)) tok i granted)"
proof -
  let ?sc = "state_claims_of q (clk 0)"
  let ?rec = "authorize_record rt srv clk nonce q"
  obtain client where t: "authorize_trusted rt net srv q client"
    using assms(1,2) handleAuthorize_untrusted [of rt net srv q memory_store s0 clk rnd nonce] by fastforce
  have wf: "authorize_wellformed srv q"
  proof (rule ccontr)
    assume "\<not> authorize_wellformed srv q"
    from handleAuthorize_malformed [OF t this, of memory_store s0 clk rnd nonce] assms(1,2) show False
      by (auto simp: redirectError_def redirectWithParams_def split: option.splits)
  qed
  have tk: "tk = prefixState @ randomOpaque rnd" and stored: "ms_states s1 (tokenHash rt tk) = Some ?rec"
    using handleAuthorize_stored [OF t wf, of memory_store s0 clk rnd nonce] assms(1,2)
    by (auto simp: memory_store_def mem_PutAuthorizationState_def redirectError_def redirectWithParams_def
        redirectToGoogle_def split: option.splits if_splits)
  let ?used = "?rec\<lparr>as_Status := ''used'', as_UsedAt := clk2 0\<rparr>"
  let ?s = "s1\<lparr>ms_states := (ms_states s1)(tokenHash rt tk \<mapsto> ?used)\<rparr>"
  have load: "loadAuthorizationState rt memory_store s1 (clk2 0) (q2 ''state'') True = (?s, Inr ?used)"
    using stored assms(7,8) tk
    by (simp add: loadAuthorizationState_def memory_store_def mem_UseAuthorizationState_def authorize_record_def Let_def
        has_prefix_def)
  have "distinct (map rk_id (sl_ring (sv_sealer srv)))" using assms(4) by (simp add: ring_wf_def)
  from open_sealed [OF assms(3-5) _ this sealKey_in [OF assms(4)] refl, of "stateBlob rt" ?sc "clk2 1"] assms(6,9)
  have opened: "openBlob rt (sv_sealer srv) (stateBlob rt) (as_Claims ?used) (clk2 1) = Inr ?sc"
    by (simp add: authorize_record_def stateBlob_def expired_def state_claims_of_def)
  obtain u where "url_parse net (q ''redirect_uri'') = Some u"
    using t redirect_allowedD(2) [of net "sv_policy srv" "q ''redirect_uri''"] by (auto simp: authorize_trusted_def)
  with handleCallback_admitted [of rt memory_store s1 clk2 q2, OF load opened assms(10), of net f c n] assms(11) show ?thesis
    by (simp add: memory_store_def mem_PutCode_def redirectWithParams_def state_claims_of_def)
qed

definition ex_upstream :: idp_token where
  "ex_upstream = \<lparr>tok_AccessToken = ''ga'', tok_Expiry = hour, tok_RefreshToken = ''gr'', tok_IDToken = ''id'',
     tok_Scope = ''openid https://www.googleapis.com/auth/cloud-platform''\<rparr>"

definition ex_identity :: identityClaims where
  "ex_identity = \<lparr>id_Subject = ''1'', id_Email = ''a@corp.example'', id_EmailVerified = True,
     id_HostedDomain = ''corp.example''\<rparr>"

definition ex_granted :: "string list" where
  "ex_granted = [''openid'', ''https://www.googleapis.com/auth/cloud-platform'']"

definition ex_idp :: idp where
  "ex_idp = \<lparr>idp_Exchange = (\<lambda>_. Inr ex_upstream), idp_Refresh = (\<lambda>_. Inl (Sentinel ''x'')),
     idp_ValidateIDToken = (\<lambda>_. Inr ex_identity), idp_Revoke = (\<lambda>_. None),
     idp_isRetrieveError = (\<lambda>_. False), idp_HasProjectAccess = (\<lambda>_ _. Inr True)\<rparr>"

definition ex_callback :: form where
  "ex_callback k = (if k = ''state'' then prefixState @ randomOpaque ''x'' else if k = ''code'' then ''gc'' else [])"

definition ex_flow_claims :: codeClaims where
  "ex_flow_claims = callback_claims (state_claims_of ex_query 0) ex_upstream ex_identity ex_granted 1"

definition ex_flow_runtime :: runtime where
  "ex_flow_runtime = ex_runtime\<lparr>json_state := const_codec (state_claims_of ex_query 0),
     json_code := const_codec ex_flow_claims\<rparr>"

lemma ex_admission: "callback_admission ex_server ex_idp ex_callback = Inr (ex_upstream, ex_identity, ex_granted)"
  by (simp add: callback_admission_def ex_callback_def ex_idp_def ex_upstream_def ex_identity_def ex_granted_def
      ex_config_def domainAllowed_def domain_listed_def equal_fold_def requiredGrantedScopes_def cfg_scopes_def
      DefaultScopes_def grantedScopes_def Go_Strings.fields_def is_space_def checkProjectAccess_def)

definition ex_authorized :: memoryStateStore where
  "ex_authorized = newMemoryStateStore\<lparr>ms_states := [tokenHash ex_runtime (prefixState @ randomOpaque ''x'') \<mapsto>
     authorize_record ex_flow_runtime ex_server (\<lambda>_. 0) ex_nonce ex_query]\<rparr>"

lemma ex_flow_simps [simp]:
  "tokenHash ex_flow_runtime s = tokenHash ex_runtime s"
  "makeAuthorizationCode ex_flow_runtime c = makeAuthorizationCode ex_runtime c"
  "aead_law ex_flow_runtime" "json_state ex_flow_runtime = const_codec (state_claims_of ex_query 0)"
  "json_code ex_flow_runtime = const_codec ex_flow_claims"
  "json_client ex_flow_runtime = json_client ex_runtime" "rt_hmac ex_flow_runtime = rt_hmac ex_runtime"
  using ex_aead by (simp_all add: ex_flow_runtime_def tokenHash_def makeAuthorizationCode_def aead_law_def Let_def)

lemma ex_authorize:
  "handleAuthorize ex_flow_runtime ex_net ex_server memory_store newMemoryStateStore (\<lambda>_. 0) ''x'' ex_nonce ex_query =
     (ex_authorized, ConsentPage ''c'' ''http://localhost:1/cb'' (prefixState @ randomOpaque ''x''))"
proof -
  have "signClientID ex_flow_runtime ex_sealer ex_client_claims = ex_client_id"
    by (simp add: signClientID_def ex_client_id_def blob_mac_def)
  moreover have "verifyClientID ex_flow_runtime ex_sealer (signClientID ex_flow_runtime ex_sealer ex_client_claims)
      = Inr ex_client_claims"
    by (rule verify_signed) (simp_all add: ex_json ex_ring(1))
  ultimately have "authorize_trusted ex_flow_runtime ex_net ex_server ex_query ex_client_claims"
    using ex_trusted by (simp add: authorize_trusted_def ex_query_def)
  moreover have "authorize_wellformed ex_server ex_query"
    by (simp add: authorize_wellformed_def ex_query_def ex_issuer_def trim_right_def ex_config_def)
  ultimately show ?thesis
    by (simp add: handleAuthorize_stored memory_store_def mem_PutAuthorizationState_def newMemoryStateStore_def
        ex_config_def clientDisplayName_def ex_client_claims_def ex_authorized_def ex_query_def)
qed

lemma ex_login:
  "\<exists>s2 params. handleCallback ex_flow_runtime ex_net ex_server ex_idp memory_store ex_authorized (\<lambda>_. 1) ''f'' ''c''
     ex_nonce ex_callback = (s2, RedirectTo ''http://localhost:1/cb'' params) \<and>
     ms_codes s2 = [snd (makeAuthorizationCode ex_runtime ''c'') \<mapsto>
       callback_record ex_flow_runtime ex_server (\<lambda>_. 1) ''f'' ex_nonce (state_claims_of ex_query 0)
         ex_upstream ex_identity ex_granted] \<and>
     ms_grants s2 = Map.empty"
proof -
  let ?key = "tokenHash ex_runtime (prefixState @ randomOpaque ''x'')"
  let ?rec = "authorize_record ex_flow_runtime ex_server (\<lambda>_. 0) ex_nonce ex_query"
  let ?used = "?rec\<lparr>as_Status := ''used'', as_UsedAt := 1\<rparr>"
  let ?s = "ex_authorized\<lparr>ms_states := (ms_states ex_authorized)(?key \<mapsto> ?used)\<rparr>"
  have load: "loadAuthorizationState ex_flow_runtime memory_store ex_authorized ((\<lambda>_. 1) 0) (ex_callback ''state'') True
      = (?s, Inr ?used)"
    by (simp add: loadAuthorizationState_def ex_callback_def has_prefix_def memory_store_def
        mem_UseAuthorizationState_def ex_authorized_def authorize_record_def stateTTL_def duration_defs Let_def)
  have "distinct (map rk_id (sl_ring ex_sealer))" using ex_ring(1) by (simp add: ring_wf_def)
  from open_sealed [of ex_flow_runtime, OF _ ex_ring _ this sealKey_in [OF ex_ring(1)] refl, of "stateBlob ex_flow_runtime"
      "state_claims_of ex_query 0" "(\<lambda>_. 1) (1::nat)"]
  have opened: "openBlob ex_flow_runtime (sv_sealer ex_server) (stateBlob ex_flow_runtime) (as_Claims ?used) ((\<lambda>_. 1) 1)
      = Inr (state_claims_of ex_query 0)"
    by (simp add: stateBlob_def const_codec_def expired_def state_claims_of_def time_unix_def unix_def stateTTL_def
        duration_defs authorize_record_def)
  show ?thesis
    using handleCallback_admitted [of ex_flow_runtime memory_store ex_authorized "\<lambda>_. 1" ex_callback, OF load opened ex_admission,
        of ex_net "''f''" "''c''" ex_nonce]
    by (simp add: memory_store_def mem_PutCode_def ex_authorized_def newMemoryStateStore_def redirectWithParams_def
        state_claims_of_def ex_query_def ex_net_def ex_url_def ex_issuer_def)
qed

theorem callback_state_single_use_witness:
  "\<exists>s2. (\<exists>params. handleCallback ex_flow_runtime ex_net ex_server ex_idp memory_store ex_authorized (\<lambda>_. 1) ''f'' ''c''
            ex_nonce ex_callback = (s2, RedirectTo ''http://localhost:1/cb'' params)) \<and>
        (\<nexists>uri2 params2. snd (handleCallback ex_flow_runtime ex_net ex_server ex_idp memory_store s2 (\<lambda>_. 2) ''f'' ''c''
            ex_nonce ex_callback) = RedirectTo uri2 params2)"
proof -
  obtain s2 params where r: "handleCallback ex_flow_runtime ex_net ex_server ex_idp memory_store ex_authorized (\<lambda>_. 1) ''f'' ''c''
     ex_nonce ex_callback = (s2, RedirectTo ''http://localhost:1/cb'' params)"
    using ex_login by blast
  from callback_state_single_use [where sr = s2 and qr = ex_callback, OF mem.oauth_state_store_axioms r refl refl] r
  show ?thesis by blast
qed

theorem login_round_trip_witness:
  "\<exists>s2 params. handleCallback ex_flow_runtime ex_net ex_server ex_idp memory_store ex_authorized (\<lambda>_. 1) ''f'' ''c''
     ex_nonce ex_callback = (s2, RedirectTo (ex_query ''redirect_uri'') params)"
proof -
  have hyps: "unmarshal (json_state ex_flow_runtime) (marshal (json_state ex_flow_runtime) (state_claims_of ex_query ((\<lambda>_. 0) 0)))
        = Some (state_claims_of ex_query ((\<lambda>_. 0) 0))"
    "ex_callback ''state'' = prefixState @ randomOpaque ''x''"
    "ms_codes ex_authorized (snd (makeAuthorizationCode ex_flow_runtime ''c'')) = None"
    "(\<lambda>_. 1) 0 < (\<lambda>_. 0) 1 + stateTTL" "(\<lambda>_. 1) 1 \<le> time_unix (unix ((\<lambda>_. 0) 0)) + stateTTL"
    "ring_wf (sl_ring (sv_sealer ex_server))"
    by (simp_all add: const_codec_def ex_callback_def ex_authorized_def newMemoryStateStore_def stateTTL_def duration_defs
        time_unix_def unix_def ex_ring)
  show ?thesis
    using login_round_trip [OF ex_authorize disjI1 [OF refl] ex_flow_simps(3) hyps(6) ex_ring(2) hyps(1,2,4,5) ex_admission hyps(3)]
    by blast
qed

subsection \<open>The bearer middleware\<close>

text \<open>
  A request is served exactly when its Authorization header is a bearer token that verifies,
  with the identity of the token's claims; it is answered 503 exactly when the token opens but the
  grant store cannot be consulted; every other request is answered 401 with a reason.
\<close>

theorem bearer_serves_verified:
  "(RequireBearerToken rt srv ops s now header = Serve info \<longleftrightarrow>
      (\<exists>scheme token c. Go_Strings.fields header = [scheme, token] \<and> equal_fold scheme ''bearer'' \<and>
         VerifyAccess rt srv ops s now token = Inr c \<and>
         info = \<lparr>ti_Scopes = ac_Scopes c, ti_UserID = ac_Subject c, ti_Email = ac_Email c, ti_Domain = ac_Domain c,
                 ti_GoogleAccessToken = ac_GoogleAccessToken c, ti_GoogleExpiry = time_unix (ac_GoogleExpiry c)\<rparr>)) \<and>
   ((\<exists>reason. RequireBearerToken rt srv ops s now header = Deny 503 reason) \<longleftrightarrow>
      (\<exists>scheme token c e. Go_Strings.fields header = [scheme, token] \<and> equal_fold scheme ''bearer'' \<and>
         openBlob rt (sv_sealer srv) (accessBlob rt) token now = Inr c \<and>
         GetGrant ops s (ac_FamilyID c) = Inl e \<and> \<not> errors_is e errStateNotFound))"
proof (cases "\<exists>scheme token. Go_Strings.fields header = [scheme, token] \<and> equal_fold scheme ''bearer''")
  case False
  then have "RequireBearerToken rt srv ops s now header = Deny 401 ''missing_bearer_token''"
    by (auto simp: RequireBearerToken_def split: list.splits)
  with False show ?thesis by fastforce
next
  case True
  then obtain scheme token where f: "Go_Strings.fields header = [scheme, token]" "equal_fold scheme ''bearer''" by blast
  show ?thesis
  proof (cases "openBlob rt (sv_sealer srv) (accessBlob rt) token now")
    case (Inl e)
    with f show ?thesis by (simp add: RequireBearerToken_def verifyAccessToken_def VerifyAccess_def)
  next
    case (Inr c)
    show ?thesis
    proof (cases "GetGrant ops s (ac_FamilyID c)")
      case (Inl e)
      with f Inr VerifyAccess_cases [OF Inr, of ops s] show ?thesis
        by (auto simp: RequireBearerToken_def verifyAccessToken_def)
    next
      case grant: (Inr g)
      with f Inr VerifyAccess_cases [OF Inr, of ops s] show ?thesis
        by (auto simp: RequireBearerToken_def verifyAccessToken_def split: if_splits)
    qed
  qed
qed

end
