(* ===== verification/Oauth_Protocol.thy ===== *)
theory Oauth_Protocol
  imports Oauth_Http_Props
begin

text \<open>
  The authorization server as a transition system: any number of servers share one store and run
  their handlers in any order. A configuration is the store, the refreshes that have been prepared
  and may still rotate (the work between \<open>PrepareRefresh\<close> and \<open>RotateRefresh\<close> runs outside the
  store), and the random values drawn so far. Each step is one of the handlers of the code with
  arbitrary arguments, on an arbitrary clock; the only assumption is that a drawn family ID and a
  drawn refresh secret have not been drawn before.
\<close>

subsection \<open>Effects of the handlers on the tables\<close>

context oauth_state_store begin

lemma redeem_zero_effect:
  assumes "ms_codes (view s) k = Some rec" "c_Status rec \<noteq> ''active''"
  shows "view (fst (RedeemCode ops s k now g)) = view s \<or>
         redeem_replayed (view s) k now (view (fst (RedeemCode ops s k now g)))"
proof -
  obtain s' r where call: "RedeemCode ops s k now g = (s', r)" by force
  have "\<not> redeemed (view s) k now g (view s')"
    using assms by (auto simp: redeemed_def codeRedemptionDecision_None_iff)
  with redeem_ok [of s k now g s'] redeem_err [of s k now g s'] call show ?thesis by (cases r) auto
qed

lemma exchange_effect:
  assumes "ExchangeCode rt srv ops s now rnd nonce ex = (s', r)"
  shows "view s' = view s \<or>
    (\<exists>rec cc. ms_codes (view s) (tokenHash rt (ce_Code ex)) = Some rec \<and>
       redeemed (view s) (tokenHash rt (ce_Code ex)) now (installed_grant rt srv now rnd nonce rec cc) (view s')) \<or>
    redeem_replayed (view s) (tokenHash rt (ce_Code ex)) now (view s')"
proof (cases "GetCode ops s (tokenHash rt (ce_Code ex))")
  case (Inl e)
  with assms ExchangeCode_no_code [OF Inl] show ?thesis by simp
next
  case (Inr rec)
  have rec: "ms_codes (view s) (tokenHash rt (ce_Code ex)) = Some rec" using Inr by (rule get_code)
  show ?thesis
  proof (cases "c_Status rec = ''active''")
    case False
    with assms ExchangeCode_not_active [OF Inr False] redeem_zero_effect [OF rec False, of now zero_grantRecord] show ?thesis by auto
  next
    case active: True
    show ?thesis
    proof (cases "\<exists>cc. exchange_admitted rt srv now ex rec cc")
      case False
      with ExchangeCode_rejected [OF Inr active, of srv now rnd nonce] assms show ?thesis by auto
    next
      case True
      then obtain cc where adm: "exchange_admitted rt srv now ex rec cc" ..
      let ?g = "installed_grant rt srv now rnd nonce rec cc"
      obtain s1 r1 where call: "RedeemCode ops s (tokenHash rt (ce_Code ex)) now ?g = (s1, r1)" by force
      with ExchangeCode_admitted [OF Inr adm, of rnd nonce] assms have "s' = s1" by (auto split: option.splits)
      with call redeem_ok [of s _ now ?g s1] redeem_err [of s _ now ?g s1] rec show ?thesis by (cases r1) blast+
    qed
  qed
qed

lemma prepare_effect:
  assumes "PrepareRefresh rt srv ops s now token clientID = (s', r)"
  shows "view s' = view s \<or> (\<exists>F h. rotate_replayed (view s) F h now (view s'))"
proof (cases "\<exists>p. r = Inr p")
  case True
  with assms prepare_ok show ?thesis by blast
next
  case failed: False
  show ?thesis
  proof (cases "parseRefreshToken token")
    case (Inl e)
    with assms show ?thesis by (simp add: PrepareRefresh_def)
  next
    case (Inr fs)
    obtain F secret where parsed: "parseRefreshToken token = Inr (F, secret)" using Inr by (cases fs) simp
    show ?thesis
    proof (cases "GetGrant ops s F")
      case (Inl e)
      with assms parsed show ?thesis by (simp add: PrepareRefresh_def)
    next
      case (Inr rec)
      have rec: "ms_grants (view s) F = Some rec" using Inr by (rule get_grant)
      consider (inactive) "\<not> grantActive rec now"
        | (mismatch) "grantActive rec now" "\<not> secretMatches rt secret (g_ActiveSecretHash rec)"
        | (match) "grantActive rec now" "secretMatches rt secret (g_ActiveSecretHash rec)"
        by blast
      then show ?thesis
      proof cases
        case inactive
        with assms PrepareRefresh_inactive [OF parsed Inr inactive, of rt srv clientID] show ?thesis by simp
      next
        case mismatch
        obtain s1 r1 where call: "RotateGrant ops s F (tokenHash rt secret) zero_grantRecord now = (s1, r1)" by force
        have "s' = s1" using PrepareRefresh_mismatch [OF parsed Inr mismatch call, of srv clientID] assms by simp
        moreover have "\<not> rotated (view s) F (tokenHash rt secret) zero_grantRecord now (view s1)"
          using rec mismatch by (auto simp: rotated_def grantRotationDecision_None_iff secretMatches_def)
        ultimately show ?thesis
          using rotate_ok [of s F _ zero_grantRecord now s1] rotate_err [of s F _ zero_grantRecord now s1] call
          by (cases r1) blast+
      next
        case match
        show ?thesis
        proof (cases "\<exists>rc. refresh_admitted rt srv now secret clientID rec rc")
          case True
          with PrepareRefresh_matching(1) [OF parsed Inr match] assms failed show ?thesis by fastforce
        next
          case False
          with PrepareRefresh_matching(2) [OF parsed Inr match, of srv clientID] assms show ?thesis by auto
        qed
      qed
    qed
  qed
qed

lemma rotate_effect:
  assumes "RotateRefresh rt srv ops s rnd nonce p gr = (s', r)"
  shows "view s' = view s \<or>
    rotated (view s) (pr_familyID p) (g_ActiveSecretHash (pr_record p))
      (rotation_record rt srv rnd nonce p (rotated_claims p gr)) (pr_startedAt p) (view s') \<or>
    rotate_replayed (view s) (pr_familyID p) (g_ActiveSecretHash (pr_record p)) (pr_startedAt p) (view s')"
proof -
  let ?nx = "rotation_record rt srv rnd nonce p (rotated_claims p gr)"
  obtain s1 r1 where call:
    "RotateGrant ops s (pr_familyID p) (g_ActiveSecretHash (pr_record p)) ?nx (pr_startedAt p) = (s1, r1)" by force
  have "s' = s1" using RotateRefresh_call(1) [OF call] assms by simp
  with call rotate_ok [of s "pr_familyID p" _ ?nx _ s1] rotate_err [of s "pr_familyID p" _ ?nx _ s1]
  show ?thesis by (cases r1) blast+
qed

lemma revoke_effect:
  "RevokeGrant ops s F now = (s', r) \<Longrightarrow> view s' = view s \<or> revoked_existing (view s) F now (view s')"
  using revoke_ok [of s F now s'] revoke_err [of s F now s'] by (cases r) blast+

lemma revoke_family_effect:
  assumes "RevokeFamily ops s p = (s', r)"
  shows "view s' = view s \<or> (\<exists>F now. revoked_existing (view s) F now (view s'))"
proof -
  obtain s1 r1 where call: "RevokeGrant ops s (pr_familyID p) (pr_startedAt p) = (s1, r1)" by force
  with assms have "s' = s1" by (auto simp: RevokeFamily_def split: option.splits)
  with revoke_effect [OF call] show ?thesis by blast
qed

lemma revoke_secret_effect:
  assumes "RevokeGrantIfSecret ops s F h now = (s', r)"
  shows "view s' = view s \<or> revoked_existing (view s) F now (view s')"
proof -
  have "revoked_possessed (view s) F h now (view s') \<Longrightarrow> revoked_existing (view s) F now (view s')"
    by (auto simp: revoked_possessed_def revoked_existing_def)
  with assms revoke_secret_ok [of s F h now s'] revoke_secret_err [of s F h now s'] show ?thesis
    by (cases r) (auto split: if_splits)
qed

lemma revoke_token_effect:
  assumes "RevokeToken rt srv ops s now token = (s', r)"
  shows "view s' = view s \<or> (\<exists>F. revoked_existing (view s) F now (view s'))"
proof (cases "openBlob rt (sv_sealer srv) (accessBlob rt) token now")
  case (Inr ac)
  obtain s1 r1 where call: "RevokeGrant ops s (ac_FamilyID ac) now = (s1, r1)" by force
  with Inr assms have "s' = s1" by (auto simp: RevokeToken_def split: option.splits)
  with revoke_effect [OF call] show ?thesis by blast
next
  case (Inl e)
  show ?thesis
  proof (cases "s' = s")
    case False
    then obtain F secret rec where "parseRefreshToken token = Inr (F, secret)"
      "s' = fst (RevokeGrantIfSecret ops s F (tokenHash rt secret) now)"
      using assms Inl
      by (auto simp: RevokeToken_def Let_def split: sum.splits if_splits prod.splits)
    with revoke_secret_effect [of s F "tokenHash rt secret" now s'] show ?thesis by (metis prod.collapse)
  qed simp
qed

lemma authorize_effect:
  assumes "handleAuthorize rt net srv ops s clk rnd nonce q = (s', r)"
  shows "ms_codes (view s') = ms_codes (view s) \<and> ms_grants (view s') = ms_grants (view s)"
proof (cases "\<exists>client. authorize_trusted rt net srv q client")
  case False
  with handleAuthorize_untrusted [of rt net srv q ops s clk rnd nonce] assms show ?thesis by auto
next
  case True
  then obtain client where t: "authorize_trusted rt net srv q client" ..
  show ?thesis
  proof (cases "authorize_wellformed srv q")
    case False
    with handleAuthorize_malformed [OF t False, of ops s clk rnd nonce] assms show ?thesis by auto
  next
    case True
    let ?k = "tokenHash rt (prefixState @ randomOpaque rnd)"
    let ?rec = "authorize_record rt srv clk nonce q"
    obtain s1 r1 where call: "PutAuthorizationState ops s ?k ?rec = (s1, r1)" by force
    with handleAuthorize_stored [OF t True, of ops s clk rnd nonce] assms have "s' = s1" by (auto split: option.splits)
    with call put_state_ok [of s ?k ?rec s1] put_state_err [of s ?k ?rec s1] show ?thesis by (cases r1) auto
  qed
qed

lemma load_effect:
  assumes "loadAuthorizationState rt ops s now raw True = (s', r)"
  shows "ms_codes (view s') = ms_codes (view s) \<and> ms_grants (view s') = ms_grants (view s)"
proof (cases "has_prefix raw prefixState")
  case False
  with assms show ?thesis by (simp add: loadAuthorizationState_def)
next
  case True
  with assms use_state_ok [of s "tokenHash rt raw" now s'] use_state_err [of s "tokenHash rt raw" now s']
  show ?thesis by (cases r) (auto simp: loadAuthorizationState_def state_used_def)
qed

lemma callback_effect:
  assumes "handleCallback rt net srv p ops s clk f c n q = (s', r)"
  shows "ms_grants (view s') = ms_grants (view s) \<and>
    (ms_codes (view s') = ms_codes (view s) \<or>
     (\<exists>k cr. ms_codes (view s) k = None \<and> c_Status cr = ''active'' \<and> c_FamilyID cr = randomOpaque f \<and>
        ms_codes (view s') = (ms_codes (view s))(k \<mapsto> cr)))"
proof -
  obtain s1 r1 where load: "loadAuthorizationState rt ops s (clk 0) (q ''state'') True = (s1, r1)" by force
  have same: "ms_codes (view s1) = ms_codes (view s)" "ms_grants (view s1) = ms_grants (view s)"
    using load_effect [OF load] by simp_all
  have "s' = s1 \<or> (\<exists>k cr x. PutCode ops s1 k cr = (s', x) \<and> c_Status cr = ''active'' \<and> c_FamilyID cr = randomOpaque f)"
  proof (cases r1)
    case (Inl e)
    with load handleCallback_load_failed [of rt ops s clk q s1 e net srv p f c n] assms show ?thesis by auto
  next
    case (Inr rec)
    with load have load': "loadAuthorizationState rt ops s (clk 0) (q ''state'') True = (s1, Inr rec)" by simp
    show ?thesis
    proof (cases "openBlob rt (sv_sealer srv) (stateBlob rt) (as_Claims rec) (clk 1)")
      case (Inl e)
      with handleCallback_unopened [of rt ops s clk q, OF load', of srv e net p f c n] assms show ?thesis by simp
    next
      case opened: (Inr sc)
      show ?thesis
      proof (cases "callback_admission srv p q")
        case (Inl cd)
        with handleCallback_refused [of rt ops s clk q, OF load' opened, of p _ _ net f c n] assms
        show ?thesis by (cases cd) auto
      next
        case (Inr tig)
        obtain tok i granted where adm: "callback_admission srv p q = Inr (tok, i, granted)"
          using Inr by (cases tig) auto
        obtain s2 x where put: "PutCode ops s1 (snd (makeAuthorizationCode rt c)) (callback_record rt srv clk f n sc tok i granted)
            = (s2, x)" by force
        with handleCallback_admitted [of rt ops s clk q, OF load' opened adm, of net f c n] assms
        have "s' = s2" by (auto split: option.splits)
        moreover have "c_Status (callback_record rt srv clk f n sc tok i granted) = ''active''"
          "c_FamilyID (callback_record rt srv clk f n sc tok i granted) = randomOpaque f"
          by (simp_all add: callback_record_def)
        ultimately show ?thesis using put by blast
      qed
    qed
  qed
  then show ?thesis
  proof (elim disjE exE conjE)
    assume "s' = s1"
    with same show ?thesis by simp
  next
    fix k cr x
    assume cr: "PutCode ops s1 k cr = (s', x)" "c_Status cr = ''active''" "c_FamilyID cr = randomOpaque f"
    have "view s' = view s1 \<or>
        ms_codes (view s1) k = None \<and> view s' = (view s1)\<lparr>ms_codes := (ms_codes (view s1))(k \<mapsto> cr)\<rparr>"
      using cr(1) put_code_ok [of s1 k cr s'] put_code_err [of s1 k cr s'] by (cases x) auto
    then show ?thesis
    proof (elim disjE conjE)
      assume "view s' = view s1"
      with same show ?thesis by simp
    next
      assume "ms_codes (view s1) k = None" "view s' = (view s1)\<lparr>ms_codes := (ms_codes (view s1))(k \<mapsto> cr)\<rparr>"
      with same cr(2,3) show ?thesis by (intro conjI disjI2 exI [of _ k] exI [of _ cr]) simp_all
    qed
  qed
qed

end

subsection \<open>Changes of the tables\<close>

text \<open>
  The ways a handler may change the tables of codes and grants, as one relation; \<open>fams\<close> and
  \<open>secrets\<close> are the random values drawn before, \<open>prepared\<close> the refreshes in flight.
\<close>

inductive table_change ::
    "preparedRefresh set \<Rightarrow> string set \<Rightarrow> string set \<Rightarrow> memoryStateStore \<Rightarrow> memoryStateStore \<Rightarrow> string set \<Rightarrow> string set \<Rightarrow> bool"
  for prepared fams secrets where
  same: "ms_codes db' = ms_codes db \<Longrightarrow> ms_grants db' = ms_grants db \<Longrightarrow> fams \<subseteq> fams' \<Longrightarrow> secrets \<subseteq> secrets' \<Longrightarrow>
     table_change prepared fams secrets db db' fams' secrets'"
| issue: "ms_codes db k = None \<Longrightarrow> c_Status cr = ''active'' \<Longrightarrow> c_FamilyID cr \<notin> fams \<Longrightarrow>
     ms_codes db' = (ms_codes db)(k \<mapsto> cr) \<Longrightarrow> ms_grants db' = ms_grants db \<Longrightarrow>
     table_change prepared fams secrets db db' (insert (c_FamilyID cr) fams) secrets"
| install: "redeemed db k now g db' \<Longrightarrow> g_ActiveSecretHash g \<notin> secrets \<Longrightarrow>
     table_change prepared fams secrets db db' fams (insert (g_ActiveSecretHash g) secrets)"
| rotate: "p \<in> prepared \<Longrightarrow> rotated db (pr_familyID p) (g_ActiveSecretHash (pr_record p)) nx now db' \<Longrightarrow>
     g_ActiveSecretHash nx \<notin> secrets \<Longrightarrow> g_Generation nx = g_Generation (pr_record p) + 1 \<Longrightarrow>
     g_ExpiresAt nx = g_ExpiresAt (pr_record p) \<Longrightarrow>
     table_change prepared fams secrets db db' fams (insert (g_ActiveSecretHash nx) secrets)"
| revoke: "revoked_existing db F now db' \<Longrightarrow> secrets \<subseteq> secrets' \<Longrightarrow> table_change prepared fams secrets db db' fams secrets'"

text \<open>The invariant of the tables, the drawn values and the refreshes in flight.\<close>

definition tables_inv :: "preparedRefresh set \<Rightarrow> string set \<Rightarrow> string set \<Rightarrow> memoryStateStore \<Rightarrow> bool" where
  "tables_inv prepared fams secrets db =
     ((\<forall>k rec. ms_codes db k = Some rec \<longrightarrow> c_FamilyID rec \<in> fams \<and>
         (c_Status rec = ''active'' \<longleftrightarrow> ms_grants db (c_FamilyID rec) = None)) \<and>
      (\<forall>k k' rec rec'. ms_codes db k = Some rec \<longrightarrow> ms_codes db k' = Some rec' \<longrightarrow>
         c_FamilyID rec = c_FamilyID rec' \<longrightarrow> k = k') \<and>
      (\<forall>F g. ms_grants db F = Some g \<longrightarrow> F \<in> fams \<and> g_ActiveSecretHash g \<in> secrets) \<and>
      (\<forall>p \<in> prepared. g_ActiveSecretHash (pr_record p) \<in> secrets \<and>
         (\<exists>g. ms_grants db (pr_familyID p) = Some g \<and> g_Generation (pr_record p) \<le> g_Generation g \<and>
            g_ExpiresAt g = g_ExpiresAt (pr_record p) \<and>
            (g_ActiveSecretHash g = g_ActiveSecretHash (pr_record p) \<longrightarrow> g_Generation g = g_Generation (pr_record p)))))"

text \<open>What every later configuration keeps of an earlier one.\<close>

definition grant_later :: "grantRecord \<Rightarrow> grantRecord \<Rightarrow> bool" where
  "grant_later g g' =
     (g_ExpiresAt g' = g_ExpiresAt g \<and> g_Generation g \<le> g_Generation g' \<and>
      (g_Generation g' = g_Generation g \<longrightarrow> g_ActiveSecretHash g' = g_ActiveSecretHash g) \<and>
      (g_Status g \<noteq> ''active'' \<longrightarrow> g_Status g' \<noteq> ''active'' \<and> g_Generation g' = g_Generation g))"

definition tables_later :: "memoryStateStore \<Rightarrow> memoryStateStore \<Rightarrow> bool" where
  "tables_later db db' =
     ((\<forall>F g. ms_grants db F = Some g \<longrightarrow> (\<exists>g'. ms_grants db' F = Some g' \<and> grant_later g g')) \<and>
      (\<forall>k rec. ms_codes db k = Some rec \<longrightarrow> (\<exists>rec'. ms_codes db' k = Some rec' \<and> c_FamilyID rec' = c_FamilyID rec \<and>
         c_Claims rec' = c_Claims rec \<and> c_ExpiresAt rec' = c_ExpiresAt rec \<and>
         (c_Status rec \<noteq> ''active'' \<longrightarrow> c_Status rec' \<noteq> ''active''))))"

lemma grant_later_refl [simp]: "grant_later g g"
  by (simp add: grant_later_def)

lemma grant_later_trans: "grant_later g g' \<Longrightarrow> grant_later g' g'' \<Longrightarrow> grant_later g g''"
  by (auto simp: grant_later_def)

lemma grant_later_revoked: "grant_later g (revokeGrantRecord g now)"
  by (simp add: grant_later_def)

lemma tables_later_refl [simp]: "tables_later db db"
  by (simp add: tables_later_def)

lemma tables_later_trans:
  assumes "tables_later a b" "tables_later b c"
  shows "tables_later a c"
  unfolding tables_later_def
proof (intro conjI allI impI)
  fix F g assume "ms_grants a F = Some g"
  with assms show "\<exists>g'. ms_grants c F = Some g' \<and> grant_later g g'"
    unfolding tables_later_def by (meson grant_later_trans)
next
  fix k rec assume "ms_codes a k = Some rec"
  with assms(1) obtain r1 where r1: "ms_codes b k = Some r1" "c_FamilyID r1 = c_FamilyID rec" "c_Claims r1 = c_Claims rec"
    "c_ExpiresAt r1 = c_ExpiresAt rec" "c_Status rec \<noteq> ''active'' \<longrightarrow> c_Status r1 \<noteq> ''active''"
    unfolding tables_later_def by blast
  with assms(2) obtain r2 where "ms_codes c k = Some r2" "c_FamilyID r2 = c_FamilyID r1" "c_Claims r2 = c_Claims r1"
    "c_ExpiresAt r2 = c_ExpiresAt r1" "c_Status r1 \<noteq> ''active'' \<longrightarrow> c_Status r2 \<noteq> ''active''"
    unfolding tables_later_def by blast
  with r1 show "\<exists>rec'. ms_codes c k = Some rec' \<and> c_FamilyID rec' = c_FamilyID rec \<and> c_Claims rec' = c_Claims rec \<and>
      c_ExpiresAt rec' = c_ExpiresAt rec \<and> (c_Status rec \<noteq> ''active'' \<longrightarrow> c_Status rec' \<noteq> ''active'')" by auto
qed

lemma tables_invD:
  assumes "tables_inv prepared fams secrets db"
  shows "ms_codes db k = Some rec \<Longrightarrow> c_FamilyID rec \<in> fams"
    and "ms_codes db k = Some rec \<Longrightarrow> c_Status rec = ''active'' \<longleftrightarrow> ms_grants db (c_FamilyID rec) = None"
    and "ms_codes db k = Some rec \<Longrightarrow> ms_codes db k' = Some rec' \<Longrightarrow> c_FamilyID rec = c_FamilyID rec' \<Longrightarrow> k = k'"
    and "ms_grants db F = Some g \<Longrightarrow> F \<in> fams \<and> g_ActiveSecretHash g \<in> secrets"
    and "p \<in> prepared \<Longrightarrow> g_ActiveSecretHash (pr_record p) \<in> secrets"
    and "p \<in> prepared \<Longrightarrow> \<exists>g. ms_grants db (pr_familyID p) = Some g \<and> g_Generation (pr_record p) \<le> g_Generation g \<and>
            g_ExpiresAt g = g_ExpiresAt (pr_record p) \<and>
            (g_ActiveSecretHash g = g_ActiveSecretHash (pr_record p) \<longrightarrow> g_Generation g = g_Generation (pr_record p))"
  using assms unfolding tables_inv_def by blast+

text \<open>Replacing the grant of a family that has one.\<close>

lemma grant_update_inv:
  assumes inv: "tables_inv prepared fams secrets db" and cur: "ms_grants db F = Some cur"
    and codes: "ms_codes db' = ms_codes db" and grants: "ms_grants db' = (ms_grants db)(F \<mapsto> nx)"
    and later: "grant_later cur nx" and hash: "g_ActiveSecretHash nx \<in> secrets'" "secrets \<subseteq> secrets'"
    and keep: "g_ActiveSecretHash nx = g_ActiveSecretHash cur \<and> g_Generation nx = g_Generation cur \<or>
               g_ActiveSecretHash nx \<notin> secrets"
  shows "tables_inv prepared fams secrets' db' \<and> tables_later db db'"
proof
  show "tables_later db db'"
    using cur codes grants later by (auto simp: tables_later_def)
  have p: "\<exists>g. ms_grants db' (pr_familyID p) = Some g \<and> g_Generation (pr_record p) \<le> g_Generation g \<and>
            g_ExpiresAt g = g_ExpiresAt (pr_record p) \<and>
            (g_ActiveSecretHash g = g_ActiveSecretHash (pr_record p) \<longrightarrow> g_Generation g = g_Generation (pr_record p))"
    if "p \<in> prepared" for p
  proof (cases "pr_familyID p = F")
    case False
    with tables_invD(6) [OF inv that] grants show ?thesis by simp
  next
    case True
    have "g_ActiveSecretHash (pr_record p) \<in> secrets" using tables_invD(5) [OF inv that] .
    with tables_invD(6) [OF inv that] True grants cur later keep show ?thesis
      by (auto simp: grant_later_def)
  qed
  show "tables_inv prepared fams secrets' db'"
    unfolding tables_inv_def
  proof (intro conjI allI impI ballI)
    fix k rec assume "ms_codes db' k = Some rec"
    then have rec: "ms_codes db k = Some rec" using codes by simp
    show "c_FamilyID rec \<in> fams" using tables_invD(1) [OF inv rec] .
    show "(c_Status rec = ''active'') = (ms_grants db' (c_FamilyID rec) = None)"
      using tables_invD(2) [OF inv rec] grants cur by auto
  next
    fix k k' rec rec'
    assume "ms_codes db' k = Some rec" "ms_codes db' k' = Some rec'" "c_FamilyID rec = c_FamilyID rec'"
    with tables_invD(3) [OF inv] codes show "k = k'" by simp
  next
    fix F' g assume "ms_grants db' F' = Some g"
    then have "F' = F \<and> g = nx \<or> ms_grants db F' = Some g" using grants by (auto split: if_splits)
    then show "F' \<in> fams" "g_ActiveSecretHash g \<in> secrets'"
      using tables_invD(4) [OF inv] cur hash by blast+
  next
    fix p assume "p \<in> prepared"
    then show "g_ActiveSecretHash (pr_record p) \<in> secrets'" using tables_invD(5) [OF inv] hash(2) by blast
    show "\<exists>g. ms_grants db' (pr_familyID p) = Some g \<and> g_Generation (pr_record p) \<le> g_Generation g \<and>
            g_ExpiresAt g = g_ExpiresAt (pr_record p) \<and>
            (g_ActiveSecretHash g = g_ActiveSecretHash (pr_record p) \<longrightarrow> g_Generation g = g_Generation (pr_record p))"
      using p \<open>p \<in> prepared\<close> by blast
  qed
qed

lemma issue_inv:
  assumes inv: "tables_inv prepared fams secrets db" and k: "ms_codes db k = None" "c_Status cr = ''active''"
    and fresh: "c_FamilyID cr \<notin> fams" and codes: "ms_codes db' = (ms_codes db)(k \<mapsto> cr)"
    and grants: "ms_grants db' = ms_grants db"
  shows "tables_inv prepared (insert (c_FamilyID cr) fams) secrets db' \<and> tables_later db db'"
proof
  show "tables_later db db'" using k codes grants by (auto simp: tables_later_def)
  have none: "ms_grants db (c_FamilyID cr) = None" using tables_invD(4) [OF inv, of "c_FamilyID cr"] fresh
    by (cases "ms_grants db (c_FamilyID cr)") auto
  show "tables_inv prepared (insert (c_FamilyID cr) fams) secrets db'"
    unfolding tables_inv_def
  proof (intro conjI allI impI ballI)
    fix k' rec assume "ms_codes db' k' = Some rec"
    then have "k' = k \<and> rec = cr \<or> ms_codes db k' = Some rec" using codes by (auto split: if_splits)
    then show "c_FamilyID rec \<in> insert (c_FamilyID cr) fams"
      "(c_Status rec = ''active'') = (ms_grants db' (c_FamilyID rec) = None)"
      using tables_invD(1,2) [OF inv] grants k(2) none by auto
  next
    fix k1 k2 rec rec'
    assume "ms_codes db' k1 = Some rec" "ms_codes db' k2 = Some rec'" "c_FamilyID rec = c_FamilyID rec'"
    moreover have "c_FamilyID r \<noteq> c_FamilyID cr" if "ms_codes db k' = Some r" for k' r
      using tables_invD(1) [OF inv that] fresh by auto
    ultimately show "k1 = k2" using codes tables_invD(3) [OF inv] by (fastforce split: if_splits)
  next
    fix F g assume "ms_grants db' F = Some g"
    with grants tables_invD(4) [OF inv] show "F \<in> insert (c_FamilyID cr) fams" "g_ActiveSecretHash g \<in> secrets" by auto
  next
    fix p assume "p \<in> prepared"
    with tables_invD(5,6) [OF inv] grants show "g_ActiveSecretHash (pr_record p) \<in> secrets"
      "\<exists>g. ms_grants db' (pr_familyID p) = Some g \<and> g_Generation (pr_record p) \<le> g_Generation g \<and>
            g_ExpiresAt g = g_ExpiresAt (pr_record p) \<and>
            (g_ActiveSecretHash g = g_ActiveSecretHash (pr_record p) \<longrightarrow> g_Generation g = g_Generation (pr_record p))"
      by simp_all
  qed
qed

lemma install_inv:
  assumes inv: "tables_inv prepared fams secrets db" and red: "redeemed db k now g db'"
    and fresh: "g_ActiveSecretHash g \<notin> secrets"
  shows "tables_inv prepared fams (insert (g_ActiveSecretHash g) secrets) db' \<and> tables_later db db'"
proof -
  obtain rec where rec: "ms_codes db k = Some rec" and act: "c_Status rec = ''active''"
    and codes: "ms_codes db' = (ms_codes db)(k \<mapsto> rec\<lparr>c_Status := ''used'', c_UsedAt := now\<rparr>)"
    and grants: "ms_grants db' = (ms_grants db)(c_FamilyID rec \<mapsto> g)"
    using red by (auto simp: redeemed_def codeRedemptionDecision_None_iff)
  have none: "ms_grants db (c_FamilyID rec) = None" using tables_invD(2) [OF inv rec] act by simp
  have old: "\<exists>r. ms_codes db k' = Some r \<and> c_FamilyID r' = c_FamilyID r \<and> (k' = k \<longrightarrow> r = rec) \<and>
      c_Status r' = (if k' = k then ''used'' else c_Status r)"
    if "ms_codes db' k' = Some r'" for k' r'
    using that codes rec by (auto split: if_splits)
  have "tables_later db db'"
    using rec act none codes grants by (auto simp: tables_later_def)
  moreover have "tables_inv prepared fams (insert (g_ActiveSecretHash g) secrets) db'"
    unfolding tables_inv_def
  proof (intro conjI allI impI ballI)
    fix k' r' assume "ms_codes db' k' = Some r'"
    then obtain r where r: "ms_codes db k' = Some r" "c_FamilyID r' = c_FamilyID r" "k' = k \<longrightarrow> r = rec"
      "c_Status r' = (if k' = k then ''used'' else c_Status r)" using old by blast
    show "c_FamilyID r' \<in> fams" using tables_invD(1) [OF inv r(1)] r(2) by simp
    have "k' \<noteq> k \<Longrightarrow> c_FamilyID r \<noteq> c_FamilyID rec" using tables_invD(3) [OF inv r(1) rec] by blast
    then show "(c_Status r' = ''active'') = (ms_grants db' (c_FamilyID r') = None)"
      using tables_invD(2) [OF inv r(1)] r grants by auto
  next
    fix k1 k2 r1 r2
    assume "ms_codes db' k1 = Some r1" "ms_codes db' k2 = Some r2" "c_FamilyID r1 = c_FamilyID r2"
    with old [of k1 r1] old [of k2 r2] tables_invD(3) [OF inv] show "k1 = k2" by metis
  next
    fix F g' assume "ms_grants db' F = Some g'"
    then have "F = c_FamilyID rec \<and> g' = g \<or> ms_grants db F = Some g'" using grants by (auto split: if_splits)
    then show "F \<in> fams" "g_ActiveSecretHash g' \<in> insert (g_ActiveSecretHash g) secrets"
      using tables_invD(1) [OF inv rec] tables_invD(4) [OF inv] by blast+
  next
    fix p assume p: "p \<in> prepared"
    then show "g_ActiveSecretHash (pr_record p) \<in> insert (g_ActiveSecretHash g) secrets"
      using tables_invD(5) [OF inv] by blast
    have "pr_familyID p \<noteq> c_FamilyID rec" using tables_invD(6) [OF inv p] none by auto
    with tables_invD(6) [OF inv p] grants show "\<exists>g. ms_grants db' (pr_familyID p) = Some g \<and>
        g_Generation (pr_record p) \<le> g_Generation g \<and> g_ExpiresAt g = g_ExpiresAt (pr_record p) \<and>
        (g_ActiveSecretHash g = g_ActiveSecretHash (pr_record p) \<longrightarrow> g_Generation g = g_Generation (pr_record p))"
      by simp
  qed
  ultimately show ?thesis by simp
qed

lemma weaken_inv:
  assumes "tables_inv prepared fams secrets db" "ms_codes db' = ms_codes db" "ms_grants db' = ms_grants db"
    and "fams \<subseteq> fams'" "secrets \<subseteq> secrets'"
  shows "tables_inv prepared fams' secrets' db' \<and> tables_later db db'"
  using assms unfolding tables_inv_def tables_later_def
  by (auto 0 3 simp: subset_iff)

lemma table_change_inv:
  assumes "table_change prepared fams secrets db db' fams' secrets'" "tables_inv prepared fams secrets db"
  shows "tables_inv prepared fams' secrets' db' \<and> tables_later db db'"
  using assms
proof (cases rule: table_change.cases)
  case same
  then show ?thesis using weaken_inv [OF assms(2)] by blast
next
  case (issue k cr)
  then show ?thesis using issue_inv [OF assms(2)] by blast
next
  case (install k now g)
  then show ?thesis using install_inv [OF assms(2)] by blast
next
  case (rotate p nx now)
  then obtain cur where cur: "ms_grants db (pr_familyID p) = Some cur" "grantActive cur now"
      "g_ActiveSecretHash cur = g_ActiveSecretHash (pr_record p)"
    and db': "db' = db\<lparr>ms_grants := (ms_grants db)(pr_familyID p \<mapsto> nx)\<rparr>"
    by (auto simp: rotated_def grantRotationDecision_None_iff)
  have "g_Generation cur = g_Generation (pr_record p)" "g_ExpiresAt cur = g_ExpiresAt (pr_record p)"
    using tables_invD(6) [OF assms(2) rotate(3)] cur by auto
  then have "grant_later cur nx" using rotate cur(2) by (simp add: grant_later_def grantActive_def)
  then show ?thesis
    using grant_update_inv [OF assms(2) cur(1), of db' nx secrets'] db' rotate by auto
next
  case (revoke F now)
  then obtain g where g: "ms_grants db F = Some g"
    and db': "db' = db\<lparr>ms_grants := (ms_grants db)(F \<mapsto> revokeGrantRecord g now)\<rparr>"
    by (auto simp: revoked_existing_def)
  have "g_ActiveSecretHash g \<in> secrets'" using tables_invD(4) [OF assms(2) g] revoke by blast
  then show ?thesis
    using grant_update_inv [OF assms(2) g, of db' "revokeGrantRecord g now" secrets'] db' revoke grant_later_revoked [of g now]
    by simp
qed

subsection \<open>The transition system\<close>

record 's server_state =
  ss_store :: 's
  ss_prepared :: "preparedRefresh set"
  ss_families :: "string set"
  ss_secrets :: "string set"

inductive handler_step ::
    "runtime \<Rightarrow> netlib \<Rightarrow> 's oauthStateStore \<Rightarrow> 's server_state \<Rightarrow> 's server_state \<Rightarrow> bool"
  for rt :: runtime and net :: netlib and ops :: "'s oauthStateStore" where
  authorize: "handleAuthorize rt net srv ops (ss_store c) clk rnd nonce q = (s', r) \<Longrightarrow>
     handler_step rt net ops c (c\<lparr>ss_store := s'\<rparr>)"
| callback: "handleCallback rt net srv p ops (ss_store c) clk f cd nonce q = (s', r) \<Longrightarrow>
     randomOpaque f \<notin> ss_families c \<Longrightarrow>
     handler_step rt net ops c (c\<lparr>ss_store := s', ss_families := insert (randomOpaque f) (ss_families c)\<rparr>)"
| exchange: "ExchangeCode rt srv ops (ss_store c) now rnd nonce ex = (s', r) \<Longrightarrow>
     tokenHash rt (randomOpaque rnd) \<notin> ss_secrets c \<Longrightarrow>
     handler_step rt net ops c
       (c\<lparr>ss_store := s', ss_secrets := insert (tokenHash rt (randomOpaque rnd)) (ss_secrets c)\<rparr>)"
| prepare: "PrepareRefresh rt srv ops (ss_store c) now token clientID = (s', r) \<Longrightarrow>
     handler_step rt net ops c (c\<lparr>ss_store := s',
       ss_prepared := (case r of Inr p \<Rightarrow> insert p (ss_prepared c) | Inl _ \<Rightarrow> ss_prepared c)\<rparr>)"
| rotate: "p \<in> ss_prepared c \<Longrightarrow> RotateRefresh rt srv ops (ss_store c) rnd nonce p gr = (s', r) \<Longrightarrow>
     tokenHash rt (randomOpaque rnd) \<notin> ss_secrets c \<Longrightarrow>
     handler_step rt net ops c
       (c\<lparr>ss_store := s', ss_secrets := insert (tokenHash rt (randomOpaque rnd)) (ss_secrets c)\<rparr>)"
| revoke_family: "p \<in> ss_prepared c \<Longrightarrow> RevokeFamily ops (ss_store c) p = (s', r') \<Longrightarrow>
     handler_step rt net ops c (c\<lparr>ss_store := s'\<rparr>)"
| revoke_token: "RevokeToken rt srv ops (ss_store c) now token = (s', rr) \<Longrightarrow>
     handler_step rt net ops c (c\<lparr>ss_store := s'\<rparr>)"

inductive_cases handler_stepE: "handler_step rt net ops c c'"

definition initial :: "('s \<Rightarrow> memoryStateStore) \<Rightarrow> 's server_state \<Rightarrow> bool" where
  "initial view c =
     (ms_codes (view (ss_store c)) = Map.empty \<and> ms_grants (view (ss_store c)) = Map.empty \<and> ss_prepared c = {})"

definition config_inv :: "('s \<Rightarrow> memoryStateStore) \<Rightarrow> 's server_state \<Rightarrow> bool" where
  "config_inv view c = tables_inv (ss_prepared c) (ss_families c) (ss_secrets c) (view (ss_store c))"

lemma config_inv_initial: "initial view c \<Longrightarrow> config_inv view c"
  by (simp add: initial_def config_inv_def tables_inv_def)

lemma revoked_existing_change:
  "rotate_replayed db F h now db' \<Longrightarrow> revoked_existing db F now db'"
  by (auto simp: rotate_replayed_def revoked_existing_def)

text \<open>A replayed code is a used one, so its family has a grant and only a grant is revoked.\<close>

lemma redeem_replayed_change:
  assumes "tables_inv prepared fams secrets db" "redeem_replayed db k now db'"
  shows "\<exists>F. revoked_existing db F now db'"
proof -
  obtain rec where rec: "ms_codes db k = Some rec" "codeRedemptionDecision rec now = Some errCodeReplay"
    "revoked_family db (c_FamilyID rec) now db'" using assms(2) by (auto simp: redeem_replayed_def)
  then have "c_Status rec \<noteq> ''active''" by (simp add: codeRedemptionDecision_replay_iff)
  then obtain g where "ms_grants db (c_FamilyID rec) = Some g"
    using tables_invD(2) [OF assms(1) rec(1)] by auto
  with rec(3) show ?thesis by (auto simp: revoked_family_def revoked_existing_def)
qed

context oauth_state_store begin

text \<open>Every handler changes the tables in one of the ways of \<open>table_change\<close>.\<close>

lemma handler_table_change:
  assumes "handler_step rt net ops c c'" "config_inv view c"
  shows "table_change (ss_prepared c) (ss_families c) (ss_secrets c) (view (ss_store c)) (view (ss_store c'))
           (ss_families c') (ss_secrets c')"
  using assms(1)
proof cases
  case (authorize srv clk rnd nonce q s' r)
  with authorize_effect [OF authorize(2)] show ?thesis by (intro table_change.same) auto
next
  case (callback srv p clk f cd nonce q s' r)
  from callback_effect [OF callback(2)] show ?thesis
  proof (elim conjE disjE exE)
    assume "ms_grants (view s') = ms_grants (view (ss_store c))" "ms_codes (view s') = ms_codes (view (ss_store c))"
    with callback show ?thesis by (intro table_change.same) auto
  next
    fix k cr assume *: "ms_grants (view s') = ms_grants (view (ss_store c))" "ms_codes (view (ss_store c)) k = None"
      "c_Status cr = ''active''" "c_FamilyID cr = randomOpaque f"
      "ms_codes (view s') = (ms_codes (view (ss_store c)))(k \<mapsto> cr)"
    have "table_change (ss_prepared c) (ss_families c) (ss_secrets c) (view (ss_store c)) (view s')
        (insert (c_FamilyID cr) (ss_families c)) (ss_secrets c)"
      using * callback(3) by (intro table_change.issue) auto
    with callback * show ?thesis by simp
  qed
next
  case (exchange srv now rnd nonce ex s' r)
  from exchange_effect [OF exchange(2)] show ?thesis
  proof (elim disjE exE conjE)
    assume "view s' = view (ss_store c)"
    with exchange show ?thesis by (intro table_change.same) auto
  next
    fix rec cc
    let ?g = "installed_grant rt srv now rnd nonce rec cc"
    assume red: "redeemed (view (ss_store c)) (tokenHash rt (ce_Code ex)) now ?g (view s')"
    have g: "g_ActiveSecretHash ?g = tokenHash rt (randomOpaque rnd)"
      by (simp add: installed_grant_def makeRefreshToken_def Let_def)
    with exchange(3) table_change.install [OF red, of "ss_secrets c" "ss_prepared c" "ss_families c"] exchange(1)
    show ?thesis by simp
  next
    assume "redeem_replayed (view (ss_store c)) (tokenHash rt (ce_Code ex)) now (view s')"
    from redeem_replayed_change [OF assms(2) [unfolded config_inv_def] this]
    obtain F where "revoked_existing (view (ss_store c)) F now (view s')" ..
    with exchange show ?thesis by (auto intro: table_change.revoke)
  qed
next
  case (prepare srv now token clientID s' r)
  from prepare_effect [OF prepare(2)] show ?thesis
  proof (elim disjE exE)
    assume "view s' = view (ss_store c)"
    with prepare show ?thesis by (intro table_change.same) auto
  next
    fix F h assume "rotate_replayed (view (ss_store c)) F h now (view s')"
    from revoked_existing_change [OF this] prepare show ?thesis by (auto intro: table_change.revoke)
  qed
next
  case (rotate p srv rnd nonce gr s' r)
  let ?nx = "rotation_record rt srv rnd nonce p (rotated_claims p gr)"
  from rotate_effect [OF rotate(3)] show ?thesis
  proof (elim disjE)
    assume "view s' = view (ss_store c)"
    with rotate show ?thesis by (intro table_change.same) auto
  next
    assume rot: "rotated (view (ss_store c)) (pr_familyID p) (g_ActiveSecretHash (pr_record p)) ?nx (pr_startedAt p) (view s')"
    have nx: "g_ActiveSecretHash ?nx = tokenHash rt (randomOpaque rnd)" "g_Generation ?nx = g_Generation (pr_record p) + 1"
      "g_ExpiresAt ?nx = g_ExpiresAt (pr_record p)"
      by (simp_all add: rotation_record_def makeRefreshToken_def Let_def)
    with rotate table_change.rotate [OF rotate(2) rot] show ?thesis by simp
  next
    assume "rotate_replayed (view (ss_store c)) (pr_familyID p) (g_ActiveSecretHash (pr_record p)) (pr_startedAt p) (view s')"
    from revoked_existing_change [OF this] rotate show ?thesis by (auto intro: table_change.revoke)
  qed
next
  case (revoke_family p s' r')
  from revoke_family_effect [OF revoke_family(3)] show ?thesis
  proof (elim disjE exE)
    assume "view s' = view (ss_store c)"
    with revoke_family show ?thesis by (intro table_change.same) auto
  qed (use revoke_family in \<open>auto intro: table_change.revoke\<close>)
next
  case (revoke_token srv now token s' rr)
  from revoke_token_effect [OF revoke_token(2)] show ?thesis
  proof (elim disjE exE)
    assume "view s' = view (ss_store c)"
    with revoke_token show ?thesis by (intro table_change.same) auto
  qed (use revoke_token in \<open>auto intro: table_change.revoke\<close>)
qed

lemma prepared_inv:
  assumes "tables_inv prepared fams secrets db" "ms_grants db (pr_familyID p) = Some (pr_record p)"
  shows "tables_inv (insert p prepared) fams secrets db"
  using assms unfolding tables_inv_def by auto

lemma handler_step_inv:
  assumes "handler_step rt net ops c c'" "config_inv view c"
  shows "config_inv view c' \<and> tables_later (view (ss_store c)) (view (ss_store c'))"
proof -
  have new: "tables_inv (ss_prepared c) (ss_families c') (ss_secrets c') (view (ss_store c')) \<and>
      tables_later (view (ss_store c)) (view (ss_store c'))"
    using table_change_inv [OF handler_table_change [OF assms]] assms(2) by (simp add: config_inv_def)
  have "ss_prepared c' = ss_prepared c \<or>
      (\<exists>p. ss_prepared c' = insert p (ss_prepared c) \<and> ms_grants (view (ss_store c')) (pr_familyID p) = Some (pr_record p))"
    using assms(1)
  proof cases
    case (prepare srv now token clientID s' r)
    then show ?thesis using prepare_ok [of rt srv "ss_store c" now token clientID s'] by (cases r) auto
  qed auto
  with new prepared_inv show ?thesis by (auto simp: config_inv_def)
qed

lemma handler_steps_inv:
  assumes "(handler_step rt net ops)\<^sup>*\<^sup>* c c'" "config_inv view c"
  shows "config_inv view c' \<and> tables_later (view (ss_store c)) (view (ss_store c'))"
  using assms(1)
proof (induction rule: rtranclp_induct)
  case base
  then show ?case using assms(2) by simp
next
  case (step c1 c2)
  with handler_step_inv [OF step.hyps(2)] tables_later_trans show ?case by blast
qed

end

subsection \<open>Properties\<close>



subsection \<open>A run\<close>

text \<open>
  Authorization, callback and exchange on the in-memory adapter.
\<close>

definition ex_start :: "memoryStateStore server_state" where
  "ex_start = \<lparr>ss_store = newMemoryStateStore, ss_prepared = {}, ss_families = {}, ss_secrets = {}\<rparr>"

lemma ex_initial: "initial (\<lambda>s. s) ex_start"
  by (simp add: initial_def ex_start_def newMemoryStateStore_def)

definition ex_flow_exchange :: codeExchange where
  "ex_flow_exchange = \<lparr>ce_Code = fst (makeAuthorizationCode ex_runtime ''c''), ce_ClientID = ex_client_id,
     ce_RedirectURI = ''http://localhost:1/cb'', ce_CodeVerifier = ''verifier'', ce_Resource = []\<rparr>"

abbreviation ex_flow_code :: codeRecord where
  "ex_flow_code \<equiv> callback_record ex_flow_runtime ex_server (\<lambda>_. 1) ''f'' ex_nonce (state_claims_of ex_query 0)
     ex_upstream ex_identity ex_granted"

abbreviation ex_family :: string where "ex_family \<equiv> randomOpaque ''f''"

lemma ex_flow_admitted: "exchange_admitted ex_flow_runtime ex_server 1 ex_flow_exchange ex_flow_code ex_flow_claims"
proof -
  have "distinct (map rk_id (sl_ring ex_sealer))" using ex_ring(1) by (simp add: ring_wf_def)
  from open_sealed [of ex_flow_runtime, OF _ ex_ring _ this sealKey_in [OF ex_ring(1)] refl, of "storedCodeBlob ex_flow_runtime"
      ex_flow_claims 1]
  have "openBlob ex_flow_runtime ex_sealer (storedCodeBlob ex_flow_runtime) (c_Claims ex_flow_code) 1 = Inr ex_flow_claims"
    by (simp add: storedCodeBlob_def const_codec_def callback_record_def ex_flow_claims_def)
  then show ?thesis
    by (simp add: exchange_admitted_def callback_record_def codeTTL_def duration_defs ex_flow_exchange_def
        ex_flow_claims_def callback_claims_def state_claims_of_def ex_query_def verifyPKCE_def)
       (simp add: ex_flow_runtime_def ex_runtime_def)
qed

lemma ex_flow_grant:
  "\<exists>c. (handler_step ex_flow_runtime ex_net memory_store)\<^sup>*\<^sup>* ex_start c \<and>
       ms_grants (ss_store c) = [ex_family \<mapsto>
         installed_grant ex_flow_runtime ex_server 1 ''r'' ex_nonce ex_flow_code ex_flow_claims] \<and>
       (\<exists>rec. ms_codes (ss_store c) (snd (makeAuthorizationCode ex_runtime ''c'')) = Some rec \<and>
          c_Status rec \<noteq> ''active'')"
proof -
  let ?step = "handler_step ex_flow_runtime ex_net memory_store"
  obtain s2 params where s2: "handleCallback ex_flow_runtime ex_net ex_server ex_idp memory_store ex_authorized (\<lambda>_. 1)
      ''f'' ''c'' ex_nonce ex_callback = (s2, RedirectTo ''http://localhost:1/cb'' params)"
    "ms_codes s2 = [snd (makeAuthorizationCode ex_runtime ''c'') \<mapsto> ex_flow_code]" "ms_grants s2 = Map.empty"
    using ex_login by blast
  have key: "tokenHash ex_runtime (ce_Code ex_flow_exchange) = snd (makeAuthorizationCode ex_runtime ''c'')"
    by (simp add: ex_flow_exchange_def makeAuthorizationCode_def Let_def)
  have code: "ms_codes s2 (tokenHash ex_flow_runtime (ce_Code ex_flow_exchange)) = Some ex_flow_code"
    using s2(2) by (simp add: key)
  let ?g = "installed_grant ex_flow_runtime ex_server 1 ''r'' ex_nonce ex_flow_code ex_flow_claims"
  let ?s3 = "s2\<lparr>ms_codes := (ms_codes s2)(tokenHash ex_flow_runtime (ce_Code ex_flow_exchange) \<mapsto>
                 ex_flow_code\<lparr>c_Status := ''used'', c_UsedAt := 1\<rparr>),
               ms_grants := (ms_grants s2)(c_FamilyID ex_flow_code \<mapsto> ?g)\<rparr>"
  have ex: "ExchangeCode ex_flow_runtime ex_server memory_store s2 1 ''r'' ex_nonce ex_flow_exchange =
      (?s3, Inr (exchange_tokens ex_flow_runtime ''r'' ex_flow_code ex_flow_claims))"
    using ExchangeCode_admitted [of memory_store s2 ex_flow_runtime ex_flow_exchange, OF _ ex_flow_admitted] code
    by (simp add: memory_store_def mem_GetCode_def mem_RedeemCode_def codeRedemptionDecision_def callback_record_def
        codeTTL_def duration_defs Let_def)
  define c1 where "c1 = ex_start\<lparr>ss_store := ex_authorized\<rparr>"
  define c2 where "c2 = c1\<lparr>ss_store := s2, ss_families := insert ex_family (ss_families c1)\<rparr>"
  define c3 where "c3 = c2\<lparr>ss_store := ?s3,
    ss_secrets := insert (tokenHash ex_flow_runtime (randomOpaque ''r'')) (ss_secrets c2)\<rparr>"
  have "?step ex_start c1"
    unfolding c1_def using ex_authorize by (intro handler_step.authorize) (simp add: ex_start_def)
  moreover have "?step c1 c2"
    unfolding c2_def by (rule handler_step.callback [where clk = "\<lambda>_. 1"])
      (use s2(1) in \<open>simp_all add: c1_def ex_start_def\<close>)
  moreover have "?step c2 c3"
    unfolding c3_def by (rule handler_step.exchange) (use ex in \<open>simp_all add: c2_def c1_def ex_start_def\<close>)
  ultimately have "?step\<^sup>*\<^sup>* ex_start c3" by (meson converse_rtranclp_into_rtranclp rtranclp.rtrancl_refl)
  moreover have "ms_grants (ss_store c3) = [ex_family \<mapsto> ?g]"
    by (simp add: c3_def s2(3) callback_record_def)
  moreover have "\<exists>rec. ms_codes (ss_store c3) (snd (makeAuthorizationCode ex_runtime ''c'')) = Some rec \<and>
      c_Status rec \<noteq> ''active''"
    by (simp add: c3_def key)
  ultimately show ?thesis by blast
qed



end
