(* ===== verification/Oauth_Adapters.thy ===== *)
theory Oauth_Adapters
  imports Oauth_Protocol
begin

text \<open>
  The two adapters of the state store implement one contract, and answer alike: the Firestore
  adapter over documents that are the tables themselves and the in-memory adapter.
\<close>

context firestore_client begin

lemma adapter_contract: "oauth_state_store (firestore_store c) docs"
  by (rule fs.oauth_state_store_axioms)

end



text \<open>Two results are the same to a caller: both succeed, or both fail with the same sentinels.\<close>

definition same_error :: "go_error \<Rightarrow> go_error \<Rightarrow> bool" where
  "same_error e e' = (\<forall>t \<in> set oauth_sentinels. errors_is e t = errors_is e' t)"

fun same_answer :: "'s \<times> go_error option \<Rightarrow> 's \<times> go_error option \<Rightarrow> bool" where
  "same_answer (s, None) (s', None) = (s = s')"
| "same_answer (s, Some e) (s', Some e') = (s = s' \<and> same_error e e')"
| "same_answer _ _ = False"

lemma same_error_refl [simp]: "same_error e e"
  by (simp add: same_error_def)

lemma same_error_Wrap:
  "m \<notin> {''sealed with a key not in the ring (rotated away or foreign deployment)'', ''expired''} \<Longrightarrow>
     same_error (Wrap m [e]) e"
  by (auto simp: same_error_def oauth_sentinels_def sentinel_defs)

lemma reference_simps [simp]:
  "fs_get_code reference_client d k = (case ms_codes d k of None \<Rightarrow> FsNotFound | Some r \<Rightarrow> FsDoc (Inr r))"
  "fs_get_grant reference_client d k = (case ms_grants d k of None \<Rightarrow> FsNotFound | Some r \<Rightarrow> FsDoc (Inr r))"
  "fs_stage reference_client d w = None"
  "fs_commit reference_client d ws =
     (case apply_writes d ws of None \<Rightarrow> (d, Some (Sentinel ''precondition failed'')) | Some d' \<Rightarrow> (d', None))"
  by (simp_all add: reference_client_def)

lemma reference_stage_all [simp]: "stage_all reference_client d ws = Inr (map snd ws)"
  by (induction ws) (auto simp: stage_all.simps)

lemma rotate_agrees:
  "same_answer (fs_RotateGrant reference_client d F h nx now) (mem_RotateGrant d F h nx now)"
proof (cases "ms_grants d F")
  case None
  then show ?thesis
    by (simp add: fs_RotateGrant_def rotate_tx_def run_transaction_def mem_RotateGrant_def same_error_Wrap)
next
  case (Some cur)
  consider "grantRotationDecision cur h now = None" | "grantRotationDecision cur h now = Some errGrantReplay"
    | "grantRotationDecision cur h now = Some errGrantInactive"
    using grantRotationDecision_cases [of cur h now] by auto
  then show ?thesis
    by cases (use Some in \<open>simp_all add: fs_RotateGrant_def rotate_tx_def run_transaction_def mem_RotateGrant_def
      revokeGrantRecord_def Let_def same_error_Wrap\<close>)
qed

lemma redeem_agrees:
  assumes "\<And>rec. ms_codes d k = Some rec \<Longrightarrow> c_Status rec = ''active'' \<longleftrightarrow> ms_grants d (c_FamilyID rec) = None"
  shows "same_answer (fs_RedeemCode reference_client d k now g) (mem_RedeemCode d k now g)"
proof (cases "ms_codes d k")
  case None
  then show ?thesis
    by (simp add: fs_RedeemCode_def redeem_tx_def run_transaction_def mem_RedeemCode_def same_error_Wrap)
next
  case (Some rec)
  consider (ok) "codeRedemptionDecision rec now = None" | (replay) "codeRedemptionDecision rec now = Some errCodeReplay"
    | (gone) "codeRedemptionDecision rec now = Some errStateNotFound"
    using codeRedemptionDecision_cases [of rec now] by auto
  then show ?thesis
  proof cases
    case ok
    then have "ms_grants d (c_FamilyID rec) = None"
      using assms [OF Some] by (simp add: codeRedemptionDecision_None_iff)
    with Some ok show ?thesis
      by (simp add: fs_RedeemCode_def redeem_tx_def run_transaction_def mem_RedeemCode_def Let_def)
  next
    case replay
    then obtain cur where "ms_grants d (c_FamilyID rec) = Some cur"
      using assms [OF Some] by (auto simp: codeRedemptionDecision_replay_iff)
    with Some replay show ?thesis
      by (simp add: fs_RedeemCode_def redeem_tx_def run_transaction_def mem_RedeemCode_def revokeGrantRecord_def Let_def)
  next
    case gone
    with Some show ?thesis
      by (simp add: fs_RedeemCode_def redeem_tx_def run_transaction_def mem_RedeemCode_def Let_def same_error_Wrap)
  qed
qed

lemma revoke_agrees:
  "same_answer (fs_RevokeGrant reference_client d F now) (mem_RevokeGrant d F now)"
  by (cases "ms_grants d F")
     (simp_all add: fs_RevokeGrant_def revoke_tx_def run_transaction_def mem_RevokeGrant_def revokeGrantRecord_def)

lemma revoke_if_secret_agrees:
  "fs_RevokeGrantIfSecret reference_client d F h now = mem_RevokeGrantIfSecret d F h now"
  by (cases "ms_grants d F")
     (simp_all add: fs_RevokeGrantIfSecret_def revoke_if_secret_tx_def run_transaction_def mem_RevokeGrantIfSecret_def
       grantRevokePossessed_def revokeGrantRecord_def)



end
