(* ===== verification/Oauth_Lifecycle_Props.thy ===== *)
theory Oauth_Lifecycle_Props
  imports Oauth_Lifecycle
begin

text \<open>
  The properties of the grant lifecycle, each with a witness on the deployment of
  \<open>Oauth_Examples\<close>.
\<close>

subsection \<open>Exchanging an authorization code\<close>

lemma memory_gets [simp]:
  "GetCode memory_store = mem_GetCode" "GetGrant memory_store = mem_GetGrant"
  "RedeemCode memory_store = mem_RedeemCode" "RotateGrant memory_store = mem_RotateGrant"
  "RevokeGrant memory_store = mem_RevokeGrant"
  by (simp_all add: memory_store_def)

lemma mem_GetCode_Inr [simp]: "mem_GetCode s k = Inr rec \<longleftrightarrow> ms_codes s k = Some rec"
  by (simp add: mem_GetCode_def split: option.splits)

lemma mem_GetGrant_Inr [simp]: "mem_GetGrant s k = Inr rec \<longleftrightarrow> ms_grants s k = Some rec"
  by (simp add: mem_GetGrant_def split: option.splits)

lemma mem_RedeemCode_admitted:
  assumes "ms_codes s k = Some rec" "exchange_admitted rt srv now ex rec cc"
  shows "mem_RedeemCode s k now g =
    (s\<lparr>ms_codes := (ms_codes s)(k \<mapsto> rec\<lparr>c_Status := ''used'', c_UsedAt := now\<rparr>),
       ms_grants := (ms_grants s)(c_FamilyID rec \<mapsto> g)\<rparr>, None)"
  using assms by (simp add: mem_RedeemCode_def exchange_admitted_def codeRedemptionDecision_def Let_def)

text \<open>
  C3: exchanging an authorization code against the in-memory adapter succeeds exactly when the
  stored record is active and unexpired, its sealed claims open, the client and the redirect URI
  are those of the claims, the PKCE verifier hashes to the stored challenge and the requested
  resource, if any, is the issuer; then the code is marked used, the family gets exactly one grant
  (generation 1, active, the hash of the secret inside the returned refresh token, an absolute
  expiry one refresh lifetime away) and nothing else changes.
\<close>

theorem exchange_code_exact:
  "ExchangeCode rt srv memory_store s now rnd nonce ex = (s', Inr t) \<longleftrightarrow>
     (\<exists>rec cc. ms_codes s (tokenHash rt (ce_Code ex)) = Some rec \<and> exchange_admitted rt srv now ex rec cc \<and>
        t = exchange_tokens rt rnd rec cc \<and>
        s' = s\<lparr>ms_codes := (ms_codes s)(tokenHash rt (ce_Code ex) \<mapsto> rec\<lparr>c_Status := ''used'', c_UsedAt := now\<rparr>),
               ms_grants := (ms_grants s)(c_FamilyID rec \<mapsto> installed_grant rt srv now rnd nonce rec cc)\<rparr>)"
  (is "?L = ?R")
proof
  assume ?L
  then show ?R
    by (rule ExchangeCode_Inr) (use mem_RedeemCode_admitted in fastforce)
next
  assume ?R
  then show ?L
    using ExchangeCode_admitted [of memory_store] mem_RedeemCode_admitted by fastforce
qed

text \<open>
  A code is spent by its exchange, whatever adapter holds the state: after a successful
  exchange no later exchange of that code succeeds while its record is not put back, with whatever
  client, verifier, resource or time it is tried.
\<close>

theorem exchange_at_most_once:
  assumes "oauth_state_store ops view" "ExchangeCode rt srv ops s now rnd nonce ex = (s', Inr t)"
    and "ms_codes (view s'') (tokenHash rt (ce_Code ex)) = ms_codes (view s') (tokenHash rt (ce_Code ex))"
    and "ce_Code ex' = ce_Code ex"
  shows "\<nexists>t'. snd (ExchangeCode rt srv ops s'' now' rnd' nonce' ex') = Inr t'"
proof -
  obtain rec where "ms_codes (view s') (tokenHash rt (ce_Code ex)) = Some rec" "c_Status rec = ''used''"
    using oauth_state_store.exchange_spends_code [OF assms(1,2)] by blast
  with assms(3,4) show ?thesis
    using oauth_state_store.exchange_needs_active [OF assms(1), of s'' rt ex' rec] by simp
qed

lemma ex_admitted: "exchange_admitted ex_runtime ex_server 1 ex_exchange ex_code ex_code_claims"
  using ex_open(1) [of 1]
  by (simp add: exchange_admitted_def ex_server_def ex_exchange_def ex_code_claims_def ex_code_def codeTTL_def
      duration_defs verifyPKCE_def ex_runtime_def ex_config_def ex_issuer_def trim_right_def)

lemma ex_exchange_ok:
  "ExchangeCode ex_runtime ex_server memory_store ex_store 1 ''r'' ex_nonce ex_exchange =
     (ex_store\<lparr>ms_codes := (ms_codes ex_store)(tokenHash ex_runtime ''code'' \<mapsto>
                 ex_code\<lparr>c_Status := ''used'', c_UsedAt := 1\<rparr>),
               ms_grants := (ms_grants ex_store)(''fam'' \<mapsto>
                 installed_grant ex_runtime ex_server 1 ''r'' ex_nonce ex_code ex_code_claims)\<rparr>,
      Inr (exchange_tokens ex_runtime ''r'' ex_code ex_code_claims))"
  using ExchangeCode_admitted [OF _ ex_admitted, of memory_store ex_store "''r''" ex_nonce]
    mem_RedeemCode_admitted [OF _ ex_admitted, of ex_store "tokenHash ex_runtime ''code''"]
  by (simp add: ex_store_def ex_exchange_def ex_code_def)

theorem exchange_at_most_once_witness:
  "\<nexists>t'. snd (ExchangeCode ex_runtime ex_server memory_store
     (fst (ExchangeCode ex_runtime ex_server memory_store ex_store 1 ''r'' ex_nonce ex_exchange))
     2 ''q'' ex_nonce ex_exchange) = Inr t'"
  using exchange_at_most_once [OF mem.oauth_state_store_axioms ex_exchange_ok refl refl] by (simp add: ex_exchange_ok)

text \<open>
  Presenting a spent code again before its expiry is answered as a replay and revokes the
  grant family the code created: every access token and every refresh token of the family is
  refused from then on.
\<close>

theorem code_replay_revokes_family:
  assumes "ms_codes s (tokenHash rt (ce_Code ex)) = Some rec" "c_Status rec \<noteq> ''active''" "now < c_ExpiresAt rec"
    and "ExchangeCode rt srv memory_store s now rnd nonce ex = (s', r)"
  shows "r = Inl codeReplay \<and> family_refused memory_store s' (c_FamilyID rec)"
proof -
  let ?call = "mem_RedeemCode s (tokenHash rt (ce_Code ex)) now zero_grantRecord"
  have "?call = (fst ?call, Some errCodeReplay)"
    using assms(1-3) by (simp add: mem_RedeemCode_def codeRedemptionDecision_def Let_def)
  from mem_RedeemCode_cases [OF this] assms(1) have "family_dead (fst ?call) (c_FamilyID rec)"
    by (auto intro: redeem_replayed_dead)
  then have "family_refused memory_store (fst ?call) (c_FamilyID rec)" by (rule mem.dead_family_refused)
  moreover have "s' = fst ?call \<and> r = Inl codeReplay"
    using ExchangeCode_not_active [of memory_store s rt ex rec srv now rnd nonce] assms by simp
  ultimately show ?thesis by simp
qed

definition ex_used_store :: memoryStateStore where
  "ex_used_store = ex_store\<lparr>ms_codes := [tokenHash ex_runtime ''code'' \<mapsto> ex_used_code]\<rparr>"

theorem code_replay_revokes_family_witness:
  "family_refused memory_store
     (fst (ExchangeCode ex_runtime ex_server memory_store ex_used_store 2 ''q'' ex_nonce ex_exchange)) ''fam''"
proof -
  have "ms_codes ex_used_store (tokenHash ex_runtime (ce_Code ex_exchange)) = Some ex_used_code"
    "c_Status ex_used_code \<noteq> ''active''" "2 < c_ExpiresAt ex_used_code" "c_FamilyID ex_used_code = ''fam''"
    by (simp_all add: ex_used_store_def ex_exchange_def ex_used_code_def ex_code_def codeTTL_def duration_defs)
  with code_replay_revokes_family [OF this(1-3) surjective_pairing] show ?thesis by simp
qed

text \<open>
  After its expiry, a spent code that is presented again is still reported as reused, but the
  decision of the store looks at the expiry first: the state is left exactly as it was, so the
  grant family stays alive.
\<close>

theorem late_code_replay_leaves_family:
  assumes "ms_codes s (tokenHash rt (ce_Code ex)) = Some rec" "c_Status rec \<noteq> ''active''" "c_ExpiresAt rec \<le> now"
  shows "ExchangeCode rt srv memory_store s now rnd nonce ex = (s, Inl codeReplay)"
  using assms ExchangeCode_not_active [of memory_store s rt ex rec srv now rnd nonce]
  by (simp add: mem_RedeemCode_def codeRedemptionDecision_def Let_def)

theorem late_code_replay_leaves_family_witness:
  "ExchangeCode ex_runtime ex_server memory_store ex_used_store (2 * codeTTL) ''q'' ex_nonce ex_exchange =
     (ex_used_store, Inl codeReplay)"
  by (rule late_code_replay_leaves_family [where rec = ex_used_code])
     (simp_all add: ex_used_store_def ex_exchange_def ex_used_code_def ex_code_def codeTTL_def duration_defs)

subsection \<open>Refresh tokens\<close>

lemma ex_prepare:
  "0 \<le> now \<Longrightarrow> now < 100 * hour \<Longrightarrow>
   PrepareRefresh ex_runtime ex_server memory_store ex_store now ex_token [] =
     (ex_store, Inr (ex_prepared\<lparr>pr_startedAt := now\<rparr>))"
  using PrepareRefresh_matching(1) [OF ex_parse, of memory_store ex_store ex_grant now ex_runtime ex_server "[]"
      ex_refresh_claims] ex_open(2) [of now]
  by (simp add: refresh_admitted_def ex_store_def grantActive_def secretMatches_def ex_grant_def ex_server_def
      ex_refresh_claims_def code_refresh_claims_def ex_code_claims_def ex_config_def domainAllowed_def
      domain_listed_def equal_fold_def ex_prepared_def)

lemma ex_rotate:
  "RotateRefresh ex_runtime ex_server memory_store ex_store ''q'' ex_nonce ex_prepared [] =
     (ex_store\<lparr>ms_grants := (ms_grants ex_store)(''fam'' \<mapsto>
        rotation_record ex_runtime ex_server ''q'' ex_nonce ex_prepared ex_refresh_claims)\<rparr>,
      Inr \<lparr>gt_Subject = rc_Subject ex_refresh_claims, gt_Email = rc_Email ex_refresh_claims,
           gt_Domain = rc_Domain ex_refresh_claims, gt_ClientID = rc_ClientID ex_refresh_claims,
           gt_Resource = rc_Resource ex_refresh_claims, gt_FamilyID = ''fam'',
           gt_Scopes = rc_Scopes ex_refresh_claims, gt_GoogleAccessToken = [], gt_GoogleExpiry = 0,
           gt_RefreshToken = fst (makeRefreshToken ex_runtime ''fam'' ''q'')\<rparr>)"
  by (simp add: RotateRefresh_def Let_def mem_RotateGrant_def grantRotationDecision_def ex_store_def
      grantActive_def ex_prepared_def ex_grant_def duration_defs)

lemma ex_fresh: "tokenHash ex_runtime (randomOpaque ''q'') \<noteq> g_ActiveSecretHash (pr_record ex_prepared)"
  by (simp add: tokenHash_def randomOpaque_def ex_runtime_def ex_prepared_def ex_grant_def b64_encode_eq_iff
      del: b64_encode.simps)

text \<open>The grant a rotation leaves behind, in the in-memory adapter.\<close>

lemma mem_rotated_grant:
  assumes "RotateRefresh rt srv memory_store s rnd nonce p gr = (s', Inr t)"
  obtains cur where "ms_grants s (pr_familyID p) = Some cur" "grantActive cur (pr_startedAt p)"
    "ms_grants s' (pr_familyID p) = Some (rotation_record rt srv rnd nonce p (rotated_claims p gr))"
  using mem.rotate_refresh_ok [OF assms] by auto

lemma mem_mismatch_revokes:
  assumes "ms_grants s F = Some cur" "grantActive cur now" "g_ActiveSecretHash cur \<noteq> h"
  shows "\<exists>s'. mem_RotateGrant s F h nx now = (s', Some errGrantReplay) \<and> family_refused memory_store s' F"
proof -
  have call: "mem_RotateGrant s F h nx now = (fst (mem_RotateGrant s F h nx now), Some errGrantReplay)"
    using assms by (simp add: mem_RotateGrant_def grantRotationDecision_def Let_def)
  from mem_RotateGrant_cases [OF call] have "family_dead (fst (mem_RotateGrant s F h nx now)) F"
    by (auto intro: rotate_replayed_dead)
  with call mem.dead_family_refused show ?thesis by blast
qed

text \<open>
  C4: a refresh token that has been rotated away is poison: presenting it again, at any time before
  the absolute expiry of the grant and to any server that shares the store, is answered as a
  replay and revokes the family, the current refresh token included.
\<close>

theorem superseded_token_revokes_family:
  assumes "PrepareRefresh rt srv memory_store s0 now token clientID = (s1, Inr p)"
    and "RotateRefresh rt srv memory_store s rnd nonce p gr = (s', Inr t)"
    and "tokenHash rt (randomOpaque rnd) \<noteq> g_ActiveSecretHash (pr_record p)"
    and "now' < g_ExpiresAt (pr_record p)"
  shows "\<exists>s''. PrepareRefresh rt srv' memory_store s' now' token clientID' = (s'', Inl refreshReplay) \<and>
               family_refused memory_store s'' (pr_familyID p)"
proof -
  obtain secret where parsed: "parseRefreshToken token = Inr (pr_familyID p, secret)"
    and hash: "tokenHash rt secret = g_ActiveSecretHash (pr_record p)"
    using mem.prepare_ok [OF assms(1)] by (auto simp: refresh_admitted_def secretMatches_def)
  let ?next = "rotation_record rt srv rnd nonce p (rotated_claims p gr)"
  from mem_rotated_grant [OF assms(2)] have cur: "ms_grants s' (pr_familyID p) = Some ?next" .
  have new: "g_ActiveSecretHash ?next \<noteq> tokenHash rt secret"
    using assms(3) hash by (simp add: rotation_record_def makeRefreshToken_def Let_def)
  have act: "grantActive ?next now'"
    using assms(4) by (simp add: rotation_record_def grantActive_def)
  from mem_mismatch_revokes [OF cur act new] obtain s'' where
    "mem_RotateGrant s' (pr_familyID p) (tokenHash rt secret) zero_grantRecord now' = (s'', Some errGrantReplay)"
    "family_refused memory_store s'' (pr_familyID p)" by blast
  with PrepareRefresh_mismatch [OF parsed, of memory_store s' ?next now' rt s'' "Some errGrantReplay" srv' clientID']
    cur act new show ?thesis by (auto simp: secretMatches_def)
qed

theorem superseded_token_revokes_family_witness:
  "\<exists>s''. PrepareRefresh ex_runtime ex_server memory_store
           (fst (RotateRefresh ex_runtime ex_server memory_store ex_store ''q'' ex_nonce ex_prepared []))
           2 ex_token [] = (s'', Inl refreshReplay) \<and> family_refused memory_store s'' (pr_familyID ex_prepared)"
proof -
  have "PrepareRefresh ex_runtime ex_server memory_store ex_store 1 ex_token [] = (ex_store, Inr ex_prepared)"
    using ex_prepare [of 1] by (simp add: ex_prepared_def duration_defs)
  moreover have "2 < g_ExpiresAt (pr_record ex_prepared)" by (simp add: ex_prepared_def ex_grant_def duration_defs)
  ultimately show ?thesis
    using superseded_token_revokes_family [OF _ ex_rotate ex_fresh] by (simp add: ex_rotate)
qed

text \<open>
  C5: of two refreshes prepared from the same stored grant at most one rotates it, whatever the
  interleaving: the second rotation fails, and in the in-memory adapter it is answered as a replay
  and revokes the family.
\<close>

theorem concurrent_refresh_rotates_once:
  assumes "RotateRefresh rt srv memory_store s rnd nonce p gr = (s', Inr t)"
    and "pr_familyID p' = pr_familyID p" "pr_record p' = pr_record p"
    and "tokenHash rt (randomOpaque rnd) \<noteq> g_ActiveSecretHash (pr_record p)"
    and "pr_startedAt p' < g_ExpiresAt (pr_record p)"
  shows "\<exists>s''. RotateRefresh rt srv' memory_store s' rnd' nonce' p' gr' = (s'', Inl refreshReplay) \<and>
               family_refused memory_store s'' (pr_familyID p)"
proof -
  let ?next = "rotation_record rt srv rnd nonce p (rotated_claims p gr)"
  let ?next' = "rotation_record rt srv' rnd' nonce' p' (rotated_claims p' gr')"
  from mem_rotated_grant [OF assms(1)] have cur: "ms_grants s' (pr_familyID p) = Some ?next" .
  have new: "g_ActiveSecretHash ?next \<noteq> g_ActiveSecretHash (pr_record p)"
    using assms(4) by (simp add: rotation_record_def makeRefreshToken_def Let_def)
  have act: "grantActive ?next (pr_startedAt p')"
    using assms(5) by (simp add: rotation_record_def grantActive_def)
  from mem_mismatch_revokes [OF cur act new] obtain s'' where
    "RotateGrant memory_store s' (pr_familyID p') (g_ActiveSecretHash (pr_record p')) ?next' (pr_startedAt p')
       = (s'', Some errGrantReplay)"
    "family_refused memory_store s'' (pr_familyID p)" using assms(2,3) by auto
  with RotateRefresh_call(1,3) [OF this(1)] show ?thesis by (auto simp: prod_eq_iff)
qed

theorem concurrent_refresh_rotates_once_witness:
  "\<exists>s''. RotateRefresh ex_runtime ex_server memory_store
           (fst (RotateRefresh ex_runtime ex_server memory_store ex_store ''q'' ex_nonce ex_prepared []))
           ''z'' ex_nonce (ex_prepared\<lparr>pr_startedAt := 2\<rparr>) [] = (s'', Inl refreshReplay) \<and>
         family_refused memory_store s'' (pr_familyID ex_prepared)"
  using concurrent_refresh_rotates_once [OF ex_rotate _ _ ex_fresh, of "ex_prepared\<lparr>pr_startedAt := 2\<rparr>" ex_server "''z''"
      ex_nonce "[]"]
  by (simp add: ex_rotate) (simp add: ex_prepared_def ex_grant_def duration_defs)

text \<open>
  C6: rotation is live: the refresh token a rotation returns is accepted by the next refresh, at
  any time before the absolute expiry the grant has had since its creation, for the same client;
  the record it finds carries the next generation and that same expiry, so a chain of rotations
  never extends the life of a grant.
\<close>

theorem rotated_token_refreshes:
  assumes "PrepareRefresh rt srv memory_store s0 now token clientID = (s1, Inr p)"
    and "RotateRefresh rt srv memory_store s rnd nonce p gr = (s', Inr t)"
    and "aead_law rt" "ring_wf (sl_ring (sv_sealer srv))" "length nonce = nonce_size" "rnd \<noteq> []"
    and "unmarshal (json_refresh rt) (marshal (json_refresh rt) (rotated_claims p gr)) = Some (rotated_claims p gr)"
    and "now' < g_ExpiresAt (pr_record p)"
  shows "\<exists>p'. PrepareRefresh rt srv memory_store s' now' (gt_RefreshToken t) clientID = (s', Inr p') \<and>
               pr_familyID p' = pr_familyID p \<and> pr_claims p' = rotated_claims p gr \<and>
               g_Generation (pr_record p') = g_Generation (pr_record p) + 1 \<and>
               g_ExpiresAt (pr_record p') = g_ExpiresAt (pr_record p)"
proof -
  let ?rc = "rotated_claims p gr"
  let ?next = "rotation_record rt srv rnd nonce p ?rc"
  obtain secret where parsed: "parseRefreshToken token = Inr (pr_familyID p, secret)"
    and adm: "refresh_admitted rt srv now secret clientID (pr_record p) (pr_claims p)"
    using mem.prepare_ok [OF assms(1)] by auto
  from parseRefreshToken_Inr [OF parsed] have "CHR ''.'' \<notin> set (pr_familyID p)" "pr_familyID p \<noteq> []" by simp_all
  from parse_make_refresh [OF this assms(6)] RotateRefresh_Inr(3) [OF assms(2)]
  have parsed': "parseRefreshToken (gt_RefreshToken t) = Inr (pr_familyID p, randomOpaque rnd)" by simp
  from mem_rotated_grant [OF assms(2)] have cur: "GetGrant memory_store s' (pr_familyID p) = Inr ?next" by simp
  have act: "grantActive ?next now'"
    using assms(8) by (simp add: rotation_record_def grantActive_def)
  have secret: "secretMatches rt (randomOpaque rnd) (g_ActiveSecretHash ?next)"
    by (simp add: rotation_record_def makeRefreshToken_def secretMatches_def Let_def)
  have "distinct (map rk_id (sl_ring (sv_sealer srv)))" using assms(4) by (simp add: ring_wf_def)
  from open_sealed [OF assms(3,4,5) _ this sealKey_in [OF assms(4)] refl, of "storedGrantBlob rt" ?rc now'] assms(7)
  have opened: "openBlob rt (sv_sealer srv) (storedGrantBlob rt) (g_Claims ?next) now' = Inr ?rc"
    by (simp add: rotation_record_def storedGrantBlob_def)
  have "refresh_admitted rt srv now' (randomOpaque rnd) clientID ?next ?rc"
    using adm act secret opened by (simp add: refresh_admitted_def rotated_claims_def)
  from PrepareRefresh_matching(1) [OF parsed' cur act secret this]
  show ?thesis by (simp add: rotation_record_def)
qed

theorem rotated_token_refreshes_witness:
  "\<exists>p'. PrepareRefresh ex_runtime ex_server memory_store
           (fst (RotateRefresh ex_runtime ex_server memory_store ex_store ''q'' ex_nonce ex_prepared [])) 2
           (fst (makeRefreshToken ex_runtime ''fam'' ''q'')) [] =
         (fst (RotateRefresh ex_runtime ex_server memory_store ex_store ''q'' ex_nonce ex_prepared []), Inr p') \<and>
         g_Generation (pr_record p') = 2"
proof -
  have prep: "PrepareRefresh ex_runtime ex_server memory_store ex_store 1 ex_token [] = (ex_store, Inr ex_prepared)"
    using ex_prepare [of 1] by (simp add: ex_prepared_def duration_defs)
  have "unmarshal (json_refresh ex_runtime) (marshal (json_refresh ex_runtime) (rotated_claims ex_prepared []))
      = Some (rotated_claims ex_prepared [])"
    by (simp add: ex_json rotated_claims_def ex_prepared_def)
  moreover have "2 < g_ExpiresAt (pr_record ex_prepared)" "g_Generation (pr_record ex_prepared) = 1"
    by (simp_all add: ex_prepared_def ex_grant_def duration_defs)
  ultimately show ?thesis
    using rotated_token_refreshes [OF prep ex_rotate ex_aead, of 2] ex_ring by (auto simp: ex_rotate)
qed

subsection \<open>Access tokens\<close>

text \<open>
  C7: an accepted access token is authentic and current: it was sealed as an access token under a
  key of the ring for this issuer, its claims are what it carries, it has not expired, its family
  has an active unexpired grant in the tables, and its account is in an allowed domain when the
  deployment restricts domains.
\<close>

theorem verified_access_sound:
  assumes "oauth_state_store ops view" "aead_law rt" "VerifyAccess rt srv ops s now token = Inr c"
  shows "(\<exists>raw k nonce payload. token = prefixAccess @ raw \<and> k \<in> set (sl_ring (sv_sealer srv)) \<and>
            b64_decode RawURLEncoding raw = Some (rk_id k # nonce @
              rt_seal rt (rk_aead k) nonce payload (sl_issuer (sv_sealer srv) @ ''|'' @ kindAccess)) \<and>
            unmarshal (json_access rt) payload = Some c) \<and>
         now < time_unix (ac_ExpiresAt c) \<and>
         (\<exists>g. ms_grants (view s) (ac_FamilyID c) = Some g \<and> g_Status g = ''active'' \<and> now < g_ExpiresAt g) \<and>
         (cf_AllowedDomains (sv_cfg srv) = [] \<or> domainAllowed (sv_cfg srv) (ac_Domain c) (ac_Email c))"
proof -
  have opened: "openBlob rt (sv_sealer srv) (accessBlob rt) token now = Inr c"
    using assms(3) by (simp add: VerifyAccess_Inr_iff)
  from openBlob_authentic [OF assms(2) opened]
  have "\<exists>raw k nonce payload. token = prefixAccess @ raw \<and> k \<in> set (sl_ring (sv_sealer srv)) \<and>
            b64_decode RawURLEncoding raw = Some (rk_id k # nonce @
              rt_seal rt (rk_aead k) nonce payload (sl_issuer (sv_sealer srv) @ ''|'' @ kindAccess)) \<and>
            unmarshal (json_access rt) payload = Some c"
    by (simp add: accessBlob_def aad_def) metis
  with oauth_state_store.verify_access_ok [OF assms(1,3)] assms(3) show ?thesis
    by (auto simp: grantActive_def VerifyAccess_Inr_iff)
qed

lemma ex_verify: "VerifyAccess ex_runtime ex_server memory_store ex_store 1 ex_access_token = Inr ex_access_claims"
  using ex_open(3) [of 1]
  by (simp add: VerifyAccess_Inr_iff ex_server_def ex_access_claims_def ex_store_def time_unix_def grantActive_def
      ex_grant_def duration_defs ex_config_def domainAllowed_def domain_listed_def equal_fold_def)

theorem verified_access_sound_witness:
  "1 < time_unix (ac_ExpiresAt ex_access_claims) \<and> (\<exists>g. ms_grants ex_store ''fam'' = Some g \<and> g_Status g = ''active'')"
  using verified_access_sound [OF mem.oauth_state_store_axioms ex_aead ex_verify]
  by (auto simp: ex_access_claims_def)

text \<open>
  The caller is told to try again (the store is unavailable) exactly when the token opens and
  the lookup of its grant fails for another reason than a missing record; no expiry or grant
  decision is taken before the store has answered, so an outage never looks like a bad token, and
  a bad token never looks like an outage.
\<close>

theorem verify_access_outage:
  "VerifyAccess rt srv ops s now token = Inl (StoreUnavailable e) \<longleftrightarrow>
     (\<exists>c. openBlob rt (sv_sealer srv) (accessBlob rt) token now = Inr c \<and>
          GetGrant ops s (ac_FamilyID c) = Inl e \<and> \<not> errors_is e errStateNotFound)"
proof (cases "openBlob rt (sv_sealer srv) (accessBlob rt) token now")
  case (Inl e')
  then show ?thesis by (simp add: VerifyAccess_def)
next
  case (Inr c)
  then show ?thesis by (auto simp: VerifyAccess_cases split: sum.split)
qed

text \<open>
  Revoking by token is safe and effective, whatever adapter holds the state: when the call
  reports a revoked grant, nothing is granted to that family any more; when it reports that there
  was nothing to revoke, the tables are unchanged.
\<close>

theorem revoke_token_contract:
  assumes "oauth_state_store ops view" "RevokeToken rt srv ops s now token = (s', Inr r)"
  shows "case r of None \<Rightarrow> view s' = view s | Some g \<Rightarrow> family_refused ops s' (rg_FamilyID g)"
  using oauth_state_store.revoke_token_cases [OF assms] oauth_state_store.dead_family_refused [OF assms(1)]
  by (simp split: option.splits)

lemma ex_revoke:
  "RevokeToken ex_runtime ex_server memory_store ex_store 1 ex_access_token =
     (ex_store\<lparr>ms_grants := (ms_grants ex_store)(''fam'' \<mapsto> revokeGrantRecord ex_grant 1)\<rparr>,
      Inr (Some \<lparr>rg_FamilyID = ''fam'', rg_Email = ''a@corp.example'', rg_GoogleToken = ''ga''\<rparr>))"
  using ex_open(3) [of 1]
  by (simp add: RevokeToken_def ex_access_claims_def mem_RevokeGrant_def ex_store_def)

theorem revoke_token_contract_witness:
  "family_refused memory_store (fst (RevokeToken ex_runtime ex_server memory_store ex_store 1 ex_access_token)) ''fam''"
  using revoke_token_contract [OF mem.oauth_state_store_axioms ex_revoke] by (simp add: ex_revoke)

text \<open>
  Revocation needs possession: a refresh token whose secret is not the current secret of its
  family changes nothing (unlike a refresh with it, which revokes the family).
\<close>

theorem revoke_needs_secret:
  assumes "openBlob rt (sv_sealer srv) (accessBlob rt) token now = Inl e"
    and "parseRefreshToken token = Inr (F, secret)" "GetGrant ops s F = Inr g"
    and "tokenHash rt secret \<noteq> g_ActiveSecretHash g"
  shows "RevokeToken rt srv ops s now token = (s, Inr None)"
  using assms by (simp add: RevokeToken_def secretMatches_def)

theorem revoke_needs_secret_witness:
  "RevokeToken ex_runtime ex_server memory_store ex_store 1 (fst (makeRefreshToken ex_runtime ''fam'' ''q'')) =
     (ex_store, Inr None)"
proof (rule revoke_needs_secret)
  show "openBlob ex_runtime (sv_sealer ex_server) (accessBlob ex_runtime)
          (fst (makeRefreshToken ex_runtime ''fam'' ''q'')) 1 = Inl errInvalidBlob"
    by (simp add: openBlob_def accessBlob_def prefixAccess_def makeRefreshToken_def prefixRefresh_def Let_def)
  show "parseRefreshToken (fst (makeRefreshToken ex_runtime ''fam'' ''q'')) = Inr (''fam'', randomOpaque ''q'')"
    by (simp add: parse_make_refresh)
  show "GetGrant memory_store ex_store ''fam'' = Inr ex_grant" by (simp add: ex_store_def)
  show "tokenHash ex_runtime (randomOpaque ''q'') \<noteq> g_ActiveSecretHash ex_grant"
    using ex_fresh by (simp add: ex_prepared_def)
qed

subsection \<open>Minting\<close>

lemma mint_expiry_bounds:
  "mint_expiry now e \<le> now + accessTokenTTL" "mint_expiry now e \<le> time_unix e"
  by (auto simp: mint_expiry_def Let_def)

text \<open>
  An access token never outlives its bounds: when one is minted, its expiry (in whole seconds)
  is at most the expiry of the Google token it stands for and at most 55 minutes away, the
  advertised lifetime is not negative and does not exceed the time that is really left, and
  nothing is minted when the Google token has already expired.
\<close>

theorem minted_token_bounds:
  assumes "mint_access rt srv now nonce t = Inr (c, resp)"
  shows "ac_ExpiresAt c \<le> gt_GoogleExpiry t \<and> time_unix (ac_ExpiresAt c) \<le> now + accessTokenTTL \<and>
         0 \<le> tr_ExpiresIn resp \<and> now + tr_ExpiresIn resp * second \<le> mint_expiry now (gt_GoogleExpiry t) \<and>
         now < time_unix (gt_GoogleExpiry t) \<and> ac_FamilyID c = gt_FamilyID t"
proof -
  let ?exp = "mint_expiry now (gt_GoogleExpiry t)"
  have live: "now < ?exp" and c: "ac_ExpiresAt c = unix ?exp" "ac_FamilyID c = gt_FamilyID t"
    and resp: "tr_ExpiresIn resp = (?exp - now) div second"
    using assms by (auto simp: mint_access_def Let_def split: if_splits)
  have "unix ?exp \<le> gt_GoogleExpiry t"
    using unix_mono [OF mint_expiry_bounds(2) [of now "gt_GoogleExpiry t"]] by simp
  moreover have "time_unix (unix ?exp) \<le> now + accessTokenTTL"
    using time_unix_unix_le [of ?exp] mint_expiry_bounds(1) [of now "gt_GoogleExpiry t"] by linarith
  moreover have "(?exp - now) div second * second \<le> ?exp - now"
    by (simp add: second_def minus_mod_eq_div_mult [symmetric])
  moreover have "0 \<le> (?exp - now) div second" using live by (simp add: second_def pos_imp_zdiv_nonneg_iff)
  moreover have "now < time_unix (gt_GoogleExpiry t)"
    using live mint_expiry_bounds(2) [of now "gt_GoogleExpiry t"] by linarith
  ultimately show ?thesis using c resp by auto
qed

definition ex_tokens :: grantTokens where
  "ex_tokens = exchange_tokens ex_runtime ''r'' ex_code ex_code_claims"

lemma ex_mint:
  "mint_access ex_runtime ex_server 0 ex_nonce ex_tokens =
     Inr (ex_access_claims, \<lparr>tr_AccessToken = ex_access_token, tr_TokenType = ''Bearer'', tr_ExpiresIn = 3300,
        tr_RefreshToken = ex_token, tr_Scope = join '' '' [''openid'', ''email'']\<rparr>)"
  by (simp add: mint_access_def Let_def ex_tokens_def exchange_tokens_def mint_expiry_def accessTokenTTL_def
      duration_defs time_unix_def unix_def ex_code_claims_def ex_access_claims_def ex_access_token_def
      ex_token_def ex_code_def)

theorem minted_token_bounds_witness:
  "ac_ExpiresAt ex_access_claims \<le> 3600 \<and> time_unix (ac_ExpiresAt ex_access_claims) \<le> 0 + accessTokenTTL"
  using minted_token_bounds [OF ex_mint] by (simp add: ex_tokens_def exchange_tokens_def ex_code_claims_def)

text \<open>
  Minting and verifying fit together: the access token minted for an exchange or a refresh is
  accepted, with exactly the minted claims, by every server of the deployment whose key ring still
  holds the sealing key (whatever keys have been added in front of it), until the token expires,
  as long as its family's grant is active and its account's domain allowed.
\<close>

theorem minted_token_verifies:
  assumes "mint_access rt srv now nonce t = Inr (c, resp)"
    and "aead_law rt" "ring_wf (sl_ring (sv_sealer srv))" "length nonce = nonce_size"
    and "unmarshal (json_access rt) (marshal (json_access rt) c) = Some c"
    and "distinct (map rk_id (sl_ring (sv_sealer srv')))"
    and "sealKey (sl_ring (sv_sealer srv)) \<in> set (sl_ring (sv_sealer srv'))"
    and "sl_issuer (sv_sealer srv') = sl_issuer (sv_sealer srv)"
    and "GetGrant ops s (ac_FamilyID c) = Inr g" "grantActive g now'" "now' < time_unix (ac_ExpiresAt c)"
    and "cf_AllowedDomains (sv_cfg srv') = [] \<or> domainAllowed (sv_cfg srv') (ac_Domain c) (ac_Email c)"
  shows "VerifyAccess rt srv' ops s now' (tr_AccessToken resp) = Inr c"
proof -
  have "tr_AccessToken resp = sealBlob rt (sv_sealer srv) (accessBlob rt) nonce c"
    using assms(1) by (auto simp: mint_access_def Let_def split: if_splits)
  with open_sealed [OF assms(2-4) _ assms(6-8), of "accessBlob rt" c now'] assms(5)
  have "openBlob rt (sv_sealer srv') (accessBlob rt) (tr_AccessToken resp) now' = Inr c"
    by (simp add: accessBlob_def)
  with assms(9-12) show ?thesis by (simp add: VerifyAccess_Inr_iff)
qed

definition ex_rotated_server :: auth_server where
  "ex_rotated_server = ex_server\<lparr>sv_sealer := \<lparr>sl_ring = [ex_key CHR ''C'', ex_key CHR ''A''], sl_issuer = ex_issuer\<rparr>\<rparr>"

theorem minted_token_verifies_witness:
  "VerifyAccess ex_runtime ex_rotated_server memory_store ex_store 1 ex_access_token = Inr ex_access_claims"
proof -
  have "VerifyAccess ex_runtime ex_rotated_server memory_store ex_store 1
      (tr_AccessToken \<lparr>tr_AccessToken = ex_access_token, tr_TokenType = ''Bearer'', tr_ExpiresIn = 3300,
        tr_RefreshToken = ex_token, tr_Scope = join '' '' [''openid'', ''email'']\<rparr>) = Inr ex_access_claims"
    by (rule minted_token_verifies [OF ex_mint ex_aead, where g = ex_grant])
       (simp_all add: ex_ring ex_json ex_rotated_server_def ex_key_def ex_sealer_def ex_access_claims_def ex_store_def
         sealKey_def grantActive_def ex_grant_def duration_defs time_unix_def ex_config_def domainAllowed_def
         domain_listed_def equal_fold_def ring_wf_def)
  then show ?thesis by simp
qed

end
