(* ===== verification/Go_Format.thy ===== *)
theory Go_Format
  imports Go_Strings "HOL-Library.List_Lexorder" "HOL-Library.Char_ord"
begin

text \<open>
  Formatting and bytes: decimal printing (\<open>strconv.Itoa\<close>, \<open>%d\<close>), the \<open>float64\<close> values and the
  \<open>%.3f\<close> verb that the duration printer uses, \<open>time.Time.Format\<close> with the layout
  \<open>2006-01-02T15:04:05.000Z\<close>, UTF-8 decoding, and the functions of \<open>strings\<close> that work on one-byte
  separators. Go compares strings byte by byte: that is the lexicographic order of lists of
  characters here.
\<close>

subsection \<open>Integers\<close>

definition digit :: "int \<Rightarrow> char" where
  "digit n = ''0123456789'' ! nat n"

function dec :: "int \<Rightarrow> string" where
  "dec n = (if n < 10 then [digit n] else dec (n div 10) @ [digit (n mod 10)])"
  by pat_completeness auto

termination
  by (relation "measure nat") auto

declare dec.simps [simp del]

definition itoa :: "int \<Rightarrow> string" where
  "itoa n = (if n < 0 then ''-'' @ dec (- n) else dec n)"

definition pad0 :: "nat \<Rightarrow> int \<Rightarrow> string" where
  "pad0 w n = replicate (w - length (dec n)) (CHR ''0'') @ dec n"

lemma dec_small: "n < 10 \<Longrightarrow> dec n = [digit n]"
  by (subst dec.simps) simp

lemma length_dec: "n < 10 ^ k \<Longrightarrow> length (dec n) \<le> max 1 k"
proof (induction k arbitrary: n)
  case 0
  then show ?case by (simp add: dec_small)
next
  case (Suc k)
  show ?case
  proof (cases "n < 10")
    case True
    then show ?thesis by (simp add: dec_small)
  next
    case False
    with Suc.prems have "n div 10 < 10 ^ k" by simp
    moreover from False Suc.prems have "0 < k" by (auto intro: Nat.gr0I)
    ultimately show ?thesis using Suc.IH [of "n div 10"] False by (subst dec.simps) simp
  qed
qed

lemma length_pad0: "n < 10 ^ k \<Longrightarrow> 0 < k \<Longrightarrow> length (pad0 k n) = k"
  using length_dec [of n k] by (simp add: pad0_def)

text \<open>\<open>safeInt32\<close> of the program and the conversions of machine integers use these bounds.\<close>

definition MaxInt32 :: int where "MaxInt32 = 2 ^ 31 - 1"

subsection \<open>Floating point\<close>

text \<open>
  A finite \<open>float64\<close> is a rational; \<open>f64\<close> rounds an exact result to the nearest one, ties to the
  even mantissa. Overflow does not occur for the durations below.
\<close>

definition round_half_even :: "rat \<Rightarrow> int" where
  "round_half_even x =
     (let f = \<lfloor>x\<rfloor>; d = x - of_int f in
      if d < 1 / 2 then f else if 1 / 2 < d then f + 1 else if even f then f else f + 1)"

function bits :: "int \<Rightarrow> int" where
  "bits n = (if n \<le> 0 then 0 else 1 + bits (n div 2))"
  by pat_completeness auto

termination
  by (relation "measure nat") auto

declare bits.simps [simp del]

definition pow2 :: "int \<Rightarrow> rat" where
  "pow2 e = (if 0 \<le> e then 2 ^ nat e else 1 / 2 ^ nat (- e))"

definition f64_exponent :: "rat \<Rightarrow> int" where
  "f64_exponent x =
     (let (a, b) = quotient_of \<bar>x\<bar>;
          e = bits a - bits b - 53
      in max (- 1074) (if 2 ^ 53 \<le> \<bar>x\<bar> / pow2 e then e + 1 else e))"

definition f64 :: "rat \<Rightarrow> rat" where
  "f64 x = (if x = 0 then 0
     else (let e = f64_exponent x in of_int (round_half_even (x / pow2 e)) * pow2 e))"

text \<open>\<open>fmt.Sprintf("%.3f", x)\<close> for \<open>0 \<le> x\<close>.\<close>

definition fixed3 :: "rat \<Rightarrow> string" where
  "fixed3 x = (let n = round_half_even (x * 1000) in dec (n div 1000) @ ''.'' @ pad0 3 (n mod 1000))"

text \<open>\<open>time.Duration.Seconds\<close> and \<open>Microseconds\<close> of a duration that is not negative.\<close>

definition duration_seconds :: "duration \<Rightarrow> rat" where
  "duration_seconds d = f64 (of_int (d div second) + f64 (of_int (d mod second) / 1000000000))"

definition duration_microseconds :: "duration \<Rightarrow> int" where
  "duration_microseconds d = d div 1000"

subsection \<open>Dates\<close>

text \<open>
  The civil date of a day number (days since 1970-01-01) in the proleptic Gregorian calendar:
  years start in March and are grouped in eras of 400 years; months are numbered through.
\<close>

definition year_of_era :: "int \<Rightarrow> int" where
  "year_of_era doe = (doe - doe div 1460 + doe div 36524 - doe div 146096) div 365"

definition day_of_year :: "int \<Rightarrow> int" where
  "day_of_year doe = doe - (365 * year_of_era doe + year_of_era doe div 4 - year_of_era doe div 100)"

definition civil :: "int \<Rightarrow> int \<times> int \<times> int" where
  "civil days =
     (let z = days + 719468; era = z div 146097; doe = z mod 146097;
          doy = day_of_year doe; mp = (5 * doy + 2) div 153;
          mon = 12 * (year_of_era doe + 400 * era) + mp + 2
      in (mon div 12, mon mod 12 + 1, doy - (153 * mp + 2) div 5 + 1))"

text \<open>The layout \<open>2006-01-02T15:04:05\<close> in UTC.\<close>

definition date_text :: "gtime \<Rightarrow> string" where
  "date_text t =
     (let s = unix t; days = s div 86400; tod = s mod 86400; (y, m, d) = civil days
      in (if y < 0 then ''-'' @ pad0 4 (- y) else pad0 4 y) @ ''-'' @ pad0 2 m @ ''-'' @ pad0 2 d @
         ''T'' @ pad0 2 (tod div 3600) @ '':'' @ pad0 2 (tod mod 3600 div 60) @ '':'' @ pad0 2 (tod mod 60))"

text \<open>The layout \<open>2006-01-02T15:04:05.000Z\<close>; the fraction is cut to milliseconds.\<close>

definition format_time :: "gtime \<Rightarrow> string" where
  "format_time t = date_text t @ ''.'' @ pad0 3 (t mod 1000000000 div 1000000) @ ''Z''"

subsection \<open>Strings\<close>

text \<open>\<open>strings.ReplaceAll\<close> of a one-byte string.\<close>

definition replace_char :: "char \<Rightarrow> string \<Rightarrow> string \<Rightarrow> string" where
  "replace_char c r s = concat (map (\<lambda>x. if x = c then r else [x]) s)"

text \<open>
  The \<open>%q\<close> verb: quotes, backslashes and control characters of ASCII are escaped. Bytes of other
  code points are kept; the program uses the verb in messages only.
\<close>

definition quote_byte :: "char \<Rightarrow> string" where
  "quote_byte c =
     (let b = (of_char c :: nat) in
      if c = CHR 0x22 \<or> c = CHR 0x5C then [CHR 0x5C, c]
      else if 7 \<le> b \<and> b \<le> 13 then [CHR 0x5C, ''abtnvfr'' ! (b - 7)]
      else if b < 32 \<or> b = 127 then [CHR 0x5C] @ ''x'' @ [''0123456789abcdef'' ! (b div 16), ''0123456789abcdef'' ! (b mod 16)]
      else [c])"

definition quote :: "string \<Rightarrow> string" where
  "quote s = [CHR 0x22] @ concat (map quote_byte s) @ [CHR 0x22]"

text \<open>\<open>strings.Split\<close> at a one-byte separator.\<close>

fun split_char :: "char \<Rightarrow> string \<Rightarrow> string list" where
  "split_char c [] = [[]]"
| "split_char c (x # xs) =
     (if x = c then [] # split_char c xs
      else (case split_char c xs of [] \<Rightarrow> [[x]] | w # ws \<Rightarrow> (x # w) # ws))"

definition trim_space :: "string \<Rightarrow> string" where
  "trim_space s = rev (dropWhile is_space (rev (dropWhile is_space s)))"

text \<open>\<open>strings.CutSuffix\<close>.\<close>

definition cut_suffix :: "string \<Rightarrow> string \<Rightarrow> string option" where
  "cut_suffix s p = map_option rev (cut_prefix (rev s) (rev p))"

subsection \<open>UTF-8\<close>

definition byte_of :: "char \<Rightarrow> nat" where
  "byte_of c = of_char c"

definition rune_start :: "char \<Rightarrow> bool" where
  "rune_start c = (byte_of c < 128 \<or> 192 \<le> byte_of c)"

definition cont_in :: "nat \<Rightarrow> nat \<Rightarrow> char \<Rightarrow> bool" where
  "cont_in lo hi c = (lo \<le> byte_of c \<and> byte_of c \<le> hi)"

abbreviation cont :: "char \<Rightarrow> bool" where "cont \<equiv> cont_in 128 191"

text \<open>The width of the encoded code point at the head of a string, 0 if there is none that is valid.\<close>

definition rune_width :: "string \<Rightarrow> nat" where
  "rune_width s =
     (case s of [] \<Rightarrow> 0
      | c # r \<Rightarrow>
        (let b = byte_of c; ok = (\<lambda>lo hi n. 0 < length r \<and> cont_in lo hi (r ! 0) \<and> n \<le> length r \<and> list_all cont (take (n - 1) (tl r)))
         in if b < 128 then 1
            else if 194 \<le> b \<and> b \<le> 223 then (if ok 128 191 1 then 2 else 0)
            else if b = 224 then (if ok 160 191 2 then 3 else 0)
            else if b = 237 then (if ok 128 159 2 then 3 else 0)
            else if 225 \<le> b \<and> b \<le> 239 then (if ok 128 191 2 then 3 else 0)
            else if b = 240 then (if ok 144 191 3 then 4 else 0)
            else if b = 244 then (if ok 128 143 3 then 4 else 0)
            else if 241 \<le> b \<and> b \<le> 243 then (if ok 128 191 3 then 4 else 0)
            else 0))"

end
