(* ===== verification/Profile_Cache.thy ===== *)
theory Profile_Cache
  imports Go_Format
begin

text \<open>
  The per-user cache of compressed profiles (\<open>internal/gcpdata/profiler_cache.go\<close>): a byte-bounded
  LRU list, most recently used last, whose size is also charged to a process-wide budget. The
  budget counter \<open>processProfileCacheBytes\<close> is an argument and a result of the operations. The
  metadata of a profile is a type parameter.
\<close>

subsection \<open>State\<close>

record 'm profileCacheEntry =
  pe_key :: string
  pe_data :: string
  pe_meta :: 'm

record 'm profileCache =
  pc_entries :: "'m profileCacheEntry list"
  pc_bytes :: int
  pc_maxBytes :: int
  pc_closed :: bool

definition profileCacheUserBytes :: int where "profileCacheUserBytes = 16 * 2 ^ 20"
definition profileCacheProcessBytes :: int where "profileCacheProcessBytes = 64 * 2 ^ 20"

definition errWouldEvict :: go_error where
  "errWouldEvict = Sentinel ''the per-user profile cache is full of profiles this request still needs''"

definition errProcessCacheFull :: go_error where
  "errProcessCacheFull = Sentinel (''the process-wide profile cache budget of '' @ itoa profileCacheProcessBytes @ '' bytes is full'')"

definition profileCacheKey :: "string \<Rightarrow> string \<Rightarrow> string" where
  "profileCacheKey project profileName = project @ ''/'' @ profileName"

definition NewProfileCache :: "'m profileCache" where
  "NewProfileCache = \<lparr>pc_entries = [], pc_bytes = 0, pc_maxBytes = profileCacheUserBytes, pc_closed = False\<rparr>"

subsection \<open>Operations\<close>

definition cache_index :: "'m profileCache \<Rightarrow> string \<Rightarrow> nat option" where
  "cache_index c key = index_func (\<lambda>e. pe_key e = key) (pc_entries c)"

definition touch :: "'m profileCache \<Rightarrow> string \<Rightarrow> 'm profileCache \<times> nat option" where
  "touch c key =
     (case cache_index c key of
        None \<Rightarrow> (c, None)
      | Some i \<Rightarrow>
          (let e = pc_entries c ! i; es = delete_at i (pc_entries c) @ [e]
           in (c\<lparr>pc_entries := es\<rparr>, Some (length es - 1))))"

definition cache_Get :: "'m profileCache \<Rightarrow> string \<Rightarrow> 'm profileCache \<times> (string \<times> 'm) option" where
  "cache_Get c key =
     (case touch c key of
        (c', None) \<Rightarrow> (c', None)
      | (c', Some i) \<Rightarrow> (let e = pc_entries c' ! i in (c', Some (pe_data e, pe_meta e))))"

text \<open>
  The eviction loop of \<open>Put\<close>, from position \<open>i\<close> on: it goes on while the insert does not fit,
  steps over the entry that is replaced (its bytes are freed already), refuses to go past a kept
  one, and would panic on an index past the end.
\<close>

datatype evict_result = Evict nat int | WouldEvict | IndexPanic

fun evict_loop :: "'m profileCacheEntry list \<Rightarrow> nat \<Rightarrow> nat option \<Rightarrow> (string \<Rightarrow> bool) \<Rightarrow> int \<Rightarrow> int \<Rightarrow> evict_result" where
  "evict_loop [] i old keep freed over = (if freed < over then IndexPanic else Evict i freed)"
| "evict_loop (e # es) i old keep freed over =
     (if freed < over then
        (if old = Some i then evict_loop es (Suc i) old keep freed over
         else if keep (pe_key e) then WouldEvict
         else evict_loop es (Suc i) old keep (freed + int (length (pe_data e))) over)
      else Evict i freed)"

datatype put_result = PutOk | PutErr go_error | PutPanic

text \<open>\<open>over\<close> is the amount to free: \<open>c.bytes - freed + size > c.maxBytes\<close> is \<open>freed < over\<close>.\<close>

definition cache_Put ::
    "'m profileCache \<Rightarrow> int \<Rightarrow> string \<Rightarrow> string \<Rightarrow> 'm \<Rightarrow> (string \<Rightarrow> bool) \<Rightarrow> 'm profileCache \<times> int \<times> put_result" where
  "cache_Put c proc key data meta keep =
     (let size = int (length data) in
      if size = 0 then (c, proc, PutErr (Sentinel ''empty profile''))
      else if size > pc_maxBytes c then (c, proc, PutErr (Sentinel
        (''profile is '' @ itoa size @ '' bytes, over the '' @ itoa (pc_maxBytes c) @ ''-byte per-user cache limit'')))
      else if pc_closed c then (c, proc, PutErr (Sentinel ''profile cache is closed''))
      else
        (let old = cache_index c key;
             freed0 = (case old of None \<Rightarrow> 0 | Some i \<Rightarrow> int (length (pe_data (pc_entries c ! i))))
         in case evict_loop (pc_entries c) 0 old keep freed0 (pc_bytes c + size - pc_maxBytes c) of
              IndexPanic \<Rightarrow> (c, proc, PutPanic)
            | WouldEvict \<Rightarrow> (c, proc, PutErr errWouldEvict)
            | Evict evict freed \<Rightarrow>
                (let delta = size - freed; total = proc + delta in
                 if 0 < delta \<and> total > profileCacheProcessBytes
                 then (c, total - delta, PutErr errProcessCacheFull)
                 else
                   (let kept0 = drop evict (pc_entries c);
                        kept = (case old of
                                  Some i \<Rightarrow> if evict \<le> i then delete_at (i - evict) kept0 else kept0
                                | None \<Rightarrow> kept0)
                    in (c\<lparr>pc_entries := kept @ [\<lparr>pe_key = key, pe_data = data, pe_meta = meta\<rparr>],
                          pc_bytes := pc_bytes c + delta\<rparr>, total, PutOk)))))"

definition cache_Delete :: "'m profileCache \<Rightarrow> int \<Rightarrow> string \<Rightarrow> 'm profileCache \<times> int" where
  "cache_Delete c proc key =
     (case cache_index c key of
        None \<Rightarrow> (c, proc)
      | Some i \<Rightarrow>
          (let size = int (length (pe_data (pc_entries c ! i))) in
           (c\<lparr>pc_entries := delete_at i (pc_entries c), pc_bytes := pc_bytes c - size\<rparr>, proc - size)))"

definition cache_Close :: "'m profileCache \<Rightarrow> int \<Rightarrow> 'm profileCache \<times> int" where
  "cache_Close c proc = (c\<lparr>pc_closed := True, pc_entries := [], pc_bytes := 0\<rparr>, proc - pc_bytes c)"

subsection \<open>The invariant of one cache\<close>

definition entry_bytes :: "'m profileCacheEntry list \<Rightarrow> int" where
  "entry_bytes es = (\<Sum>e\<leftarrow>es. int (length (pe_data e)))"

definition cache_ok :: "'m profileCache \<Rightarrow> bool" where
  "cache_ok c =
     (pc_bytes c = entry_bytes (pc_entries c) \<and> pc_bytes c \<le> pc_maxBytes c \<and> distinct (map pe_key (pc_entries c)) \<and>
      (pc_closed c \<longrightarrow> pc_entries c = []))"

lemma entry_bytes_simps [simp]:
  "entry_bytes [] = 0" "entry_bytes (e # es) = int (length (pe_data e)) + entry_bytes es"
  "entry_bytes (es @ fs) = entry_bytes es + entry_bytes fs"
  by (simp_all add: entry_bytes_def)

lemma entry_bytes_nonneg [simp]: "0 \<le> entry_bytes es"
  by (induction es) auto

lemma entry_bytes_mset: "mset es = mset fs \<Longrightarrow> entry_bytes es = entry_bytes fs"
proof -
  have "entry_bytes es = sum_mset (image_mset (\<lambda>e. int (length (pe_data e))) (mset es))" for es :: "'a profileCacheEntry list"
    by (induction es) auto
  then show "mset es = mset fs \<Longrightarrow> entry_bytes es = entry_bytes fs" by metis
qed

lemma entry_bytes_delete_at:
  "i < length es \<Longrightarrow> entry_bytes (delete_at i es) = entry_bytes es - int (length (pe_data (es ! i)))"
  using entry_bytes_mset [of "es ! i # delete_at i es" es] mset_delete_at [of i es] by simp

lemma entry_bytes_drop: "entry_bytes (drop n es) = entry_bytes es - entry_bytes (take n es)"
  using entry_bytes_simps(3) [of "take n es" "drop n es"] by simp

lemma cache_index_Some:
  "cache_index c key = Some i \<Longrightarrow> i < length (pc_entries c) \<and> pe_key (pc_entries c ! i) = key"
  using index_func_Some [of "\<lambda>e. pe_key e = key" "pc_entries c" i] by (simp add: cache_index_def)

lemma cache_index_None: "cache_index c key = None \<longleftrightarrow> key \<notin> pe_key ` set (pc_entries c)"
  by (auto simp: cache_index_def index_func_None)

lemma NewProfileCache_ok [simp]: "cache_ok NewProfileCache"
  by (simp add: cache_ok_def NewProfileCache_def profileCacheUserBytes_def)

lemma cache_Close_ok: "cache_ok c \<Longrightarrow> 0 \<le> pc_maxBytes c \<Longrightarrow> cache_ok (fst (cache_Close c proc))"
  by (simp add: cache_Close_def cache_ok_def)

lemma cache_ok_maxBytes: "cache_ok c \<Longrightarrow> 0 \<le> pc_maxBytes c"
  unfolding cache_ok_def using entry_bytes_nonneg [of "pc_entries c"] by linarith

lemma cache_Delete_ok:
  assumes "cache_ok c" "cache_Delete c proc key = (c', proc')"
  shows "cache_ok c' \<and> proc' - pc_bytes c' = proc - pc_bytes c \<and> proc' \<le> proc \<and> key \<notin> pe_key ` set (pc_entries c')"
proof (cases "cache_index c key")
  case None
  with assms show ?thesis by (auto simp: cache_Delete_def cache_index_None)
next
  case (Some i)
  note i = cache_index_Some [OF Some]
  have "key \<notin> pe_key ` set (delete_at i (pc_entries c))"
  proof -
    have "mset (map pe_key (pc_entries c)) = add_mset key (mset (map pe_key (delete_at i (pc_entries c))))"
      using arg_cong [OF mset_delete_at [of i "pc_entries c"], of "image_mset pe_key"] i by simp
    moreover have "distinct (map pe_key (pc_entries c))" using assms(1) by (simp add: cache_ok_def)
    ultimately have "distinct (key # map pe_key (delete_at i (pc_entries c)))"
      using mset_eq_imp_distinct_iff [of "map pe_key (pc_entries c)" "key # map pe_key (delete_at i (pc_entries c))"] by simp
    then show ?thesis by simp
  qed
  moreover have "\<not> pc_closed c" using assms(1) i by (auto simp: cache_ok_def)
  ultimately show ?thesis
    using assms Some i
    by (auto simp: cache_Delete_def cache_ok_def entry_bytes_delete_at distinct_map_delete_at Let_def)
qed

subsection \<open>The eviction loop\<close>

definition old_at :: "nat option \<Rightarrow> nat \<Rightarrow> 'm profileCacheEntry list \<Rightarrow> string \<Rightarrow> bool" where
  "old_at old i es key = (\<forall>j < length es. old = Some (i + j) \<longleftrightarrow> pe_key (es ! j) = key)"

lemma old_at_Cons:
  "old_at old i (e # es) key \<longleftrightarrow> (old = Some i \<longleftrightarrow> pe_key e = key) \<and> old_at old (Suc i) es key"
  by (simp add: old_at_def All_less_Suc2)

lemma old_at_index:
  assumes "distinct (map pe_key (pc_entries c))"
  shows "old_at (cache_index c key) 0 (pc_entries c) key"
proof (cases "cache_index c key")
  case None
  then have "key \<notin> pe_key ` set (pc_entries c)" by (simp add: cache_index_None)
  with None show ?thesis by (auto simp: old_at_def)
next
  case (Some i)
  with cache_index_Some [OF Some] nth_eq_iff_index_eq [OF assms] show ?thesis
    by (auto simp: old_at_def)
qed

lemma evict_loop_Evict:
  assumes "old_at old i es key" "evict_loop es i old keep freed over = Evict n f"
  shows "\<exists>k \<le> length es. n = i + k \<and> f = freed + entry_bytes (filter (\<lambda>e. pe_key e \<noteq> key) (take k es)) \<and> over \<le> f \<and>
           (\<forall>e \<in> set (take k es). pe_key e \<noteq> key \<longrightarrow> \<not> keep (pe_key e)) \<and>
           (\<forall>j < k. freed + entry_bytes (filter (\<lambda>e. pe_key e \<noteq> key) (take j es)) < over)"
  using assms
proof (induction es arbitrary: i freed)
  case Nil
  then show ?case by (auto split: if_splits)
next
  case (Cons e es)
  show ?case
  proof (cases "freed < over")
    case False
    with Cons.prems show ?thesis by (intro exI [of _ 0]) auto
  next
    case True
    let ?freed = "if old = Some i then freed else freed + int (length (pe_data e))"
    have old: "old_at old (Suc i) es key" "old = Some i \<longleftrightarrow> pe_key e = key"
      using Cons.prems(1) by (simp_all add: old_at_Cons)
    have rec: "evict_loop es (Suc i) old keep ?freed over = Evict n f"
      and k: "old = Some i \<or> \<not> keep (pe_key e)"
      using Cons.prems(2) True by (auto split: if_splits)
    from Cons.IH [OF old(1) rec] obtain k where k': "k \<le> length es" "n = Suc i + k"
      "f = ?freed + entry_bytes (filter (\<lambda>e. pe_key e \<noteq> key) (take k es))" "over \<le> f"
      "\<forall>e \<in> set (take k es). pe_key e \<noteq> key \<longrightarrow> \<not> keep (pe_key e)"
      "\<forall>j < k. ?freed + entry_bytes (filter (\<lambda>e. pe_key e \<noteq> key) (take j es)) < over"
      by blast
    have "\<forall>j < Suc k. freed + entry_bytes (filter (\<lambda>e. pe_key e \<noteq> key) (take j (e # es))) < over"
      using k'(6) True old(2) by (auto simp: less_Suc_eq_0_disj algebra_simps split: if_splits)
    with k' k old(2) show ?thesis
      by (intro exI [of _ "Suc k"]) (auto split: if_splits)
  qed
qed

lemma evict_loop_no_panic:
  assumes "old_at old i es key" "over \<le> freed + entry_bytes (filter (\<lambda>e. pe_key e \<noteq> key) es)"
  shows "evict_loop es i old keep freed over \<noteq> IndexPanic"
  using assms
proof (induction es arbitrary: i freed)
  case Nil
  then show ?case by simp
next
  case (Cons e es)
  then show ?case by (auto simp: old_at_Cons algebra_simps)
qed

lemma entry_bytes_filter_split:
  "entry_bytes es = entry_bytes (filter P es) + entry_bytes (filter (\<lambda>e. \<not> P e) es)"
  by (induction es) auto

lemma filter_key_index:
  assumes "distinct (map pe_key (pc_entries c))"
  shows "filter (\<lambda>e. pe_key e = key) (pc_entries c) =
    (case cache_index c key of None \<Rightarrow> [] | Some i \<Rightarrow> [pc_entries c ! i])"
proof (cases "cache_index c key")
  case None
  then have "key \<notin> pe_key ` set (pc_entries c)" by (simp add: cache_index_None)
  with None show ?thesis by (auto simp: filter_empty_conv)
next
  case (Some i)
  note i = cache_index_Some [OF Some]
  then have es: "pc_entries c = take i (pc_entries c) @ pc_entries c ! i # drop (Suc i) (pc_entries c)"
    by (simp add: id_take_nth_drop)
  have "distinct (map pe_key (take i (pc_entries c) @ pc_entries c ! i # drop (Suc i) (pc_entries c)))"
    using assms es by simp
  then have "\<forall>e \<in> set (take i (pc_entries c)) \<union> set (drop (Suc i) (pc_entries c)). pe_key e \<noteq> key"
    using i by (auto simp: image_iff)
  then have "filter (\<lambda>e. pe_key e = key) (take i (pc_entries c) @ pc_entries c ! i # drop (Suc i) (pc_entries c))
      = [pc_entries c ! i]"
    using i by (simp add: filter_empty_conv)
  with es Some show ?thesis by simp
qed

text \<open>What \<open>Put\<close> keeps of the entries: the ones behind the evicted prefix, but the replaced one.\<close>

lemma kept_entries:
  assumes "distinct (map pe_key (pc_entries c))" "k \<le> length (pc_entries c)"
  shows "(case cache_index c key of
            Some i \<Rightarrow> if k \<le> i then delete_at (i - k) (drop k (pc_entries c)) else drop k (pc_entries c)
          | None \<Rightarrow> drop k (pc_entries c)) = filter (\<lambda>e. pe_key e \<noteq> key) (drop k (pc_entries c))"
proof (cases "cache_index c key")
  case None
  then have "\<forall>e \<in> set (drop k (pc_entries c)). pe_key e \<noteq> key"
    by (auto simp: cache_index_None dest: in_set_dropD)
  with None show ?thesis by (simp add: filter_id_conv)
next
  case (Some i)
  note i = cache_index_Some [OF Some]
  have uniq: "pe_key (pc_entries c ! j) \<noteq> key" if "j < length (pc_entries c)" "j \<noteq> i" for j
    using nth_eq_iff_index_eq [OF assms(1), of i j] i that by auto
  show ?thesis
  proof (cases "k \<le> i")
    case False
    then have "pe_key e \<noteq> key" if e: "e \<in> set (drop k (pc_entries c))" for e
    proof -
      obtain j where "j < length (pc_entries c) - k" "e = pc_entries c ! (k + j)"
        using e by (auto simp: in_set_conv_nth)
      with uniq [of "k + j"] False show ?thesis by auto
    qed
    with Some False show ?thesis by (simp add: filter_id_conv)
  next
    case True
    let ?d = "drop k (pc_entries c)"
    have d: "?d = take (i - k) ?d @ ?d ! (i - k) # drop (Suc (i - k)) ?d"
      using True i by (intro id_take_nth_drop) (auto intro: diff_less_mono)
    have at: "pe_key (?d ! (i - k)) = key" using True i by simp
    have "pe_key e \<noteq> key" if e: "e \<in> set (take (i - k) ?d) \<union> set (drop (Suc (i - k)) ?d)" for e
      using e
    proof
      assume "e \<in> set (take (i - k) ?d)"
      then obtain j where "j < i - k" "e = ?d ! j" "j < length ?d" by (auto simp: in_set_conv_nth)
      with uniq [of "k + j"] True i show ?thesis by auto
    next
      assume "e \<in> set (drop (Suc (i - k)) ?d)"
      then obtain j where "j < length (pc_entries c) - Suc i" "e = pc_entries c ! (Suc i + j)"
        using True i by (auto simp: in_set_conv_nth)
      with uniq [of "Suc i + j"] show ?thesis by auto
    qed
    then have "filter (\<lambda>e. pe_key e \<noteq> key) (take (i - k) ?d @ ?d ! (i - k) # drop (Suc (i - k)) ?d)
        = take (i - k) ?d @ drop (Suc (i - k)) ?d"
      using at by (simp add: filter_id_conv)
    with d Some True show ?thesis by (simp add: delete_at_def)
  qed
qed

subsection \<open>Putting\<close>

lemma cache_Put_cases:
  assumes ok: "cache_ok c" and put: "cache_Put c proc key data meta keep = (c', proc', r)"
  obtains (refused) e where "r = PutErr e" "c' = c" "proc' = proc"
  | (stored) k where "r = PutOk" "k \<le> length (pc_entries c)" "data \<noteq> []" "\<not> pc_closed c"
      "c' = c\<lparr>pc_entries := filter (\<lambda>e. pe_key e \<noteq> key) (drop k (pc_entries c)) @ [\<lparr>pe_key = key, pe_data = data, pe_meta = meta\<rparr>],
             pc_bytes := entry_bytes (filter (\<lambda>e. pe_key e \<noteq> key) (drop k (pc_entries c))) + int (length data)\<rparr>"
      "proc' - pc_bytes c' = proc - pc_bytes c" "proc' \<le> max proc profileCacheProcessBytes"
      "pc_bytes c' \<le> pc_maxBytes c"
      "\<forall>e \<in> set (take k (pc_entries c)). pe_key e \<noteq> key \<longrightarrow> \<not> keep (pe_key e)"
      "\<forall>j < k. pc_maxBytes c < entry_bytes (filter (\<lambda>e. pe_key e \<noteq> key) (drop j (pc_entries c))) + int (length data)"
proof -
  let ?es = "pc_entries c"
  let ?other = "\<lambda>e::'a profileCacheEntry. pe_key e \<noteq> key"
  let ?freed0 = "case cache_index c key of None \<Rightarrow> 0 | Some i \<Rightarrow> int (length (pe_data (?es ! i)))"
  let ?over = "pc_bytes c + int (length data) - pc_maxBytes c"
  have d: "distinct (map pe_key ?es)" and bytes: "pc_bytes c = entry_bytes ?es" using ok by (simp_all add: cache_ok_def)
  have old: "old_at (cache_index c key) 0 ?es key" by (rule old_at_index [OF d])
  have freed0: "?freed0 = entry_bytes (filter (\<lambda>e. pe_key e = key) ?es)"
    by (simp add: filter_key_index [OF d] split: option.split)
  have all: "entry_bytes ?es = ?freed0 + entry_bytes (filter ?other (take k ?es)) + entry_bytes (filter ?other (drop k ?es))" for k
    using entry_bytes_filter_split [of ?es "\<lambda>e. pe_key e = key"]
    by (simp add: freed0 flip: entry_bytes_simps(3) filter_append)
  show ?thesis
  proof (cases "data = [] \<or> pc_maxBytes c < int (length data) \<or> pc_closed c")
    case True
    then have "\<exists>e. cache_Put c proc key data meta keep = (c, proc, PutErr e)" by (simp add: cache_Put_def Let_def) blast
    with put show ?thesis using refused by auto
  next
    case False
    let ?loop = "evict_loop ?es 0 (cache_index c key) keep ?freed0 ?over"
    have "?loop \<noteq> IndexPanic"
    proof (rule evict_loop_no_panic [OF old])
      show "?over \<le> ?freed0 + entry_bytes (filter ?other ?es)" using False bytes all [of "length ?es"] by simp
    qed
    then consider "?loop = WouldEvict" | n f where "?loop = Evict n f" by (cases ?loop) auto
    then show ?thesis
    proof cases
      case 1
      with False have "\<exists>e. cache_Put c proc key data meta keep = (c, proc, PutErr e)"
        by (simp add: cache_Put_def Let_def)
      with put show ?thesis using refused by auto
    next
      case 2
      from evict_loop_Evict [OF old 2] obtain k where k: "k \<le> length ?es" "n = k"
        "f = ?freed0 + entry_bytes (filter ?other (take k ?es))" "?over \<le> f"
        "\<forall>e \<in> set (take k ?es). pe_key e \<noteq> key \<longrightarrow> \<not> keep (pe_key e)"
        "\<forall>j < k. ?freed0 + entry_bytes (filter ?other (take j ?es)) < ?over" by auto
      let ?delta = "int (length data) - f"
      have bytes': "pc_bytes c + ?delta = entry_bytes (filter ?other (drop k ?es)) + int (length data)"
        using all [of k] bytes k(3) by simp
      show ?thesis
      proof (cases "0 < ?delta \<and> profileCacheProcessBytes < proc + ?delta")
        case True
        with False 2 have "\<exists>e. cache_Put c proc key data meta keep = (c, proc, PutErr e)"
          by (simp add: cache_Put_def Let_def)
        with put show ?thesis using refused by auto
      next
        case fits: False
        have "cache_Put c proc key data meta keep =
            (c\<lparr>pc_entries := filter ?other (drop k ?es) @ [\<lparr>pe_key = key, pe_data = data, pe_meta = meta\<rparr>],
               pc_bytes := pc_bytes c + ?delta\<rparr>, proc + ?delta, PutOk)"
          using False 2 fits k(2) kept_entries [OF d k(1), of key]
          unfolding cache_Put_def Let_def by auto
        with put have "(c', proc', r) = (c\<lparr>pc_entries := filter ?other (drop k ?es) @ [\<lparr>pe_key = key, pe_data = data, pe_meta = meta\<rparr>],
             pc_bytes := pc_bytes c + ?delta\<rparr>, proc + ?delta, PutOk)" by simp
        moreover have "pc_bytes c + ?delta \<le> pc_maxBytes c" using k(4) by simp
        moreover have "pc_maxBytes c < entry_bytes (filter ?other (drop j ?es)) + int (length data)" if "j < k" for j
          using k(6) that all [of j] bytes by auto
        ultimately show ?thesis
          using False k fits bytes' by (intro stored [of k]) auto
      qed
    qed
  qed
qed

lemma cache_Put_ok:
  assumes "cache_ok c" "cache_Put c proc key data meta keep = (c', proc', r)" "proc \<le> profileCacheProcessBytes"
  shows "cache_ok c' \<and> proc' - pc_bytes c' = proc - pc_bytes c \<and> proc' \<le> profileCacheProcessBytes \<and> r \<noteq> PutPanic"
  using assms(1,2)
proof (cases rule: cache_Put_cases)
  case (refused e)
  with assms show ?thesis by simp
next
  case (stored k)
  have "distinct (map pe_key (pc_entries c))" using assms(1) by (simp add: cache_ok_def)
  then have "distinct (map pe_key (filter (\<lambda>e. pe_key e \<noteq> key) (drop k (pc_entries c))))"
    by (metis distinct_drop distinct_map_filter drop_map)
  with stored assms(3) show ?thesis by (auto simp: cache_ok_def)
qed

subsection \<open>Looking up\<close>

lemma cache_Get_None:
  "cache_index c key = None \<Longrightarrow> cache_Get c key = (c, None)"
  by (simp add: cache_Get_def touch_def)

lemma cache_Get_Some:
  assumes "cache_index c key = Some i"
  shows "cache_Get c key = (c\<lparr>pc_entries := delete_at i (pc_entries c) @ [pc_entries c ! i]\<rparr>,
           Some (pe_data (pc_entries c ! i), pe_meta (pc_entries c ! i)))"
  using assms by (simp add: cache_Get_def touch_def Let_def nth_append)

lemma cache_Get_mset: "mset (pc_entries (fst (cache_Get c key))) = mset (pc_entries c)"
proof (cases "cache_index c key")
  case None
  then show ?thesis by (simp add: cache_Get_None)
next
  case (Some i)
  with cache_index_Some [OF Some] mset_delete_at [of i "pc_entries c"] show ?thesis by (simp add: cache_Get_Some)
qed

lemma cache_Get_fields:
  "pc_bytes (fst (cache_Get c key)) = pc_bytes c" "pc_maxBytes (fst (cache_Get c key)) = pc_maxBytes c"
  "pc_closed (fst (cache_Get c key)) = pc_closed c"
  by (cases "cache_index c key"; simp add: cache_Get_None cache_Get_Some)+

lemma cache_Get_ok:
  assumes "cache_ok c"
  shows "cache_ok (fst (cache_Get c key))"
proof -
  let ?es = "pc_entries (fst (cache_Get c key))"
  have "mset (map pe_key ?es) = mset (map pe_key (pc_entries c))" using cache_Get_mset [of c key] by simp
  then have "distinct (map pe_key ?es) = distinct (map pe_key (pc_entries c))" by (rule mset_eq_imp_distinct_iff)
  moreover have "entry_bytes ?es = entry_bytes (pc_entries c)" by (rule entry_bytes_mset [OF cache_Get_mset])
  moreover have "pc_entries c = [] \<Longrightarrow> ?es = []" using cache_Get_mset [of c key] by simp
  ultimately show ?thesis using assms by (simp add: cache_ok_def cache_Get_fields)
qed

lemma cache_Get_value:
  assumes "distinct (map pe_key (pc_entries c))"
  shows "snd (cache_Get c key) = Some v \<longleftrightarrow> (\<exists>e \<in> set (pc_entries c). pe_key e = key \<and> v = (pe_data e, pe_meta e))"
proof (cases "cache_index c key")
  case None
  then have "key \<notin> pe_key ` set (pc_entries c)" by (simp add: cache_index_None)
  with cache_Get_None [OF None] show ?thesis by auto
next
  case (Some i)
  note i = cache_index_Some [OF Some]
  have "e = pc_entries c ! i" if "e \<in> set (pc_entries c)" "pe_key e = key" for e
    using that i assms by (metis distinct_map inj_on_contraD nth_mem)
  with i cache_Get_Some [OF Some] show ?thesis by (auto intro: nth_mem)
qed

subsection \<open>Properties of one cache\<close>

text \<open>
  C15: inserting into a cache is all or nothing and evicts no more than it must: a refused insert
  leaves the cache and the process budget unchanged; a successful one leaves exactly the entries
  behind a shortest prefix of least recently used ones, without the replaced value of the key, and
  the new entry last; no entry the caller asked to keep is evicted, and the loop never runs past
  the end of the entries.
\<close>

theorem put_evicts_least:
  assumes "cache_ok c" "cache_Put c proc key data meta keep = (c', proc', r)"
  shows "(\<exists>e. r = PutErr e \<and> c' = c \<and> proc' = proc) \<or>
    (r = PutOk \<and> (\<exists>k \<le> length (pc_entries c).
       pc_entries c' = filter (\<lambda>e. pe_key e \<noteq> key) (drop k (pc_entries c)) @ [\<lparr>pe_key = key, pe_data = data, pe_meta = meta\<rparr>] \<and>
       pc_bytes c' = entry_bytes (pc_entries c') \<and> pc_bytes c' \<le> pc_maxBytes c \<and>
       (\<forall>e \<in> set (take k (pc_entries c)). pe_key e \<noteq> key \<longrightarrow> \<not> keep (pe_key e)) \<and>
       (\<forall>j < k. pc_maxBytes c < entry_bytes (filter (\<lambda>e. pe_key e \<noteq> key) (drop j (pc_entries c))) + int (length data))))"
  using assms
proof (cases rule: cache_Put_cases)
  case (refused e)
  then show ?thesis by blast
next
  case (stored k)
  then show ?thesis by (intro disjI2 conjI exI [of _ k]) simp_all
qed

text \<open>
  What was inserted is found with its metadata, what the caller asked to keep is still found
  unchanged, and any other key gives its old value or nothing.
\<close>

theorem get_after_put:
  assumes "cache_ok c" "cache_Put c proc key data meta keep = (c', proc', PutOk)"
  shows "snd (cache_Get c' key) = Some (data, meta) \<and>
    (\<forall>other. other \<noteq> key \<longrightarrow> snd (cache_Get c' other) = snd (cache_Get c other) \<or> \<not> keep other \<and> snd (cache_Get c' other) = None)"
proof -
  have d: "distinct (map pe_key (pc_entries c))" using assms(1) by (simp add: cache_ok_def)
  from assms show ?thesis
  proof (cases rule: cache_Put_cases)
    case (stored k)
    have d': "distinct (map pe_key (pc_entries c'))"
      using stored(5) d by (auto simp: distinct_map_filter distinct_map drop_map [symmetric] intro: inj_on_subset dest: in_set_dropD)
    have new: "snd (cache_Get c' key) = Some (data, meta)"
      unfolding cache_Get_value [OF d'] using stored(5) by auto
    have "snd (cache_Get c' other) = snd (cache_Get c other) \<or> \<not> keep other \<and> snd (cache_Get c' other) = None"
      if other: "other \<noteq> key" for other
    proof (cases "snd (cache_Get c' other)")
      case (Some v)
      then obtain e where "e \<in> set (pc_entries c)" "pe_key e = other" "v = (pe_data e, pe_meta e)"
        unfolding cache_Get_value [OF d'] using stored(5) other by (auto dest: in_set_dropD)
      then have "snd (cache_Get c other) = Some v" unfolding cache_Get_value [OF d] by blast
      with Some show ?thesis by simp
    next
      case None
      show ?thesis
      proof (cases "snd (cache_Get c other)")
        case (Some v)
        then obtain e where e: "e \<in> set (pc_entries c)" "pe_key e = other" "v = (pe_data e, pe_meta e)"
          unfolding cache_Get_value [OF d] by blast
        have "e \<notin> set (drop k (pc_entries c))"
        proof
          assume "e \<in> set (drop k (pc_entries c))"
          with e other have "snd (cache_Get c' other) = Some v"
            unfolding cache_Get_value [OF d'] using stored(5) by auto
          with None show False by simp
        qed
        with e(1) have "e \<in> set (take k (pc_entries c))"
          by (metis Un_iff append_take_drop_id set_append)
        with stored(9) e(2) other None show ?thesis by blast
      qed (use None in simp)
    qed
    with new show ?thesis by blast
  qed simp
qed

subsection \<open>All the caches of the process\<close>

text \<open>The caches of all users share the process budget; every operation is atomic on both.\<close>

inductive caches_step :: "'m profileCache list \<times> int \<Rightarrow> 'm profileCache list \<times> int \<Rightarrow> bool" where
  new_user: "caches_step (cs, proc) (cs @ [NewProfileCache], proc)"
| get: "i < length cs \<Longrightarrow> caches_step (cs, proc) (cs[i := fst (cache_Get (cs ! i) key)], proc)"
| put: "i < length cs \<Longrightarrow> cache_Put (cs ! i) proc key data meta keep = (c', proc', r) \<Longrightarrow>
     caches_step (cs, proc) (cs[i := c'], proc')"
| delete: "i < length cs \<Longrightarrow> cache_Delete (cs ! i) proc key = (c', proc') \<Longrightarrow>
     caches_step (cs, proc) (cs[i := c'], proc')"
| close_user: "i < length cs \<Longrightarrow> cache_Close (cs ! i) proc = (c', proc') \<Longrightarrow>
     caches_step (cs, proc) (cs[i := c'], proc')"

definition caches_ok :: "'m profileCache list \<times> int \<Rightarrow> bool" where
  "caches_ok s = ((\<forall>c \<in> set (fst s). cache_ok c) \<and> snd s = (\<Sum>c\<leftarrow>fst s. pc_bytes c) \<and> snd s \<le> profileCacheProcessBytes)"

lemma sum_list_update_int:
  "i < length xs \<Longrightarrow> (\<Sum>x\<leftarrow>xs[i := y]. f x) = (\<Sum>x\<leftarrow>xs. f x) - f (xs ! i) + (f y :: int)"
  by (induction xs arbitrary: i) (auto split: nat.splits simp: less_Suc_eq_0_disj)

lemma caches_ok_update:
  assumes "caches_ok (cs, proc)" "i < length cs" "cache_ok c'" "proc' - pc_bytes c' = proc - pc_bytes (cs ! i)"
    and "proc' \<le> profileCacheProcessBytes"
  shows "caches_ok (cs[i := c'], proc')"
  using assms by (auto simp: caches_ok_def sum_list_update_int dest!: set_update_subset_insert [THEN subsetD])

lemma caches_step_ok: "caches_step s s' \<Longrightarrow> caches_ok s \<Longrightarrow> caches_ok s'"
proof (induction rule: caches_step.induct)
  case (new_user cs proc)
  then show ?case by (auto simp: caches_ok_def NewProfileCache_def cache_ok_def profileCacheUserBytes_def)
next
  case (get i cs proc key)
  then show ?case
    by (intro caches_ok_update) (auto simp: caches_ok_def cache_Get_fields intro: cache_Get_ok)
next
  case (put i cs proc key data meta keep c' proc' r)
  then have "cache_ok (cs ! i)" "proc \<le> profileCacheProcessBytes" by (auto simp: caches_ok_def)
  with cache_Put_ok [OF this(1) put.hyps(2)] put show ?case by (intro caches_ok_update) auto
next
  case (delete i cs proc key c' proc')
  then have "cache_ok (cs ! i)" "proc \<le> profileCacheProcessBytes" by (auto simp: caches_ok_def)
  with cache_Delete_ok [OF this(1) delete.hyps(2)] delete show ?case by (intro caches_ok_update) auto
next
  case (close_user i cs proc c' proc')
  then have ok: "cache_ok (cs ! i)" "proc \<le> profileCacheProcessBytes" by (auto simp: caches_ok_def)
  from cache_Close_ok [OF ok(1) cache_ok_maxBytes [OF ok(1)], of proc] close_user(2)
  have "cache_ok c'" by simp
  moreover have "0 \<le> pc_bytes (cs ! i)" using ok(1) by (simp add: cache_ok_def)
  moreover have "pc_bytes c' = 0" "proc' = proc - pc_bytes (cs ! i)" using close_user(2) by (auto simp: cache_Close_def)
  ultimately show ?case using close_user ok(2) by (intro caches_ok_update) auto
qed

text \<open>
  Whatever the users do, in any order, the profiles the process holds never exceed the process
  budget of 64 MiB, no user holds more than the per-user limit, the budget counter is exactly what
  the caches hold (nothing leaks on eviction, replacement, deletion or close), and no cache holds
  two entries of one key.
\<close>

theorem cache_budget:
  assumes "caches_step\<^sup>*\<^sup>* ([], 0) (cs, proc)"
  shows "proc = (\<Sum>c\<leftarrow>cs. entry_bytes (pc_entries c)) \<and> proc \<le> profileCacheProcessBytes \<and>
         (\<forall>c \<in> set cs. entry_bytes (pc_entries c) \<le> pc_maxBytes c \<and> distinct (map pe_key (pc_entries c)))"
proof -
  have "caches_ok (cs, proc)"
    using assms
  proof (induction rule: rtranclp_induct)
    case base
    then show ?case by (simp add: caches_ok_def profileCacheProcessBytes_def)
  next
    case (step s s')
    then show ?case using caches_step_ok by blast
  qed
  then have ok: "\<forall>c \<in> set cs. cache_ok c" "proc = (\<Sum>c\<leftarrow>cs. pc_bytes c)" "proc \<le> profileCacheProcessBytes"
    by (simp_all add: caches_ok_def)
  have "map pc_bytes cs = map (\<lambda>c. entry_bytes (pc_entries c)) cs" using ok(1) by (simp add: cache_ok_def)
  with ok(2) have "proc = (\<Sum>c\<leftarrow>cs. entry_bytes (pc_entries c))" by simp
  moreover have "\<forall>c \<in> set cs. entry_bytes (pc_entries c) \<le> pc_maxBytes c \<and> distinct (map pe_key (pc_entries c))"
    using ok(1) unfolding cache_ok_def by metis
  ultimately show ?thesis using ok(3) by blast
qed

subsection \<open>Witnesses\<close>

definition ex_cache :: "nat profileCache" where
  "ex_cache = \<lparr>pc_entries = [\<lparr>pe_key = ''a'', pe_data = ''12'', pe_meta = 0\<rparr>, \<lparr>pe_key = ''b'', pe_data = ''34'', pe_meta = 0\<rparr>],
     pc_bytes = 4, pc_maxBytes = 5, pc_closed = False\<rparr>"

lemma ex_cache_ok: "cache_ok ex_cache"
  by (simp add: cache_ok_def ex_cache_def)

lemma ex_put:
  "cache_Put ex_cache 4 ''c'' ''56'' 7 (\<lambda>k. k = ''b'') =
     (ex_cache\<lparr>pc_entries := [\<lparr>pe_key = ''b'', pe_data = ''34'', pe_meta = 0\<rparr>, \<lparr>pe_key = ''c'', pe_data = ''56'', pe_meta = 7\<rparr>],
        pc_bytes := 4\<rparr>, 4, PutOk)"
  by (simp add: cache_Put_def ex_cache_def cache_index_def Let_def)

theorem put_evicts_least_witness:
  "\<exists>k. pc_entries (fst (cache_Put ex_cache 4 ''c'' ''56'' 7 (\<lambda>k. k = ''b''))) =
     filter (\<lambda>e. pe_key e \<noteq> ''c'') (drop k (pc_entries ex_cache)) @ [\<lparr>pe_key = ''c'', pe_data = ''56'', pe_meta = 7\<rparr>]"
  using put_evicts_least [OF ex_cache_ok ex_put] by (auto simp: ex_put)

theorem get_after_put_witness:
  "snd (cache_Get (fst (cache_Put ex_cache 4 ''c'' ''56'' 7 (\<lambda>k. k = ''b''))) ''c'') = Some (''56'', 7)"
  using get_after_put [OF ex_cache_ok ex_put] by (simp add: ex_put)

theorem cache_budget_witness:
  "\<exists>cs::nat profileCache list. caches_step\<^sup>*\<^sup>* ([], 0) (cs, 3) \<and> (3::int) = (\<Sum>c\<leftarrow>cs. entry_bytes (pc_entries c))"
proof -
  let ?c = "NewProfileCache :: nat profileCache"
  let ?d = "?c\<lparr>pc_entries := [\<lparr>pe_key = ''k'', pe_data = ''xyz'', pe_meta = 0\<rparr>], pc_bytes := 3\<rparr>"
  have "cache_Put ?c 0 ''k'' ''xyz'' 0 (\<lambda>_. False) = (?d, 3, PutOk)"
    by (simp add: cache_Put_def NewProfileCache_def cache_index_def Let_def profileCacheUserBytes_def
        profileCacheProcessBytes_def)
  then have "caches_step ([?c], 0) ([?d], 3)"
    using caches_step.put [of 0 "[?c]" 0 "''k''" "''xyz''" 0 "\<lambda>_. False" ?d 3 PutOk] by simp
  moreover have "caches_step ([], 0) ([?c], 0)" using caches_step.new_user [of "[]" 0] by simp
  ultimately have "caches_step\<^sup>*\<^sup>* ([], 0) ([?d], 3)" by (meson converse_rtranclp_into_rtranclp rtranclp.rtrancl_refl)
  from cache_budget [OF this] this show ?thesis by blast
qed

end
