(* ===== verification/User_Pool.thy ===== *)
theory User_Pool
  imports Obs_Prelude
begin

text \<open>
  The pool of per-user assemblies behind the HTTP transport (\<open>internal/server/userpool.go\<close>).

  Entries are shared objects: requests hold references to an entry that may meanwhile have left
  the map. So the pool has a heap of entries (a list; a reference is a position in it) and the map
  from subjects to references (an association list). The critical sections of the code are
  functions on the pool; the concurrent requests, the janitor and the closing of evicted
  assemblies are the steps of a transition system over the pool. Where the code ranges over the
  map, the iteration order is an argument.
\<close>

subsection \<open>State\<close>

record poolEntry =
  en_user :: string
  en_done :: bool
  en_buildErr :: "go_error option"
  en_lastUsed :: gtime
  en_inflight :: int
  en_calls :: nat
  en_ts :: string
  en_closed :: nat

record userPool =
  up_heap :: "poolEntry list"
  up_entries :: "(string \<times> nat) list"
  up_maxUsers :: nat

definition userPoolIdleTTL :: duration where "userPoolIdleTTL = 30 * minute"
definition userPoolMaxUsers :: nat where "userPoolMaxUsers = 100"
definition maxConcurrentUserCalls :: nat where "maxConcurrentUserCalls = 4"

definition newUserPool :: userPool where
  "newUserPool = \<lparr>up_heap = [], up_entries = [], up_maxUsers = userPoolMaxUsers\<rparr>"

definition evictable :: "poolEntry \<Rightarrow> bool" where
  "evictable e = (en_done e \<and> en_buildErr e = None \<and> en_inflight e = 0)"

definition entry_at :: "userPool \<Rightarrow> nat \<Rightarrow> poolEntry" where
  "entry_at p i = up_heap p ! i"

definition set_entry :: "userPool \<Rightarrow> nat \<Rightarrow> poolEntry \<Rightarrow> userPool" where
  "set_entry p i e = p\<lparr>up_heap := (up_heap p)[i := e]\<rparr>"

definition delete_key :: "userPool \<Rightarrow> string \<Rightarrow> userPool" where
  "delete_key p key = p\<lparr>up_entries := filter (\<lambda>x. fst x \<noteq> key) (up_entries p)\<rparr>"

subsection \<open>Operations\<close>

text \<open>The scan for the least recently used evictable entry, over the map in some order.\<close>

fun oldest_evictable :: "userPool \<Rightarrow> (string \<times> nat) list \<Rightarrow> (string \<times> nat) option \<Rightarrow> (string \<times> nat) option" where
  "oldest_evictable p [] best = best"
| "oldest_evictable p (x # xs) best =
     (if \<not> evictable (entry_at p (snd x)) then oldest_evictable p xs best
      else (case best of
              None \<Rightarrow> oldest_evictable p xs (Some x)
            | Some b \<Rightarrow> oldest_evictable p xs
                (if en_lastUsed (entry_at p (snd x)) < en_lastUsed (entry_at p (snd b)) then Some x else Some b)))"

definition takeOneEvictableLocked :: "userPool \<Rightarrow> (string \<times> nat) list \<Rightarrow> userPool \<times> (string \<times> nat) option" where
  "takeOneEvictableLocked p order =
     (case oldest_evictable p order None of
        None \<Rightarrow> (p, None)
      | Some (k, i) \<Rightarrow> (delete_key p k, Some (k, i)))"

datatype entry_outcome = Joined nat | Inserted nat "nat option" | PoolFull

text \<open>The critical section of \<open>entryFor\<close>: up to where the pool lock is released.\<close>

definition entryFor :: "userPool \<Rightarrow> string \<Rightarrow> string \<Rightarrow> gtime \<Rightarrow> (string \<times> nat) list \<Rightarrow> userPool \<times> entry_outcome" where
  "entryFor p key ts now order =
     (case map_of (up_entries p) key of
        Some i \<Rightarrow>
          (set_entry p i ((entry_at p i)\<lparr>en_inflight := en_inflight (entry_at p i) + 1, en_lastUsed := now\<rparr>), Joined i)
      | None \<Rightarrow>
          (let (p1, evicted) = (if up_maxUsers p \<le> length (up_entries p) then takeOneEvictableLocked p order else (p, None)) in
           if up_maxUsers p \<le> length (up_entries p) \<and> evicted = None then (p, PoolFull)
           else
             (let e = \<lparr>en_user = key, en_done = False, en_buildErr = None, en_lastUsed = now, en_inflight = 1,
                       en_calls = 0, en_ts = ts, en_closed = 0\<rparr>;
                  i = length (up_heap p1)
              in (p1\<lparr>up_heap := up_heap p1 @ [e], up_entries := (key, i) # up_entries p1\<rparr>,
                  Inserted i (map_option snd evicted)))))"

definition build_finish :: "userPool \<Rightarrow> nat \<Rightarrow> userPool" where
  "build_finish p i = set_entry p i ((entry_at p i)\<lparr>en_done := True\<rparr>)"

definition build_fail :: "userPool \<Rightarrow> nat \<Rightarrow> go_error \<Rightarrow> userPool" where
  "build_fail p i err = set_entry p i ((entry_at p i)\<lparr>en_buildErr := Some err, en_done := True\<rparr>)"

text \<open>
  \<open>runBuild\<close> publishes the result of the builder, an assembly or an error (or a recovered panic).
  After a failure it then takes the lock and deletes the key (\<open>delete_key\<close>): between the two, other
  requests can find the failed entry in the map, so the deletion is a step of its own below.
\<close>

definition runBuild :: "userPool \<Rightarrow> nat \<Rightarrow> go_error option \<Rightarrow> userPool" where
  "runBuild p i result = (case result of None \<Rightarrow> build_finish p i | Some err \<Rightarrow> build_fail p i err)"

definition set_ts :: "userPool \<Rightarrow> nat \<Rightarrow> string \<Rightarrow> userPool" where
  "set_ts p i ts = set_entry p i ((entry_at p i)\<lparr>en_ts := ts\<rparr>)"

definition acquire_call :: "userPool \<Rightarrow> nat \<Rightarrow> userPool option" where
  "acquire_call p i =
     (if en_calls (entry_at p i) < maxConcurrentUserCalls
      then Some (set_entry p i ((entry_at p i)\<lparr>en_calls := en_calls (entry_at p i) + 1\<rparr>)) else None)"

definition release_call :: "userPool \<Rightarrow> nat \<Rightarrow> userPool" where
  "release_call p i = set_entry p i ((entry_at p i)\<lparr>en_calls := en_calls (entry_at p i) - 1\<rparr>)"

definition release :: "userPool \<Rightarrow> nat \<Rightarrow> userPool" where
  "release p i = set_entry p i ((entry_at p i)\<lparr>en_inflight := en_inflight (entry_at p i) - 1\<rparr>)"

definition idle_victim :: "userPool \<Rightarrow> gtime \<Rightarrow> string \<times> nat \<Rightarrow> bool" where
  "idle_victim p now x =
     (evictable (entry_at p (snd x)) \<and> en_lastUsed (entry_at p (snd x)) < now - userPoolIdleTTL)"

definition evictIdle :: "userPool \<Rightarrow> gtime \<Rightarrow> userPool \<times> nat list" where
  "evictIdle p now =
     (p\<lparr>up_entries := filter (\<lambda>x. \<not> idle_victim p now x) (up_entries p)\<rparr>,
      map snd (filter (idle_victim p now) (up_entries p)))"

definition closeEntry :: "userPool \<Rightarrow> nat \<Rightarrow> userPool" where
  "closeEntry p i = set_entry p i ((entry_at p i)\<lparr>en_closed := en_closed (entry_at p i) + 1\<rparr>)"

definition pool_Close :: "userPool \<Rightarrow> userPool \<times> nat list" where
  "pool_Close p =
     (p\<lparr>up_entries := []\<rparr>,
      map snd (filter (\<lambda>x. en_done (entry_at p (snd x)) \<and> en_buildErr (entry_at p (snd x)) = None) (up_entries p)))"

subsection \<open>Requests\<close>

text \<open>
  A request is its subject, the entry it holds and where it is: it runs the build, has
  published a failed build that is still in the map, waits for the build (with its token source),
  has the assembly, is being served, or is on its way out.
\<close>

datatype phase = Building | Failed | Waiting string | Ready | Serving | Leaving

type_synonym request = "string \<times> nat \<times> phase"

record pool_system =
  sy_pool :: userPool
  sy_reqs :: "request multiset"
  sy_toClose :: "nat list"

inductive pool_step :: "pool_system \<Rightarrow> pool_system \<Rightarrow> bool" where
  join: "entryFor p key ts now order = (p', Joined i) \<Longrightarrow>
     pool_step \<lparr>sy_pool = p, sy_reqs = R, sy_toClose = tc\<rparr>
       \<lparr>sy_pool = p', sy_reqs = add_mset (key, i, Waiting ts) R, sy_toClose = tc\<rparr>"
| insert: "entryFor p key ts now order = (p', Inserted i evicted) \<Longrightarrow> mset order = mset (up_entries p) \<Longrightarrow>
     pool_step \<lparr>sy_pool = p, sy_reqs = R, sy_toClose = tc\<rparr>
       \<lparr>sy_pool = p', sy_reqs = add_mset (key, i, Building) R,
        sy_toClose = (case evicted of None \<Rightarrow> tc | Some j \<Rightarrow> j # tc)\<rparr>"
| build_ok: "pool_step \<lparr>sy_pool = p, sy_reqs = add_mset (key, i, Building) R, sy_toClose = tc\<rparr>
       \<lparr>sy_pool = runBuild p i None, sy_reqs = add_mset (key, i, Ready) R, sy_toClose = tc\<rparr>"
| build_err: "pool_step \<lparr>sy_pool = p, sy_reqs = add_mset (key, i, Building) R, sy_toClose = tc\<rparr>
       \<lparr>sy_pool = runBuild p i (Some err), sy_reqs = add_mset (key, i, Failed) R, sy_toClose = tc\<rparr>"
| unlink: "pool_step \<lparr>sy_pool = p, sy_reqs = add_mset (key, i, Failed) R, sy_toClose = tc\<rparr>
       \<lparr>sy_pool = delete_key p key, sy_reqs = add_mset (key, i, Leaving) R, sy_toClose = tc\<rparr>"
| wait_ok: "en_done (entry_at p i) \<Longrightarrow> en_buildErr (entry_at p i) = None \<Longrightarrow>
     pool_step \<lparr>sy_pool = p, sy_reqs = add_mset (key, i, Waiting ts) R, sy_toClose = tc\<rparr>
       \<lparr>sy_pool = set_ts p i ts, sy_reqs = add_mset (key, i, Ready) R, sy_toClose = tc\<rparr>"
| wait_err: "en_done (entry_at p i) \<Longrightarrow> en_buildErr (entry_at p i) = Some err \<Longrightarrow>
     pool_step \<lparr>sy_pool = p, sy_reqs = add_mset (key, i, Waiting ts) R, sy_toClose = tc\<rparr>
       \<lparr>sy_pool = p, sy_reqs = add_mset (key, i, Leaving) R, sy_toClose = tc\<rparr>"
| cancel: "pool_step \<lparr>sy_pool = p, sy_reqs = add_mset (key, i, Waiting ts) R, sy_toClose = tc\<rparr>
       \<lparr>sy_pool = p, sy_reqs = add_mset (key, i, Leaving) R, sy_toClose = tc\<rparr>"
| serve: "acquire_call p i = Some p' \<Longrightarrow>
     pool_step \<lparr>sy_pool = p, sy_reqs = add_mset (key, i, Ready) R, sy_toClose = tc\<rparr>
       \<lparr>sy_pool = p', sy_reqs = add_mset (key, i, Serving) R, sy_toClose = tc\<rparr>"
| saturated: "acquire_call p i = None \<Longrightarrow>
     pool_step \<lparr>sy_pool = p, sy_reqs = add_mset (key, i, Ready) R, sy_toClose = tc\<rparr>
       \<lparr>sy_pool = p, sy_reqs = add_mset (key, i, Leaving) R, sy_toClose = tc\<rparr>"
| served: "pool_step \<lparr>sy_pool = p, sy_reqs = add_mset (key, i, Serving) R, sy_toClose = tc\<rparr>
       \<lparr>sy_pool = release_call p i, sy_reqs = add_mset (key, i, Leaving) R, sy_toClose = tc\<rparr>"
| leave: "pool_step \<lparr>sy_pool = p, sy_reqs = add_mset (key, i, Leaving) R, sy_toClose = tc\<rparr>
       \<lparr>sy_pool = release p i, sy_reqs = R, sy_toClose = tc\<rparr>"
| janitor: "evictIdle p now = (p', victims) \<Longrightarrow>
     pool_step \<lparr>sy_pool = p, sy_reqs = R, sy_toClose = tc\<rparr>
       \<lparr>sy_pool = p', sy_reqs = R, sy_toClose = victims @ tc\<rparr>"
| close: "pool_step \<lparr>sy_pool = p, sy_reqs = R, sy_toClose = tc @ i # tc'\<rparr>
       \<lparr>sy_pool = closeEntry p i, sy_reqs = R, sy_toClose = tc @ tc'\<rparr>"

definition pool_start :: pool_system where
  "pool_start = \<lparr>sy_pool = newUserPool, sy_reqs = {#}, sy_toClose = []\<rparr>"

subsection \<open>The invariant\<close>

definition at_entry :: "request multiset \<Rightarrow> nat \<Rightarrow> request multiset" where
  "at_entry R i = filter_mset (\<lambda>r. fst (snd r) = i) R"

definition in_phase :: "phase \<Rightarrow> request multiset \<Rightarrow> nat" where
  "in_phase ph M = size (filter_mset (\<lambda>r. snd (snd r) = ph) M)"

lemma at_entry_add [simp]: "at_entry (add_mset (k, j, ph) R) i = (if j = i then add_mset (k, j, ph) (at_entry R i) else at_entry R i)"
  by (simp add: at_entry_def)

lemma at_entry_empty [simp]: "at_entry {#} i = {#}"
  by (simp add: at_entry_def)

lemma in_phase_simps [simp]:
  "in_phase ph {#} = 0" "in_phase ph (add_mset (k, j, ph') M) = (if ph' = ph then Suc (in_phase ph M) else in_phase ph M)"
  by (simp_all add: in_phase_def)

text \<open>
  One entry and the requests \<open>M\<close> that hold it, given the map \<open>E\<close> and the entries \<open>tc\<close> waiting to be
  closed: the counters count, at most one request builds and it does so while the entry is in the
  map, a failed entry is in the map exactly while its builder still has to delete it, a request that may use the assembly finds it built, an entry that is being closed or
  closed is out of the map and held by nobody, and it is closed once.
\<close>

definition entry_inv :: "(string \<times> nat) set \<Rightarrow> nat set \<Rightarrow> poolEntry \<Rightarrow> request multiset \<Rightarrow> nat \<Rightarrow> bool" where
  "entry_inv E tc e M i =
     (en_inflight e = int (size M) \<and> en_calls e = in_phase Serving M \<and> en_calls e \<le> maxConcurrentUserCalls \<and>
      in_phase Building M = (if en_done e then 0 else 1) \<and>
      (\<not> en_done e \<longrightarrow> (en_user e, i) \<in> E \<and> en_buildErr e = None) \<and>
      in_phase Failed M = (if en_buildErr e \<noteq> None \<and> (\<exists>k. (k, i) \<in> E) then 1 else 0) \<and>
      (0 < en_closed e \<or> i \<in> tc \<longrightarrow> M = {#} \<and> (\<forall>k. (k, i) \<notin> E) \<and> en_done e \<and> en_buildErr e = None) \<and>
      en_closed e + (if i \<in> tc then 1 else 0) \<le> 1 \<and>
      (\<forall>r \<in># M. fst r = en_user e \<and> (snd (snd r) = Ready \<or> snd (snd r) = Serving \<longrightarrow> en_done e \<and> en_buildErr e = None)))"

definition map_inv :: "userPool \<Rightarrow> bool" where
  "map_inv p =
     (distinct (map fst (up_entries p)) \<and> length (up_entries p) \<le> up_maxUsers p \<and>
      (\<forall>x \<in> set (up_entries p). snd x < length (up_heap p) \<and> en_user (entry_at p (snd x)) = fst x))"

definition pool_inv :: "pool_system \<Rightarrow> bool" where
  "pool_inv s =
     (map_inv (sy_pool s) \<and> distinct (sy_toClose s) \<and> (\<forall>i \<in> set (sy_toClose s). i < length (up_heap (sy_pool s))) \<and>
      (\<forall>r \<in># sy_reqs s. fst (snd r) < length (up_heap (sy_pool s))) \<and>
      (\<forall>i < length (up_heap (sy_pool s)).
         entry_inv (set (up_entries (sy_pool s))) (set (sy_toClose s)) (entry_at (sy_pool s) i) (at_entry (sy_reqs s) i) i))"

lemma set_entry_simps [simp]:
  "up_entries (set_entry p i e) = up_entries p" "length (up_heap (set_entry p i e)) = length (up_heap p)"
  "up_maxUsers (set_entry p i e) = up_maxUsers p"
  "j < length (up_heap p) \<Longrightarrow> entry_at (set_entry p i e) j = (if i = j then e else entry_at p j)"
  by (auto simp: set_entry_def entry_at_def nth_list_update)

lemma delete_key_simps [simp]:
  "up_heap (delete_key p k) = up_heap p" "entry_at (delete_key p k) j = entry_at p j"
  "up_maxUsers (delete_key p k) = up_maxUsers p"
  "set (up_entries (delete_key p k)) = {x \<in> set (up_entries p). fst x \<noteq> k}"
  by (auto simp: delete_key_def entry_at_def)

text \<open>Two keys of the map hold different entries.\<close>

lemma map_inv_unique:
  assumes "map_inv p" "(k, i) \<in> set (up_entries p)" "(k', i) \<in> set (up_entries p)"
  shows "k = k'"
  using assms unfolding map_inv_def by (metis fst_conv snd_conv)

lemma map_inv_key:
  assumes "map_inv p" "(k, i) \<in> set (up_entries p)" "(k, j) \<in> set (up_entries p)"
  shows "i = j"
  using assms unfolding map_inv_def by (metis eq_key_imp_eq_value)

lemma map_inv_delete: "map_inv p \<Longrightarrow> map_inv (delete_key p k)"
  unfolding map_inv_def
  by (auto simp: delete_key_def entry_at_def distinct_map_filter intro: order_trans [OF length_filter_le])

lemma entry_inv_cong:
  "(\<And>k. (k, i) \<in> E' \<longleftrightarrow> (k, i) \<in> E) \<Longrightarrow> (i \<in> tc' \<longleftrightarrow> i \<in> tc) \<Longrightarrow> entry_inv E' tc' e M i = entry_inv E tc e M i"
  by (simp add: entry_inv_def)

text \<open>Steps that change one entry and the requests that hold it.\<close>

lemma update_inv:
  assumes inv: "pool_inv \<lparr>sy_pool = p, sy_reqs = R, sy_toClose = tc\<rparr>"
    and i: "i < length (up_heap p)" "en_user e' = en_user (entry_at p i)"
    and other: "\<And>j. j \<noteq> i \<Longrightarrow> at_entry R' j = at_entry R j"
    and refs: "\<And>r. r \<in># R' \<Longrightarrow> fst (snd r) < length (up_heap p)"
    and new: "entry_inv (set (up_entries p)) (set tc) (entry_at p i) (at_entry R i) i \<Longrightarrow>
              entry_inv (set (up_entries p)) (set tc) e' (at_entry R' i) i"
  shows "pool_inv \<lparr>sy_pool = set_entry p i e', sy_reqs = R', sy_toClose = tc\<rparr>"
  using assms unfolding pool_inv_def map_inv_def by auto

text \<open>Steps that take entries nobody holds out of the map and queue them to be closed.\<close>

lemma evict_inv:
  assumes inv: "pool_inv \<lparr>sy_pool = p, sy_reqs = R, sy_toClose = tc\<rparr>"
    and ev: "\<And>x. x \<in> set (up_entries p) \<Longrightarrow> P x \<Longrightarrow> evictable (entry_at p (snd x))"
  shows "pool_inv \<lparr>sy_pool = p\<lparr>up_entries := filter (\<lambda>x. \<not> P x) (up_entries p)\<rparr>, sy_reqs = R,
           sy_toClose = map snd (filter P (up_entries p)) @ tc\<rparr>"
proof -
  let ?p = "p\<lparr>up_entries := filter (\<lambda>x. \<not> P x) (up_entries p)\<rparr>"
  let ?tc = "map snd (filter P (up_entries p)) @ tc"
  have m: "map_inv p" and tc: "distinct tc" "\<forall>i \<in> set tc. i < length (up_heap p)"
    and refs: "\<forall>r \<in># R. fst (snd r) < length (up_heap p)"
    and e: "\<And>i. i < length (up_heap p) \<Longrightarrow> entry_inv (set (up_entries p)) (set tc) (entry_at p i) (at_entry R i) i"
    using inv by (simp_all add: pool_inv_def)
  have at: "entry_at ?p i = entry_at p i" for i by (simp add: entry_at_def)
  have m': "map_inv ?p"
    using m by (auto simp: map_inv_def at distinct_map_filter intro: order_trans [OF length_filter_le])
  have inj: "inj_on snd (set (up_entries p))"
    using map_inv_unique [OF m] by (intro inj_onI) (metis prod.collapse)
  have notin: "i \<notin> set tc" if "(k, i) \<in> set (up_entries p)" for k i
    using e [of i] that m by (auto simp: entry_inv_def map_inv_def)
  have "distinct (up_entries p)" using m by (simp add: map_inv_def distinct_map)
  then have "distinct (map snd (filter P (up_entries p)))"
    using inj by (auto simp: distinct_map intro: inj_on_subset)
  with tc(1) notin have dist: "distinct ?tc" by auto
  have "entry_inv (set (up_entries ?p)) (set ?tc) (entry_at ?p i) (at_entry R i) i" if i: "i < length (up_heap p)" for i
  proof (cases "\<exists>k. (k, i) \<in> set (up_entries p) \<and> P (k, i)")
    case True
    then obtain k where k: "(k, i) \<in> set (up_entries p)" "P (k, i)" by blast
    have gone: "(k', i) \<notin> set (up_entries ?p)" for k' using map_inv_unique [OF m k(1), of k'] k(2) by auto
    have "evictable (entry_at p i)" using ev [OF k] by simp
    then have "at_entry R i = {#}" "en_done (entry_at p i)" "en_buildErr (entry_at p i) = None"
      using e [OF i] by (simp_all add: evictable_def entry_inv_def)
    moreover have "en_closed (entry_at p i) = 0" using e [OF i] k(1) by (auto simp: entry_inv_def)
    ultimately show ?thesis using e [OF i] gone notin [OF k(1)] k by (auto simp: entry_inv_def at)
  next
    case False
    then have "i \<in> set ?tc \<longleftrightarrow> i \<in> set tc" "\<And>k. (k, i) \<in> set (up_entries ?p) \<longleftrightarrow> (k, i) \<in> set (up_entries p)" by auto
    with e [OF i] show ?thesis unfolding at by (subst entry_inv_cong)
  qed
  with m' dist tc(2) refs m show ?thesis by (auto simp: pool_inv_def map_inv_def)
qed

lemma oldest_evictable_Some:
  assumes "oldest_evictable p order best = Some x"
  shows "best = Some x \<or> x \<in> set order \<and> evictable (entry_at p (snd x))"
  using assms by (induction p order best rule: oldest_evictable.induct) (auto split: if_splits option.splits)

lemma filter_single: "distinct xs \<Longrightarrow> x \<in> set xs \<Longrightarrow> filter (\<lambda>y. y = x) xs = [x]"
  by (induction xs) (auto simp: filter_empty_conv)

lemma takeOne_filter:
  assumes "map_inv p" "(k, i) \<in> set (up_entries p)"
  shows "delete_key p k = p\<lparr>up_entries := filter (\<lambda>x. \<not> x = (k, i)) (up_entries p)\<rparr>"
    and "filter (\<lambda>x. x = (k, i)) (up_entries p) = [(k, i)]"
proof -
  have "fst x \<noteq> k \<longleftrightarrow> x \<noteq> (k, i)" if "x \<in> set (up_entries p)" for x
    using that map_inv_key [OF assms, of "snd x"] by (metis fst_conv prod.collapse)
  then show "delete_key p k = p\<lparr>up_entries := filter (\<lambda>x. \<not> x = (k, i)) (up_entries p)\<rparr>"
    by (simp add: delete_key_def cong: filter_cong)
  have "distinct (up_entries p)" using assms(1) by (simp add: map_inv_def distinct_map)
  then show "filter (\<lambda>x. x = (k, i)) (up_entries p) = [(k, i)]"
    using assms(2) by (rule filter_single)
qed

text \<open>Inserting a new entry, built by the request that asked for it.\<close>

definition new_entry :: "string \<Rightarrow> string \<Rightarrow> gtime \<Rightarrow> poolEntry" where
  "new_entry key ts now = \<lparr>en_user = key, en_done = False, en_buildErr = None, en_lastUsed = now, en_inflight = 1,
     en_calls = 0, en_ts = ts, en_closed = 0\<rparr>"

definition add_entry :: "userPool \<Rightarrow> string \<Rightarrow> string \<Rightarrow> gtime \<Rightarrow> userPool" where
  "add_entry p key ts now = p\<lparr>up_heap := up_heap p @ [new_entry key ts now],
     up_entries := (key, length (up_heap p)) # up_entries p\<rparr>"

lemma insert_inv:
  assumes inv: "pool_inv \<lparr>sy_pool = p, sy_reqs = R, sy_toClose = tc\<rparr>"
    and new: "key \<notin> fst ` set (up_entries p)" and room: "length (up_entries p) < up_maxUsers p"
  shows "pool_inv \<lparr>sy_pool = add_entry p key ts now, sy_reqs = add_mset (key, length (up_heap p), Building) R, sy_toClose = tc\<rparr>"
proof -
  let ?i = "length (up_heap p)"
  let ?p = "add_entry p key ts now"
  have m: "map_inv p" and tc: "\<forall>i \<in> set tc. i < ?i" and refs: "\<forall>r \<in># R. fst (snd r) < ?i"
    and e: "\<And>i. i < ?i \<Longrightarrow> entry_inv (set (up_entries p)) (set tc) (entry_at p i) (at_entry R i) i"
    using inv by (simp_all add: pool_inv_def)
  have at: "entry_at ?p j = (if j < ?i then entry_at p j else new_entry key ts now)" if "j < Suc ?i" for j
    using that by (simp add: entry_at_def add_entry_def nth_append)
  have "map_inv ?p"
    using m new room by (auto simp: map_inv_def add_entry_def entry_at_def nth_append new_entry_def)
  moreover have none: "at_entry R ?i = {#}" using refs by (auto simp: at_entry_def filter_mset_eq_mempty_iff)
  have "entry_inv (set (up_entries ?p)) (set tc) (entry_at ?p j) (at_entry (add_mset (key, ?i, Building) R) j) j"
    if j: "j < Suc ?i" for j
  proof (cases "j = ?i")
    case True
    have "?i \<notin> set tc" using tc by blast
    then show ?thesis
      using True none by (simp add: entry_inv_def at) (auto simp: new_entry_def add_entry_def maxConcurrentUserCalls_def)
  next
    case False
    then have "entry_inv (set (up_entries ?p)) (set tc) (entry_at p j) (at_entry R j) j"
      using e [of j] j by (subst entry_inv_cong [of j _ "set (up_entries p)"]) (auto simp: add_entry_def)
    with False j at [OF j] show ?thesis by simp
  qed
  ultimately show ?thesis
    using inv refs tc by (auto simp: pool_inv_def add_entry_def less_Suc_eq)
qed

lemma entryFor_Joined:
  assumes "entryFor p key ts now order = (p', Joined i)"
  shows "(key, i) \<in> set (up_entries p)"
    and "p' = set_entry p i ((entry_at p i)\<lparr>en_inflight := en_inflight (entry_at p i) + 1, en_lastUsed := now\<rparr>)"
  using assms by (auto simp: entryFor_def Let_def split: option.splits prod.splits if_splits dest: map_of_SomeD)

lemma entryFor_Inserted:
  assumes "entryFor p key ts now order = (p', Inserted i evicted)"
  obtains (room) "key \<notin> fst ` set (up_entries p)" "length (up_entries p) < up_maxUsers p" "evicted = None"
      "p' = add_entry p key ts now" "i = length (up_heap p)"
  | (evict) k j where "key \<notin> fst ` set (up_entries p)" "oldest_evictable p order None = Some (k, j)" "evicted = Some j"
      "p' = add_entry (delete_key p k) key ts now" "i = length (up_heap p)"
proof (cases "map_of (up_entries p) key")
  case (Some i)
  with assms show ?thesis by (simp add: entryFor_def)
next
  case None
  then have new: "key \<notin> fst ` set (up_entries p)" by (simp add: map_of_eq_None_iff)
  show ?thesis
  proof (cases "up_maxUsers p \<le> length (up_entries p)")
    case False
    with None assms new show ?thesis
      by (intro room) (auto simp: entryFor_def add_entry_def new_entry_def Let_def)
  next
    case True
    show ?thesis
    proof (cases "oldest_evictable p order None")
      case None': None
      with None True assms show ?thesis by (simp add: entryFor_def takeOneEvictableLocked_def)
    next
      case (Some x)
      with None True assms new show ?thesis
        by (cases x) (auto simp: entryFor_def takeOneEvictableLocked_def add_entry_def new_entry_def Let_def delete_key_def
          intro!: evict)
    qed
  qed
qed

lemma request_entry:
  assumes "pool_inv \<lparr>sy_pool = p, sy_reqs = add_mset (key, i, ph) R, sy_toClose = tc\<rparr>"
  shows "i < length (up_heap p)"
    and "entry_inv (set (up_entries p)) (set tc) (entry_at p i) (add_mset (key, i, ph) (at_entry R i)) i"
    and "r \<in># R \<Longrightarrow> fst (snd r) < length (up_heap p)"
  using assms by (auto simp: pool_inv_def)

lemma unlink_inv:
  assumes inv: "pool_inv \<lparr>sy_pool = p, sy_reqs = add_mset (key, i, Failed) R, sy_toClose = tc\<rparr>"
  shows "pool_inv \<lparr>sy_pool = delete_key p key, sy_reqs = add_mset (key, i, Leaving) R, sy_toClose = tc\<rparr>"
proof -
  let ?p = "delete_key p key"
  have m: "map_inv p" and tc: "distinct tc" "\<forall>i \<in> set tc. i < length (up_heap p)"
    and refs: "\<forall>r \<in># add_mset (key, i, Failed) R. fst (snd r) < length (up_heap p)"
    and e: "\<And>j. j < length (up_heap p) \<Longrightarrow>
      entry_inv (set (up_entries p)) (set tc) (entry_at p j) (at_entry (add_mset (key, i, Failed) R) j) j"
    using inv by (simp_all add: pool_inv_def)
  have i: "i < length (up_heap p)" using refs by simp
  note ei = e [OF i]
  have user: "en_user (entry_at p i) = key" using ei by (auto simp: entry_inv_def)
  have failed: "en_buildErr (entry_at p i) \<noteq> None" "\<exists>k. (k, i) \<in> set (up_entries p)" "in_phase Failed (at_entry R i) = 0"
    using ei by (auto simp: entry_inv_def split: if_splits)
  have rest: "i \<notin> set tc" "en_closed (entry_at p i) = 0" "en_done (entry_at p i)"
    using ei failed(1) by (auto simp: entry_inv_def)
  have key: "(key, i) \<in> set (up_entries p)" using failed(2) m user by (auto simp: map_inv_def)
  have E: "set (up_entries ?p) = {x \<in> set (up_entries p). fst x \<noteq> key}" by simp
  have "map_inv ?p" using m by (rule map_inv_delete)
  moreover have "entry_inv (set (up_entries ?p)) (set tc) (entry_at ?p j) (at_entry (add_mset (key, i, Leaving) R) j) j"
    if j: "j < length (up_heap p)" for j
  proof (cases "j = i")
    case True
    have gone: "(k, i) \<notin> set (up_entries ?p)" for k using map_inv_unique [OF m key, of k] by auto
    with True ei rest failed show ?thesis by (auto simp: entry_inv_def)
  next
    case False
    have "(k, j) \<in> set (up_entries ?p) \<longleftrightarrow> (k, j) \<in> set (up_entries p)" for k
      using map_inv_key [OF m key, of j] False by auto
    with e [OF j] False j show ?thesis
      by (subst entry_inv_cong [of j _ "set (up_entries p)"]) simp_all
  qed
  ultimately show ?thesis using tc refs by (auto simp: pool_inv_def)
qed

text \<open>A request changes its own phase, and the fields of its entry with it.\<close>

lemma phase_inv:
  assumes inv: "pool_inv \<lparr>sy_pool = p, sy_reqs = add_mset (key, i, ph) R, sy_toClose = tc\<rparr>"
    and user: "en_user e' = en_user (entry_at p i)"
    and new: "entry_inv (set (up_entries p)) (set tc) (entry_at p i) (add_mset (key, i, ph) (at_entry R i)) i \<Longrightarrow>
              entry_inv (set (up_entries p)) (set tc) e' (add_mset (key, i, ph') (at_entry R i)) i"
  shows "pool_inv \<lparr>sy_pool = set_entry p i e', sy_reqs = add_mset (key, i, ph') R, sy_toClose = tc\<rparr>"
  using request_entry [OF inv] new user by (intro update_inv [OF inv]) auto

lemma set_entry_same: "i < length (up_heap p) \<Longrightarrow> set_entry p i (entry_at p i) = p"
  by (simp add: set_entry_def entry_at_def)

lemma entryFor_insert_inv:
  assumes "entryFor p key ts now order = (p', Inserted i evicted)" "mset order = mset (up_entries p)"
    "pool_inv \<lparr>sy_pool = p, sy_reqs = R, sy_toClose = tc\<rparr>"
  shows "pool_inv \<lparr>sy_pool = p', sy_reqs = add_mset (key, i, Building) R,
    sy_toClose = (case evicted of None \<Rightarrow> tc | Some j \<Rightarrow> j # tc)\<rparr>"
using assms(1)
proof (cases rule: entryFor_Inserted)
  case room
  with insert_inv [OF assms(3), of key ts now] show ?thesis by simp
next
  case (evict k j)
  have m: "map_inv p" using assms(3) by (simp add: pool_inv_def)
  have kj: "(k, j) \<in> set (up_entries p)" "evictable (entry_at p j)"
    using oldest_evictable_Some [OF evict(2)] mset_eq_setD [OF assms(2)] by auto
  have inv: "pool_inv \<lparr>sy_pool = delete_key p k, sy_reqs = R, sy_toClose = j # tc\<rparr>"
    using evict_inv [OF assms(3), of "\<lambda>x. x = (k, j)"] kj takeOne_filter [OF m kj(1)] by simp
  have "length (up_entries (delete_key p k)) < length (up_entries p)"
    unfolding delete_key_def using kj(1) by (simp add: length_filter_less)
  moreover have "length (up_entries p) \<le> up_maxUsers p" using m by (simp add: map_inv_def)
  moreover have "key \<notin> fst ` set (up_entries (delete_key p k))" using evict(1) by auto
  ultimately show ?thesis
    using insert_inv [OF inv, of key ts now] evict by simp
qed

lemma close_inv:
  assumes "pool_inv \<lparr>sy_pool = p, sy_reqs = R, sy_toClose = tc @ i # tc'\<rparr>"
  shows "pool_inv \<lparr>sy_pool = closeEntry p i, sy_reqs = R, sy_toClose = tc @ tc'\<rparr>"
proof -
  have i: "i < length (up_heap p)" "i \<notin> set tc" "i \<notin> set tc'" using assms by (auto simp: pool_inv_def)
  have e: "\<And>j. j < length (up_heap p) \<Longrightarrow> entry_inv (set (up_entries p)) (set (tc @ i # tc')) (entry_at p j) (at_entry R j) j"
    using assms by (simp add: pool_inv_def)
  have "entry_inv (set (up_entries p)) (set (tc @ tc')) (entry_at (closeEntry p i) j) (at_entry R j) j"
    if j: "j < length (up_heap p)" for j
  proof (cases "j = i")
    case True
    with e [OF i(1)] i show ?thesis by (auto simp: entry_inv_def closeEntry_def)
  next
    case False
    with e [OF j] j show ?thesis
      by (subst entry_inv_cong [of j _ "set (up_entries p)" _ "set (tc @ i # tc')"]) (auto simp: closeEntry_def)
  qed
  moreover have "map_inv (closeEntry p i)"
    using assms i(1) by (auto simp: pool_inv_def map_inv_def closeEntry_def)
  ultimately show ?thesis using assms by (auto simp: pool_inv_def closeEntry_def)
qed

lemma pool_step_inv: "pool_step s s' \<Longrightarrow> pool_inv s \<Longrightarrow> pool_inv s'"
proof (induction rule: pool_step.induct)
  case (join p key ts now order p' i R tc)
  note e = entryFor_Joined [OF join.hyps]
  have m: "map_inv p" using join.prems by (simp add: pool_inv_def)
  then have i: "i < length (up_heap p)" "en_user (entry_at p i) = key" using e(1) by (auto simp: map_inv_def)
  have "\<forall>r \<in># R. fst (snd r) < length (up_heap p)" using join.prems by (simp add: pool_inv_def)
  with i e(1) show ?case
    unfolding e(2) by (intro update_inv [OF join.prems]) (auto simp: entry_inv_def)
next
  case (insert p key ts now order p' i evicted R tc)
  then show ?case by (rule entryFor_insert_inv)
next
  case (build_ok p key i R tc)
  then show ?case
    unfolding runBuild_def build_finish_def option.case
    by (intro phase_inv) (auto simp: entry_inv_def split: if_splits)
next
  case (build_err p key i R tc err)
  then show ?case
    unfolding runBuild_def build_fail_def option.case
    by (intro phase_inv) (auto simp: entry_inv_def split: if_splits)
next
  case (unlink p key i R tc)
  then show ?case by (rule unlink_inv)
next
  case (wait_ok p i key ts R tc)
  then show ?case
    unfolding set_ts_def by (intro phase_inv [OF wait_ok.prems]) (auto simp: entry_inv_def)
next
  case (wait_err p i err key ts R tc)
  then show ?case
    using phase_inv [OF wait_err.prems, of "entry_at p i" Leaving] set_entry_same request_entry(1) [OF wait_err.prems]
    by (auto simp: entry_inv_def)
next
  case (cancel p key i ts R tc)
  then show ?case
    using phase_inv [OF cancel.prems, of "entry_at p i" Leaving] set_entry_same request_entry(1) [OF cancel.prems]
    by (auto simp: entry_inv_def)
next
  case (serve p i p' key R tc)
  then have "en_calls (entry_at p i) < maxConcurrentUserCalls"
    "p' = set_entry p i ((entry_at p i)\<lparr>en_calls := en_calls (entry_at p i) + 1\<rparr>)"
    by (auto simp: acquire_call_def split: if_splits)
  then show ?case using phase_inv [OF serve.prems, of _ Serving] by (auto simp: entry_inv_def)
next
  case (saturated p i key R tc)
  then show ?case
    using phase_inv [OF saturated.prems, of "entry_at p i" Leaving] set_entry_same request_entry(1) [OF saturated.prems]
    by (auto simp: entry_inv_def)
next
  case (served p key i R tc)
  then show ?case
    unfolding release_call_def by (intro phase_inv) (auto simp: entry_inv_def)
next
  case (leave p key i R tc)
  show ?case
    unfolding release_def using request_entry [OF leave.prems]
    by (intro update_inv [OF leave.prems]) (auto simp: entry_inv_def)
next
  case (janitor p now p' victims R tc)
  then have "p' = p\<lparr>up_entries := filter (\<lambda>x. \<not> idle_victim p now x) (up_entries p)\<rparr>"
    "victims = map snd (filter (idle_victim p now) (up_entries p))"
    by (auto simp: evictIdle_def)
  with evict_inv [OF janitor.prems, of "idle_victim p now"] show ?case by (simp add: idle_victim_def)
next
  case (close p R tc i tc')
  from close.prems show ?case by (rule close_inv)
qed

lemma pool_reachable_inv: "pool_step\<^sup>*\<^sup>* pool_start s \<Longrightarrow> pool_inv s"
proof (induction rule: rtranclp_induct)
  case base
  then show ?case by (simp add: pool_inv_def pool_start_def newUserPool_def map_inv_def)
next
  case (step s s')
  then show ?case using pool_step_inv by blast
qed

lemma pool_step_max: "pool_step s s' \<Longrightarrow> up_maxUsers (sy_pool s') = up_maxUsers (sy_pool s)"
proof (induction rule: pool_step.induct)
  case (join p key ts now order p' i R tc)
  from entryFor_Joined(2) [OF join] show ?case by simp
next
  case (insert p key ts now order p' i evicted R tc)
  from insert(1) show ?case by (cases rule: entryFor_Inserted) (simp_all add: add_entry_def)
qed (auto simp: runBuild_def build_finish_def build_fail_def set_ts_def acquire_call_def release_call_def release_def
  evictIdle_def closeEntry_def split: if_splits)

lemma pool_reachable_max: "pool_step\<^sup>*\<^sup>* pool_start s \<Longrightarrow> up_maxUsers (sy_pool s) = userPoolMaxUsers"
  by (induction rule: rtranclp_induct) (simp_all add: pool_start_def newUserPool_def pool_step_max)

subsection \<open>Properties\<close>


lemma one_build_per_user:
  assumes inv: "pool_inv s"
  shows "size (filter_mset (\<lambda>r. fst r = key \<and> snd (snd r) = Building) (sy_reqs s)) \<le> 1"
proof (cases "\<exists>i. (key, i, Building) \<in># sy_reqs s")
  case False
  then have "filter_mset (\<lambda>r. fst r = key \<and> snd (snd r) = Building) (sy_reqs s) = {#}"
    by (force simp: filter_mset_eq_mempty_iff)
  then show ?thesis by (simp only: size_empty)
next
  case True
  let ?p = "sy_pool s"
  have m: "map_inv ?p" and refs: "\<forall>r \<in># sy_reqs s. fst (snd r) < length (up_heap ?p)"
    and e: "\<And>i. i < length (up_heap ?p) \<Longrightarrow>
      entry_inv (set (up_entries ?p)) (set (sy_toClose s)) (entry_at ?p i) (at_entry (sy_reqs s) i) i"
    using inv by (simp_all add: pool_inv_def)
  have build: "(key, j) \<in> set (up_entries ?p) \<and> in_phase Building (at_entry (sy_reqs s) j) \<le> 1"
    if r: "(key, j, Building) \<in># sy_reqs s" for j
  proof -
    have j: "j < length (up_heap ?p)" and mem: "(key, j, Building) \<in># at_entry (sy_reqs s) j"
      using r refs by (auto simp: at_entry_def)
    then obtain M where "at_entry (sy_reqs s) j = add_mset (key, j, Building) M" by (metis mset_add)
    with e [OF j] show ?thesis by (auto simp: entry_inv_def split: if_splits)
  qed
  obtain i where i: "(key, i, Building) \<in># sy_reqs s" using True ..
  have "filter_mset (\<lambda>r. fst r = key \<and> snd (snd r) = Building) (sy_reqs s) \<subseteq>#
      filter_mset (\<lambda>r. snd (snd r) = Building) (at_entry (sy_reqs s) i)"
  proof -
    have "fst (snd r) = i" if "r \<in># sy_reqs s" "fst r = key" "snd (snd r) = Building" for r
      using that build [of "fst (snd r)"] build [OF i] map_inv_key [OF m] by (metis prod.collapse)
    then have "filter_mset (\<lambda>r. fst r = key \<and> snd (snd r) = Building) (sy_reqs s) =
        filter_mset (\<lambda>r. fst r = key) (filter_mset (\<lambda>r. snd (snd r) = Building) (at_entry (sy_reqs s) i))"
      unfolding at_entry_def filter_filter_mset by (intro filter_mset_cong) auto
    then show ?thesis by simp
  qed
  from size_mset_mono [OF this] build [OF i] show ?thesis by (simp add: in_phase_def)
qed


lemma oldest_evictable_best:
  assumes "oldest_evictable p order best = r" "\<forall>b. best = Some b \<longrightarrow> evictable (entry_at p (snd b))"
  shows "(r = None \<longleftrightarrow> best = None \<and> (\<forall>x \<in> set order. \<not> evictable (entry_at p (snd x)))) \<and>
    (\<forall>y. r = Some y \<longrightarrow> evictable (entry_at p (snd y)) \<and>
       (\<forall>x \<in> set order. evictable (entry_at p (snd x)) \<longrightarrow> en_lastUsed (entry_at p (snd y)) \<le> en_lastUsed (entry_at p (snd x))) \<and>
       (\<forall>b. best = Some b \<longrightarrow> en_lastUsed (entry_at p (snd y)) \<le> en_lastUsed (entry_at p (snd b))))"
  using assms
proof (induction order arbitrary: best r)
  case Nil
  then show ?case by auto
next
  case (Cons x xs)
  let ?u = "\<lambda>y. en_lastUsed (entry_at p (snd y))"
  show ?case
  proof (cases "evictable (entry_at p (snd x))")
    case False
    with Cons.prems have "oldest_evictable p xs best = r" by simp
    from Cons.IH [OF this Cons.prems(2)] False show ?thesis by simp
  next
    case True
    let ?b = "case best of None \<Rightarrow> x | Some b \<Rightarrow> if ?u x < ?u b then x else b"
    have b: "\<forall>c. Some ?b = Some c \<longrightarrow> evictable (entry_at p (snd c))"
      using True Cons.prems(2) by (simp split: option.split)
    have "oldest_evictable p xs (Some ?b) = r"
      using Cons.prems(1) True by (cases best) (simp_all split: if_splits)
    note ih = Cons.IH [OF this b]
    have "?u ?b \<le> ?u x" "\<And>c. best = Some c \<Longrightarrow> ?u ?b \<le> ?u c" by (auto split: option.split)
    note le = this
    obtain y where y: "r = Some y" using ih by blast
    with ih have ys: "evictable (entry_at p (snd y))" "?u y \<le> ?u ?b"
      "\<forall>z \<in> set xs. evictable (entry_at p (snd z)) \<longrightarrow> ?u y \<le> ?u z" by blast+
    have "?u y \<le> ?u x" "\<And>c. best = Some c \<Longrightarrow> ?u y \<le> ?u c"
      using order_trans [OF ys(2) le(1)] order_trans [OF ys(2) le(2)] by blast+
    with y ys(1,3) True show ?thesis by (metis option.distinct(1) option.inject set_ConsD list.set_intros(1))
  qed
qed

text \<open>
  Making room takes the right entry: in whatever order the map is scanned, the entry taken is
  an evictable one that was used no later than any other evictable one, and it leaves the map; none
  is taken exactly when every entry is busy, still building or failed, and then the map is unchanged.
\<close>

theorem eviction_takes_oldest:
  assumes "takeOneEvictableLocked p order = (p', r)" "mset order = mset (up_entries p)"
  shows "(r = None \<longrightarrow> p' = p \<and> (\<forall>x \<in> set (up_entries p). \<not> evictable (entry_at p (snd x)))) \<and>
         (\<forall>k i. r = Some (k, i) \<longrightarrow> (k, i) \<in> set (up_entries p) \<and> evictable (entry_at p i) \<and>
            (\<forall>x \<in> set (up_entries p). evictable (entry_at p (snd x)) \<longrightarrow>
               en_lastUsed (entry_at p i) \<le> en_lastUsed (entry_at p (snd x))) \<and>
            k \<notin> fst ` set (up_entries p'))"
proof -
  have order: "set order = set (up_entries p)" by (rule mset_eq_setD [OF assms(2)])
  show ?thesis
  proof (cases "oldest_evictable p order None")
    case None
    with assms(1) order oldest_evictable_best [OF None] show ?thesis by (auto simp: takeOneEvictableLocked_def)
  next
    case (Some x)
    with assms(1) order oldest_evictable_best [OF Some] oldest_evictable_Some [OF Some] show ?thesis
      by (cases x) (auto simp: takeOneEvictableLocked_def)
  qed
qed

subsection \<open>A run\<close>

definition ex_pool_entry :: "bool \<Rightarrow> poolEntry" where
  "ex_pool_entry done = \<lparr>en_user = ''u'', en_done = done, en_buildErr = None, en_lastUsed = 5, en_inflight = 1,
     en_calls = 0, en_ts = ''t'', en_closed = 0\<rparr>"

definition ex_pool :: "bool \<Rightarrow> userPool" where
  "ex_pool done = \<lparr>up_heap = [ex_pool_entry done], up_entries = [(''u'', 0)], up_maxUsers = 100\<rparr>"

lemma ex_pool_run:
  "pool_step\<^sup>*\<^sup>* pool_start \<lparr>sy_pool = set_entry (ex_pool True) 0 ((ex_pool_entry True)\<lparr>en_calls := 1\<rparr>),
     sy_reqs = {#(''u'', 0, Serving)#}, sy_toClose = []\<rparr>"
proof -
  have "entryFor newUserPool ''u'' ''t'' 5 [] = (ex_pool False, Inserted 0 None)"
    by (simp add: entryFor_def newUserPool_def userPoolMaxUsers_def ex_pool_def ex_pool_entry_def)
  from pool_step.insert [OF this, of "{#}" "[]"]
  have "pool_step pool_start \<lparr>sy_pool = ex_pool False, sy_reqs = {#(''u'', 0, Building)#}, sy_toClose = []\<rparr>"
    by (simp add: pool_start_def newUserPool_def)
  moreover have "runBuild (ex_pool False) 0 None = ex_pool True"
    by (simp add: runBuild_def build_finish_def set_entry_def entry_at_def ex_pool_def ex_pool_entry_def)
  then have "pool_step \<lparr>sy_pool = ex_pool False, sy_reqs = {#(''u'', 0, Building)#}, sy_toClose = []\<rparr>
      \<lparr>sy_pool = ex_pool True, sy_reqs = {#(''u'', 0, Ready)#}, sy_toClose = []\<rparr>"
    using pool_step.build_ok [of "ex_pool False" "''u''" 0 "{#}" "[]"] by simp
  moreover have "acquire_call (ex_pool True) 0 = Some (set_entry (ex_pool True) 0 ((ex_pool_entry True)\<lparr>en_calls := 1\<rparr>))"
    by (simp add: acquire_call_def entry_at_def ex_pool_def ex_pool_entry_def maxConcurrentUserCalls_def)
  note pool_step.serve [OF this, of "''u''" "{#}" "[]"]
  ultimately show ?thesis by (meson converse_rtranclp_into_rtranclp rtranclp.rtrancl_refl)
qed



theorem eviction_takes_oldest_witness:
  "takeOneEvictableLocked (ex_pool True) [(''u'', 0)] = (ex_pool True, None) \<and> \<not> evictable (ex_pool_entry True)"
proof -
  have "takeOneEvictableLocked (ex_pool True) [(''u'', 0)] = (ex_pool True, None)"
    by (simp add: takeOneEvictableLocked_def evictable_def entry_at_def ex_pool_def ex_pool_entry_def)
  from eviction_takes_oldest [OF this] this show ?thesis by (simp add: ex_pool_def entry_at_def)
qed

end
