(* ===== verification/Log_Types.thy ===== *)
theory Log_Types
  imports Go_Format
begin

text \<open>
  Log entries as the tools return them (\<open>internal/gcpdata/types.go\<close>), their JSON encoding, and the
  helpers shared by the queriers (\<open>internal/gcpdata/helpers.go\<close>).

  Go maps are association lists with distinct keys. A nil pointer or nil map is \<open>None\<close> where the
  program tells it from an empty one. Numbers of JSON payloads are a type parameter: the encoder
  rejects some of them (NaN and the infinities), so printing one is a parameter with an optional
  result.
\<close>

subsection \<open>Shared helpers\<close>

definition safeInt32 :: "int \<Rightarrow> int" where
  "safeInt32 n = (if n < 0 then 0 else if MaxInt32 < n then MaxInt32 else n)"

definition EscapeFilterValue :: "string \<Rightarrow> string" where
  "EscapeFilterValue s =
     (let s = replace_char (CHR 0x5C) [CHR 0x5C, CHR 0x5C] s
      in replace_char (CHR 0x22) [CHR 0x5C, CHR 0x22] s)"

definition Severities :: "string list" where
  "Severities = [''DEFAULT'', ''DEBUG'', ''INFO'', ''NOTICE'', ''WARNING'', ''ERROR'', ''CRITICAL'', ''ALERT'', ''EMERGENCY'']"

definition AppendFilter :: "string \<Rightarrow> string \<Rightarrow> string" where
  "AppendFilter base part =
     (if base = [] then part else if part = [] then base else base @ [CHR 0x0A] @ part)"

definition formatTimestamp :: "gtime option \<Rightarrow> string" where
  "formatTimestamp ts = (case ts of None \<Rightarrow> [] | Some t \<Rightarrow> format_time t)"

definition formatDuration :: "duration \<Rightarrow> string" where
  "formatDuration d =
     (let d = (if d < 0 then 0 else d) in
      if 1 \<le> duration_seconds d then fixed3 (duration_seconds d) @ ''s''
      else fixed3 (f64 (of_int (duration_microseconds d) / 1000)) @ ''ms'')"

definition formatLatency :: "duration option \<Rightarrow> string" where
  "formatLatency d = (case d of None \<Rightarrow> [] | Some d \<Rightarrow> formatDuration d)"

definition extractTraceID :: "string \<Rightarrow> string" where
  "extractTraceID trace =
     (let parts = split_char (CHR ''/'') trace in if 4 \<le> length parts then parts ! 3 else trace)"

type_synonym smap = "(string \<times> string) list"

text \<open>Reading a missing key of a \<open>map[string]string\<close> gives the empty string.\<close>

definition sget :: "smap \<Rightarrow> string \<Rightarrow> string" where
  "sget m k = (case map_of m k of None \<Rightarrow> [] | Some v \<Rightarrow> v)"

definition serviceLabelKeys :: "string list" where
  "serviceLabelKeys = [''service_name'', ''container_name'', ''namespace_name'', ''function_name'']"

definition serviceName :: "string \<Rightarrow> smap \<Rightarrow> string" where
  "serviceName resourceType labels =
     (case find (\<lambda>k. sget labels k \<noteq> []) serviceLabelKeys of
        Some k \<Rightarrow> sget labels k | None \<Rightarrow> resourceType)"

fun cut_back :: "string \<Rightarrow> nat \<Rightarrow> nat" where
  "cut_back s 0 = 0"
| "cut_back s (Suc n) = (if rune_start (s ! Suc n) then Suc n else cut_back s n)"

definition truncateUTF8 :: "string \<Rightarrow> nat \<Rightarrow> string" where
  "truncateUTF8 s maxBytes = (if length s \<le> maxBytes then s else take (cut_back s maxBytes) s)"

lemma cut_back_le: "cut_back s n \<le> n"
  by (induction s n rule: cut_back.induct) auto

lemma length_truncateUTF8: "length (truncateUTF8 s n) \<le> n"
  using cut_back_le [of s n] by (auto simp: truncateUTF8_def)

subsection \<open>Values\<close>

text \<open>A \<open>structpb.Value\<close> (a pointer that may be nil, with a kind that may be nil) and a Go \<open>any\<close>.\<close>

datatype 'n pb_value =
    VNil
  | VNull
  | VNumber 'n
  | VString string
  | VBool bool
  | VStruct "(string \<times> 'n pb_value) list option"
  | VList "'n pb_value list option"

datatype 'n any =
    ANil
  | ANumber 'n
  | AString string
  | ABool bool
  | AMap "(string \<times> 'n any) list option"
  | AList "'n any list"

fun valueToInterface :: "'n pb_value \<Rightarrow> 'n any" where
  "valueToInterface VNil = ANil"
| "valueToInterface VNull = ANil"
| "valueToInterface (VNumber x) = ANumber x"
| "valueToInterface (VString s) = AString s"
| "valueToInterface (VBool b) = ABool b"
| "valueToInterface (VStruct s) = AMap (map_option (map (\<lambda>x. (fst x, valueToInterface (snd x)))) s)"
| "valueToInterface (VList vs) = (case vs of None \<Rightarrow> ANil | Some ws \<Rightarrow> AList (map valueToInterface ws))"

definition structToMap :: "(string \<times> 'n pb_value) list option \<Rightarrow> (string \<times> 'n any) list option" where
  "structToMap s = map_option (map (\<lambda>x. (fst x, valueToInterface (snd x)))) s"

subsection \<open>JSON\<close>

text \<open>
  \<open>json.Marshal\<close> of strings: control characters, quotes, backslashes and the characters that are
  special in HTML are escaped, invalid UTF-8 becomes the escaped replacement character, and the
  two Unicode line separators are escaped.
\<close>

definition hex_digit :: "nat \<Rightarrow> char" where
  "hex_digit n = ''0123456789abcdef'' ! n"

definition json_byte :: "char \<Rightarrow> string" where
  "json_byte c =
     (let b = byte_of c in
      if b = 34 \<or> b = 92 then [CHR 0x5C, c]
      else if b = 8 then [CHR 0x5C, CHR ''b'']
      else if b = 12 then [CHR 0x5C, CHR ''f'']
      else if b = 10 then [CHR 0x5C, CHR ''n'']
      else if b = 13 then [CHR 0x5C, CHR ''r'']
      else if b = 9 then [CHR 0x5C, CHR ''t'']
      else if b < 32 \<or> b = 60 \<or> b = 62 \<or> b = 38 then CHR 0x5C # ''u00'' @ [hex_digit (b div 16), hex_digit (b mod 16)]
      else [c])"

definition json_rune :: "string \<Rightarrow> string" where
  "json_rune u =
     (if map byte_of u = [226, 128, 168] then CHR 0x5C # ''u2028''
      else if map byte_of u = [226, 128, 169] then CHR 0x5C # ''u2029'' else u)"

function json_chars :: "string \<Rightarrow> string" where
  "json_chars [] = []"
| "json_chars (c # r) =
     (if byte_of c < 128 then json_byte c @ json_chars r
      else if rune_width (c # r) = 0 then (CHR 0x5C # ''ufffd'') @ json_chars r
      else json_rune (take (rune_width (c # r)) (c # r)) @ json_chars (drop (rune_width (c # r)) (c # r)))"
  by pat_completeness auto

termination
  by (relation "measure length") auto

declare json_chars.simps(2) [simp del]

definition json_string :: "string \<Rightarrow> string" where
  "json_string s = [CHR 0x22] @ json_chars s @ [CHR 0x22]"

definition json_object :: "(string \<times> string) list \<Rightarrow> string" where
  "json_object fs = ''{'' @ join '','' (map (\<lambda>f. json_string (fst f) @ '':'' @ snd f) fs) @ ''}''"

definition json_array :: "string list \<Rightarrow> string" where
  "json_array vs = ''['' @ join '','' vs @ '']''"

definition json_smap :: "smap \<Rightarrow> string" where
  "json_smap m = json_object (map (\<lambda>x. (fst x, json_string (snd x))) (sort_key fst m))"

text \<open>Values of a payload; an encoding error anywhere makes \<open>json.Marshal\<close> fail.\<close>

fun json_any :: "('n \<Rightarrow> string option) \<Rightarrow> 'n any \<Rightarrow> string option" where
  "json_any num ANil = Some ''null''"
| "json_any num (ANumber x) = num x"
| "json_any num (AString s) = Some (json_string s)"
| "json_any num (ABool b) = Some (if b then ''true'' else ''false'')"
| "json_any num (AMap m) = (case m of None \<Rightarrow> Some ''null''
     | Some kvs \<Rightarrow> map_option (\<lambda>fs. json_object (sort_key fst fs))
         (those (map (\<lambda>x. map_option (Pair (fst x)) (json_any num (snd x))) kvs)))"
| "json_any num (AList vs) = map_option json_array (those (map (json_any num) vs))"

text \<open>A struct field under \<open>omitempty\<close>.\<close>

definition omitempty :: "bool \<Rightarrow> string \<Rightarrow> string \<Rightarrow> (string \<times> string) list" where
  "omitempty zero name v = (if zero then [] else [(name, v)])"

definition omit_string :: "string \<Rightarrow> string \<Rightarrow> (string \<times> string) list" where
  "omit_string name s = omitempty (s = []) name (json_string s)"

definition omit_int :: "string \<Rightarrow> int \<Rightarrow> (string \<times> string) list" where
  "omit_int name n = omitempty (n = 0) name (itoa n)"

subsection \<open>Normalized log entries\<close>

record resourceInfo =
  ri_Type :: string
  ri_Labels :: smap

record httpRequestInfo =
  hr_Method :: string
  hr_URL :: string
  hr_Status :: int
  hr_ResponseSize :: int
  hr_UserAgent :: string
  hr_RemoteIP :: string
  hr_Latency :: string

record operationInfo =
  op_ID :: string
  op_Producer :: string

record 'n logEntry =
  le_Timestamp :: string
  le_Severity :: string
  le_LogName :: string
  le_InsertID :: string
  le_TextPayload :: string
  le_JSONPayload :: "(string \<times> 'n any) list option"
  le_PayloadConversionError :: string
  le_Resource :: "resourceInfo option"
  le_HTTPRequest :: "httpRequestInfo option"
  le_Trace :: string
  le_SpanID :: string
  le_Labels :: smap
  le_Operation :: "operationInfo option"
  le_EntryTruncated :: bool
  le_OmittedBytes :: int
  le_TruncatedFields :: "string list"

definition zero_logEntry :: "'n logEntry" where
  "zero_logEntry = \<lparr>le_Timestamp = [], le_Severity = [], le_LogName = [], le_InsertID = [], le_TextPayload = [],
     le_JSONPayload = None, le_PayloadConversionError = [], le_Resource = None, le_HTTPRequest = None, le_Trace = [],
     le_SpanID = [], le_Labels = [], le_Operation = None, le_EntryTruncated = False, le_OmittedBytes = 0,
     le_TruncatedFields = []\<rparr>"

definition json_resource :: "resourceInfo \<Rightarrow> string" where
  "json_resource r = json_object ((''type'', json_string (ri_Type r)) #
     omitempty (ri_Labels r = []) ''labels'' (json_smap (ri_Labels r)))"

definition json_http :: "httpRequestInfo \<Rightarrow> string" where
  "json_http h = json_object (omit_string ''method'' (hr_Method h) @ omit_string ''url'' (hr_URL h) @
     omit_int ''status'' (hr_Status h) @ omit_int ''response_size'' (hr_ResponseSize h) @
     omit_string ''user_agent'' (hr_UserAgent h) @ omit_string ''remote_ip'' (hr_RemoteIP h) @
     omit_string ''latency'' (hr_Latency h))"

definition json_operation :: "operationInfo \<Rightarrow> string" where
  "json_operation p = json_object (omit_string ''id'' (op_ID p) @ omit_string ''producer'' (op_Producer p))"

definition omit_some :: "string \<Rightarrow> ('a \<Rightarrow> string) \<Rightarrow> 'a option \<Rightarrow> (string \<times> string) list" where
  "omit_some name f x = (case x of None \<Rightarrow> [] | Some y \<Rightarrow> [(name, f y)])"

definition entry_fields :: "'n logEntry \<Rightarrow> (string \<times> string) list \<Rightarrow> (string \<times> string) list" where
  "entry_fields le payload =
     [(''timestamp'', json_string (le_Timestamp le)), (''severity'', json_string (le_Severity le)),
      (''log_name'', json_string (le_LogName le)), (''insert_id'', json_string (le_InsertID le))] @
     omit_string ''text_payload'' (le_TextPayload le) @ payload @
     omit_string ''payload_conversion_error'' (le_PayloadConversionError le) @
     omit_some ''resource'' json_resource (le_Resource le) @
     omit_some ''http_request'' json_http (le_HTTPRequest le) @
     omit_string ''trace'' (le_Trace le) @ omit_string ''span_id'' (le_SpanID le) @
     omitempty (le_Labels le = []) ''labels'' (json_smap (le_Labels le)) @
     omit_some ''operation'' json_operation (le_Operation le) @
     omitempty (\<not> le_EntryTruncated le) ''entry_truncated'' ''true'' @
     omit_int ''omitted_bytes'' (le_OmittedBytes le) @
     omitempty (le_TruncatedFields le = []) ''truncated_fields'' (json_array (map json_string (le_TruncatedFields le)))"

definition json_payload :: "('n \<Rightarrow> string option) \<Rightarrow> (string \<times> 'n any) list \<Rightarrow> string option" where
  "json_payload num m = json_any num (AMap (Some m))"

definition json_entry :: "('n \<Rightarrow> string option) \<Rightarrow> 'n logEntry \<Rightarrow> string option" where
  "json_entry num le =
     map_option (\<lambda>p. json_object (entry_fields le p))
       (case le_JSONPayload le of
          None \<Rightarrow> Some []
        | Some m \<Rightarrow> if m = [] then Some [] else map_option (\<lambda>v. [(''json_payload'', v)]) (json_payload num m))"

end
