(* ===== verification/Trace_Tree.thy ===== *)
theory Trace_Tree
  imports Log_Types
begin

text \<open>
  Traces (\<open>internal/gcpdata/traces.go\<close>): the tree of spans of one trace, trace summaries, the
  listing, and the filters of the Cloud Trace API.

  The Cloud Trace client is a parameter. \<open>sort.Slice\<close> leaves the order of spans that start at the
  same time open: the argument \<open>perm\<close> is the order in which a stable sort would have to find them,
  any rearrangement. The recursion that builds a subtree has fuel; the number of spans is enough.
\<close>

subsection \<open>Spans\<close>

text \<open>\<open>SpanId\<close> and \<open>ParentSpanId\<close> are \<open>uint64\<close> values; they are only compared and printed.\<close>

datatype spanKind = RPC_SERVER | RPC_CLIENT | OtherKind int

record pbSpan =
  sp_SpanId :: int
  sp_ParentSpanId :: int
  sp_Name :: string
  sp_Kind :: spanKind
  sp_StartTime :: "gtime option"
  sp_EndTime :: "gtime option"
  sp_Labels :: smap

record spanInfo =
  ts_SpanID :: string
  ts_Name :: string
  ts_Kind :: string
  ts_StartTime :: string
  ts_EndTime :: string
  ts_Duration :: string
  ts_Labels :: smap

datatype traceSpan = TraceSpan (span_info: spanInfo) (span_children: "traceSpan list")

definition spanKindString :: "spanKind \<Rightarrow> string" where
  "spanKindString k = (case k of RPC_SERVER \<Rightarrow> ''SERVER'' | RPC_CLIENT \<Rightarrow> ''CLIENT'' | OtherKind n \<Rightarrow> ''UNSPECIFIED'')"

text \<open>\<open>time.Time.Sub\<close> saturates at the largest and smallest \<open>time.Duration\<close>.\<close>

definition time_sub :: "gtime \<Rightarrow> gtime \<Rightarrow> duration" where
  "time_sub t u = max (- (2 ^ 63)) (min (2 ^ 63 - 1) (t - u))"

definition span_duration :: "gtime option \<Rightarrow> gtime option \<Rightarrow> string" where
  "span_duration s e = (case (s, e) of (Some s, Some e) \<Rightarrow> formatDuration (time_sub e s) | _ \<Rightarrow> [])"

definition convert_span :: "pbSpan \<Rightarrow> spanInfo" where
  "convert_span s = \<lparr>ts_SpanID = itoa (sp_SpanId s), ts_Name = sp_Name s, ts_Kind = spanKindString (sp_Kind s),
     ts_StartTime = formatTimestamp (sp_StartTime s), ts_EndTime = formatTimestamp (sp_EndTime s),
     ts_Duration = span_duration (sp_StartTime s) (sp_EndTime s), ts_Labels = sp_Labels s\<rparr>"

subsection \<open>The tree\<close>

text \<open>\<open>idToIdx\<close>: the last span with an ID wins.\<close>

definition idToIdx :: "pbSpan list \<Rightarrow> int \<Rightarrow> nat option" where
  "idToIdx ps = map_of (rev (zip (map sp_SpanId ps) [0..<length ps]))"

definition parent_of :: "pbSpan list \<Rightarrow> nat \<Rightarrow> nat option" where
  "parent_of ps i = (let pid = sp_ParentSpanId (ps ! i) in if pid = 0 then None else idToIdx ps pid)"

definition childrenOf :: "pbSpan list \<Rightarrow> nat \<Rightarrow> nat list" where
  "childrenOf ps p = filter (\<lambda>i. parent_of ps i = Some p) [0..<length ps]"

definition rootIdxs :: "pbSpan list \<Rightarrow> nat list" where
  "rootIdxs ps = filter (\<lambda>i. parent_of ps i = None) [0..<length ps]"

definition starts_before :: "traceSpan \<Rightarrow> traceSpan \<Rightarrow> bool" where
  "starts_before a b = (ts_StartTime (span_info a) < ts_StartTime (span_info b))"

definition sortSpansByStartTime :: "(traceSpan list \<Rightarrow> traceSpan list) \<Rightarrow> traceSpan list \<Rightarrow> traceSpan list" where
  "sortSpansByStartTime perm spans = sort_less starts_before (perm spans)"

fun build_span :: "pbSpan list \<Rightarrow> (traceSpan list \<Rightarrow> traceSpan list) \<Rightarrow> nat \<Rightarrow> nat \<Rightarrow> traceSpan" where
  "build_span ps perm 0 i = TraceSpan (convert_span (ps ! i)) []"
| "build_span ps perm (Suc fuel) i =
     TraceSpan (convert_span (ps ! i)) (sortSpansByStartTime perm (map (build_span ps perm fuel) (childrenOf ps i)))"

definition buildSpanTree :: "(traceSpan list \<Rightarrow> traceSpan list) \<Rightarrow> pbSpan list \<Rightarrow> traceSpan list" where
  "buildSpanTree perm ps = sortSpansByStartTime perm (map (build_span ps perm (length ps)) (rootIdxs ps))"

subsection \<open>Requests\<close>

record traceDetail =
  td_TraceID :: string
  td_Count :: int
  td_Spans :: "traceSpan list"

definition GetTrace :: "(string \<Rightarrow> string \<Rightarrow> go_error + (string \<times> pbSpan list)) \<Rightarrow> (traceSpan list \<Rightarrow> traceSpan list) \<Rightarrow>
    string \<Rightarrow> string \<Rightarrow> go_error + traceDetail" where
  "GetTrace get perm project traceID =
     (case get project traceID of
        Inl err \<Rightarrow> Inl (Wrap (''getting trace: '' @ err_text err) [err])
      | Inr (i, spans) \<Rightarrow>
          if spans = [] then Inl (Wrap ''no spans found for trace'' [])
          else Inr \<lparr>td_TraceID = i, td_Count = int (length spans), td_Spans = buildSpanTree perm spans\<rparr>)"

record traceSummary =
  tsm_TraceID :: string
  tsm_RootSpanName :: string
  tsm_StartTime :: string
  tsm_EndTime :: string
  tsm_Duration :: string
  tsm_SpanCount :: int
  tsm_Labels :: smap

definition summary_root :: "pbSpan list \<Rightarrow> pbSpan" where
  "summary_root ps = (case find (\<lambda>s. sp_ParentSpanId s = 0) ps of None \<Rightarrow> ps ! 0 | Some s \<Rightarrow> s)"

definition traceToSummary :: "string \<Rightarrow> pbSpan list \<Rightarrow> traceSummary" where
  "traceToSummary i ps =
     (if ps = [] then \<lparr>tsm_TraceID = i, tsm_RootSpanName = [], tsm_StartTime = [], tsm_EndTime = [], tsm_Duration = [],
         tsm_SpanCount = 0, tsm_Labels = []\<rparr>
      else (let root = summary_root ps in
        \<lparr>tsm_TraceID = i, tsm_RootSpanName = sp_Name root, tsm_StartTime = formatTimestamp (sp_StartTime root),
         tsm_EndTime = formatTimestamp (sp_EndTime root), tsm_Duration = span_duration (sp_StartTime root) (sp_EndTime root),
         tsm_SpanCount = int (length ps), tsm_Labels = sp_Labels root\<rparr>))"

datatype viewType = MINIMAL | ROOTSPAN | COMPLETE

definition parseViewType :: "string \<Rightarrow> go_error + viewType" where
  "parseViewType view =
     (if view = ''MINIMAL'' then Inr MINIMAL else if view = ''ROOTSPAN'' then Inr ROOTSPAN
      else if view = ''COMPLETE'' then Inr COMPLETE else Inl (Wrap ''invalid view'' []))"

record listTracesRequest =
  lt_ProjectId :: string
  lt_View :: viewType
  lt_PageSize :: int
  lt_StartTime :: gtime
  lt_EndTime :: gtime
  lt_Filter :: string
  lt_OrderBy :: string
  lt_PageToken :: string

record 'i trace_client =
  tc_List :: "listTracesRequest \<Rightarrow> 'i"
  tc_Next :: "'i \<Rightarrow> 'i \<times> (go_error + (string \<times> pbSpan list))"
  tc_Token :: "'i \<Rightarrow> string"

record traceListResult =
  tlr_Count :: int
  tlr_Traces :: "traceSummary list"
  tlr_NextPageToken :: string
  tlr_Truncated :: bool
  tlr_StoppedOnError :: bool
  tlr_TruncationHint :: string

text \<open>
  The loop of \<open>ListTraces\<close>, which checks the page size after adding a trace: how it ended (at the
  end of the list or the page, or at an error), the traces and the iterator.
\<close>

function list_loop :: "'i trace_client \<Rightarrow> go_error \<Rightarrow> int \<Rightarrow> traceSummary list \<Rightarrow> 'i \<Rightarrow>
    go_error option \<times> traceSummary list \<times> 'i" where
  "list_loop cl iter_done pageSize traces it =
     (case tc_Next cl it of
        (it', Inl err) \<Rightarrow> if errors_is err iter_done then (None, traces, it') else (Some err, traces, it')
      | (it', Inr t) \<Rightarrow>
          (let traces = traces @ [traceToSummary (fst t) (snd t)] in
           if pageSize \<le> int (length traces) then (None, traces, it') else list_loop cl iter_done pageSize traces it'))"
  by pat_completeness auto

termination
  by (relation "measure (\<lambda>(cl, d, pageSize, traces, it). nat (pageSize - int (length traces)))") auto

definition ListTraces :: "'i trace_client \<Rightarrow> go_error \<Rightarrow> string \<Rightarrow> string \<Rightarrow> string \<Rightarrow> string \<Rightarrow> gtime \<Rightarrow> gtime \<Rightarrow> int \<Rightarrow>
    string \<Rightarrow> go_error + traceListResult" where
  "ListTraces cl iter_done project filt view orderBy startTime endTime pageSize pageToken =
     (case parseViewType view of
        Inl err \<Rightarrow> Inl err
      | Inr v \<Rightarrow>
          (let req = \<lparr>lt_ProjectId = project, lt_View = v, lt_PageSize = safeInt32 pageSize, lt_StartTime = startTime,
                 lt_EndTime = endTime, lt_Filter = filt, lt_OrderBy = orderBy, lt_PageToken = pageToken\<rparr>
           in case list_loop cl iter_done pageSize [] (tc_List cl req) of
                (Some err, traces, it) \<Rightarrow>
                  if traces = [] then Inl (Wrap (''listing traces: '' @ err_text err) [err])
                  else Inr \<lparr>tlr_Count = int (length traces), tlr_Traces = traces, tlr_NextPageToken = [],
                    tlr_Truncated = True, tlr_StoppedOnError = True,
                    tlr_TruncationHint = ''Listing stopped after '' @ itoa (int (length traces)) @
                      '' traces due to an error and cannot be resumed: '' @ err_text err\<rparr>
              | (None, traces, it) \<Rightarrow>
                  Inr \<lparr>tlr_Count = int (length traces), tlr_Traces = traces, tlr_NextPageToken = tc_Token cl it,
                    tlr_Truncated = (pageSize \<le> int (length traces)), tlr_StoppedOnError = False,
                    tlr_TruncationHint = (if pageSize \<le> int (length traces) then ''Returned '' @ itoa pageSize @
                      '' traces (limit reached). Use next_page_token to fetch more, or narrow filters.'' else [])\<rparr>))"

subsection \<open>Filters\<close>

text \<open>
  \<open>strconv.ParseFloat\<close> is a parameter; it gives a finite number or one of the special values. The
  conversion of a \<open>float64\<close> that does not fit an \<open>int64\<close> depends on the machine: the parameter
  \<open>int64_conv\<close>.
\<close>

datatype float_value = Finite rat | Special string

record float_env =
  parse_float :: "string \<Rightarrow> float_value option"
  int64_conv :: "float_value \<Rightarrow> int"

definition to_int64 :: "float_env \<Rightarrow> float_value \<Rightarrow> int" where
  "to_int64 fe v = (case v of
     Finite x \<Rightarrow> if - (2 ^ 63) \<le> \<lceil>x\<rceil> \<and> \<lceil>x\<rceil> < 2 ^ 63 then \<lceil>x\<rceil> else int64_conv fe v
   | Special s \<Rightarrow> int64_conv fe v)"

definition times1000 :: "float_value \<Rightarrow> float_value" where
  "times1000 v = (case v of Finite x \<Rightarrow> Finite (f64 (x * 1000)) | Special s \<Rightarrow> Special s)"

definition latency_error :: "string \<Rightarrow> go_error" where
  "latency_error m = Wrap (''invalid min_latency: '' @ m) []"

definition parseLatencyToMs :: "float_env \<Rightarrow> string \<Rightarrow> go_error + int" where
  "parseLatencyToMs fe s =
     (let s = trim_space s;
          r = (case cut_suffix s ''ms'' of
                 Some val \<Rightarrow> (case parse_float fe val of None \<Rightarrow> Inl (latency_error ''cannot parse as milliseconds'')
                    | Some f \<Rightarrow> Inr (to_int64 fe f))
               | None \<Rightarrow>
                   (case cut_suffix s ''s'' of
                      Some val \<Rightarrow> (case parse_float fe val of None \<Rightarrow> Inl (latency_error ''cannot parse as seconds'')
                         | Some f \<Rightarrow> Inr (to_int64 fe (times1000 f)))
                    | None \<Rightarrow> (case parse_float fe s of None \<Rightarrow> Inl (latency_error ''use a format like 100ms or 1.5s'')
                         | Some f \<Rightarrow> Inr (to_int64 fe f))))
      in case r of
           Inl err \<Rightarrow> Inl err
         | Inr ms \<Rightarrow> if ms \<le> 0 then Inl (latency_error ''must be a positive duration'') else Inr ms)"

definition BuildTraceFilter :: "float_env \<Rightarrow> string \<Rightarrow> string \<Rightarrow> string \<Rightarrow> go_error + string" where
  "BuildTraceFilter fe rootName spanName minLatency =
     (let parts = (if rootName \<noteq> [] then [''root:'' @ rootName] else []) @
            (if spanName \<noteq> [] then [''span:'' @ spanName] else [])
      in if minLatency = [] then Inr (join '' '' parts)
         else (case parseLatencyToMs fe minLatency of
                 Inl err \<Rightarrow> Inl err
               | Inr ms \<Rightarrow> Inr (join '' '' (parts @ [''latency:'' @ itoa ms @ ''ms'']))))"

subsection \<open>The tree holds the spans\<close>

interpretation span_order: strict_weak_order starts_before
  by unfold_locales (auto simp: starts_before_def)

text \<open>
  The links of a tree: every node with the node above it. A span is rooted when its chain of
  parents ends in a root; spans on a cycle of parents, or below one, are not.
\<close>

fun links :: "spanInfo option \<Rightarrow> traceSpan \<Rightarrow> (spanInfo option \<times> spanInfo) multiset" where
  "links p (TraceSpan s cs) = add_mset (p, s) (\<Sum>\<^sub># (image_mset (links (Some s)) (mset cs)))"

definition forest_links :: "traceSpan list \<Rightarrow> (spanInfo option \<times> spanInfo) multiset" where
  "forest_links ts = \<Sum>\<^sub># (image_mset (links None) (mset ts))"

fun sorted_tree :: "traceSpan \<Rightarrow> bool" where
  "sorted_tree (TraceSpan s cs) = (sorted_wrt (\<lambda>a b. \<not> starts_before b a) cs \<and> (\<forall>c \<in> set cs. sorted_tree c))"

inductive depth :: "pbSpan list \<Rightarrow> nat \<Rightarrow> nat \<Rightarrow> bool" for ps where
  root: "parent_of ps i = None \<Longrightarrow> depth ps i 0"
| below: "parent_of ps i = Some p \<Longrightarrow> depth ps p d \<Longrightarrow> depth ps i (Suc d)"

inductive_cases depth_cases: "depth ps i d"

definition rooted :: "pbSpan list \<Rightarrow> nat \<Rightarrow> bool" where
  "rooted ps i = (\<exists>d. depth ps i d)"

definition span_link :: "pbSpan list \<Rightarrow> nat \<Rightarrow> spanInfo option \<times> spanInfo" where
  "span_link ps i = (map_option (\<lambda>p. convert_span (ps ! p)) (parent_of ps i), convert_span (ps ! i))"

lemma depth_unique: "depth ps i d \<Longrightarrow> depth ps i d' \<Longrightarrow> d = d'"
proof (induction arbitrary: d' rule: depth.induct)
  case (root i)
  from root(2) root(1) show ?case by (cases rule: depth.cases) auto
next
  case (below i p d)
  from below(4) below(1) obtain e where "d' = Suc e" "depth ps p e" by (cases rule: depth.cases) auto
  with below(3) show ?case by simp
qed

lemma parent_of_less: "parent_of ps i = Some p \<Longrightarrow> p < length ps"
proof -
  assume "parent_of ps i = Some p"
  then have "(sp_ParentSpanId (ps ! i), p) \<in> set (zip (map sp_SpanId ps) [0..<length ps])"
    unfolding parent_of_def idToIdx_def Let_def by (auto split: if_splits dest!: map_of_SomeD)
  then show ?thesis by (auto dest: set_zip_rightD)
qed

lemma depth_levels: "depth ps i d \<Longrightarrow> i < length ps \<Longrightarrow> e \<le> d \<Longrightarrow> \<exists>j < length ps. depth ps j e"
proof (induction arbitrary: e rule: depth.induct)
  case (root i)
  then show ?case by (auto intro: depth.root)
next
  case (below i p d)
  show ?case
  proof (cases "e = Suc d")
    case True
    with below show ?thesis by (auto intro: depth.below)
  next
    case False
    with below parent_of_less [OF below(1)] show ?thesis by auto
  qed
qed

text \<open>A rooted span is less deep than there are spans: the fuel is enough.\<close>

lemma depth_less: "depth ps i d \<Longrightarrow> i < length ps \<Longrightarrow> d < length ps"
proof -
  assume d: "depth ps i d" "i < length ps"
  obtain f where f: "\<And>e. e \<le> d \<Longrightarrow> f e < length ps \<and> depth ps (f e) e"
    using depth_levels [OF d] by metis
  have "inj_on f {..d}" using f depth_unique by (intro inj_onI) (metis atMost_iff)
  moreover have "f ` {..d} \<subseteq> {..<length ps}" using f by auto
  ultimately have "card {..d} \<le> card {..<length ps}" using card_inj_on_le by blast
  then show ?thesis by simp
qed

text \<open>The spans of the subtree built with some fuel.\<close>

fun below_span :: "pbSpan list \<Rightarrow> nat \<Rightarrow> nat \<Rightarrow> nat list" where
  "below_span ps 0 i = [i]"
| "below_span ps (Suc fuel) i = i # concat (map (below_span ps fuel) (childrenOf ps i))"

lemma childrenOf_iff: "c \<in> set (childrenOf ps i) \<longleftrightarrow> c < length ps \<and> parent_of ps c = Some i"
  by (auto simp: childrenOf_def)

lemma mset_sortSpans: "(\<And>xs. mset (perm xs) = mset xs) \<Longrightarrow> mset (sortSpansByStartTime perm ts) = mset ts"
  by (simp add: sortSpansByStartTime_def)

lemma sum_image_mset_concat:
  "(\<Sum>c \<leftarrow> cs. image_mset f (mset (g c))) = image_mset f (mset (concat (map g cs)))"
  by (induction cs) auto

lemma sum_links:
  "\<Sum>\<^sub># (image_mset (links p) (mset (map g cs))) = (\<Sum>c \<leftarrow> cs. links p (g c))"
  by (induction cs) auto

lemma build_span_links:
  assumes "\<And>xs. mset (perm xs) = mset xs"
  shows "links (map_option (\<lambda>p. convert_span (ps ! p)) (parent_of ps i)) (build_span ps perm fuel i) =
    image_mset (span_link ps) (mset (below_span ps fuel i))"
proof (induction fuel arbitrary: i)
  case 0
  then show ?case by (simp add: span_link_def)
next
  case (Suc fuel)
  let ?p = "Some (convert_span (ps ! i))"
  have child: "links ?p (build_span ps perm fuel c) = image_mset (span_link ps) (mset (below_span ps fuel c))"
    if "c \<in> set (childrenOf ps i)" for c
    using Suc.IH [of c] that by (simp add: childrenOf_iff)
  have "(\<Sum>c \<leftarrow> childrenOf ps i. links ?p (build_span ps perm fuel c)) =
      (\<Sum>c \<leftarrow> childrenOf ps i. image_mset (span_link ps) (mset (below_span ps fuel c)))"
    using child by (metis (no_types, lifting) map_eq_conv)
  then show ?case
    by (simp add: mset_sortSpans [OF assms] span_link_def [of ps i] sum_image_mset_concat sum_links del: mset_map)
qed

text \<open>Each rooted span is in exactly one subtree.\<close>

text \<open>The span one level below \<open>i\<close> on the way down to \<open>j\<close> is determined by \<open>j\<close>.\<close>

fun up :: "pbSpan list \<Rightarrow> nat \<Rightarrow> nat \<Rightarrow> nat option" where
  "up ps 0 j = Some j"
| "up ps (Suc k) j = (case parent_of ps j of None \<Rightarrow> None | Some p \<Rightarrow> up ps k p)"

lemma up_step: "up ps (Suc k) j = (case up ps k j of None \<Rightarrow> None | Some p \<Rightarrow> parent_of ps p)"
proof (induction k arbitrary: j)
  case 0
  then show ?case by (simp split: option.split)
next
  case (Suc k)
  then show ?case using Suc.IH by (cases "parent_of ps j") simp_all
qed

lemma below_span_up:
  "depth ps i d \<Longrightarrow> j \<in> set (below_span ps fuel i) \<Longrightarrow> \<exists>k. depth ps j (d + k) \<and> up ps k j = Some i"
proof (induction fuel arbitrary: i d)
  case 0
  then show ?case by (intro exI [of _ 0]) simp
next
  case (Suc fuel)
  show ?case
  proof (cases "j = i")
    case True
    with Suc.prems(1) show ?thesis by (intro exI [of _ 0]) simp
  next
    case False
    with Suc.prems(2) obtain c where c: "c \<in> set (childrenOf ps i)" "j \<in> set (below_span ps fuel c)" by auto
    then have p: "parent_of ps c = Some i" "depth ps c (Suc d)"
      using Suc.prems(1) by (auto simp: childrenOf_iff intro: depth.below)
    from Suc.IH [OF p(2) c(2)] obtain k where "depth ps j (Suc d + k)" "up ps k j = Some c" by blast
    with p(1) show ?thesis by (intro exI [of _ "Suc k"]) (simp add: up_step del: up.simps)
  qed
qed

lemma below_span_disjoint:
  assumes "depth ps c d" "depth ps c' d" "j \<in> set (below_span ps fuel c)" "j \<in> set (below_span ps fuel c')"
  shows "c = c'"
proof -
  obtain k k' where "depth ps j (d + k)" "up ps k j = Some c" "depth ps j (d + k')" "up ps k' j = Some c'"
    using below_span_up [OF assms(1,3)] below_span_up [OF assms(2,4)] by blast
  moreover from this have "k = k'" using depth_unique by fastforce
  ultimately show ?thesis by simp
qed

lemma distinct_concat_below:
  assumes "distinct cs" "\<And>c. c \<in> set cs \<Longrightarrow> depth ps c d" "\<And>c. c \<in> set cs \<Longrightarrow> distinct (below_span ps fuel c)"
  shows "distinct (concat (map (below_span ps fuel) cs))"
  using assms
proof (induction cs)
  case Nil
  then show ?case by simp
next
  case (Cons c cs)
  have "set (below_span ps fuel c) \<inter> set (below_span ps fuel c') = {}" if "c' \<in> set cs" for c'
    using below_span_disjoint [of ps c d c' _ fuel] Cons.prems that by auto
  with Cons show ?case by auto
qed

lemma distinct_below_span: "depth ps i d \<Longrightarrow> distinct (below_span ps fuel i)"
proof (induction fuel arbitrary: i d)
  case 0
  then show ?case by simp
next
  case (Suc fuel)
  have c: "depth ps c (Suc d)" if "c \<in> set (childrenOf ps i)" for c
    using that Suc.prems by (auto simp: childrenOf_iff intro: depth.below)
  have "distinct (childrenOf ps i)" by (simp add: childrenOf_def)
  then have "distinct (concat (map (below_span ps fuel) (childrenOf ps i)))"
    by (rule distinct_concat_below [OF _ c Suc.IH [OF c]])
  moreover have "i \<notin> set (below_span ps fuel c)" if "c \<in> set (childrenOf ps i)" for c
  proof
    assume "i \<in> set (below_span ps fuel c)"
    from below_span_up [OF c [OF that] this] obtain k where "depth ps i (Suc d + k)" by blast
    from depth_unique [OF this Suc.prems] show False by simp
  qed
  ultimately show ?case by auto
qed

lemma below_span_mono: "j \<in> set (below_span ps fuel i) \<Longrightarrow> fuel \<le> fuel' \<Longrightarrow> j \<in> set (below_span ps fuel' i)"
proof (induction fuel arbitrary: i fuel')
  case 0
  then show ?case by (cases fuel') auto
next
  case (Suc fuel)
  then obtain f where "fuel' = Suc f" "fuel \<le> f" by (metis Suc_le_D Suc_le_mono)
  with Suc show ?case by auto
qed

lemma below_span_child:
  "p \<in> set (below_span ps fuel r) \<Longrightarrow> parent_of ps j = Some p \<Longrightarrow> j < length ps \<Longrightarrow> j \<in> set (below_span ps (Suc fuel) r)"
proof (induction fuel arbitrary: r)
  case 0
  then show ?case by (auto simp: childrenOf_iff)
next
  case (Suc fuel)
  show ?case
  proof (cases "p = r")
    case True
    with Suc.prems have "j \<in> set (childrenOf ps r)" by (simp add: childrenOf_iff)
    then show ?thesis by auto
  next
    case False
    with Suc show ?thesis by auto
  qed
qed

lemma below_some_root: "depth ps j d \<Longrightarrow> j < length ps \<Longrightarrow> \<exists>r \<in> set (rootIdxs ps). j \<in> set (below_span ps d r)"
proof (induction rule: depth.induct)
  case (root i)
  then show ?case by (auto simp: rootIdxs_def)
next
  case (below i p d)
  with parent_of_less [OF below(1)] below_span_child [OF _ below(1)] show ?case by blast
qed

lemma below_span_less: "j \<in> set (below_span ps fuel i) \<Longrightarrow> i < length ps \<Longrightarrow> j < length ps"
  by (induction fuel arbitrary: i) (auto simp: childrenOf_iff)

lemma forest_spans:
  "mset (concat (map (below_span ps (length ps)) (rootIdxs ps))) = mset (filter (rooted ps) [0..<length ps])"
proof (intro iffD1 [OF set_eq_iff_mset_eq_distinct])
  have root: "depth ps r 0" if "r \<in> set (rootIdxs ps)" for r
    using that by (auto simp: rootIdxs_def intro: depth.root)
  have "distinct (rootIdxs ps)" by (simp add: rootIdxs_def)
  then show "distinct (concat (map (below_span ps (length ps)) (rootIdxs ps)))"
    using root distinct_below_span by (intro distinct_concat_below) blast+
  show "distinct (filter (rooted ps) [0..<length ps])" by simp
  show "set (concat (map (below_span ps (length ps)) (rootIdxs ps))) = set (filter (rooted ps) [0..<length ps])"
  proof (intro set_eqI iffI)
    fix j
    assume "j \<in> set (concat (map (below_span ps (length ps)) (rootIdxs ps)))"
    then obtain r where r: "r \<in> set (rootIdxs ps)" "j \<in> set (below_span ps (length ps) r)" by auto
    moreover from r(1) have "r < length ps" by (simp add: rootIdxs_def)
    ultimately show "j \<in> set (filter (rooted ps) [0..<length ps])"
      using below_span_up [OF root [OF r(1)] r(2)] below_span_less by (auto simp: rooted_def)
  next
    fix j
    assume "j \<in> set (filter (rooted ps) [0..<length ps])"
    then obtain d where d: "depth ps j d" "j < length ps" by (auto simp: rooted_def)
    from below_some_root [OF d] obtain r where "r \<in> set (rootIdxs ps)" "j \<in> set (below_span ps d r)" ..
    with below_span_mono [of j ps d r "length ps"] depth_less [OF d]
    show "j \<in> set (concat (map (below_span ps (length ps)) (rootIdxs ps)))" by auto
  qed
qed

lemma build_span_sorted: "sorted_tree (build_span ps perm fuel i)"
  if "\<And>xs. mset (perm xs) = mset xs"
proof (induction fuel arbitrary: i)
  case 0
  then show ?case by simp
next
  case (Suc fuel)
  have "set (sortSpansByStartTime perm (map (build_span ps perm fuel) (childrenOf ps i))) =
      set (map (build_span ps perm fuel) (childrenOf ps i))"
    using mset_sortSpans [OF that] mset_eq_setD by blast
  with Suc show ?case by (auto simp: sortSpansByStartTime_def intro: span_order.sorted_sort_less)
qed

lemma forest_links_rooted:
  assumes "\<And>xs. mset (perm xs) = mset xs"
  shows "forest_links (buildSpanTree perm ps) = image_mset (span_link ps) (mset (filter (rooted ps) [0..<length ps]))"
proof -
  have root: "links None (build_span ps perm (length ps) r) = image_mset (span_link ps) (mset (below_span ps (length ps) r))"
    if "r \<in> set (rootIdxs ps)" for r
    using build_span_links [where perm = perm and ps = ps and i = r and fuel = "length ps", OF assms] that
    by (simp add: rootIdxs_def)
  have "forest_links (buildSpanTree perm ps) = (\<Sum>r \<leftarrow> rootIdxs ps. links None (build_span ps perm (length ps) r))"
    by (simp add: forest_links_def buildSpanTree_def mset_sortSpans [OF assms] sum_links del: mset_map)
  also have "\<dots> = (\<Sum>r \<leftarrow> rootIdxs ps. image_mset (span_link ps) (mset (below_span ps (length ps) r)))"
    using root by (metis (no_types, lifting) map_eq_conv)
  finally show ?thesis by (simp only: sum_image_mset_concat forest_spans)
qed

lemma length_filter_iff_all: "length (filter P xs) = length xs \<longleftrightarrow> (\<forall>x \<in> set xs. P x)"
  by (metis filter_True length_filter_less less_irrefl)

subsection \<open>Properties\<close>

text \<open>
  C16: the tree of a trace holds each span whose chain of parents ends in a root exactly once, below
  the span that is its parent (the last one with the parent's ID), and no other span; roots and
  the children of every span are in the order of their start times. The order in which the sort
  finds spans that start together does not matter.
\<close>

theorem span_tree_complete:
  assumes "\<And>xs. mset (perm xs) = mset xs"
  shows "forest_links (buildSpanTree perm ps) = image_mset (span_link ps) (mset (filter (rooted ps) [0..<length ps])) \<and>
         sorted_wrt (\<lambda>a b. ts_StartTime (span_info a) \<le> ts_StartTime (span_info b)) (buildSpanTree perm ps) \<and>
         (\<forall>t \<in> set (buildSpanTree perm ps). sorted_tree t)"
proof (intro conjI)
  let ?roots = "map (build_span ps perm (length ps)) (rootIdxs ps)"
  show "forest_links (buildSpanTree perm ps) = image_mset (span_link ps) (mset (filter (rooted ps) [0..<length ps]))"
    by (rule forest_links_rooted [OF assms])
  show "sorted_wrt (\<lambda>a b. ts_StartTime (span_info a) \<le> ts_StartTime (span_info b)) (buildSpanTree perm ps)"
    using span_order.sorted_sort_less [of "perm ?roots"]
    by (simp add: buildSpanTree_def sortSpansByStartTime_def starts_before_def not_less)
  show "\<forall>t \<in> set (buildSpanTree perm ps). sorted_tree t"
    using mset_eq_setD [OF mset_sortSpans [OF assms]] build_span_sorted [OF assms]
    by (auto simp: buildSpanTree_def)
qed

text \<open>
  The span count that a trace reports is at least the number of nodes of its tree, and equal to
  it exactly when no span lies on or below a cycle of parents.
\<close>

theorem trace_count_covers_tree:
  assumes "\<And>xs. mset (perm xs) = mset xs" "get project i = Inr (tid, ps)" "GetTrace get perm project i = Inr d"
  shows "int (size (forest_links (td_Spans d))) \<le> td_Count d \<and>
         (int (size (forest_links (td_Spans d))) = td_Count d \<longleftrightarrow> (\<forall>j < length ps. rooted ps j))"
proof -
  have d: "td_Spans d = buildSpanTree perm ps" "td_Count d = int (length ps)"
    using assms(2,3) by (auto simp: GetTrace_def split: if_splits)
  have "forest_links (td_Spans d) = image_mset (span_link ps) (mset (filter (rooted ps) [0..<length ps]))"
    unfolding d(1) by (rule forest_links_rooted [OF assms(1)])
  then have "size (forest_links (td_Spans d)) = length (filter (rooted ps) [0..<length ps])"
    by (simp only: size_image_mset size_mset)
  moreover have "length (filter (rooted ps) [0..<length ps]) \<le> length ps"
    using length_filter_le [of "rooted ps" "[0..<length ps]"] by simp
  moreover have "length (filter (rooted ps) [0..<length ps]) = length ps \<longleftrightarrow> (\<forall>j < length ps. rooted ps j)"
    using length_filter_iff_all [of "rooted ps" "[0..<length ps]"] by auto
  ultimately show ?thesis using d(2) by simp
qed

definition ex_span :: "int \<Rightarrow> int \<Rightarrow> gtime \<Rightarrow> pbSpan" where
  "ex_span i p t = \<lparr>sp_SpanId = i, sp_ParentSpanId = p, sp_Name = ''s'', sp_Kind = RPC_SERVER, sp_StartTime = Some t,
     sp_EndTime = Some (t + second), sp_Labels = []\<rparr>"

lemma ex_spans_rooted: "rooted [ex_span 1 0 0, ex_span 2 1 5] j" if "j < 2"
proof -
  let ?ps = "[ex_span 1 0 0, ex_span 2 1 5]"
  have "depth ?ps 0 0" by (rule depth.root) (simp add: parent_of_def ex_span_def)
  moreover from this have "depth ?ps 1 1"
    using depth.below [of ?ps 1 0 0] by (simp add: parent_of_def idToIdx_def ex_span_def)
  moreover from that have "j = 0 \<or> j = 1" by auto
  ultimately show ?thesis by (auto simp: rooted_def)
qed

theorem span_tree_complete_witness:
  "size (forest_links (buildSpanTree rev [ex_span 1 0 0, ex_span 2 1 5])) = 2"
  using span_tree_complete [of rev "[ex_span 1 0 0, ex_span 2 1 5]"] ex_spans_rooted by (simp add: upt_rec)

theorem trace_count_covers_tree_witness:
  "\<exists>d. GetTrace (\<lambda>p i. Inr (i, [ex_span 1 0 0, ex_span 2 1 5])) rev ''p'' ''t'' = Inr d \<and>
       int (size (forest_links (td_Spans d))) = td_Count d"
proof -
  obtain d where d: "GetTrace (\<lambda>p i. Inr (i, [ex_span 1 0 0, ex_span 2 1 5])) rev ''p'' ''t'' = Inr d"
    by (simp add: GetTrace_def)
  with trace_count_covers_tree [OF _ refl d] ex_spans_rooted show ?thesis by auto
qed

text \<open>Two spans that are each other's parent: the trace reports two spans and shows none.\<close>

lemma cyclic_trace_count:
  "GetTrace (\<lambda>p i. Inr (i, [ex_span 1 2 0, ex_span 2 1 0])) rev ''p'' ''t'' =
     Inr \<lparr>td_TraceID = ''t'', td_Count = 2, td_Spans = []\<rparr>"
  by (simp add: GetTrace_def buildSpanTree_def rootIdxs_def parent_of_def idToIdx_def ex_span_def upt_rec
      sortSpansByStartTime_def)

end
