(* ===== verification/Log_Entries.thy ===== *)
theory Log_Entries
  imports Log_Types "HOL-Library.AList"
begin

text \<open>
  The log queries (\<open>internal/gcpdata/logs.go\<close>): conversion of the entries Cloud Logging returns,
  the byte budget of an entry, the scan with its time budget, the request, service and summary
  scans, and the filters they send.

  The Cloud Logging client is a parameter (\<open>log_client\<close>): it opens an iterator for a request, the
  iterator steps to an entry or an error, tells the token of the next page, and the context tells
  why it was cancelled. The generated protobuf code (names of severities, \<open>protojson\<close>) and the
  parsing of JSON are the parameters of \<open>log_env\<close>.
\<close>

subsection \<open>Entries of the API\<close>

datatype ('n, 'p) payload =
    NoPayload
  | TextPayload string
  | JsonPayload "(string \<times> 'n pb_value) list option"
  | ProtoPayload 'p

record pbHttp =
  pbh_RequestMethod :: string
  pbh_RequestUrl :: string
  pbh_Status :: int
  pbh_ResponseSize :: int
  pbh_UserAgent :: string
  pbh_RemoteIp :: string
  pbh_Latency :: "duration option"

record ('n, 'p) pbEntry =
  pb_Timestamp :: "gtime option"
  pb_Severity :: int
  pb_LogName :: string
  pb_InsertId :: string
  pb_Trace :: string
  pb_SpanId :: string
  pb_Labels :: smap
  pb_Resource :: "(string \<times> smap) option"
  pb_Payload :: "('n, 'p) payload"
  pb_HttpRequest :: "pbHttp option"
  pb_Operation :: "(string \<times> string) option"

record ('n, 'p) log_env =
  severity_name :: "int \<Rightarrow> string"
  LogSeverity_ERROR :: int
  protojson :: "'p \<Rightarrow> go_error + string"
  unmarshal :: "string \<Rightarrow> go_error + (string \<times> 'n any) list option"
  num_json :: "'n \<Rightarrow> string option"

definition extractServiceName :: "('n, 'p) pbEntry \<Rightarrow> string" where
  "extractServiceName entry =
     (case pb_Resource entry of None \<Rightarrow> [] | Some (t, labels) \<Rightarrow> serviceName t labels)"

subsection \<open>Conversion\<close>

definition convert_payload :: "('n, 'p) log_env \<Rightarrow> ('n, 'p) payload \<Rightarrow> 'n logEntry \<Rightarrow> 'n logEntry" where
  "convert_payload env p le =
     (case p of
        NoPayload \<Rightarrow> le
      | TextPayload t \<Rightarrow> le\<lparr>le_TextPayload := t\<rparr>
      | JsonPayload j \<Rightarrow> le\<lparr>le_JSONPayload := structToMap j\<rparr>
      | ProtoPayload q \<Rightarrow>
          (case protojson env q of
             Inl err \<Rightarrow> le\<lparr>le_PayloadConversionError := ''proto marshaling failed: '' @ err_text err,
                         le_TextPayload := ''[proto payload conversion failed: '' @ err_text err @ '']''\<rparr>
           | Inr bytes \<Rightarrow>
               (case unmarshal env bytes of
                  Inl err \<Rightarrow> le\<lparr>le_PayloadConversionError := ''JSON unmarshaling failed: '' @ err_text err,
                              le_TextPayload := bytes\<rparr>
                | Inr m \<Rightarrow> le\<lparr>le_JSONPayload := m\<rparr>)))"

definition convert_http :: "pbHttp \<Rightarrow> httpRequestInfo" where
  "convert_http h = \<lparr>hr_Method = pbh_RequestMethod h, hr_URL = pbh_RequestUrl h, hr_Status = pbh_Status h,
     hr_ResponseSize = pbh_ResponseSize h, hr_UserAgent = pbh_UserAgent h, hr_RemoteIP = pbh_RemoteIp h,
     hr_Latency = formatLatency (pbh_Latency h)\<rparr>"

definition convertLogEntry :: "('n, 'p) log_env \<Rightarrow> ('n, 'p) pbEntry \<Rightarrow> 'n logEntry" where
  "convertLogEntry env entry =
     (let le = zero_logEntry\<lparr>le_Timestamp := formatTimestamp (pb_Timestamp entry),
            le_Severity := severity_name env (pb_Severity entry), le_LogName := pb_LogName entry,
            le_InsertID := pb_InsertId entry, le_Trace := pb_Trace entry, le_SpanID := pb_SpanId entry,
            le_Labels := pb_Labels entry\<rparr>;
          le = le\<lparr>le_Resource := map_option (\<lambda>(t, ls). \<lparr>ri_Type = t, ri_Labels = ls\<rparr>) (pb_Resource entry)\<rparr>;
          le = convert_payload env (pb_Payload entry) le;
          le = le\<lparr>le_HTTPRequest := map_option convert_http (pb_HttpRequest entry)\<rparr>
      in le\<lparr>le_Operation := map_option (\<lambda>(i, p). \<lparr>op_ID = i, op_Producer = p\<rparr>) (pb_Operation entry)\<rparr>)"

subsection \<open>The byte budget of an entry\<close>

definition maxNormalizedLogEntryBytes :: nat where "maxNormalizedLogEntryBytes = 8 * 2 ^ 10"

text \<open>\<open>json.Marshal\<close> with the error ignored: a failure gives no bytes.\<close>

definition json_len :: "('n \<Rightarrow> string option) \<Rightarrow> 'n logEntry \<Rightarrow> nat" where
  "json_len num le = (case json_entry num le of None \<Rightarrow> 0 | Some s \<Rightarrow> length s)"

definition boundStringMap :: "smap \<Rightarrow> nat \<Rightarrow> nat \<Rightarrow> smap \<times> bool" where
  "boundStringMap m maxEntries maxValueBytes =
     (if m = [] then ([], False)
      else (let keys = take maxEntries (sort (map fst m)) in
        foldl (\<lambda>(out, changed) k.
            (let bk = truncateUTF8 k 128; bv = truncateUTF8 (sget m k) maxValueBytes
             in (AList.update bk bv out, changed \<or> bk \<noteq> k \<or> bv \<noteq> sget m k)))
          ([], length keys \<noteq> length m) keys))"

text \<open>The reductions, in the order of the code; each adds the names of the fields it reduced.\<close>

type_synonym 'n reduction = "'n logEntry \<times> string list"

definition bound_payload :: "('n \<Rightarrow> string option) \<Rightarrow> 'n reduction \<Rightarrow> 'n reduction" where
  "bound_payload num x =
     (case x of (le, marks) \<Rightarrow>
       (case le_JSONPayload le of
          Some m \<Rightarrow>
            (let raw = (case json_payload num m of None \<Rightarrow> [] | Some r \<Rightarrow> r)
             in (le\<lparr>le_JSONPayload := None, le_TextPayload := truncateUTF8 raw 4096\<rparr>, marks @ [''json_payload'']))
        | None \<Rightarrow>
            if 4096 < length (le_TextPayload le)
            then (le\<lparr>le_TextPayload := truncateUTF8 (le_TextPayload le) 4096\<rparr>, marks @ [''text_payload''])
            else (le, marks)))"

definition bound_http :: "'n reduction \<Rightarrow> 'n reduction" where
  "bound_http x =
     (case x of (le, marks) \<Rightarrow>
       (case le_HTTPRequest le of
          None \<Rightarrow> (le, marks)
        | Some h \<Rightarrow>
            (let (h, marks) = (if 512 < length (hr_URL h)
                   then (h\<lparr>hr_URL := truncateUTF8 (hr_URL h) 512\<rparr>, marks @ [''http_request.url'']) else (h, marks));
                 (h, marks) = (if 256 < length (hr_UserAgent h)
                   then (h\<lparr>hr_UserAgent := truncateUTF8 (hr_UserAgent h) 256\<rparr>, marks @ [''http_request.user_agent''])
                   else (h, marks))
             in (le\<lparr>le_HTTPRequest := Some h\<rparr>, marks))))"

definition bound_labels :: "'n reduction \<Rightarrow> 'n reduction" where
  "bound_labels x =
     (case x of (le, marks) \<Rightarrow>
       (let (ls, changed) = boundStringMap (le_Labels le) 24 128;
            le = le\<lparr>le_Labels := ls\<rparr>;
            marks = (if changed then marks @ [''labels''] else marks)
        in (case le_Resource le of
              None \<Rightarrow> (le, marks)
            | Some r \<Rightarrow>
                (let (rls, changed) = boundStringMap (ri_Labels r) 24 128
                 in (le\<lparr>le_Resource := Some (r\<lparr>ri_Labels := rls\<rparr>)\<rparr>,
                     if changed then marks @ [''resource.labels''] else marks)))))"

definition drop_labels :: "('n \<Rightarrow> string option) \<Rightarrow> 'n reduction \<Rightarrow> 'n reduction" where
  "drop_labels num x =
     (case x of (le, marks) \<Rightarrow>
       if maxNormalizedLogEntryBytes < json_len num le then (le\<lparr>le_Labels := []\<rparr>, marks @ [''labels'']) else x)"

definition drop_resource_labels :: "('n \<Rightarrow> string option) \<Rightarrow> 'n reduction \<Rightarrow> 'n reduction" where
  "drop_resource_labels num x =
     (case x of (le, marks) \<Rightarrow>
       (case le_Resource le of
          None \<Rightarrow> x
        | Some r \<Rightarrow> if maxNormalizedLogEntryBytes < json_len num le
            then (le\<lparr>le_Resource := Some (r\<lparr>ri_Labels := []\<rparr>)\<rparr>, marks @ [''resource.labels'']) else x))"

definition drop_http :: "('n \<Rightarrow> string option) \<Rightarrow> 'n reduction \<Rightarrow> 'n reduction" where
  "drop_http num x =
     (case x of (le, marks) \<Rightarrow>
       if maxNormalizedLogEntryBytes < json_len num le then (le\<lparr>le_HTTPRequest := None\<rparr>, marks @ [''http_request'']) else x)"

definition shorten_payload :: "('n \<Rightarrow> string option) \<Rightarrow> 'n reduction \<Rightarrow> 'n reduction" where
  "shorten_payload num x =
     (case x of (le, marks) \<Rightarrow>
       if maxNormalizedLogEntryBytes < json_len num le
       then (le\<lparr>le_TextPayload := truncateUTF8 (le_TextPayload le) 1024\<rparr>, marks @ [''payload'']) else x)"

definition with_omitted :: "('n \<Rightarrow> string option) \<Rightarrow> nat \<Rightarrow> 'n logEntry \<Rightarrow> 'n logEntry" where
  "with_omitted num original le = le\<lparr>le_OmittedBytes := max 0 (int original - int (json_len num le))\<rparr>"

definition routing_record :: "'n logEntry \<Rightarrow> string list \<Rightarrow> 'n logEntry" where
  "routing_record le marks = zero_logEntry\<lparr>le_Timestamp := truncateUTF8 (le_Timestamp le) 64,
     le_Severity := truncateUTF8 (le_Severity le) 32, le_LogName := truncateUTF8 (le_LogName le) 256,
     le_InsertID := truncateUTF8 (le_InsertID le) 128, le_Trace := truncateUTF8 (le_Trace le) 256,
     le_SpanID := truncateUTF8 (le_SpanID le) 64, le_EntryTruncated := True, le_TruncatedFields := marks\<rparr>"

definition boundLogEntry :: "('n \<Rightarrow> string option) \<Rightarrow> 'n logEntry \<Rightarrow> 'n logEntry" where
  "boundLogEntry num le =
     (let original = json_len num le in
      if original \<le> maxNormalizedLogEntryBytes then le
      else (let (le, marks) = shorten_payload num (drop_http num (drop_resource_labels num (drop_labels num
                  (bound_labels (bound_http (bound_payload num (le, [])))))));
                le = with_omitted num original (le\<lparr>le_EntryTruncated := True, le_TruncatedFields := marks\<rparr>)
            in if maxNormalizedLogEntryBytes < json_len num le
               then with_omitted num original (routing_record le (marks @ [''oversized_metadata'']))
               else le))"

subsection \<open>Requests to Cloud Logging\<close>

record listRequest =
  rq_ResourceNames :: "string list"
  rq_Filter :: string
  rq_OrderBy :: string
  rq_PageToken :: string
  rq_PageSize :: int

datatype ('n, 'p) next_entry = NextEntry "('n, 'p) pbEntry" | NextErr go_error

record ('n, 'p, 'i) log_client =
  ListLogEntries :: "listRequest \<Rightarrow> 'i"
  it_Next :: "'i \<Rightarrow> 'i \<times> ('n, 'p) next_entry"
  it_Token :: "'i \<Rightarrow> string"
  ctx_Cause :: "'i \<Rightarrow> go_error option"

definition iterator_Done :: go_error where
  "iterator_Done = Sentinel ''no more items in iterator''"

definition DeadlineExceeded :: go_error where
  "DeadlineExceeded = Sentinel ''context deadline exceeded''"

definition errLogScanBudget :: go_error where
  "errLogScanBudget = Wrap ''log scan used up its 30s time budget: context deadline exceeded'' [DeadlineExceeded]"

definition LogsHardLimit :: int where "LogsHardLimit = 200"

definition project_resource :: "string \<Rightarrow> string" where
  "project_resource project = ''projects/'' @ project"

definition iter_error :: "go_error \<Rightarrow> go_error" where
  "iter_error err = Wrap (''iterating log entries: '' @ err_text err) [err]"

subsection \<open>The log scan\<close>

record 'n logQueryResult =
  lq_Count :: int
  lq_Entries :: "'n logEntry list"
  lq_NextPageToken :: string
  lq_ScanIncomplete :: bool

text \<open>
  The loop of \<open>collectLogEntries\<close>: \<open>k\<close> entries are still wanted. The result is an error, or the
  entries, whether the scan stopped on its time budget, and the iterator.
\<close>

fun collect_loop :: "('n, 'p) log_env \<Rightarrow> ('n, 'p, 'i) log_client \<Rightarrow> string \<Rightarrow> nat \<Rightarrow> 'n logEntry list \<Rightarrow> 'i \<Rightarrow>
    go_error + ('n logEntry list \<times> bool \<times> 'i)" where
  "collect_loop env cl start 0 acc it = Inr (acc, False, it)"
| "collect_loop env cl start (Suc k) acc it =
     (case it_Next cl it of
        (it', NextErr err) \<Rightarrow>
          if errors_is err iterator_Done then Inr (acc, False, it')
          else (let tok = it_Token cl it'; moved = (acc \<noteq> [] \<or> tok \<noteq> start)
                in if moved \<and> tok \<noteq> [] \<and> (case ctx_Cause cl it' of None \<Rightarrow> False | Some c \<Rightarrow> errors_is c errLogScanBudget)
                   then Inr (acc, True, it') else Inl (iter_error err))
      | (it', NextEntry e) \<Rightarrow>
          collect_loop env cl start k (acc @ [boundLogEntry (num_json env) (convertLogEntry env e)]) it')"

definition collectLogEntries :: "('n, 'p) log_env \<Rightarrow> ('n, 'p, 'i) log_client \<Rightarrow> 'i \<Rightarrow> string \<Rightarrow> int \<Rightarrow>
    go_error + 'n logQueryResult" where
  "collectLogEntries env cl it start limit =
     (case collect_loop env cl start (nat limit) [] it of
        Inl err \<Rightarrow> Inl err
      | Inr (entries, incomplete, it') \<Rightarrow>
          Inr \<lparr>lq_Count = int (length entries), lq_Entries = entries, lq_NextPageToken = it_Token cl it',
            lq_ScanIncomplete = incomplete\<rparr>)"

definition fetchLogEntries :: "('n, 'p) log_env \<Rightarrow> ('n, 'p, 'i) log_client \<Rightarrow> listRequest \<Rightarrow> int \<Rightarrow>
    go_error + 'n logQueryResult" where
  "fetchLogEntries env cl req limit =
     (let limit = min limit LogsHardLimit; req = req\<lparr>rq_PageSize := safeInt32 limit\<rparr>
      in collectLogEntries env cl (ListLogEntries cl req) (rq_PageToken req) limit)"

definition QueryLogs :: "('n, 'p) log_env \<Rightarrow> ('n, 'p, 'i) log_client \<Rightarrow> string \<Rightarrow> string \<Rightarrow> int \<Rightarrow> string \<Rightarrow> string \<Rightarrow>
    go_error + 'n logQueryResult" where
  "QueryLogs env cl project filt limit order pageToken =
     (if order \<noteq> ''asc'' \<and> order \<noteq> ''desc'' then Inl (Wrap ''invalid order'' [])
      else fetchLogEntries env cl
        \<lparr>rq_ResourceNames = [project_resource project], rq_Filter = filt,
         rq_OrderBy = (if order = ''asc'' then ''timestamp asc'' else ''timestamp desc''),
         rq_PageToken = pageToken, rq_PageSize = 0\<rparr> limit)"

definition QueryLogsByTrace :: "('n, 'p) log_env \<Rightarrow> ('n, 'p, 'i) log_client \<Rightarrow> string \<Rightarrow> string \<Rightarrow> string \<Rightarrow> int \<Rightarrow> string \<Rightarrow>
    go_error + 'n logQueryResult" where
  "QueryLogsByTrace env cl project traceID timeFilter limit pageToken =
     (let filt = ''trace='' @ [CHR 0x22] @ ''projects/'' @ project @ ''/traces/'' @ EscapeFilterValue traceID @ [CHR 0x22]
      in QueryLogs env cl project (AppendFilter filt timeFilter) limit ''asc'' pageToken)"

definition requestIDFilter :: "string \<Rightarrow> string" where
  "requestIDFilter requestID = ''operation.id='' @ [CHR 0x22] @ EscapeFilterValue requestID @ [CHR 0x22]"

definition QueryLogsByRequestID :: "('n, 'p) log_env \<Rightarrow> ('n, 'p, 'i) log_client \<Rightarrow> string \<Rightarrow> string \<Rightarrow> string \<Rightarrow> int \<Rightarrow>
    string \<Rightarrow> go_error + 'n logQueryResult" where
  "QueryLogsByRequestID env cl project requestID timeFilter limit pageToken =
     QueryLogs env cl project (AppendFilter (requestIDFilter requestID) timeFilter) limit ''asc'' pageToken"

subsection \<open>Finding requests\<close>

record findRequestsParams =
  fp_Project :: string
  fp_URLPattern :: string
  fp_Method :: string
  fp_StatusCode :: int
  fp_TracedOnly :: bool
  fp_TimeFilter :: string
  fp_Limit :: int

record requestInfo =
  rqi_Timestamp :: string
  rqi_Method :: string
  rqi_URL :: string
  rqi_Status :: int
  rqi_Latency :: string
  rqi_TraceID :: string
  rqi_RequestID :: string
  rqi_Service :: string
  rqi_ResourceType :: string

record requestList =
  rl_Count :: int
  rl_Requests :: "requestInfo list"
  rl_Truncated :: bool
  rl_TruncationHint :: string

definition quoted :: "string \<Rightarrow> string" where
  "quoted s = [CHR 0x22] @ s @ [CHR 0x22]"

definition requests_filter :: "findRequestsParams \<Rightarrow> string" where
  "requests_filter params =
     AppendFilter (join '' AND ''
       ([''httpRequest.requestUrl:'' @ quoted (EscapeFilterValue (fp_URLPattern params))] @
        (if fp_Method params \<noteq> [] then [''httpRequest.requestMethod='' @ quoted (EscapeFilterValue (fp_Method params))] else []) @
        (if 0 < fp_StatusCode params then [''httpRequest.status='' @ itoa (fp_StatusCode params)] else []) @
        (if fp_TracedOnly params then [''trace!='' @ quoted []] else [])))
       (fp_TimeFilter params)"

definition request_info :: "('n, 'p) pbEntry \<Rightarrow> pbHttp \<Rightarrow> requestInfo" where
  "request_info entry h = \<lparr>rqi_Timestamp = formatTimestamp (pb_Timestamp entry), rqi_Method = pbh_RequestMethod h,
     rqi_URL = pbh_RequestUrl h, rqi_Status = pbh_Status h, rqi_Latency = formatLatency (pbh_Latency h),
     rqi_TraceID = (if pb_Trace entry \<noteq> [] then extractTraceID (pb_Trace entry) else []),
     rqi_RequestID = (case pb_Operation entry of None \<Rightarrow> [] | Some (i, p) \<Rightarrow> i),
     rqi_Service = extractServiceName entry,
     rqi_ResourceType = (case pb_Resource entry of None \<Rightarrow> [] | Some (t, ls) \<Rightarrow> t)\<rparr>"

text \<open>\<open>k\<close> entries may still be scanned; it is 0 at the end when the scan used up its entries.\<close>

fun requests_loop :: "('n, 'p, 'i) log_client \<Rightarrow> int \<Rightarrow> nat \<Rightarrow> requestInfo list \<Rightarrow> 'i \<Rightarrow>
    go_error + (requestInfo list \<times> bool \<times> nat)" where
  "requests_loop cl limit 0 reqs it = Inr (reqs, False, 0)"
| "requests_loop cl limit (Suc k) reqs it =
     (if limit < int (length reqs) then Inr (reqs, False, Suc k)
      else (case it_Next cl it of
        (it', NextErr err) \<Rightarrow> if errors_is err iterator_Done then Inr (reqs, False, Suc k) else Inl (iter_error err)
      | (it', NextEntry entry) \<Rightarrow>
          (case pb_HttpRequest entry of
             None \<Rightarrow> requests_loop cl limit k reqs it'
           | Some h \<Rightarrow> if int (length reqs) = limit then Inr (reqs, True, k)
               else requests_loop cl limit k (reqs @ [request_info entry h]) it')))"

definition FindRequests :: "('n, 'p, 'i) log_client \<Rightarrow> findRequestsParams \<Rightarrow> go_error + requestList" where
  "FindRequests cl params =
     (let limit = min (fp_Limit params) LogsHardLimit;
          pageSize = min (limit * 3) LogsHardLimit;
          req = \<lparr>rq_ResourceNames = [project_resource (fp_Project params)], rq_Filter = requests_filter params,
            rq_OrderBy = ''timestamp desc'', rq_PageToken = [], rq_PageSize = safeInt32 pageSize\<rparr>
      in case requests_loop cl limit (nat LogsHardLimit) [] (ListLogEntries cl req) of
           Inl err \<Rightarrow> Inl err
         | Inr (reqs, truncated, k) \<Rightarrow>
             (let truncated = (truncated \<or> k = 0)
              in Inr \<lparr>rl_Count = int (length reqs), rl_Requests = reqs, rl_Truncated = truncated,
                   rl_TruncationHint = (if truncated then ''Showing the first '' @ itoa limit @
                     '' matching request(s). More matches exist; narrow the time range or URL pattern for a more focused sample set.''
                     else [])\<rparr>))"

subsection \<open>Services\<close>

record serviceInfo =
  si_Name :: string
  si_ResourceType :: string
  si_Namespace :: string

record serviceList =
  sl_Count :: int
  sl_Services :: "serviceInfo list"
  sl_Truncated :: bool
  sl_TruncationHint :: string

text \<open>The service an entry names, under the key that tells services apart.\<close>

definition identify_service :: "string \<Rightarrow> smap \<Rightarrow> (string \<times> serviceInfo) option" where
  "identify_service resType labels =
     (let named = (\<lambda>prefix label. if sget labels label = [] then None
            else Some (prefix @ sget labels label,
                   \<lparr>si_Name = sget labels label, si_ResourceType = resType, si_Namespace = []\<rparr>))
      in if resType = ''cloud_run_revision'' then named ''cloud_run:'' ''service_name''
         else if resType = ''k8s_container'' then
           (let container = sget labels ''container_name''; ns = sget labels ''namespace_name'' in
            if container = [] then None
            else Some (''k8s:'' @ ns @ ''/'' @ container,
                   \<lparr>si_Name = container, si_ResourceType = resType, si_Namespace = ns\<rparr>))
         else if resType = ''cloud_function'' then named ''cloud_function:'' ''function_name''
         else if resType = ''gae_app'' then
           (let m = sget labels ''module_id''; version = sget labels ''version_id'' in
            if m = [] then None
            else Some (''gae_app:'' @ m,
                   \<lparr>si_Name = (if version \<noteq> [] then m @ ''/'' @ version else m), si_ResourceType = resType, si_Namespace = []\<rparr>))
         else if resType = ''gce_instance'' then named ''gce_instance:'' ''instance_id''
         else None)"

text \<open>The map of the services seen, in the order of their discovery: the first entry of a key stays.\<close>

definition see_service :: "('n, 'p) pbEntry \<Rightarrow> (string \<times> serviceInfo) list \<Rightarrow> (string \<times> serviceInfo) list" where
  "see_service entry seen =
     (case pb_Resource entry of
        None \<Rightarrow> seen
      | Some (t, labels) \<Rightarrow>
          (case identify_service t labels of
             None \<Rightarrow> seen
           | Some (k, info) \<Rightarrow> if k \<in> fst ` set seen then seen else seen @ [(k, info)]))"

fun services_loop :: "('n, 'p, 'i) log_client \<Rightarrow> nat \<Rightarrow> (string \<times> serviceInfo) list \<Rightarrow> 'i \<Rightarrow>
    go_error + ((string \<times> serviceInfo) list \<times> nat)" where
  "services_loop cl 0 seen it = Inr (seen, 0)"
| "services_loop cl (Suc k) seen it =
     (case it_Next cl it of
        (it', NextErr err) \<Rightarrow> if errors_is err iterator_Done then Inr (seen, Suc k) else Inl (iter_error err)
      | (it', NextEntry entry) \<Rightarrow> services_loop cl k (see_service entry seen) it')"

definition services_filter :: string where
  "services_filter = ''('' @ join '' OR '' (map (\<lambda>t. ''resource.type='' @ quoted t)
     [''k8s_container'', ''cloud_run_revision'', ''cloud_function'', ''gae_app'', ''gce_instance'']) @ '')''"

text \<open>
  Sorting by name: the order of services with one name depends on the iteration order of the map,
  which is the argument \<open>order\<close> (a rearrangement of the services seen).
\<close>

definition ListServices :: "('n, 'p, 'i) log_client \<Rightarrow> ((string \<times> serviceInfo) list \<Rightarrow> serviceInfo list) \<Rightarrow> string \<Rightarrow>
    string \<Rightarrow> go_error + serviceList" where
  "ListServices cl order project timeFilter =
     (let req = \<lparr>rq_ResourceNames = [project_resource project], rq_Filter = AppendFilter services_filter timeFilter,
            rq_OrderBy = ''timestamp desc'', rq_PageToken = [], rq_PageSize = LogsHardLimit\<rparr>
      in case services_loop cl (nat LogsHardLimit) [] (ListLogEntries cl req) of
           Inl err \<Rightarrow> Inl err
         | Inr (seen, k) \<Rightarrow>
             (let services = sort_less (\<lambda>a b. si_Name a < si_Name b) (order seen)
              in Inr \<lparr>sl_Count = int (length services), sl_Services = services, sl_Truncated = (k = 0),
                   sl_TruncationHint = (if k = 0 then ''Service list is based on '' @ itoa LogsHardLimit @
                     '' sampled log entries and may be incomplete. Use logs_query with a specific resource.type filter to find services not listed here.''
                     else [])\<rparr>))"

subsection \<open>Summaries\<close>

record 'n logsSummary =
  ls_TotalEntries :: int
  ls_SeverityDistribution :: "(string \<times> int) list"
  ls_TopServices :: "(string \<times> int) list"
  ls_TopErrors :: "(string \<times> int) list"
  ls_SampleEntries :: "'n logEntry list"
  ls_Truncated :: bool
  ls_TruncationHint :: string

definition maxErrorMessageLen :: nat where "maxErrorMessageLen = 200"

definition extractErrorMessage :: "('n, 'p) pbEntry \<Rightarrow> string" where
  "extractErrorMessage entry =
     truncateUTF8
       (case pb_Payload entry of
          TextPayload t \<Rightarrow> t
        | JsonPayload (Some flds) \<Rightarrow> (case map_of flds ''message'' of Some (VString s) \<Rightarrow> s | _ \<Rightarrow> [])
        | _ \<Rightarrow> [])
       maxErrorMessageLen"

text \<open>\<open>m[k]++\<close> on a map of counts.\<close>

definition bump :: "string \<Rightarrow> (string \<times> int) list \<Rightarrow> (string \<times> int) list" where
  "bump k m = AList.update k ((case map_of m k of None \<Rightarrow> 0 | Some c \<Rightarrow> c) + 1) m"

definition count_before :: "string \<times> int \<Rightarrow> string \<times> int \<Rightarrow> bool" where
  "count_before a b = (snd b < snd a \<or> snd a = snd b \<and> fst a < fst b)"

text \<open>\<open>counts\<close> lists the map in some iteration order.\<close>

definition topNBy :: "(string \<times> int) list \<Rightarrow> nat \<Rightarrow> (string \<Rightarrow> int \<Rightarrow> 'a) \<Rightarrow> 'a list" where
  "topNBy counts n convert = map (\<lambda>kv. convert (fst kv) (snd kv)) (take n (sort_less count_before counts))"

definition topN :: "(string \<times> int) list \<Rightarrow> nat \<Rightarrow> (string \<times> int) list" where
  "topN counts n = topNBy counts n Pair"

record 'n summary_state =
  ss_total :: int
  ss_severity :: "(string \<times> int) list"
  ss_services :: "(string \<times> int) list"
  ss_errors :: "(string \<times> int) list"
  ss_samples :: "'n logEntry list"
  ss_progress :: "(int \<times> int) list"

definition summarize_entry :: "('n, 'p) log_env \<Rightarrow> ('n, 'p) pbEntry \<Rightarrow> 'n summary_state \<Rightarrow> 'n summary_state" where
  "summarize_entry env entry s =
     (let total = ss_total s + 1; svc = extractServiceName entry; msg = extractErrorMessage entry in
      \<lparr>ss_total = total,
       ss_severity = bump (severity_name env (pb_Severity entry)) (ss_severity s),
       ss_services = (if svc \<noteq> [] then bump svc (ss_services s) else ss_services s),
       ss_errors = (if LogSeverity_ERROR env \<le> pb_Severity entry \<and> msg \<noteq> [] then bump msg (ss_errors s) else ss_errors s),
       ss_samples = (if length (ss_samples s) < 5
          then ss_samples s @ [boundLogEntry (num_json env) (convertLogEntry env entry)] else ss_samples s),
       ss_progress = (if total mod 20 = 0 then ss_progress s @ [(total, LogsHardLimit)] else ss_progress s)\<rparr>)"

fun summary_loop :: "('n, 'p) log_env \<Rightarrow> ('n, 'p, 'i) log_client \<Rightarrow> nat \<Rightarrow> 'n summary_state \<Rightarrow> 'i \<Rightarrow>
    go_error + 'n summary_state" where
  "summary_loop env cl 0 s it = Inr s"
| "summary_loop env cl (Suc k) s it =
     (case it_Next cl it of
        (it', NextErr err) \<Rightarrow> if errors_is err iterator_Done then Inr s else Inl (iter_error err)
      | (it', NextEntry entry) \<Rightarrow> summary_loop env cl k (summarize_entry env entry s) it')"

text \<open>The second component of the result lists the calls of the progress callback.\<close>

definition SummarizeLogs :: "('n, 'p) log_env \<Rightarrow> ('n, 'p, 'i) log_client \<Rightarrow> string \<Rightarrow> string \<Rightarrow>
    go_error + ('n logsSummary \<times> (int \<times> int) list)" where
  "SummarizeLogs env cl project filt =
     (let req = \<lparr>rq_ResourceNames = [project_resource project], rq_Filter = filt,
            rq_OrderBy = ''timestamp desc'', rq_PageToken = [], rq_PageSize = LogsHardLimit\<rparr>
      in case summary_loop env cl (nat LogsHardLimit)
             \<lparr>ss_total = 0, ss_severity = [], ss_services = [], ss_errors = [], ss_samples = [], ss_progress = []\<rparr>
             (ListLogEntries cl req) of
           Inl err \<Rightarrow> Inl err
         | Inr s \<Rightarrow>
             (let truncated = (LogsHardLimit \<le> ss_total s) in
              Inr (\<lparr>ls_TotalEntries = ss_total s, ls_SeverityDistribution = ss_severity s,
                    ls_TopServices = topN (ss_services s) 10, ls_TopErrors = topN (ss_errors s) 10,
                    ls_SampleEntries = ss_samples s, ls_Truncated = truncated,
                    ls_TruncationHint = (if truncated then ''Results are based on '' @ itoa LogsHardLimit @
                      '' sampled entries. Narrow the time range or add a filter for a more complete picture. Use logs_query for full results with pagination.''
                      else [])\<rparr>, ss_progress s)))"

end
