(* ===== verification/Log_Traces.thy ===== *)
theory Log_Traces
  imports Log_Entries
begin

text \<open>
  Traces discovered in logs (\<open>internal/gcpdata/traces_from_logs.go\<close>): the scanned entries are
  grouped by trace ID, each group carries its volume, its time span and its most severe entry, and
  the groups are returned most active first.
\<close>

definition sampleMessageMaxLen :: nat where "sampleMessageMaxLen = 300"

text \<open>\<open>severityRanks\<close>: a missing key reads as 0.\<close>

definition severityRanks :: "string \<Rightarrow> int" where
  "severityRanks s = (case index_func (\<lambda>x. x = s) Severities of None \<Rightarrow> 0 | Some i \<Rightarrow> int i)"

definition firstLine :: "string \<Rightarrow> string" where
  "firstLine s =
     (let s = trim_space s;
          line = trim_space (case cut_char (CHR 0x0A) s of None \<Rightarrow> s | Some (a, b) \<Rightarrow> a)
      in if sampleMessageMaxLen < length line then truncateUTF8 line sampleMessageMaxLen @ ''...'' else line)"

fun first_field :: "(string \<times> 'n any) list \<Rightarrow> string list \<Rightarrow> string" where
  "first_field m [] = []"
| "first_field m (k # ks) =
     (case map_of m k of
        Some (AString s) \<Rightarrow> if firstLine s \<noteq> [] then firstLine s else first_field m ks
      | _ \<Rightarrow> first_field m ks)"

definition sampleLogMessage :: "'n logEntry \<Rightarrow> string" where
  "sampleLogMessage e =
     (if firstLine (le_TextPayload e) \<noteq> [] then firstLine (le_TextPayload e)
      else first_field (case le_JSONPayload e of None \<Rightarrow> [] | Some m \<Rightarrow> m) [''message'', ''msg'', ''error'', ''event''])"

definition serviceFromResourceInfo :: "resourceInfo option \<Rightarrow> string" where
  "serviceFromResourceInfo r = (case r of None \<Rightarrow> [] | Some r \<Rightarrow> serviceName (ri_Type r) (ri_Labels r))"

record traceFromLog =
  tl_TraceID :: string
  tl_LogCount :: int
  tl_FirstSeen :: string
  tl_LastSeen :: string
  tl_MaxSeverity :: string
  tl_Service :: string
  tl_ResourceType :: string
  tl_SampleMessage :: string

record aggregate = traceFromLog +
  ag_sevRank :: int

record traceFromLogsList =
  tll_Count :: int
  tll_ScannedEntries :: int
  tll_Traces :: "traceFromLog list"
  tll_Truncated :: bool
  tll_TruncationHint :: string

definition new_aggregate :: "string \<Rightarrow> 'n logEntry \<Rightarrow> aggregate" where
  "new_aggregate i e = \<lparr>tl_TraceID = i, tl_LogCount = 0, tl_FirstSeen = le_Timestamp e, tl_LastSeen = le_Timestamp e,
     tl_MaxSeverity = [], tl_Service = [], tl_ResourceType = [], tl_SampleMessage = [], ag_sevRank = - 1\<rparr>"

definition see_time :: "string \<Rightarrow> aggregate \<Rightarrow> aggregate" where
  "see_time ts a =
     (if ts = [] then a
      else (let a = (if tl_FirstSeen a = [] \<or> ts < tl_FirstSeen a then a\<lparr>tl_FirstSeen := ts\<rparr> else a)
            in if tl_LastSeen a < ts then a\<lparr>tl_LastSeen := ts\<rparr> else a))"

definition see_severity :: "'n logEntry \<Rightarrow> aggregate \<Rightarrow> aggregate" where
  "see_severity e a =
     (if ag_sevRank a < severityRanks (le_Severity e)
      then (let a = a\<lparr>ag_sevRank := severityRanks (le_Severity e), tl_MaxSeverity := le_Severity e\<rparr>
            in if sampleLogMessage e \<noteq> [] then a\<lparr>tl_SampleMessage := sampleLogMessage e\<rparr> else a)
      else a)"

definition see_resource :: "'n logEntry \<Rightarrow> aggregate \<Rightarrow> aggregate" where
  "see_resource e a =
     (let a = (if tl_Service a = [] then a\<lparr>tl_Service := serviceFromResourceInfo (le_Resource e)\<rparr> else a)
      in case le_Resource e of
           Some r \<Rightarrow> if tl_ResourceType a = [] then a\<lparr>tl_ResourceType := ri_Type r\<rparr> else a
         | None \<Rightarrow> a)"

definition see_entry :: "'n logEntry \<Rightarrow> aggregate \<Rightarrow> aggregate" where
  "see_entry e a =
     see_resource e (see_severity e (see_time (le_Timestamp e) (a\<lparr>tl_LogCount := tl_LogCount a + 1\<rparr>)))"

text \<open>The groups by trace ID, in the order of discovery.\<close>

definition add_to_group :: "(string \<times> aggregate) list \<Rightarrow> 'n logEntry \<Rightarrow> (string \<times> aggregate) list" where
  "add_to_group groups e =
     (if le_Trace e = [] then groups
      else (let i = extractTraceID (le_Trace e);
                a = (case map_of groups i of None \<Rightarrow> new_aggregate i e | Some a \<Rightarrow> a)
            in AList.update i (see_entry e a) groups))"

definition trace_before :: "traceFromLog \<Rightarrow> traceFromLog \<Rightarrow> bool" where
  "trace_before a b =
     (if tl_LogCount a \<noteq> tl_LogCount b then tl_LogCount b < tl_LogCount a
      else if tl_LastSeen a \<noteq> tl_LastSeen b then tl_LastSeen b < tl_LastSeen a
      else tl_TraceID a < tl_TraceID b)"

definition aggregateTracesFromLogs :: "'n logQueryResult \<Rightarrow> nat \<Rightarrow> traceFromLogsList" where
  "aggregateTracesFromLogs logs resultLimit =
     (let groups = foldl add_to_group [] (lq_Entries logs);
          traces = sort_less trace_before (map (\<lambda>x. traceFromLog.truncate (snd x)) groups);
          hints = (if lq_NextPageToken logs \<noteq> [] then [''Scanned the first '' @ itoa (lq_Count logs) @
                '' log entries; more match the filter. Narrow the filter or time range to cover the full set.''] else []);
          hints = (if resultLimit < length traces then hints @ [''Found '' @ itoa (int (length traces)) @
                '' distinct traces; returning the top '' @ itoa (int resultLimit) @ '' by log volume.''] else hints);
          traces = take resultLimit traces
      in \<lparr>tll_Count = int (length traces), tll_ScannedEntries = lq_Count logs, tll_Traces = traces,
          tll_Truncated = (hints \<noteq> []), tll_TruncationHint = join '' '' hints\<rparr>)"

definition FindTracesFromLogs :: "('n, 'p) log_env \<Rightarrow> ('n, 'p, 'i) log_client \<Rightarrow> string \<Rightarrow> string \<Rightarrow> string \<Rightarrow> int \<Rightarrow>
    nat \<Rightarrow> go_error + traceFromLogsList" where
  "FindTracesFromLogs env cl project filt timeFilter scanLimit resultLimit =
     (case QueryLogs env cl project (AppendFilter filt timeFilter) scanLimit ''desc'' [] of
        Inl err \<Rightarrow> Inl err
      | Inr logs \<Rightarrow> Inr (aggregateTracesFromLogs logs resultLimit))"

end
