(* ===== verification/Log_Props.thy ===== *)
theory Log_Props
  imports Log_Traces
begin

text \<open>
  Properties of the log queries: the byte budget of an entry, the shape of an entry, resuming a
  scan, the top counts, and the traces found in logs.
\<close>

subsection \<open>Sizes of encodings\<close>

lemma length_json_byte: "length (json_byte c) \<le> 6"
  by (simp add: json_byte_def Let_def)

lemma length_json_rune: "length u \<le> 6 \<Longrightarrow> length (json_rune u) \<le> 6"
  by (simp add: json_rune_def)

lemma rune_width_le: "rune_width s \<le> 4"
proof -
  have step: "x \<le> 4 \<Longrightarrow> y \<le> 4 \<Longrightarrow> (if P then x else y) \<le> (4 :: nat)" for P x y by simp
  have base: "0 \<le> (4 :: nat)" "1 \<le> (4 :: nat)" "2 \<le> (4 :: nat)" "3 \<le> (4 :: nat)" "4 \<le> (4 :: nat)" by simp_all
  show ?thesis
    unfolding rune_width_def Let_def by (cases s; simp only: list.case; intro step base)
qed

lemma length_json_chars: "length (json_chars s) \<le> 6 * length s"
proof (induction s rule: json_chars.induct)
  case 1
  then show ?case by simp
next
  case (2 c r)
  let ?w = "rune_width (c # r)"
  show ?case
  proof (cases "byte_of c < 128")
    case True
    with 2(1) length_json_byte [of c] show ?thesis by (simp add: json_chars.simps(2))
  next
    case False
    show ?thesis
    proof (cases "?w = 0")
      case True
      with False 2(2) show ?thesis by (simp add: json_chars.simps(2))
    next
      case w: False
      have "length (json_rune (take ?w (c # r))) \<le> 6"
        using length_json_rune [of "take ?w (c # r)"] rune_width_le [of "c # r"] by simp
      moreover have "length (json_chars (drop ?w (c # r))) \<le> 6 * (length (c # r) - ?w)"
        using 2(3) [OF False w] by simp
      moreover have "6 + 6 * (length (c # r) - ?w) \<le> 6 * length (c # r)" using w by simp
      moreover have "json_chars (c # r) = json_rune (take ?w (c # r)) @ json_chars (drop ?w (c # r))"
        using False w by (simp add: json_chars.simps(2))
      ultimately show ?thesis by simp
    qed
  qed
qed

lemma length_json_string: "length (json_string s) \<le> 6 * length s + 2"
  using length_json_chars [of s] by (simp add: json_string_def)

lemma length_join: "length (join sep ws) \<le> sum_list (map length ws) + length sep * length ws"
  by (induction sep ws rule: join.induct) auto

text \<open>The weight of the fields of an object bounds its length.\<close>

definition weight :: "(string \<times> string) list \<Rightarrow> nat" where
  "weight fs = sum_list (map (\<lambda>f. 6 * length (fst f) + 4 + length (snd f)) fs)"

lemma weight_simps [simp]:
  "weight [] = 0" "weight ((n, v) # fs) = 6 * length n + 4 + length v + weight fs" "weight (fs @ gs) = weight fs + weight gs"
  by (simp_all add: weight_def)

lemma length_json_object: "length (json_object fs) \<le> 2 + weight fs"
proof -
  have "sum_list (map length (map (\<lambda>f. json_string (fst f) @ '':'' @ snd f) fs)) + length fs \<le> weight fs"
  proof (induction fs)
    case Nil
    then show ?case by simp
  next
    case (Cons f fs)
    with length_json_string [of "fst f"] show ?case by (simp add: weight_def)
  qed
  with length_join [of "'',''" "map (\<lambda>f. json_string (fst f) @ '':'' @ snd f) fs"]
  show ?thesis by (simp add: json_object_def)
qed

lemma weight_omit_string: "weight (omit_string n s) \<le> 6 * length n + 6 + 6 * length s"
  using length_json_string [of s] by (simp add: omit_string_def omitempty_def)

lemma weight_omit_int:
  assumes "0 \<le> x" "x < 10 ^ 19"
  shows "weight (omit_int n x) \<le> 6 * length n + 23"
  using length_dec [of x 19] assms by (simp add: omit_int_def omitempty_def itoa_def)

lemma length_json_array: "length (json_array vs) \<le> 2 + sum_list (map length vs) + length vs"
  using length_join [of "'',''" vs] by (simp add: json_array_def)

subsection \<open>The byte budget\<close>

text \<open>The marks that the reductions leave: at most \<open>n\<close>, each at most 24 bytes long.\<close>

definition marks_le :: "nat \<Rightarrow> string list \<Rightarrow> bool" where
  "marks_le n marks = (length marks \<le> n \<and> (\<forall>m \<in> set marks. length m \<le> 24))"

lemma marks_le_step: "marks_le n marks \<Longrightarrow> length m \<le> 24 \<Longrightarrow> marks_le (Suc n) (marks @ [m])"
  by (auto simp: marks_le_def)

lemma marks_le_Suc: "marks_le n marks \<Longrightarrow> marks_le (Suc n) marks"
  by (auto simp: marks_le_def)

lemmas reduction_defs = bound_payload_def bound_http_def bound_labels_def drop_labels_def drop_resource_labels_def
  drop_http_def shorten_payload_def

text \<open>Every reduction adds a bounded number of marks, and the first one removes the JSON payload.\<close>

lemma bound_payload_marks:
  "marks_le n (snd x) \<Longrightarrow> marks_le (Suc n) (snd (bound_payload num x))"
  "le_JSONPayload (fst (bound_payload num x)) = None"
  by (cases x; auto simp: bound_payload_def Let_def split: option.split intro: marks_le_step marks_le_Suc)+

lemma bound_http_marks: "marks_le n (snd x) \<Longrightarrow> marks_le (Suc (Suc n)) (snd (bound_http x))"
  by (cases x; auto simp: bound_http_def marks_le_def split: option.split)

lemma bound_labels_marks: "marks_le n (snd x) \<Longrightarrow> marks_le (Suc (Suc n)) (snd (bound_labels x))"
  by (cases x; auto simp: bound_labels_def marks_le_def Let_def split: option.split prod.split)

lemma drop_marks:
  "marks_le n (snd x) \<Longrightarrow> marks_le (Suc n) (snd (drop_labels num x))"
  "marks_le n (snd x) \<Longrightarrow> marks_le (Suc n) (snd (drop_resource_labels num x))"
  "marks_le n (snd x) \<Longrightarrow> marks_le (Suc n) (snd (drop_http num x))"
  "marks_le n (snd x) \<Longrightarrow> marks_le (Suc n) (snd (shorten_payload num x))"
  by (cases x; auto simp: drop_labels_def drop_resource_labels_def drop_http_def shorten_payload_def
      split: option.split intro: marks_le_step marks_le_Suc)+

lemma JSONPayload_kept:
  "le_JSONPayload (fst (bound_http x)) = le_JSONPayload (fst x)"
  "le_JSONPayload (fst (bound_labels x)) = le_JSONPayload (fst x)"
  "le_JSONPayload (fst (drop_labels num x)) = le_JSONPayload (fst x)"
  "le_JSONPayload (fst (drop_resource_labels num x)) = le_JSONPayload (fst x)"
  "le_JSONPayload (fst (drop_http num x)) = le_JSONPayload (fst x)"
  "le_JSONPayload (fst (shorten_payload num x)) = le_JSONPayload (fst x)"
  by (cases x; simp add: reduction_defs Let_def split: option.split prod.split)+

text \<open>All reductions together.\<close>

definition reduced :: "('n \<Rightarrow> string option) \<Rightarrow> 'n logEntry \<Rightarrow> 'n logEntry \<times> string list" where
  "reduced num le = shorten_payload num (drop_http num (drop_resource_labels num (drop_labels num
     (bound_labels (bound_http (bound_payload num (le, [])))))))"

lemma reduced_marks: "marks_le 9 (snd (reduced num le))"
proof -
  have "marks_le 0 (snd (le, []))" by (simp add: marks_le_def)
  from drop_marks(4) [OF drop_marks(3) [OF drop_marks(2) [OF drop_marks(1)
      [OF bound_labels_marks [OF bound_http_marks [OF bound_payload_marks(1) [OF this]]]]]]]
  show ?thesis by (simp add: reduced_def eval_nat_numeral)
qed

lemma reduced_payload: "le_JSONPayload (fst (reduced num le)) = None"
  by (simp add: reduced_def JSONPayload_kept bound_payload_marks(2))

lemma boundLogEntry_cases:
  obtains (small) "json_len num le \<le> maxNormalizedLogEntryBytes" "boundLogEntry num le = le"
  | (reduced) le' where "boundLogEntry num le = le'" "le_JSONPayload le' = None" "json_len num le' \<le> maxNormalizedLogEntryBytes"
      "le_EntryTruncated le'" "le_TruncatedFields le' = snd (reduced num le)"
  | (routing) le' marks where "boundLogEntry num le = with_omitted num (json_len num le) (routing_record le' marks)"
      "marks_le 10 marks"
proof (cases "json_len num le \<le> maxNormalizedLogEntryBytes")
  case True
  then show ?thesis by (intro small) (simp_all add: boundLogEntry_def)
next
  case big: False
  obtain le1 marks where r: "reduced num le = (le1, marks)" by fastforce
  let ?le = "with_omitted num (json_len num le) (le1\<lparr>le_EntryTruncated := True, le_TruncatedFields := marks\<rparr>)"
  have b: "boundLogEntry num le = (if maxNormalizedLogEntryBytes < json_len num ?le
      then with_omitted num (json_len num le) (routing_record ?le (marks @ [''oversized_metadata''])) else ?le)"
    using big r by (simp add: boundLogEntry_def reduced_def Let_def)
  show ?thesis
  proof (cases "maxNormalizedLogEntryBytes < json_len num ?le")
    case True
    have "marks_le 10 (marks @ [''oversized_metadata''])"
      using marks_le_step [OF reduced_marks [of num le], of "''oversized_metadata''"] r by simp
    with b True show ?thesis by (intro routing) simp_all
  next
    case False
    with b r reduced_payload [of num le] show ?thesis by (intro reduced [of ?le]) (simp_all add: with_omitted_def)
  qed
qed

text \<open>The routing record fits, whatever is in it.\<close>

lemma sum_list_length_le: "(\<And>x. x \<in> set xs \<Longrightarrow> f x \<le> (b::nat)) \<Longrightarrow> sum_list (map f xs) \<le> b * length xs"
  by (induction xs) fastforce+

lemma weight_marks:
  assumes "marks_le n marks"
  shows "length (json_array (map json_string marks)) \<le> 2 + 147 * n"
proof -
  have "sum_list (map length (map json_string marks)) \<le> 146 * length marks"
    unfolding map_map using assms length_json_string
    by (intro sum_list_length_le) (fastforce simp: marks_le_def intro: order_trans)
  with length_json_array [of "map json_string marks"] assms show ?thesis by (simp add: marks_le_def)
qed

lemma routing_record_length:
  assumes "marks_le 10 marks" "original < 2 ^ 63"
  shows "json_len num (with_omitted num original (routing_record le marks)) \<le> maxNormalizedLogEntryBytes"
proof -
  let ?r = "with_omitted num original (routing_record le marks)"
  let ?o = "max 0 (int original - int (json_len num (routing_record le marks)))"
  have s: "length (json_string (truncateUTF8 s n)) \<le> 6 * n + 2" for s n
    using length_json_string [of "truncateUTF8 s n"] length_truncateUTF8 [of s n] by linarith
  have o: "weight (omit_string m (truncateUTF8 s n)) \<le> 6 * length m + 6 + 6 * n" for m s n
    using weight_omit_string [of m "truncateUTF8 s n"] length_truncateUTF8 [of s n] by linarith
  have i: "weight (omit_int m ?o) \<le> 6 * length m + 23" for m
    using assms(2) by (intro weight_omit_int) auto
  have f: "weight (omitempty b ''truncated_fields'' (json_array (map json_string marks))) \<le> 1572" for b
    using weight_marks [OF assms(1)] by (simp add: omitempty_def)
  have "json_len num ?r = length (json_object (entry_fields ?r []))"
    by (simp add: json_len_def json_entry_def with_omitted_def routing_record_def zero_logEntry_def)
  also have "\<dots> \<le> 2 + weight (entry_fields ?r [])" by (rule length_json_object)
  also have "\<dots> \<le> maxNormalizedLogEntryBytes"
    using s [of "le_Timestamp le" 64] s [of "le_Severity le" 32] s [of "le_LogName le" 256] s [of "le_InsertID le" 128]
      o [of "''trace''" "le_Trace le" 256] o [of "''span_id''" "le_SpanID le" 64] i [of "''omitted_bytes''"] f [of "marks = []"]
    by (simp add: entry_fields_def with_omitted_def routing_record_def zero_logEntry_def omit_some_def
        omit_string_def [of _ "[]"] omitempty_def [of True] omitempty_def [of False] maxNormalizedLogEntryBytes_def)
  finally show ?thesis .
qed

text \<open>
  C17: an entry returned to the client is at most 8 KiB of JSON: an entry within the budget is
  returned unchanged, and an entry beyond it is reduced to the budget and marked as truncated, with
  the names of the reduced fields. It is assumed that the entry can be encoded at all (its payload
  has no number JSON cannot represent) and that its length is a machine integer.
\<close>

theorem entry_within_budget:
  assumes "json_entry num le \<noteq> None" "json_len num le < 2 ^ 63"
  shows "\<exists>s. json_entry num (boundLogEntry num le) = Some s \<and> length s \<le> 8192 \<and>
     (json_len num le \<le> 8192 \<longrightarrow> boundLogEntry num le = le) \<and>
     (8192 < json_len num le \<longrightarrow> le_EntryTruncated (boundLogEntry num le) \<and> le_JSONPayload (boundLogEntry num le) = None)"
proof (cases num le rule: boundLogEntry_cases)
  case small
  with assms(1) show ?thesis by (auto simp: json_len_def maxNormalizedLogEntryBytes_def)
next
  case (reduced le')
  then obtain s where "json_entry num le' = Some s" by (simp add: json_entry_def)
  with reduced show ?thesis
    by (auto simp: json_len_def maxNormalizedLogEntryBytes_def boundLogEntry_def)
next
  case (routing le' marks)
  let ?r = "with_omitted num (json_len num le) (routing_record le' marks)"
  obtain s where "json_entry num ?r = Some s"
    by (simp add: json_entry_def with_omitted_def routing_record_def zero_logEntry_def)
  moreover have "le_EntryTruncated ?r" "le_JSONPayload ?r = None"
    by (simp_all add: with_omitted_def routing_record_def zero_logEntry_def)
  moreover have "boundLogEntry num le = le" if "json_len num le \<le> 8192"
    using that by (simp add: boundLogEntry_def maxNormalizedLogEntryBytes_def)
  ultimately show ?thesis
    using routing routing_record_length [OF routing(2) assms(2), of num le']
    by (auto simp: json_len_def maxNormalizedLogEntryBytes_def)
qed

text \<open>
  An entry whose payload JSON cannot represent (a number that is not finite) is returned as it is,
  whatever its size: the encoder's error is ignored and counts as no bytes.
\<close>

lemma unencodable_entry_unbounded: "json_entry num le = None \<Longrightarrow> boundLogEntry num le = le"
  by (simp add: boundLogEntry_def json_len_def)

subsection \<open>The shape of an entry\<close>

lemma convert_payload_shape:
  "le_TextPayload le = [] \<Longrightarrow> le_JSONPayload le = None \<Longrightarrow>
     le_JSONPayload (convert_payload env p le) = None \<or> le_TextPayload (convert_payload env p le) = []"
  by (simp add: convert_payload_def split: payload.split sum.split)

lemma convert_payload_fresh:
  "le_EntryTruncated (convert_payload env p le) = le_EntryTruncated le"
  "le_TruncatedFields (convert_payload env p le) = le_TruncatedFields le"
  "le_OmittedBytes (convert_payload env p le) = le_OmittedBytes le"
  by (simp_all add: convert_payload_def split: payload.split sum.split)

lemma convertLogEntry_shape:
  "le_JSONPayload (convertLogEntry env e) = None \<or> le_TextPayload (convertLogEntry env e) = []"
  "\<not> le_EntryTruncated (convertLogEntry env e)" "le_TruncatedFields (convertLogEntry env e) = []"
  "le_OmittedBytes (convertLogEntry env e) = 0"
  using convert_payload_shape [of _ env "pb_Payload e"]
  by (simp_all add: convertLogEntry_def Let_def zero_logEntry_def convert_payload_fresh)

text \<open>
  Every entry the tools return has a text payload or a JSON payload, never both; it is marked
  as truncated exactly when it was reduced, and a reduced entry has no JSON payload; an entry that
  is not marked is the converted entry itself, with nothing omitted.
\<close>

theorem entry_payload_exclusive:
  fixes env :: "('n, 'p) log_env"
  defines "bounded \<equiv> \<lambda>e. boundLogEntry (num_json env) (convertLogEntry env e)"
  shows "(le_JSONPayload (bounded e) = None \<or> le_TextPayload (bounded e) = []) \<and>
         (if le_EntryTruncated (bounded e) then le_JSONPayload (bounded e) = None \<and> 0 \<le> le_OmittedBytes (bounded e)
          else bounded e = convertLogEntry env e \<and> le_TruncatedFields (bounded e) = [] \<and> le_OmittedBytes (bounded e) = 0)"
proof (cases "num_json env" "convertLogEntry env e" rule: boundLogEntry_cases)
  case small
  with convertLogEntry_shape [of env e] show ?thesis by (auto simp: bounded_def)
next
  case (reduced le')
  moreover have "0 \<le> le_OmittedBytes le'"
  proof (cases "json_len (num_json env) (convertLogEntry env e) \<le> maxNormalizedLogEntryBytes")
    case True
    with reduced show ?thesis using convertLogEntry_shape(2) by (auto simp: boundLogEntry_def)
  next
    case False
    with reduced(1,3) show ?thesis
      by (auto simp: boundLogEntry_def Let_def with_omitted_def split: prod.splits if_splits)
  qed
  ultimately show ?thesis by (simp add: bounded_def)
next
  case (routing le' marks)
  then show ?thesis by (simp add: bounded_def with_omitted_def routing_record_def zero_logEntry_def)
qed

subsection \<open>Resuming a scan\<close>

text \<open>
  What the scan relies on: \<open>rest\<close> lists the entries an iterator has still to deliver and \<open>page_from\<close>
  those from a page token on. A fetch that fails leaves nothing buffered and the token on the page
  that failed.
\<close>

locale log_pager =
  fixes cl :: "('n, 'p, 'i) log_client"
    and rest :: "'i \<Rightarrow> ('n, 'p) pbEntry list"
    and page_from :: "string \<Rightarrow> ('n, 'p) pbEntry list"
  assumes next_entry: "it_Next cl it = (it', NextEntry e) \<Longrightarrow> rest it = e # rest it'"
    and next_done: "it_Next cl it = (it', NextErr err) \<Longrightarrow> errors_is err iterator_Done \<Longrightarrow>
      rest it = [] \<and> rest it' = [] \<and> it_Token cl it' = []"
    and next_failed: "it_Next cl it = (it', NextErr err) \<Longrightarrow> \<not> errors_is err iterator_Done \<Longrightarrow>
      rest it' = rest it \<and> (it_Token cl it' \<noteq> [] \<longrightarrow> page_from (it_Token cl it') = rest it')"
begin

lemma collect_loop_rest:
  assumes "collect_loop env cl start k acc it = Inr (entries, incomplete, it')"
  shows "\<exists>es. entries = acc @ map (\<lambda>e. boundLogEntry (num_json env) (convertLogEntry env e)) es \<and> rest it = es @ rest it' \<and>
     length es \<le> k \<and> (incomplete \<longrightarrow> it_Token cl it' \<noteq> [] \<and> page_from (it_Token cl it') = rest it') \<and>
     (\<not> incomplete \<and> length es < k \<longrightarrow> rest it' = [] \<and> it_Token cl it' = [])"
  using assms
proof (induction k arbitrary: acc it)
  case 0
  then show ?case by simp
next
  case (Suc k)
  obtain it1 r where n: "it_Next cl it = (it1, r)" by fastforce
  show ?case
  proof (cases r)
    case (NextEntry e)
    have "collect_loop env cl start k (acc @ [boundLogEntry (num_json env) (convertLogEntry env e)]) it1 =
        Inr (entries, incomplete, it')"
      using Suc.prems n NextEntry by simp
    from Suc.IH [OF this] obtain es where
      es: "entries = acc @ map (\<lambda>e. boundLogEntry (num_json env) (convertLogEntry env e)) (e # es)" "rest it1 = es @ rest it'"
        "length es \<le> k" "incomplete \<longrightarrow> it_Token cl it' \<noteq> [] \<and> page_from (it_Token cl it') = rest it'"
        "\<not> incomplete \<and> length es < k \<longrightarrow> rest it' = [] \<and> it_Token cl it' = []"
      by auto
    with next_entry n NextEntry show ?thesis by (intro exI [of _ "e # es"]) simp
  next
    case (NextErr err)
    show ?thesis
    proof (cases "errors_is err iterator_Done")
      case True
      with Suc.prems n NextErr next_done show ?thesis by (intro exI [of _ "[]"]) simp
    next
      case False
      with Suc.prems n NextErr have "it' = it1" "incomplete" "entries = acc" "it_Token cl it' \<noteq> []"
        by (auto simp: Let_def split: if_splits)
      with next_failed n NextErr False show ?thesis by (intro exI [of _ "[]"]) simp
    qed
  qed
qed

lemma collect_rest:
  assumes "collectLogEntries env cl it start limit = Inr r"
  shows "\<exists>es es'. lq_Entries r = map (\<lambda>e. boundLogEntry (num_json env) (convertLogEntry env e)) es \<and> rest it = es @ es' \<and>
     length es \<le> nat limit \<and> (lq_ScanIncomplete r \<longrightarrow> lq_NextPageToken r \<noteq> [] \<and> page_from (lq_NextPageToken r) = es') \<and>
     (\<not> lq_ScanIncomplete r \<and> length es < nat limit \<longrightarrow> es' = [] \<and> lq_NextPageToken r = [])"
proof -
  obtain entries incomplete it' where c: "collect_loop env cl start (nat limit) [] it = Inr (entries, incomplete, it')"
    "lq_Entries r = entries" "lq_NextPageToken r = it_Token cl it'" "lq_ScanIncomplete r = incomplete"
    using assms by (auto simp: collectLogEntries_def split: sum.splits)
  from collect_loop_rest [OF c(1)] c(2-) show ?thesis by auto
qed

end

subsection \<open>A reference pager\<close>

text \<open>
  The documented behaviour of the iterator on a result of given pages: it delivers its buffer, then
  fetches the page of its token, passing over empty pages. The state is the buffer, the number of
  the next page (its token is the number in unary, so the first page has the empty token), and the
  number of fetches that succeed before the time budget of the scan is used up.
\<close>

type_synonym ('n, 'p) pager_state = "('n, 'p) pbEntry list \<times> nat \<times> nat"

fun pager_fetch :: "('n, 'p) pbEntry list list \<Rightarrow> nat \<Rightarrow> nat \<Rightarrow> ('n, 'p) pager_state \<times> ('n, 'p) next_entry" where
  "pager_fetch pages i 0 =
     (([], i, 0), NextErr (if length pages \<le> i then iterator_Done else Wrap ''rpc error'' [errLogScanBudget]))"
| "pager_fetch pages i (Suc k) =
     (if length pages \<le> i then (([], i, Suc k), NextErr iterator_Done)
      else (case pages ! i of [] \<Rightarrow> pager_fetch pages (Suc i) k | e # page \<Rightarrow> ((page, Suc i, k), NextEntry e)))"

definition pager_next :: "('n, 'p) pbEntry list list \<Rightarrow> ('n, 'p) pager_state \<Rightarrow> ('n, 'p) pager_state \<times> ('n, 'p) next_entry" where
  "pager_next pages it =
     (case it of (buf, i, k) \<Rightarrow> (case buf of [] \<Rightarrow> pager_fetch pages i k | e # buf \<Rightarrow> ((buf, i, k), NextEntry e)))"

definition pager_token :: "('n, 'p) pbEntry list list \<Rightarrow> ('n, 'p) pager_state \<Rightarrow> string" where
  "pager_token pages it = (case it of (buf, i, k) \<Rightarrow> if i < length pages then replicate i (CHR ''1'') else [])"

definition pager_client :: "('n, 'p) pbEntry list list \<Rightarrow> nat \<Rightarrow> ('n, 'p, ('n, 'p) pager_state) log_client" where
  "pager_client pages k = \<lparr>ListLogEntries = \<lambda>req. ([], length (rq_PageToken req), k),
     it_Next = pager_next pages, it_Token = pager_token pages, ctx_Cause = \<lambda>it. Some errLogScanBudget\<rparr>"

definition pager_rest :: "('n, 'p) pbEntry list list \<Rightarrow> ('n, 'p) pager_state \<Rightarrow> ('n, 'p) pbEntry list" where
  "pager_rest pages it = (case it of (buf, i, k) \<Rightarrow> buf @ concat (drop i pages))"

definition pages_from :: "('n, 'p) pbEntry list list \<Rightarrow> string \<Rightarrow> ('n, 'p) pbEntry list" where
  "pages_from pages t = concat (drop (length t) pages)"

lemma scan_errors [simp]:
  "\<not> errors_is errLogScanBudget iterator_Done" "Wrap m es \<noteq> iterator_Done" "errors_is iterator_Done iterator_Done"
  by (simp_all add: errLogScanBudget_def DeadlineExceeded_def iterator_Done_def)

lemma pager_simps [simp]:
  "pager_rest pages (buf, i, k) = buf @ concat (drop i pages)"
  "pager_token pages (buf, i, k) = (if i < length pages then replicate i (CHR ''1'') else [])"
  "pages_from pages (replicate i c) = concat (drop i pages)"
  by (simp_all add: pager_rest_def pager_token_def pages_from_def)

text \<open>What the iterator does in one fetch, given what it had still to deliver.\<close>

definition fetch_ok :: "('n, 'p) pbEntry list list \<Rightarrow> ('n, 'p) pbEntry list \<Rightarrow> ('n, 'p) pager_state \<Rightarrow> ('n, 'p) next_entry \<Rightarrow> bool" where
  "fetch_ok pages es it' r =
     (case r of
        NextEntry e \<Rightarrow> es = e # pager_rest pages it'
      | NextErr err \<Rightarrow>
          if errors_is err iterator_Done then es = [] \<and> pager_rest pages it' = [] \<and> pager_token pages it' = []
          else pager_rest pages it' = es \<and> pages_from pages (pager_token pages it') = es)"

lemma pager_fetch_ok: "case pager_fetch pages i k of (it', r) \<Rightarrow> fetch_ok pages (concat (drop i pages)) it' r"
proof (induction pages i k rule: pager_fetch.induct)
  case (1 pages i)
  then show ?case by (simp add: fetch_ok_def)
next
  case (2 pages i k)
  show ?case
  proof (cases "length pages \<le> i")
    case True
    then show ?thesis by (simp add: fetch_ok_def)
  next
    case False
    then have d: "drop i pages = pages ! i # drop (Suc i) pages" by (simp add: Cons_nth_drop_Suc)
    show ?thesis
    proof (cases "pages ! i")
      case Nil
      with 2 False d show ?thesis by simp
    next
      case (Cons e page)
      with False d show ?thesis by (simp add: fetch_ok_def)
    qed
  qed
qed

lemma pager_next_ok: "pager_next pages it = (it', r) \<Longrightarrow> fetch_ok pages (pager_rest pages it) it' r"
proof -
  assume n: "pager_next pages it = (it', r)"
  obtain buf i k where it: "it = (buf, i, k)" by (cases it)
  show ?thesis
  proof (cases buf)
    case Nil
    with n it pager_fetch_ok [of pages i k] show ?thesis by (simp add: pager_next_def)
  next
    case (Cons e es)
    with n it show ?thesis by (auto simp: pager_next_def fetch_ok_def)
  qed
qed

interpretation pager: log_pager "pager_client pages k" "pager_rest pages" "pages_from pages" for pages k
  by unfold_locales (use pager_next_ok [of pages] in \<open>fastforce simp: pager_client_def fetch_ok_def\<close>)+

text \<open>
  C18: a scan never loses or repeats an entry when it stops early: the entries returned are a
  prefix of what the query has to deliver; when the scan stopped on its time budget, the token it
  returns resumes with exactly the entries that follow; when it returned fewer entries than
  wanted and did not stop early, nothing is left and there is no token.
\<close>

theorem scan_resumes_without_loss:
  assumes "log_pager cl rest page_from" "collectLogEntries env cl it start limit = Inr r"
  shows "\<exists>es es'. lq_Entries r = map (\<lambda>e. boundLogEntry (num_json env) (convertLogEntry env e)) es \<and> rest it = es @ es' \<and>
     lq_Count r = int (length es) \<and> length es \<le> nat limit \<and>
     (lq_ScanIncomplete r \<longrightarrow> lq_NextPageToken r \<noteq> [] \<and> page_from (lq_NextPageToken r) = es') \<and>
     (\<not> lq_ScanIncomplete r \<and> length es < nat limit \<longrightarrow> es' = [] \<and> lq_NextPageToken r = [])"
proof -
  obtain es es' where
    "lq_Entries r = map (\<lambda>e. boundLogEntry (num_json env) (convertLogEntry env e)) es" "rest it = es @ es'" "length es \<le> nat limit"
    "lq_ScanIncomplete r \<longrightarrow> lq_NextPageToken r \<noteq> [] \<and> page_from (lq_NextPageToken r) = es'"
    "\<not> lq_ScanIncomplete r \<and> length es < nat limit \<longrightarrow> es' = [] \<and> lq_NextPageToken r = []"
    using log_pager.collect_rest [OF assms] by blast
  moreover have "lq_Count r = int (length (lq_Entries r))"
    using assms(2) by (auto simp: collectLogEntries_def split: sum.splits)
  ultimately show ?thesis by auto
qed

text \<open>
  When the limit is reached inside a page, the entries of that page that are already buffered
  are lost to a client that goes on with the returned token: here the pages hold two entries each,
  three are wanted, and the answer has no token at all although a fourth entry matches.
\<close>

theorem page_limit_drops_buffered:
  "fetchLogEntries env (pager_client [[a, b], [c, d]] (Suc (Suc k)))
     \<lparr>rq_ResourceNames = rs, rq_Filter = filt, rq_OrderBy = order, rq_PageToken = [], rq_PageSize = 0\<rparr> 3 =
   Inr \<lparr>lq_Count = 3, lq_Entries = map (\<lambda>e. boundLogEntry (num_json env) (convertLogEntry env e)) [a, b, c],
     lq_NextPageToken = [], lq_ScanIncomplete = False\<rparr>"
proof -
  have "nat (3::int) = Suc (Suc (Suc 0))" by simp
  then show ?thesis
    by (simp add: fetchLogEntries_def collectLogEntries_def pager_client_def pager_next_def LogsHardLimit_def Let_def numeral_3_eq_3)
qed

definition ex_entry :: "string \<Rightarrow> (nat, unit) pbEntry" where
  "ex_entry t = \<lparr>pb_Timestamp = None, pb_Severity = 500, pb_LogName = ''l'', pb_InsertId = t, pb_Trace = [], pb_SpanId = [],
     pb_Labels = [], pb_Resource = None, pb_Payload = TextPayload t, pb_HttpRequest = None, pb_Operation = None\<rparr>"

definition ex_env :: "(nat, unit) log_env" where
  "ex_env = \<lparr>severity_name = \<lambda>n. ''ERROR'', LogSeverity_ERROR = 500, protojson = \<lambda>p. Inl (Sentinel ''no payload''),
     unmarshal = \<lambda>s. Inr None, num_json = \<lambda>n. None\<rparr>"

text \<open>A scan over an empty page and a page of one entry whose time budget allows one fetch only.\<close>

theorem scan_resumes_without_loss_witness:
  "\<exists>r. collectLogEntries ex_env (pager_client [[], [ex_entry ''a'']] 1) ([], 0, 1) [] 5 = Inr r \<and>
       lq_ScanIncomplete r \<and> pages_from [[], [ex_entry ''a'']] (lq_NextPageToken r) = [ex_entry ''a'']"
proof -
  let ?pages = "[[], [ex_entry ''a'']]"
  obtain r where r: "collectLogEntries ex_env (pager_client ?pages 1) ([], 0, 1) [] 5 = Inr r" "lq_ScanIncomplete r" "lq_Entries r = []"
    by (simp add: collectLogEntries_def pager_client_def pager_next_def Let_def numeral_eq_Suc)
  from scan_resumes_without_loss [OF pager.log_pager_axioms r(1)] r show ?thesis by auto
qed

theorem entry_within_budget_witness:
  "\<exists>s. json_entry (num_json ex_env) (boundLogEntry (num_json ex_env) zero_logEntry) = Some s \<and> length s \<le> 8192"
proof -
  have "json_entry (num_json ex_env) zero_logEntry \<noteq> None" by (simp add: json_entry_def zero_logEntry_def)
  moreover have "json_len (num_json ex_env) zero_logEntry < 2 ^ 63"
  proof -
    have "json_len (num_json ex_env) zero_logEntry \<le> 2 + weight (entry_fields (zero_logEntry :: nat logEntry) [])"
      using length_json_object [of "entry_fields (zero_logEntry :: nat logEntry) []"]
      by (simp add: json_len_def json_entry_def zero_logEntry_def)
    also have "\<dots> < 2 ^ 63"
      by (simp add: entry_fields_def zero_logEntry_def omit_some_def omit_string_def omit_int_def omitempty_def json_string_def)
    finally show ?thesis .
  qed
  ultimately show ?thesis using entry_within_budget by blast
qed

subsection \<open>The top counts\<close>

interpretation count_order: strict_weak_order count_before
  by unfold_locales (auto simp: count_before_def)

lemma count_sort_unique:
  assumes "distinct (map fst counts)" "mset counts' = mset counts"
  shows "sort_less count_before counts' = sort_less count_before counts"
proof (rule sorted_wrt_unique [OF count_order.sorted_sort_less count_order.sorted_sort_less])
  show "mset (sort_less count_before counts') = mset (sort_less count_before counts)" using assms(2) by simp
  fix x y
  assume "x \<in> set (sort_less count_before counts')" "y \<in> set (sort_less count_before counts')"
    "\<not> count_before y x" "\<not> count_before x y"
  then show "x = y" by (auto simp: count_before_def prod_eq_iff)
qed

text \<open>
  The top counts of a summary do not depend on the iteration order of the map of counts; there
  are as many as asked for, or all of them; each is an entry of the map, more frequent ones come
  first with ties in the order of the keys, and nothing left out is more frequent than anything kept.
\<close>

theorem top_counts_deterministic:
  assumes "distinct (map fst counts)" "mset counts' = mset counts"
  shows "topN counts' n = topN counts n \<and> length (topN counts n) = min n (length counts) \<and>
         set (topN counts n) \<subseteq> set counts \<and> sorted_wrt (\<lambda>a b. \<not> count_before b a) (topN counts n) \<and>
         (\<forall>x \<in> set counts - set (topN counts n). \<forall>y \<in> set (topN counts n). snd x \<le> snd y)"
proof -
  let ?s = "sort_less count_before counts"
  have top: "topN counts n = take n ?s" by (simp add: topN_def topNBy_def)
  have "topN counts' n = topN counts n"
    by (simp add: topN_def topNBy_def count_sort_unique [OF assms])
  moreover have "length (topN counts n) = min n (length counts)" by (simp add: top min.commute)
  moreover have "set (topN counts n) \<subseteq> set counts" using set_take_subset [of n ?s] by (simp add: top)
  moreover have "sorted_wrt (\<lambda>a b. \<not> count_before b a) (topN counts n)"
    using count_order.sorted_sort_less [of counts] unfolding top by (rule sorted_wrt_take)
  moreover have "snd x \<le> snd y" if "x \<in> set counts - set (topN counts n)" "y \<in> set (topN counts n)" for x y
  proof -
    have "set ?s = set (take n ?s) \<union> set (drop n ?s)" by (metis append_take_drop_id set_append)
    with that(1) top have "x \<in> set (drop n ?s)" by auto
    then have "\<not> count_before x y"
      using count_order.take_sort_less_best that(2) top by metis
    then show ?thesis by (auto simp: count_before_def)
  qed
  ultimately show ?thesis by blast
qed

theorem top_counts_deterministic_witness:
  "topN [(''b'', 2), (''a'', 2), (''c'', 5)] 2 = topN [(''a'', 2), (''c'', 5), (''b'', 2)] 2"
  using top_counts_deterministic [of "[(''a'', 2), (''c'', 5), (''b'', 2)]" "[(''b'', 2), (''a'', 2), (''c'', 5)]" 2] by simp

subsection \<open>Traces found in logs\<close>

interpretation trace_order: strict_weak_order trace_before
  by unfold_locales (auto simp: trace_before_def split: if_splits)

definition of_trace :: "string \<Rightarrow> 'n logEntry \<Rightarrow> bool" where
  "of_trace i e = (le_Trace e \<noteq> [] \<and> extractTraceID (le_Trace e) = i)"

text \<open>What a group says of the entries it was made from.\<close>

definition group_ok :: "'n logEntry list \<Rightarrow> string \<Rightarrow> aggregate \<Rightarrow> bool" where
  "group_ok es i a =
     (tl_TraceID a = i \<and> tl_LogCount a = int (length (filter (of_trace i) es)) \<and> 0 < tl_LogCount a \<and>
      (\<forall>e \<in> set es. of_trace i e \<longrightarrow>
         (le_Timestamp e \<noteq> [] \<longrightarrow> tl_FirstSeen a \<noteq> [] \<and> tl_FirstSeen a \<le> le_Timestamp e \<and> le_Timestamp e \<le> tl_LastSeen a) \<and>
         severityRanks (le_Severity e) \<le> ag_sevRank a) \<and>
      (\<exists>e \<in> set es. of_trace i e \<and> tl_MaxSeverity a = le_Severity e \<and> ag_sevRank a = severityRanks (le_Severity e)))"

lemma severityRanks_nonneg: "0 \<le> severityRanks s"
  by (simp add: severityRanks_def split: option.split)

lemma see_resource_fields [simp]:
  "tl_TraceID (see_resource e a) = tl_TraceID a" "tl_LogCount (see_resource e a) = tl_LogCount a"
  "tl_FirstSeen (see_resource e a) = tl_FirstSeen a" "tl_LastSeen (see_resource e a) = tl_LastSeen a"
  "tl_MaxSeverity (see_resource e a) = tl_MaxSeverity a" "ag_sevRank (see_resource e a) = ag_sevRank a"
  by (simp_all add: see_resource_def Let_def split: option.split)

lemma see_severity_fields [simp]:
  "tl_TraceID (see_severity e a) = tl_TraceID a" "tl_LogCount (see_severity e a) = tl_LogCount a"
  "tl_FirstSeen (see_severity e a) = tl_FirstSeen a" "tl_LastSeen (see_severity e a) = tl_LastSeen a"
  "ag_sevRank (see_severity e a) = max (ag_sevRank a) (severityRanks (le_Severity e))"
  "tl_MaxSeverity (see_severity e a) = (if ag_sevRank a < severityRanks (le_Severity e) then le_Severity e else tl_MaxSeverity a)"
  by (simp_all add: see_severity_def Let_def)

lemma see_time_fields [simp]:
  "tl_TraceID (see_time t a) = tl_TraceID a" "tl_LogCount (see_time t a) = tl_LogCount a"
  "ag_sevRank (see_time t a) = ag_sevRank a" "tl_MaxSeverity (see_time t a) = tl_MaxSeverity a"
  "tl_FirstSeen (see_time t a) = (if t \<noteq> [] \<and> (tl_FirstSeen a = [] \<or> t < tl_FirstSeen a) then t else tl_FirstSeen a)"
  "tl_LastSeen (see_time t a) = (if t \<noteq> [] \<and> tl_LastSeen a < t then t else tl_LastSeen a)"
  by (simp_all add: see_time_def Let_def)

lemma group_ok_other: "group_ok es i a \<Longrightarrow> \<not> of_trace i e \<Longrightarrow> group_ok (es @ [e]) i a"
  by (auto simp: group_ok_def)

lemma group_ok_see:
  assumes "group_ok es i a" "of_trace i e"
  shows "group_ok (es @ [e]) i (see_entry e a)"
proof -
  let ?a = "see_entry e a"
  have times: "le_Timestamp x \<noteq> [] \<longrightarrow> tl_FirstSeen ?a \<noteq> [] \<and> tl_FirstSeen ?a \<le> le_Timestamp x \<and> le_Timestamp x \<le> tl_LastSeen ?a"
    if "x \<in> set (es @ [e])" "of_trace i x" for x
  proof (cases "x = e")
    case True
    then show ?thesis by (auto simp: see_entry_def)
  next
    case False
    with that assms(1) have "le_Timestamp x \<noteq> [] \<longrightarrow> tl_FirstSeen a \<noteq> [] \<and> tl_FirstSeen a \<le> le_Timestamp x \<and>
        le_Timestamp x \<le> tl_LastSeen a" by (auto simp: group_ok_def)
    then show ?thesis by (auto simp: see_entry_def)
  qed
  show ?thesis
    unfolding group_ok_def
  proof (intro conjI ballI impI)
    fix x
    assume x: "x \<in> set (es @ [e])" "of_trace i x"
    show "severityRanks (le_Severity x) \<le> ag_sevRank ?a"
      using x assms(1) by (auto simp: see_entry_def group_ok_def)
    assume "le_Timestamp x \<noteq> []"
    with times [OF x] show "tl_FirstSeen ?a \<noteq> []" "tl_FirstSeen ?a \<le> le_Timestamp x" "le_Timestamp x \<le> tl_LastSeen ?a"
      by blast+
  next
    show "\<exists>x \<in> set (es @ [e]). of_trace i x \<and> tl_MaxSeverity ?a = le_Severity x \<and> ag_sevRank ?a = severityRanks (le_Severity x)"
    proof (cases "ag_sevRank a < severityRanks (le_Severity e)")
      case True
      with assms(2) show ?thesis by (intro bexI [of _ e]) (simp_all add: see_entry_def)
    next
      case False
      from assms(1) obtain x where "x \<in> set es" "of_trace i x" "tl_MaxSeverity a = le_Severity x"
        "ag_sevRank a = severityRanks (le_Severity x)" by (auto simp: group_ok_def)
      with False show ?thesis by (intro bexI [of _ x]) (simp_all add: see_entry_def)
    qed
  qed (use assms in \<open>simp_all add: see_entry_def group_ok_def\<close>)
qed

lemma group_ok_new:
  assumes "\<forall>x \<in> set es. \<not> of_trace i x" "of_trace i e"
  shows "group_ok (es @ [e]) i (see_entry e (new_aggregate i e))"
  using assms severityRanks_nonneg [of "le_Severity e"]
  by (auto simp: group_ok_def see_entry_def new_aggregate_def filter_empty_conv)

text \<open>The groups after some entries: one for each trace among them.\<close>

definition groups_ok :: "'n logEntry list \<Rightarrow> (string \<times> aggregate) list \<Rightarrow> bool" where
  "groups_ok es groups =
     (distinct (map fst groups) \<and> (\<forall>x \<in> set groups. group_ok es (fst x) (snd x)) \<and>
      fst ` set groups = {i. \<exists>e \<in> set es. of_trace i e})"

lemma groups_ok_add:
  assumes "groups_ok es groups"
  shows "groups_ok (es @ [e]) (add_to_group groups e)"
proof (cases "le_Trace e = []")
  case True
  then have "\<not> of_trace i e" for i by (simp add: of_trace_def)
  moreover from this have "group_ok (es @ [e]) (fst x) (snd x)" if "x \<in> set groups" for x
    using assms that by (intro group_ok_other) (auto simp: groups_ok_def)
  ultimately show ?thesis using True assms by (simp add: groups_ok_def add_to_group_def)
next
  case False
  define i where "i = extractTraceID (le_Trace e)"
  define a where "a = (case map_of groups i of None \<Rightarrow> new_aggregate i e | Some a \<Rightarrow> a)"
  have add: "add_to_group groups e = AList.update i (see_entry e a) groups"
    using False unfolding add_to_group_def a_def i_def by (simp add: Let_def)
  have e: "of_trace i e" "of_trace j e \<longleftrightarrow> j = i" for j using False by (auto simp: of_trace_def i_def)
  have new: "group_ok (es @ [e]) i (see_entry e a)"
  proof (cases "map_of groups i")
    case None
    then have "\<forall>x \<in> set es. \<not> of_trace i x" using assms by (auto simp: groups_ok_def map_of_eq_None_iff)
    from group_ok_new [OF this e(1)] None show ?thesis by (simp add: a_def)
  next
    case (Some b)
    then have "group_ok es i b" using assms by (auto simp: groups_ok_def dest: map_of_SomeD)
    from group_ok_see [OF this e(1)] Some show ?thesis by (simp add: a_def)
  qed
  have d: "distinct (map fst (AList.update i (see_entry e a) groups))"
    using assms by (simp add: groups_ok_def distinct_update)
  have "group_ok (es @ [e]) j b" if "(j, b) \<in> set (AList.update i (see_entry e a) groups)" for j b
  proof -
    have "map_of (AList.update i (see_entry e a) groups) j = Some b" using d that by simp
    then have "j = i \<and> b = see_entry e a \<or> j \<noteq> i \<and> map_of groups j = Some b"
      by (auto simp: update_conv' split: if_splits)
    then show ?thesis
      using new assms e group_ok_other [of es j b e] by (auto simp: groups_ok_def dest: map_of_SomeD)
  qed
  moreover have "fst ` set (AList.update i (see_entry e a) groups) = insert i (fst ` set groups)"
    using dom_update [of i "see_entry e a" groups] by simp
  ultimately show ?thesis
    using assms d e by (auto simp: groups_ok_def add)
qed

lemma groups_ok_foldl: "groups_ok es (foldl add_to_group [] es)"
proof (induction es rule: rev_induct)
  case Nil
  then show ?case by (simp add: groups_ok_def)
next
  case (snoc e es)
  then show ?case using groups_ok_add by simp
qed

lemma group_trace_fields [simp]:
  "tl_TraceID (traceFromLog.truncate a) = tl_TraceID a" "tl_LogCount (traceFromLog.truncate a) = tl_LogCount a"
  "tl_FirstSeen (traceFromLog.truncate a) = tl_FirstSeen a" "tl_LastSeen (traceFromLog.truncate a) = tl_LastSeen a"
  "tl_MaxSeverity (traceFromLog.truncate a) = tl_MaxSeverity a"
  by (cases a; simp add: traceFromLog.defs)+

text \<open>
  The traces found in logs are distinct; each has the number of its log entries, a time span
  that covers them and the severity of its most severe entry; the most active traces come first,
  as many as asked for or all of them; and the result is marked as truncated exactly when the scan
  left entries unread or traces were left out.
\<close>

theorem traces_from_logs_exact:
  fixes logs :: "'n logQueryResult" and n :: nat
  defines "ids \<equiv> {i. \<exists>e \<in> set (lq_Entries logs). of_trace i e}"
  defines "r \<equiv> aggregateTracesFromLogs logs n"
  shows "distinct (map tl_TraceID (tll_Traces r)) \<and> set (map tl_TraceID (tll_Traces r)) \<subseteq> ids \<and>
         length (tll_Traces r) = min n (card ids) \<and>
         sorted_wrt (\<lambda>a b. \<not> trace_before b a) (tll_Traces r) \<and>
         (tll_Truncated r \<longleftrightarrow> lq_NextPageToken logs \<noteq> [] \<or> n < card ids) \<and>
         (\<forall>t \<in> set (tll_Traces r). tl_LogCount t = int (length (filter (of_trace (tl_TraceID t)) (lq_Entries logs))) \<and>
            (\<forall>e \<in> set (lq_Entries logs). of_trace (tl_TraceID t) e \<longrightarrow>
               (le_Timestamp e \<noteq> [] \<longrightarrow> tl_FirstSeen t \<le> le_Timestamp e \<and> le_Timestamp e \<le> tl_LastSeen t) \<and>
               severityRanks (le_Severity e) \<le> severityRanks (tl_MaxSeverity t)))"
proof -
  define groups where "groups = foldl add_to_group [] (lq_Entries logs)"
  have ok: "groups_ok (lq_Entries logs) groups" unfolding groups_def by (rule groups_ok_foldl)
  define ts where "ts = map (\<lambda>x. traceFromLog.truncate (snd x)) groups"
  have traces: "tll_Traces r = take n (sort_less trace_before ts)"
    by (simp add: r_def aggregateTracesFromLogs_def groups_def ts_def Let_def)
  have keys: "map tl_TraceID ts = map fst groups"
    using ok by (auto simp: ts_def groups_ok_def group_ok_def)
  then have dist: "distinct (map tl_TraceID ts)" and set: "tl_TraceID ` set ts = ids"
    using ok by (simp_all add: groups_ok_def ids_def flip: set_map)
  have card: "card ids = length ts"
    using distinct_card [OF dist] set by simp
  have "mset (map tl_TraceID (sort_less trace_before ts)) = mset (map tl_TraceID ts)" by simp
  then have dist': "distinct (map tl_TraceID (sort_less trace_before ts))"
    using dist mset_eq_imp_distinct_iff by blast
  have sub: "set (tll_Traces r) \<subseteq> set ts" using set_take_subset [of n "sort_less trace_before ts"] by (simp add: traces)
  have "distinct (map tl_TraceID (tll_Traces r))" using dist' by (simp add: traces flip: take_map)
  moreover have "set (map tl_TraceID (tll_Traces r)) \<subseteq> ids" using sub set by auto
  moreover have "length (tll_Traces r) = min n (card ids)" by (simp add: traces card min.commute)
  moreover have "sorted_wrt (\<lambda>a b. \<not> trace_before b a) (tll_Traces r)"
    unfolding traces using trace_order.sorted_sort_less by (rule sorted_wrt_take)
  moreover have "tll_Truncated r \<longleftrightarrow> lq_NextPageToken logs \<noteq> [] \<or> n < card ids"
    by (simp add: r_def aggregateTracesFromLogs_def card ts_def groups_def Let_def)
  moreover have "tl_LogCount t = int (length (filter (of_trace (tl_TraceID t)) (lq_Entries logs))) \<and>
      (\<forall>e \<in> set (lq_Entries logs). of_trace (tl_TraceID t) e \<longrightarrow>
         (le_Timestamp e \<noteq> [] \<longrightarrow> tl_FirstSeen t \<le> le_Timestamp e \<and> le_Timestamp e \<le> tl_LastSeen t) \<and>
         severityRanks (le_Severity e) \<le> severityRanks (tl_MaxSeverity t))" if "t \<in> set (tll_Traces r)" for t
  proof -
    from that sub obtain x where x: "x \<in> set groups" "t = traceFromLog.truncate (snd x)" by (auto simp: ts_def)
    with ok have "group_ok (lq_Entries logs) (fst x) (snd x)" by (simp add: groups_ok_def)
    then show ?thesis unfolding x(2) group_trace_fields group_ok_def by auto
  qed
  ultimately show ?thesis by blast
qed

definition ex_logs :: "nat logQueryResult" where
  "ex_logs = \<lparr>lq_Count = 2, lq_Entries =
     [zero_logEntry\<lparr>le_Timestamp := ''2'', le_Severity := ''INFO'', le_Trace := ''projects/p/traces/t''\<rparr>,
      zero_logEntry\<lparr>le_Timestamp := ''1'', le_Severity := ''ERROR'', le_Trace := ''t''\<rparr>],
     lq_NextPageToken = [], lq_ScanIncomplete = False\<rparr>"

theorem traces_from_logs_exact_witness:
  "length (tll_Traces (aggregateTracesFromLogs ex_logs 5)) = 1"
proof -
  have "of_trace i (lq_Entries ex_logs ! 0) \<longleftrightarrow> i = ''t''" "of_trace i (lq_Entries ex_logs ! 1) \<longleftrightarrow> i = ''t''" for i
    by (auto simp: of_trace_def ex_logs_def extractTraceID_def)
  then have "{i. \<exists>e \<in> set (lq_Entries ex_logs). of_trace i e} = {''t''}" by (simp add: ex_logs_def)
  with traces_from_logs_exact [of ex_logs 5] show ?thesis by simp
qed

end
