(* ===== verification/Profile_Analysis.thy ===== *)
theory Profile_Analysis
  imports Log_Entries "HOL-Library.Word"
begin

text \<open>
  Analysis of one profile (\<open>internal/gcpdata/profiler.go\<close>, types in \<open>profiler_types.go\<close>): the costs
  of functions, the ranking, callers and callees, the call tree and its pruning, and the
  comparison of two profiles.

  Sample values are \<open>int64\<close>, so sums wrap around: they are 64-bit words here, compared as signed
  integers. The data of a profile is what \<open>profile.ParseData\<close> of the pprof package delivers; that
  package checks that each sample has a value for each sample type. Go maps are association lists
  with distinct keys; where a sort leaves ties open, the iteration order is an argument \<open>perm\<close>.
  Percentages are \<open>float64\<close> values computed with rounding (\<open>Go_Format\<close>); the sign of a zero is not
  modelled.
\<close>

subsection \<open>Profiles\<close>

type_synonym int64 = "64 word"

record pfunction =
  fn_Name :: string
  fn_Filename :: string

text \<open>A location has a line for each inlined function; a line may have no function.\<close>

type_synonym location = "pfunction option list"

record sample =
  sa_Value :: "int64 list"
  sa_Location :: "location list"

record profile =
  pr_SampleType :: "(string \<times> string) list"
  pr_Sample :: "sample list"
  pr_Location :: "location list"

record valueTypeInfo =
  vt_Index :: nat
  vt_Type :: string
  vt_Unit :: string

definition profileValueTypes :: "profile \<Rightarrow> valueTypeInfo list" where
  "profileValueTypes p =
     map (\<lambda>(i, vt). \<lparr>vt_Index = i, vt_Type = fst vt, vt_Unit = snd vt\<rparr>) (enumerate 0 (pr_SampleType p))"

definition value_index_error :: "profile \<Rightarrow> int \<Rightarrow> go_error" where
  "value_index_error p index = Sentinel
     (''value_index '' @ itoa index @ '' out of range [0, '' @ itoa (int (length (pr_SampleType p))) @ ''). Available: '' @
      join '', '' (map (\<lambda>(i, vt). itoa (int i) @ '': '' @ fst vt @ ''/'' @ snd vt) (enumerate 0 (pr_SampleType p))))"

definition validateValueIndex :: "profile \<Rightarrow> int \<Rightarrow> go_error option" where
  "validateValueIndex p index =
     (if pr_SampleType p = [] then Some (Sentinel ''profile has no sample types'')
      else if index < 0 \<or> int (length (pr_SampleType p)) \<le> index then Some (value_index_error p index)
      else None)"

definition sample_value :: "int \<Rightarrow> sample \<Rightarrow> int64" where
  "sample_value k s = sa_Value s ! nat k"

definition absInt64 :: "int64 \<Rightarrow> int64" where
  "absInt64 v = (if sint v < 0 then - v else v)"

text \<open>\<open>math.Round\<close>: half away from zero.\<close>

definition math_Round :: "rat \<Rightarrow> rat" where
  "math_Round x = (if 0 \<le> x then of_int \<lfloor>x + 1 / 2\<rfloor> else - of_int \<lfloor>- x + 1 / 2\<rfloor>)"

definition safePercent :: "int64 \<Rightarrow> int64 \<Rightarrow> rat" where
  "safePercent value tot =
     (if tot = 0 then 0
      else f64 (math_Round (f64 (f64 (f64 (of_int (sint value)) / f64 (of_int (sint tot))) * 10000)) / 100))"

subsection \<open>Costs of functions\<close>

record funcCost =
  fc_file :: string
  fc_self :: int64
  fc_cumulative :: int64

type_synonym costs = "(string \<times> funcCost) list"

definition wanted :: "string \<Rightarrow> string list \<Rightarrow> string \<Rightarrow> bool" where
  "wanted filt targets fname =
     (if targets \<noteq> [] then fname \<in> set targets else filt = [] \<or> contains fname filt)"

definition scan_line :: "(string \<Rightarrow> bool) \<Rightarrow> int64 \<Rightarrow> bool \<Rightarrow> pfunction option \<Rightarrow> costs \<times> string list \<Rightarrow> costs \<times> string list" where
  "scan_line want value leaf line st =
     (case (line, st) of
        (None, _) \<Rightarrow> st
      | (Some f, (costs, seen)) \<Rightarrow>
          (let fname = fn_Name f in
           if \<not> want fname then st
           else (let c = (case map_of costs fname of None \<Rightarrow> \<lparr>fc_file = fn_Filename f, fc_self = 0, fc_cumulative = 0\<rparr> | Some c \<Rightarrow> c);
                     c = (if leaf then c\<lparr>fc_self := fc_self c + value\<rparr> else c)
                 in if fname \<notin> set seen
                    then (AList.update fname (c\<lparr>fc_cumulative := fc_cumulative c + value\<rparr>) costs, fname # seen)
                    else (AList.update fname c costs, seen))))"

definition scan_sample :: "(string \<Rightarrow> bool) \<Rightarrow> int \<Rightarrow> sample \<Rightarrow> costs \<Rightarrow> costs" where
  "scan_sample want k s costs =
     fst (fold (\<lambda>(i, loc). fold (scan_line want (sample_value k s) (i = 0)) loc) (enumerate 0 (sa_Location s)) (costs, []))"

definition scanFunctionCosts :: "profile \<Rightarrow> int \<Rightarrow> string \<Rightarrow> string list \<Rightarrow> go_error + (costs \<times> int64)" where
  "scanFunctionCosts p k filt targets =
     (case validateValueIndex p k of
        Some err \<Rightarrow> Inl err
      | None \<Rightarrow> Inr (fold (scan_sample (wanted filt targets) k) (pr_Sample p) [],
                   sum_list (map (sample_value k) (pr_Sample p))))"

subsection \<open>The ranking\<close>

record topFunction =
  tf_FunctionName :: string
  tf_File :: string
  tf_SelfValue :: int64
  tf_SelfPct :: rat
  tf_CumulativeValue :: int64
  tf_CumulativePct :: rat

definition rank_by :: "(topFunction \<Rightarrow> int64) \<Rightarrow> topFunction \<Rightarrow> topFunction \<Rightarrow> bool" where
  "rank_by rank a b =
     (sint (rank b) < sint (rank a) \<or> rank a = rank b \<and> tf_FunctionName a < tf_FunctionName b)"

definition top_entry :: "int64 \<Rightarrow> string \<times> funcCost \<Rightarrow> topFunction" where
  "top_entry tot x = \<lparr>tf_FunctionName = fst x, tf_File = fc_file (snd x), tf_SelfValue = fc_self (snd x),
     tf_SelfPct = safePercent (fc_self (snd x)) tot, tf_CumulativeValue = fc_cumulative (snd x),
     tf_CumulativePct = safePercent (fc_cumulative (snd x)) tot\<rparr>"

definition top_match :: "string \<Rightarrow> string \<times> funcCost \<Rightarrow> bool" where
  "top_match filt x = (filt = [] \<or> contains (fst x) filt \<or> contains (fc_file (snd x)) filt)"

definition rank_of :: "string \<Rightarrow> (topFunction \<Rightarrow> int64) option" where
  "rank_of sortBy =
     (if sortBy = ''cumulative'' then Some (\<lambda>f. absInt64 (tf_CumulativeValue f))
      else if sortBy = ''self'' then Some (\<lambda>f. absInt64 (tf_SelfValue f)) else None)"

definition topFunctions :: "profile \<Rightarrow> int \<Rightarrow> int \<Rightarrow> string \<Rightarrow> string \<Rightarrow> go_error + (topFunction list \<times> int64 \<times> bool)" where
  "topFunctions p k limit sortBy filt =
     (case rank_of sortBy of
        None \<Rightarrow> Inl (Sentinel (''invalid sort_by '' @ quote sortBy @ '': must be '' @ quote ''self'' @ '' or '' @ quote ''cumulative''))
      | Some rank \<Rightarrow>
          (case scanFunctionCosts p k [] [] of
             Inl err \<Rightarrow> Inl err
           | Inr (costs, tot) \<Rightarrow>
               (let result = sort_less (rank_by rank) (map (top_entry tot) (filter (top_match filt) costs));
                    truncated = (0 < limit \<and> limit < int (length result))
                in Inr (if truncated then take (nat limit) result else result, tot, truncated))))"

subsection \<open>Callers and callees\<close>

record peekEntry =
  pk_Name :: string
  pk_File :: string
  pk_Cost :: int64
  pk_Pct :: rat

record peekFunctionInfo =
  pf_Name :: string
  pf_File :: string
  pf_Self :: int64
  pf_Cumulative :: int64

definition names_of :: "location \<Rightarrow> string list" where
  "names_of loc = map fn_Name (map the (filter (\<lambda>l. l \<noteq> None) loc))"

definition findMatchingFunctions :: "profile \<Rightarrow> string \<Rightarrow> string list" where
  "findMatchingFunctions p substring =
     sort (remdups (filter (\<lambda>n. contains n substring) (concat (map names_of (pr_Location p)))))"

text \<open>The cost entries of neighbours: name, file of the first line seen, cost.\<close>

type_synonym neighbours = "(string \<times> string \<times> int64) list"

definition add_neighbour :: "int64 \<Rightarrow> pfunction option \<Rightarrow> neighbours \<Rightarrow> neighbours" where
  "add_neighbour value line ns =
     (case line of
        None \<Rightarrow> ns
      | Some f \<Rightarrow>
          (case map_of ns (fn_Name f) of
             None \<Rightarrow> AList.update (fn_Name f) (fn_Filename f, value) ns
           | Some (file, cost) \<Rightarrow> AList.update (fn_Name f) (file, cost + value) ns))"

record peek_state =
  ps_file :: string
  ps_self :: int64
  ps_cumulative :: int64
  ps_callers :: neighbours
  ps_callees :: neighbours

text \<open>
  One location of a stack: the first line of the target function counts (the loop over the lines
  breaks), but its file is taken from that line only.
\<close>

definition peek_location :: "string \<Rightarrow> int64 \<Rightarrow> location list \<Rightarrow> nat \<Rightarrow> peek_state \<Rightarrow> peek_state" where
  "peek_location target value locs i st =
     (case find (\<lambda>l. case l of None \<Rightarrow> False | Some f \<Rightarrow> fn_Name f = target) (locs ! i) of
        None \<Rightarrow> st
      | Some None \<Rightarrow> st
      | Some (Some f) \<Rightarrow>
          (let st = (if ps_file st = [] \<and> fn_Filename f \<noteq> [] then st\<lparr>ps_file := fn_Filename f\<rparr> else st);
               st = st\<lparr>ps_cumulative := ps_cumulative st + value\<rparr>;
               st = (if i = 0 then st\<lparr>ps_self := ps_self st + value\<rparr> else st);
               st = (if i + 1 < length locs then st\<lparr>ps_callers := fold (add_neighbour value) (locs ! (i + 1)) (ps_callers st)\<rparr> else st)
           in if 0 < i then st\<lparr>ps_callees := fold (add_neighbour value) (locs ! (i - 1)) (ps_callees st)\<rparr> else st))"

definition peek_sample :: "string \<Rightarrow> int \<Rightarrow> sample \<Rightarrow> peek_state \<Rightarrow> peek_state" where
  "peek_sample target k s st =
     fold (peek_location target (sample_value k s) (sa_Location s)) [0..<length (sa_Location s)] st"

definition makePeekEntries :: "(peekEntry list \<Rightarrow> peekEntry list) \<Rightarrow> int64 \<Rightarrow> int \<Rightarrow> neighbours \<Rightarrow> peekEntry list" where
  "makePeekEntries perm tot limit ns =
     (let entries = sort_less (\<lambda>a b. sint (absInt64 (pk_Cost b)) < sint (absInt64 (pk_Cost a)))
            (perm (map (\<lambda>(n, file, cost). \<lparr>pk_Name = n, pk_File = file, pk_Cost = cost, pk_Pct = safePercent cost tot\<rparr>) ns))
      in if 0 < limit \<and> limit < int (length entries) then take (nat limit) entries else entries)"

definition peekFunction :: "(peekEntry list \<Rightarrow> peekEntry list) \<Rightarrow> profile \<Rightarrow> string \<Rightarrow> int \<Rightarrow> int \<Rightarrow>
    go_error + (peekFunctionInfo \<times> peekEntry list \<times> peekEntry list)" where
  "peekFunction perm p functionName k limit =
     (case validateValueIndex p k of
        Some err \<Rightarrow> Inl err
      | None \<Rightarrow>
          (case findMatchingFunctions p functionName of
             [] \<Rightarrow> Inl (Sentinel (''no function matching '' @ quote functionName @ '' found in profile''))
           | [target] \<Rightarrow>
               (let st = fold (peek_sample target k) (pr_Sample p)
                      \<lparr>ps_file = [], ps_self = 0, ps_cumulative = 0, ps_callers = [], ps_callees = []\<rparr>;
                    tot = sum_list (map (sample_value k) (pr_Sample p))
                in Inr (\<lparr>pf_Name = target, pf_File = ps_file st, pf_Self = ps_self st, pf_Cumulative = ps_cumulative st\<rparr>,
                        makePeekEntries perm tot limit (ps_callers st), makePeekEntries perm tot limit (ps_callees st)))
           | matches \<Rightarrow> Inl (Sentinel
               (if 10 < length matches
                then ''function name '' @ quote functionName @ '' is ambiguous, matches '' @ itoa (int (length matches)) @
                  '' functions (first 10: '' @ join '', '' (take 10 matches) @ ''). Use a more specific name''
                else ''function name '' @ quote functionName @ '' is ambiguous, matches: '' @ join '', '' matches @
                  ''. Use a more specific name''))))"

subsection \<open>Call trees\<close>

datatype trieNode = TrieNode (tn_name: string) (tn_file: string) (tn_self: int64) (tn_cumulative: int64)
  (tn_children: "trieNode list")

definition newNode :: "string \<Rightarrow> string \<Rightarrow> trieNode" where
  "newNode name file = TrieNode name file 0 0 []"

definition find_child :: "string \<Rightarrow> trieNode list \<Rightarrow> trieNode option" where
  "find_child name cs = find (\<lambda>c. tn_name c = name) cs"

text \<open>Writing the child of a name: in its place, or as a new entry of the map.\<close>

fun put_child :: "trieNode \<Rightarrow> trieNode list \<Rightarrow> trieNode list" where
  "put_child c [] = [c]"
| "put_child c (d # ds) = (if tn_name d = tn_name c then c # ds else d # put_child c ds)"

definition charge :: "int64 \<Rightarrow> bool \<Rightarrow> trieNode \<Rightarrow> trieNode" where
  "charge value leaf t =
     TrieNode (tn_name t) (tn_file t) (if leaf then tn_self t + value else tn_self t) (tn_cumulative t + value) (tn_children t)"

definition set_children :: "trieNode \<Rightarrow> trieNode list \<Rightarrow> trieNode" where
  "set_children t cs = TrieNode (tn_name t) (tn_file t) (tn_self t) (tn_cumulative t) cs"

text \<open>The frames of a sample, root first; the flag marks the lines of the leaf location.\<close>

type_synonym frame = "string \<times> string \<times> bool"

definition frames :: "sample \<Rightarrow> frame list" where
  "frames s = concat (map (\<lambda>(i, loc). map (\<lambda>f. (fn_Name f, fn_Filename f, i = 0)) (map the (filter (\<lambda>l. l \<noteq> None) loc)))
     (rev (enumerate (0::nat) (sa_Location s))))"

fun add_frames :: "int64 \<Rightarrow> frame list \<Rightarrow> trieNode \<Rightarrow> trieNode" where
  "add_frames value [] t = t"
| "add_frames value ((name, file, leaf) # fs) t =
     (let child = (case find_child name (tn_children t) of None \<Rightarrow> newNode name file | Some c \<Rightarrow> c)
      in set_children t (put_child (add_frames value fs (charge value leaf child)) (tn_children t)))"

definition call_tree :: "profile \<Rightarrow> int \<Rightarrow> trieNode" where
  "call_tree p k = fold (\<lambda>s. add_frames (sample_value k s) (frames s)) (pr_Sample p) (newNode ''(root)'' [])"

definition compareByCost :: "trieNode \<Rightarrow> trieNode \<Rightarrow> bool" where
  "compareByCost a b =
     (sint (absInt64 (tn_cumulative b)) < sint (absInt64 (tn_cumulative a)) \<or>
      absInt64 (tn_cumulative a) = absInt64 (tn_cumulative b) \<and> tn_name a < tn_name b)"

definition sortedChildren :: "trieNode \<Rightarrow> trieNode list" where
  "sortedChildren t = sort_less compareByCost (tn_children t)"

fun below_root :: "trieNode \<Rightarrow> trieNode list" where
  "below_root (TrieNode n f s c cs) = concat (map (\<lambda>t. t # below_root t) cs)"

definition findInTrie :: "trieNode \<Rightarrow> string \<Rightarrow> go_error + trieNode option" where
  "findInTrie rt name =
     (case filter (\<lambda>t. contains (tn_name t) name) (below_root rt) of
        [] \<Rightarrow> Inr None
      | [t] \<Rightarrow> Inr (Some t)
      | matches \<Rightarrow> Inl (Sentinel (''root_function '' @ quote name @ '' matches '' @ itoa (int (length matches)) @ '' nodes; use a more specific name. Candidates: '' @
          join '', '' (map tn_name (take 10 (sort_less compareByCost matches))) @
          (if 10 < length matches then '' ... and '' @ itoa (int (length matches) - 10) @ '' more'' else []))))"

datatype flamegraphNode = FlamegraphNode (fg_Name: string) (fg_File: string) (fg_Self: int64) (fg_Cumulative: int64)
  (fg_Pct: rat) (fg_Children: "flamegraphNode list")

text \<open>
  The conversion with its budget: the state is the number of nodes that may still be returned and
  the number of children left out. \<open>levels\<close> is what is left of the depth.
\<close>

definition to_flame :: "int64 \<Rightarrow> trieNode \<Rightarrow> flamegraphNode list \<Rightarrow> flamegraphNode" where
  "to_flame tot t cs =
     FlamegraphNode (tn_name t) (tn_file t) (tn_self t) (tn_cumulative t) (safePercent (tn_cumulative t) tot) cs"

function convert_node :: "int64 \<Rightarrow> rat \<Rightarrow> nat \<Rightarrow> trieNode \<Rightarrow> int \<times> int \<Rightarrow> flamegraphNode \<times> int \<times> int"
  and convert_children :: "int64 \<Rightarrow> rat \<Rightarrow> nat \<Rightarrow> trieNode list \<Rightarrow> int \<times> int \<Rightarrow> flamegraphNode list \<times> int \<times> int" where
  "convert_node tot minPct 0 t (remaining, pruned) = (to_flame tot t [], remaining, pruned + int (length (tn_children t)))"
| "convert_node tot minPct (Suc levels) t (remaining, pruned) =
     (let (cs, st) = convert_children tot minPct levels (sortedChildren t) (remaining, pruned) in (to_flame tot t cs, st))"
| "convert_children tot minPct levels [] st = ([], st)"
| "convert_children tot minPct levels (c # cs) (remaining, pruned) =
     (if remaining \<le> 0 \<or> \<bar>safePercent (tn_cumulative c) tot\<bar> < minPct
      then convert_children tot minPct levels cs (remaining, pruned + 1)
      else (let (d, st) = convert_node tot minPct levels c (remaining - 1, pruned);
                (ds, st) = convert_children tot minPct levels cs st
            in (d # ds, st)))"
  by pat_completeness auto

termination
  by (relation "measures [\<lambda>x. case x of Inl (tot, minPct, levels, t, st) \<Rightarrow> levels
                                   | Inr (tot, minPct, levels, cs, st) \<Rightarrow> levels,
      \<lambda>x. case x of Inl y \<Rightarrow> 0 | Inr (tot, minPct, levels, cs, st) \<Rightarrow> Suc (length cs)]") auto

definition flamegraph :: "profile \<Rightarrow> string \<Rightarrow> int \<Rightarrow> int \<Rightarrow> int \<Rightarrow> rat \<Rightarrow> go_error + (flamegraphNode \<times> int64 \<times> int)" where
  "flamegraph p rootFunction k maxDepth maxNodes minPct =
     (case validateValueIndex p k of
        Some err \<Rightarrow> Inl err
      | None \<Rightarrow>
          (let rt = call_tree p k; tot = sum_list (map (sample_value k) (pr_Sample p)) in
           case (if rootFunction \<noteq> [] then findInTrie rt rootFunction else Inr (Some rt)) of
             Inl err \<Rightarrow> Inl err
           | Inr None \<Rightarrow> Inl (Sentinel (''function '' @ quote rootFunction @ '' not found in profile call tree''))
           | Inr (Some sub) \<Rightarrow>
               (let (node, remaining, pruned) = convert_node tot minPct (nat maxDepth) sub (maxNodes - 1, 0)
                in Inr (node, tot, pruned))))"

subsection \<open>Comparing two profiles\<close>

record compareTopEntry =
  ce_Name :: string
  ce_File :: string
  ce_Delta :: int64
  ce_DeltaPct :: rat

record compareSummary =
  cs_TotalCurrent :: int64
  cs_TotalBase :: int64
  cs_TotalDelta :: int64
  cs_TotalDeltaPct :: rat
  cs_FunctionsRegressed :: int
  cs_FunctionsImproved :: int

record comparison =
  cmp_ValueType :: valueTypeInfo
  cmp_Summary :: compareSummary
  cmp_TopRegressions :: "compareTopEntry list"
  cmp_TopImprovements :: "compareTopEntry list"
  cmp_Truncated :: bool
  cmp_TruncationHint :: string

definition subtract_base :: "string \<times> funcCost \<Rightarrow> (string \<times> string \<times> int64) list \<Rightarrow> (string \<times> string \<times> int64) list" where
  "subtract_base x deltas =
     (case map_of deltas (fst x) of
        None \<Rightarrow> AList.update (fst x) (fc_file (snd x), - fc_cumulative (snd x)) deltas
      | Some (file, delta) \<Rightarrow> AList.update (fst x) (file, delta - fc_cumulative (snd x)) deltas)"

definition delta_map :: "costs \<Rightarrow> costs \<Rightarrow> (string \<times> string \<times> int64) list" where
  "delta_map currentCosts baseCosts =
     fold subtract_base baseCosts (map (\<lambda>x. (fst x, fc_file (snd x), fc_cumulative (snd x))) currentCosts)"

definition compare_entry :: "int64 \<Rightarrow> string \<times> string \<times> int64 \<Rightarrow> compareTopEntry" where
  "compare_entry baseTotal x = (case x of (name, file, delta) \<Rightarrow>
     \<lparr>ce_Name = name, ce_File = file, ce_Delta = delta, ce_DeltaPct = safePercent delta baseTotal\<rparr>)"

definition type_text :: "string \<times> string \<Rightarrow> string" where
  "type_text vt = fst vt @ ''/'' @ snd vt"

text \<open>The part of \<open>CompareProfiles\<close> after both profiles are fetched.\<close>

definition compare_profiles :: "(compareTopEntry list \<Rightarrow> compareTopEntry list) \<Rightarrow> profile \<Rightarrow> profile \<Rightarrow> int \<Rightarrow> int \<Rightarrow>
    go_error + comparison" where
  "compare_profiles perm cur base k topCount =
     (case (validateValueIndex cur k, validateValueIndex base k) of
        (Some err, _) \<Rightarrow> Inl err
      | (None, Some err) \<Rightarrow> Inl (Wrap (''base profile: '' @ err_text err) [err])
      | (None, None) \<Rightarrow>
          if pr_SampleType cur ! nat k \<noteq> pr_SampleType base ! nat k
          then Inl (Sentinel (''incompatible sample types at value_index '' @ itoa k @ '': current has '' @
            type_text (pr_SampleType cur ! nat k) @ '' but base has '' @ type_text (pr_SampleType base ! nat k)))
          else
            (case (scanFunctionCosts cur k [] [], scanFunctionCosts base k [] []) of
               (Inl err, _) \<Rightarrow> Inl (Wrap (''analyzing current profile: '' @ err_text err) [err])
             | (_, Inl err) \<Rightarrow> Inl (Wrap (''analyzing base profile: '' @ err_text err) [err])
             | (Inr (currentCosts, currentTotal), Inr (baseCosts, baseTotal)) \<Rightarrow>
                 (let entries = perm (map (compare_entry baseTotal) (delta_map currentCosts baseCosts));
                      regressed = filter (\<lambda>e. 0 < sint (ce_Delta e)) entries;
                      improved = filter (\<lambda>e. sint (ce_Delta e) < 0) entries;
                      regressions = sort_less (\<lambda>a b. sint (ce_Delta b) < sint (ce_Delta a)) regressed;
                      improvements = sort_less (\<lambda>a b. sint (ce_Delta a) < sint (ce_Delta b)) improved;
                      cut = (\<lambda>xs. if 0 < topCount \<and> topCount < int (length xs) then take (nat topCount) xs else xs);
                      truncated = (0 < topCount \<and> (topCount < int (length regressions) \<or> topCount < int (length improvements)))
                  in Inr \<lparr>cmp_ValueType = profileValueTypes cur ! nat k,
                       cmp_Summary = \<lparr>cs_TotalCurrent = currentTotal, cs_TotalBase = baseTotal,
                         cs_TotalDelta = currentTotal - baseTotal, cs_TotalDeltaPct = safePercent (currentTotal - baseTotal) baseTotal,
                         cs_FunctionsRegressed = int (length regressed), cs_FunctionsImproved = int (length improved)\<rparr>,
                       cmp_TopRegressions = cut regressions, cmp_TopImprovements = cut improvements, cmp_Truncated = truncated,
                       cmp_TruncationHint = (if truncated then ''Showing top '' @ itoa topCount @
                         '' regressions and improvements. Pass both profile_id and base_profile_id to profiler_top for the complete diff ranking.''
                         else [])\<rparr>)))"

end
