(* ===== verification/Go_Time.thy ===== *)
theory Go_Time
  imports Go_Format
begin

text \<open>
  Times and durations as text: the layout \<open>time.RFC3339Nano\<close>, parsing with \<open>time.RFC3339\<close>, and
  \<open>time.Duration.String\<close>.
\<close>

subsection \<open>RFC 3339\<close>

text \<open>Trailing zeros of the fraction are left out, and the point with them.\<close>

definition fraction :: "nat \<Rightarrow> int \<Rightarrow> string" where
  "fraction w n = (if n = 0 then [] else ''.'' @ trim_right (CHR ''0'') (pad0 w n))"

definition format_nano :: "gtime \<Rightarrow> string" where
  "format_nano t = date_text t @ fraction 9 (t mod 1000000000) @ ''Z''"

definition days_from_civil :: "int \<Rightarrow> int \<Rightarrow> int \<Rightarrow> int" where
  "days_from_civil y m d =
     (let y = (if m \<le> 2 then y - 1 else y); yoe = y mod 400; mp = (m + 9) mod 12;
          doy = (153 * mp + 2) div 5 + d - 1
      in y div 400 * 146097 + (yoe * 365 + yoe div 4 - yoe div 100 + doy) - 719468)"

definition leap :: "int \<Rightarrow> bool" where
  "leap y = (y mod 4 = 0 \<and> (y mod 100 \<noteq> 0 \<or> y mod 400 = 0))"

definition days_in :: "int \<Rightarrow> int \<Rightarrow> int" where
  "days_in y m = (if m = 2 then (if leap y then 29 else 28) else if m \<in> {4, 6, 9, 11} then 30 else 31)"

definition is_digit10 :: "char \<Rightarrow> bool" where
  "is_digit10 c = (48 \<le> byte_of c \<and> byte_of c \<le> 57)"

definition number :: "string \<Rightarrow> int option" where
  "number s = (if s \<noteq> [] \<and> list_all is_digit10 s then Some (foldl (\<lambda>n c. 10 * n + int (byte_of c) - 48) 0 s) else None)"

definition in_range :: "int \<Rightarrow> int \<Rightarrow> int option \<Rightarrow> int option" where
  "in_range lo hi x = (case x of None \<Rightarrow> None | Some n \<Rightarrow> if lo \<le> n \<and> n \<le> hi then Some n else None)"

text \<open>The fraction of a second in nanoseconds (further digits are dropped) and what follows it.\<close>

definition parse_fraction :: "string \<Rightarrow> (int \<times> string) option" where
  "parse_fraction s =
     (case s of
        CHR ''.'' # r \<Rightarrow>
          (let ds = takeWhile is_digit10 r in
           if ds = [] then None
           else map_option (\<lambda>n. (n, dropWhile is_digit10 r)) (number (take 9 (ds @ replicate 9 (CHR ''0'')))))
      | _ \<Rightarrow> Some (0, s))"

text \<open>The zone: \<open>Z\<close> or an offset in hours and minutes; the result is in seconds.\<close>

definition parse_zone :: "string \<Rightarrow> int option" where
  "parse_zone s =
     (if s = ''Z'' then Some 0
      else if length s = 6 \<and> s ! 0 \<in> {CHR ''+'', CHR ''-''} \<and> s ! 3 = CHR '':'' then
        (case (in_range 0 23 (number (take 2 (drop 1 s))), in_range 0 59 (number (drop 4 s))) of
           (Some h, Some m) \<Rightarrow> Some ((if s ! 0 = CHR ''-'' then - 1 else 1) * (h * 3600 + m * 60))
         | _ \<Rightarrow> None)
      else None)"

text \<open>
  \<open>time.Parse\<close> with the layout \<open>time.RFC3339\<close>, in the strict form of the format: \<open>time.Parse\<close> also
  takes an hour of one digit and a comma before the fraction, which the program never produces.
\<close>

definition parse_date :: "string \<Rightarrow> gtime option" where
  "parse_date s =
     (if length s < 19 \<or> s ! 4 \<noteq> CHR ''-'' \<or> s ! 7 \<noteq> CHR ''-'' \<or> s ! 10 \<noteq> CHR ''T'' \<or> s ! 13 \<noteq> CHR '':'' \<or> s ! 16 \<noteq> CHR '':''
      then None
      else (case (number (take 4 s), in_range 1 12 (number (take 2 (drop 5 s)))) of
          (Some y, Some m) \<Rightarrow>
            (case (in_range 1 (days_in y m) (number (take 2 (drop 8 s))), in_range 0 23 (number (take 2 (drop 11 s))),
                in_range 0 59 (number (take 2 (drop 14 s))), in_range 0 59 (number (take 2 (drop 17 s)))) of
               (Some d, Some h, Some mi, Some se) \<Rightarrow> Some (days_from_civil y m d * 86400 + h * 3600 + mi * 60 + se)
             | _ \<Rightarrow> None)
        | _ \<Rightarrow> None))"

definition parse_rfc3339 :: "string \<Rightarrow> gtime option" where
  "parse_rfc3339 s =
     (case parse_date s of
        None \<Rightarrow> None
      | Some secs \<Rightarrow>
          (case parse_fraction (drop 19 s) of
             None \<Rightarrow> None
           | Some (nanos, zone) \<Rightarrow>
               map_option (\<lambda>off. (secs - off) * 1000000000 + nanos) (parse_zone zone)))"

subsection \<open>Durations\<close>

text \<open>
  \<open>time.Duration.String\<close>: below a second in the largest fitting unit, otherwise hours, minutes and
  seconds without leading zero units, each with the fraction it needs.
\<close>

definition micro_sign :: string where
  "micro_sign = [CHR 0xC2, CHR 0xB5]"

definition duration_String :: "duration \<Rightarrow> string" where
  "duration_String d =
     (if d = 0 then ''0s''
      else (let u = \<bar>d\<bar>; secs = u div 1000000000;
                text = (if u < 1000 then dec u @ ''ns''
                        else if u < 1000000 then dec (u div 1000) @ fraction 3 (u mod 1000) @ micro_sign @ ''s''
                        else if u < 1000000000 then dec (u div 1000000) @ fraction 6 (u mod 1000000) @ ''ms''
                        else (if 3600 \<le> secs then dec (secs div 3600) @ ''h'' else []) @
                             (if 60 \<le> secs then dec (secs div 60 mod 60) @ ''m'' else []) @
                             dec (secs mod 60) @ fraction 9 (u mod 1000000000) @ ''s'')
            in if d < 0 then ''-'' @ text else text))"

end
