(* ===== verification/Profile_List.thy ===== *)
theory Profile_List
  imports Profile_Analysis Profile_Cache Go_Time Oauth_Seal
begin

text \<open>
  Listing profiles (\<open>internal/gcpdata/profiler.go\<close>): the metadata of a profile, the
  client-side filter, cursors and the paged listing.

  The Cloud Profiler service is a parameter (\<open>profiler_env\<close>): the pages of the listing by page
  token (what \<open>iterator.Pager.NextPage\<close> returns for pages of 1000) and the items of a scan from
  the start; it answers the same request alike throughout one operation. SHA-256, gzip, the
  pprof functions and the JSON codec of cursors are parameters too.
\<close>

subsection \<open>The service\<close>

record pbDeployment =
  dp_Target :: string
  dp_Labels :: smap

record pbProfile =
  pp_Name :: string
  pp_ProfileType :: string
  pp_Duration :: "duration option"
  pp_StartTime :: "gtime option"
  pp_Deployment :: "pbDeployment option"
  pp_Labels :: smap
  pp_ProfileBytes :: string

record profileCursor =
  pcu_Version :: int
  pcu_APIToken :: string
  pcu_Offset :: int
  pcu_Fingerprint :: string

text \<open>
  The service and the libraries: \<open>px_page parent token\<close> is a page with the token of the next one,
  \<open>px_scan parent i\<close> the i-th result of \<open>it.Next()\<close>. \<open>px_gunzip\<close> gives the bytes before the end of
  the compressed stream and the error that ended it; \<open>px_Err\<close> and \<open>px_Cause\<close> are the context of the
  call when a request fails, \<open>px_alive i\<close> says whether it is alive at the i-th iteration of a loop.
\<close>

record profiler_env =
  px_sha256 :: "string \<Rightarrow> string"
  px_cursor :: "profileCursor codec"
  px_page :: "string \<Rightarrow> string \<Rightarrow> go_error + (pbProfile list \<times> string)"
  px_scan :: "string \<Rightarrow> nat \<Rightarrow> go_error + pbProfile"
  px_gunzip :: "string \<Rightarrow> go_error + (string \<times> go_error option)"
  px_parse :: "string \<Rightarrow> go_error + profile"
  px_scale :: "profile \<Rightarrow> int \<Rightarrow> profile"
  px_merge :: "profile list \<Rightarrow> go_error + profile"
  px_Err :: "go_error option"
  px_Cause :: "go_error option"
  px_alive :: "nat \<Rightarrow> bool"

definition scanError :: "profiler_env \<Rightarrow> go_error \<Rightarrow> go_error" where
  "scanError env err =
     (case px_Cause env of
        None \<Rightarrow> err
      | Some cause \<Rightarrow>
          if (case px_Err env of None \<Rightarrow> False | Some e \<Rightarrow> errors_is e cause) then err
          else Wrap (err_text cause @ '': '' @ err_text err) [cause, err])"

subsection \<open>Metadata\<close>

record profileMeta =
  pm_ProfileID :: string
  pm_ProfileType :: string
  pm_Target :: string
  pm_Duration :: string
  pm_StartTime :: string
  pm_DeploymentLabels :: smap
  pm_Labels :: smap
  pm_IsDiff :: bool

definition zero_profileMeta :: profileMeta where
  "zero_profileMeta = \<lparr>pm_ProfileID = [], pm_ProfileType = [], pm_Target = [], pm_Duration = [], pm_StartTime = [],
     pm_DeploymentLabels = [], pm_Labels = [], pm_IsDiff = False\<rparr>"

definition ProfileTypes :: "string list" where
  "ProfileTypes = [''CPU'', ''WALL'', ''HEAP'', ''THREADS'', ''CONTENTION'', ''PEAK_HEAP'', ''HEAP_ALLOC'']"

definition hex_encode :: "string \<Rightarrow> string" where
  "hex_encode s = concat (map (\<lambda>c. [hex_digit (byte_of c div 16), hex_digit (byte_of c mod 16)]) s)"

definition syntheticProfileID :: "profiler_env \<Rightarrow> profileMeta \<Rightarrow> string" where
  "syntheticProfileID env m =
     ''syn:'' @ take 16 (hex_encode (px_sha256 env (concat (map (\<lambda>f. f @ [CHR 0x00])
       [pm_ProfileType m, pm_Target m, pm_StartTime m, pm_Duration m, sget (pm_Labels m) ''instance'']))))"

definition profileFromAPI :: "profiler_env \<Rightarrow> pbProfile \<Rightarrow> profileMeta" where
  "profileFromAPI env p =
     (let meta = \<lparr>pm_ProfileID = pp_Name p,
            pm_ProfileType = (if pp_ProfileType p \<in> set ProfileTypes then pp_ProfileType p else []),
            pm_Target = (case pp_Deployment p of None \<Rightarrow> [] | Some d \<Rightarrow> dp_Target d),
            pm_Duration = (case pp_Duration p of None \<Rightarrow> [] | Some d \<Rightarrow> duration_String d),
            pm_StartTime = (case pp_StartTime p of None \<Rightarrow> [] | Some t \<Rightarrow> format_nano t),
            pm_DeploymentLabels = (case pp_Deployment p of None \<Rightarrow> [] | Some d \<Rightarrow> dp_Labels d),
            pm_Labels = pp_Labels p, pm_IsDiff = False\<rparr>
      in if pm_ProfileID meta = [] then meta\<lparr>pm_ProfileID := syntheticProfileID env meta\<rparr> else meta)"

subsection \<open>The filter\<close>

record listProfilesParams =
  lp_Project :: string
  lp_ProfileType :: string
  lp_Target :: string
  lp_StartTime :: gtime
  lp_EndTime :: gtime
  lp_PageSize :: int
  lp_PageToken :: string

text \<open>
  Lower-case letters and digits of the lower-cased string. Beside the ASCII letters two code points
  have one as their lower case: the capital I with a dot and the Kelvin sign.
\<close>

definition ident_char :: "char \<Rightarrow> bool" where
  "ident_char c = (97 \<le> byte_of c \<and> byte_of c \<le> 122 \<or> 48 \<le> byte_of c \<and> byte_of c \<le> 57)"

fun normalizeIdent :: "string \<Rightarrow> string" where
  "normalizeIdent [] = []"
| "normalizeIdent (c # s) =
     (if ident_char (to_lower_char c) then to_lower_char c # normalizeIdent s
      else if c # take 1 s = [CHR 0xC4, CHR 0xB0] then CHR ''i'' # normalizeIdent s
      else if c # take 2 s = [CHR 0xE2, CHR 0x84, CHR 0xAA] then CHR ''k'' # normalizeIdent s
      else normalizeIdent s)"

record profileFilter =
  pf_profileType :: string
  pf_target :: string
  pf_start :: gtime
  pf_end :: gtime

definition newProfileFilter :: "listProfilesParams \<Rightarrow> profileFilter" where
  "newProfileFilter params = \<lparr>pf_profileType = lp_ProfileType params, pf_target = normalizeIdent (lp_Target params),
     pf_start = lp_StartTime params, pf_end = lp_EndTime params\<rparr>"

definition fingerprint :: "profiler_env \<Rightarrow> profileFilter \<Rightarrow> string \<Rightarrow> string" where
  "fingerprint env f project =
     hex_encode (take 16 (px_sha256 env (join [CHR 0x00]
       [project, pf_profileType f, pf_target f, format_nano (pf_start f), format_nano (pf_end f)])))"

definition filter_match :: "profileFilter \<Rightarrow> profileMeta \<Rightarrow> bool \<times> bool" where
  "filter_match f meta =
     (if pf_profileType f \<noteq> [] \<and> pm_ProfileType meta \<noteq> pf_profileType f then (False, False)
      else if pf_target f \<noteq> [] \<and> \<not> contains (normalizeIdent (pm_Target meta)) (pf_target f) then (False, False)
      else (let hasTimeFilter = (pf_start f \<noteq> time_zero \<or> pf_end f \<noteq> time_zero) in
        if hasTimeFilter \<and> pm_StartTime meta = [] then (False, True)
        else if hasTimeFilter then
          (case parse_rfc3339 (pm_StartTime meta) of
             None \<Rightarrow> (False, True)
           | Some mt \<Rightarrow>
               if pf_start f \<noteq> time_zero \<and> mt < pf_start f then (False, False)
               else if pf_end f \<noteq> time_zero \<and> pf_end f < mt then (False, False)
               else (True, False))
        else (True, False)))"

subsection \<open>Cursors\<close>

definition profileCursorPrefix :: string where "profileCursorPrefix = ''mcp_pc_v2_''"
definition profileCursorVersion :: int where "profileCursorVersion = 2"

definition encodeProfileCursor :: "profiler_env \<Rightarrow> profileCursor \<Rightarrow> string" where
  "encodeProfileCursor env c = profileCursorPrefix @ b64_encode RawURLEncoding (marshal (px_cursor env) c)"

definition first_cursor :: "string \<Rightarrow> profileCursor" where
  "first_cursor fp = \<lparr>pcu_Version = profileCursorVersion, pcu_APIToken = [], pcu_Offset = 0, pcu_Fingerprint = fp\<rparr>"

definition decodeProfileCursor :: "profiler_env \<Rightarrow> string \<Rightarrow> string \<Rightarrow> go_error + profileCursor" where
  "decodeProfileCursor env raw fp =
     (if raw = [] then Inr (first_cursor fp)
      else (case cut_prefix raw profileCursorPrefix of
          None \<Rightarrow> Inl (Sentinel ''invalid profiler cursor'')
        | Some enc \<Rightarrow>
            (case b64_decode RawURLEncoding enc of
               None \<Rightarrow> Inl (Sentinel ''invalid profiler cursor'')
             | Some b \<Rightarrow>
                 (case unmarshal (px_cursor env) b of
                    None \<Rightarrow> Inl (Sentinel ''invalid profiler cursor or cursor/filter mismatch'')
                  | Some c \<Rightarrow>
                      if pcu_Version c \<noteq> profileCursorVersion \<or> pcu_Offset c < 0 \<or> pcu_Fingerprint c \<noteq> fp
                      then Inl (Sentinel ''invalid profiler cursor or cursor/filter mismatch'') else Inr c))))"

subsection \<open>The listing\<close>

record profileListResult =
  plr_Count :: int
  plr_Profiles :: "profileMeta list"
  plr_CountByType :: "(string \<times> int) list"
  plr_CountByTarget :: "(string \<times> int) list"
  plr_NextPageToken :: string
  plr_Truncated :: bool
  plr_ExcludedCount :: int
  plr_Warning :: string

definition listMaxScan :: nat where "listMaxScan = 20000"

text \<open>The variables of the loop: the result so far, the targets seen, the resume position, the number of profiles scanned.\<close>

record list_state =
  ls_Profiles :: "profileMeta list"
  ls_Types :: "(string \<times> int) list"
  ls_Targets :: "(string \<times> int) list"
  ls_Excluded :: int
  ls_Seen :: "(string \<times> int) list"
  ls_resumeToken :: string
  ls_resumeOffset :: nat
  ls_scanned :: nat

definition see_profile :: "profileFilter \<Rightarrow> profileMeta \<Rightarrow> string \<times> nat \<Rightarrow> list_state \<Rightarrow> list_state" where
  "see_profile f meta resume st =
     (let st = st\<lparr>ls_scanned := Suc (ls_scanned st), ls_resumeToken := fst resume, ls_resumeOffset := snd resume,
            ls_Seen := (if pm_Target meta \<noteq> [] then bump (pm_Target meta) (ls_Seen st) else ls_Seen st),
            ls_Excluded := ls_Excluded st + (if snd (filter_match f meta) then 1 else 0)\<rparr>
      in if fst (filter_match f meta)
         then st\<lparr>ls_Profiles := ls_Profiles st @ [meta], ls_Types := bump (pm_ProfileType meta) (ls_Types st),
                ls_Targets := bump (pm_Target meta) (ls_Targets st)\<rparr>
         else st)"

text \<open>
  The loop over one page: \<open>ps\<close> are the profiles from index \<open>i\<close> on. It ends with the page, with the
  scan limit, or, when a match fills the result, with the position after that match (\<open>None\<close> at the
  end of the listing).
\<close>

datatype page_end = PageDone | PageFull "(string \<times> nat) option"

fun scan_page :: "profiler_env \<Rightarrow> profileFilter \<Rightarrow> int \<Rightarrow> string \<Rightarrow> string \<Rightarrow> nat \<Rightarrow> pbProfile list \<Rightarrow> list_state \<Rightarrow>
    list_state \<times> page_end" where
  "scan_page env f pageSize pageStart nextToken i [] st = (st, PageDone)"
| "scan_page env f pageSize pageStart nextToken i (p # ps) st =
     (if \<not> ls_scanned st < listMaxScan then (st, PageDone)
      else
        (let meta = profileFromAPI env p;
             resume = (if ps \<noteq> [] then (pageStart, Suc i) else (nextToken, 0));
             st = see_profile f meta resume st
         in if fst (filter_match f meta) \<and> int (length (ls_Profiles st)) = pageSize
            then (st, PageFull (if ps \<noteq> [] \<or> nextToken \<noteq> [] then Some resume else None))
            else scan_page env f pageSize pageStart nextToken (Suc i) ps st))"

definition availableTargetsHint :: "(string \<times> int) list \<Rightarrow> string" where
  "availableTargetsHint seen =
     (if seen = [] then []
      else '', available targets: '' @ join '', '' (topNBy seen 20 (\<lambda>name _. name)) @
        (if 20 < length seen then '' (+'' @ itoa (int (length seen) - 20) @ '' more)'' else []))"

definition list_result :: "list_state \<Rightarrow> bool \<Rightarrow> string \<Rightarrow> string \<Rightarrow> profileListResult" where
  "list_result st truncated token warning =
     \<lparr>plr_Count = int (length (ls_Profiles st)), plr_Profiles = ls_Profiles st, plr_CountByType = ls_Types st,
      plr_CountByTarget = ls_Targets st, plr_NextPageToken = token, plr_Truncated = truncated,
      plr_ExcludedCount = ls_Excluded st, plr_Warning = warning\<rparr>"

definition next_cursor :: "string \<Rightarrow> string \<times> nat \<Rightarrow> profileCursor" where
  "next_cursor fp pos = \<lparr>pcu_Version = profileCursorVersion, pcu_APIToken = fst pos, pcu_Offset = int (snd pos), pcu_Fingerprint = fp\<rparr>"

definition list_finish :: "profiler_env \<Rightarrow> listProfilesParams \<Rightarrow> string \<Rightarrow> list_state \<Rightarrow> profileListResult" where
  "list_finish env params fp st =
     (if listMaxScan \<le> ls_scanned st \<and> (ls_resumeToken st \<noteq> [] \<or> ls_resumeOffset st \<noteq> 0)
      then list_result st True (encodeProfileCursor env (next_cursor fp (ls_resumeToken st, ls_resumeOffset st)))
        (''Scan stopped at the '' @ itoa (int listMaxScan) @ ''-profile safety limit; continue with next_page_token.'')
      else list_result st False []
        (if lp_Target params \<noteq> [] \<and> ls_Profiles st = []
         then ''No profiles matched target '' @ quote (lp_Target params) @ availableTargetsHint (ls_Seen st) @ ''.'' else []))"

text \<open>
  The loop over the pages. It asks for the next page as long as there is one, whatever the pages
  hold, so it need not end: \<open>None\<close> is a run that does not return.
\<close>

partial_function (option) list_pages :: "profiler_env \<Rightarrow> listProfilesParams \<Rightarrow> profileFilter \<Rightarrow> string \<Rightarrow> string \<Rightarrow> int \<Rightarrow>
    list_state \<Rightarrow> (go_error + profileListResult) option" where
  "list_pages env params f fp pageStart offset st =
     (if \<not> ls_scanned st < listMaxScan then Some (Inr (list_finish env params fp st))
      else (case px_page env (''projects/'' @ lp_Project params) pageStart of
          Inl err \<Rightarrow> Some (Inl (scanError env (Wrap (''listing profiles: '' @ err_text err) [err])))
        | Inr (page, nextToken) \<Rightarrow>
            if int (length page) < offset then Some (Inl (Sentinel ''invalid profiler cursor offset''))
            else (case scan_page env f (lp_PageSize params) pageStart nextToken (nat offset) (drop (nat offset) page) st of
                (st, PageFull None) \<Rightarrow> Some (Inr (list_result st False [] []))
              | (st, PageFull (Some pos)) \<Rightarrow>
                  Some (Inr (list_result st True (encodeProfileCursor env (next_cursor fp pos)) []))
              | (st, PageDone) \<Rightarrow>
                  if nextToken = [] then Some (Inr (list_finish env params fp st))
                  else list_pages env params f fp nextToken 0 st)))"

declare list_pages.simps [code]

definition ListProfiles :: "profiler_env \<Rightarrow> listProfilesParams \<Rightarrow> (go_error + profileListResult) option" where
  "ListProfiles env params =
     (let f = newProfileFilter params; fp = fingerprint env f (lp_Project params) in
      case decodeProfileCursor env (lp_PageToken params) fp of
        Inl err \<Rightarrow> Some (Inl err)
      | Inr cursor \<Rightarrow>
          list_pages env params f fp (pcu_APIToken cursor) (pcu_Offset cursor)
            \<lparr>ls_Profiles = [], ls_Types = [], ls_Targets = [], ls_Excluded = 0, ls_Seen = [],
             ls_resumeToken = pcu_APIToken cursor, ls_resumeOffset = nat (pcu_Offset cursor), ls_scanned = 0\<rparr>)"

end
