(* ===== verification/Profile_Service.thy ===== *)
theory Profile_Service
  imports Profile_List
begin

text \<open>
  The operations on profiles (\<open>internal/gcpdata/profiler.go\<close>, \<open>profiler_navigation.go\<close>): loading a
  profile through the cache, differences of two profiles, the bounded results of navigation, bulk
  prefetching, and the trends of functions over many profiles.

  The state of a querier is the cache of the user and the process-wide counter of cached bytes.
  Logging and progress callbacks are left out.
\<close>

type_synonym querier = "profileMeta profileCache \<times> int"

subsection \<open>Source profiles\<close>

definition maxCompressedProfileBytes :: int where "maxCompressedProfileBytes = 16 * 2 ^ 20"
definition maxDecompressedProfileBytes :: int where "maxDecompressedProfileBytes = 64 * 2 ^ 20"

definition wrap :: "string \<Rightarrow> go_error \<Rightarrow> go_error" where
  "wrap context err = Wrap (context @ '': '' @ err_text err) [err]"

text \<open>
  The bytes of a source, decompressed when they start with the gzip magic. Reading stops one byte
  past the limit, so an error further on in the stream is not seen.
\<close>

definition read_source :: "profiler_env \<Rightarrow> string \<Rightarrow> go_error + string" where
  "read_source env data =
     (case (if take 2 data = [CHR 0x1F, CHR 0x8B] then px_gunzip env data else Inr (data, None)) of
        Inl err \<Rightarrow> Inl (wrap ''opening compressed profile'' err)
      | Inr (raw, end_err) \<Rightarrow>
          (let read = take (nat (maxDecompressedProfileBytes + 1)) raw in
           if maxDecompressedProfileBytes < int (length read)
           then Inl (Sentinel (''decompressed profile exceeds '' @ itoa maxDecompressedProfileBytes @ '' bytes''))
           else (case end_err of Some err \<Rightarrow> Inl (wrap ''reading profile data'' err) | None \<Rightarrow> Inr read)))"

definition parseSourceProfile :: "profiler_env \<Rightarrow> string \<Rightarrow> go_error + profile" where
  "parseSourceProfile env data =
     (if maxCompressedProfileBytes < int (length data)
      then Inl (Sentinel (''compressed profile is '' @ itoa (int (length data)) @ '' bytes; maximum is '' @
        itoa maxCompressedProfileBytes))
      else (case read_source env data of
          Inl err \<Rightarrow> Inl err
        | Inr raw \<Rightarrow>
            (case px_parse env raw of Inl err \<Rightarrow> Inl (wrap ''parsing profile data'' err) | Inr p \<Rightarrow> Inr p)))"

subsection \<open>Loading a profile\<close>

definition loadMaxScan :: nat where "loadMaxScan = 10000"

definition resource_name :: "string \<Rightarrow> string \<Rightarrow> string" where
  "resource_name project profileName =
     (if has_prefix profileName ''projects/'' then profileName else ''projects/'' @ project @ ''/profiles/'' @ profileName)"

definition is_profile :: "profiler_env \<Rightarrow> string \<Rightarrow> string \<Rightarrow> pbProfile \<Rightarrow> bool" where
  "is_profile env project profileName p =
     (pp_Name p = resource_name project profileName \<or> pp_Name p = profileName \<or>
      pm_ProfileID (profileFromAPI env p) = profileName)"

text \<open>The scan: \<open>k\<close> profiles may still be looked at, \<open>scanned\<close> have been.\<close>

datatype find_end = Found pbProfile | Exhausted nat | LimitReached | ScanFailed go_error

fun find_loop :: "(nat \<Rightarrow> go_error + pbProfile) \<Rightarrow> (pbProfile \<Rightarrow> bool) \<Rightarrow> nat \<Rightarrow> nat \<Rightarrow> find_end" where
  "find_loop items hit 0 scanned = LimitReached"
| "find_loop items hit (Suc k) scanned =
     (case items scanned of
        Inl err \<Rightarrow>
          if errors_is err iterator_Done then Exhausted scanned
          else ScanFailed (wrap (''scanning profiles after '' @ itoa (int scanned)) err)
      | Inr p \<Rightarrow> if hit p then Found p else find_loop items hit k (Suc scanned))"

definition not_found :: "string \<Rightarrow> string \<Rightarrow> string" where
  "not_found project profileName = ''profile '' @ quote profileName @ '' not found in project '' @ quote project"

definition fetchProfile :: "profiler_env \<Rightarrow> string \<Rightarrow> string \<Rightarrow> go_error + (profile \<times> profileMeta \<times> string)" where
  "fetchProfile env project profileName =
     (case find_loop (px_scan env (''projects/'' @ project)) (is_profile env project profileName) loadMaxScan 0 of
        ScanFailed err \<Rightarrow> Inl (scanError env err)
      | Exhausted n \<Rightarrow> Inl (Sentinel (not_found project profileName @ '' (scanned all '' @ itoa (int n) @ '' available profiles)''))
      | LimitReached \<Rightarrow> Inl (Sentinel (not_found project profileName @ '' within the first '' @ itoa (int loadMaxScan) @
          '' profiles scanned; the profile may exist further back '' @ [CHR 0xE2, CHR 0x80, CHR 0x94] @
          '' try a more recent profile from profiler_list results''))
      | Found p \<Rightarrow>
          if pp_ProfileBytes p = [] then Inl (Sentinel (''profile '' @ quote profileName @ '' has no profile bytes''))
          else (case parseSourceProfile env (pp_ProfileBytes p) of
              Inl err \<Rightarrow> Inl (wrap (''decoding profile '' @ quote profileName) err)
            | Inr prof \<Rightarrow> Inr (prof, profileFromAPI env p, pp_ProfileBytes p)))"

text \<open>A failed insert into the cache is logged only.\<close>

definition loadProfile :: "profiler_env \<Rightarrow> querier \<Rightarrow> string \<Rightarrow> string \<Rightarrow> bool \<Rightarrow>
    querier \<times> (go_error + (profile \<times> profileMeta))" where
  "loadProfile env q project profileName cacheFetched =
     (let (cache, proc) = q; key = profileCacheKey project profileName in
      case cache_Get cache key of
        (cache, Some (data, meta)) \<Rightarrow>
          (case parseSourceProfile env data of
             Inr p \<Rightarrow> ((cache, proc), Inr (p, meta))
           | Inl err \<Rightarrow> (cache_Delete cache proc key, Inl (wrap (''decoding cached profile '' @ quote profileName) err)))
      | (cache, None) \<Rightarrow>
          (case fetchProfile env project profileName of
             Inl err \<Rightarrow> ((cache, proc), Inl err)
           | Inr (p, meta, data) \<Rightarrow>
               if \<not> cacheFetched then ((cache, proc), Inr (p, meta))
               else (case cache_Put cache proc key data meta (\<lambda>_. False) of
                   (cache, proc, _) \<Rightarrow> ((cache, proc), Inr (p, meta)))))"

definition getOrFetchProfile :: "profiler_env \<Rightarrow> querier \<Rightarrow> string \<Rightarrow> string \<Rightarrow> querier \<times> (go_error + (profile \<times> profileMeta))" where
  "getOrFetchProfile env q project profileName = loadProfile env q project profileName True"

subsection \<open>Differences\<close>

definition fetchProfilePair :: "profiler_env \<Rightarrow> querier \<Rightarrow> string \<Rightarrow> string \<Rightarrow> string \<Rightarrow>
    querier \<times> (go_error + ((profile \<times> profileMeta) \<times> (profile \<times> profileMeta)))" where
  "fetchProfilePair env q project currentID baseID =
     (case getOrFetchProfile env q project currentID of
        (q, Inl err) \<Rightarrow> (q, Inl (wrap ''fetching current profile'' err))
      | (q, Inr cur) \<Rightarrow>
          (case getOrFetchProfile env q project baseID of
             (q, Inl err) \<Rightarrow> (q, Inl (wrap ''fetching base profile'' err))
           | (q, Inr base) \<Rightarrow> (q, Inr (cur, base))))"

definition buildDiffProfile :: "profiler_env \<Rightarrow> profile \<Rightarrow> profile \<Rightarrow> go_error + profile" where
  "buildDiffProfile env cur base =
     (case px_merge env [cur, px_scale env base (- 1)] of
        Inl err \<Rightarrow> Inl (wrap ''merging profiles'' err) | Inr p \<Rightarrow> Inr p)"

definition profileOrDiff :: "profiler_env \<Rightarrow> querier \<Rightarrow> string \<Rightarrow> string \<Rightarrow> string \<Rightarrow>
    querier \<times> (go_error + (profile \<times> profileMeta))" where
  "profileOrDiff env q project profileID baseID =
     (if baseID = [] then getOrFetchProfile env q project profileID
      else (case fetchProfilePair env q project profileID baseID of
          (q, Inl err) \<Rightarrow> (q, Inl err)
        | (q, Inr ((cur, meta), (base, _))) \<Rightarrow>
            (case buildDiffProfile env cur base of
               Inl err \<Rightarrow> (q, Inl (wrap ''building diff profile'' err))
             | Inr diff \<Rightarrow> (q, Inr (diff, meta\<lparr>pm_IsDiff := True\<rparr>)))))"

subsection \<open>Navigation\<close>

record navigationParams =
  np_Project :: string
  np_ProfileID :: string
  np_BaseProfileID :: string
  np_ValueIndex :: int

definition navigationLimit :: "int \<Rightarrow> int \<Rightarrow> int \<Rightarrow> int" where
  "navigationLimit limit fallback maximum = (if limit \<le> 0 then fallback else min limit maximum)"

text \<open>\<open>ProfileFetchError\<close>: a failure to load the source, told from errors of the analysis.\<close>

datatype navigation_error = ProfileFetchError go_error | AnalysisError go_error

record profileTopResult =
  tr_ProfileMeta :: profileMeta
  tr_ValueType :: valueTypeInfo
  tr_AvailableValues :: "valueTypeInfo list"
  tr_TotalValue :: int64
  tr_TopFunctions :: "topFunction list"
  tr_Truncated :: bool
  tr_TruncationHint :: string

definition TopProfile :: "profiler_env \<Rightarrow> querier \<Rightarrow> navigationParams \<Rightarrow> int \<Rightarrow> string \<Rightarrow> string \<Rightarrow>
    querier \<times> (navigation_error + profileTopResult)" where
  "TopProfile env q np limit sortBy filt =
     (case profileOrDiff env q (np_Project np) (np_ProfileID np) (np_BaseProfileID np) of
        (q, Inl err) \<Rightarrow> (q, Inl (ProfileFetchError err))
      | (q, Inr (p, meta)) \<Rightarrow>
          (let limit = navigationLimit limit 20 50; sortBy = (if sortBy = [] then ''cumulative'' else sortBy) in
           case topFunctions p (np_ValueIndex np) limit sortBy filt of
             Inl err \<Rightarrow> (q, Inl (AnalysisError err))
           | Inr (functions, tot, truncated) \<Rightarrow>
               (q, Inr \<lparr>tr_ProfileMeta = meta, tr_ValueType = profileValueTypes p ! nat (np_ValueIndex np),
                 tr_AvailableValues = profileValueTypes p, tr_TotalValue = tot, tr_TopFunctions = functions,
                 tr_Truncated = truncated,
                 tr_TruncationHint = (if truncated then ''Showing top '' @ itoa limit @
                   '' functions. Use filter to narrow results or increase limit (max 50).'' else [])\<rparr>)))"

record profilePeekResult =
  pr_ProfileMeta :: profileMeta
  pr_ValueType :: valueTypeInfo
  pr_Function :: peekFunctionInfo
  pr_Callers :: "peekEntry list"
  pr_Callees :: "peekEntry list"
  pr_CallersTruncated :: bool
  pr_CalleesTruncated :: bool
  pr_TruncationHint :: string

definition PeekProfile :: "profiler_env \<Rightarrow> (peekEntry list \<Rightarrow> peekEntry list) \<Rightarrow> querier \<Rightarrow> navigationParams \<Rightarrow> string \<Rightarrow> int \<Rightarrow>
    querier \<times> (navigation_error + profilePeekResult)" where
  "PeekProfile env perm q np functionName limit =
     (case profileOrDiff env q (np_Project np) (np_ProfileID np) (np_BaseProfileID np) of
        (q, Inl err) \<Rightarrow> (q, Inl (ProfileFetchError err))
      | (q, Inr (p, meta)) \<Rightarrow>
          (let limit = navigationLimit limit 10 30 in
           case peekFunction perm p functionName (np_ValueIndex np) limit of
             Inl err \<Rightarrow> (q, Inl (AnalysisError err))
           | Inr (info, callers, callees) \<Rightarrow>
               (let callersCut = (limit \<le> int (length callers)); calleesCut = (limit \<le> int (length callees)) in
                (q, Inr \<lparr>pr_ProfileMeta = meta, pr_ValueType = profileValueTypes p ! nat (np_ValueIndex np),
                  pr_Function = info, pr_Callers = callers, pr_Callees = callees,
                  pr_CallersTruncated = callersCut, pr_CalleesTruncated = calleesCut,
                  pr_TruncationHint = (if callersCut \<or> calleesCut then ''Showing up to '' @ itoa limit @
                    '' callers/callees. Increase limit (max 30) for more.'' else [])\<rparr>))))"

record profileFlamegraphResult =
  fr_ProfileMeta :: profileMeta
  fr_ValueType :: valueTypeInfo
  fr_TotalValue :: int64
  fr_Root :: flamegraphNode
  fr_MaxDepth :: int
  fr_MinPct :: rat
  fr_PrunedNodes :: int
  fr_Warning :: string

definition FlamegraphProfile :: "profiler_env \<Rightarrow> querier \<Rightarrow> navigationParams \<Rightarrow> string \<Rightarrow> int \<Rightarrow> rat \<Rightarrow>
    querier \<times> (navigation_error + profileFlamegraphResult)" where
  "FlamegraphProfile env q np rootFunction maxDepth minPct =
     (case profileOrDiff env q (np_Project np) (np_ProfileID np) (np_BaseProfileID np) of
        (q, Inl err) \<Rightarrow> (q, Inl (ProfileFetchError err))
      | (q, Inr (p, meta)) \<Rightarrow>
          (let depth = navigationLimit maxDepth 3 6; minPct = (if minPct \<le> 0 then 1 else minPct) in
           case flamegraph p rootFunction (np_ValueIndex np) depth 1000 minPct of
             Inl err \<Rightarrow> (q, Inl (AnalysisError err))
           | Inr (node, tot, pruned) \<Rightarrow>
               (q, Inr \<lparr>fr_ProfileMeta = meta, fr_ValueType = profileValueTypes p ! nat (np_ValueIndex np),
                 fr_TotalValue = tot, fr_Root = node, fr_MaxDepth = depth, fr_MinPct = minPct, fr_PrunedNodes = pruned,
                 fr_Warning = (if tot = 0 then ''Total profile value is zero (positive and negative values cancel out in diff profiles). All percentage values will be 0%.'' else [])\<rparr>)))"

definition CompareProfiles :: "profiler_env \<Rightarrow> (compareTopEntry list \<Rightarrow> compareTopEntry list) \<Rightarrow> querier \<Rightarrow> string \<Rightarrow> string \<Rightarrow>
    string \<Rightarrow> int \<Rightarrow> int \<Rightarrow> querier \<times> (go_error + (profileMeta \<times> profileMeta \<times> comparison))" where
  "CompareProfiles env perm q project currentID baseID valueIndex topCount =
     (case fetchProfilePair env q project currentID baseID of
        (q, Inl err) \<Rightarrow> (q, Inl err)
      | (q, Inr ((cur, curMeta), (base, baseMeta))) \<Rightarrow>
          (case compare_profiles perm cur base valueIndex topCount of
             Inl err \<Rightarrow> (q, Inl err)
           | Inr c \<Rightarrow> (q, Inr (curMeta, baseMeta, c))))"

subsection \<open>Prefetching\<close>

record prefetchResult =
  pf_Cached :: int
  pf_Skipped :: int
  pf_LastSkip :: "go_error option"
  pf_Stopped :: "go_error option"

definition prefetchMaxScan :: nat where "prefetchMaxScan = 20000"

text \<open>
  Caching one wanted profile: the flag says whether the scan goes on. An index out of range in the
  cache cannot happen (\<open>Profile_Cache\<close>); it is a skipped profile here.
\<close>

definition prefetch_one :: "profiler_env \<Rightarrow> string \<Rightarrow> (string \<Rightarrow> bool) \<Rightarrow> pbProfile \<Rightarrow> querier \<Rightarrow> prefetchResult \<Rightarrow>
    querier \<times> prefetchResult \<times> bool" where
  "prefetch_one env project keep p q res =
     (let (cache, proc) = q; meta = profileFromAPI env p; key = profileCacheKey project (pm_ProfileID meta);
          skip = (\<lambda>err. res\<lparr>pf_Skipped := pf_Skipped res + 1,
            pf_LastSkip := Some (wrap (''profile '' @ pm_ProfileID meta) err)\<rparr>)
      in case cache_Get cache key of
           (cache, Some _) \<Rightarrow> ((cache, proc), res\<lparr>pf_Cached := pf_Cached res + 1\<rparr>, True)
         | (cache, None) \<Rightarrow>
             (case cache_Put cache proc key (pp_ProfileBytes p) meta keep of
                (cache, proc, PutOk) \<Rightarrow> ((cache, proc), res\<lparr>pf_Cached := pf_Cached res + 1\<rparr>, True)
              | (cache, proc, PutErr err) \<Rightarrow>
                  if errors_is err errWouldEvict \<or> errors_is err errProcessCacheFull
                  then ((cache, proc), res\<lparr>pf_Stopped := Some err\<rparr>, False)
                  else ((cache, proc), skip err, True)
              | (cache, proc, PutPanic) \<Rightarrow> ((cache, proc), skip (Sentinel ''index out of range''), True)))"

fun prefetch_loop :: "profiler_env \<Rightarrow> string \<Rightarrow> string list \<Rightarrow> nat \<Rightarrow> nat \<Rightarrow> int \<Rightarrow> querier \<Rightarrow> prefetchResult \<Rightarrow>
    querier \<times> prefetchResult" where
  "prefetch_loop env project ids 0 scanned remaining q res = (q, res)"
| "prefetch_loop env project ids (Suc k) scanned remaining q res =
     (if remaining \<le> 0 \<or> \<not> px_alive env scanned then (q, res)
      else (case px_scan env (''projects/'' @ project) scanned of
          Inl err \<Rightarrow>
            if errors_is err iterator_Done then (q, res)
            else (q, res\<lparr>pf_Stopped := Some (wrap ''list API call failed'' err)\<rparr>)
        | Inr p \<Rightarrow>
            if pm_ProfileID (profileFromAPI env p) \<notin> set ids
            then prefetch_loop env project ids k (Suc scanned) remaining q res
            else (case prefetch_one env project (\<lambda>key. key \<in> profileCacheKey project ` set ids) p q res of
                (q, res, True) \<Rightarrow> prefetch_loop env project ids k (Suc scanned) (remaining - 1) q res
              | (q, res, False) \<Rightarrow> (q, res))))"

definition prefetchProfiles :: "profiler_env \<Rightarrow> querier \<Rightarrow> string \<Rightarrow> string list \<Rightarrow> querier \<times> prefetchResult" where
  "prefetchProfiles env q project ids =
     prefetch_loop env project ids prefetchMaxScan 0 (int (length ids)) q
       \<lparr>pf_Cached = 0, pf_Skipped = 0, pf_LastSkip = None, pf_Stopped = None\<rparr>"

definition prefetch_warning :: "prefetchResult \<Rightarrow> int \<Rightarrow> string" where
  "prefetch_warning r wantedCount =
     (let causes = (case pf_Stopped r of None \<Rightarrow> [] | Some err \<Rightarrow> [''stopped: '' @ err_text err]) @
            (if 0 < pf_Skipped r
             then [itoa (pf_Skipped r) @ '' not cached, last: '' @
               (case pf_LastSkip r of None \<Rightarrow> ''<nil>'' | Some err \<Rightarrow> err_text err)] else [])
      in if causes = [] then []
         else ''Bulk prefetch cached '' @ itoa (pf_Cached r) @ ''/'' @ itoa wantedCount @ '' profiles ('' @
           join ''; '' causes @ ''); the rest were fetched individually.'')"

subsection \<open>Trends\<close>

record computeTrendsParams =
  ct_Project :: string
  ct_ProfileType :: string
  ct_Target :: string
  ct_FunctionFilter :: string
  ct_ValueIndex :: int
  ct_MaxProfiles :: int
  ct_MaxFunctions :: int

record trendsDataPoint =
  td_ProfileID :: string
  td_Timestamp :: string
  td_SelfValue :: int64
  td_SelfPct :: rat
  td_CumulativeValue :: int64
  td_CumulativePct :: rat

record trendsFunctionSeries =
  tfs_Name :: string
  tfs_File :: string
  tfs_DataPoints :: "trendsDataPoint list"

record profileTrendsResult =
  ptr_Target :: string
  ptr_ProfileType :: string
  ptr_ValueType :: valueTypeInfo
  ptr_ProfileCount :: int
  ptr_AnalyzedCount :: int
  ptr_TimeRangeStart :: string
  ptr_TimeRangeEnd :: string
  ptr_Functions :: "trendsFunctionSeries list"
  ptr_FailedProfiles :: int
  ptr_LastError :: string
  ptr_Warning :: string
  ptr_Truncated :: bool
  ptr_TruncationHint :: string

text \<open>The variables of the loop over the profiles; a series carries its file and its peak.\<close>

record series =
  se_file :: string
  se_peak :: int64
  se_points :: "trendsDataPoint list"

record trends_state =
  tst_querier :: querier
  tst_targets :: "string list"
  tst_series :: "(string \<times> series) list"
  tst_valueType :: "valueTypeInfo option"
  tst_failed :: int
  tst_lastErr :: "go_error option"

definition data_point :: "profileMeta \<Rightarrow> int64 \<Rightarrow> funcCost \<Rightarrow> trendsDataPoint" where
  "data_point meta tot c = \<lparr>td_ProfileID = pm_ProfileID meta, td_Timestamp = pm_StartTime meta,
     td_SelfValue = fc_self c, td_SelfPct = safePercent (fc_self c) tot,
     td_CumulativeValue = fc_cumulative c, td_CumulativePct = safePercent (fc_cumulative c) tot\<rparr>"

definition add_point :: "profileMeta \<Rightarrow> int64 \<Rightarrow> string \<times> funcCost \<Rightarrow> (string \<times> series) list \<Rightarrow> (string \<times> series) list" where
  "add_point meta tot x ss =
     (let c = snd x; v = absInt64 (fc_cumulative c);
          se = (case map_of ss (fst x) of None \<Rightarrow> \<lparr>se_file = fc_file c, se_peak = 0, se_points = []\<rparr> | Some se \<Rightarrow> se)
      in AList.update (fst x) (se\<lparr>se_points := se_points se @ [data_point meta tot c],
           se_peak := (if sint (se_peak se) < sint v then v else se_peak se)\<rparr>) ss)"

text \<open>
  The functions to track: those named by the filter, or the top functions of the first profile that
  has any. \<open>Inr None\<close> skips an empty profile.
\<close>

definition discover_targets :: "computeTrendsParams \<Rightarrow> profile \<Rightarrow> string list \<Rightarrow> go_error + string list option" where
  "discover_targets params p targets =
     (if ct_FunctionFilter params = [] \<and> targets = [] then
        (case topFunctions p (ct_ValueIndex params) (ct_MaxFunctions params) ''cumulative'' [] of
           Inl err \<Rightarrow> Inl (wrap ''analyzing profile for function discovery'' err)
         | Inr (functions, _, _) \<Rightarrow> if functions = [] then Inr None else Inr (Some (map tf_FunctionName functions)))
      else Inr (Some targets))"

definition resolve_type :: "int \<Rightarrow> profile \<Rightarrow> valueTypeInfo option \<Rightarrow> valueTypeInfo option" where
  "resolve_type k p vt =
     (if vt = None \<and> k < int (length (profileValueTypes p)) then Some (profileValueTypes p ! nat k) else vt)"

definition trend_profile :: "profiler_env \<Rightarrow> computeTrendsParams \<Rightarrow> profileMeta \<Rightarrow> trends_state \<Rightarrow>
    (querier \<times> go_error) + trends_state" where
  "trend_profile env params meta st =
     (case loadProfile env (tst_querier st) (ct_Project params) (pm_ProfileID meta) False of
        (q, Inl err) \<Rightarrow> Inr (st\<lparr>tst_querier := q, tst_failed := tst_failed st + 1, tst_lastErr := Some err\<rparr>)
      | (q, Inr (p, _)) \<Rightarrow>
          (let st = st\<lparr>tst_querier := q, tst_valueType := resolve_type (ct_ValueIndex params) p (tst_valueType st)\<rparr> in
           case discover_targets params p (tst_targets st) of
             Inl err \<Rightarrow> Inl (q, err)
           | Inr None \<Rightarrow> Inr st
           | Inr (Some targets) \<Rightarrow>
               (case scanFunctionCosts p (ct_ValueIndex params) (ct_FunctionFilter params) targets of
                  Inl err \<Rightarrow> Inl (q, wrap (''analyzing profile '' @ pm_ProfileID meta) err)
                | Inr (costs, tot) \<Rightarrow>
                    Inr (st\<lparr>tst_targets := targets, tst_series := fold (add_point meta tot) costs (tst_series st)\<rparr>))))"

text \<open>\<open>ended i\<close> is the cause of the end of the context if it has ended before the i-th profile.\<close>

fun trend_loop :: "profiler_env \<Rightarrow> (nat \<Rightarrow> go_error option) \<Rightarrow> computeTrendsParams \<Rightarrow> nat \<Rightarrow> nat \<Rightarrow> profileMeta list \<Rightarrow>
    trends_state \<Rightarrow> (querier \<times> go_error) + trends_state" where
  "trend_loop env ended params n i [] st = Inr st"
| "trend_loop env ended params n i (meta # metas) st =
     (case ended i of
        Some cause \<Rightarrow> Inl (tst_querier st, wrap (''stopped after '' @ itoa (int i) @ ''/'' @ itoa (int n) @ '' profiles'') cause)
      | None \<Rightarrow>
          (case trend_profile env params meta st of
             Inl err \<Rightarrow> Inl err | Inr st \<Rightarrow> trend_loop env ended params n (Suc i) metas st))"

definition trend_warnings :: "computeTrendsParams \<Rightarrow> int \<Rightarrow> prefetchResult \<Rightarrow> trends_state \<Rightarrow> string list" where
  "trend_warnings params n pf st =
     (let analyzed = n - tst_failed st; w = prefetch_warning pf n in
      (if ct_FunctionFilter params = [] \<and> tst_targets st = []
       then [''All '' @ itoa analyzed @ '' analyzed profiles had no samples for value_index '' @
         itoa (ct_ValueIndex params) @ ''; there are no functions to track.''] else []) @
      (if analyzed < n
       then [''Only '' @ itoa analyzed @ ''/'' @ itoa n @ '' profiles analyzed successfully ('' @ itoa (tst_failed st) @
         '' could not be fetched or decoded, see last_error); trend data may be incomplete.''] else []) @
      (if w \<noteq> [] then [w] else []))"

definition trends_result :: "((string \<times> series) list \<Rightarrow> (string \<times> series) list) \<Rightarrow> computeTrendsParams \<Rightarrow> profileMeta list \<Rightarrow>
    prefetchResult \<Rightarrow> trends_state \<Rightarrow> profileTrendsResult" where
  "trends_result perm params metas pf st =
     (let n = int (length metas);
          ranked = sort_less (\<lambda>a b. sint (se_peak (snd b)) < sint (se_peak (snd a))) (perm (tst_series st));
          truncated = (0 < ct_MaxFunctions params \<and> ct_MaxFunctions params < int (length ranked));
          shown = (if truncated then take (nat (ct_MaxFunctions params)) ranked else ranked)
      in \<lparr>ptr_Target = ct_Target params, ptr_ProfileType = ct_ProfileType params, ptr_ValueType = (case tst_valueType st of
            None \<Rightarrow> \<lparr>vt_Index = nat (ct_ValueIndex params), vt_Type = [], vt_Unit = []\<rparr> | Some vt \<Rightarrow> vt),
          ptr_ProfileCount = n, ptr_AnalyzedCount = n - tst_failed st,
          ptr_TimeRangeStart = pm_StartTime (hd metas), ptr_TimeRangeEnd = pm_StartTime (last metas),
          ptr_Functions = map (\<lambda>x. \<lparr>tfs_Name = fst x, tfs_File = se_file (snd x), tfs_DataPoints = se_points (snd x)\<rparr>) shown,
          ptr_FailedProfiles = tst_failed st,
          ptr_LastError = (case tst_lastErr st of None \<Rightarrow> [] | Some err \<Rightarrow> err_text err),
          ptr_Warning = join '' '' (trend_warnings params n pf st), ptr_Truncated = truncated,
          ptr_TruncationHint = (if truncated then ''Showing top '' @ itoa (ct_MaxFunctions params) @ '' of '' @
            itoa (int (length (tst_series st))) @ '' functions. Use function_filter to narrow results.'' else [])\<rparr>)"

text \<open>
  \<open>order\<close> and \<open>perm\<close> are the orders an unstable sort and the iteration over a map may leave. A
  negative value index, which the schema of the tool rejects, would panic. The profiles listed are
  at most \<open>MaxProfiles\<close>; \<open>None\<close> is a listing that does not return.
\<close>

definition trend_list_params :: "computeTrendsParams \<Rightarrow> listProfilesParams" where
  "trend_list_params params = \<lparr>lp_Project = ct_Project params, lp_ProfileType = ct_ProfileType params,
     lp_Target = ct_Target params, lp_StartTime = time_zero, lp_EndTime = time_zero,
     lp_PageSize = ct_MaxProfiles params, lp_PageToken = []\<rparr>"

definition analyze_trends :: "profiler_env \<Rightarrow> (nat \<Rightarrow> go_error option) \<Rightarrow> ((string \<times> series) list \<Rightarrow> (string \<times> series) list) \<Rightarrow>
    computeTrendsParams \<Rightarrow> querier \<Rightarrow> profileMeta list \<Rightarrow> querier \<times> (go_error + profileTrendsResult)" where
  "analyze_trends env ended perm params q metas =
     (case prefetchProfiles env q (ct_Project params) (remdups (map pm_ProfileID metas)) of
        (q, pf) \<Rightarrow>
          (case trend_loop env ended params (length metas) 0 metas
              \<lparr>tst_querier = q, tst_targets = [], tst_series = [], tst_valueType = None, tst_failed = 0, tst_lastErr = None\<rparr> of
             Inl (q, err) \<Rightarrow> (q, Inl err)
           | Inr st \<Rightarrow>
               (tst_querier st,
               if int (length metas) - tst_failed st = 0
               then Inl (Wrap (''failed to fetch or decode any of '' @ itoa (int (length metas)) @ '' profiles (last error: '' @
                 (case tst_lastErr st of None \<Rightarrow> [] | Some err \<Rightarrow> err_text err) @ '')'') (map the (filter (\<lambda>e. e \<noteq> None) [tst_lastErr st])))
               else Inr (trends_result perm params metas pf st))))"

definition ComputeTrends :: "profiler_env \<Rightarrow> (nat \<Rightarrow> go_error option) \<Rightarrow> (profileMeta list \<Rightarrow> profileMeta list) \<Rightarrow>
    ((string \<times> series) list \<Rightarrow> (string \<times> series) list) \<Rightarrow> querier \<Rightarrow> computeTrendsParams \<Rightarrow>
    (querier \<times> (go_error + profileTrendsResult)) option" where
  "ComputeTrends env ended order perm q params =
     (case ListProfiles env (trend_list_params params) of
        None \<Rightarrow> None
      | Some (Inl err) \<Rightarrow> Some (q, Inl (wrap ''listing profiles'' err))
      | Some (Inr profiles) \<Rightarrow>
          if plr_Count profiles = 0
          then Some (q, Inl (Sentinel (''no profiles found for type='' @ quote (ct_ProfileType params) @ '' target='' @
            quote (ct_Target params) @ '' in project '' @ quote (ct_Project params))))
          else Some (analyze_trends env ended perm params q
            (sort_less (\<lambda>a b. pm_StartTime a < pm_StartTime b) (order (plr_Profiles profiles)))))"

end
