(* ===== verification/Profile_Props.thy ===== *)
theory Profile_Props
  imports Profile_Analysis
begin

text \<open>
  Properties of the profile analysis: the one-pass scan computes the costs a direct definition
  gives, the ranking and the comparison are exact, and a call tree stays within its bounds.
\<close>

subsection \<open>Reference costs\<close>

text \<open>The lines of a stack, each with the number of its location (0 is the leaf).\<close>

definition stack_lines :: "sample \<Rightarrow> (nat \<times> pfunction option) list" where
  "stack_lines s = concat (map (\<lambda>(i, loc). map (Pair i) loc) (enumerate 0 (sa_Location s)))"

definition line_of :: "string \<Rightarrow> nat \<times> pfunction option \<Rightarrow> bool" where
  "line_of n x = (map_option fn_Name (snd x) = Some n)"

definition in_stack :: "string \<Rightarrow> (nat \<times> pfunction option) list \<Rightarrow> bool" where
  "in_stack n ls = (\<exists>x \<in> set ls. line_of n x)"

definition leaf_lines :: "string \<Rightarrow> (nat \<times> pfunction option) list \<Rightarrow> nat" where
  "leaf_lines n ls = length (filter (\<lambda>x. fst x = 0 \<and> line_of n x) ls)"

definition self_reference :: "int \<Rightarrow> string \<Rightarrow> sample list \<Rightarrow> int64" where
  "self_reference k n ss = (\<Sum>s \<leftarrow> ss. of_nat (leaf_lines n (stack_lines s)) * sample_value k s)"

definition cumulative_reference :: "int \<Rightarrow> string \<Rightarrow> sample list \<Rightarrow> int64" where
  "cumulative_reference k n ss = (\<Sum>s \<leftarrow> ss. if in_stack n (stack_lines s) then sample_value k s else 0)"

definition self_of :: "costs \<Rightarrow> string \<Rightarrow> int64" where
  "self_of costs n = (case map_of costs n of None \<Rightarrow> 0 | Some c \<Rightarrow> fc_self c)"

definition cumulative_of :: "costs \<Rightarrow> string \<Rightarrow> int64" where
  "cumulative_of costs n = (case map_of costs n of None \<Rightarrow> 0 | Some c \<Rightarrow> fc_cumulative c)"

subsection \<open>The scan\<close>

lemma fold_nested:
  "fold (\<lambda>(i, loc). fold (g i) loc) xs st = fold (\<lambda>(i, l). g i l) (concat (map (\<lambda>(i, loc). map (Pair i) loc) xs)) st"
  by (induction xs arbitrary: st) (auto simp: fold_map o_def)

text \<open>One line, seen through the lookups.\<close>

lemma scan_line_cases:
  assumes "scan_line want v leaf line (costs, seen) = (costs', seen')"
  obtains (skip) "\<And>n i. \<not> (want n \<and> line_of n (i, line))" "costs' = costs" "seen' = seen"
  | (charge) m c where "want m" "\<And>n i. line_of n (i, line) \<longleftrightarrow> n = m" "costs' = AList.update m c costs"
      "fc_self c = self_of costs m + (if leaf then v else 0)"
      "fc_cumulative c = cumulative_of costs m + (if m \<in> set seen then 0 else v)" "set seen' = insert m (set seen)"
proof (cases line)
  case None
  with assms show ?thesis by (intro skip) (auto simp: scan_line_def line_of_def)
next
  case (Some f)
  show ?thesis
  proof (cases "want (fn_Name f)")
    case False
    with Some assms show ?thesis by (intro skip) (auto simp: scan_line_def line_of_def)
  next
    case True
    define c0 where "c0 = (case map_of costs (fn_Name f) of None \<Rightarrow> \<lparr>fc_file = fn_Filename f, fc_self = 0, fc_cumulative = 0\<rparr> | Some c \<Rightarrow> c)"
    have c0: "fc_self c0 = self_of costs (fn_Name f)" "fc_cumulative c0 = cumulative_of costs (fn_Name f)"
      by (simp_all add: c0_def self_of_def cumulative_of_def split: option.split)
    define c1 where "c1 = (if leaf then c0\<lparr>fc_self := fc_self c0 + v\<rparr> else c0)"
    have r: "(costs', seen') = (if fn_Name f \<notin> set seen
        then (AList.update (fn_Name f) (c1\<lparr>fc_cumulative := fc_cumulative c1 + v\<rparr>) costs, fn_Name f # seen)
        else (AList.update (fn_Name f) c1 costs, seen))"
      using assms Some True unfolding c1_def c0_def by (simp add: scan_line_def Let_def)
    have l: "line_of n (i, line) \<longleftrightarrow> n = fn_Name f" for n i using Some by (auto simp: line_of_def)
    show ?thesis
    proof (cases "fn_Name f \<in> set seen")
      case True
      with r c0 l \<open>want (fn_Name f)\<close> show ?thesis by (intro charge [of "fn_Name f" c1]) (auto simp: c1_def)
    next
      case False
      with r c0 l \<open>want (fn_Name f)\<close> show ?thesis
        by (intro charge [of "fn_Name f" "c1\<lparr>fc_cumulative := fc_cumulative c1 + v\<rparr>"]) (auto simp: c1_def)
    qed
  qed
qed

lemma scan_line_lookup:
  assumes "scan_line want v leaf line (costs, seen) = (costs', seen')"
  shows "self_of costs' n = self_of costs n + (if want n \<and> leaf \<and> line_of n (i, line) then v else 0)"
    and "cumulative_of costs' n = cumulative_of costs n + (if want n \<and> line_of n (i, line) \<and> n \<notin> set seen then v else 0)"
    and "fst ` set costs' = fst ` set costs \<union> {n. want n \<and> line_of n (i, line)}"
    and "set seen' = set seen \<union> {n. want n \<and> line_of n (i, line)}"
    and "distinct (map fst costs) \<Longrightarrow> distinct (map fst costs')"
proof -
  have dom: "fst ` set (AList.update k c al) = insert k (fst ` set al)" for k and c :: funcCost and al
    using dom_update [of k c al] by simp
  from assms show "self_of costs' n = self_of costs n + (if want n \<and> leaf \<and> line_of n (i, line) then v else 0)"
    by (cases rule: scan_line_cases) (auto simp: self_of_def [of "AList.update _ _ _"] update_conv' self_of_def [of costs n])
  from assms show "cumulative_of costs' n = cumulative_of costs n + (if want n \<and> line_of n (i, line) \<and> n \<notin> set seen then v else 0)"
    by (cases rule: scan_line_cases) (auto simp: cumulative_of_def [of "AList.update _ _ _"] update_conv' cumulative_of_def [of costs n])
  from assms show "fst ` set costs' = fst ` set costs \<union> {n. want n \<and> line_of n (i, line)}"
    by (cases rule: scan_line_cases) (auto simp: dom)
  from assms show "set seen' = set seen \<union> {n. want n \<and> line_of n (i, line)}"
    by (cases rule: scan_line_cases) auto
  show "distinct (map fst costs')" if "distinct (map fst costs)"
    using assms that by (cases rule: scan_line_cases) (auto simp: distinct_update)
qed

lemma scan_lines_lookup:
  assumes "fold (\<lambda>(i, l). scan_line want v (i = 0) l) ls (costs, []) = (costs', seen')"
  shows "self_of costs' n = self_of costs n + (if want n then of_nat (leaf_lines n ls) * v else 0) \<and>
    cumulative_of costs' n = cumulative_of costs n + (if want n \<and> in_stack n ls then v else 0) \<and>
    fst ` set costs' = fst ` set costs \<union> {n. want n \<and> in_stack n ls} \<and>
    set seen' = {n. want n \<and> in_stack n ls} \<and> (distinct (map fst costs) \<longrightarrow> distinct (map fst costs'))"
  using assms
proof (induction ls arbitrary: costs' seen' rule: rev_induct)
  case Nil
  then show ?case by (simp add: leaf_lines_def in_stack_def)
next
  case (snoc x ls)
  obtain i line where x: "x = (i, line)" by fastforce
  obtain c1 s1 where st: "fold (\<lambda>(i, l). scan_line want v (i = 0) l) ls (costs, []) = (c1, s1)" by fastforce
  have step: "scan_line want v (i = 0) line (c1, s1) = (costs', seen')" using snoc.prems st x by simp
  have in_snoc: "in_stack m (ls @ [x]) \<longleftrightarrow> in_stack m ls \<or> line_of m (i, line)" for m by (auto simp: in_stack_def x)
  have leaf_snoc: "leaf_lines n (ls @ [x]) = leaf_lines n ls + (if i = 0 \<and> line_of n (i, line) then 1 else 0)"
    by (cases "i = 0") (auto simp: leaf_lines_def x)
  note lk = scan_line_lookup [OF step]
  have "self_of costs' n = self_of costs n + (if want n then of_nat (leaf_lines n (ls @ [x])) * v else 0)"
    using snoc.IH [OF st] lk(1) [of n i] by (cases "i = 0") (auto simp: leaf_snoc distrib_right)
  moreover have "cumulative_of costs' n = cumulative_of costs n + (if want n \<and> in_stack n (ls @ [x]) then v else 0)"
    using snoc.IH [OF st] lk(2) [of n i] by (auto simp: in_snoc)
  moreover have "fst ` set costs' = fst ` set costs \<union> {n. want n \<and> in_stack n (ls @ [x])}"
    "set seen' = {n. want n \<and> in_stack n (ls @ [x])}"
    using snoc.IH [OF st] lk(3,4) [of i] by (auto simp: in_snoc)
  ultimately show ?case using snoc.IH [OF st] lk(5) by blast
qed

lemma scan_sample_lookup:
  "self_of (scan_sample want k s costs) n = self_of costs n + (if want n then of_nat (leaf_lines n (stack_lines s)) * sample_value k s else 0)"
  "cumulative_of (scan_sample want k s costs) n = cumulative_of costs n + (if want n \<and> in_stack n (stack_lines s) then sample_value k s else 0)"
  "fst ` set (scan_sample want k s costs) = fst ` set costs \<union> {n. want n \<and> in_stack n (stack_lines s)}"
  "distinct (map fst costs) \<Longrightarrow> distinct (map fst (scan_sample want k s costs))"
proof -
  let ?r = "fold (\<lambda>(i, l). scan_line want (sample_value k s) (i = 0) l) (stack_lines s) (costs, [])"
  have r: "scan_sample want k s costs = fst ?r"
    by (simp add: scan_sample_def stack_lines_def fold_nested [where g = "\<lambda>i. scan_line want (sample_value k s) (i = 0)"])
  note lk = scan_lines_lookup [of want "sample_value k s" "stack_lines s" costs "fst ?r" "snd ?r" n]
  show "self_of (scan_sample want k s costs) n = self_of costs n + (if want n then of_nat (leaf_lines n (stack_lines s)) * sample_value k s else 0)"
    "cumulative_of (scan_sample want k s costs) n = cumulative_of costs n + (if want n \<and> in_stack n (stack_lines s) then sample_value k s else 0)"
    "fst ` set (scan_sample want k s costs) = fst ` set costs \<union> {n. want n \<and> in_stack n (stack_lines s)}"
    "distinct (map fst costs) \<Longrightarrow> distinct (map fst (scan_sample want k s costs))"
    using lk unfolding r by simp_all
qed

lemma scan_samples_lookup:
  "distinct (map fst costs) \<Longrightarrow>
    distinct (map fst (fold (scan_sample want k) ss costs)) \<and>
    fst ` set (fold (scan_sample want k) ss costs) = fst ` set costs \<union> {n. want n \<and> (\<exists>s \<in> set ss. in_stack n (stack_lines s))} \<and>
    (want n \<longrightarrow> self_of (fold (scan_sample want k) ss costs) n = self_of costs n + self_reference k n ss \<and>
       cumulative_of (fold (scan_sample want k) ss costs) n = cumulative_of costs n + cumulative_reference k n ss)"
proof (induction ss arbitrary: costs)
  case Nil
  then show ?case by (simp add: self_reference_def cumulative_reference_def)
next
  case (Cons s ss)
  from Cons.IH [OF scan_sample_lookup(4) [OF Cons.prems, of want k s]]
  show ?case
    by (auto simp: scan_sample_lookup self_reference_def cumulative_reference_def)
qed

text \<open>
  C19: the single pass over the samples computes what a direct definition gives: every wanted
  function that occurs in a stack has one entry; its self cost is the sum over the samples of the
  value once per line of the leaf location, its cumulative cost the sum of the values of the
  samples it occurs in, once per sample however often it recurs; the total is the sum of all
  values. The sums are those of 64-bit integers.
\<close>

theorem scan_costs_exact:
  assumes "scanFunctionCosts p k filt targets = Inr (costs, tot)"
  shows "tot = (\<Sum>s \<leftarrow> pr_Sample p. sample_value k s) \<and> distinct (map fst costs) \<and>
         fst ` set costs = {n. wanted filt targets n \<and> (\<exists>s \<in> set (pr_Sample p). in_stack n (stack_lines s))} \<and>
         (\<forall>(n, c) \<in> set costs. fc_self c = self_reference k n (pr_Sample p) \<and>
            fc_cumulative c = cumulative_reference k n (pr_Sample p))"
proof -
  have c: "costs = fold (scan_sample (wanted filt targets) k) (pr_Sample p) []" "tot = (\<Sum>s \<leftarrow> pr_Sample p. sample_value k s)"
    using assms by (auto simp: scanFunctionCosts_def split: option.splits)
  note lk = scan_samples_lookup [of "[]" "wanted filt targets" k "pr_Sample p", folded c(1)]
  have dist: "distinct (map fst costs)" and dom: "fst ` set costs = {n. wanted filt targets n \<and> (\<exists>s \<in> set (pr_Sample p). in_stack n (stack_lines s))}"
    using lk by simp_all
  have "fc_self c = self_reference k n (pr_Sample p) \<and> fc_cumulative c = cumulative_reference k n (pr_Sample p)"
    if "(n, c) \<in> set costs" for n c
  proof -
    have "map_of costs n = Some c" using dist that by simp
    moreover from that have "n \<in> fst ` set costs" by force
    then have "wanted filt targets n" using dom by simp
    moreover from \<open>wanted filt targets n\<close> have "self_of costs n = self_reference k n (pr_Sample p)"
      "cumulative_of costs n = cumulative_reference k n (pr_Sample p)"
      using lk [of n] by (simp_all add: self_of_def cumulative_of_def)
    ultimately show ?thesis by (simp add: self_of_def cumulative_of_def)
  qed
  with c(2) dist dom show ?thesis by blast
qed

subsection \<open>Pruned call trees\<close>

fun flame_size :: "flamegraphNode \<Rightarrow> nat" where
  "flame_size (FlamegraphNode n f s c pct ds) = Suc (sum_list (map flame_size ds))"

fun flame_height :: "flamegraphNode \<Rightarrow> nat" where
  "flame_height (FlamegraphNode n f s c pct ds) = (if ds = [] then 0 else Suc (Max (set (map flame_height ds))))"

fun flame_below :: "flamegraphNode \<Rightarrow> flamegraphNode list" where
  "flame_below (FlamegraphNode n f s c pct ds) = concat (map (\<lambda>d. d # flame_below d) ds)"

text \<open>
  \<open>prunes tot t f n\<close>: \<open>f\<close> is the call tree \<open>t\<close> with the children in the order of their cost and \<open>n\<close>
  subtrees cut off; \<open>selects\<close> says the same of a list of children.
\<close>

inductive prunes :: "int64 \<Rightarrow> trieNode \<Rightarrow> flamegraphNode \<Rightarrow> int \<Rightarrow> bool"
  and selects :: "int64 \<Rightarrow> trieNode list \<Rightarrow> flamegraphNode list \<Rightarrow> int \<Rightarrow> bool" for tot where
  node: "selects tot (sortedChildren t) ds n \<Longrightarrow> prunes tot t (to_flame tot t ds) n"
| none: "selects tot [] [] 0"
| cut: "selects tot cs ds n \<Longrightarrow> selects tot (c # cs) ds (n + 1)"
| keep: "prunes tot c d m \<Longrightarrow> selects tot cs ds n \<Longrightarrow> selects tot (c # cs) (d # ds) (m + n)"

lemma selects_none: "selects tot cs [] (int (length cs))"
  by (induction cs) (auto intro: prunes_selects.intros simp: add.commute [of 1] dest: prunes_selects.cut)

definition in_bounds :: "rat \<Rightarrow> nat \<Rightarrow> flamegraphNode \<Rightarrow> bool" where
  "in_bounds minPct levels d = (flame_height d \<le> levels \<and> (\<forall>e \<in> set (flame_below d). minPct \<le> \<bar>fg_Pct e\<bar>))"

lemma to_flame_simps [simp]:
  "flame_size (to_flame tot t ds) = Suc (sum_list (map flame_size ds))"
  "flame_below (to_flame tot t ds) = concat (map (\<lambda>d. d # flame_below d) ds)"
  "flame_height (to_flame tot t ds) = (if ds = [] then 0 else Suc (Max (set (map flame_height ds))))"
  "fg_Pct (to_flame tot t ds) = safePercent (tn_cumulative t) tot"
  by (simp_all add: to_flame_def)

lemma in_bounds_to_flame:
  "in_bounds minPct (Suc levels) (to_flame tot t ds)" if "\<And>d. d \<in> set ds \<Longrightarrow> in_bounds minPct levels d \<and> minPct \<le> \<bar>fg_Pct d\<bar>"
  using that by (auto simp: in_bounds_def)

lemma fg_Pct_convert: "fg_Pct (fst (convert_node tot minPct levels t st)) = safePercent (tn_cumulative t) tot"
  by (cases levels; cases st) (auto split: prod.split)

lemma convert_bounds:
  "convert_node tot minPct levels t (r, p) = (d, r', p') \<Longrightarrow> 0 \<le> r \<Longrightarrow>
     0 \<le> r' \<and> int (flame_size d) = r - r' + 1 \<and> prunes tot t d (p' - p) \<and> in_bounds minPct levels d"
  "convert_children tot minPct levels cs (r, p) = (ds, r', p') \<Longrightarrow> 0 \<le> r \<Longrightarrow>
     0 \<le> r' \<and> int (sum_list (map flame_size ds)) = r - r' \<and> selects tot cs ds (p' - p) \<and>
     (\<forall>d \<in> set ds. in_bounds minPct levels d \<and> minPct \<le> \<bar>fg_Pct d\<bar>)"
proof (induction tot minPct levels t "(r, p)" and tot minPct levels cs "(r, p)" arbitrary: r p d r' p' and r p ds r' p'
    rule: convert_node_convert_children.induct)
  case (1 tot minPct t r p)
  have "selects tot (sortedChildren t) [] (int (length (tn_children t)))"
    using selects_none [of tot "sortedChildren t"] by (simp add: sortedChildren_def)
  with 1 show ?case by (auto simp: in_bounds_def intro: prunes_selects.node)
next
  case (2 tot minPct levels t r p)
  obtain cs r1 p1 where c: "convert_children tot minPct levels (sortedChildren t) (r, p) = (cs, r1, p1)"
    using prod_cases3 by blast
  with 2 show ?case by (auto intro: prunes_selects.node in_bounds_to_flame)
next
  case (3 tot minPct levels)
  then show ?case by (auto intro: prunes_selects.none)
next
  case (4 tot minPct levels c cs r p)
  show ?case
  proof (cases "r \<le> 0 \<or> \<bar>safePercent (tn_cumulative c) tot\<bar> < minPct")
    case True
    with 4 have "selects tot cs ds (p' - (p + 1))" by auto
    from prunes_selects.cut [OF this] have "selects tot (c # cs) ds (p' - p)" by simp
    with True 4 show ?thesis by auto
  next
    case False
    obtain d r1 p1 where d: "convert_node tot minPct levels c (r - 1, p) = (d, r1, p1)" using prod_cases3 by blast
    obtain es r2 p2 where es: "convert_children tot minPct levels cs (r1, p1) = (es, r2, p2)" using prod_cases3 by blast
    have ds: "ds = d # es" "r' = r2" "p' = p2" using 4(4) False d es by auto
    have IHd: "0 \<le> r1 \<and> int (flame_size d) = (r - 1) - r1 + 1 \<and> prunes tot c d (p1 - p) \<and> in_bounds minPct levels d"
      using 4(2) [OF False d] False by simp
    then have IHes: "0 \<le> r2 \<and> int (sum_list (map flame_size es)) = r1 - r2 \<and> selects tot cs es (p2 - p1) \<and>
        (\<forall>d \<in> set es. in_bounds minPct levels d \<and> minPct \<le> \<bar>fg_Pct d\<bar>)"
      using 4(3) [OF False d [symmetric] refl es] by simp
    have "fg_Pct d = safePercent (tn_cumulative c) tot"
      using fg_Pct_convert [of tot minPct levels c "(r - 1, p)"] d by simp
    moreover have "selects tot (c # cs) (d # es) ((p1 - p) + (p2 - p1))"
      using IHd IHes by (intro prunes_selects.keep) simp_all
    ultimately show ?thesis using IHd IHes False ds by auto
  qed
qed

lemma findInTrie_below: "findInTrie t name = Inr (Some u) \<Longrightarrow> u \<in> set (below_root t) \<and> contains (tn_name u) name"
proof -
  assume "findInTrie t name = Inr (Some u)"
  then have "filter (\<lambda>t. contains (tn_name t) name) (below_root t) = [u]"
    by (auto simp: findInTrie_def split: list.splits)
  then have "u \<in> set (filter (\<lambda>t. contains (tn_name t) name) (below_root t))" by simp
  then show ?thesis by simp
qed

lemma flamegraph_converted:
  assumes "flamegraph p rootFunction k maxDepth maxNodes minPct = Inr (d, tot, pruned)" "1 \<le> maxNodes"
  obtains t where "if rootFunction = [] then t = call_tree p k
      else t \<in> set (below_root (call_tree p k)) \<and> contains (tn_name t) rootFunction"
    "int (flame_size d) \<le> maxNodes" "prunes tot t d pruned" "in_bounds minPct (nat maxDepth) d"
proof -
  obtain t r where t: "(if rootFunction \<noteq> [] then findInTrie (call_tree p k) rootFunction else Inr (Some (call_tree p k))) = Inr (Some t)"
    "convert_node tot minPct (nat maxDepth) t (maxNodes - 1, 0) = (d, r, pruned)"
    using assms(1) by (auto simp: flamegraph_def Let_def split: option.splits sum.splits prod.splits)
  have "0 \<le> r \<and> int (flame_size d) = (maxNodes - 1) - r + 1 \<and> prunes tot t d (pruned - 0) \<and> in_bounds minPct (nat maxDepth) d"
    using assms(2) by (intro convert_bounds(1) [OF t(2)]) simp
  moreover have "if rootFunction = [] then t = call_tree p k
      else t \<in> set (below_root (call_tree p k)) \<and> contains (tn_name t) rootFunction"
    using t(1) findInTrie_below by (auto split: if_splits)
  ultimately show ?thesis by (intro that [of t]) simp_all
qed


subsection \<open>The costs in the call tree\<close>

fun node_at :: "string list \<Rightarrow> trieNode \<Rightarrow> trieNode option" where
  "node_at [] t = Some t"
| "node_at (x # xs) t = (case find_child x (tn_children t) of None \<Rightarrow> None | Some c \<Rightarrow> node_at xs c)"

definition cum_at :: "string list \<Rightarrow> trieNode \<Rightarrow> int64" where
  "cum_at xs t = (case node_at xs t of None \<Rightarrow> 0 | Some n \<Rightarrow> tn_cumulative n)"

definition self_at :: "string list \<Rightarrow> trieNode \<Rightarrow> int64" where
  "self_at xs t = (case node_at xs t of None \<Rightarrow> 0 | Some n \<Rightarrow> tn_self n)"

definition goes_through :: "string list \<Rightarrow> frame list \<Rightarrow> bool" where
  "goes_through xs fs = (take (length xs) (map fst fs) = xs)"

definition ends_leaf :: "string list \<Rightarrow> frame list \<Rightarrow> bool" where
  "ends_leaf xs fs = (goes_through xs fs \<and> snd (snd (fs ! (length xs - 1))))"

lemma find_put_child: "find_child x (put_child c cs) = (if x = tn_name c then Some c else find_child x cs)"
  by (induction cs) (auto simp: find_child_def)

lemma find_child_name: "find_child x cs = Some c \<Longrightarrow> tn_name c = x"
  by (auto simp: find_child_def find_Some_iff)

lemma add_frames_root [simp]:
  "tn_name (add_frames v fs t) = tn_name t" "tn_cumulative (add_frames v fs t) = tn_cumulative t" "tn_self (add_frames v fs t) = tn_self t"
  by (cases "(v, fs, t)" rule: add_frames.cases; simp add: set_children_def Let_def)+

lemma charge_simps [simp]:
  "tn_name (charge v leaf t) = tn_name t" "tn_children (charge v leaf t) = tn_children t"
  "tn_cumulative (charge v leaf t) = tn_cumulative t + v" "tn_self (charge v leaf t) = (if leaf then tn_self t + v else tn_self t)"
  by (simp_all add: charge_def)

lemma node_at_charge: "xs \<noteq> [] \<Longrightarrow> node_at xs (charge v leaf t) = node_at xs t"
  by (cases xs) simp_all

lemma goes_through_simps [simp]:
  "goes_through [] fs" "goes_through (x # xs) [] \<longleftrightarrow> False" "goes_through (x # xs) (f # fs) \<longleftrightarrow> fst f = x \<and> goes_through xs fs"
  by (auto simp: goes_through_def)

lemma ends_leaf_simps:
  "ends_leaf [x] (f # fs) \<longleftrightarrow> fst f = x \<and> snd (snd f)"
  "ends_leaf (x # y # ys) (f # fs) \<longleftrightarrow> fst f = x \<and> ends_leaf (y # ys) fs"
  "ends_leaf (x # xs) [] \<longleftrightarrow> False"
  by (auto simp: ends_leaf_def)

lemma add_frames_at:
  "xs \<noteq> [] \<Longrightarrow>
     cum_at xs (add_frames v fs t) = cum_at xs t + (if goes_through xs fs then v else 0) \<and>
     self_at xs (add_frames v fs t) = self_at xs t + (if ends_leaf xs fs then v else 0) \<and>
     (node_at xs (add_frames v fs t) \<noteq> None \<longleftrightarrow> node_at xs t \<noteq> None \<or> goes_through xs fs)"
proof (induction v fs t arbitrary: xs rule: add_frames.induct)
  case (1 v t)
  then show ?case by (cases xs) (auto simp: ends_leaf_simps)
next
  case (2 v name fl leaf fs t)
  define child where "child = (case find_child name (tn_children t) of None \<Rightarrow> newNode name fl | Some c \<Rightarrow> c)"
  define new where "new = add_frames v fs (charge v leaf child)"
  have name: "tn_name child = name"
    by (auto simp: child_def newNode_def split: option.split dest: find_child_name)
  obtain x ys where xs: "xs = x # ys" using 2(2) by (cases xs) auto
  have at: "node_at xs (add_frames v ((name, fl, leaf) # fs) t) = (if x = name then node_at ys new else node_at xs t)"
    by (simp add: xs set_children_def Let_def find_put_child child_def [symmetric] new_def [symmetric])
      (simp add: new_def name)
  show ?case
  proof (cases "x = name")
    case False
    with at xs show ?thesis by (cases ys) (simp_all add: cum_at_def self_at_def ends_leaf_simps)
  next
    case True
    note IH = 2(1) [OF child_def]
    have old: "cum_at xs t = cum_at ys child" "self_at xs t = self_at ys child" if "ys \<noteq> []"
      using that by (cases ys; simp add: xs True cum_at_def self_at_def child_def newNode_def find_child_def split: option.split)+
    show ?thesis
    proof (cases "ys = []")
      case ys: True
      show ?thesis
        using at by (auto simp: xs ys True cum_at_def self_at_def ends_leaf_simps new_def child_def newNode_def split: option.split)
    next
      case False
      then obtain y zs where ys: "ys = y # zs" by (cases ys) auto
      have old_node: "node_at xs t \<noteq> None \<longleftrightarrow> node_at ys child \<noteq> None"
        by (simp add: xs ys True child_def newNode_def find_child_def split: option.split)
      show ?thesis
        using IH [OF False] at old [OF False] old_node node_at_charge [OF False, of v leaf child]
        by (simp add: xs ys True cum_at_def self_at_def new_def ends_leaf_simps)
    qed
  qed
qed

lemma add_samples_at:
  assumes "xs \<noteq> []"
  shows "cum_at xs (fold (\<lambda>s. add_frames (v s) (f s)) ss t) = cum_at xs t + (\<Sum>s \<leftarrow> ss. if goes_through xs (f s) then v s else 0) \<and>
    self_at xs (fold (\<lambda>s. add_frames (v s) (f s)) ss t) = self_at xs t + (\<Sum>s \<leftarrow> ss. if ends_leaf xs (f s) then v s else 0) \<and>
    (node_at xs (fold (\<lambda>s. add_frames (v s) (f s)) ss t) \<noteq> None \<longleftrightarrow> node_at xs t \<noteq> None \<or> (\<exists>s \<in> set ss. goes_through xs (f s)))"
proof (induction ss arbitrary: t)
  case Nil
  then show ?case by simp
next
  case (Cons s ss)
  from Cons.IH [of "add_frames (v s) (f s) t"] add_frames_at [OF assms, of "v s" "f s" t]
  show ?case by simp
qed

text \<open>
  C20: the call tree is exactly the prefix tree of the stacks: below the root there is a node at a
  path of function names if and only if some stack starts, from its root, with that path; the
  node's cumulative cost is the sum of the values of those samples, and its self cost the sum over
  the samples whose path ends there in a line of the leaf location.
\<close>

theorem call_tree_exact:
  assumes "xs \<noteq> []"
  shows "(node_at xs (call_tree p k) \<noteq> None \<longleftrightarrow> (\<exists>s \<in> set (pr_Sample p). goes_through xs (frames s))) \<and>
         cum_at xs (call_tree p k) = (\<Sum>s \<leftarrow> pr_Sample p. if goes_through xs (frames s) then sample_value k s else 0) \<and>
         self_at xs (call_tree p k) = (\<Sum>s \<leftarrow> pr_Sample p. if ends_leaf xs (frames s) then sample_value k s else 0)"
proof -
  obtain y ys where "xs = y # ys" using assms by (cases xs) auto
  then have "node_at xs (newNode ''(root)'' []) = None" by (simp add: newNode_def find_child_def)
  then show ?thesis
    using add_samples_at [OF assms, of "sample_value k" frames "pr_Sample p" "newNode ''(root)'' []"]
    by (simp add: call_tree_def cum_at_def self_at_def)
qed

subsection \<open>A profile\<close>

text \<open>Two stacks below \<open>main\<close>: \<open>work\<close> calls \<open>leaf\<close>, and \<open>work\<close> recurses.\<close>

definition fn :: "string \<Rightarrow> location" where
  "fn n = [Some \<lparr>fn_Name = n, fn_Filename = ''a.go''\<rparr>]"

definition example_profile :: profile where
  "example_profile = \<lparr>pr_SampleType = [(''cpu'', ''nanoseconds'')],
     pr_Sample = [\<lparr>sa_Value = [6], sa_Location = [fn ''leaf'', fn ''work'', fn ''main'']\<rparr>,
                  \<lparr>sa_Value = [4], sa_Location = [fn ''work'', fn ''work'', fn ''main'']\<rparr>],
     pr_Location = [fn ''leaf'', fn ''work'', fn ''main'']\<rparr>"

lemma example_scan:
  "scanFunctionCosts example_profile 0 [] [''work''] = Inr ([(''work'', \<lparr>fc_file = ''a.go'', fc_self = 4, fc_cumulative = 10\<rparr>)], 10)"
  by code_simp

theorem scan_costs_exact_witness:
  "self_reference 0 ''work'' (pr_Sample example_profile) = 4 \<and> cumulative_reference 0 ''work'' (pr_Sample example_profile) = 10"
  using scan_costs_exact [OF example_scan] by simp

theorem call_tree_exact_witness:
  "cum_at [''main'', ''work''] (call_tree example_profile 0) = 10 \<and> self_at [''main'', ''work'', ''work''] (call_tree example_profile 0) = 4"
  using call_tree_exact [of "[''main'', ''work'']" example_profile 0] call_tree_exact [of "[''main'', ''work'', ''work'']" example_profile 0]
  by (simp add: example_profile_def frames_def fn_def goes_through_def ends_leaf_def sample_value_def)

lemma example_flamegraph:
  "flamegraph example_profile ''main'' 0 1 5 1 = Inr (FlamegraphNode ''main'' ''a.go'' 0 10 100
     [FlamegraphNode ''work'' ''a.go'' 0 10 100 []], 10, 2)"
  by code_simp


end
