(* ===== verification/Profile_List_Props.thy ===== *)
theory Profile_List_Props
  imports Profile_List Profile_Props
begin

text \<open>
  Properties of the profile listing: paging through the cursors neither loses nor repeats a
  profile, and a call returns when every page but the last one holds a profile. The contract of
  the service is the locale \<open>profile_listing\<close>, which a service over a list of pages satisfies.
\<close>

subsection \<open>One page\<close>

abbreviation matching :: "profiler_env \<Rightarrow> profileFilter \<Rightarrow> pbProfile list \<Rightarrow> profileMeta list" where
  "matching env f ps \<equiv> filter (\<lambda>m. fst (filter_match f m)) (map (profileFromAPI env) ps)"

lemma see_profile_simps [simp]:
  "ls_Profiles (see_profile f meta pos st) = ls_Profiles st @ (if fst (filter_match f meta) then [meta] else [])"
  "ls_scanned (see_profile f meta pos st) = Suc (ls_scanned st)"
  "ls_resumeToken (see_profile f meta pos st) = fst pos" "ls_resumeOffset (see_profile f meta pos st) = snd pos"
  by (simp_all add: see_profile_def Let_def)

definition resume_pos :: "list_state \<Rightarrow> string \<times> nat" where
  "resume_pos st = (ls_resumeToken st, ls_resumeOffset st)"

text \<open>
  What a page does: the profiles \<open>qs\<close> are looked at, \<open>rs\<close> are left. The position after them is in
  the page, or the start of the next one.
\<close>

definition page_pos :: "string \<Rightarrow> string \<Rightarrow> nat \<Rightarrow> pbProfile list \<Rightarrow> string \<times> nat" where
  "page_pos pageStart nextToken i rs = (if rs \<noteq> [] then (pageStart, i) else (nextToken, 0))"

lemma scan_page_prefix:
  assumes "scan_page env f n pageStart nextToken i ps st = (st', e)"
  shows "\<exists>qs rs. ps = qs @ rs \<and> ls_Profiles st' = ls_Profiles st @ matching env f qs \<and>
    ls_scanned st' = ls_scanned st + length qs \<and>
    resume_pos st' = (if qs = [] then resume_pos st else page_pos pageStart nextToken (i + length qs) rs) \<and>
    (case e of PageDone \<Rightarrow> rs = [] \<or> listMaxScan \<le> ls_scanned st'
     | PageFull pos \<Rightarrow> qs \<noteq> [] \<and>
         pos = (if rs \<noteq> [] \<or> nextToken \<noteq> [] then Some (page_pos pageStart nextToken (i + length qs) rs) else None))"
  using assms
proof (induction env f n pageStart nextToken i ps st rule: scan_page.induct)
  case (1 env f pageSize pageStart nextToken i st)
  then show ?case by auto
next
  case (2 env f pageSize pageStart nextToken i p ps st)
  show ?case
  proof (cases "ls_scanned st < listMaxScan")
    case False
    with 2(2) show ?thesis by (intro exI [of _ "[]"] exI [of _ "p # ps"]) auto
  next
    case True
    define meta where "meta = profileFromAPI env p"
    define pos where "pos = (if ps \<noteq> [] then (pageStart, Suc i) else (nextToken, 0))"
    define st1 where "st1 = see_profile f meta pos st"
    have pos: "pos = page_pos pageStart nextToken (Suc i) ps" by (simp add: pos_def page_pos_def)
    have st1: "ls_Profiles st1 = ls_Profiles st @ matching env f [p]" "ls_scanned st1 = Suc (ls_scanned st)" "resume_pos st1 = pos"
      by (simp_all add: st1_def meta_def resume_pos_def)
    have step: "(if fst (filter_match f meta) \<and> int (length (ls_Profiles st1)) = pageSize
        then (st1, PageFull (if ps \<noteq> [] \<or> nextToken \<noteq> [] then Some pos else None))
        else scan_page env f pageSize pageStart nextToken (Suc i) ps st1) = (st', e)"
      using 2(2) True by (simp only: scan_page.simps Let_def st1_def meta_def pos_def simp_thms if_False)
    show ?thesis
    proof (cases "fst (filter_match f meta) \<and> int (length (ls_Profiles st1)) = pageSize")
      case full: True
      with step have "st' = st1" "e = PageFull (if ps \<noteq> [] \<or> nextToken \<noteq> [] then Some pos else None)"
        by (simp_all only: if_True prod.inject simp_thms)
      with st1 pos show ?thesis by (intro exI [of _ "[p]"] exI [of _ ps]) simp
    next
      case False
      with step have rec: "scan_page env f pageSize pageStart nextToken (Suc i) ps st1 = (st', e)"
        by (simp only: if_False)
      from 2(1) [OF _ meta_def pos_def st1_def False rec] True obtain qs rs where r: "ps = qs @ rs"
        "ls_Profiles st' = ls_Profiles st1 @ matching env f qs" "ls_scanned st' = ls_scanned st1 + length qs"
        "resume_pos st' = (if qs = [] then resume_pos st1 else page_pos pageStart nextToken (Suc i + length qs) rs)"
        "case e of PageDone \<Rightarrow> rs = [] \<or> listMaxScan \<le> ls_scanned st'
         | PageFull pos \<Rightarrow> qs \<noteq> [] \<and> pos = (if rs \<noteq> [] \<or> nextToken \<noteq> [] then Some (page_pos pageStart nextToken (Suc i + length qs) rs) else None)"
        by blast
      with st1 pos show ?thesis
        by (intro exI [of _ "p # qs"] exI [of _ rs]) (auto split: page_end.splits)
    qed
  qed
qed

subsection \<open>The listing\<close>

text \<open>
  The contract of the service: \<open>rest tok\<close> are the profiles from the page of \<open>tok\<close> on.
\<close>

locale profile_listing =
  fixes pages :: "string \<Rightarrow> go_error + (pbProfile list \<times> string)"
    and rest :: "string \<Rightarrow> pbProfile list"
  assumes page_rest: "pages tok = Inr (ps, nxt) \<Longrightarrow> rest tok = ps @ (if nxt = [] then [] else rest nxt)"
begin

definition to_come :: "string \<times> nat \<Rightarrow> pbProfile list" where
  "to_come pos = drop (snd pos) (rest (fst pos))"

lemma rest_after_page:
  assumes "pages tok = Inr (ps, nxt)" "drop i ps = qs @ rs" "i \<le> length ps" "rs \<noteq> [] \<or> nxt \<noteq> []"
  shows "to_come (tok, i) = qs @ to_come (page_pos tok nxt (i + length qs) rs)"
proof -
  have "drop i (rest tok) = qs @ rs @ (if nxt = [] then [] else rest nxt)"
    using page_rest [OF assms(1)] assms(2,3) by simp
  moreover have "drop (i + length qs) (rest tok) = rs @ (if nxt = [] then [] else rest nxt)"
    using calculation by (metis append_eq_conv_conj drop_drop add.commute)
  ultimately show ?thesis using assms(4) by (auto simp: page_pos_def to_come_def)
qed

text \<open>
  The result of a listing from a position with \<open>xs\<close> to come, when the profiles \<open>qs\<close> are looked at.
\<close>

definition listed :: "profiler_env \<Rightarrow> profileFilter \<Rightarrow> string \<Rightarrow> list_state \<Rightarrow> pbProfile list \<Rightarrow> profileListResult \<Rightarrow> bool" where
  "listed env f fp st xs r = (\<exists>qs rs. xs = qs @ rs \<and> plr_Profiles r = ls_Profiles st @ matching env f qs \<and>
     (plr_NextPageToken r = [] \<longrightarrow> rs = []) \<and>
     (plr_NextPageToken r \<noteq> [] \<longrightarrow> (\<exists>pos. plr_NextPageToken r = encodeProfileCursor env (next_cursor fp pos) \<and>
        to_come pos = rs)))"

lemma encode_nonempty [simp]: "encodeProfileCursor env c \<noteq> []"
  by (simp add: encodeProfileCursor_def profileCursorPrefix_def)

lemma listed_more:
  "plr_Profiles r = ls_Profiles st @ matching env f qs \<Longrightarrow> plr_NextPageToken r = encodeProfileCursor env (next_cursor fp pos) \<Longrightarrow>
    xs = qs @ to_come pos \<Longrightarrow> listed env f fp st xs r"
  unfolding listed_def by (metis encode_nonempty)

lemma listed_all:
  "plr_Profiles r = ls_Profiles st @ matching env f xs \<Longrightarrow> plr_NextPageToken r = [] \<Longrightarrow> listed env f fp st xs r"
  by (auto simp: listed_def)

lemma listed_step:
  assumes "listed env f fp st' ys r" "ls_Profiles st' = ls_Profiles st @ matching env f qs"
  shows "listed env f fp st (qs @ ys) r"
proof -
  from assms(1) obtain qs' rs where l: "ys = qs' @ rs" "plr_Profiles r = ls_Profiles st' @ matching env f qs'"
    "plr_NextPageToken r = [] \<longrightarrow> rs = []"
    "plr_NextPageToken r \<noteq> [] \<longrightarrow> (\<exists>pos. plr_NextPageToken r = encodeProfileCursor env (next_cursor fp pos) \<and> to_come pos = rs)"
    by (auto simp: listed_def)
  from l assms(2) show ?thesis
    unfolding listed_def by (intro exI [of _ "qs @ qs'"] exI [of _ rs] conjI) (simp_all only: append_assoc map_append filter_append)
qed

lemma list_result_simps [simp]:
  "plr_Profiles (list_result st b tok w) = ls_Profiles st" "plr_NextPageToken (list_result st b tok w) = tok"
  "plr_Truncated (list_result st b tok w) = b" "plr_Count (list_result st b tok w) = int (length (ls_Profiles st))"
  by (simp_all add: list_result_def)

lemma list_finish_limit:
  "listMaxScan \<le> ls_scanned st \<Longrightarrow> resume_pos st \<noteq> ([], 0) \<Longrightarrow>
    plr_Profiles (list_finish env params fp st) = ls_Profiles st \<and>
    plr_NextPageToken (list_finish env params fp st) = encodeProfileCursor env (next_cursor fp (resume_pos st))"
  by (auto simp: list_finish_def resume_pos_def)

lemma list_finish_end:
  "ls_scanned st < listMaxScan \<or> resume_pos st = ([], 0) \<Longrightarrow>
    plr_Profiles (list_finish env params fp st) = ls_Profiles st \<and> plr_NextPageToken (list_finish env params fp st) = []"
  by (auto simp: list_finish_def resume_pos_def)

lemmas list_pages_induct = list_pages.raw_induct [rotated, consumes 1, case_names step]

lemma list_pages_listed:
  assumes "list_pages env params f fp tok off st = Some (Inr r)" "px_page env (''projects/'' @ lp_Project params) = pages"
    "0 \<le> off" "ls_scanned st < listMaxScan \<Longrightarrow> to_come (resume_pos st) = to_come (tok, nat off)"
    "ls_scanned st \<noteq> 0 \<Longrightarrow> resume_pos st \<noteq> ([], 0)"
  shows "listed env f fp st (to_come (resume_pos st)) r"
  using assms
proof (induction env params f fp tok off st "Inr r :: go_error + profileListResult" rule: list_pages_induct)
  case (step list_pages' env params f fp tok off st)
  show ?case
  proof (cases "ls_scanned st < listMaxScan")
    case False
    then have "ls_scanned st \<noteq> 0" by (auto simp: listMaxScan_def)
    with step(6) have pos: "resume_pos st \<noteq> ([], 0)" by blast
    have "r = list_finish env params fp st" using False step(2) by simp
    with list_finish_limit [OF _ pos, of env params fp] False show ?thesis
      by (intro listed_more [of _ _ _ _ "[]" _ "resume_pos st"]) simp_all
  next
    case True
    obtain page nxt where p: "pages tok = Inr (page, nxt)" "nat off \<le> length page"
      using step(2,3) True by (auto split: sum.splits if_splits)
    obtain st' e where s: "scan_page env f (lp_PageSize params) tok nxt (nat off) (drop (nat off) page) st = (st', e)" by fastforce
    from scan_page_prefix [OF s] obtain qs rs where q: "drop (nat off) page = qs @ rs"
      "ls_Profiles st' = ls_Profiles st @ matching env f qs" "ls_scanned st' = ls_scanned st + length qs"
      "resume_pos st' = (if qs = [] then resume_pos st else page_pos tok nxt (nat off + length qs) rs)"
      "case e of PageDone \<Rightarrow> rs = [] \<or> listMaxScan \<le> ls_scanned st'
       | PageFull pos \<Rightarrow> qs \<noteq> [] \<and> pos = (if rs \<noteq> [] \<or> nxt \<noteq> [] then Some (page_pos tok nxt (nat off + length qs) rs) else None)"
      by blast
    have xs: "to_come (resume_pos st) = qs @ rs @ (if nxt = [] then [] else rest nxt)"
      using step(5) [OF True] page_rest [OF p(1)] p(2) q(1) by (simp add: to_come_def)
    have after: "to_come (resume_pos st) = qs @ to_come (page_pos tok nxt (nat off + length qs) rs)" if "rs \<noteq> [] \<or> nxt \<noteq> []"
      using rest_after_page [OF p(1) q(1) p(2) that] step(5) [OF True] by simp
    have res: "(case (st', e) of (st, PageFull None) \<Rightarrow> Some (Inr (list_result st False [] []))
        | (st, PageFull (Some pos)) \<Rightarrow> Some (Inr (list_result st True (encodeProfileCursor env (next_cursor fp pos)) []))
        | (st, PageDone) \<Rightarrow> if nxt = [] then Some (Inr (list_finish env params fp st)) else list_pages' env params f fp nxt 0 st) = Some (Inr r)"
      using step(2) True p nat_le_iff [of off "length page"] step(3,4) unfolding s [symmetric] by (simp add: not_less)
    show ?thesis
    proof (cases e)
      case (PageFull pos)
      show ?thesis
      proof (cases "rs \<noteq> [] \<or> nxt \<noteq> []")
        case True
        with PageFull q(5) res have "r = list_result st' True (encodeProfileCursor env (next_cursor fp (page_pos tok nxt (nat off + length qs) rs))) []"
          by simp
        with after [OF True] q(2) show ?thesis
          by (intro listed_more [where qs = qs and pos = "page_pos tok nxt (nat off + length qs) rs"]) simp_all
      next
        case False
        with PageFull q(5) res have "r = list_result st' False [] []" by simp
        with False xs q(2) show ?thesis by (intro listed_all) simp_all
      qed
    next
      case PageDone
      show ?thesis
      proof (cases "nxt = []")
        case True
        with PageDone res have r: "r = list_finish env params fp st'" by simp
        show ?thesis
        proof (cases "qs = [] \<or> rs = []")
          case fin: True
          have "ls_scanned st' < listMaxScan \<or> resume_pos st' = ([], 0)"
            using fin q(3,4) \<open>ls_scanned st < listMaxScan\<close> \<open>nxt = []\<close> by (auto simp: page_pos_def)
          moreover have "rs = []" using fin PageDone q(3,5) \<open>ls_scanned st < listMaxScan\<close> by auto
          ultimately show ?thesis
            using list_finish_end [of st' env params fp] r q(2) xs True by (intro listed_all) simp_all
        next
          case False
          then have "listMaxScan \<le> ls_scanned st'" "resume_pos st' = page_pos tok nxt (nat off + length qs) rs"
            "resume_pos st' \<noteq> ([], 0)"
            using q(4,5) PageDone by (auto simp: page_pos_def)
          with list_finish_limit [of st' env params fp] r q(2) after False show ?thesis
            by (intro listed_more [where qs = qs and pos = "resume_pos st'"]) simp_all
        qed
      next
        case False
        with PageDone res have rec: "list_pages' env params f fp nxt 0 st' = Some (Inr r)" by simp
        have "to_come (resume_pos st) = qs @ to_come (resume_pos st')"
          using after [OF disjI2 [OF False]] q(4) by (cases "qs = []") simp_all
        moreover have "listed env f fp st' (to_come (resume_pos st')) r"
        proof (rule step(1) [OF rec step(3)])
          assume "ls_scanned st' < listMaxScan"
          with PageDone q(5) have "rs = []" by simp
          then show "to_come (resume_pos st') = to_come (nxt, nat 0)"
            using q(4) xs False by (auto simp: page_pos_def to_come_def)
        next
          assume "ls_scanned st' \<noteq> 0"
          then show "resume_pos st' \<noteq> ([], 0)" using q(3,4) step(6) False by (auto simp: page_pos_def split: if_splits)
        qed simp
        ultimately show ?thesis using listed_step q(2) by simp
      qed
    qed
  qed
qed

end

subsection \<open>A reference service\<close>

text \<open>A service over a list of pages; the token of a page is its number in unary.\<close>

definition service_page :: "pbProfile list list \<Rightarrow> string \<Rightarrow> go_error + (pbProfile list \<times> string)" where
  "service_page pgs tok =
     (let i = length tok in
      if length pgs \<le> i then Inl (Sentinel ''invalid page token'')
      else Inr (pgs ! i, if Suc i < length pgs then replicate (Suc i) (CHR ''1'') else []))"

definition service_rest :: "pbProfile list list \<Rightarrow> string \<Rightarrow> pbProfile list" where
  "service_rest pgs tok = concat (drop (length tok) pgs)"

interpretation service: profile_listing "service_page pgs" "service_rest pgs" for pgs
proof unfold_locales
  fix tok ps nxt assume "service_page pgs tok = Inr (ps, nxt)"
  then have i: "length tok < length pgs" "ps = pgs ! length tok"
    "nxt = (if Suc (length tok) < length pgs then replicate (Suc (length tok)) (CHR ''1'') else [])"
    by (auto simp: service_page_def Let_def not_le split: if_splits)
  then show "service_rest pgs tok = ps @ (if nxt = [] then [] else service_rest pgs nxt)"
    by (auto simp: service_rest_def not_less simp flip: Cons_nth_drop_Suc)
qed

subsection \<open>Properties\<close>

lemma decode_offset: "decodeProfileCursor env raw fp = Inr c \<Longrightarrow> 0 \<le> pcu_Offset c"
  by (auto simp: decodeProfileCursor_def first_cursor_def split: if_splits option.splits)

lemma decode_next:
  "unmarshal (px_cursor env) (marshal (px_cursor env) (next_cursor fp pos)) = Some (next_cursor fp pos) \<Longrightarrow>
    decodeProfileCursor env (encodeProfileCursor env (next_cursor fp pos)) fp = Inr (next_cursor fp pos)"
  by (simp add: decodeProfileCursor_def encodeProfileCursor_def profileCursorPrefix_def [symmetric])
    (simp add: profileCursorPrefix_def next_cursor_def)

lemma scan_page_progress:
  assumes "scan_page env f n tok nxt i ps st = (st', PageDone)" "ps \<noteq> []" "ls_scanned st < listMaxScan"
  shows "ls_scanned st < ls_scanned st'"
  using scan_page_prefix [OF assms(1)] assms(2,3) by auto

lemma list_pages_from_start:
  assumes full: "\<And>tok ps nxt. px_page env (''projects/'' @ lp_Project params) tok = Inr (ps, nxt) \<Longrightarrow> ps \<noteq> [] \<or> nxt = []"
  shows "\<exists>result. list_pages env params f fp tok 0 st = Some result"
proof (induction "listMaxScan - ls_scanned st" arbitrary: tok st rule: less_induct)
  case less
  show ?case
  proof (cases "ls_scanned st < listMaxScan")
    case False
    then show ?thesis by (subst list_pages.simps) simp
  next
    case True
    show ?thesis
    proof (cases "px_page env (''projects/'' @ lp_Project params) tok")
      case (Inl err)
      then show ?thesis by (subst list_pages.simps) simp
    next
      case (Inr x)
      then obtain ps nxt where p: "px_page env (''projects/'' @ lp_Project params) tok = Inr (ps, nxt)" by (cases x) simp
      obtain st' e where s: "scan_page env f (lp_PageSize params) tok nxt 0 ps st = (st', e)" by fastforce
      have "\<exists>result. list_pages env params f fp nxt 0 st' = Some result" if "e = PageDone" "nxt \<noteq> []"
      proof -
        have "ls_scanned st < ls_scanned st'" using scan_page_progress [OF s [unfolded that(1)]] full [OF p] that(2) True by blast
        with True show ?thesis by (intro less) simp
      qed
      with p s show ?thesis by (subst list_pages.simps) (auto split: page_end.split option.split)
    qed
  qed
qed

lemma list_pages_return:
  assumes full: "\<And>tok ps nxt. px_page env (''projects/'' @ lp_Project params) tok = Inr (ps, nxt) \<Longrightarrow> ps \<noteq> [] \<or> nxt = []"
  shows "\<exists>result. list_pages env params f fp tok off st = Some result"
  by (subst list_pages.simps) (auto split: sum.split prod.split page_end.split option.split intro: list_pages_from_start [OF full])

text \<open>
  C22: paging through the listing neither loses nor repeats a profile: a call returns exactly the
  matching ones among the next profiles from the position of its cursor, and its next page token
  is accepted by the next call and stands for the position after them; without a token nothing is
  left. The JSON codec must decode the cursor it encoded.
\<close>

theorem listing_resumes_exactly:
  assumes "profile_listing (px_page env (''projects/'' @ lp_Project params)) rest"
    and "decodeProfileCursor env (lp_PageToken params) (fingerprint env (newProfileFilter params) (lp_Project params)) = Inr c"
    and "ListProfiles env params = Some (Inr r)"
    and "\<And>c. plr_NextPageToken r = encodeProfileCursor env c \<Longrightarrow> unmarshal (px_cursor env) (marshal (px_cursor env) c) = Some c"
  shows "\<exists>qs rs. drop (nat (pcu_Offset c)) (rest (pcu_APIToken c)) = qs @ rs \<and>
    plr_Profiles r = filter (\<lambda>m. fst (filter_match (newProfileFilter params) m)) (map (profileFromAPI env) qs) \<and>
    (if plr_NextPageToken r = [] then rs = []
     else \<exists>c'. decodeProfileCursor env (plr_NextPageToken r) (fingerprint env (newProfileFilter params) (lp_Project params)) = Inr c' \<and>
       drop (nat (pcu_Offset c')) (rest (pcu_APIToken c')) = rs)"
proof -
  let ?f = "newProfileFilter params"
  let ?fp = "fingerprint env ?f (lp_Project params)"
  let ?st = "\<lparr>ls_Profiles = [], ls_Types = [], ls_Targets = [], ls_Excluded = 0, ls_Seen = [],
    ls_resumeToken = pcu_APIToken c, ls_resumeOffset = nat (pcu_Offset c), ls_scanned = 0\<rparr>"
  have off: "0 \<le> pcu_Offset c" by (rule decode_offset [OF assms(2)])
  have run: "list_pages env params ?f ?fp (pcu_APIToken c) (pcu_Offset c) ?st = Some (Inr r)"
    using assms(2,3) by (simp add: ListProfiles_def Let_def)
  have "profile_listing.listed rest env ?f ?fp ?st (profile_listing.to_come rest (resume_pos ?st)) r"
    by (rule profile_listing.list_pages_listed [OF assms(1) run refl off]) (simp_all add: resume_pos_def)
  then obtain qs rs where q: "drop (nat (pcu_Offset c)) (rest (pcu_APIToken c)) = qs @ rs" "plr_Profiles r = matching env ?f qs"
    "plr_NextPageToken r = [] \<longrightarrow> rs = []"
    "plr_NextPageToken r \<noteq> [] \<longrightarrow> (\<exists>pos. plr_NextPageToken r = encodeProfileCursor env (next_cursor ?fp pos) \<and> drop (snd pos) (rest (fst pos)) = rs)"
    by (auto simp: profile_listing.listed_def [OF assms(1)] profile_listing.to_come_def [OF assms(1)] resume_pos_def)
  have "\<exists>c'. decodeProfileCursor env (plr_NextPageToken r) ?fp = Inr c' \<and> drop (nat (pcu_Offset c')) (rest (pcu_APIToken c')) = rs"
    if more: "plr_NextPageToken r \<noteq> []"
  proof -
    obtain pos where pos: "plr_NextPageToken r = encodeProfileCursor env (next_cursor ?fp pos)" "drop (snd pos) (rest (fst pos)) = rs"
      using q(4) more by blast
    from decode_next [OF assms(4) [OF pos(1)]] pos show ?thesis
      by (intro exI [of _ "next_cursor ?fp pos"]) (simp add: next_cursor_def)
  qed
  with q show ?thesis by (intro exI [of _ qs] exI [of _ rs]) simp
qed

text \<open>
  C23: a listing returns whenever every page but the last one holds a profile, which is how the
  pager of the client library fills its pages: each page then uses up some of the scan limit.
\<close>

theorem listing_returns:
  assumes "\<And>tok ps nxt. px_page env (''projects/'' @ lp_Project params) tok = Inr (ps, nxt) \<Longrightarrow> ps \<noteq> [] \<or> nxt = []"
  shows "\<exists>result. ListProfiles env params = Some result"
  using list_pages_return [OF assms] by (auto simp: ListProfiles_def Let_def split: sum.split)

subsection \<open>A listing of three profiles\<close>

definition ex_profile :: "string \<Rightarrow> pbProfile" where
  "ex_profile n = \<lparr>pp_Name = n, pp_ProfileType = ''CPU'', pp_Duration = None, pp_StartTime = None, pp_Deployment = None,
     pp_Labels = [], pp_ProfileBytes = ''x''\<rparr>"

definition ex_cursor :: profileCursor where
  "ex_cursor = next_cursor [] ([], 1)"

definition ex_profiler :: profiler_env where
  "ex_profiler = \<lparr>px_sha256 = \<lambda>_. [],
     px_cursor = \<lparr>marshal = \<lambda>c. if c = ex_cursor then ''x'' else ''y'', unmarshal = \<lambda>s. if s = ''x'' then Some ex_cursor else None\<rparr>,
     px_page = \<lambda>_. service_page [[ex_profile ''a'', ex_profile ''b''], [ex_profile ''c'']],
     px_scan = \<lambda>_ _. Inl iterator_Done, px_gunzip = \<lambda>s. Inr (s, None),
     px_parse = \<lambda>_. Inr example_profile, px_scale = \<lambda>p _. p, px_merge = \<lambda>ps. Inr (hd ps), px_Err = None, px_Cause = None,
     px_alive = \<lambda>_. True\<rparr>"

definition ex_list :: listProfilesParams where
  "ex_list = \<lparr>lp_Project = ''p'', lp_ProfileType = ''CPU'', lp_Target = [], lp_StartTime = time_zero, lp_EndTime = time_zero,
     lp_PageSize = 1, lp_PageToken = []\<rparr>"

lemma ex_fingerprint: "fingerprint ex_profiler f p = []"
  by (simp add: fingerprint_def ex_profiler_def hex_encode_def)

lemma ex_list_run:
  "map_option (map_sum (\<lambda>_. ()) (\<lambda>r. (plr_Count r, map pm_ProfileID (plr_Profiles r), plr_NextPageToken r = encodeProfileCursor ex_profiler ex_cursor)))
     (ListProfiles ex_profiler ex_list) = Some (Inr (1, [''a''], True))"
  unfolding ListProfiles_def Let_def ex_fingerprint
  by (subst list_pages.simps)
    (simp add: ex_list_def decodeProfileCursor_def first_cursor_def listMaxScan_def, simp add: ex_profiler_def service_page_def
      filter_match_def profileFromAPI_def ex_profile_def newProfileFilter_def ProfileTypes_def see_profile_def list_result_def
      listMaxScan_def ex_cursor_def next_cursor_def ex_list_def Let_def del: b64_encode.simps)

lemma ex_codec:
  "encodeProfileCursor ex_profiler c = encodeProfileCursor ex_profiler ex_cursor \<Longrightarrow>
    unmarshal (px_cursor ex_profiler) (marshal (px_cursor ex_profiler) c) = Some c"
  by (cases "c = ex_cursor") (simp_all add: encodeProfileCursor_def ex_profiler_def del: b64_encode.simps)

theorem listing_resumes_exactly_witness:
  "\<exists>r qs rs. ListProfiles ex_profiler ex_list = Some (Inr r) \<and> map pm_ProfileID (plr_Profiles r) = [''a''] \<and>
     [ex_profile ''a'', ex_profile ''b'', ex_profile ''c''] = qs @ rs \<and>
     (\<exists>c'. decodeProfileCursor ex_profiler (plr_NextPageToken r) [] = Inr c' \<and>
        drop (nat (pcu_Offset c')) (service_rest [[ex_profile ''a'', ex_profile ''b''], [ex_profile ''c'']] (pcu_APIToken c')) = rs)"
proof -
  obtain r where r: "ListProfiles ex_profiler ex_list = Some (Inr r)" "map pm_ProfileID (plr_Profiles r) = [''a'']"
    "plr_NextPageToken r = encodeProfileCursor ex_profiler ex_cursor"
    using ex_list_run by (cases "the (ListProfiles ex_profiler ex_list)") auto
  have listing: "profile_listing (px_page ex_profiler (''projects/'' @ lp_Project ex_list))
      (service_rest [[ex_profile ''a'', ex_profile ''b''], [ex_profile ''c'']])"
    using service.profile_listing_axioms by (simp add: ex_profiler_def)
  have start: "decodeProfileCursor ex_profiler (lp_PageToken ex_list)
      (fingerprint ex_profiler (newProfileFilter ex_list) (lp_Project ex_list)) = Inr (first_cursor [])"
    by (simp add: decodeProfileCursor_def ex_list_def ex_fingerprint)
  have "unmarshal (px_cursor ex_profiler) (marshal (px_cursor ex_profiler) c) = Some c"
    if "plr_NextPageToken r = encodeProfileCursor ex_profiler c" for c
    by (rule ex_codec) (simp only: that [symmetric] r(3))
  from listing_resumes_exactly [OF listing start r(1) this] r show ?thesis
    by (simp add: ex_fingerprint first_cursor_def service_rest_def) blast
qed

theorem listing_returns_witness: "\<exists>result. ListProfiles ex_profiler ex_list = Some result"
proof (rule listing_returns)
  fix tok ps nxt assume "px_page ex_profiler (''projects/'' @ lp_Project ex_list) tok = Inr (ps, nxt)"
  then show "ps \<noteq> [] \<or> nxt = []"
    by (auto simp: ex_profiler_def service_page_def Let_def less_Suc_eq split: if_splits)
qed

end
