(* ===== verification/Profile_Service_Props.thy ===== *)
theory Profile_Service_Props
  imports Profile_Service Profile_List_Props
begin

text \<open>
  Properties of the operations on profiles: what the prefetch does to the cache, the consistency of
  trends, and the bounds of the navigation results.
\<close>

subsection \<open>The order of trends\<close>

definition timed_profile :: "gtime \<Rightarrow> pbProfile" where
  "timed_profile t = \<lparr>pp_Name = ''projects/p/profiles/x'', pp_ProfileType = ''CPU'', pp_Duration = None, pp_StartTime = Some t,
     pp_Deployment = None, pp_Labels = [], pp_ProfileBytes = []\<rparr>"

text \<open>
  The profiles of a trend are ordered by the text of their start times, which leaves out the
  trailing zeros of the fraction. Within one second this is not the order of the times: a profile
  that starts on the full second comes after one that starts half a second later.
\<close>

theorem trend_order_not_chronological:
  "sort_less (\<lambda>a b. pm_StartTime a < pm_StartTime b)
     [profileFromAPI env (timed_profile 0), profileFromAPI env (timed_profile 500000000)] =
   [profileFromAPI env (timed_profile 500000000), profileFromAPI env (timed_profile 0)]"
proof -
  have "format_nano 0 = ''1970-01-01T00:00:00Z''" "format_nano 500000000 = ''1970-01-01T00:00:00.5Z''"
    by code_simp+
  then have "pm_StartTime (profileFromAPI env (timed_profile 500000000)) < pm_StartTime (profileFromAPI env (timed_profile 0))"
    by (simp add: profileFromAPI_def timed_profile_def less_char_def)
  then show ?thesis by simp
qed

subsection \<open>The cache\<close>

definition cache_keys :: "profileMeta profileCache \<Rightarrow> string set" where
  "cache_keys c = pe_key ` set (pc_entries c)"

text \<open>A change of the cache that keeps its invariant and its account with the process-wide counter.\<close>

definition cache_change :: "querier \<Rightarrow> querier \<Rightarrow> bool" where
  "cache_change q q' =
     (cache_ok (fst q) \<and> snd q \<le> profileCacheProcessBytes \<longrightarrow>
        cache_ok (fst q') \<and> snd q' \<le> profileCacheProcessBytes \<and> snd q' - pc_bytes (fst q') = snd q - pc_bytes (fst q))"

lemma cache_change_refl [simp]: "cache_change q q"
  by (simp add: cache_change_def)

lemma cache_change_trans: "cache_change q q' \<Longrightarrow> cache_change q' q'' \<Longrightarrow> cache_change q q''"
  by (auto simp: cache_change_def)

lemma cache_Get_change: "cache_Get c key = (c', r) \<Longrightarrow> cache_change (c, proc) (c', proc) \<and> cache_keys c' = cache_keys c"
  using cache_Get_ok [of c key] cache_Get_fields(1) [of c key] arg_cong [OF cache_Get_mset [of c key], of "\<lambda>M. pe_key ` set_mset M"]
  by (simp add: cache_change_def cache_keys_def)

lemma cache_Delete_change: "cache_Delete c proc key = (c', proc') \<Longrightarrow> cache_change (c, proc) (c', proc')"
  using cache_Delete_ok [of c proc key c' proc'] by (auto simp: cache_change_def)

lemma cache_Put_change: "cache_Put c proc key data meta keep = (c', proc', r) \<Longrightarrow> cache_change (c, proc) (c', proc')"
  using cache_Put_ok [of c proc key data meta keep c' proc' r] by (simp add: cache_change_def)

lemma cache_Put_keys:
  assumes "cache_ok c" "cache_Put c proc key data meta keep = (c', proc', r)"
  shows "{k \<in> cache_keys c. keep k} \<subseteq> cache_keys c' \<and> (r = PutOk \<longrightarrow> key \<in> cache_keys c')"
  using assms
proof (cases rule: cache_Put_cases)
  case (refused e)
  then show ?thesis by auto
next
  case (stored k)
  have "pe_key e \<in> cache_keys c'" if "e \<in> set (pc_entries c)" "keep (pe_key e)" for e
  proof -
    have "e \<in> set (take k (pc_entries c)) \<or> e \<in> set (drop k (pc_entries c))"
      using that(1) by (metis Un_iff append_take_drop_id set_append)
    with stored(5,9) that(2) show ?thesis by (cases "pe_key e = key") (auto simp: cache_keys_def)
  qed
  then show ?thesis using stored(5) by (auto simp: cache_keys_def)
qed

lemma prefetch_one_change:
  assumes "prefetch_one env project keep p (c, proc) res = ((c', proc'), res', go)"
  shows "cache_change (c, proc) (c', proc')"
    and "cache_ok c \<Longrightarrow> {k \<in> cache_keys c. keep k} \<subseteq> cache_keys c'"
    and "pf_Cached res' + pf_Skipped res' \<le> pf_Cached res + pf_Skipped res + 1"
proof -
  let ?key = "profileCacheKey project (pm_ProfileID (profileFromAPI env p))"
  obtain c1 hit where g: "cache_Get c ?key = (c1, hit)" by fastforce
  obtain c2 proc2 r where u: "cache_Put c1 proc ?key (pp_ProfileBytes p) (profileFromAPI env p) keep = (c2, proc2, r)"
    using prod_cases3 by blast
  have q: "(c', proc') = (if hit = None then (c2, proc2) else (c1, proc))"
    using assms g u by (auto simp: prefetch_one_def Let_def split: option.splits put_result.splits if_splits)
  note get = cache_Get_change [OF g, of proc] and put = cache_Put_change [OF u]
  show "cache_change (c, proc) (c', proc')"
    using q get cache_change_trans [OF conjunct1 [OF get] put] by (cases hit) simp_all
  show "{k \<in> cache_keys c. keep k} \<subseteq> cache_keys c'" if "cache_ok c"
  proof -
    have "cache_ok c1" using cache_Get_ok [OF that, of ?key] g by simp
    from cache_Put_keys [OF this u] q get show ?thesis by (cases hit) auto
  qed
  show "pf_Cached res' + pf_Skipped res' \<le> pf_Cached res + pf_Skipped res + 1"
    using assms g u by (auto simp: prefetch_one_def Let_def split: option.splits put_result.splits if_splits)
qed

lemma prefetch_loop_change:
  assumes "prefetch_loop env project ids k n remaining (c, proc) res = ((c', proc'), res')"
  shows "cache_change (c, proc) (c', proc') \<and>
    (cache_ok c \<and> proc \<le> profileCacheProcessBytes \<longrightarrow> cache_keys c \<inter> profileCacheKey project ` set ids \<subseteq> cache_keys c') \<and>
    pf_Cached res' + pf_Skipped res' \<le> pf_Cached res + pf_Skipped res + max 0 remaining"
  using assms
proof (induction k arbitrary: n remaining c proc res)
  case 0
  then show ?case by simp
next
  case (Suc k)
  show ?case
  proof (cases "remaining \<le> 0 \<or> \<not> px_alive env n")
    case True
    with Suc.prems show ?thesis by auto
  next
    case go: False
    show ?thesis
    proof (cases "px_scan env (''projects/'' @ project) n")
      case (Inl err)
      with Suc.prems go show ?thesis by (auto split: if_splits)
    next
      case (Inr p)
      show ?thesis
      proof (cases "pm_ProfileID (profileFromAPI env p) \<in> set ids")
        case False
        with Suc.prems go Inr have "prefetch_loop env project ids k (Suc n) remaining (c, proc) res = ((c', proc'), res')" by simp
        from Suc.IH [OF this] show ?thesis .
      next
        case True
        obtain c1 proc1 res1 on where one: "prefetch_one env project (\<lambda>key. key \<in> profileCacheKey project ` set ids) p (c, proc) res =
            ((c1, proc1), res1, on)" by (metis prod.exhaust)
        note ch = prefetch_one_change [OF one]
        show ?thesis
        proof (cases on)
          case False
          with Suc.prems go Inr True one have "c' = c1" "proc' = proc1" "res' = res1" by auto
          with ch go show ?thesis by auto
        next
          case on: True
          with Suc.prems go Inr True one
          have "prefetch_loop env project ids k (Suc n) (remaining - 1) (c1, proc1) res1 = ((c', proc'), res')" by simp
          from Suc.IH [OF this] have r: "cache_change (c1, proc1) (c', proc')"
            "cache_ok c1 \<and> proc1 \<le> profileCacheProcessBytes \<longrightarrow> cache_keys c1 \<inter> profileCacheKey project ` set ids \<subseteq> cache_keys c'"
            "pf_Cached res' + pf_Skipped res' \<le> pf_Cached res1 + pf_Skipped res1 + max 0 (remaining - 1)" by blast+
          have "cache_keys c \<inter> profileCacheKey project ` set ids \<subseteq> cache_keys c'"
            if "cache_ok c" "proc \<le> profileCacheProcessBytes"
            using r(2) ch(2) [OF that(1)] ch(1) that by (auto simp: cache_change_def)
          with r ch go cache_change_trans [OF ch(1) r(1)] show ?thesis by auto
        qed
      qed
    qed
  qed
qed

text \<open>
  Bulk prefetching never drops a cached profile that the request wants, keeps the cache within
  its budgets and its account exact, and accounts for each wanted profile at most once.
\<close>

theorem prefetch_keeps_wanted:
  assumes "cache_ok c" "proc \<le> profileCacheProcessBytes" "prefetchProfiles env (c, proc) project ids = ((c', proc'), res)"
  shows "cache_ok c' \<and> proc' \<le> profileCacheProcessBytes \<and> proc' - pc_bytes c' = proc - pc_bytes c \<and>
    cache_keys c \<inter> profileCacheKey project ` set ids \<subseteq> cache_keys c' \<and> pf_Cached res + pf_Skipped res \<le> int (length ids)"
  using prefetch_loop_change [OF assms(3) [unfolded prefetchProfiles_def]] assms(1,2)
  by (simp add: cache_change_def)

subsection \<open>Trends\<close>

definition points_of :: "(string \<times> series) list \<Rightarrow> string \<Rightarrow> trendsDataPoint list" where
  "points_of ss n = (case map_of ss n of None \<Rightarrow> [] | Some se \<Rightarrow> se_points se)"

text \<open>A point of the series of \<open>n\<close>: the costs of \<open>n\<close> in the profile of \<open>meta\<close>.\<close>

definition trend_point :: "profiler_env \<Rightarrow> computeTrendsParams \<Rightarrow> string \<Rightarrow> profileMeta \<Rightarrow> trendsDataPoint \<Rightarrow> bool" where
  "trend_point env params n meta pt =
     (\<exists>q q' p m targets costs tot c. loadProfile env q (ct_Project params) (pm_ProfileID meta) False = (q', Inr (p, m)) \<and>
        scanFunctionCosts p (ct_ValueIndex params) (ct_FunctionFilter params) targets = Inr (costs, tot) \<and>
        (n, c) \<in> set costs \<and> pt = data_point meta tot c)"

lemma add_points:
  assumes "distinct (map fst costs)"
  shows "points_of (fold (add_point meta tot) costs ss) n =
    points_of ss n @ (case map_of costs n of None \<Rightarrow> [] | Some c \<Rightarrow> [data_point meta tot c])"
  using assms
proof (induction costs arbitrary: ss)
  case Nil
  then show ?case by simp
next
  case (Cons x costs)
  have add: "points_of (add_point meta tot x ss) n = points_of ss n @ (if n = fst x then [data_point meta tot (snd x)] else [])"
    by (simp add: points_of_def add_point_def Let_def update_conv' split: option.split)
  show ?case
  proof (cases "n = fst x")
    case True
    with Cons.prems have "map_of costs n = None" by (simp add: map_of_eq_None_iff)
    with True add Cons.IH [of "add_point meta tot x ss"] Cons.prems show ?thesis by (cases x) simp
  next
    case False
    with add Cons.IH [of "add_point meta tot x ss"] Cons.prems show ?thesis by (cases x) simp
  qed
qed

lemma add_points_distinct: "distinct (map fst ss) \<Longrightarrow> distinct (map fst (fold (add_point meta tot) costs ss))"
  by (induction costs arbitrary: ss) (simp_all add: add_point_def Let_def distinct_update)

lemma scan_costs_distinct: "scanFunctionCosts p k filt targets = Inr (costs, tot) \<Longrightarrow> distinct (map fst costs)"
  using scan_samples_lookup [of "[]"] by (auto simp: scanFunctionCosts_def split: option.splits)

text \<open>The invariant of the loop after \<open>i\<close> profiles, with \<open>metas\<close> to come.\<close>

definition trends_inv :: "profiler_env \<Rightarrow> computeTrendsParams \<Rightarrow> nat \<Rightarrow> profileMeta list \<Rightarrow> trends_state \<Rightarrow> bool" where
  "trends_inv env params i metas st =
     (distinct (map fst (tst_series st)) \<and> 0 \<le> tst_failed st \<and>
      (\<forall>n. sorted (map td_Timestamp (points_of (tst_series st) n)) \<and>
         int (length (points_of (tst_series st) n)) + tst_failed st \<le> int i \<and>
         (\<forall>pt \<in> set (points_of (tst_series st) n). (\<forall>m \<in> set metas. td_Timestamp pt \<le> pm_StartTime m) \<and>
            (\<exists>meta. trend_point env params n meta pt))) \<and> tst_failed st \<le> int i)"

lemma trend_profile_cases:
  assumes "trend_profile env params meta st = Inr st'"
  obtains (failed) "tst_series st' = tst_series st" "tst_failed st' = tst_failed st + 1"
  | (skipped) "tst_series st' = tst_series st" "tst_failed st' = tst_failed st"
  | (points) q p m targets costs tot where "loadProfile env (tst_querier st) (ct_Project params) (pm_ProfileID meta) False = (q, Inr (p, m))"
      "scanFunctionCosts p (ct_ValueIndex params) (ct_FunctionFilter params) targets = Inr (costs, tot)"
      "tst_series st' = fold (add_point meta tot) costs (tst_series st)" "tst_failed st' = tst_failed st"
  using assms by (auto simp: trend_profile_def Let_def split: prod.splits sum.splits option.splits)

lemma trend_profile_inv:
  assumes "trend_profile env params meta st = Inr st'" "trends_inv env params i (meta # metas) st"
    and later: "\<forall>m \<in> set metas. pm_StartTime meta \<le> pm_StartTime m"
  shows "trends_inv env params (Suc i) metas st'"
  using assms(1)
proof (cases rule: trend_profile_cases)
  case failed
  with assms(2) show ?thesis by (simp add: trends_inv_def)
next
  case skipped
  with assms(2) show ?thesis by (auto simp: trends_inv_def intro: order_trans [of _ "int i"])
next
  case (points q p m targets costs tot)
  note dist = scan_costs_distinct [OF points(2)]
  have pts: "points_of (tst_series st') n = points_of (tst_series st) n @
      (case map_of costs n of None \<Rightarrow> [] | Some c \<Rightarrow> [data_point meta tot c])" for n
    unfolding points(3) by (rule add_points [OF dist])
  have new: "trend_point env params n meta (data_point meta tot c)" if "map_of costs n = Some c" for n c
    unfolding trend_point_def using points(1,2) map_of_SomeD [OF that] by blast
  have "sorted (map td_Timestamp (points_of (tst_series st') n)) \<and>
      int (length (points_of (tst_series st') n)) + tst_failed st' \<le> int (Suc i) \<and>
      (\<forall>pt \<in> set (points_of (tst_series st') n). (\<forall>m \<in> set metas. td_Timestamp pt \<le> pm_StartTime m) \<and>
        (\<exists>meta. trend_point env params n meta pt))" for n
  proof (cases "map_of costs n")
    case None
    with pts [of n] points(4) assms(2) show ?thesis by (auto simp: trends_inv_def intro: order_trans [of _ "int i"])
  next
    case (Some c)
    have "td_Timestamp (data_point meta tot c) = pm_StartTime meta" by (simp add: data_point_def)
    with pts [of n] Some points(4) assms(2) later new [OF Some] show ?thesis
      by (auto simp: trends_inv_def sorted_append)
  qed
  moreover have "distinct (map fst (tst_series st'))"
    using assms(2) unfolding points(3) by (intro add_points_distinct) (simp add: trends_inv_def)
  ultimately show ?thesis using points(4) assms(2) by (auto simp: trends_inv_def)
qed

lemma trend_loop_inv:
  assumes "trend_loop env ended params n i metas st = Inr st'" "trends_inv env params i metas st" "sorted (map pm_StartTime metas)"
  shows "trends_inv env params (i + length metas) [] st'"
  using assms
proof (induction metas arbitrary: i st)
  case Nil
  then show ?case by simp
next
  case (Cons meta metas)
  then obtain st1 where "trend_profile env params meta st = Inr st1" "trend_loop env ended params n (Suc i) metas st1 = Inr st'"
    by (auto split: option.splits sum.splits)
  with Cons.IH [of "Suc i" st1] trend_profile_inv [of env params meta st st1 i metas] Cons.prems show ?case by simp
qed

interpretation start_order: strict_weak_order "\<lambda>a b. pm_StartTime a < pm_StartTime b"
  by unfold_locales auto

lemma sorted_starts: "sorted (map pm_StartTime (sort_less (\<lambda>a b. pm_StartTime a < pm_StartTime b) ms))"
  using start_order.sorted_sort_less [of ms] by (simp add: sorted_map not_less)

text \<open>
  A trend is consistent: each series lists at most one point for each profile that was
  analyzed, in the order of the start times, and every point holds the costs of its function in
  the profile it names; at most the requested number of functions is returned, and the profiles
  are those analyzed and those that failed.
\<close>

theorem trends_consistent:
  assumes "ComputeTrends env ended order perm q params = Some (q', Inr r)" "s \<in> set (ptr_Functions r)"
    and "\<And>ss. mset (perm ss) = mset ss"
  shows "sorted (map td_Timestamp (tfs_DataPoints s)) \<and> int (length (tfs_DataPoints s)) \<le> ptr_AnalyzedCount r \<and>
    (\<forall>pt \<in> set (tfs_DataPoints s). \<exists>meta. trend_point env params (tfs_Name s) meta pt) \<and>
    (0 < ct_MaxFunctions params \<longrightarrow> int (length (ptr_Functions r)) \<le> ct_MaxFunctions params) \<and>
    ptr_AnalyzedCount r + ptr_FailedProfiles r = ptr_ProfileCount r"
proof -
  obtain ps where "analyze_trends env ended perm params q
      (sort_less (\<lambda>a b. pm_StartTime a < pm_StartTime b) (order ps)) = (q', Inr r)"
    using assms(1) by (auto simp: ComputeTrends_def split: option.splits sum.splits if_splits)
  then obtain metas q1 pf st where m: "sorted (map pm_StartTime metas)" and
    l: "trend_loop env ended params (length metas) 0 metas
      \<lparr>tst_querier = q1, tst_targets = [], tst_series = [], tst_valueType = None, tst_failed = 0, tst_lastErr = None\<rparr> = Inr st" and
    r: "r = trends_result perm params metas pf st"
    using sorted_starts [of "order ps"]
    by (auto simp: analyze_trends_def split: prod.splits sum.splits if_splits)
  have inv: "trends_inv env params (length metas) [] st"
    using trend_loop_inv [OF l _ m] by (simp add: trends_inv_def points_of_def)
  obtain n se where s: "(n, se) \<in> set (perm (tst_series st))" "tfs_Name s = n" "tfs_DataPoints s = se_points se"
    using assms(2) by (auto simp: r trends_result_def Let_def dest!: in_set_takeD split: if_splits)
  have "(n, se) \<in> set (tst_series st)" using s(1) mset_eq_setD [OF assms(3)] by blast
  then have "points_of (tst_series st) n = se_points se" using inv by (simp add: trends_inv_def points_of_def)
  with inv s have "sorted (map td_Timestamp (tfs_DataPoints s)) \<and> int (length (tfs_DataPoints s)) \<le> int (length metas) - tst_failed st \<and>
      (\<forall>pt \<in> set (tfs_DataPoints s). \<exists>meta. trend_point env params (tfs_Name s) meta pt)"
    unfolding trends_inv_def by (metis add_le_imp_le_diff)
  then show ?thesis by (auto simp: r trends_result_def Let_def)
qed

subsection \<open>Navigation\<close>

lemma navigationLimit_bounds: "0 < fallback \<Longrightarrow> fallback \<le> maximum \<Longrightarrow> 0 < navigationLimit limit fallback maximum \<and> navigationLimit limit fallback maximum \<le> maximum"
  by (simp add: navigationLimit_def)

lemma topFunctions_length:
  "topFunctions p k limit sortBy filt = Inr (fs, tot, truncated) \<Longrightarrow> 0 < limit \<Longrightarrow> int (length fs) \<le> limit"
  by (auto simp: topFunctions_def Let_def split: option.splits sum.splits if_splits)

lemma makePeekEntries_length: "0 < limit \<Longrightarrow> int (length (makePeekEntries perm tot limit ns)) \<le> limit"
  by (auto simp: makePeekEntries_def Let_def)

lemma peekFunction_length:
  "peekFunction perm p name k limit = Inr (info, callers, callees) \<Longrightarrow> 0 < limit \<Longrightarrow>
    int (length callers) \<le> limit \<and> int (length callees) \<le> limit"
  using makePeekEntries_length [of limit] by (auto simp: peekFunction_def Let_def split: option.splits list.splits)

text \<open>
  Whatever limits are asked for, a navigation result stays small: at most 50 functions, at most
  30 callers and callees, and a call tree of at most 1000 nodes and 6 levels below its root.
\<close>

theorem navigation_bounded:
  "(TopProfile env q np limit sortBy filt = (q1, Inr r1) \<longrightarrow> length (tr_TopFunctions r1) \<le> 50) \<and>
   (PeekProfile env perm q np name limit = (q2, Inr r2) \<longrightarrow> length (pr_Callers r2) \<le> 30 \<and> length (pr_Callees r2) \<le> 30) \<and>
   (FlamegraphProfile env q np rootFunction maxDepth minPct = (q3, Inr r3) \<longrightarrow>
      flame_size (fr_Root r3) \<le> 1000 \<and> flame_height (fr_Root r3) \<le> 6)"
proof (intro conjI impI)
  assume "TopProfile env q np limit sortBy filt = (q1, Inr r1)"
  then obtain p tot truncated where "topFunctions p (np_ValueIndex np) (navigationLimit limit 20 50)
      (if sortBy = [] then ''cumulative'' else sortBy) filt = Inr (tr_TopFunctions r1, tot, truncated)"
    by (auto simp: TopProfile_def Let_def split: prod.splits sum.splits)
  from topFunctions_length [OF this] navigationLimit_bounds [of 20 50 limit]
  show "length (tr_TopFunctions r1) \<le> 50" by simp
next
  assume r: "PeekProfile env perm q np name limit = (q2, Inr r2)"
  then obtain p info where "peekFunction perm p name (np_ValueIndex np) (navigationLimit limit 10 30) =
      Inr (info, pr_Callers r2, pr_Callees r2)"
    by (auto simp: PeekProfile_def Let_def split: prod.splits sum.splits)
  from peekFunction_length [OF this] navigationLimit_bounds [of 10 30 limit]
  show "length (pr_Callers r2) \<le> 30" "length (pr_Callees r2) \<le> 30" by simp_all
next
  assume "FlamegraphProfile env q np rootFunction maxDepth minPct = (q3, Inr r3)"
  then obtain p pct tot pruned where "flamegraph p rootFunction (np_ValueIndex np) (navigationLimit maxDepth 3 6) 1000 pct =
      Inr (fr_Root r3, tot, pruned)"
    by (auto simp: FlamegraphProfile_def Let_def split: prod.splits sum.splits)
  then obtain t where "int (flame_size (fr_Root r3)) \<le> 1000" "in_bounds pct (nat (navigationLimit maxDepth 3 6)) (fr_Root r3)"
    by (rule flamegraph_converted) simp
  with navigationLimit_bounds [of 3 6 maxDepth]
  show "flame_size (fr_Root r3) \<le> 1000" "flame_height (fr_Root r3) \<le> 6"
    by (auto simp: in_bounds_def)
qed

subsection \<open>A querier with a cached profile\<close>

definition ex_querier :: querier where
  "ex_querier = (\<lparr>pc_entries = [\<lparr>pe_key = ''p/a'', pe_data = ''d'', pe_meta = zero_profileMeta\<rparr>], pc_bytes = 1,
     pc_maxBytes = profileCacheUserBytes, pc_closed = False\<rparr>, 1)"

definition ex_navigation :: navigationParams where
  "ex_navigation = \<lparr>np_Project = ''p'', np_ProfileID = ''a'', np_BaseProfileID = [], np_ValueIndex = 0\<rparr>"

lemma ex_source_parse: "parseSourceProfile ex_profiler ''d'' = Inr example_profile"
  by (simp add: parseSourceProfile_def read_source_def maxCompressedProfileBytes_def maxDecompressedProfileBytes_def ex_profiler_def)

lemma ex_load: "loadProfile ex_profiler ex_querier ''p'' ''a'' cacheFetched = (ex_querier, Inr (example_profile, zero_profileMeta))"
  by (simp add: loadProfile_def ex_querier_def cache_Get_def touch_def cache_index_def profileCacheKey_def delete_at_def ex_source_parse)

lemma ex_topFunctions: "map_sum (\<lambda>_. ()) (\<lambda>x. fst (snd x)) (topFunctions example_profile 0 20 ''cumulative'' []) = Inr 10"
  by code_simp

theorem navigation_bounded_witness:
  "\<exists>q1 r1. TopProfile ex_profiler ex_querier ex_navigation 0 [] [] = (q1, Inr r1) \<and> length (tr_TopFunctions r1) \<le> 50"
proof -
  from ex_topFunctions obtain a b where top: "topFunctions example_profile 0 20 ''cumulative'' [] = Inr (a, 10, b)"
    by (cases "topFunctions example_profile 0 20 ''cumulative'' []") auto
  have "\<exists>r1. TopProfile ex_profiler ex_querier ex_navigation 0 [] [] = (ex_querier, Inr r1)"
    unfolding TopProfile_def profileOrDiff_def getOrFetchProfile_def ex_navigation_def
    by (simp only: ex_load top navigationLimit_def navigationParams.simps prod.case sum.case Let_def order_refl refl if_True top) blast
  then obtain q1 r1 where "TopProfile ex_profiler ex_querier ex_navigation 0 [] [] = (q1, Inr r1)" by blast
  with navigation_bounded [of ex_profiler ex_querier ex_navigation 0 "[]" "[]" q1 r1] show ?thesis by blast
qed

lemma ex_no_prefetch: "prefetch_loop ex_profiler project ids k 0 remaining q res = (q, res)"
  by (cases k) (simp_all add: ex_profiler_def)

lemma ex_prefetch:
  "prefetchProfiles ex_profiler ex_querier ''p'' [''a''] =
     (ex_querier, \<lparr>pf_Cached = 0, pf_Skipped = 0, pf_LastSkip = None, pf_Stopped = None\<rparr>)"
  by (simp add: prefetchProfiles_def ex_no_prefetch)

theorem prefetch_keeps_wanted_witness: "''p/a'' \<in> cache_keys (fst ex_querier)"
  using prefetch_keeps_wanted [of "fst ex_querier" "snd ex_querier" ex_profiler "''p''" "[''a'']" "fst ex_querier" "snd ex_querier"] ex_prefetch
  by (simp add: ex_querier_def cache_ok_def profileCacheUserBytes_def profileCacheProcessBytes_def cache_keys_def profileCacheKey_def)

definition ex_trends :: computeTrendsParams where
  "ex_trends = \<lparr>ct_Project = ''p'', ct_ProfileType = ''CPU'', ct_Target = [], ct_FunctionFilter = ''work'', ct_ValueIndex = 0,
     ct_MaxProfiles = 1, ct_MaxFunctions = 3\<rparr>"

lemma ex_scan: "scanFunctionCosts example_profile 0 ''work'' [] = Inr ([(''work'', \<lparr>fc_file = ''a.go'', fc_self = 4, fc_cumulative = 10\<rparr>)], 10)"
  by code_simp

lemma ex_trends_list: "trend_list_params ex_trends = ex_list"
  by (simp add: trend_list_params_def ex_trends_def ex_list_def)

lemma ex_analyze:
  assumes "pm_ProfileID m = ''a''"
  shows "\<exists>r. analyze_trends ex_profiler (\<lambda>_. None) id ex_trends ex_querier [m] = (ex_querier, Inr r) \<and> map tfs_Name (ptr_Functions r) = [''work'']"
  using assms ex_load [of False] ex_scan
  by (simp add: analyze_trends_def prefetchProfiles_def ex_no_prefetch trend_profile_def ex_trends_def discover_targets_def
      trends_result_def add_point_def Let_def)

theorem trends_consistent_witness:
  "\<exists>q' r s. ComputeTrends ex_profiler (\<lambda>_. None) id id ex_querier ex_trends = Some (q', Inr r) \<and> ptr_Functions r = [s] \<and>
     sorted (map td_Timestamp (tfs_DataPoints s))"
proof -
  obtain l m where l: "ListProfiles ex_profiler ex_list = Some (Inr l)" "plr_Count l = 1" "plr_Profiles l = [m]" "pm_ProfileID m = ''a''"
    using ex_list_run by (cases "the (ListProfiles ex_profiler ex_list)") auto
  obtain r where r: "analyze_trends ex_profiler (\<lambda>_. None) id ex_trends ex_querier [m] = (ex_querier, Inr r)"
    "map tfs_Name (ptr_Functions r) = [''work'']" using ex_analyze [OF l(4)] by (elim exE conjE) (rule that)
  have run: "ComputeTrends ex_profiler (\<lambda>_. None) id id ex_querier ex_trends = Some (ex_querier, Inr r)"
    using l r(1) by (simp add: ComputeTrends_def ex_trends_list)
  from r(2) obtain s where "ptr_Functions r = [s]" by auto
  moreover from this have "sorted (map td_Timestamp (tfs_DataPoints s))"
    using trends_consistent [OF run, of s] by simp
  ultimately show ?thesis using run by (intro exI conjI)
qed

end
