(* ===== verification/Go_Float.thy ===== *)
theory Go_Float
  imports Go_Format
begin

text \<open>
  The arithmetic of \<open>float64\<close> that the metrics packages use: a value is a finite number (a
  rational), an infinity or not-a-number; every operation computes the exact result and rounds it
  once to the nearest double, ties to even (\<open>f64\<close> of \<open>Go_Format\<close>), and overflows to an infinity.
  The sign of zero is not represented: the program never divides by a zero and never prints these
  values, the only places where it could be seen. One rounding per operation is what the compiler
  emits on amd64; on platforms with fused multiply-add it may skip a rounding.
\<close>

datatype float64 = Fin rat | PosInf | NegInf | NaN

definition round64 :: "rat \<Rightarrow> float64" where
  "round64 x = (let r = f64 x in if 2 ^ 1024 \<le> r then PosInf else if r \<le> - (2 ^ 1024) then NegInf else Fin r)"

definition fint :: "int \<Rightarrow> float64" where
  "fint n = round64 (of_int n)"

definition fzero :: float64 where
  "fzero = Fin 0"

subsection \<open>Operations\<close>

fun fneg :: "float64 \<Rightarrow> float64" where
  "fneg (Fin x) = Fin (- x)"
| "fneg PosInf = NegInf"
| "fneg NegInf = PosInf"
| "fneg NaN = NaN"

text \<open>\<open>math.Abs\<close>.\<close>

fun fabs :: "float64 \<Rightarrow> float64" where
  "fabs (Fin x) = Fin \<bar>x\<bar>"
| "fabs PosInf = PosInf"
| "fabs NegInf = PosInf"
| "fabs NaN = NaN"

fun fadd :: "float64 \<Rightarrow> float64 \<Rightarrow> float64" where
  "fadd (Fin x) (Fin y) = round64 (x + y)"
| "fadd NaN _ = NaN"
| "fadd _ NaN = NaN"
| "fadd PosInf NegInf = NaN"
| "fadd NegInf PosInf = NaN"
| "fadd PosInf _ = PosInf"
| "fadd _ PosInf = PosInf"
| "fadd NegInf _ = NegInf"
| "fadd _ NegInf = NegInf"

definition fsub :: "float64 \<Rightarrow> float64 \<Rightarrow> float64" where
  "fsub a b = fadd a (fneg b)"

text \<open>An infinity with the sign of a product or quotient of finite numbers.\<close>

definition inf_of :: "bool \<Rightarrow> float64" where
  "inf_of neg = (if neg then NegInf else PosInf)"

fun fmul :: "float64 \<Rightarrow> float64 \<Rightarrow> float64" where
  "fmul (Fin x) (Fin y) = round64 (x * y)"
| "fmul NaN _ = NaN"
| "fmul _ NaN = NaN"
| "fmul (Fin x) PosInf = (if x = 0 then NaN else inf_of (x < 0))"
| "fmul (Fin x) NegInf = (if x = 0 then NaN else inf_of (0 < x))"
| "fmul PosInf (Fin x) = (if x = 0 then NaN else inf_of (x < 0))"
| "fmul NegInf (Fin x) = (if x = 0 then NaN else inf_of (0 < x))"
| "fmul PosInf PosInf = PosInf"
| "fmul PosInf NegInf = NegInf"
| "fmul NegInf PosInf = NegInf"
| "fmul NegInf NegInf = PosInf"

text \<open>A zero divisor counts as positive zero.\<close>

fun fdiv :: "float64 \<Rightarrow> float64 \<Rightarrow> float64" where
  "fdiv (Fin x) (Fin y) =
     (if y = 0 then (if x = 0 then NaN else inf_of (x < 0)) else round64 (x / y))"
| "fdiv NaN _ = NaN"
| "fdiv _ NaN = NaN"
| "fdiv (Fin x) _ = Fin 0"
| "fdiv PosInf (Fin y) = inf_of (y < 0)"
| "fdiv NegInf (Fin y) = inf_of (0 \<le> y)"
| "fdiv _ _ = NaN"

text \<open>\<open>math.Sqrt\<close>: the integer root of the scaled argument, then the rounding of \<open>f64\<close> on it.\<close>

function isqrt :: "int \<Rightarrow> int" where
  "isqrt n = (if n \<le> 0 then 0
     else (let r = 2 * isqrt (n div 4) in if (r + 1) * (r + 1) \<le> n then r + 1 else r))"
  by pat_completeness auto

termination
  by (relation "measure nat") auto

declare isqrt.simps [simp del]

lemma isqrt_correct: "0 \<le> n \<Longrightarrow> 0 \<le> isqrt n \<and> isqrt n * isqrt n \<le> n \<and> n < (isqrt n + 1) * (isqrt n + 1)"
proof (induction n rule: isqrt.induct)
  case (1 n)
  show ?case
  proof (cases "n = 0")
    case True
    then show ?thesis by (simp add: isqrt.simps)
  next
    case False
    define q where "q = isqrt (n div 4)"
    have q: "0 \<le> q" "q * q \<le> n div 4" "n div 4 < (q + 1) * (q + 1)"
      using 1 False by (auto simp: q_def)
    have "4 * p \<le> n" if "p \<le> n div 4" for p using that by auto
    moreover have "n < 4 * p" if "n div 4 < p" for p using that by auto
    ultimately have "(2 * q) * (2 * q) \<le> n" "n < (2 * q + 2) * (2 * q + 2)"
      using q(2,3) by (fastforce simp: algebra_simps)+
    moreover have "isqrt n = (if (2 * q + 1) * (2 * q + 1) \<le> n then 2 * q + 1 else 2 * q)"
      using False 1(2) by (subst isqrt.simps) (simp add: q_def Let_def)
    ultimately show ?thesis using q(1) by (simp add: add.commute)
  qed
qed

definition sqrt_exponent :: "rat \<Rightarrow> int" where
  "sqrt_exponent x = (let (a, b) = quotient_of x in (bits a - bits b) div 2 - 60)"

text \<open>
  The result has more than 53 bits before the last rounding; the lowest one is set when the root
  is not exact, so that the rounding sees on which side of a tie it lies.
\<close>

definition sqrt64 :: "rat \<Rightarrow> rat" where
  "sqrt64 x =
     (let e = sqrt_exponent x; s = x / pow2 (2 * e); r = isqrt \<lfloor>s\<rfloor>;
          sticky = (if of_int (r * r) = s then 0 else 1)
      in f64 (of_int (2 * r + sticky) * pow2 (e - 1)))"

fun fsqrt :: "float64 \<Rightarrow> float64" where
  "fsqrt (Fin x) = (if x < 0 then NaN else if x = 0 then Fin 0 else Fin (sqrt64 x))"
| "fsqrt PosInf = PosInf"
| "fsqrt _ = NaN"

subsection \<open>Comparisons\<close>

text \<open>Every comparison with not-a-number is false.\<close>

fun flt :: "float64 \<Rightarrow> float64 \<Rightarrow> bool" where
  "flt (Fin x) (Fin y) = (x < y)"
| "flt (Fin x) PosInf = True"
| "flt NegInf (Fin y) = True"
| "flt NegInf PosInf = True"
| "flt _ _ = False"

definition feq :: "float64 \<Rightarrow> float64 \<Rightarrow> bool" where
  "feq a b = (a = b \<and> a \<noteq> NaN)"

definition fle :: "float64 \<Rightarrow> float64 \<Rightarrow> bool" where
  "fle a b = (flt a b \<or> feq a b)"

definition is_nan :: "float64 \<Rightarrow> bool" where
  "is_nan a = (a = NaN)"

definition is_inf :: "float64 \<Rightarrow> bool" where
  "is_inf a = (a = PosInf \<or> a = NegInf)"

definition finite64 :: "float64 \<Rightarrow> bool" where
  "finite64 a = (\<not> is_nan a \<and> \<not> is_inf a)"

lemma finite64_iff: "finite64 a \<longleftrightarrow> (\<exists>x. a = Fin x)"
  by (cases a) (auto simp: finite64_def is_nan_def is_inf_def)

lemma finite64_Fin [simp]: "finite64 (Fin x)"
  by (simp add: finite64_iff)

text \<open>\<open>math.Max\<close>.\<close>

definition fmax :: "float64 \<Rightarrow> float64 \<Rightarrow> float64" where
  "fmax a b = (if a = PosInf \<or> b = PosInf then PosInf else if is_nan a \<or> is_nan b then NaN
     else if flt b a then a else b)"

text \<open>\<open>cmp.Less\<close>, the order of \<open>slices.Sorted\<close>: not-a-number comes first.\<close>

definition cmp_less :: "float64 \<Rightarrow> float64 \<Rightarrow> bool" where
  "cmp_less a b = ((is_nan a \<and> \<not> is_nan b) \<or> flt a b)"

lemma flt_irrefl [simp]: "\<not> flt a a"
  by (cases a) auto

lemma flt_asym: "flt a b \<Longrightarrow> \<not> flt b a"
  by (cases a; cases b) auto

lemma flt_trans: "flt a b \<Longrightarrow> flt b c \<Longrightarrow> flt a c"
  by (cases a; cases b; cases c) auto

lemma flt_not_nan: "flt a b \<Longrightarrow> a \<noteq> NaN \<and> b \<noteq> NaN"
  by (cases a; cases b) auto

lemma fle_refl: "a \<noteq> NaN \<Longrightarrow> fle a a"
  by (simp add: fle_def feq_def)

lemma fle_trans: "fle a b \<Longrightarrow> fle b c \<Longrightarrow> fle a c"
  by (cases a; cases b; cases c) (auto simp: fle_def feq_def)

lemma fle_Fin [simp]: "fle (Fin x) (Fin y) \<longleftrightarrow> x \<le> y"
  by (auto simp: fle_def feq_def)

lemma feq_Fin [simp]: "feq (Fin x) (Fin y) \<longleftrightarrow> x = y"
  by (simp add: feq_def)

lemma feq_sym: "feq a b = feq b a"
  by (auto simp: feq_def)

lemma not_flt: "a \<noteq> NaN \<Longrightarrow> b \<noteq> NaN \<Longrightarrow> \<not> flt a b \<longleftrightarrow> fle b a"
  by (cases a; cases b) (auto simp: fle_def feq_def)

interpretation float_order: strict_weak_order cmp_less
proof
  fix x y z :: float64
  show "cmp_less x y \<Longrightarrow> \<not> cmp_less y x"
    by (cases x; cases y) (auto simp: cmp_less_def is_nan_def)
  show "\<not> cmp_less x y \<Longrightarrow> \<not> cmp_less y z \<Longrightarrow> \<not> cmp_less x z"
    by (cases x; cases y; cases z) (auto simp: cmp_less_def is_nan_def)
qed

subsection \<open>Conversion to integers\<close>

definition trunc :: "rat \<Rightarrow> int" where
  "trunc x = (if x < 0 then - \<lfloor>- x\<rfloor> else \<lfloor>x\<rfloor>)"

text \<open>\<open>int(x)\<close>; for other values than these the result depends on the platform (amd64 here).\<close>

definition to_int :: "float64 \<Rightarrow> int" where
  "to_int a = (case a of Fin x \<Rightarrow> if \<bar>x\<bar> < 2 ^ 63 then trunc x else - (2 ^ 63) | _ \<Rightarrow> - (2 ^ 63))"

fun ffloor :: "float64 \<Rightarrow> float64" where
  "ffloor (Fin x) = Fin (of_int \<lfloor>x\<rfloor>)"
| "ffloor a = a"

fun fceil :: "float64 \<Rightarrow> float64" where
  "fceil (Fin x) = Fin (of_int \<lceil>x\<rceil>)"
| "fceil a = a"

subsection \<open>Rounding is exact on doubles\<close>

lemma bits_bounds: "0 < n \<Longrightarrow> 2 ^ nat (bits n - 1) \<le> n \<and> n < 2 ^ nat (bits n) \<and> 1 \<le> bits n"
proof (induction n rule: bits.induct)
  case (1 n)
  show ?case
  proof (cases "n = 1")
    case True
    then show ?thesis by (simp add: bits.simps)
  next
    case False
    with 1 have *: "2 ^ nat (bits (n div 2) - 1) \<le> n div 2" "n div 2 < 2 ^ nat (bits (n div 2))" "1 \<le> bits (n div 2)"
      by auto
    have n: "bits n = 1 + bits (n div 2)" using 1 by (subst bits.simps) simp
    have "2 ^ nat (bits n - 1) = (2::int) * 2 ^ nat (bits (n div 2) - 1)"
      using *(3) n by (simp flip: power_Suc add: Suc_nat_eq_nat_zadd1)
    moreover have "2 ^ nat (bits n) = (2::int) * 2 ^ nat (bits (n div 2))"
      using *(3) n by (simp flip: power_Suc add: Suc_nat_eq_nat_zadd1)
    moreover have "2 * p \<le> n \<and> n < 2 * q" if "p \<le> n div 2" "n div 2 < q" for p q :: int
      using that by auto
    note this [OF *(1) *(2)]
    ultimately show ?thesis using *(3) n by simp
  qed
qed


lemma pow2_pos [simp]: "0 < pow2 e"
  by (simp add: pow2_def)

lemma pow2_nonzero [simp]: "pow2 e \<noteq> 0"
  by (simp add: pow2_def)

lemma pow2_add: "pow2 (a + b) = pow2 a * pow2 b"
proof -
  have "pow2 e = power_int 2 e" for e
    by (simp add: pow2_def power_int_def field_simps)
  then show ?thesis by (simp add: power_int_add)
qed

lemma pow2_mono: "a \<le> b \<Longrightarrow> pow2 a \<le> pow2 b"
proof -
  assume "a \<le> b"
  then have "pow2 b = pow2 a * 2 ^ nat (b - a)"
    using pow2_add [of a "b - a"] by (simp add: pow2_def [of "b - a"])
  then show ?thesis by simp
qed

lemma pow2_of_int: "0 \<le> e \<Longrightarrow> pow2 e = of_int (2 ^ nat e)"
  by (simp add: pow2_def)

lemma of_int_abs_less: "\<bar>m\<bar> < 2 ^ 53 \<Longrightarrow> \<bar>of_int m\<bar> < (2 ^ 53 :: rat)"
  using of_int_less_iff [of "\<bar>m\<bar>" "2 ^ 53", where 'a = rat] by simp

lemma pow2_less_iff: "pow2 a < pow2 b \<longleftrightarrow> a < b"
proof
  assume "pow2 a < pow2 b"
  then show "a < b" using pow2_mono [of b a] by linarith
next
  assume "a < b"
  then have "2 * pow2 a \<le> pow2 b" using pow2_mono [of "1 + a" b] by (simp add: pow2_add) (simp add: pow2_def)
  moreover have "0 < pow2 a" by simp
  ultimately show "pow2 a < pow2 b" by linarith
qed

lemma floor_rat_numeral [simp]:
  "\<lfloor>numeral a / numeral b :: rat\<rfloor> = numeral a div numeral b"
  "\<lfloor>- (numeral a / numeral b :: rat)\<rfloor> = (- numeral a) div numeral b"
  "\<lfloor>1 / numeral b :: rat\<rfloor> = 1 div numeral b"
  "\<lfloor>- (1 / numeral b :: rat)\<rfloor> = (- 1) div numeral b"
  using floor_divide_of_int_eq [of "numeral a" "numeral b", where 'a = rat]
    floor_divide_of_int_eq [of "- numeral a" "numeral b", where 'a = rat]
    floor_divide_of_int_eq [of 1 "numeral b", where 'a = rat]
    floor_divide_of_int_eq [of "- 1" "numeral b", where 'a = rat] by simp_all

lemma round_half_even_int [simp]: "round_half_even (of_int n) = n"
  by (simp add: round_half_even_def)

text \<open>The exponent puts the significand into 53 bits, or is the least one.\<close>

lemma pow2_quotient:
  assumes "0 < a" "0 < b"
  shows "pow2 (bits a - bits b - 1) \<le> of_int a / of_int b" "of_int a / of_int b < pow2 (bits a - bits b + 1)"
proof -
  have a: "pow2 (bits a - 1) \<le> of_int a" "of_int a < pow2 (bits a)"
    and b: "pow2 (bits b - 1) \<le> of_int b" "of_int b < pow2 (bits b)"
    using bits_bounds [OF assms(1)] bits_bounds [OF assms(2)]
    by (simp_all only: pow2_of_int of_int_le_iff of_int_less_iff diff_ge_0_iff_ge)
      (simp_all add: pow2_of_int)
  have "pow2 (bits a - 1) / pow2 (bits b) \<le> of_int a / of_int b"
    using a b assms by (intro frac_le) auto
  moreover have "pow2 (bits a - 1) / pow2 (bits b) = pow2 (bits a - bits b - 1)"
    using pow2_add [of "bits a - bits b - 1" "bits b"] by (simp add: field_simps)
  ultimately show "pow2 (bits a - bits b - 1) \<le> of_int a / of_int b" by simp
  have "of_int a / of_int b < pow2 (bits a) / pow2 (bits b - 1)"
    using a b assms by (intro frac_less) auto
  moreover have "pow2 (bits a) / pow2 (bits b - 1) = pow2 (bits a - bits b + 1)"
    using pow2_add [of "bits a - bits b + 1" "bits b - 1"] by (simp add: field_simps)
  ultimately show "of_int a / of_int b < pow2 (bits a - bits b + 1)" by simp
qed

lemma pow2_shift: "pow2 (e + 53) = 2 ^ 53 * pow2 e"
  by (simp add: pow2_add) (simp add: pow2_def)

lemma f64_exponent_bounds:
  assumes "x \<noteq> 0"
  shows "\<bar>x\<bar> < pow2 (f64_exponent x + 53)"
    and "f64_exponent x \<noteq> - 1074 \<Longrightarrow> pow2 (f64_exponent x + 52) \<le> \<bar>x\<bar>"
proof -
  obtain a b where ab: "quotient_of \<bar>x\<bar> = (a, b)" by (cases "quotient_of \<bar>x\<bar>")
  then have x: "\<bar>x\<bar> = of_int a / of_int b" and b: "0 < b"
    by (auto intro: quotient_of_div quotient_of_denom_pos)
  from assms have "0 < (of_int a :: rat) / of_int b" by (simp flip: x)
  with b have a: "0 < a" by (simp add: zero_less_divide_iff)
  define e where "e = bits a - bits b - 53"
  have low: "pow2 (e + 52) \<le> \<bar>x\<bar>" and high: "\<bar>x\<bar> < pow2 (e + 1 + 53)"
    using pow2_quotient [OF a b] by (simp_all add: x e_def add.commute)
  define c where "c = (if 2 ^ 53 * pow2 e \<le> \<bar>x\<bar> then e + 1 else e)"
  have *: "f64_exponent x = max (- 1074) c"
    using ab by (simp add: f64_exponent_def e_def c_def Let_def pos_le_divide_eq)
  have c: "pow2 (c + 52) \<le> \<bar>x\<bar>" "\<bar>x\<bar> < pow2 (c + 53)"
    using low high pow2_shift [of e] by (auto simp: c_def algebra_simps)
  show "\<bar>x\<bar> < pow2 (f64_exponent x + 53)"
    using c(2) pow2_mono [of "c + 53" "f64_exponent x + 53"] * by linarith
  show "pow2 (f64_exponent x + 52) \<le> \<bar>x\<bar>" if "f64_exponent x \<noteq> - 1074"
    using that * c(1) by (simp add: max_def split: if_splits)
qed

lemma f64_exponent_unique:
  assumes "pow2 (e + 52) \<le> \<bar>x\<bar>" "\<bar>x\<bar> < pow2 (e + 53)" "- 1074 \<le> e"
  shows "f64_exponent x = e"
proof -
  have x: "x \<noteq> 0" using assms(1) pow2_pos [of "e + 52"] by (auto simp del: pow2_pos)
  have "- 1074 \<le> f64_exponent x" by (simp add: f64_exponent_def Let_def split: prod.split)
  have up: "pow2 (e + 52) < pow2 (f64_exponent x + 53)"
    using f64_exponent_bounds(1) [OF x] assms(1) by linarith
  then have "e \<le> f64_exponent x" by (simp add: pow2_less_iff)
  moreover have "f64_exponent x \<le> e"
  proof (cases "f64_exponent x = - 1074")
    case True
    with assms(3) show ?thesis by simp
  next
    case False
    then have "pow2 (f64_exponent x + 52) < pow2 (e + 53)"
      using f64_exponent_bounds(2) [OF x] assms(2) by linarith
    then show ?thesis by (simp add: pow2_less_iff)
  qed
  ultimately show ?thesis by simp
qed

text \<open>The value of a rounding, for a given exponent.\<close>

lemma f64_at:
  assumes "pow2 (e + 52) \<le> \<bar>x\<bar>" "\<bar>x\<bar> < pow2 (e + 53)" "- 1074 \<le> e"
  shows "f64 x = of_int (round_half_even (x / pow2 e)) * pow2 e"
  using assms pow2_pos [of "e + 52"]
  by (auto simp: f64_def f64_exponent_unique [OF assms] Let_def simp del: pow2_pos)

lemma f64_exact:
  assumes x: "x = of_int m / 2 ^ k" and m: "\<bar>m\<bar> < 2 ^ 53" and k: "k \<le> 1074"
  shows "f64 x = x"
proof (cases "x = 0")
  case False
  let ?e = "f64_exponent x"
  have xk: "\<bar>x\<bar> < pow2 (53 - int k)"
  proof -
    have "\<bar>x\<bar> < 2 ^ 53 / 2 ^ k"
      using of_int_abs_less [OF m] unfolding x
      by (simp add: abs_divide divide_strict_right_mono)
    also have "\<dots> = pow2 (53 - int k)"
      using pow2_add [of "53 - int k" "int k"] by (simp add: field_simps) (simp add: pow2_def)
    finally show ?thesis .
  qed
  have ek: "?e \<le> - int k"
  proof (cases "?e = - 1074")
    case True
    with k show ?thesis by simp
  next
    case neq: False
    have "pow2 (?e + 52) < pow2 (53 - int k)"
      using f64_exponent_bounds(2) [OF False neq] xk by linarith
    then show ?thesis by (simp add: pow2_less_iff)
  qed
  then have "x / pow2 ?e = of_int (m * 2 ^ nat (- int k - ?e))"
  proof -
    have "2 ^ k * pow2 ?e * 2 ^ nat (- int k - ?e) = 1"
      using ek pow2_add [of "int k" "?e"] pow2_add [of "int k + ?e" "- int k - ?e"]
      by (simp add: pow2_def [of "int k"] pow2_def [of "- int k - ?e"] pow2_def [of 0])
    then show ?thesis unfolding x by (simp add: field_simps)
  qed
  then have "of_int (round_half_even (x / pow2 ?e)) = x / pow2 ?e"
    by (simp only: round_half_even_int)
  with False show ?thesis by (simp add: f64_def Let_def)
qed (simp add: f64_def)

lemma round64_exact:
  assumes "x = of_int m / 2 ^ k" "\<bar>m\<bar> < 2 ^ 53" "k \<le> 1074"
  shows "round64 x = Fin x"
proof -
  have "\<bar>x\<bar> \<le> \<bar>of_int m\<bar>"
    unfolding assms(1) by (simp add: abs_divide divide_le_eq mult_le_cancel_left1)
  also have "\<dots> < 2 ^ 53" using of_int_abs_less [OF assms(2)] by simp
  also have "(2::rat) ^ 53 < 2 ^ 1024" by (rule power_strict_increasing) auto
  finally have "\<bar>x\<bar> < 2 ^ 1024" .
  then show ?thesis using f64_exact [OF assms] by (simp add: round64_def Let_def abs_less_iff)
qed

lemma fint_exact: "\<bar>n\<bar> < 2 ^ 53 \<Longrightarrow> fint n = Fin (of_int n)"
  using round64_exact [of "of_int n" n 0] by (simp add: fint_def)

text \<open>A test that the simplifier evaluates: a multiple of \<open>2 ^ - 30\<close> that is not too large.\<close>

lemma round64_grid:
  assumes "x * 2 ^ 30 = of_int \<lfloor>x * 2 ^ 30\<rfloor>" "\<bar>x\<bar> < 2 ^ 22"
  shows "round64 x = Fin x"
proof (rule round64_exact)
  show "x = of_int \<lfloor>x * 2 ^ 30\<rfloor> / 2 ^ 30" using assms(1) by (simp add: field_simps)
  have "\<bar>x * 2 ^ 30\<bar> < 2 ^ 52" using assms(2) by (simp add: abs_mult)
  then have "\<bar>of_int \<lfloor>x * 2 ^ 30\<rfloor> :: rat\<bar> < 2 ^ 52" using assms(1) by simp
  then show "\<bar>\<lfloor>x * 2 ^ 30\<rfloor>\<bar> < 2 ^ 53"
    using of_int_less_iff [of "\<bar>\<lfloor>x * 2 ^ 30\<rfloor>\<bar>" "2 ^ 52", where 'a = rat] by simp
qed simp

lemma round64_0 [simp]: "round64 0 = Fin 0"
  using round64_exact [of 0 0 0] by simp

lemma f64_in_range: "\<bar>f64 x\<bar> < 2 ^ 1024 \<Longrightarrow> round64 x = Fin (f64 x)"
  by (simp add: round64_def Let_def abs_less_iff)

subsection \<open>Printing\<close>

text \<open>
  The shortest decimal that rounds to a positive double: \<open>magnitude\<close> is the position \<open>k\<close> with
  \<open>10 ^ (k - 1) \<le> x < 10 ^ k\<close>; the candidates with \<open>n\<close> digits are the neighbours of \<open>x\<close>.
  The result is the list of digits, as a number, and the position of the decimal point.
\<close>

definition magnitude :: "rat \<Rightarrow> int" where
  "magnitude x = (if 1 \<le> x then int (length (dec \<lfloor>x\<rfloor>)) else 1 - (if x = 1 then 0 else int (length (dec (\<lceil>1 / x\<rceil> - 1)))))"

definition ten :: "int \<Rightarrow> rat" where
  "ten e = (if 0 \<le> e then 10 ^ nat e else 1 / 10 ^ nat (- e))"

definition candidate :: "rat \<Rightarrow> nat \<Rightarrow> int option" where
  "candidate x n =
     (let e = magnitude x - int n; lo = \<lfloor>x / ten e\<rfloor>; down = (f64 (of_int lo * ten e) = x);
          up = (f64 (of_int (lo + 1) * ten e) = x)
      in if down \<and> up then Some (round_half_even (x / ten e)) else if down then Some lo
         else if up then Some (lo + 1) else None)"

fun shortest_from :: "rat \<Rightarrow> nat list \<Rightarrow> int \<times> nat" where
  "shortest_from x [] = (0, 0)"
| "shortest_from x (n # ns) = (case candidate x n of Some d \<Rightarrow> (d, n) | None \<Rightarrow> shortest_from x ns)"

definition shortest :: "rat \<Rightarrow> string \<times> int" where
  "shortest x =
     (let (d, n) = shortest_from x [1..<18]; ds = dec d
      in (trim_right (CHR ''0'') ds, magnitude x + int (length ds) - int n))"

text \<open>\<open>strconv.FormatFloat(x, 'f', -1, 64)\<close>.\<close>

definition fixed_digits :: "string \<Rightarrow> int \<Rightarrow> string" where
  "fixed_digits ds dp =
     (let whole = (if 0 < dp then take (nat dp) ds @ replicate (nat dp - length ds) (CHR ''0'') else ''0'');
          frac = (if 0 < dp then drop (nat dp) ds else replicate (nat (- dp)) (CHR ''0'') @ ds)
      in if frac = [] then whole else whole @ ''.'' @ frac)"

definition exp_digits :: "string \<Rightarrow> int \<Rightarrow> string" where
  "exp_digits ds dp =
     (take 1 ds @ (if length ds \<le> 1 then [] else ''.'' @ drop 1 ds) @ ''e'' @
      (if dp - 1 < 0 then ''-'' else ''+'') @ pad0 2 \<bar>dp - 1\<bar>)"

definition with_sign :: "(string \<times> int \<Rightarrow> string) \<Rightarrow> float64 \<Rightarrow> string" where
  "with_sign f a =
     (case a of
        NaN \<Rightarrow> ''NaN'' | PosInf \<Rightarrow> ''+Inf'' | NegInf \<Rightarrow> ''-Inf''
      | Fin x \<Rightarrow> if x = 0 then ''0'' else if x < 0 then ''-'' @ f (shortest (- x)) else f (shortest x))"

definition format_f :: "float64 \<Rightarrow> string" where
  "format_f a = with_sign (\<lambda>(ds, dp). fixed_digits ds dp) a"

text \<open>The \<open>%v\<close> verb.\<close>

definition format_g :: "float64 \<Rightarrow> string" where
  "format_g a = with_sign (\<lambda>(ds, dp). if dp - 1 < - 4 \<or> 6 \<le> dp - 1 then exp_digits ds dp else fixed_digits ds dp) a"

subsection \<open>Machine integers and durations\<close>

text \<open>
  \<open>Time.Sub\<close> saturates at the range of \<open>int64\<close>; arithmetic on durations wraps around in it.
  \<open>tquot\<close> and \<open>trem\<close> are the integer division and remainder of Go, which round towards zero.
\<close>

definition sub_time :: "gtime \<Rightarrow> gtime \<Rightarrow> duration" where
  "sub_time t u = max (- (2 ^ 63)) (min (2 ^ 63 - 1) (t - u))"

definition wrap64 :: "int \<Rightarrow> int" where
  "wrap64 n = (n + 2 ^ 63) mod 2 ^ 64 - 2 ^ 63"

definition tquot :: "int \<Rightarrow> int \<Rightarrow> int" where
  "tquot a b = sgn a * sgn b * (\<bar>a\<bar> div \<bar>b\<bar>)"

definition trem :: "int \<Rightarrow> int \<Rightarrow> int" where
  "trem a b = a - b * tquot a b"

definition Minutes :: "duration \<Rightarrow> float64" where
  "Minutes d = fadd (fint (tquot d minute)) (fdiv (fint (trem d minute)) (Fin 60000000000))"

definition Seconds :: "duration \<Rightarrow> float64" where
  "Seconds d = fadd (fint (tquot d second)) (fdiv (fint (trem d second)) (Fin 1000000000))"

lemma wrap64_small: "\<bar>n\<bar> < 2 ^ 63 \<Longrightarrow> wrap64 n = n"
  unfolding wrap64_def by (subst mod_pos_pos_trivial) auto

lemma sub_time_small: "\<bar>t - u\<bar> < 2 ^ 63 \<Longrightarrow> sub_time t u = t - u"
  unfolding sub_time_def by auto

lemma tquot_nonneg: "0 \<le> a \<Longrightarrow> 0 < b \<Longrightarrow> tquot a b = a div b"
  by (cases "a = 0") (auto simp: tquot_def)

lemma tquot_exact: "0 < b \<Longrightarrow> tquot (a * b) b = a"
  by (simp add: tquot_def sgn_mult abs_mult sgn_mult_abs)

end
