(* ===== verification/Metric_Types.thy ===== *)
theory Metric_Types
  imports Go_Float
begin

text \<open>
  The data of the metrics package (\<open>internal/metrics/types.go\<close>, the labels of \<open>classify.go\<close> and
  the default aggregations of \<open>aggregation.go\<close>): the metadata of a metric, thresholds, the
  aggregation of its series, windows, the features of a signal, and the checks on them. A Go string
  type with named constants is a datatype with one constructor more, for every other string.
\<close>

subsection \<open>Kinds, directions, reducers\<close>

datatype MetricKind =
    KindLatency | KindThroughput | KindErrorRate | KindResourceUtilization | KindSaturation
  | KindAvailability | KindBusinessKPI | KindFreshness | KindUnknown | OtherKind string

fun kind_text :: "MetricKind \<Rightarrow> string" where
  "kind_text KindLatency = ''latency''"
| "kind_text KindThroughput = ''throughput''"
| "kind_text KindErrorRate = ''error_rate''"
| "kind_text KindResourceUtilization = ''resource_utilization''"
| "kind_text KindSaturation = ''saturation''"
| "kind_text KindAvailability = ''availability''"
| "kind_text KindBusinessKPI = ''business_kpi''"
| "kind_text KindFreshness = ''freshness''"
| "kind_text KindUnknown = ''unknown''"
| "kind_text (OtherKind s) = s"

definition validMetricKinds :: "MetricKind list" where
  "validMetricKinds = [KindLatency, KindThroughput, KindErrorRate, KindResourceUtilization, KindSaturation,
     KindAvailability, KindBusinessKPI, KindFreshness, KindUnknown]"

definition kind_IsValid :: "MetricKind \<Rightarrow> bool" where
  "kind_IsValid k = (k \<in> set validMetricKinds)"

definition ValidMetricKindsForInput :: "string list" where
  "ValidMetricKindsForInput = sort (map kind_text (filter (\<lambda>k. k \<noteq> KindUnknown) validMetricKinds))"

datatype BetterDirection = DirectionDown | DirectionUp | DirectionNone | OtherDirection string

fun direction_text :: "BetterDirection \<Rightarrow> string" where
  "direction_text DirectionDown = ''down''"
| "direction_text DirectionUp = ''up''"
| "direction_text DirectionNone = ''none''"
| "direction_text (OtherDirection s) = s"

definition direction_IsValid :: "BetterDirection \<Rightarrow> bool" where
  "direction_IsValid d = (d = DirectionDown \<or> d = DirectionUp \<or> d = DirectionNone)"

text \<open>The empty string is the value of an absent reducer.\<close>

datatype Reducer = ReducerMean | ReducerSum | ReducerMax | ReducerMin | OtherReducer string

fun reducer_text :: "Reducer \<Rightarrow> string" where
  "reducer_text ReducerMean = ''mean''"
| "reducer_text ReducerSum = ''sum''"
| "reducer_text ReducerMax = ''max''"
| "reducer_text ReducerMin = ''min''"
| "reducer_text (OtherReducer s) = s"

definition no_reducer :: Reducer where
  "no_reducer = OtherReducer []"

fun reducer_IsValid :: "Reducer \<Rightarrow> bool" where
  "reducer_IsValid (OtherReducer s) = False"
| "reducer_IsValid r = True"

subsection \<open>Aggregation\<close>

record AggregationSpec =
  ag_GroupBy :: "string list"
  ag_WithinGroup :: Reducer
  ag_AcrossGroups :: Reducer

definition MetricLabelsPrefix :: string where "MetricLabelsPrefix = ''metric.labels.''"
definition ResourceLabelsPrefix :: string where "ResourceLabelsPrefix = ''resource.labels.''"
definition MetadataSystemLabelsPrefix :: string where "MetadataSystemLabelsPrefix = ''metadata.system_labels.''"
definition MetadataUserLabelsPrefix :: string where "MetadataUserLabelsPrefix = ''metadata.user_labels.''"

definition groupByLabelPrefixes :: "string list" where
  "groupByLabelPrefixes = [MetricLabelsPrefix, ResourceLabelsPrefix, MetadataSystemLabelsPrefix, MetadataUserLabelsPrefix]"

fun split_label :: "string \<Rightarrow> string list \<Rightarrow> (string \<times> string) option" where
  "split_label key [] = None"
| "split_label key (p # ps) =
     (case cut_prefix key p of
        Some name \<Rightarrow> if name \<noteq> [] then Some (p, name) else split_label key ps
      | None \<Rightarrow> split_label key ps)"

definition SplitLabelKey :: "string \<Rightarrow> (string \<times> string) option" where
  "SplitLabelKey key = split_label key groupByLabelPrefixes"

definition hasKnownGroupByPrefix :: "string \<Rightarrow> bool" where
  "hasKnownGroupByPrefix key = (key = ''resource.type'' \<or> SplitLabelKey key \<noteq> None)"

definition IsTwoStage :: "AggregationSpec \<Rightarrow> bool" where
  "IsTwoStage a = (ag_GroupBy a \<noteq> [])"

definition ErrInvalidAggregationSpec :: go_error where
  "ErrInvalidAggregationSpec = Sentinel ''invalid aggregation spec''"

text \<open>\<open>errors.Join\<close> with its text, one line for each error, and \<open>fmt.Errorf("%w: %w", e, f)\<close>.\<close>

definition join_errors :: "go_error list \<Rightarrow> go_error option" where
  "join_errors es = (if es = [] then None else Some (Wrap (join [CHR 10] (map err_text es)) es))"

definition wrap2 :: "go_error \<Rightarrow> go_error \<Rightarrow> go_error" where
  "wrap2 e f = Wrap (err_text e @ '': '' @ err_text f) [e, f]"

definition prefix_error :: "string \<Rightarrow> go_error \<Rightarrow> go_error" where
  "prefix_error p e = Wrap (p @ err_text e) [e]"

definition em_dash :: string where "em_dash = [CHR 0xE2, CHR 0x80, CHR 0x94]"

definition group_key_error :: "nat \<times> string \<Rightarrow> go_error list" where
  "group_key_error ik =
     (case ik of (i, k) \<Rightarrow>
        if k = [] then [Sentinel (''group_by['' @ itoa (int i) @ ''] must be non-empty'')]
        else if \<not> hasKnownGroupByPrefix k then
          [Sentinel (''group_by['' @ itoa (int i) @ ''] = '' @ quote k @ '' must start with one of '' @
             join '' | '' groupByLabelPrefixes @ '' | resource.type (Cloud Monitoring qualifier '' @ em_dash @
             '' bare label names are silently dropped by the API)'')]
        else [])"

definition aggregation_errors :: "AggregationSpec \<Rightarrow> go_error list" where
  "aggregation_errors a =
     (if reducer_IsValid (ag_AcrossGroups a) then []
      else [Sentinel (''across_groups must be one of mean|sum|max|min, got '' @ quote (reducer_text (ag_AcrossGroups a)))]) @
     (if ag_GroupBy a = [] \<and> reducer_text (ag_WithinGroup a) \<noteq> [] then
        [Sentinel (''within_group '' @ quote (reducer_text (ag_WithinGroup a)) @ '' is set but group_by is empty '' @ em_dash @
           '' within_group is only meaningful in two-stage aggregation'')]
      else []) @
     (if ag_GroupBy a \<noteq> [] then
        (if reducer_IsValid (ag_WithinGroup a) then []
         else [Sentinel (''within_group must be one of mean|sum|max|min when group_by is set, got '' @
                 quote (reducer_text (ag_WithinGroup a)))]) @
        concat (map group_key_error (enumerate 0 (ag_GroupBy a)))
      else [])"

definition aggregation_Validate :: "AggregationSpec \<Rightarrow> go_error option" where
  "aggregation_Validate a = map_option (wrap2 ErrInvalidAggregationSpec) (join_errors (aggregation_errors a))"

text \<open>\<open>aggregation.go\<close>\<close>

definition single_stage :: "Reducer \<Rightarrow> AggregationSpec" where
  "single_stage r = \<lparr>ag_GroupBy = [], ag_WithinGroup = no_reducer, ag_AcrossGroups = r\<rparr>"

fun DefaultAggregation :: "MetricKind \<Rightarrow> AggregationSpec" where
  "DefaultAggregation KindBusinessKPI = single_stage ReducerSum"
| "DefaultAggregation KindThroughput = single_stage ReducerSum"
| "DefaultAggregation KindErrorRate = single_stage ReducerSum"
| "DefaultAggregation KindLatency = single_stage ReducerMean"
| "DefaultAggregation KindFreshness = single_stage ReducerMax"
| "DefaultAggregation KindSaturation = single_stage ReducerMax"
| "DefaultAggregation k = single_stage ReducerMean"

subsection \<open>Thresholds\<close>

record ClassificationThresholds =
  th_SignificantDeltaPct :: float64
  th_BreachRatioForRegress :: float64
  th_CVForNoisy :: float64
  th_SpikeZScore :: float64

definition thresholds_Validate :: "ClassificationThresholds \<Rightarrow> go_error option" where
  "thresholds_Validate t =
     (if \<not> finite64 (th_SignificantDeltaPct t) \<or> \<not> finite64 (th_BreachRatioForRegress t) \<or>
         \<not> finite64 (th_CVForNoisy t) \<or> \<not> finite64 (th_SpikeZScore t)
      then Some (Sentinel ''all thresholds must be finite'')
      else if fle (th_SignificantDeltaPct t) fzero
      then Some (Sentinel (''significant_delta_pct must be positive, got '' @ format_g (th_SignificantDeltaPct t)))
      else if flt (th_BreachRatioForRegress t) fzero \<or> flt (Fin 1) (th_BreachRatioForRegress t)
      then Some (Sentinel (''breach_ratio_for_regression must be in [0,1], got '' @ format_g (th_BreachRatioForRegress t)))
      else if fle (th_CVForNoisy t) fzero
      then Some (Sentinel (''cv_for_noisy must be positive, got '' @ format_g (th_CVForNoisy t)))
      else if fle (th_SpikeZScore t) fzero
      then Some (Sentinel (''spike_zscore must be positive, got '' @ format_g (th_SpikeZScore t)))
      else None)"

text \<open>Arguments in hundredths: the constants of the source as doubles.\<close>

definition thresholds :: "int \<Rightarrow> int \<Rightarrow> int \<Rightarrow> int \<Rightarrow> ClassificationThresholds" where
  "thresholds d b c z = \<lparr>th_SignificantDeltaPct = round64 (of_int d / 100), th_BreachRatioForRegress = round64 (of_int b / 100),
     th_CVForNoisy = round64 (of_int c / 100), th_SpikeZScore = round64 (of_int z / 100)\<rparr>"

fun DefaultThresholdsFor :: "MetricKind \<Rightarrow> ClassificationThresholds" where
  "DefaultThresholdsFor KindLatency = thresholds 1000 30 30 300"
| "DefaultThresholdsFor KindErrorRate = thresholds 500 20 50 250"
| "DefaultThresholdsFor KindThroughput = thresholds 1500 30 25 300"
| "DefaultThresholdsFor KindSaturation = thresholds 500 50 15 300"
| "DefaultThresholdsFor KindResourceUtilization = thresholds 1000 40 20 300"
| "DefaultThresholdsFor KindAvailability = thresholds 500 20 30 300"
| "DefaultThresholdsFor KindBusinessKPI = thresholds 1000 30 30 300"
| "DefaultThresholdsFor KindFreshness = thresholds 1500 20 50 300"
| "DefaultThresholdsFor k = thresholds 1000 30 30 300"

subsection \<open>Metadata of a metric\<close>

record MetricMeta =
  mm_Kind :: MetricKind
  mm_Unit :: string
  mm_BetterDirection :: BetterDirection
  mm_SLOThreshold :: "float64 option"
  mm_SaturationCap :: "float64 option"
  mm_RelatedMetrics :: "string list"
  mm_Keywords :: "string list"
  mm_Thresholds :: "ClassificationThresholds option"
  mm_Aggregation :: "AggregationSpec option"
  mm_AutoDetected :: bool

definition zero_MetricMeta :: MetricMeta where
  "zero_MetricMeta = \<lparr>mm_Kind = OtherKind [], mm_Unit = [], mm_BetterDirection = OtherDirection [], mm_SLOThreshold = None,
     mm_SaturationCap = None, mm_RelatedMetrics = [], mm_Keywords = [], mm_Thresholds = None, mm_Aggregation = None,
     mm_AutoDetected = False\<rparr>"

definition EffectiveThresholds :: "MetricMeta \<Rightarrow> ClassificationThresholds" where
  "EffectiveThresholds m =
     (case mm_Thresholds m of
        Some t \<Rightarrow> if thresholds_Validate t = None then t else DefaultThresholdsFor (mm_Kind m)
      | None \<Rightarrow> DefaultThresholdsFor (mm_Kind m))"

definition ResolveAggregation :: "MetricMeta \<Rightarrow> AggregationSpec" where
  "ResolveAggregation m = (case mm_Aggregation m of Some a \<Rightarrow> a | None \<Rightarrow> DefaultAggregation (mm_Kind m))"

definition opt_error :: "bool \<Rightarrow> string \<Rightarrow> go_error list" where
  "opt_error c msg = (if c then [Sentinel msg] else [])"

definition meta_Validate :: "MetricMeta \<Rightarrow> string \<Rightarrow> go_error option" where
  "meta_Validate m name =
     (let subject = ''metric '' @ quote name @ '': '' in join_errors
       (opt_error (\<not> kind_IsValid (mm_Kind m)) (subject @ ''invalid kind '' @ quote (kind_text (mm_Kind m))) @
        opt_error (\<not> direction_IsValid (mm_BetterDirection m))
          (subject @ ''invalid better_direction '' @ quote (direction_text (mm_BetterDirection m))) @
        opt_error (case mm_SLOThreshold m of Some x \<Rightarrow> \<not> finite64 x \<or> flt x fzero | None \<Rightarrow> False)
          (subject @ ''slo_threshold must be finite and non-negative'') @
        opt_error (case mm_SaturationCap m of Some x \<Rightarrow> \<not> finite64 x \<or> fle x fzero | None \<Rightarrow> False)
          (subject @ ''saturation_cap must be finite and positive'') @
        (case mm_Thresholds m of
           Some t \<Rightarrow> (case thresholds_Validate t of Some e \<Rightarrow> [prefix_error (subject @ ''thresholds: '') e] | None \<Rightarrow> [])
         | None \<Rightarrow> []) @
        (case mm_Aggregation m of
           Some a \<Rightarrow> (case aggregation_Validate a of Some e \<Rightarrow> [prefix_error (subject @ ''aggregation: '') e] | None \<Rightarrow> [])
         | None \<Rightarrow> [])))"

subsection \<open>Points, windows, features\<close>

record Point =
  pt_Timestamp :: gtime
  pt_Value :: float64

record Window =
  w_Start :: gtime
  w_End :: gtime

definition window_known :: "Window \<Rightarrow> bool" where
  "window_known w = (w_Start w \<noteq> time_zero \<and> w_End w \<noteq> time_zero \<and> w_Start w < w_End w)"

datatype Confidence = ConfidenceHigh | ConfidenceMedium | ConfidenceLow
datatype TrendDirection = TrendFlat | TrendUp | TrendDown

datatype Classification =
    ClassStable | ClassNoisy | ClassSpike | ClassStepRegression | ClassSustainedRegression | ClassRecovery
  | ClassSaturation | ClassImprovement | ClassFlapping | ClassInsufficientData | OtherClass string

definition TrendFlatBand :: float64 where "TrendFlatBand = round64 (2 / 100)"
definition TrendStrongBand :: float64 where "TrendStrongBand = round64 (5 / 100)"

record DataQuality =
  dq_ExpectedPoints :: int
  dq_ActualPoints :: nat
  dq_GapCount :: nat
  dq_MaxGapSeconds :: int
  dq_NonFinitePoints :: int
  dq_Reliable :: bool
  dq_WindowChecked :: bool

definition zero_DataQuality :: DataQuality where
  "zero_DataQuality = \<lparr>dq_ExpectedPoints = 0, dq_ActualPoints = 0, dq_GapCount = 0, dq_MaxGapSeconds = 0,
     dq_NonFinitePoints = 0, dq_Reliable = False, dq_WindowChecked = False\<rparr>"

text \<open>In the zero value the trend, the classification and the confidence are empty strings: \<open>None\<close> here.\<close>

record SignalFeatures =
  sf_Current :: float64
  sf_Mean :: float64
  sf_P50 :: float64
  sf_P95 :: float64
  sf_P99 :: float64
  sf_Min :: float64
  sf_Max :: float64
  sf_Stddev :: float64
  sf_CV :: float64
  sf_TailRatio :: float64
  sf_Baseline :: float64
  sf_BaselineStddev :: float64
  sf_BaselineReliable :: bool
  sf_BaselinePointCount :: nat
  sf_DeltaAbs :: float64
  sf_DeltaPct :: float64
  sf_Trend :: "TrendDirection option"
  sf_SlopePerMin :: float64
  sf_TrendScore :: float64
  sf_StepChangeDetected :: bool
  sf_StepChangePct :: float64
  sf_StepChangeAt :: "gtime option"
  sf_MaxZScore :: float64
  sf_SpikeCount :: nat
  sf_SpikeRatio :: float64
  sf_SLOBreach :: bool
  sf_BreachRatio :: float64
  sf_BreachDurationSeconds :: int
  sf_CurrentBreachStreakSeconds :: int
  sf_BreachTransitions :: nat
  sf_SaturationDetected :: bool
  sf_DataQuality :: DataQuality
  sf_Classification :: "Classification option"
  sf_Confidence :: "Confidence option"

definition zero_SignalFeatures :: SignalFeatures where
  "zero_SignalFeatures = \<lparr>sf_Current = fzero, sf_Mean = fzero, sf_P50 = fzero, sf_P95 = fzero, sf_P99 = fzero,
     sf_Min = fzero, sf_Max = fzero, sf_Stddev = fzero, sf_CV = fzero, sf_TailRatio = fzero, sf_Baseline = fzero,
     sf_BaselineStddev = fzero, sf_BaselineReliable = False, sf_BaselinePointCount = 0, sf_DeltaAbs = fzero,
     sf_DeltaPct = fzero, sf_Trend = None, sf_SlopePerMin = fzero, sf_TrendScore = fzero, sf_StepChangeDetected = False,
     sf_StepChangePct = fzero, sf_StepChangeAt = None, sf_MaxZScore = fzero, sf_SpikeCount = 0, sf_SpikeRatio = fzero,
     sf_SLOBreach = False, sf_BreachRatio = fzero, sf_BreachDurationSeconds = 0, sf_CurrentBreachStreakSeconds = 0,
     sf_BreachTransitions = 0, sf_SaturationDetected = False, sf_DataQuality = zero_DataQuality,
     sf_Classification = None, sf_Confidence = None\<rparr>"

end
