(* ===== verification/Metric_Classify.thy ===== *)
theory Metric_Classify
  imports Metric_Types
begin

text \<open>
  The decision tree (\<open>internal/metrics/classify.go\<close>): severity and kind of a classification, the
  tree over the features of a signal, and the downgrade of verdicts the data cannot support.
\<close>

subsection \<open>Classifications\<close>

fun Severity :: "Classification \<Rightarrow> int" where
  "Severity ClassImprovement = - 1"
| "Severity ClassStable = 0"
| "Severity ClassInsufficientData = 0"
| "Severity ClassNoisy = 1"
| "Severity ClassRecovery = 2"
| "Severity ClassSpike = 3"
| "Severity ClassFlapping = 4"
| "Severity ClassStepRegression = 5"
| "Severity ClassSustainedRegression = 6"
| "Severity ClassSaturation = 7"
| "Severity (OtherClass s) = 6"

definition IsAnomalous :: "Classification \<Rightarrow> bool" where
  "IsAnomalous c = (c \<noteq> ClassStable \<and> c \<noteq> ClassNoisy)"

definition isDeltaBased :: "Classification \<Rightarrow> bool" where
  "isDeltaBased c =
     (c \<in> {ClassSpike, ClassStepRegression, ClassSustainedRegression, ClassRecovery, ClassImprovement})"

subsection \<open>The decision tree\<close>

definition flappingTransitionRate :: float64 where "flappingTransitionRate = round64 (15 / 100)"
definition flappingBreachRatioMin :: float64 where "flappingBreachRatioMin = round64 (15 / 100)"
definition flappingBreachRatioMax :: float64 where "flappingBreachRatioMax = round64 (85 / 100)"
definition spikeMaxRatio :: float64 where "spikeMaxRatio = round64 (15 / 100)"
definition spikeMaxAbsDeltaPct :: float64 where "spikeMaxAbsDeltaPct = Fin 20"
definition lowBreachRatio :: float64 where "lowBreachRatio = round64 (2 / 10)"
definition stepChangeMaxCV :: float64 where "stepChangeMaxCV = round64 (35 / 100)"
definition significantNoiseCV :: float64 where "significantNoiseCV = round64 (4 / 10)"

fun isDegrading :: "float64 \<Rightarrow> BetterDirection \<Rightarrow> bool" where
  "isDegrading d DirectionDown = flt fzero d"
| "isDegrading d DirectionUp = flt d fzero"
| "isDegrading d _ = False"

definition is_flapping :: "SignalFeatures \<Rightarrow> MetricMeta \<Rightarrow> bool" where
  "is_flapping f meta =
     (mm_SLOThreshold meta \<noteq> None \<and> 10 \<le> dq_ActualPoints (sf_DataQuality f) \<and>
      (let rate = fdiv (fint (int (sf_BreachTransitions f))) (fint (int (dq_ActualPoints (sf_DataQuality f))))
       in fle flappingTransitionRate rate \<and> fle flappingBreachRatioMin (sf_BreachRatio f) \<and>
          fle (sf_BreachRatio f) flappingBreachRatioMax))"

definition returning_to_baseline :: "SignalFeatures \<Rightarrow> bool" where
  "returning_to_baseline f =
     ((flt fzero (sf_DeltaPct f) \<and> flt (sf_TrendScore f) (fneg TrendFlatBand)) \<or>
      (flt (sf_DeltaPct f) fzero \<and> flt TrendFlatBand (sf_TrendScore f)))"

definition favorable_trend :: "SignalFeatures \<Rightarrow> MetricMeta \<Rightarrow> bool" where
  "favorable_trend f meta =
     ((mm_BetterDirection meta = DirectionDown \<and> flt (sf_TrendScore f) (fneg TrendStrongBand)) \<or>
      (mm_BetterDirection meta = DirectionUp \<and> flt TrendStrongBand (sf_TrendScore f)))"

definition classifyCore ::
  "SignalFeatures \<Rightarrow> MetricMeta \<Rightarrow> ClassificationThresholds \<Rightarrow> float64 \<Rightarrow> bool \<Rightarrow> Classification" where
  "classifyCore f meta thr absDelta degrading =
     (if sf_SaturationDetected f then ClassSaturation
      else if fle (th_SpikeZScore thr) (sf_MaxZScore f) \<and> flt (sf_SpikeRatio f) spikeMaxRatio \<and>
              flt absDelta spikeMaxAbsDeltaPct then ClassSpike
      else if is_flapping f meta then ClassFlapping
      else if flt absDelta (th_SignificantDeltaPct thr) then
        (if flt (th_CVForNoisy thr) (sf_CV f) then ClassNoisy else ClassStable)
      else if mm_SLOThreshold meta \<noteq> None \<and> flt (sf_BreachRatio f) lowBreachRatio \<and> returning_to_baseline f
      then ClassRecovery
      else if sf_StepChangeDetected f \<and> flt (sf_CV f) stepChangeMaxCV \<and>
              flt (th_BreachRatioForRegress thr) (sf_BreachRatio f) then ClassStepRegression
      else if degrading \<and> flt (th_BreachRatioForRegress thr) (sf_BreachRatio f) \<and>
              flt TrendStrongBand (fabs (sf_TrendScore f)) then ClassSustainedRegression
      else if \<not> degrading \<and> mm_BetterDirection meta \<noteq> DirectionNone \<and> favorable_trend f meta \<and>
              flt (sf_BreachRatio f) lowBreachRatio then ClassImprovement
      else if flt significantNoiseCV (sf_CV f) then ClassNoisy
      else if degrading then ClassStepRegression
      else ClassStable)"

definition applyReliabilityDowngrade :: "Classification \<Rightarrow> SignalFeatures \<Rightarrow> Classification" where
  "applyReliabilityDowngrade c f =
     (if c = ClassSaturation then c
      else if \<not> dq_Reliable (sf_DataQuality f) \<and> (isDeltaBased c \<or> c = ClassFlapping) then ClassInsufficientData
      else if \<not> sf_BaselineReliable f \<and> isDeltaBased c then ClassInsufficientData
      else c)"

definition Classify :: "SignalFeatures \<Rightarrow> MetricMeta \<Rightarrow> Classification" where
  "Classify f meta =
     applyReliabilityDowngrade
       (classifyCore f meta (EffectiveThresholds meta) (fabs (sf_DeltaPct f))
          (isDegrading (sf_DeltaPct f) (mm_BetterDirection meta))) f"

subsection \<open>What a verdict implies\<close>

lemma Classify_cases:
  "Classify f meta = c \<Longrightarrow> c \<noteq> ClassInsufficientData \<Longrightarrow>
   classifyCore f meta (EffectiveThresholds meta) (fabs (sf_DeltaPct f))
     (isDegrading (sf_DeltaPct f) (mm_BetterDirection meta)) = c"
  by (auto simp: Classify_def applyReliabilityDowngrade_def split: if_splits)

lemma core_not_insufficient: "classifyCore f meta thr a d \<noteq> ClassInsufficientData"
  by (simp add: classifyCore_def)

lemma Classify_delta_reliable:
  "isDeltaBased (Classify f meta) \<Longrightarrow> dq_Reliable (sf_DataQuality f) \<and> sf_BaselineReliable f"
  by (auto simp: Classify_def applyReliabilityDowngrade_def isDeltaBased_def split: if_splits)

lemma Classify_flapping_reliable:
  "Classify f meta = ClassFlapping \<Longrightarrow> dq_Reliable (sf_DataQuality f) \<and> is_flapping f meta"
proof -
  assume a: "Classify f meta = ClassFlapping"
  then have "dq_Reliable (sf_DataQuality f)"
    by (auto simp: Classify_def applyReliabilityDowngrade_def split: if_splits)
  moreover from Classify_cases [OF a] have "is_flapping f meta"
    by (auto simp: classifyCore_def split: if_splits)
  ultimately show ?thesis by blast
qed

lemma core_saturation: "classifyCore f meta thr a d = ClassSaturation \<longleftrightarrow> sf_SaturationDetected f"
  by (simp add: classifyCore_def)

lemma Classify_saturation: "Classify f meta = ClassSaturation \<longleftrightarrow> sf_SaturationDetected f"
  using core_saturation [of f meta "EffectiveThresholds meta" "fabs (sf_DeltaPct f)"]
  by (auto simp: Classify_def applyReliabilityDowngrade_def)

lemma isDegrading_sign: "isDegrading d dir \<Longrightarrow> d \<noteq> fzero \<and> d \<noteq> NaN \<and> dir \<in> {DirectionDown, DirectionUp}"
  by (cases dir; cases d) (auto simp: fzero_def)

lemma core_sustained: "classifyCore f meta thr a d = ClassSustainedRegression \<Longrightarrow> d"
  by (auto simp: classifyCore_def split: if_splits)

lemma core_improvement:
  "classifyCore f meta thr a d = ClassImprovement \<Longrightarrow>
   \<not> d \<and> favorable_trend f meta \<and> flt (sf_BreachRatio f) lowBreachRatio"
  by (auto simp: classifyCore_def split: if_splits)

lemma core_recovery:
  "classifyCore f meta thr a d = ClassRecovery \<Longrightarrow>
   mm_SLOThreshold meta \<noteq> None \<and> flt (sf_BreachRatio f) lowBreachRatio \<and> returning_to_baseline f \<and>
   \<not> flt a (th_SignificantDeltaPct thr)"
  by (auto simp: classifyCore_def split: if_splits)

end
