(* ===== verification/Metric_Process.thy ===== *)
theory Metric_Process
  imports Metric_Classify
begin

text \<open>
  The signal processor (\<open>internal/metrics/processor.go\<close>) and the baselines (\<open>baseline.go\<close>): from the
  points of a window and a baseline to the features of the signal. A function that fills fields of
  the features through a pointer returns the updated record. Series are shorter than \<open>2 ^ 53\<close>, so
  an index computed in floating point is in range; points with one timestamp keep their order.
\<close>

definition DefaultStepSeconds :: int where "DefaultStepSeconds = 60"
definition minPointsForSpikeDetection :: nat where "minPointsForSpikeDetection = 10"
definition minBaselinePoints :: nat where "minBaselinePoints = 7"
definition minCurrentWindowPoints :: nat where "minCurrentWindowPoints = 3"
definition windowEdgeGapSteps :: int where "windowEdgeGapSteps = 3"
definition nearZeroEpsilon :: float64 where "nearZeroEpsilon = round64 (1 / 1000000)"
definition saturationApproachFraction :: float64 where "saturationApproachFraction = round64 (95 / 100)"

subsection \<open>Means and percentiles\<close>

definition extractValues :: "Point list \<Rightarrow> float64 list" where
  "extractValues ps = map pt_Value ps"

definition fsum :: "float64 list \<Rightarrow> float64" where
  "fsum vs = foldl fadd fzero vs"

definition mean :: "float64 list \<Rightarrow> float64" where
  "mean vs = (if vs = [] then fzero else fdiv (fsum vs) (fint (int (length vs))))"

definition square :: "float64 \<Rightarrow> float64" where
  "square d = fmul d d"

definition stddev :: "float64 list \<Rightarrow> float64 \<Rightarrow> float64" where
  "stddev vs m =
     (if length vs < 2 then fzero
      else fsqrt (fdiv (foldl (\<lambda>s v. fadd s (square (fsub v m))) fzero vs) (fint (int (length vs)))))"

definition sort_values :: "float64 list \<Rightarrow> float64 list" where
  "sort_values vs = sort_less cmp_less vs"

definition percentile :: "float64 list \<Rightarrow> float64 \<Rightarrow> float64" where
  "percentile vs p =
     (if vs = [] then fzero
      else if length vs = 1 then vs ! 0
      else (let idx = fmul p (fint (int (length vs) - 1)); lower = to_int (ffloor idx); upper = to_int (fceil idx)
            in if lower = upper then vs ! nat lower
               else (let frac = fsub idx (fint lower)
                     in fadd (vs ! nat lower) (fmul (fsub (vs ! nat upper) (vs ! nat lower)) frac))))"

definition median :: "float64 list \<Rightarrow> float64" where
  "median vs = percentile (sort_values vs) (Fin (1 / 2))"

subsection \<open>Baselines\<close>

record BaselineStats =
  bs_Mean :: float64
  bs_Stddev :: float64
  bs_PointCount :: nat
  bs_Reliable :: bool

definition isBaselineReliable :: "nat \<Rightarrow> int \<Rightarrow> bool" where
  "isBaselineReliable actual expected =
     (minBaselinePoints \<le> actual \<and> \<not> (0 < expected \<and> int actual < expected div 2))"

definition ComputeBaselineStats :: "Point list \<Rightarrow> int \<Rightarrow> BaselineStats" where
  "ComputeBaselineStats ps expected =
     (if ps = [] then \<lparr>bs_Mean = fzero, bs_Stddev = fzero, bs_PointCount = 0, bs_Reliable = False\<rparr>
      else (let vs = extractValues ps; m = mean vs
            in \<lparr>bs_Mean = m, bs_Stddev = stddev vs m, bs_PointCount = length vs,
                bs_Reliable = isBaselineReliable (length vs) expected\<rparr>))"

definition bucket_means :: "Point list list \<Rightarrow> float64 list" where
  "bucket_means bs = map (\<lambda>b. mean (extractValues b)) bs"

definition robust_stddev :: "Point list list \<Rightarrow> float64 \<Rightarrow> float64" where
  "robust_stddev bs robust =
     (let mad = median (map (\<lambda>m. fabs (fsub m robust)) (bucket_means bs))
      in if flt fzero mad then fmul (round64 (14826 / 10000)) mad
         else mean (map (\<lambda>b. stddev (extractValues b) (mean (extractValues b))) bs))"

definition ComputeRobustBaselineStats :: "Point list list \<Rightarrow> int \<Rightarrow> BaselineStats" where
  "ComputeRobustBaselineStats buckets perBucket =
     (let nonEmpty = filter (\<lambda>b. b \<noteq> []) buckets; merged = concat nonEmpty; expected = perBucket * int (length buckets)
      in if length nonEmpty < 2 then ComputeBaselineStats merged expected
         else (let m = median (bucket_means nonEmpty)
               in \<lparr>bs_Mean = m, bs_Stddev = robust_stddev nonEmpty m, bs_PointCount = length merged,
                   bs_Reliable = isBaselineReliable (length merged) expected\<rparr>))"

definition delta_pct :: "float64 \<Rightarrow> float64 \<Rightarrow> float64 \<Rightarrow> float64" where
  "delta_pct old base m =
     (let d = fsub m base in
      if flt nearZeroEpsilon (fabs base) then fmul (fdiv d (fabs base)) (Fin 100)
      else if \<not> feq m fzero then fmul (fdiv d (fabs m)) (Fin 100)
      else old)"

definition applyBaselineStats :: "SignalFeatures \<Rightarrow> BaselineStats \<Rightarrow> SignalFeatures" where
  "applyBaselineStats f b =
     (let f = f\<lparr>sf_BaselinePointCount := bs_PointCount b\<rparr> in
      if bs_PointCount b = 0 then f
      else f\<lparr>sf_Baseline := bs_Mean b, sf_BaselineStddev := bs_Stddev b, sf_BaselineReliable := bs_Reliable b,
             sf_DeltaAbs := fsub (sf_Mean f) (bs_Mean b),
             sf_DeltaPct := delta_pct (sf_DeltaPct f) (bs_Mean b) (sf_Mean f)\<rparr>)"

subsection \<open>Trend\<close>

definition minutes_since :: "gtime \<Rightarrow> Point \<Rightarrow> float64" where
  "minutes_since t0 p = Minutes (sub_time (pt_Timestamp p) t0)"

text \<open>The running sums of \<open>x\<close>, \<open>y\<close>, \<open>x y\<close> and \<open>x x\<close>.\<close>

definition trend_sums :: "gtime \<Rightarrow> Point list \<Rightarrow> float64 \<times> float64 \<times> float64 \<times> float64" where
  "trend_sums t0 ps =
     foldl (\<lambda>(sx, sy, sxy, sxx) p.
       (let x = minutes_since t0 p
        in (fadd sx x, fadd sy (pt_Value p), fadd sxy (fmul x (pt_Value p)), fadd sxx (fmul x x))))
       (fzero, fzero, fzero, fzero) ps"

definition trend_of :: "float64 \<Rightarrow> TrendDirection" where
  "trend_of score =
     (if flt TrendFlatBand score then TrendUp else if flt score (fneg TrendFlatBand) then TrendDown else TrendFlat)"

definition trend_score :: "SignalFeatures \<Rightarrow> float64 \<Rightarrow> float64" where
  "trend_score f drift =
     (let norm = (if fle (fabs (sf_Baseline f)) nearZeroEpsilon then fabs (sf_Mean f) else fabs (sf_Baseline f))
      in if flt nearZeroEpsilon norm then fdiv drift norm else sf_TrendScore f)"

definition computeTrend :: "SignalFeatures \<Rightarrow> Point list \<Rightarrow> SignalFeatures" where
  "computeTrend f ps =
     (if length ps < 3 then f\<lparr>sf_Trend := Some TrendFlat\<rparr>
      else (let t0 = pt_Timestamp (hd ps); n = fint (int (length ps)); (sx, sy, sxy, sxx) = trend_sums t0 ps;
                denom = fsub (fmul n sxx) (fmul sx sx)
            in if feq denom fzero then f\<lparr>sf_Trend := Some TrendFlat\<rparr>
               else (let slope = fdiv (fsub (fmul n sxy) (fmul sx sy)) denom;
                         score = trend_score f (fmul slope (minutes_since t0 (last ps)))
                     in f\<lparr>sf_SlopePerMin := slope, sf_TrendScore := score, sf_Trend := Some (trend_of score)\<rparr>)))"

subsection \<open>Step changes\<close>

text \<open>The first point in the middle third that has crossed the middle between the levels.\<close>

definition crossed :: "float64 \<Rightarrow> float64 \<Rightarrow> float64 \<Rightarrow> Point \<Rightarrow> bool" where
  "crossed before after mid p =
     ((flt before after \<and> fle mid (pt_Value p)) \<or> (flt after before \<and> fle (pt_Value p) mid))"

definition step_pct :: "float64 \<Rightarrow> float64 \<Rightarrow> float64 option" where
  "step_pct before after =
     (let pct = (\<lambda>denom. fmul (fdiv (fsub after before) denom) (Fin 100)) in
      if flt nearZeroEpsilon (fabs before) then Some (pct (fabs before))
      else if flt nearZeroEpsilon (fabs after) then Some (pct (fabs after))
      else None)"

definition computeStepChange :: "SignalFeatures \<Rightarrow> Point list \<Rightarrow> ClassificationThresholds \<Rightarrow> SignalFeatures" where
  "computeStepChange f ps thr =
     (let n = length ps; third = n div 3; before = mean (extractValues (take third ps));
          after = mean (extractValues (drop (n - third) ps))
      in if n < 6 then f
         else (case step_pct before after of
                 None \<Rightarrow> f
               | Some pct \<Rightarrow>
                   if flt (fmul (Fin 2) (th_SignificantDeltaPct thr)) (fabs pct)
                   then f\<lparr>sf_StepChangePct := pct, sf_StepChangeDetected := True,
                          sf_StepChangeAt :=
                            (case find (crossed before after (fdiv (fadd before after) (Fin 2)))
                                    (take (n - third - third) (drop third ps)) of
                               Some p \<Rightarrow> Some (pt_Timestamp p) | None \<Rightarrow> sf_StepChangeAt f)\<rparr>
                   else f\<lparr>sf_StepChangePct := pct\<rparr>))"

subsection \<open>Spikes\<close>

definition zscore :: "SignalFeatures \<Rightarrow> float64 \<Rightarrow> float64" where
  "zscore f v = fdiv (fabs (fsub v (sf_Mean f))) (sf_Stddev f)"

definition see_spike :: "float64 \<Rightarrow> SignalFeatures \<Rightarrow> float64 \<Rightarrow> SignalFeatures" where
  "see_spike spikeZ f v =
     (let z = zscore f v;
          f = (if flt (sf_MaxZScore f) z then f\<lparr>sf_MaxZScore := z\<rparr> else f)
      in if fle spikeZ z then f\<lparr>sf_SpikeCount := sf_SpikeCount f + 1\<rparr> else f)"

definition computeSpikes :: "SignalFeatures \<Rightarrow> float64 list \<Rightarrow> float64 \<Rightarrow> SignalFeatures" where
  "computeSpikes f vs spikeZ =
     (if length vs < minPointsForSpikeDetection \<or> feq (sf_Min f) (sf_Max f) \<or> feq (sf_Stddev f) fzero then f
      else (let f = foldl (see_spike spikeZ) f vs
            in f\<lparr>sf_SpikeRatio := fdiv (fint (int (sf_SpikeCount f))) (fint (int (length vs)))\<rparr>))"

subsection \<open>The service level objective\<close>

fun isBreach :: "float64 \<Rightarrow> float64 \<Rightarrow> BetterDirection \<Rightarrow> bool" where
  "isBreach v threshold DirectionUp = flt v threshold"
| "isBreach v threshold _ = flt threshold v"

record breach_count =
  bc_breachCount :: nat
  bc_breachDuration :: duration
  bc_currentStreak :: duration
  bc_streakBroken :: bool

definition see_breach :: "duration \<Rightarrow> bool \<Rightarrow> breach_count \<Rightarrow> breach_count" where
  "see_breach step breached a =
     (if breached then
        a\<lparr>bc_breachCount := bc_breachCount a + 1, bc_breachDuration := wrap64 (bc_breachDuration a + step),
          bc_currentStreak := (if bc_streakBroken a then bc_currentStreak a else wrap64 (bc_currentStreak a + step))\<rparr>
      else a\<lparr>bc_streakBroken := True\<rparr>)"

text \<open>The last point comes first: the loop runs backwards.\<close>

definition breach_loop :: "duration \<Rightarrow> bool list \<Rightarrow> breach_count" where
  "breach_loop step bs =
     foldr (see_breach step) bs
       \<lparr>bc_breachCount = 0, bc_breachDuration = 0, bc_currentStreak = 0, bc_streakBroken = False\<rparr>"

text \<open>The forward pass: the previous state, if there is one, and the transitions so far.\<close>

definition see_transition :: "bool option \<times> nat \<Rightarrow> bool \<Rightarrow> bool option \<times> nat" where
  "see_transition a st = (case a of (prev, n) \<Rightarrow> (Some st, if prev \<noteq> None \<and> prev \<noteq> Some st then n + 1 else n))"

definition computeSLOBreach :: "SignalFeatures \<Rightarrow> Point list \<Rightarrow> MetricMeta \<Rightarrow> int \<Rightarrow> SignalFeatures" where
  "computeSLOBreach f ps meta stepSeconds =
     (case mm_SLOThreshold meta of
        None \<Rightarrow> f
      | Some threshold \<Rightarrow>
          (let step = wrap64 (stepSeconds * second);
               bs = map (\<lambda>p. isBreach (pt_Value p) threshold (mm_BetterDirection meta)) ps;
               a = breach_loop step bs
           in f\<lparr>sf_SLOBreach := 0 < bc_breachCount a,
                sf_BreachRatio := fdiv (fint (int (bc_breachCount a))) (fint (int (length ps))),
                sf_BreachDurationSeconds := to_int (Seconds (bc_breachDuration a)),
                sf_CurrentBreachStreakSeconds := to_int (Seconds (bc_currentStreak a)),
                sf_BreachTransitions := snd (foldl see_transition (None, 0) bs)\<rparr>))"

subsection \<open>Saturation\<close>

definition tail_mean :: "float64 list \<Rightarrow> float64" where
  "tail_mean vs = mean (drop (length vs - max (length vs div 10) 1) vs)"

definition computeSaturation :: "SignalFeatures \<Rightarrow> float64 list \<Rightarrow> MetricMeta \<Rightarrow> SignalFeatures" where
  "computeSaturation f vs meta =
     (case mm_SaturationCap meta of
        None \<Rightarrow> f
      | Some satCap \<Rightarrow>
          if vs = [] then f
          else f\<lparr>sf_SaturationDetected := fle (fmul saturationApproachFraction satCap) (tail_mean vs)\<rparr>)"

subsection \<open>Data quality and confidence\<close>

text \<open>The number of gaps longer than their threshold and the longest of them.\<close>

definition consider_gap :: "nat \<times> duration \<Rightarrow> duration \<Rightarrow> duration \<Rightarrow> nat \<times> duration" where
  "consider_gap a gap threshold =
     (case a of (n, longest) \<Rightarrow> if threshold < gap then (n + 1, if longest < gap then gap else longest) else (n, longest))"

fun point_gaps :: "gtime list \<Rightarrow> duration list" where
  "point_gaps (t # u # ts) = sub_time u t # point_gaps (u # ts)"
| "point_gaps ts = []"

definition edge_gaps :: "gtime list \<Rightarrow> Window \<Rightarrow> duration list" where
  "edge_gaps ts w = (if window_known w then [sub_time (hd ts) (w_Start w), sub_time (w_End w) (last ts)] else [])"

definition window_gaps :: "gtime list \<Rightarrow> duration \<Rightarrow> Window \<Rightarrow> nat \<times> duration" where
  "window_gaps ts step w =
     foldl (\<lambda>a gap. consider_gap a gap (wrap64 (2 * step)))
       (foldl (\<lambda>a gap. consider_gap a gap (wrap64 (windowEdgeGapSteps * step))) (0, 0) (edge_gaps ts w))
       (point_gaps ts)"

definition expected_points :: "gtime list \<Rightarrow> duration \<Rightarrow> Window \<Rightarrow> int" where
  "expected_points ts step w =
     (if window_known w then tquot (sub_time (w_End w) (w_Start w)) step + 1
      else tquot (sub_time (last ts) (hd ts)) step + 1)"

definition computeDataQuality :: "Point list \<Rightarrow> int \<Rightarrow> Window \<Rightarrow> DataQuality" where
  "computeDataQuality ps stepSeconds w =
     (if ps = [] then zero_DataQuality
      else (let step = wrap64 (stepSeconds * second); ts = map pt_Timestamp ps; expected = expected_points ts step w;
                (gaps, longest) = window_gaps ts step w
            in \<lparr>dq_ExpectedPoints = expected, dq_ActualPoints = length ps, dq_GapCount = gaps,
                dq_MaxGapSeconds = to_int (Seconds longest), dq_NonFinitePoints = 0,
                dq_Reliable = (minCurrentWindowPoints \<le> length ps \<and> tquot expected 2 \<le> int (length ps) \<and> gaps \<le> 3),
                dq_WindowChecked = window_known w\<rparr>))"

definition deriveConfidence :: "SignalFeatures \<Rightarrow> Confidence" where
  "deriveConfidence f =
     (if sf_BaselinePointCount f = 0 then ConfidenceLow
      else (let dq = dq_Reliable (sf_DataQuality f); base = sf_BaselineReliable f
            in if dq \<and> base then ConfidenceHigh else if dq \<or> base then ConfidenceMedium else ConfidenceLow))"

subsection \<open>The whole signal\<close>

definition basic_features :: "float64 list \<Rightarrow> MetricMeta \<Rightarrow> SignalFeatures" where
  "basic_features vs meta =
     (let m = mean vs; sd = stddev vs m; denom = fmax (fabs m) nearZeroEpsilon; s = sort_values vs;
          p50 = percentile s (Fin (1 / 2)); p99 = percentile s (round64 (99 / 100))
      in zero_SignalFeatures\<lparr>
           sf_Current := last vs, sf_Mean := m, sf_Stddev := sd,
           sf_CV := (if flt fzero denom then fdiv sd denom else fzero),
           sf_Min := hd s, sf_Max := last s, sf_P50 := p50, sf_P95 := percentile s (round64 (95 / 100)), sf_P99 := p99,
           sf_TailRatio := (if mm_Kind meta = KindLatency \<and> flt fzero p50 then fdiv p99 p50 else fzero)\<rparr>)"

definition sort_points :: "Point list \<Rightarrow> Point list" where
  "sort_points ps = sort_less (\<lambda>p q. pt_Timestamp p < pt_Timestamp q) ps"

definition ProcessWithBaselineStats ::
  "Point list \<Rightarrow> BaselineStats \<Rightarrow> MetricMeta \<Rightarrow> int \<Rightarrow> Window \<Rightarrow> SignalFeatures" where
  "ProcessWithBaselineStats points baseline meta stepSeconds w =
     (if points = [] then zero_SignalFeatures\<lparr>sf_Classification := Some ClassInsufficientData, sf_Confidence := Some ConfidenceLow\<rparr>
      else (let ps = sort_points points; vs = extractValues ps; thr = EffectiveThresholds meta;
                f = applyBaselineStats (basic_features vs meta) baseline;
                f = computeStepChange (computeTrend f ps) ps thr;
                f = computeSpikes f vs (th_SpikeZScore thr);
                f = computeSaturation (computeSLOBreach f ps meta stepSeconds) vs meta;
                f = f\<lparr>sf_DataQuality := computeDataQuality ps stepSeconds w\<rparr>;
                f = f\<lparr>sf_Confidence := Some (deriveConfidence f)\<rparr>
            in f\<lparr>sf_Classification := Some (Classify f meta)\<rparr>))"

definition Process :: "Point list \<Rightarrow> Point list \<Rightarrow> MetricMeta \<Rightarrow> int \<Rightarrow> int \<Rightarrow> Window \<Rightarrow> SignalFeatures" where
  "Process points baselinePoints meta stepSeconds expectedBaselinePoints w =
     ProcessWithBaselineStats points (ComputeBaselineStats baselinePoints expectedBaselinePoints) meta stepSeconds w"

end
