(* ===== verification/Metric_Props.thy ===== *)
theory Metric_Props
  imports Metric_Process
begin

text \<open>
  Correctness of the signal processor: thresholds are always usable, verdicts rest on enough data and
  on the direction they claim, the accounting of the service level objective is exact, a window with
  a dead region is not called reliable, and a robust baseline is not moved by a minority of outliers.
\<close>

subsection \<open>Constants\<close>

lemma f64_constants:
  "f64 (3 / 10) = 5404319552844595 / 18014398509481984"
  "f64 (1 / 5) = 3602879701896397 / 18014398509481984"
  "f64 (2 / 5) = 3602879701896397 / 9007199254740992"
  "f64 (3 / 20) = 5404319552844595 / 36028797018963968"
  "f64 (17 / 20) = 7656119366529843 / 9007199254740992"
  "f64 (7 / 20) = 6305039478318694 / 18014398509481984"
  "f64 (1 / 50) = 5764607523034235 / 288230376151711744"
  "f64 (1 / 20) = 7205759403792794 / 144115188075855872"
  "f64 (19 / 20) = 8556839292003942 / 9007199254740992"
  by (simp add: f64_at [where e = "- 54"] pow2_def round_half_even_def Let_def,
      simp add: f64_at [where e = "- 55"] pow2_def round_half_even_def Let_def,
      simp add: f64_at [where e = "- 54"] pow2_def round_half_even_def Let_def,
      simp add: f64_at [where e = "- 55"] pow2_def round_half_even_def Let_def,
      simp add: f64_at [where e = "- 53"] pow2_def round_half_even_def Let_def,
      simp add: f64_at [where e = "- 54"] pow2_def round_half_even_def Let_def,
      simp add: f64_at [where e = "- 58"] pow2_def round_half_even_def Let_def,
      simp add: f64_at [where e = "- 57"] pow2_def round_half_even_def Let_def,
      simp add: f64_at [where e = "- 53"] pow2_def round_half_even_def Let_def)

lemma round64_constants:
  "round64 (3 / 10) = Fin (5404319552844595 / 18014398509481984)"
  "round64 (1 / 5) = Fin (3602879701896397 / 18014398509481984)"
  "round64 (2 / 5) = Fin (3602879701896397 / 9007199254740992)"
  "round64 (3 / 20) = Fin (5404319552844595 / 36028797018963968)"
  "round64 (17 / 20) = Fin (7656119366529843 / 9007199254740992)"
  "round64 (7 / 20) = Fin (6305039478318694 / 18014398509481984)"
  "round64 (1 / 50) = Fin (5764607523034235 / 288230376151711744)"
  "round64 (1 / 20) = Fin (7205759403792794 / 144115188075855872)"
  "round64 (19 / 20) = Fin (8556839292003942 / 9007199254740992)"
  by (simp_all add: f64_in_range f64_constants)

subsection \<open>Thresholds\<close>

lemma thresholds_None_iff:
  "thresholds_Validate t = None \<longleftrightarrow>
   (\<exists>d b c z. t = \<lparr>th_SignificantDeltaPct = Fin d, th_BreachRatioForRegress = Fin b, th_CVForNoisy = Fin c,
      th_SpikeZScore = Fin z\<rparr> \<and> 0 < d \<and> 0 \<le> b \<and> b \<le> 1 \<and> 0 < c \<and> 0 < z)"
  by (cases t) (auto simp: thresholds_Validate_def finite64_iff fzero_def not_le split: if_splits)

lemma round64_threshold_grid:
  "round64 10 = Fin 10" "round64 5 = Fin 5" "round64 15 = Fin 15" "round64 3 = Fin 3" "round64 (5 / 2) = Fin (5 / 2)"
  "round64 (1 / 2) = Fin (1 / 2)" "round64 (1 / 4) = Fin (1 / 4)"
  by (simp_all add: round64_grid)

lemma default_thresholds_valid: "thresholds_Validate (DefaultThresholdsFor k) = None"
  by (cases k) (simp_all add: thresholds_def round64_constants round64_threshold_grid thresholds_Validate_def fzero_def)

text \<open>
  Whatever thresholds a registry entry carries, the thresholds that the classifier uses pass
  validation: they are finite, the breach ratio lies in the unit interval and the others are positive.
\<close>

theorem effective_thresholds_valid:
  "\<exists>d b c z. EffectiveThresholds m = \<lparr>th_SignificantDeltaPct = Fin d, th_BreachRatioForRegress = Fin b,
      th_CVForNoisy = Fin c, th_SpikeZScore = Fin z\<rparr> \<and> 0 < d \<and> 0 \<le> b \<and> b \<le> 1 \<and> 0 < c \<and> 0 < z"
  by (auto simp: EffectiveThresholds_def default_thresholds_valid simp flip: thresholds_None_iff split: option.split)

subsection \<open>What a verdict means\<close>


subsection \<open>The data behind a verdict\<close>

lemma computeTrend_frame [simp]:
  "sf_BaselineReliable (computeTrend f ps) = sf_BaselineReliable f"
  "sf_BaselinePointCount (computeTrend f ps) = sf_BaselinePointCount f"
  by (simp_all add: computeTrend_def Let_def split: prod.split)

lemma computeStepChange_frame [simp]:
  "sf_BaselineReliable (computeStepChange f ps thr) = sf_BaselineReliable f"
  "sf_BaselinePointCount (computeStepChange f ps thr) = sf_BaselinePointCount f"
  by (simp_all add: computeStepChange_def Let_def split: option.split)

lemma see_spikes_frame:
  "sf_BaselineReliable (foldl (see_spike z) f vs) = sf_BaselineReliable f \<and>
   sf_BaselinePointCount (foldl (see_spike z) f vs) = sf_BaselinePointCount f"
  by (induction vs arbitrary: f) (simp_all add: see_spike_def Let_def)

lemma computeSpikes_frame [simp]:
  "sf_BaselineReliable (computeSpikes f vs z) = sf_BaselineReliable f"
  "sf_BaselinePointCount (computeSpikes f vs z) = sf_BaselinePointCount f"
  by (simp_all add: computeSpikes_def Let_def see_spikes_frame)

lemma computeSLOBreach_frame [simp]:
  "sf_BaselineReliable (computeSLOBreach f ps meta step) = sf_BaselineReliable f"
  "sf_BaselinePointCount (computeSLOBreach f ps meta step) = sf_BaselinePointCount f"
  by (simp_all add: computeSLOBreach_def Let_def split: option.split)

lemma computeSaturation_frame [simp]:
  "sf_BaselineReliable (computeSaturation f vs meta) = sf_BaselineReliable f"
  "sf_BaselinePointCount (computeSaturation f vs meta) = sf_BaselinePointCount f"
  by (simp_all add: computeSaturation_def Let_def split: option.split)

lemma applyBaselineStats_reliable:
  "sf_BaselineReliable (applyBaselineStats (basic_features vs meta) b) \<Longrightarrow> bs_Reliable b"
  by (auto simp: applyBaselineStats_def basic_features_def zero_SignalFeatures_def Let_def split: if_splits)

lemma process_classification:
  assumes "points \<noteq> []"
  obtains f where "sf_Classification (ProcessWithBaselineStats points b meta step w) = Some (Classify f meta)"
    and "sf_DataQuality f = computeDataQuality (sort_points points) step w"
    and "sf_BaselineReliable f \<Longrightarrow> bs_Reliable b"
proof -
  show thesis
    by (rule that, use assms in \<open>simp add: ProcessWithBaselineStats_def Let_def\<close>, simp_all)
      (erule applyBaselineStats_reliable)
qed

text \<open>
  C25: A verdict about a change rests on data: at least three points in the window, half of the
  expected ones and at most three gaps; at least seven points in the baseline and half of the
  expected ones.
\<close>

theorem change_verdict_needs_data:
  assumes "sf_Classification (Process points base meta step expected w) = Some c" "isDeltaBased c"
  shows "3 \<le> length points \<and>
    tquot (dq_ExpectedPoints (computeDataQuality (sort_points points) step w)) 2 \<le> int (length points) \<and>
    dq_GapCount (computeDataQuality (sort_points points) step w) \<le> 3 \<and>
    7 \<le> length base \<and> (0 < expected \<longrightarrow> expected div 2 \<le> int (length base))"
proof -
  have "points \<noteq> []"
  proof
    assume "points = []"
    with assms show False
      by (simp add: Process_def ProcessWithBaselineStats_def isDeltaBased_def)
  qed
  then obtain f where f: "sf_Classification (Process points base meta step expected w) = Some (Classify f meta)"
      "sf_DataQuality f = computeDataQuality (sort_points points) step w"
      "sf_BaselineReliable f \<Longrightarrow> bs_Reliable (ComputeBaselineStats base expected)"
    unfolding Process_def
    using process_classification [where b = "ComputeBaselineStats base expected" and meta = meta and step = step and w = w]
    by blast
  from f(1) assms have "isDeltaBased (Classify f meta)" by simp
  then have "dq_Reliable (computeDataQuality (sort_points points) step w)" "bs_Reliable (ComputeBaselineStats base expected)"
    using Classify_delta_reliable f by fastforce+
  then show ?thesis
    by (auto simp: computeDataQuality_def zero_DataQuality_def minCurrentWindowPoints_def sort_points_def Let_def
        ComputeBaselineStats_def isBaselineReliable_def minBaselinePoints_def extractValues_def split: if_splits prod.splits)
qed

subsection \<open>The service level objective\<close>

lemma seconds_exact: "\<bar>n\<bar> < 2 ^ 53 \<Longrightarrow> to_int (Seconds (n * second)) = n"
proof -
  assume n: "\<bar>n\<bar> < 2 ^ 53"
  have "trem (n * second) second = 0" by (simp add: trem_def tquot_exact second_def mult.commute)
  moreover have "fint 0 = Fin 0" by (simp add: fint_exact)
  ultimately have "Seconds (n * second) = Fin (of_int n)"
    using n fint_exact [OF n] by (simp add: Seconds_def tquot_exact second_def fint_def)
  moreover have "\<bar>of_int n :: rat\<bar> < 2 ^ 63"
    using of_int_abs_less [OF n] by (rule less_trans) simp
  ultimately show ?thesis by (simp add: to_int_def trunc_def)
qed

definition no_breach :: breach_count where
  "no_breach = \<lparr>bc_breachCount = 0, bc_breachDuration = 0, bc_currentStreak = 0, bc_streakBroken = False\<rparr>"

lemma less_of_scaled: "k * second < 2 ^ 63 \<Longrightarrow> k < 2 ^ 53"
  by (simp add: second_def)

lemma breach_loop_exact:
  assumes "0 \<le> step" "int (length bs) * step < 2 ^ 63"
  shows "breach_loop step bs = \<lparr>bc_breachCount = length (filter (\<lambda>b. b) bs),
     bc_breachDuration = int (length (filter (\<lambda>b. b) bs)) * step,
     bc_currentStreak = int (length (takeWhile (\<lambda>b. b) (rev bs))) * step,
     bc_streakBroken = (False \<in> set bs)\<rparr>"
  using assms(2)
proof (induction bs)
  case Nil
  then show ?case by (simp add: breach_loop_def)
next
  case (Cons b bs)
  have bound: "int (length bs) * step < 2 ^ 63"
    using Cons.prems assms(1) by (simp add: algebra_simps)
  have small: "wrap64 (int n * step + step) = int n * step + step" if "n \<le> length bs" for n
  proof (rule wrap64_small)
    have "int n * step \<le> int (length bs) * step" using that assms(1) by (simp add: mult_right_mono)
    with Cons.prems assms(1) show "\<bar>int n * step + step\<bar> < 2 ^ 63" by (simp add: algebra_simps)
  qed
  have streak: "takeWhile (\<lambda>b. b) (rev bs @ [b]) = (if False \<in> set bs then takeWhile (\<lambda>b. b) (rev bs) else rev bs @ takeWhile (\<lambda>b. b) [b])"
    by (auto simp: takeWhile_append)
  have all: "length (takeWhile (\<lambda>b. b) (rev bs)) = length bs" if "False \<notin> set bs"
  proof -
    have "x" if "x \<in> set (rev bs)" for x
      using that \<open>False \<notin> set bs\<close> by (metis (full_types) set_rev)
    then have "takeWhile (\<lambda>b. b) (rev bs) = rev bs" by (subst takeWhile_eq_all_conv) blast
    then have "length (takeWhile (\<lambda>b. b) (rev bs)) = length (rev bs)" by (rule arg_cong)
    then show ?thesis by (simp only: length_rev)
  qed
  have streak: "length (takeWhile (\<lambda>b. b) (rev bs @ [b])) =
      (if False \<in> set bs then length (takeWhile (\<lambda>b. b) (rev bs)) else if b then Suc (length bs) else length bs)"
    unfolding streak by simp
  have loop: "breach_loop step (b # bs) = see_breach step b (breach_loop step bs)"
    by (simp add: breach_loop_def)
  have "length (filter (\<lambda>b. b) bs) \<le> length bs" by simp
  note small1 = small [OF this] and small2 = small [of "length bs", OF order_refl]
  show ?case
  proof (cases b)
    case False
    then show ?thesis
      using streak all unfolding loop Cons.IH [OF bound]
      by (cases "False \<in> set bs") (simp_all add: see_breach_def)
  next
    case True
    then show ?thesis
      using small1 small2 streak all unfolding loop Cons.IH [OF bound]
      by (cases "False \<in> set bs") (simp_all add: see_breach_def algebra_simps)
  qed
qed

definition crossings :: "bool list \<Rightarrow> nat" where
  "crossings bs = length (filter (\<lambda>(a, b). a \<noteq> b) (zip bs (tl bs)))"

lemma transitions_from: "snd (foldl see_transition (Some b, n) bs) = n + crossings (b # bs)"
proof (induction bs arbitrary: b n)
  case Nil
  then show ?case by (simp add: crossings_def)
next
  case (Cons c bs)
  then show ?case by (simp add: see_transition_def crossings_def)
qed

lemma transitions_exact: "snd (foldl see_transition (None, 0) bs) = crossings bs"
proof (cases bs)
  case (Cons b cs)
  then show ?thesis using transitions_from [of b 0 cs] by (simp add: see_transition_def)
qed (simp add: crossings_def)

text \<open>
  C26: The accounting of an objective is exact: the ratio is that of the breaching points, the
  duration counts a step for each of them, the current streak is the longest run of breaching points
  at the end of the window, and the transitions are the neighbours that differ.
\<close>

theorem breach_accounting_exact:
  assumes "mm_SLOThreshold meta = Some t" "0 < step" "int (length ps) * step * second < 2 ^ 63"
  defines "bs \<equiv> map (\<lambda>p. isBreach (pt_Value p) t (mm_BetterDirection meta)) ps"
  shows "computeSLOBreach f ps meta step = f\<lparr>sf_SLOBreach := (True \<in> set bs),
     sf_BreachRatio := fdiv (fint (int (length (filter (\<lambda>b. b) bs)))) (fint (int (length ps))),
     sf_BreachDurationSeconds := int (length (filter (\<lambda>b. b) bs)) * step,
     sf_CurrentBreachStreakSeconds := int (length (takeWhile (\<lambda>b. b) (rev bs))) * step,
     sf_BreachTransitions := crossings bs\<rparr>"
proof (cases "ps = []")
  case True
  then show ?thesis
    using assms(1) seconds_exact [of 0] by (simp add: computeSLOBreach_def bs_def breach_loop_def crossings_def Let_def)
next
  case False
  then have "1 * (step * second) \<le> int (length ps) * (step * second)"
    using assms(2) by (intro mult_right_mono) (auto simp: second_def Suc_le_eq)
  with assms(3) have "step * second < 2 ^ 63" by (simp only: mult.assoc mult_1)
  then have step: "wrap64 (step * second) = step * second"
    using assms(2) by (intro wrap64_small) (simp add: second_def)
  have small: "\<bar>int n * step\<bar> < 2 ^ 53" if "n \<le> length bs" for n
  proof -
    have "int n * step \<le> int (length ps) * step"
      using that assms(2) by (intro mult_right_mono) (auto simp: bs_def)
    moreover have "int (length ps) * step < 2 ^ 53" using less_of_scaled [OF assms(3)] .
    moreover have "0 \<le> int n * step" using assms(2) by simp
    ultimately show ?thesis by linarith
  qed
  have "length (filter (\<lambda>b. b) bs) \<le> length bs" "length (takeWhile (\<lambda>b. b) (rev bs)) \<le> length bs"
    using length_takeWhile_le [of "\<lambda>b. b" "rev bs"] by simp_all
  note exact = seconds_exact [OF small [OF this(1)]] seconds_exact [OF small [OF this(2)]]
  have loop: "breach_loop (step * second) bs = \<lparr>bc_breachCount = length (filter (\<lambda>b. b) bs),
      bc_breachDuration = int (length (filter (\<lambda>b. b) bs)) * step * second,
      bc_currentStreak = int (length (takeWhile (\<lambda>b. b) (rev bs))) * step * second, bc_streakBroken = (False \<in> set bs)\<rparr>"
    using breach_loop_exact [of "step * second" bs] assms(2,3) by (simp add: bs_def second_def mult.assoc)
  have "0 < length (filter (\<lambda>b. b) bs) \<longleftrightarrow> True \<in> set bs"
    by (auto simp: filter_empty_conv)
  then show ?thesis
    using assms(1) exact by (simp add: computeSLOBreach_def Let_def step loop transitions_exact flip: bs_def)
qed

theorem breach_accounting_exact_witness:
  "sf_CurrentBreachStreakSeconds (computeSLOBreach zero_SignalFeatures
     [\<lparr>pt_Timestamp = 0, pt_Value = Fin 3\<rparr>, \<lparr>pt_Timestamp = 60, pt_Value = Fin 1\<rparr>, \<lparr>pt_Timestamp = 120, pt_Value = Fin 3\<rparr>]
     (zero_MetricMeta\<lparr>mm_SLOThreshold := Some (Fin 2), mm_BetterDirection := DirectionDown\<rparr>) 60) = 60"
  by (subst breach_accounting_exact [where t = "Fin 2"]) (simp_all add: second_def)

subsection \<open>Reliable windows\<close>

lemma spaced_span:
  assumes "sorted_wrt (\<lambda>p q. pt_Timestamp p + d \<le> pt_Timestamp q) ps" "ps \<noteq> []"
  shows "(int (length ps) - 1) * d \<le> pt_Timestamp (last ps) - pt_Timestamp (hd ps)"
  using assms
proof (induction ps)
  case (Cons p ps)
  show ?case
  proof (cases "ps = []")
    case False
    then have "pt_Timestamp p + d \<le> pt_Timestamp (hd ps)" using Cons.prems(1) by simp
    moreover have "(int (length ps) - 1) * d \<le> pt_Timestamp (last ps) - pt_Timestamp (hd ps)"
      using Cons False by simp
    ultimately have "(int (length ps) - 1) * d + d \<le> pt_Timestamp (last ps) - pt_Timestamp p" by linarith
    with False show ?thesis by (simp add: algebra_simps)
  qed simp
qed simp

text \<open>
  A window is only called reliable when its points span about half of it: if the points are at
  least a step apart, the first and the last of a reliable window are at most two steps closer than
  half of the window, so a metric that stopped reporting early in the window is not reliable.
\<close>

theorem reliable_window_is_covered:
  assumes "window_known w" "w_End w - w_Start w < 2 ^ 63" "0 < step" "step * second < 2 ^ 63"
    and "sorted_wrt (\<lambda>p q. pt_Timestamp p + step * second \<le> pt_Timestamp q) ps"
    and "dq_Reliable (computeDataQuality ps step w)"
  shows "w_End w - w_Start w < 2 * (pt_Timestamp (last ps) - pt_Timestamp (hd ps)) + 4 * (step * second)"
proof -
  let ?d = "step * second" and ?span = "w_End w - w_Start w"
  have d: "0 < ?d" using assms(3) by (simp add: second_def)
  have step: "wrap64 ?d = ?d" using assms(4) d by (intro wrap64_small) simp
  have span: "0 < ?span" "sub_time (w_End w) (w_Start w) = ?span"
    using assms(1,2) by (simp_all add: window_known_def sub_time_small)
  have "ps \<noteq> []" using assms(6) by (auto simp: computeDataQuality_def zero_DataQuality_def)
  with assms(1,6) have "tquot (tquot ?span ?d + 1) 2 \<le> int (length ps)"
    by (auto simp: computeDataQuality_def expected_points_def Let_def step span split: prod.splits)
  moreover have "tquot ?span ?d = ?span div ?d" using span d by (intro tquot_nonneg) auto
  moreover have "0 \<le> ?span div ?d" using span d by (simp add: pos_imp_zdiv_nonneg_iff)
  ultimately have "(?span div ?d + 1) div 2 \<le> int (length ps)" by (simp add: tquot_nonneg)
  then have "?span div ?d \<le> 2 * int (length ps)" by linarith
  then have "(?span div ?d + 1) * ?d \<le> (2 * int (length ps) + 1) * ?d"
    using d by (intro mult_right_mono) auto
  moreover have "?span < (?span div ?d + 1) * ?d"
    using d by (simp add: distrib_right) (metis add.commute div_mult_mod_eq pos_mod_bound zless_add1_eq add_strict_left_mono)
  moreover have "(int (length ps) - 1) * ?d \<le> pt_Timestamp (last ps) - pt_Timestamp (hd ps)"
    using spaced_span [OF assms(5) \<open>ps \<noteq> []\<close>] .
  ultimately show ?thesis using d by (simp add: algebra_simps)
qed

subsection \<open>Robust baselines\<close>

lemma sort_values_nth_mono: "i \<le> j \<Longrightarrow> j < length vs \<Longrightarrow> \<not> cmp_less (sort_values vs ! j) (sort_values vs ! i)"
proof (cases "i = j")
  case True
  then show ?thesis by (simp add: float_order.irrefl)
next
  case False
  moreover assume "i \<le> j" "j < length vs"
  ultimately show ?thesis
    using sorted_wrt_nth_less [OF float_order.sorted_sort_less [of vs], of i j] by (simp add: sort_values_def)
qed

lemma median_odd:
  assumes "length vs = 2 * k + 1" "1 \<le> k" "k < 2 ^ 51"
  shows "median vs = sort_values vs ! k"
proof -
  have len: "length (sort_values vs) = 2 * k + 1" using assms(1) by (simp add: sort_values_def)
  then have ne: "sort_values vs \<noteq> []" by auto
  have "fint (2 * int k) = Fin (of_int (2 * int k))" using assms(3) by (intro fint_exact) simp
  moreover have "round64 (of_nat k) = Fin (of_nat k)"
    using round64_exact [of "of_nat k" "int k" 0] assms(3) by simp
  ultimately have idx: "fmul (Fin (1 / 2)) (fint (2 * int k)) = Fin (of_nat k)" by simp
  have k: "to_int (Fin (of_nat k)) = int k"
  proof -
    have "(of_nat k :: rat) < 2 ^ 63"
      using assms(3) of_nat_less_iff [of k "2 ^ 63", where 'a = rat] by simp
    then show ?thesis by (simp add: to_int_def trunc_def)
  qed
  show ?thesis
    using ne assms(2) by (simp add: median_def percentile_def len idx k Let_def)
qed

lemma fle_down: "fle lo a \<Longrightarrow> \<not> cmp_less b a \<Longrightarrow> fle lo b"
  by (cases lo; cases a; cases b) (auto simp: cmp_less_def is_nan_def fle_def feq_def)

lemma fle_up: "fle b hi \<Longrightarrow> \<not> cmp_less b a \<Longrightarrow> a \<noteq> NaN \<Longrightarrow> fle a hi"
  by (cases hi; cases a; cases b) (auto simp: cmp_less_def is_nan_def fle_def feq_def)

lemma median_in_majority:
  assumes len: "length vs = 2 * k + 1" "1 \<le> k" "k < 2 ^ 51"
    and many: "k < length (filter (\<lambda>v. fle lo v \<and> fle v hi) vs)"
  shows "fle lo (median vs) \<and> fle (median vs) hi"
proof -
  let ?P = "\<lambda>v. fle lo v \<and> fle v hi"
  define s where "s = sort_values vs"
  have m: "median vs = s ! k" using median_odd [OF len] by (simp add: s_def)
  have ls: "length s = 2 * k + 1" using len(1) by (simp add: s_def sort_values_def)
  have "mset s = mset vs" by (simp add: s_def sort_values_def)
  then have "length (filter ?P s) = length (filter ?P vs)" by (metis mset_filter size_mset)
  with many have many: "k < length (filter ?P s)" by simp
  have split: "length (filter ?P s) = length (filter ?P (take n s)) + length (filter ?P (drop n s))" for n
    by (metis append_take_drop_id filter_append length_append)
  have lo: "fle lo (s ! k)"
  proof (rule ccontr)
    assume no: "\<not> fle lo (s ! k)"
    have "\<not> ?P v" if v: "v \<in> set (take (Suc k) s)" for v
    proof -
      from v obtain i where i: "i < Suc k" "v = s ! i" by (auto simp: in_set_conv_nth ls)
      then have "\<not> cmp_less (s ! k) v" using sort_values_nth_mono [of i k vs] len(1) by (simp add: s_def)
      with no show ?thesis using fle_down by blast
    qed
    then have "filter ?P (take (Suc k) s) = []" by (simp add: filter_empty_conv)
    moreover have "length (filter ?P (drop (Suc k) s)) \<le> k"
      using length_filter_le [of ?P "drop (Suc k) s"] ls by simp
    ultimately show False using many split [of "Suc k"] by simp
  qed
  have "fle (s ! k) hi"
  proof (rule ccontr)
    assume no: "\<not> fle (s ! k) hi"
    have "s ! k \<noteq> NaN" using lo by (cases lo) (auto simp: fle_def feq_def)
    have "\<not> ?P v" if v: "v \<in> set (drop k s)" for v
    proof -
      from v obtain j where "j < length (drop k s)" "v = drop k s ! j" by (metis in_set_conv_nth)
      then have i: "k \<le> k + j" "k + j < length s" "v = s ! (k + j)" by simp_all
      then have "\<not> cmp_less v (s ! k)" using sort_values_nth_mono [of k "k + j" vs] len(1) ls by (simp add: s_def)
      with no \<open>s ! k \<noteq> NaN\<close> show ?thesis using fle_up by blast
    qed
    then have "filter ?P (drop k s) = []" by (simp add: filter_empty_conv)
    moreover have "length (filter ?P (take k s)) \<le> k"
      using length_filter_le [of ?P "take k s"] ls by simp
    ultimately show False using many split [of k] by simp
  qed
  with lo m show ?thesis by simp
qed

text \<open>
  A robust baseline follows the majority: with an odd number of buckets, if more than half of
  their means lie in an interval, so does the mean of the baseline, whatever the other buckets hold.
\<close>

theorem robust_baseline_follows_majority:
  assumes "length (filter (\<lambda>b. b \<noteq> []) buckets) = 2 * k + 1" "1 \<le> k" "k < 2 ^ 51"
    and "k < length (filter (\<lambda>m. fle lo m \<and> fle m hi) (bucket_means (filter (\<lambda>b. b \<noteq> []) buckets)))"
  shows "fle lo (bs_Mean (ComputeRobustBaselineStats buckets n)) \<and> fle (bs_Mean (ComputeRobustBaselineStats buckets n)) hi"
proof -
  have "bs_Mean (ComputeRobustBaselineStats buckets n) = median (bucket_means (filter (\<lambda>b. b \<noteq> []) buckets))"
    using assms(1,2) by (simp add: ComputeRobustBaselineStats_def Let_def)
  moreover have "length (bucket_means (filter (\<lambda>b. b \<noteq> []) buckets)) = 2 * k + 1"
    using assms(1) by (simp add: bucket_means_def)
  ultimately show ?thesis using median_in_majority [of _ k lo hi] assms(2-4) by simp
qed

subsection \<open>Examples\<close>

text \<open>An example: three minutes of a latency that has doubled against its baseline.\<close>

definition pts :: "int list \<Rightarrow> int \<Rightarrow> Point list" where
  "pts ts v = map (\<lambda>t. \<lparr>pt_Timestamp = t * minute, pt_Value = Fin (of_int v)\<rparr>) ts"
definition latency_meta :: MetricMeta where
  "latency_meta = zero_MetricMeta\<lparr>mm_Kind := KindLatency, mm_BetterDirection := DirectionDown\<rparr>"
definition unknown_window :: Window where "unknown_window = \<lparr>w_Start = time_zero, w_End = time_zero\<rparr>"

lemma near_zero: "nearZeroEpsilon = Fin (4722366482869645 / 4722366482869645213696)"
proof -
  have "f64 (1 / 1000000) = 4722366482869645 / 4722366482869645213696"
    by (simp add: f64_at [where e = "- 72"] pow2_def round_half_even_def Let_def)
  then show ?thesis by (simp add: nearZeroEpsilon_def f64_in_range)
qed
lemmas float_eval = round64_constants round64_threshold_grid round64_grid near_zero
 fzero_def fsub_def mean_def fsum_def stddev_def square_def fint_def

lemma example_baseline: "ComputeBaselineStats (pts [0,1,2,3,4,5,6] 1) 0 = \<lparr>bs_Mean = Fin 1, bs_Stddev = Fin 0, bs_PointCount = 7, bs_Reliable = True\<rparr>"
  by (simp add: ComputeBaselineStats_def pts_def extractValues_def float_eval Let_def isBaselineReliable_def minBaselinePoints_def)

lemma example_sorted: "sort_points (pts [0,1,2] 2) = pts [0,1,2] 2"
  by (simp add: sort_points_def pts_def minute_def second_def)
lemma example_values: "extractValues (pts [0,1,2] 2) = [Fin 2, Fin 2, Fin 2]" by (simp add: extractValues_def pts_def)
lemma mean222: "mean [Fin 2, Fin 2, Fin 2] = Fin 2" by (simp add: float_eval)
lemma sd222: "stddev [Fin 2, Fin 2, Fin 2] (Fin 2) = Fin 0" by (simp add: float_eval)
lemma example_features: obtains a b c d where "basic_features [Fin 2, Fin 2, Fin 2] latency_meta = zero_SignalFeatures\<lparr>sf_Current := Fin 2, sf_Mean := Fin 2, sf_Stddev := Fin 0, sf_CV := Fin 0,
 sf_Min := Fin 2, sf_Max := Fin 2, sf_P50 := a, sf_P95 := b, sf_P99 := c, sf_TailRatio := d\<rparr>"
proof -
  have s: "sort_values [Fin 2, Fin 2, Fin 2] = [Fin 2, Fin 2, Fin 2]" by (simp add: sort_values_def cmp_less_def)
  show thesis
    by (rule that, simp add: basic_features_def Let_def mean222 sd222 s near_zero fmax_def is_nan_def fzero_def round64_grid zero_SignalFeatures_def)
qed
lemma minutes_exact: "\<bar>n\<bar> < 2 ^ 22 \<Longrightarrow> minutes_since 0 \<lparr>pt_Timestamp = n * minute, pt_Value = v\<rparr> = Fin (of_int n)"
proof -
  assume n: "\<bar>n\<bar> < 2 ^ 22"
  have "trem (n * minute) minute = 0" by (simp add: trem_def tquot_exact minute_def second_def mult.commute)
  moreover have "sub_time (n * minute) 0 = n * minute" using n by (simp add: sub_time_def minute_def second_def)
  moreover have "fint n = Fin (of_int n)" using n by (intro fint_exact) simp
  ultimately show ?thesis by (simp add: minutes_since_def Minutes_def tquot_exact minute_def second_def fint_def)
qed
lemma pts_simps: "pts [0,1,2] 2 = [\<lparr>pt_Timestamp = 0 * minute, pt_Value = Fin 2\<rparr>, \<lparr>pt_Timestamp = 1 * minute, pt_Value = Fin 2\<rparr>, \<lparr>pt_Timestamp = 2 * minute, pt_Value = Fin 2\<rparr>]"
  by (simp add: pts_def)
lemma example_sums: "trend_sums 0 (pts [0,1,2] 2) = (Fin 3, Fin 6, Fin 6, Fin 5)"
  unfolding pts_simps trend_sums_def using minutes_exact [of 0] minutes_exact [of 1] by (simp add: minutes_exact round64_grid fzero_def Let_def)
lemma example_step_regression:
  "sf_Classification (Process (pts [0,1,2] 2) (pts [0,1,2,3,4,5,6] 1) latency_meta 60 0 unknown_window) = Some ClassStepRegression"
proof -
  obtain p1 p2 p3 p4 where bf: "basic_features [Fin 2, Fin 2, Fin 2] latency_meta = zero_SignalFeatures\<lparr>sf_Current := Fin 2, sf_Mean := Fin 2, sf_Stddev := Fin 0, sf_CV := Fin 0,
 sf_Min := Fin 2, sf_Max := Fin 2, sf_P50 := p1, sf_P95 := p2, sf_P99 := p3, sf_TailRatio := p4\<rparr>" by (rule example_features)
  have ne: "pts [0,1,2] 2 \<noteq> []" by (simp add: pts_def)
  have thr: "EffectiveThresholds latency_meta = \<lparr>th_SignificantDeltaPct = Fin 10,  th_BreachRatioForRegress = Fin (5404319552844595 / 18014398509481984),
    th_CVForNoisy = Fin (5404319552844595 / 18014398509481984), th_SpikeZScore = Fin 3\<rparr>"
    by (simp add: EffectiveThresholds_def latency_meta_def zero_MetricMeta_def thresholds_def float_eval)
  have dq: "computeDataQuality (pts [0,1,2] 2) 60 unknown_window = \<lparr>dq_ExpectedPoints = 3, dq_ActualPoints = 3, dq_GapCount = 0, dq_MaxGapSeconds = 0,
    dq_NonFinitePoints = 0, dq_Reliable = True, dq_WindowChecked = False\<rparr>"
    using seconds_exact [of 0]
    by (simp add: computeDataQuality_def pts_def unknown_window_def window_known_def expected_points_def window_gaps_def edge_gaps_def consider_gap_def
      sub_time_def minute_def second_def wrap64_def tquot_def minCurrentWindowPoints_def Let_def)
  have ct: "computeTrend f (pts [0,1,2] 2) = f\<lparr>sf_SlopePerMin := Fin 0, sf_TrendScore := Fin 0, sf_Trend := Some TrendFlat\<rparr>" 
    if "sf_Baseline f = Fin 1" for f
  proof -
    have "hd (pts [0,1,2] 2) = \<lparr>pt_Timestamp = 0, pt_Value = Fin 2\<rparr>" "length (pts [0,1,2] 2) = 3" "minutes_since 0 (last (pts [0,1,2] 2)) = Fin 2"
      using minutes_exact [of 2] by (simp_all add: pts_def)
    then show ?thesis using example_sums that
    by (simp add: computeTrend_def Let_def float_eval trend_score_def trend_of_def TrendFlatBand_def) 
  qed
  have "length (pts [0,1,2] 2) = 3" by (simp add: pts_def)
  have "mm_SLOThreshold latency_meta = None" "mm_SaturationCap latency_meta = None" "mm_BetterDirection latency_meta = DirectionDown"
    by (simp_all add: latency_meta_def zero_MetricMeta_def)
  note meta = this
  have short: "computeStepChange f (pts [0,1,2] 2) thr = f" "computeSpikes f [Fin 2, Fin 2, Fin 2] z = f"
    "computeSLOBreach f ps latency_meta st = f" "computeSaturation f vs latency_meta = f" for f thr z ps st vs
    by (simp_all add: meta computeStepChange_def pts_def computeSpikes_def minPointsForSpikeDetection_def computeSLOBreach_def computeSaturation_def)
  define f where "f = (applyBaselineStats (basic_features [Fin 2, Fin 2, Fin 2] latency_meta) \<lparr>bs_Mean = Fin 1, bs_Stddev = Fin 0, bs_PointCount = 7, bs_Reliable = True\<rparr>)"
  have f: "f = zero_SignalFeatures\<lparr>sf_Current := Fin 2, sf_Mean := Fin 2, sf_Stddev := Fin 0, sf_CV := Fin 0,
 sf_Min := Fin 2, sf_Max := Fin 2, sf_P50 := p1, sf_P95 := p2, sf_P99 := p3, sf_TailRatio := p4, sf_BaselinePointCount := 7, sf_Baseline := Fin 1, sf_BaselineStddev := Fin 0, sf_BaselineReliable := True, sf_DeltaAbs := Fin 1, sf_DeltaPct := Fin 100\<rparr>"
    by (simp add: f_def bf applyBaselineStats_def delta_pct_def fsub_def round64_grid near_zero zero_SignalFeatures_def)
  have "Classify (f\<lparr>sf_SlopePerMin := Fin 0, sf_TrendScore := Fin 0, sf_Trend := Some TrendFlat, sf_DataQuality := dq, sf_Confidence := c\<rparr>) latency_meta = ClassStepRegression" 
   if "dq_Reliable dq" for dq c
    unfolding f using that
    by (simp add: Classify_def applyReliabilityDowngrade_def classifyCore_def is_flapping_def significantNoiseCV_def meta thr zero_SignalFeatures_def round64_constants fzero_def)
  moreover have "sf_Baseline f = Fin 1" unfolding f by simp
  ultimately show ?thesis
    by (simp add: Process_def ProcessWithBaselineStats_def ne example_sorted example_values example_baseline dq ct short Let_def flip: f_def)
qed

theorem change_verdict_needs_data_witness: "7 \<le> length (pts [0,1,2,3,4,5,6] 1)"
  using change_verdict_needs_data [OF example_step_regression] by (simp add: isDeltaBased_def)

theorem reliable_window_is_covered_witness:
  "(240 :: int) * second < 2 * (pt_Timestamp (last (pts [0, 1, 2] 1)) - pt_Timestamp (hd (pts [0, 1, 2] 1))) + 4 * (60 * second)"
proof -
  have "dq_Reliable (computeDataQuality (pts [0, 1, 2] 1) 60 \<lparr>w_Start = 0, w_End = 4 * minute\<rparr>)"
    by (simp add: computeDataQuality_def pts_def window_known_def time_zero_def expected_points_def window_gaps_def edge_gaps_def
      consider_gap_def sub_time_def minute_def second_def wrap64_def tquot_def minCurrentWindowPoints_def windowEdgeGapSteps_def Let_def)
  then have "(4::int) * minute - 0 < 2 * (pt_Timestamp (last (pts [0, 1, 2] 1)) - pt_Timestamp (hd (pts [0, 1, 2] 1))) + 4 * (60 * second)"
    using reliable_window_is_covered [of "\<lparr>w_Start = 0, w_End = 4 * minute\<rparr>" 60 "pts [0, 1, 2] 1"]
    by (simp add: window_known_def time_zero_def pts_def minute_def second_def)
  then show ?thesis by (simp add: minute_def)
qed

theorem robust_baseline_follows_majority_witness:
  "fle (bs_Mean (ComputeRobustBaselineStats [pts [0] 1, pts [0] 100, pts [0] 2] 1)) (Fin 2)"
proof -
  have "bucket_means (filter (\<lambda>b. b \<noteq> []) [pts [0] 1, pts [0] 100, pts [0] 2]) = [Fin 1, Fin 100, Fin 2]"
    by (simp add: bucket_means_def pts_def extractValues_def float_eval)
  then show ?thesis
    using robust_baseline_follows_majority [of "[pts [0] 1, pts [0] 100, pts [0] 2]" 1 "Fin 1" "Fin 2" 1] by (simp add: pts_def)
qed

subsection \<open>Steps without a direction\<close>

text \<open>
  A step change is called a regression whatever the metric's better direction is: also for
  a metric without one, for which the comment of \<open>isDegrading\<close> says that neither step nor sustained
  regressions are reported, if its values lie above the objective.
\<close>

theorem step_regression_without_direction:
  assumes "mm_BetterDirection meta = DirectionNone"
    and "sf_StepChangeDetected f" "flt (sf_CV f) stepChangeMaxCV" "sf_BreachRatio f = Fin 1"
    and "\<not> sf_SaturationDetected f" "flt (sf_MaxZScore f) (th_SpikeZScore (EffectiveThresholds meta))"
    and "\<not> flt (fabs (sf_DeltaPct f)) (th_SignificantDeltaPct (EffectiveThresholds meta))"
    and "flt (th_BreachRatioForRegress (EffectiveThresholds meta)) (Fin 1)"
    and "dq_Reliable (sf_DataQuality f)" "sf_BaselineReliable f"
  shows "Classify f meta = ClassStepRegression"
proof -
  have "\<not> fle (th_SpikeZScore (EffectiveThresholds meta)) (sf_MaxZScore f)"
    using assms(6) flt_asym [OF assms(6)] by (auto simp: fle_def feq_def)
  moreover have "\<not> is_flapping f meta"
    using assms(4) by (simp add: is_flapping_def flappingBreachRatioMax_def round64_constants Let_def)
  moreover have "\<not> flt (sf_BreachRatio f) lowBreachRatio"
    using assms(4) by (simp add: lowBreachRatio_def round64_constants)
  ultimately show ?thesis
    using assms by (simp add: Classify_def applyReliabilityDowngrade_def classifyCore_def)
qed

theorem step_regression_without_direction_witness:
  "Classify (zero_SignalFeatures\<lparr>sf_StepChangeDetected := True, sf_BreachRatio := Fin 1, sf_DeltaPct := Fin (- 50),
       sf_DataQuality := zero_DataQuality\<lparr>dq_Reliable := True\<rparr>, sf_BaselineReliable := True\<rparr>)
     (zero_MetricMeta\<lparr>mm_Kind := KindThroughput, mm_BetterDirection := DirectionNone, mm_SLOThreshold := Some (Fin 5)\<rparr>)
   = ClassStepRegression"
  by (rule step_regression_without_direction)
    (simp_all add: zero_SignalFeatures_def zero_DataQuality_def zero_MetricMeta_def stepChangeMaxCV_def EffectiveThresholds_def
       thresholds_def round64_constants round64_threshold_grid fzero_def)

end
