(* ===== verification/Metric_Registry.thy ===== *)
theory Metric_Registry
  imports Metric_Types "HOL-Library.AList"
begin

text \<open>
  The semantic registry (\<open>internal/metrics/registry.go\<close>): loading the embedded defaults and an
  overlay file, lookup with detection from the name, and search. The YAML package and the file
  system are parameters: a decoder yields a value or an error, and the node tree of a document. A Go
  map is an association list with distinct keys, in the order in which it happens to be iterated.
\<close>

subsection \<open>Overlays\<close>

record thresholdsOverlay =
  to_SignificantDeltaPct :: "float64 option"
  to_BreachRatioForRegress :: "float64 option"
  to_CVForNoisy :: "float64 option"
  to_SpikeZScore :: "float64 option"

record metricOverlay =
  mo_Kind :: "MetricKind option"
  mo_Unit :: "string option"
  mo_BetterDirection :: "BetterDirection option"
  mo_SLOThreshold :: "float64 option"
  mo_SaturationCap :: "float64 option"
  mo_RelatedMetrics :: "string list"
  mo_Keywords :: "string list"
  mo_Thresholds :: "thresholdsOverlay option"
  mo_Aggregation :: "AggregationSpec option"

definition setIfPresent :: "'a \<Rightarrow> 'a option \<Rightarrow> 'a" where
  "setIfPresent dst v = (case v of Some x \<Rightarrow> x | None \<Rightarrow> dst)"

definition replaceIfPresent :: "'a option \<Rightarrow> 'a option \<Rightarrow> 'a option" where
  "replaceIfPresent dst v = (if v = None then dst else v)"

fun unseen :: "(string \<Rightarrow> string) \<Rightarrow> string list \<Rightarrow> string list \<Rightarrow> string list" where
  "unseen key seen [] = []"
| "unseen key seen (s # ss) =
     (if key s \<in> set seen then unseen key seen ss else s # unseen key (key s # seen) ss)"

definition unionStrings :: "string list \<Rightarrow> string list \<Rightarrow> (string \<Rightarrow> string) \<Rightarrow> string list" where
  "unionStrings base extra key = (if extra = [] then base else base @ unseen key (map key base) extra)"

definition overlay_thresholds :: "thresholdsOverlay \<Rightarrow> ClassificationThresholds \<Rightarrow> ClassificationThresholds" where
  "overlay_thresholds ov t =
     \<lparr>th_SignificantDeltaPct = setIfPresent (th_SignificantDeltaPct t) (to_SignificantDeltaPct ov),
      th_BreachRatioForRegress = setIfPresent (th_BreachRatioForRegress t) (to_BreachRatioForRegress ov),
      th_CVForNoisy = setIfPresent (th_CVForNoisy t) (to_CVForNoisy ov),
      th_SpikeZScore = setIfPresent (th_SpikeZScore t) (to_SpikeZScore ov)\<rparr>"

definition applyTo :: "metricOverlay \<Rightarrow> MetricMeta \<Rightarrow> MetricMeta" where
  "applyTo ov base =
     (let kind = setIfPresent (mm_Kind base) (mo_Kind ov) in
      base\<lparr>mm_Kind := kind,
           mm_Unit := setIfPresent (mm_Unit base) (mo_Unit ov),
           mm_BetterDirection := setIfPresent (mm_BetterDirection base) (mo_BetterDirection ov),
           mm_SLOThreshold := replaceIfPresent (mm_SLOThreshold base) (mo_SLOThreshold ov),
           mm_SaturationCap := replaceIfPresent (mm_SaturationCap base) (mo_SaturationCap ov),
           mm_RelatedMetrics := unionStrings (mm_RelatedMetrics base) (mo_RelatedMetrics ov) (\<lambda>s. s),
           mm_Keywords := unionStrings (mm_Keywords base) (mo_Keywords ov) to_lower,
           mm_Thresholds :=
             (case mo_Thresholds ov of
                Some t \<Rightarrow> Some (overlay_thresholds t
                  (case mm_Thresholds base of Some b \<Rightarrow> b | None \<Rightarrow> DefaultThresholdsFor kind))
              | None \<Rightarrow> mm_Thresholds base),
           mm_Aggregation := replaceIfPresent (mm_Aggregation base) (mo_Aggregation ov)\<rparr>)"

subsection \<open>Explicit nulls\<close>

datatype yaml_kind = DocumentNode | SequenceNode | MappingNode | ScalarNode | AliasNode

datatype yaml_node = YNode (y_kind: yaml_kind) (y_tag: string) (y_value: string) (y_line: int) (y_content: "yaml_node list")

fun appendNulls :: "yaml_node \<Rightarrow> string \<Rightarrow> go_error list"
  and nulls_in_map :: "yaml_node list \<Rightarrow> string \<Rightarrow> go_error list"
  and nulls_in_seq :: "nat \<Rightarrow> yaml_node list \<Rightarrow> string \<Rightarrow> go_error list" where
  "appendNulls (YNode k tag v line content) path =
     (case k of
        ScalarNode \<Rightarrow>
          if tag = ''!!null''
          then [Sentinel (''line '' @ itoa line @ '': '' @ path @ '' is null; omit the key to keep the base value'')]
          else []
      | MappingNode \<Rightarrow> nulls_in_map content path
      | SequenceNode \<Rightarrow> nulls_in_seq 0 content path
      | _ \<Rightarrow> [])"
| "nulls_in_map (key # v # rest) path = appendNulls v (path @ ''.'' @ y_value key) @ nulls_in_map rest path"
| "nulls_in_map _ path = []"
| "nulls_in_seq i (item # rest) path =
     appendNulls item (path @ ''['' @ itoa (int i) @ '']'') @ nulls_in_seq (i + 1) rest path"
| "nulls_in_seq i [] path = []"

fun metrics_entries :: "yaml_node list \<Rightarrow> yaml_node list" where
  "metrics_entries (key # v # rest) = (if y_value key = ''metrics'' then [v] else []) @ metrics_entries rest"
| "metrics_entries _ = []"

definition overlay_nulls :: "yaml_node \<Rightarrow> go_error list" where
  "overlay_nulls doc =
     (case y_content doc of
        [] \<Rightarrow> []
      | r # _ \<Rightarrow> concat (map (\<lambda>entries. nulls_in_map (y_content entries) ''metrics'') (metrics_entries (y_content r))))"

subsection \<open>Loading\<close>

type_synonym metric_map = "(string \<times> MetricMeta) list"

record Registry =
  rg_metrics :: metric_map
  rg_names :: "string list"

definition newRegistry :: "metric_map \<Rightarrow> Registry" where
  "newRegistry m = \<lparr>rg_metrics = m, rg_names = sort (map fst m)\<rparr>"

definition NewRegistry :: Registry where
  "NewRegistry = newRegistry []"

definition io_EOF :: go_error where "io_EOF = Sentinel ''EOF''"

record registry_env =
  re_default :: string
  re_decode_base :: "string \<Rightarrow> go_error + metric_map"
  re_decode_overlay :: "string \<Rightarrow> go_error + (string \<times> metricOverlay) list"
  re_node :: "string \<Rightarrow> go_error + yaml_node"
  re_ReadFile :: "string \<Rightarrow> go_error + string"

definition decodeRegistryYAML :: "(string \<Rightarrow> go_error + 'a list) \<Rightarrow> string \<Rightarrow> go_error + 'a list" where
  "decodeRegistryYAML decode s =
     (case decode s of
        Inl err \<Rightarrow> if errors_is err io_EOF then Inr [] else Inl (prefix_error ''decoding registry YAML: '' err)
      | Inr v \<Rightarrow> Inr v)"

definition rejectOverlayNulls :: "registry_env \<Rightarrow> string \<Rightarrow> go_error option" where
  "rejectOverlayNulls env s =
     (case re_node env s of
        Inl err \<Rightarrow> Some (prefix_error ''decoding registry YAML: '' err)
      | Inr doc \<Rightarrow> join_errors (overlay_nulls doc))"

definition entry_of :: "metric_map \<Rightarrow> string \<Rightarrow> MetricMeta" where
  "entry_of m name = (case map_of m name of Some meta \<Rightarrow> meta | None \<Rightarrow> zero_MetricMeta)"

text \<open>One overlay entry: the merged metadata replaces the entry when it is valid.\<close>

definition apply_overlay ::
  "(string \<times> metricOverlay) list \<Rightarrow> metric_map \<times> go_error list \<Rightarrow> string \<Rightarrow> metric_map \<times> go_error list" where
  "apply_overlay overlay a name =
     (case a of (base, errs) \<Rightarrow>
        (case map_of overlay name of
           None \<Rightarrow> (base, errs)
         | Some ov \<Rightarrow>
             (let merged = applyTo ov (entry_of base name) in
              case meta_Validate merged name of
                Some err \<Rightarrow> (base, errs @ [prefix_error (''overlay metric '' @ quote name @ '': '') err])
              | None \<Rightarrow> (AList.update name merged base, errs))))"

definition merge_overlay :: "(string \<times> metricOverlay) list \<Rightarrow> metric_map \<Rightarrow> metric_map \<times> go_error list" where
  "merge_overlay overlay base = foldl (apply_overlay overlay) (base, []) (sort (map fst overlay))"

definition invalid_entry :: "metric_map \<Rightarrow> go_error option" where
  "invalid_entry m =
     (case find (\<lambda>(name, meta). meta_Validate meta name \<noteq> None) m of
        None \<Rightarrow> None
      | Some (name, meta) \<Rightarrow>
          map_option (prefix_error (''invalid embedded registry entry '' @ quote name @ '': '')) (meta_Validate meta name))"

definition load_overlay :: "registry_env \<Rightarrow> string \<Rightarrow> metric_map \<Rightarrow> go_error + Registry" where
  "load_overlay env path base =
     (case re_ReadFile env path of
        Inl err \<Rightarrow> Inl (prefix_error (''reading '' @ path @ '': '') err)
      | Inr txt \<Rightarrow>
          (case decodeRegistryYAML (re_decode_overlay env) txt of
             Inl err \<Rightarrow> Inl (prefix_error (''parsing '' @ path @ '': '') err)
           | Inr overlay \<Rightarrow>
               (case rejectOverlayNulls env txt of
                  Some err \<Rightarrow> Inl (prefix_error (''parsing '' @ path @ '': '') err)
                | None \<Rightarrow>
                    (case merge_overlay overlay base of
                       (m, errs) \<Rightarrow> (case join_errors errs of Some err \<Rightarrow> Inl err | None \<Rightarrow> Inr (newRegistry m))))))"

definition LoadRegistry :: "registry_env \<Rightarrow> string \<Rightarrow> go_error + Registry" where
  "LoadRegistry env path =
     (case decodeRegistryYAML (re_decode_base env) (re_default env) of
        Inl err \<Rightarrow> Inl (prefix_error ''parsing embedded default registry: '' err)
      | Inr base \<Rightarrow>
          (case invalid_entry base of
             Some err \<Rightarrow> Inl err
           | None \<Rightarrow> if path = [] then Inr (newRegistry base) else load_overlay env path base))"

subsection \<open>Detection from the name\<close>

definition containsAny :: "string \<Rightarrow> string list \<Rightarrow> bool" where
  "containsAny s subs = list_ex (contains s) subs"

definition detected :: "MetricKind \<Rightarrow> string \<Rightarrow> BetterDirection \<Rightarrow> MetricMeta" where
  "detected k u d =
     zero_MetricMeta\<lparr>mm_AutoDetected := True, mm_Kind := k, mm_Unit := u, mm_BetterDirection := d\<rparr>"

definition autoDetect :: "string \<Rightarrow> MetricMeta" where
  "autoDetect metricType =
     (let l = to_lower metricType; s = (case cut_char (CHR ''/'') l of Some (_, r) \<Rightarrow> CHR ''/'' # r | None \<Rightarrow> l) in
      if containsAny s [''lag'', ''staleness'', ''freshness'', ''_age'', ''seconds_since'', ''oldest_unacked'']
      then detected KindFreshness ''seconds'' DirectionDown
      else if containsAny s [''latency'', ''latencies'', ''duration'', ''response_time'']
      then detected KindLatency ''seconds'' DirectionDown
      else if containsAny s [''error'', ''fault'', ''abort''] then detected KindErrorRate ''count'' DirectionDown
      else if containsAny s [''byte'', ''bytes''] then detected KindThroughput ''bytes'' DirectionNone
      else if containsAny s [''utilization''] then detected KindResourceUtilization ''ratio'' DirectionDown
      else if containsAny s [''cpu'', ''memory''] then detected KindResourceUtilization ''ratio'' DirectionDown
      else if containsAny s [''count'', ''request'', ''total'', ''num_''] then detected KindThroughput ''count'' DirectionNone
      else detected KindUnknown [] DirectionNone)"

subsection \<open>Lookup and search\<close>

definition Lookup :: "Registry \<Rightarrow> string \<Rightarrow> MetricMeta" where
  "Lookup r metricType =
     (case map_of (rg_metrics r) metricType of Some meta \<Rightarrow> meta | None \<Rightarrow> autoDetect metricType)"

definition serviceToken :: "string \<Rightarrow> string" where
  "serviceToken metricType = takeWhile (\<lambda>c. c \<noteq> CHR ''.'' \<and> c \<noteq> CHR ''/'') (to_lower metricType)"

definition metricMatches :: "string \<Rightarrow> MetricMeta \<Rightarrow> string \<Rightarrow> bool" where
  "metricMatches name meta lowerMatch =
     (contains (to_lower name) lowerMatch \<or>
      (serviceToken name \<noteq> [] \<and> contains (serviceToken name) lowerMatch) \<or>
      list_ex (\<lambda>k. contains (to_lower k) lowerMatch) (mm_Keywords meta))"

text \<open>The filter on the kind is an empty string when there is none. The entries in the order of \<open>yield\<close>.\<close>

definition Registry_List :: "Registry \<Rightarrow> string \<Rightarrow> MetricKind \<Rightarrow> (string \<times> MetricMeta) list" where
  "Registry_List r pattern kind =
     filter (\<lambda>(name, meta). (kind_text kind = [] \<or> mm_Kind meta = kind) \<and>
               (to_lower pattern = [] \<or> metricMatches name meta (to_lower pattern)))
       (map (\<lambda>name. (name, entry_of (rg_metrics r) name)) (rg_names r))"

definition Names :: "Registry \<Rightarrow> string list" where
  "Names r = rg_names r"

definition Count :: "Registry \<Rightarrow> nat" where
  "Count r = length (rg_metrics r)"

definition RelatedMetrics :: "Registry \<Rightarrow> string \<Rightarrow> string list" where
  "RelatedMetrics r metricType = (case map_of (rg_metrics r) metricType of Some meta \<Rightarrow> mm_RelatedMetrics meta | None \<Rightarrow> [])"

end
