(* ===== verification/Metric_Registry_Props.thy ===== *)
theory Metric_Registry_Props
  imports Metric_Registry
begin

text \<open>
  Correctness of the registry: what loads is valid, an overlay changes exactly the entries it names,
  field by field, and every answer of a lookup is usable by the query layer.
\<close>

lemma join_errors_None [simp]: "join_errors es = None \<longleftrightarrow> es = []"
  by (simp add: join_errors_def)

lemma join_errors_Nil [simp]: "join_errors [] = None"
  by simp

lemma aggregation_Validate_None: "aggregation_Validate a = None \<longleftrightarrow> aggregation_errors a = []"
  by (simp add: aggregation_Validate_def)

subsection \<open>Detection and defaults are valid\<close>

lemma detected_valid: "kind_IsValid k \<Longrightarrow> direction_IsValid d \<Longrightarrow> meta_Validate (detected k u d) name = None"
  by (simp add: meta_Validate_def detected_def zero_MetricMeta_def opt_error_def Let_def)

lemma autoDetect_valid: "meta_Validate (autoDetect t) name = None"
proof -
  have k: "kind_IsValid KindFreshness" "kind_IsValid KindLatency" "kind_IsValid KindErrorRate" "kind_IsValid KindThroughput"
    "kind_IsValid KindResourceUtilization" "kind_IsValid KindUnknown" "direction_IsValid DirectionDown" "direction_IsValid DirectionNone"
    by (simp_all add: kind_IsValid_def validMetricKinds_def direction_IsValid_def)
  show ?thesis unfolding autoDetect_def Let_def by (simp add: detected_valid k)
qed

lemma default_aggregation_valid: "aggregation_Validate (DefaultAggregation k) = None"
  by (cases k) (simp_all add: aggregation_Validate_None aggregation_errors_def single_stage_def no_reducer_def)

lemma meta_valid_aggregation: "meta_Validate m name = None \<Longrightarrow> mm_Aggregation m = Some a \<Longrightarrow> aggregation_Validate a = None"
  by (auto simp: meta_Validate_def Let_def split: option.splits)

lemma resolved_aggregation_valid: "meta_Validate m name = None \<Longrightarrow> aggregation_Validate (ResolveAggregation m) = None"
  by (auto simp: ResolveAggregation_def default_aggregation_valid meta_valid_aggregation split: option.split)

subsection \<open>Loading\<close>

definition valid_entries :: "metric_map \<Rightarrow> bool" where
  "valid_entries m = (distinct (map fst m) \<and> (\<forall>(name, meta) \<in> set m. meta_Validate meta name = None))"

lemma invalid_entry_None:
  "distinct (map fst m) \<Longrightarrow> invalid_entry m = None \<Longrightarrow> valid_entries m"
proof -
  assume "distinct (map fst m)" and none: "invalid_entry m = None"
  have "find (\<lambda>(name, meta). meta_Validate meta name \<noteq> None) m = None"
  proof (rule ccontr)
    assume "find (\<lambda>(name, meta). meta_Validate meta name \<noteq> None) m \<noteq> None"
    then obtain name meta where f: "find (\<lambda>(name, meta). meta_Validate meta name \<noteq> None) m = Some (name, meta)" by auto
    then have "meta_Validate meta name \<noteq> None" by (auto simp: find_Some_iff)
    with f none show False by (auto simp: invalid_entry_def)
  qed
  with \<open>distinct (map fst m)\<close> show ?thesis
    by (auto simp: valid_entries_def find_None_iff)
qed

lemma update_valid:
  assumes "valid_entries m" "meta_Validate meta name = None"
  shows "valid_entries (AList.update name meta m)"
proof -
  have "set (AList.update name meta m) \<subseteq> insert (name, meta) (set m)"
    by (induction m) auto
  with assms show ?thesis
    unfolding valid_entries_def by (auto simp: distinct_update dest: subsetD)
qed

lemma apply_overlay_valid: "valid_entries (fst a) \<Longrightarrow> valid_entries (fst (apply_overlay ov a name))"
  by (auto simp: apply_overlay_def Let_def update_valid split: prod.splits option.splits)

lemma apply_overlays_valid: "valid_entries (fst a) \<Longrightarrow> valid_entries (fst (foldl (apply_overlay ov) a names))"
  by (induction names arbitrary: a) (simp_all add: apply_overlay_valid)

lemma apply_overlay_errs: "snd a \<noteq> [] \<Longrightarrow> snd (apply_overlay ov a name) \<noteq> []"
  by (auto simp: apply_overlay_def Let_def split: prod.splits option.splits)

lemma apply_overlays_errs: "snd (foldl (apply_overlay ov) a names) = [] \<Longrightarrow> snd a = []"
proof (induction names arbitrary: a)
  case (Cons n names)
  then have "snd (apply_overlay ov a n) = []" by simp
  then show ?case using apply_overlay_errs by blast
qed simp

text \<open>Without errors the names of the overlay are replaced by the merged entries.\<close>

lemma apply_overlays_exact:
  assumes "distinct names" "set names \<subseteq> dom (map_of ov)" "snd (foldl (apply_overlay ov) a names) = []"
    and "map_of (fst a) = (\<lambda>n. if n \<in> seen then merged n else map_of base n)" "seen \<inter> set names = {}"
    and "\<And>n. n \<in> dom (map_of ov) \<Longrightarrow> merged n = Some (applyTo (the (map_of ov n)) (entry_of base n))"
  shows "map_of (fst (foldl (apply_overlay ov) a names)) = (\<lambda>n. if n \<in> seen \<union> set names then merged n else map_of base n)"
  using assms(1-5)
proof (induction names arbitrary: a seen)
  case Nil
  then show ?case by simp
next
  case (Cons n names)
  obtain m es where a: "a = (m, es)" by (cases a)
  obtain o1 where ov: "map_of ov n = Some o1" using Cons.prems(2) by auto
  have errs: "snd (apply_overlay ov a n) = []"
    using Cons.prems(3) apply_overlays_errs [of ov "apply_overlay ov a n" names] by simp
  have same: "entry_of m n = entry_of base n"
    using Cons.prems(4,5) by (simp add: entry_of_def a)
  have step: "fst (apply_overlay ov a n) = AList.update n (applyTo o1 (entry_of base n)) m"
    using errs by (auto simp: apply_overlay_def a ov same Let_def split: option.splits)
  have "merged n = Some (applyTo o1 (entry_of base n))" using assms(6) [of n] ov by auto
  then have "map_of (fst (apply_overlay ov a n)) = (\<lambda>k. if k \<in> insert n seen then merged k else map_of base k)"
    using Cons.prems(4) unfolding step by (auto simp: update_conv' a)
  then show ?case
    using Cons.IH [of "apply_overlay ov a n" "insert n seen"] Cons.prems by auto
qed

lemma decode_ok: "decodeRegistryYAML decode s = Inr v \<Longrightarrow> v = [] \<or> decode s = Inr v"
  by (auto simp: decodeRegistryYAML_def split: sum.splits if_splits)

lemma load_cases:
  assumes "LoadRegistry env path = Inr r"
  obtains base where "decodeRegistryYAML (re_decode_base env) (re_default env) = Inr base" "invalid_entry base = None"
      "path = []" "r = newRegistry base"
  | base body ov m where "decodeRegistryYAML (re_decode_base env) (re_default env) = Inr base" "invalid_entry base = None"
      "path \<noteq> []" "re_ReadFile env path = Inr body" "decodeRegistryYAML (re_decode_overlay env) body = Inr ov"
      "rejectOverlayNulls env body = None" "merge_overlay ov base = (m, [])" "r = newRegistry m"
  using assms by (auto simp: LoadRegistry_def load_overlay_def split: sum.splits option.splits if_splits prod.splits)

lemma base_entries_valid:
  assumes "\<forall>s m. re_decode_base env s = Inr m \<longrightarrow> distinct (map fst m)"
    and "decodeRegistryYAML (re_decode_base env) s = Inr base" "invalid_entry base = None"
  shows "valid_entries base"
proof (rule invalid_entry_None)
  show "distinct (map fst base)" using decode_ok [OF assms(2)] assms(1) by auto
qed fact

lemma loaded_entries_valid:
  assumes "LoadRegistry env path = Inr r"
    and "\<forall>s m. re_decode_base env s = Inr m \<longrightarrow> distinct (map fst m)"
  shows "valid_entries (rg_metrics r) \<and> rg_names r = sort (map fst (rg_metrics r))"
  using assms(1)
proof (cases rule: load_cases)
  case (1 base)
  then show ?thesis using base_entries_valid [OF assms(2)] by (simp add: newRegistry_def)
next
  case (2 base body ov m)
  then have "valid_entries m"
    using apply_overlays_valid [of "(base, [])" ov "sort (map fst ov)"] base_entries_valid [OF assms(2)]
    by (simp add: merge_overlay_def)
  with 2 show ?thesis by (simp add: newRegistry_def)
qed

text \<open>
  Every answer of a loaded registry can be used: the metadata that a lookup returns, configured
  or detected from the name, passes validation, and the aggregation resolved from it passes the check
  of the query layer. The assumption states that the decoder yields a map.
\<close>

theorem loaded_lookup_usable:
  assumes "LoadRegistry env path = Inr r"
    and "\<forall>s m. re_decode_base env s = Inr m \<longrightarrow> distinct (map fst m)"
  shows "meta_Validate (Lookup r t) t = None \<and> aggregation_Validate (ResolveAggregation (Lookup r t)) = None"
proof -
  have "meta_Validate (Lookup r t) t = None"
    using loaded_entries_valid [OF assms]
    by (auto simp: Lookup_def autoDetect_valid valid_entries_def split: option.split dest: map_of_SomeD)
  then show ?thesis using resolved_aggregation_valid by blast
qed

text \<open>
  C28: A loaded registry holds the defaults with the overlay on top: each metric of the overlay has its
  entry merged field by field into the default one (or into the zero entry), every other metric keeps
  the default entry; the names are the metrics in ascending order, each once.
\<close>

theorem overlay_merges_exactly:
  assumes "LoadRegistry env path = Inr r" "path \<noteq> []" "re_ReadFile env path = Inr body"
    and "re_decode_base env (re_default env) = Inr base" "distinct (map fst base)"
    and "re_decode_overlay env body = Inr ov" "distinct (map fst ov)"
  shows "map_of (rg_metrics r) =
      (\<lambda>name. case map_of ov name of Some o1 \<Rightarrow> Some (applyTo o1 (entry_of base name)) | None \<Rightarrow> map_of base name) \<and>
    set (rg_names r) = set (map fst base) \<union> set (map fst ov) \<and> sorted (rg_names r) \<and> distinct (rg_names r)"
  using assms(1)
proof (cases rule: load_cases)
  case (2 base' body' ov' m)
  then have same: "base' = base" "ov' = ov" using assms by (auto simp: decodeRegistryYAML_def)
  define merged where "merged n = (case map_of ov n of Some o1 \<Rightarrow> Some (applyTo o1 (entry_of base n)) | None \<Rightarrow> None)" for n
  have fold: "foldl (apply_overlay ov) (base, []) (sort (map fst ov)) = (m, [])"
    using 2 by (simp add: merge_overlay_def same)
  have dom: "set (map fst ov) = dom (map_of ov)" by (simp add: dom_map_of_conv_image_fst)
  have "map_of (fst (foldl (apply_overlay ov) (base, []) (sort (map fst ov)))) =
      (\<lambda>n. if n \<in> {} \<union> set (sort (map fst ov)) then merged n else map_of base n)"
    by (rule apply_overlays_exact) (auto simp: assms(7) dom [simplified] fold merged_def)
  then have m: "map_of m = (\<lambda>n. case map_of ov n of Some o1 \<Rightarrow> Some (applyTo o1 (entry_of base n)) | None \<Rightarrow> map_of base n)"
    using dom by (auto simp: fold merged_def fun_eq_iff split: option.split)
  have "valid_entries base"
    using invalid_entry_None assms(5) 2(2) same by simp
  then have "valid_entries m"
    using apply_overlays_valid [of "(base, [])" ov "sort (map fst ov)"] by (simp add: fold)
  then have dm: "distinct (map fst m)" by (simp add: valid_entries_def)
  have "set (map fst m) = dom (map_of m)" by (simp add: dom_map_of_conv_image_fst)
  also have "\<dots> = dom (map_of base) \<union> dom (map_of ov)" unfolding m by (auto simp: dom_def split: option.splits)
  finally have "set (map fst m) = set (map fst base) \<union> set (map fst ov)"
    by (simp add: dom_map_of_conv_image_fst)
  with m dm 2(8) show ?thesis by (simp add: newRegistry_def)
qed (use assms(2) in simp)

subsection \<open>Examples\<close>

definition ex_base :: metric_map where
  "ex_base = [(''a/count'', detected KindThroughput ''count'' DirectionNone), (''a/lag'', detected KindFreshness ''seconds'' DirectionDown)]"

definition ex_overlay :: metricOverlay where
  "ex_overlay = \<lparr>mo_Kind = Some KindErrorRate, mo_Unit = None, mo_BetterDirection = Some DirectionDown, mo_SLOThreshold = Some (Fin 2),
     mo_SaturationCap = None, mo_RelatedMetrics = [''a/lag''], mo_Keywords = [], mo_Thresholds = None, mo_Aggregation = None\<rparr>"

definition ex_env :: registry_env where
  "ex_env = \<lparr>re_default = ''base'', re_decode_base = (\<lambda>s. Inr ex_base), re_decode_overlay = (\<lambda>s. Inr [(''a/count'', ex_overlay)]),
     re_node = (\<lambda>s. Inr (YNode DocumentNode [] [] 1 [])), re_ReadFile = (\<lambda>p. Inr ''overlay'')\<rparr>"

lemma ex_base_valid: "invalid_entry ex_base = None"
  by (simp add: invalid_entry_def ex_base_def detected_valid kind_IsValid_def validMetricKinds_def direction_IsValid_def)

lemma ex_merged_valid: "meta_Validate (applyTo ex_overlay (detected KindThroughput ''count'' DirectionNone)) n = None"
  by (simp add: meta_Validate_def applyTo_def ex_overlay_def detected_def zero_MetricMeta_def opt_error_def setIfPresent_def
      replaceIfPresent_def kind_IsValid_def validMetricKinds_def direction_IsValid_def fzero_def finite64_iff Let_def)

lemma ex_registry_load: "LoadRegistry ex_env ''f'' = Inr (newRegistry (AList.update ''a/count''
    (applyTo ex_overlay (detected KindThroughput ''count'' DirectionNone)) ex_base))"
proof -
  have "entry_of ex_base ''a/count'' = detected KindThroughput ''count'' DirectionNone"
    by (simp add: entry_of_def ex_base_def)
  then have "merge_overlay [(''a/count'', ex_overlay)] ex_base =
      (AList.update ''a/count'' (applyTo ex_overlay (detected KindThroughput ''count'' DirectionNone)) ex_base, [])"
    by (simp add: merge_overlay_def apply_overlay_def ex_merged_valid)
  then show ?thesis
    using ex_base_valid
    by (simp add: LoadRegistry_def load_overlay_def ex_env_def decodeRegistryYAML_def rejectOverlayNulls_def overlay_nulls_def)
qed

lemma ex_maps: "\<forall>s m. re_decode_base ex_env s = Inr m \<longrightarrow> distinct (map fst m)" "distinct (map fst ex_base)"
  by (auto simp: ex_env_def ex_base_def)

theorem loaded_lookup_usable_witness:
  "\<exists>r. LoadRegistry ex_env ''f'' = Inr r \<and> meta_Validate (Lookup r ''b/latency'') ''b/latency'' = None"
  using loaded_lookup_usable [OF ex_registry_load ex_maps(1), of "''b/latency''"] ex_registry_load by blast

theorem overlay_merges_exactly_witness:
  "\<exists>r. LoadRegistry ex_env ''f'' = Inr r \<and> map_of (rg_metrics r) ''a/lag'' = map_of ex_base ''a/lag'' \<and>
     map_of (rg_metrics r) ''a/count'' = Some (applyTo ex_overlay (entry_of ex_base ''a/count''))"
  using overlay_merges_exactly [OF ex_registry_load, of "''overlay''" ex_base "[(''a/count'', ex_overlay)]"] ex_maps(2) ex_registry_load
  by (simp add: ex_env_def)

end
