(* ===== verification/Metric_Query.thy ===== *)
theory Metric_Query
  imports Metric_Types Log_Types
begin

text \<open>
  Time series from Cloud Monitoring (\<open>internal/gcpdata/metrics.go\<close>): decoding of the points and
  labels, the request, and the second stage of a two-stage aggregation. The client is a parameter:
  a list call yields the items the iterator delivers and the error that ends it, if it is not
  \<open>iterator.Done\<close>. A nil map and an empty one have the same JSON form and are one value here. Where
  the code panics the result is \<open>None\<close>.
\<close>

subsection \<open>Types\<close>

datatype GcpMetricKind = MetricKindGauge | MetricKindDelta | MetricKindCumulative | OtherMetricKind string

fun EmptyWindowReason :: "GcpMetricKind \<Rightarrow> string" where
  "EmptyWindowReason MetricKindDelta = ''no events occurred in the window (the counter was inactive)''"
| "EmptyWindowReason MetricKindCumulative = ''no events occurred in the window (the counter was inactive)''"
| "EmptyWindowReason MetricKindGauge =
     ''no matching resources reported values in the window (check that they exist and the metric is being collected)''"
| "EmptyWindowReason _ = ''no data in window''"

record LabelDescriptor =
  ld_Key :: string
  ld_Description :: string

record MetricDescriptorInfo =
  md_Type :: string
  md_DisplayName :: string
  md_Description :: string
  md_MetricKind :: GcpMetricKind
  md_ValueType :: string
  md_Unit :: string
  md_Labels :: "LabelDescriptor list"
  md_MonitoredResourceTypes :: "string list"

record MonitoredResourceDescriptor =
  mr_Type :: string
  mr_DisplayName :: string
  mr_Labels :: "string list"

definition MaxTimeSeries :: nat where "MaxTimeSeries = 500"

type_synonym label_map = "(string \<times> string) list"

record MetricTimeSeries =
  ts_MetricLabels :: label_map
  ts_ResourceLabels :: label_map
  ts_MetadataSystemLabels :: label_map
  ts_MetadataUserLabels :: label_map
  ts_MetricKind :: GcpMetricKind
  ts_ValueType :: string
  ts_Points :: "Point list"

record MetricDescriptorBasic =
  mb_Kind :: GcpMetricKind
  mb_ValueType :: string
  mb_Labels :: "LabelDescriptor list"
  mb_MonitoredResourceTypes :: "string list"

datatype GcpReducer = REDUCE_NONE | REDUCE_MEAN | REDUCE_MIN | REDUCE_MAX | REDUCE_SUM
datatype GcpAligner = ALIGN_DELTA | ALIGN_RATE | ALIGN_MEAN

record QueryTimeSeriesParams =
  qp_Project :: string
  qp_MetricType :: string
  qp_LabelFilter :: string
  qp_Start :: gtime
  qp_End :: gtime
  qp_StepSeconds :: int
  qp_MetricKind :: GcpMetricKind
  qp_ValueType :: string
  qp_GroupByFields :: "string list"
  qp_Reducer :: GcpReducer

record QueryWarnings =
  qw_UnsupportedPoints :: nat
  qw_NonFinitePoints :: nat
  qw_SingleGroup :: bool
  qw_CarryForwardBuckets :: nat
  qw_DepartedGroupBuckets :: nat
  qw_DepartedSeries :: nat
  qw_TotalBuckets :: nat
  qw_GroupCount :: nat
  qw_TruncatedSeries :: bool

definition no_warnings :: QueryWarnings where
  "no_warnings = \<lparr>qw_UnsupportedPoints = 0, qw_NonFinitePoints = 0, qw_SingleGroup = False, qw_CarryForwardBuckets = 0,
     qw_DepartedGroupBuckets = 0, qw_DepartedSeries = 0, qw_TotalBuckets = 0, qw_GroupCount = 0, qw_TruncatedSeries = False\<rparr>"

definition warnings_Add :: "QueryWarnings \<Rightarrow> QueryWarnings \<Rightarrow> QueryWarnings" where
  "warnings_Add w v =
     \<lparr>qw_UnsupportedPoints = qw_UnsupportedPoints w + qw_UnsupportedPoints v,
      qw_NonFinitePoints = qw_NonFinitePoints w + qw_NonFinitePoints v,
      qw_SingleGroup = (qw_SingleGroup w \<or> qw_SingleGroup v),
      qw_CarryForwardBuckets = qw_CarryForwardBuckets w + qw_CarryForwardBuckets v,
      qw_DepartedGroupBuckets = qw_DepartedGroupBuckets w + qw_DepartedGroupBuckets v,
      qw_DepartedSeries = qw_DepartedSeries w + qw_DepartedSeries v,
      qw_TotalBuckets = qw_TotalBuckets w + qw_TotalBuckets v,
      qw_GroupCount = (if qw_SingleGroup v then qw_GroupCount v else qw_GroupCount w),
      qw_TruncatedSeries = (qw_TruncatedSeries w \<or> qw_TruncatedSeries v)\<rparr>"

subsection \<open>Values of the API\<close>

text \<open>A distribution is its count and mean; the value of a metadata label is a \<open>structpb.Value\<close>.\<close>

datatype TypedValue = Int64Value int | DoubleValue float64 | DistributionValue "(int \<times> float64) option" | OtherValue

definition extractValue :: "TypedValue \<Rightarrow> float64 option" where
  "extractValue v =
     (case v of
        Int64Value n \<Rightarrow> Some (fint n)
      | DoubleValue x \<Rightarrow> Some x
      | DistributionValue None \<Rightarrow> None
      | DistributionValue (Some (n, m)) \<Rightarrow> if n = 0 then None else Some m
      | OtherValue \<Rightarrow> None)"

datatype StructValue = SV_String string | SV_Number float64 | SV_Bool bool | SV_Null | SV_Struct | SV_List | SV_Unset

definition flattenStructValue :: "StructValue option \<Rightarrow> string option" where
  "flattenStructValue v =
     (case v of
        Some (SV_String s) \<Rightarrow> Some s
      | Some (SV_Number x) \<Rightarrow> Some (format_f x)
      | Some (SV_Bool b) \<Rightarrow> Some (if b then ''true'' else ''false'')
      | _ \<Rightarrow> None)"

record raw_point =
  rp_EndTime :: "gtime option"
  rp_Value :: "TypedValue option"

record raw_series =
  rs_MetricKind :: GcpMetricKind
  rs_ValueType :: string
  rs_MetricLabels :: label_map
  rs_ResourceLabels :: label_map
  rs_SystemLabels :: "(string \<times> StructValue option) list"
  rs_UserLabels :: label_map
  rs_Points :: "raw_point list"

text \<open>One point: a point without an end or a value is skipped, the others are kept or counted.\<close>

definition decode_point :: "Point list \<times> QueryWarnings \<Rightarrow> raw_point \<Rightarrow> Point list \<times> QueryWarnings" where
  "decode_point a p =
     (case a of (ps, w) \<Rightarrow>
        (case (rp_EndTime p, rp_Value p) of
           (Some t, Some v) \<Rightarrow>
             (case extractValue v of
                None \<Rightarrow> (ps, w\<lparr>qw_UnsupportedPoints := qw_UnsupportedPoints w + 1\<rparr>)
              | Some x \<Rightarrow>
                  if is_nan x \<or> is_inf x then (ps, w\<lparr>qw_NonFinitePoints := qw_NonFinitePoints w + 1\<rparr>)
                  else (ps @ [\<lparr>pt_Timestamp = t, pt_Value = x\<rparr>], w))
         | _ \<Rightarrow> (ps, w)))"

definition decode_series :: "raw_series \<Rightarrow> QueryWarnings \<Rightarrow> MetricTimeSeries \<times> QueryWarnings" where
  "decode_series r w =
     (case foldl decode_point ([], w) (rs_Points r) of
        (ps, w) \<Rightarrow>
          (\<lparr>ts_MetricLabels = rs_MetricLabels r, ts_ResourceLabels = rs_ResourceLabels r,
            ts_MetadataSystemLabels =
              List.map_filter (\<lambda>(k, v). map_option (\<lambda>s. (k, s)) (flattenStructValue v)) (rs_SystemLabels r),
            ts_MetadataUserLabels = rs_UserLabels r, ts_MetricKind = rs_MetricKind r, ts_ValueType = rs_ValueType r,
            ts_Points = ps\<rparr>, w))"

subsection \<open>The request\<close>

record ts_aggregation =
  qa_AlignmentPeriod :: int
  qa_PerSeriesAligner :: GcpAligner
  qa_GroupByFields :: "string list"
  qa_CrossSeriesReducer :: GcpReducer

definition selectAligner :: "GcpMetricKind \<Rightarrow> string \<Rightarrow> GcpAligner" where
  "selectAligner kind valueType =
     (if valueType = ''DISTRIBUTION''
      then (if kind = MetricKindDelta \<or> kind = MetricKindCumulative then ALIGN_DELTA else ALIGN_MEAN)
      else (if kind = MetricKindDelta \<or> kind = MetricKindCumulative then ALIGN_RATE else ALIGN_MEAN))"

definition buildAggregation :: "GcpMetricKind \<Rightarrow> string \<Rightarrow> int \<Rightarrow> string list \<Rightarrow> GcpReducer \<Rightarrow> ts_aggregation" where
  "buildAggregation kind valueType step groupBy reducer =
     \<lparr>qa_AlignmentPeriod = step, qa_PerSeriesAligner = selectAligner kind valueType,
      qa_GroupByFields = groupBy, qa_CrossSeriesReducer = reducer\<rparr>"

record ts_request =
  tr_Name :: string
  tr_Filter :: string
  tr_Start :: gtime
  tr_End :: gtime
  tr_Aggregation :: ts_aggregation

definition metric_filter :: "string \<Rightarrow> string" where
  "metric_filter t = ''metric.type = '' @ [CHR 0x22] @ EscapeFilterValue t @ [CHR 0x22]"

definition series_request :: "QueryTimeSeriesParams \<Rightarrow> ts_request" where
  "series_request p =
     \<lparr>tr_Name = ''projects/'' @ qp_Project p,
      tr_Filter = metric_filter (qp_MetricType p) @ (if qp_LabelFilter p \<noteq> [] then '' AND '' @ qp_LabelFilter p else []),
      tr_Start = qp_Start p, tr_End = qp_End p,
      tr_Aggregation = buildAggregation (qp_MetricKind p) (qp_ValueType p) (qp_StepSeconds p) (qp_GroupByFields p) (qp_Reducer p)\<rparr>"

type_synonym 'a call_result = "'a list \<times> go_error option"

record monitoring_client =
  mc_ListTimeSeries :: "ts_request \<Rightarrow> raw_series call_result"
  mc_ListMetricDescriptors :: "string \<Rightarrow> string \<Rightarrow> int option \<Rightarrow> MetricDescriptorInfo call_result"
  mc_ListMonitoredResourceDescriptors :: "string \<Rightarrow> MonitoredResourceDescriptor call_result"

fun query_loop ::
  "raw_series list \<Rightarrow> go_error option \<Rightarrow> MetricTimeSeries list \<Rightarrow> QueryWarnings \<Rightarrow>
   (go_error + MetricTimeSeries list) \<times> QueryWarnings" where
  "query_loop [] end_err result w =
     (case end_err of Some err \<Rightarrow> (Inl (prefix_error ''listing time series: '' err), w) | None \<Rightarrow> (Inr result, w))"
| "query_loop (r # rs) end_err result w =
     (if length result = MaxTimeSeries then (Inr result, w\<lparr>qw_TruncatedSeries := True\<rparr>)
      else (case decode_series r w of (s, w) \<Rightarrow> query_loop rs end_err (result @ [s]) w))"

definition QueryTimeSeries ::
  "monitoring_client \<Rightarrow> QueryTimeSeriesParams \<Rightarrow> (go_error + MetricTimeSeries list) \<times> QueryWarnings" where
  "QueryTimeSeries q p =
     (case mc_ListTimeSeries q (series_request p) of (rs, end_err) \<Rightarrow> query_loop rs end_err [] no_warnings)"

subsection \<open>Descriptors\<close>

definition ListMetricDescriptors ::
  "monitoring_client \<Rightarrow> string \<Rightarrow> string \<Rightarrow> int \<Rightarrow> go_error + MetricDescriptorInfo list" where
  "ListMetricDescriptors q project filt limit =
     (case mc_ListMetricDescriptors q (''projects/'' @ project) filt (if 0 < limit then Some (safeInt32 limit) else None) of
        (ds, end_err) \<Rightarrow>
          if 0 < limit \<and> nat limit \<le> length ds then Inr (take (nat limit) ds)
          else (case end_err of Some err \<Rightarrow> Inl (prefix_error ''listing metric descriptors: '' err) | None \<Rightarrow> Inr ds))"

definition GetMetricDescriptor :: "monitoring_client \<Rightarrow> string \<Rightarrow> string \<Rightarrow> go_error + MetricDescriptorBasic" where
  "GetMetricDescriptor q project metricType =
     (case ListMetricDescriptors q project (metric_filter metricType) 1 of
        Inl err \<Rightarrow> Inl err
      | Inr [] \<Rightarrow> Inl (Sentinel (''metric descriptor not found for '' @ quote metricType @ '' in project '' @ quote project))
      | Inr (d # _) \<Rightarrow> Inr \<lparr>mb_Kind = md_MetricKind d, mb_ValueType = md_ValueType d, mb_Labels = md_Labels d,
                              mb_MonitoredResourceTypes = md_MonitoredResourceTypes d\<rparr>)"

definition listMonitoredResourceDescriptors ::
  "monitoring_client \<Rightarrow> string \<Rightarrow> go_error + MonitoredResourceDescriptor list" where
  "listMonitoredResourceDescriptors q project =
     (case mc_ListMonitoredResourceDescriptors q (''projects/'' @ project) of
        (ds, Some err) \<Rightarrow> Inl (prefix_error ''listing monitored resource descriptors: '' err)
      | (ds, None) \<Rightarrow> Inr ds)"

subsection \<open>Reducers\<close>

definition larger :: "float64 \<Rightarrow> float64 \<Rightarrow> float64" where
  "larger mx v = (if flt mx v then v else mx)"

definition smaller :: "float64 \<Rightarrow> float64 \<Rightarrow> float64" where
  "smaller mn v = (if flt v mn then v else mn)"

definition applyReducer :: "float64 list \<Rightarrow> Reducer \<Rightarrow> float64 option" where
  "applyReducer vs r =
     (case r of
        ReducerSum \<Rightarrow> Some (foldl fadd fzero vs)
      | ReducerMax \<Rightarrow> Some (foldl larger (hd vs) (tl vs))
      | ReducerMin \<Rightarrow> Some (foldl smaller (hd vs) (tl vs))
      | ReducerMean \<Rightarrow> Some (fdiv (foldl fadd fzero vs) (fint (int (length vs))))
      | OtherReducer s \<Rightarrow> None)"

fun ReducerToGCP :: "Reducer \<Rightarrow> GcpReducer option" where
  "ReducerToGCP ReducerSum = Some REDUCE_SUM"
| "ReducerToGCP ReducerMax = Some REDUCE_MAX"
| "ReducerToGCP ReducerMin = Some REDUCE_MIN"
| "ReducerToGCP ReducerMean = Some REDUCE_MEAN"
| "ReducerToGCP (OtherReducer s) = None"

subsection \<open>Folding the groups\<close>

text \<open>\<open>UnixNano\<close> is an \<open>int64\<close>.\<close>

definition UnixNano :: "gtime \<Rightarrow> int" where
  "UnixNano t = wrap64 t"

text \<open>A later point of a series with the same timestamp replaces the earlier one.\<close>

definition series_index :: "MetricTimeSeries \<Rightarrow> (int \<times> float64) list" where
  "series_index s = rev (map (\<lambda>p. (UnixNano (pt_Timestamp p), pt_Value p)) (ts_Points s))"

definition bucket_times :: "MetricTimeSeries list \<Rightarrow> int list" where
  "bucket_times series = sort (remdups (concat (map (\<lambda>s. map (\<lambda>p. UnixNano (pt_Timestamp p)) (ts_Points s)) series)))"

definition maxCarryForwardBuckets :: nat where "maxCarryForwardBuckets = 3"

record group_state =
  gs_carried :: float64
  gs_started :: bool
  gs_carryStreak :: nat
  gs_hasDepartedOnce :: bool

definition new_group :: group_state where
  "new_group = \<lparr>gs_carried = fzero, gs_started = False, gs_carryStreak = 0, gs_hasDepartedOnce = False\<rparr>"

record bucket =
  bk_values :: "float64 list"
  bk_carried :: nat
  bk_departed :: nat
  bk_newDeparted :: nat

definition new_bucket :: bucket where
  "new_bucket = \<lparr>bk_values = [], bk_carried = 0, bk_departed = 0, bk_newDeparted = 0\<rparr>"

text \<open>What one series does in one bucket.\<close>

definition visit :: "float64 option \<Rightarrow> group_state \<Rightarrow> bucket \<Rightarrow> group_state \<times> bucket" where
  "visit point g b =
     (case point of
        Some v \<Rightarrow> (g\<lparr>gs_carried := v, gs_started := True, gs_carryStreak := 0\<rparr>, b\<lparr>bk_values := bk_values b @ [v]\<rparr>)
      | None \<Rightarrow>
          if \<not> gs_started g then (g, b)
          else if maxCarryForwardBuckets \<le> gs_carryStreak g then
            (g\<lparr>gs_hasDepartedOnce := True\<rparr>,
             b\<lparr>bk_departed := bk_departed b + 1,
               bk_newDeparted := bk_newDeparted b + (if gs_hasDepartedOnce g then 0 else 1)\<rparr>)
          else (g\<lparr>gs_carryStreak := gs_carryStreak g + 1\<rparr>,
                b\<lparr>bk_values := bk_values b @ [gs_carried g], bk_carried := bk_carried b + 1\<rparr>))"

fun visit_all :: "int \<Rightarrow> ((int \<times> float64) list \<times> group_state) list \<Rightarrow> bucket \<Rightarrow>
    ((int \<times> float64) list \<times> group_state) list \<times> bucket" where
  "visit_all ts [] b = ([], b)"
| "visit_all ts ((idx, g) # gs) b =
     (case visit (map_of idx ts) g b of
        (g, b) \<Rightarrow> (case visit_all ts gs b of (gs, b) \<Rightarrow> ((idx, g) # gs, b)))"

text \<open>One bucket, after its series have been visited.\<close>

definition close_bucket :: "Reducer \<Rightarrow> int \<Rightarrow> bucket \<Rightarrow> QueryWarnings \<Rightarrow> (Point list \<times> QueryWarnings) option" where
  "close_bucket reducer ts b w =
     (let w = w\<lparr>qw_DepartedSeries := qw_DepartedSeries w + bk_newDeparted b\<rparr> in
      if bk_values b = [] then Some ([], w)
      else (case applyReducer (bk_values b) reducer of
              None \<Rightarrow> None
            | Some v \<Rightarrow>
                if is_nan v \<or> is_inf v then Some ([], w\<lparr>qw_NonFinitePoints := qw_NonFinitePoints w + 1\<rparr>)
                else Some ([\<lparr>pt_Timestamp = ts, pt_Value = v\<rparr>],
                       if 0 < bk_departed b then w\<lparr>qw_DepartedGroupBuckets := qw_DepartedGroupBuckets w + 1\<rparr>
                       else if 0 < bk_carried b then w\<lparr>qw_CarryForwardBuckets := qw_CarryForwardBuckets w + 1\<rparr>
                       else w)))"

fun fold_buckets :: "Reducer \<Rightarrow> int list \<Rightarrow> ((int \<times> float64) list \<times> group_state) list \<Rightarrow> QueryWarnings \<Rightarrow>
    (Point list \<times> QueryWarnings) option" where
  "fold_buckets reducer [] gs w = Some ([], w)"
| "fold_buckets reducer (t # tss) gs w =
     (case visit_all t gs new_bucket of
        (gs, b) \<Rightarrow>
          (case close_bucket reducer t b w of
             None \<Rightarrow> None
           | Some (ps, w) \<Rightarrow>
               (case fold_buckets reducer tss gs w of None \<Rightarrow> None | Some (qs, w) \<Rightarrow> Some (ps @ qs, w))))"

definition foldGroupSeries ::
  "MetricTimeSeries list \<Rightarrow> Reducer \<Rightarrow> QueryWarnings \<Rightarrow> (Point list \<times> QueryWarnings) option" where
  "foldGroupSeries series reducer w =
     (if bucket_times series = [] then Some ([], w)
      else (case fold_buckets reducer (bucket_times series) (map (\<lambda>s. (series_index s, new_group)) series) w of
              None \<Rightarrow> None
            | Some (ps, w) \<Rightarrow> Some (ps, w\<lparr>qw_TotalBuckets := length ps\<rparr>)))"

subsection \<open>The aggregated query\<close>

definition buildAggregatedParams :: "QueryTimeSeriesParams \<Rightarrow> AggregationSpec \<Rightarrow> QueryTimeSeriesParams option" where
  "buildAggregatedParams params spec =
     (if IsTwoStage spec
      then map_option (\<lambda>r. params\<lparr>qp_GroupByFields := ag_GroupBy spec, qp_Reducer := r\<rparr>) (ReducerToGCP (ag_WithinGroup spec))
      else map_option (\<lambda>r. params\<lparr>qp_GroupByFields := [], qp_Reducer := r\<rparr>) (ReducerToGCP (ag_AcrossGroups spec)))"

definition synthetic_series :: "GcpMetricKind \<Rightarrow> string \<Rightarrow> Point list \<Rightarrow> MetricTimeSeries" where
  "synthetic_series kind valueType ps =
     \<lparr>ts_MetricLabels = [], ts_ResourceLabels = [], ts_MetadataSystemLabels = [], ts_MetadataUserLabels = [],
      ts_MetricKind = kind, ts_ValueType = valueType, ts_Points = ps\<rparr>"

definition fold_groups ::
  "QueryTimeSeriesParams \<Rightarrow> AggregationSpec \<Rightarrow> MetricTimeSeries list \<Rightarrow> QueryWarnings \<Rightarrow>
   ((go_error + MetricTimeSeries list) \<times> QueryWarnings) option" where
  "fold_groups params spec groups w =
     (let w = w\<lparr>qw_GroupCount := length groups\<rparr> in
      case groups of
        [] \<Rightarrow> Some (Inr [synthetic_series (qp_MetricKind params) (qp_ValueType params) []], w)
      | g # gs \<Rightarrow>
          map_option (\<lambda>(ps, w). (Inr [synthetic_series (ts_MetricKind g) (ts_ValueType g) ps], w))
            (foldGroupSeries groups (ag_AcrossGroups spec) (if gs = [] then w\<lparr>qw_SingleGroup := True\<rparr> else w)))"

definition QueryTimeSeriesAggregated ::
  "monitoring_client \<Rightarrow> QueryTimeSeriesParams \<Rightarrow> AggregationSpec \<Rightarrow>
   ((go_error + MetricTimeSeries list) \<times> QueryWarnings) option" where
  "QueryTimeSeriesAggregated q params spec =
     (case aggregation_Validate spec of
        Some err \<Rightarrow> Some (Inl (wrap2 ErrInvalidAggregationSpec err), no_warnings)
      | None \<Rightarrow>
          (case buildAggregatedParams params spec of
             None \<Rightarrow> None
           | Some p \<Rightarrow>
               if \<not> IsTwoStage spec then Some (QueryTimeSeries q p)
               else (case QueryTimeSeries q p of
                       (Inl err, w) \<Rightarrow> Some (Inl err, w)
                     | (Inr groups, w) \<Rightarrow> fold_groups params spec groups w)))"

subsection \<open>Labels of resource types (\<open>querier.go\<close>)\<close>

text \<open>
  The cache of the process maps a project to its resource types and their labels; it holds
  successful fetches only. The merging of concurrent misses on one querier is left out: each caller
  loads, and on a miss loads again and fetches.
\<close>

type_synonym resource_cache = "string \<rightharpoonup> (string \<times> string list) list"

definition resource_store :: "resource_cache \<Rightarrow> string \<Rightarrow> (string \<times> string list) list \<Rightarrow> resource_cache" where
  "resource_store c project byType = c(project \<mapsto> byType)"

definition labels_by_type :: "MonitoredResourceDescriptor list \<Rightarrow> (string \<times> string list) list" where
  "labels_by_type ds = rev (map (\<lambda>d. (mr_Type d, mr_Labels d)) ds)"

definition resourceLabelsFor ::
  "monitoring_client \<Rightarrow> resource_cache \<Rightarrow> string \<Rightarrow> resource_cache \<times> (go_error + (string \<times> string list) list)" where
  "resourceLabelsFor q c project =
     (case c project of
        Some byType \<Rightarrow> (c, Inr byType)
      | None \<Rightarrow>
          (case listMonitoredResourceDescriptors q project of
             Inl err \<Rightarrow> (c, Inl err)
           | Inr ds \<Rightarrow> (resource_store c project (labels_by_type ds), Inr (labels_by_type ds))))"

definition GetResourceLabels ::
  "monitoring_client \<Rightarrow> resource_cache \<Rightarrow> string \<Rightarrow> string \<Rightarrow> resource_cache \<times> (go_error + string list option)" where
  "GetResourceLabels q c project resourceType =
     (case resourceLabelsFor q c project of
        (c, Inl err) \<Rightarrow> (c, Inl (prefix_error (''resource labels for project '' @ quote project @ '': '') err))
      | (c, Inr byType) \<Rightarrow> (c, Inr (map_of byType resourceType)))"

end
