(* ===== verification/Metric_Query_Props.thy ===== *)
theory Metric_Query_Props
  imports Metric_Query
begin

text \<open>
  Correctness of the time series queries: the fold of the groups computes, bucket by bucket, the
  reducer of the values the groups hold; its points are ordered and finite and its counters
  consistent; a query is bounded; and no aggregated query reaches a panic.
\<close>

subsection \<open>What a group holds\<close>

text \<open>The latest value among the first \<open>n\<close> of the given times (latest first).\<close>

fun held_within :: "nat \<Rightarrow> (int \<times> float64) list \<Rightarrow> int list \<Rightarrow> float64 option" where
  "held_within 0 idx seen = None"
| "held_within (Suc n) idx [] = None"
| "held_within (Suc n) idx (t # seen) = (case map_of idx t of Some v \<Rightarrow> Some v | None \<Rightarrow> held_within n idx seen)"

text \<open>A group holds its value of the current bucket or of one of the three before.\<close>

definition held :: "(int \<times> float64) list \<Rightarrow> int list \<Rightarrow> float64 option" where
  "held idx seen = held_within (Suc maxCarryForwardBuckets) idx seen"

definition age :: "(int \<times> float64) list \<Rightarrow> int list \<Rightarrow> nat" where
  "age idx seen = length (takeWhile (\<lambda>t. map_of idx t = None) seen)"

definition latest :: "(int \<times> float64) list \<Rightarrow> int list \<Rightarrow> float64 option" where
  "latest idx seen = held_within (length seen) idx seen"

lemma held_within_age: "held_within n idx seen = (if age idx seen < n then latest idx seen else None)"
proof (induction seen arbitrary: n)
  case Nil
  then show ?case by (cases n) (simp_all add: latest_def)
next
  case (Cons t seen)
  then show ?case by (cases n) (auto simp: latest_def age_def split: option.split)
qed

definition group_inv :: "(int \<times> float64) list \<Rightarrow> int list \<Rightarrow> group_state \<Rightarrow> bool" where
  "group_inv idx seen g =
     (case latest idx seen of
        None \<Rightarrow> \<not> gs_started g
      | Some v \<Rightarrow> gs_started g \<and> gs_carried g = v \<and> gs_carryStreak g = min maxCarryForwardBuckets (age idx seen))"

lemma latest_Cons: "latest idx (t # seen) = (case map_of idx t of Some v \<Rightarrow> Some v | None \<Rightarrow> latest idx seen)"
  by (simp add: latest_def split: option.split)

lemma age_Cons: "age idx (t # seen) = (if map_of idx t = None then Suc (age idx seen) else 0)"
  by (simp add: age_def)

definition opt_list :: "'a option \<Rightarrow> 'a list" where
  "opt_list x = (case x of Some v \<Rightarrow> [v] | None \<Rightarrow> [])"

lemma visit_exact:
  assumes "group_inv idx seen g"
  shows "group_inv idx (t # seen) (fst (visit (map_of idx t) g b)) \<and>
    bk_values (snd (visit (map_of idx t) g b)) = bk_values b @ opt_list (held idx (t # seen))"
  using assms
  by (auto simp: group_inv_def visit_def held_def held_within_age [of _ _ "t # seen"] latest_Cons age_Cons opt_list_def
      maxCarryForwardBuckets_def split: option.splits)

lemma visit_all_exact:
  assumes "\<forall>(idx, g) \<in> set gs. group_inv idx seen g" "visit_all t gs b = (gs', b')"
  shows "(\<forall>(idx, g) \<in> set gs'. group_inv idx (t # seen) g) \<and> map fst gs' = map fst gs \<and>
    bk_values b' = bk_values b @ concat (map (\<lambda>idx. opt_list (held idx (t # seen))) (map fst gs))"
  using assms
proof (induction gs arbitrary: b gs' b')
  case (Cons p gs)
  obtain idx g where p: "p = (idx, g)" by (cases p)
  have v: "group_inv idx (t # seen) (fst (visit (map_of idx t) g b))"
    "bk_values (snd (visit (map_of idx t) g b)) = bk_values b @ opt_list (held idx (t # seen))"
    using visit_exact [of idx seen g t b] Cons.prems(1) p by auto
  obtain g1 b1 where 1: "visit (map_of idx t) g b = (g1, b1)" by (cases "visit (map_of idx t) g b")
  obtain gs2 b2 where 2: "visit_all t gs b1 = (gs2, b2)" by (cases "visit_all t gs b1")
  have "gs' = (idx, g1) # gs2" "b' = b2" using Cons.prems(2) by (simp_all add: p 1 2)
  with Cons.IH [OF _ 2] Cons.prems(1) v show ?case by (auto simp: p 1)
qed simp

subsection \<open>The fold\<close>

definition bucket_values :: "MetricTimeSeries list \<Rightarrow> int list \<Rightarrow> float64 list" where
  "bucket_values series seen = concat (map (\<lambda>s. opt_list (held (series_index s) seen)) series)"

text \<open>The point of one bucket, if it has one; the times of the buckets so far are given, latest first.\<close>

definition bucket_point :: "Reducer \<Rightarrow> MetricTimeSeries list \<Rightarrow> int list \<Rightarrow> Point list" where
  "bucket_point r series seen =
     (if bucket_values series seen = [] then []
      else (case applyReducer (bucket_values series seen) r of
              Some v \<Rightarrow> if finite64 v then [\<lparr>pt_Timestamp = hd seen, pt_Value = v\<rparr>] else []
            | None \<Rightarrow> []))"

definition folded_points :: "Reducer \<Rightarrow> MetricTimeSeries list \<Rightarrow> int list \<Rightarrow> Point list" where
  "folded_points r series stamps =
     concat (map (\<lambda>i. bucket_point r series (rev (take (Suc i) stamps))) [0..<length stamps])"

lemma valid_reducer: "reducer_IsValid r \<Longrightarrow> \<exists>v. applyReducer vs r = Some v"
  by (cases r) (simp_all add: applyReducer_def)

lemma close_bucket_exact:
  assumes "reducer_IsValid r" "bk_values b = bucket_values series (t # seen)"
  shows "\<exists>w'. close_bucket r t b w = Some (bucket_point r series (t # seen), w')"
  using valid_reducer [OF assms(1), of "bk_values b"] assms(2)
  by (auto simp: close_bucket_def bucket_point_def finite64_def Let_def)

lemma fold_buckets_exact:
  assumes "reducer_IsValid r" "\<forall>(idx, g) \<in> set gs. group_inv idx seen g" "map fst gs = map series_index series"
  shows "\<exists>w'. fold_buckets r stamps gs w =
    Some (concat (map (\<lambda>i. bucket_point r series (rev (take (Suc i) stamps) @ seen)) [0..<length stamps]), w')"
  using assms(2,3)
proof (induction stamps arbitrary: gs seen w)
  case Nil
  then show ?case by simp
next
  case (Cons t stamps)
  obtain gs1 b where v: "visit_all t gs new_bucket = (gs1, b)" by (cases "visit_all t gs new_bucket")
  note inv = visit_all_exact [OF Cons.prems(1) v]
  have "bk_values b = bucket_values series (t # seen)"
    using inv Cons.prems(2) by (simp add: new_bucket_def bucket_values_def comp_def)
  from close_bucket_exact [OF assms(1) this] obtain w1 where
    c: "close_bucket r t b w = Some (bucket_point r series (t # seen), w1)" by blast
  obtain w2 where f: "fold_buckets r stamps gs1 w1 =
      Some (concat (map (\<lambda>i. bucket_point r series (rev (take (Suc i) stamps) @ t # seen)) [0..<length stamps]), w2)"
    using Cons.IH [of gs1 "t # seen" w1] inv Cons.prems(2) by auto
  have "[0..<length (t # stamps)] = 0 # map Suc [0..<length stamps]"
    by (simp add: upt_conv_Cons map_Suc_upt del: upt_Suc)
  then show ?case by (simp add: v c f comp_def del: upt_Suc)
qed

lemma fold_exact:
  assumes "reducer_IsValid r"
  shows "\<exists>w'. foldGroupSeries series r w = Some (folded_points r series (bucket_times series), w')"
proof (cases "bucket_times series = []")
  case True
  then show ?thesis by (simp add: foldGroupSeries_def folded_points_def)
next
  case False
  have "\<forall>(idx, g) \<in> set (map (\<lambda>s. (series_index s, new_group)) series). group_inv idx [] g"
    by (auto simp: group_inv_def latest_def new_group_def)
  from fold_buckets_exact [OF assms this, of series "bucket_times series" w] False show ?thesis
    by (auto simp: foldGroupSeries_def folded_points_def comp_def)
qed

text \<open>
  C27: The fold of the groups is exact: at every timestamp of the input, in ascending order, it yields
  the reducer of the values held by the groups, where a group holds its value of this bucket or,
  when it has none, its latest one if that is at most three buckets old; buckets without values and
  values that are not finite are left out.
\<close>

theorem fold_matches_held_values:
  assumes "reducer_IsValid r"
  shows "\<exists>w'. foldGroupSeries series r w = Some (folded_points r series (bucket_times series), w')"
  using assms by (rule fold_exact)

theorem fold_matches_held_values_witness:
  "\<exists>w'. foldGroupSeries [synthetic_series MetricKindGauge [] [\<lparr>pt_Timestamp = 1, pt_Value = Fin 2\<rparr>]] ReducerSum no_warnings
     = Some (folded_points ReducerSum [synthetic_series MetricKindGauge [] [\<lparr>pt_Timestamp = 1, pt_Value = Fin 2\<rparr>]]
         (bucket_times [synthetic_series MetricKindGauge [] [\<lparr>pt_Timestamp = 1, pt_Value = Fin 2\<rparr>]]), w')"
  by (rule fold_matches_held_values) simp

subsection \<open>Order and counters\<close>

definition departed_ever :: "((int \<times> float64) list \<times> group_state) list \<Rightarrow> nat" where
  "departed_ever gs = length (filter (\<lambda>(idx, g). gs_hasDepartedOnce g) gs)"

lemma visit_departed:
  "visit v g b = (g', b') \<Longrightarrow>
   bk_newDeparted b' + (if gs_hasDepartedOnce g then 1 else 0) = bk_newDeparted b + (if gs_hasDepartedOnce g' then 1 else 0)"
  by (auto simp: visit_def split: option.splits if_splits)

lemma visit_all_departed:
  "visit_all t gs b = (gs', b') \<Longrightarrow>
   bk_newDeparted b' + departed_ever gs = bk_newDeparted b + departed_ever gs' \<and> length gs' = length gs"
proof (induction gs arbitrary: b gs' b')
  case (Cons p gs)
  obtain idx g where p: "p = (idx, g)" by (cases p)
  obtain g1 b1 where 1: "visit (map_of idx t) g b = (g1, b1)" by (cases "visit (map_of idx t) g b")
  obtain gs2 b2 where 2: "visit_all t gs b1 = (gs2, b2)" by (cases "visit_all t gs b1")
  have eq: "gs' = (idx, g1) # gs2" "b' = b2" using Cons.prems by (simp_all add: p 1 2)
  show ?case using visit_departed [OF 1] Cons.IH [OF 2] by (auto simp: eq p departed_ever_def)
qed (simp add: departed_ever_def)

definition counted_buckets :: "QueryWarnings \<Rightarrow> nat" where
  "counted_buckets w = qw_CarryForwardBuckets w + qw_DepartedGroupBuckets w"

lemma close_bucket_counts:
  assumes "close_bucket r t b w = Some (ps, w')"
  shows "set ps \<subseteq> {p. pt_Timestamp p = t \<and> finite64 (pt_Value p)} \<and> length ps \<le> 1 \<and>
    counted_buckets w' \<le> counted_buckets w + length ps \<and> qw_DepartedSeries w' = qw_DepartedSeries w + bk_newDeparted b \<and>
    qw_GroupCount w' = qw_GroupCount w"
  using assms
  by (auto simp: close_bucket_def counted_buckets_def finite64_def Let_def split: if_splits option.splits)

lemma fold_buckets_counts:
  assumes "fold_buckets r stamps gs w = Some (ps, w')" "sorted_wrt (<) stamps"
  shows "sorted_wrt (\<lambda>p q. pt_Timestamp p < pt_Timestamp q) ps \<and> pt_Timestamp ` set ps \<subseteq> set stamps \<and>
    (\<forall>p \<in> set ps. finite64 (pt_Value p)) \<and> counted_buckets w' \<le> counted_buckets w + length ps \<and>
    qw_DepartedSeries w' + departed_ever gs \<le> qw_DepartedSeries w + length gs \<and> qw_GroupCount w' = qw_GroupCount w"
  using assms
proof (induction stamps arbitrary: gs w ps w')
  case Nil
  then show ?case by (simp add: departed_ever_def)
next
  case (Cons t stamps)
  obtain gs1 b where v: "visit_all t gs new_bucket = (gs1, b)" by (cases "visit_all t gs new_bucket")
  obtain ps1 w1 where c: "close_bucket r t b w = Some (ps1, w1)"
    using Cons.prems(1) by (cases "close_bucket r t b w") (auto simp: v)
  obtain ps2 w2 where f: "fold_buckets r stamps gs1 w1 = Some (ps2, w2)"
    using Cons.prems(1) by (cases "fold_buckets r stamps gs1 w1") (auto simp: v c)
  have eq: "ps = ps1 @ ps2" "w' = w2" using Cons.prems(1) by (simp_all add: v c f)
  have ih: "sorted_wrt (\<lambda>p q. pt_Timestamp p < pt_Timestamp q) ps2" "pt_Timestamp ` set ps2 \<subseteq> set stamps"
    "\<forall>p \<in> set ps2. finite64 (pt_Value p)" "counted_buckets w2 \<le> counted_buckets w1 + length ps2"
    "qw_DepartedSeries w2 + departed_ever gs1 \<le> qw_DepartedSeries w1 + length gs1" "qw_GroupCount w2 = qw_GroupCount w1"
    using Cons.IH [OF f] Cons.prems(2) by auto
  note one = close_bucket_counts [OF c]
  have dep: "bk_newDeparted b + departed_ever gs = departed_ever gs1" "length gs1 = length gs"
    using visit_all_departed [OF v] by (simp_all add: new_bucket_def)
  have "sorted_wrt (\<lambda>p q. pt_Timestamp p < pt_Timestamp q) ps1"
    using one by (cases ps1) auto
  moreover have "pt_Timestamp p < pt_Timestamp q" if "p \<in> set ps1" "q \<in> set ps2" for p q
    using that one ih(2) Cons.prems(2) by auto
  ultimately show ?case
    using one ih dep by (auto simp: eq sorted_wrt_append)
qed

lemma bucket_times_sorted: "sorted_wrt (<) (bucket_times series)"
  by (simp add: bucket_times_def strict_sorted_iff)

lemma fold_counts:
  assumes "foldGroupSeries series r w = Some (ps, w')"
  shows "sorted_wrt (\<lambda>p q. pt_Timestamp p < pt_Timestamp q) ps \<and> (\<forall>p \<in> set ps. finite64 (pt_Value p)) \<and>
    counted_buckets w' \<le> counted_buckets w + length ps \<and> qw_DepartedSeries w' \<le> qw_DepartedSeries w + length series \<and>
    qw_GroupCount w' = qw_GroupCount w"
proof (cases "bucket_times series = []")
  case True
  with assms show ?thesis by (auto simp: foldGroupSeries_def)
next
  case False
  then obtain w1 where f: "fold_buckets r (bucket_times series) (map (\<lambda>s. (series_index s, new_group)) series) w = Some (ps, w1)"
      "w' = w1\<lparr>qw_TotalBuckets := length ps\<rparr>"
    using assms by (auto simp: foldGroupSeries_def split: option.splits)
  then show ?thesis
    using fold_buckets_counts [OF f(1) bucket_times_sorted] by (auto simp: counted_buckets_def)
qed

subsection \<open>Queries\<close>

lemma decode_points_finite:
  "foldl decode_point a rps = (ps, w) \<Longrightarrow> \<forall>p \<in> set (fst a). finite64 (pt_Value p) \<Longrightarrow> \<forall>p \<in> set ps. finite64 (pt_Value p)"
proof (induction rps arbitrary: a)
  case (Cons p rps)
  have "\<forall>q \<in> set (fst (decode_point a p)). finite64 (pt_Value q)"
    using Cons.prems(2) by (auto simp: decode_point_def finite64_def split: prod.splits option.splits)
  with Cons show ?case by simp
qed simp

lemma query_loop_bounds:
  assumes "query_loop rs e result w = (Inr ss, w')" "length result \<le> MaxTimeSeries"
    and "\<forall>s \<in> set result. \<forall>p \<in> set (ts_Points s). finite64 (pt_Value p)"
  shows "length ss \<le> MaxTimeSeries \<and> (\<forall>s \<in> set ss. \<forall>p \<in> set (ts_Points s). finite64 (pt_Value p)) \<and>
    (qw_TruncatedSeries w' \<or> length ss = length result + length rs)"
  using assms
proof (induction rs arbitrary: result w)
  case Nil
  then show ?case by (auto split: option.splits)
next
  case (Cons r rs)
  show ?case
  proof (cases "length result = MaxTimeSeries")
    case True
    with Cons.prems show ?thesis by auto
  next
    case False
    obtain s w1 where s: "decode_series r w = (s, w1)" by (cases "decode_series r w")
    then have "\<forall>p \<in> set (ts_Points s). finite64 (pt_Value p)"
      using decode_points_finite [of "([], w)" "rs_Points r"] by (auto simp: decode_series_def split: prod.splits)
    moreover have "query_loop rs e (result @ [s]) w1 = (Inr ss, w')"
      using Cons.prems(1) False by (simp add: s)
    moreover have "length (result @ [s]) \<le> MaxTimeSeries" using Cons.prems(2) False by simp
    moreover have "\<forall>x \<in> set (result @ [s]). \<forall>p \<in> set (ts_Points x). finite64 (pt_Value p)"
      using Cons.prems(3) \<open>\<forall>p \<in> set (ts_Points s). finite64 (pt_Value p)\<close> by simp
    ultimately show ?thesis using Cons.IH [of "result @ [s]" w1] by simp
  qed
qed

lemma decode_points_frame:
  "foldl decode_point a rps = (ps, w) \<Longrightarrow>
   counted_buckets w = counted_buckets (snd a) \<and> qw_DepartedSeries w = qw_DepartedSeries (snd a)"
proof (induction rps arbitrary: a)
  case (Cons p rps)
  have "counted_buckets (snd (decode_point a p)) = counted_buckets (snd a) \<and>
      qw_DepartedSeries (snd (decode_point a p)) = qw_DepartedSeries (snd a)"
    by (simp add: decode_point_def counted_buckets_def split: prod.split option.split)
  with Cons show ?case by simp
qed simp

lemma query_loop_frame:
  "query_loop rs e result w = (x, w') \<Longrightarrow>
   counted_buckets w' = counted_buckets w \<and> qw_DepartedSeries w' = qw_DepartedSeries w"
proof (induction rs arbitrary: result w)
  case Nil
  then show ?case by (auto split: option.splits)
next
  case (Cons r rs)
  obtain s w1 where s: "decode_series r w = (s, w1)" by (cases "decode_series r w")
  then have "counted_buckets w1 = counted_buckets w \<and> qw_DepartedSeries w1 = qw_DepartedSeries w"
    using decode_points_frame [of "([], w)" "rs_Points r"] by (auto simp: decode_series_def split: prod.splits)
  with Cons show ?case by (auto simp: s counted_buckets_def split: if_splits)
qed

lemma query_result:
  assumes "QueryTimeSeries q p = (Inr ss, w)"
  shows "length ss \<le> MaxTimeSeries" "counted_buckets w = 0" "qw_DepartedSeries w = 0"
proof -
  obtain rs e where rs: "mc_ListTimeSeries q (series_request p) = (rs, e)" by (cases "mc_ListTimeSeries q (series_request p)")
  then have l: "query_loop rs e [] no_warnings = (Inr ss, w)" using assms by (simp add: QueryTimeSeries_def)
  show "length ss \<le> MaxTimeSeries" using query_loop_bounds [OF l] by simp
  show "counted_buckets w = 0" "qw_DepartedSeries w = 0"
    using query_loop_frame [OF l] by (simp_all add: no_warnings_def counted_buckets_def)
qed

text \<open>
  A query returns at most 500 series; unless it reports that it was cut off there, all series the
  API delivered are among them; and every point that reaches a caller is a finite number.
\<close>

theorem query_bounded:
  assumes "QueryTimeSeries q p = (Inr ss, w)"
  shows "length ss \<le> 500 \<and> (\<forall>s \<in> set ss. \<forall>pt \<in> set (ts_Points s). finite64 (pt_Value pt)) \<and>
    (qw_TruncatedSeries w \<or> length ss = length (fst (mc_ListTimeSeries q (series_request p))))"
  using assms query_loop_bounds [of "fst (mc_ListTimeSeries q (series_request p))" "snd (mc_ListTimeSeries q (series_request p))" "[]"]
  by (auto simp: QueryTimeSeries_def MaxTimeSeries_def split: prod.splits)

lemma valid_spec_reducers:
  "aggregation_Validate spec = None \<Longrightarrow>
   reducer_IsValid (ag_AcrossGroups spec) \<and> (IsTwoStage spec \<longrightarrow> reducer_IsValid (ag_WithinGroup spec))"
  by (auto simp: aggregation_Validate_def join_errors_def aggregation_errors_def IsTwoStage_def split: if_splits)

lemma valid_reducer_gcp: "reducer_IsValid r \<Longrightarrow> \<exists>g. ReducerToGCP r = Some g"
  by (cases r) simp_all

lemma valid_params:
  assumes "aggregation_Validate spec = None"
  obtains p where "buildAggregatedParams params spec = Some p"
proof (cases "IsTwoStage spec")
  case True
  then obtain g where "ReducerToGCP (ag_WithinGroup spec) = Some g"
    using valid_spec_reducers [OF assms] valid_reducer_gcp by blast
  with True that show thesis by (simp add: buildAggregatedParams_def)
next
  case False
  then obtain g where "ReducerToGCP (ag_AcrossGroups spec) = Some g"
    using valid_spec_reducers [OF assms] valid_reducer_gcp by blast
  with False that show thesis by (simp add: buildAggregatedParams_def)
qed

lemma fold_groups_defined: "reducer_IsValid (ag_AcrossGroups spec) \<Longrightarrow> \<exists>x v. fold_groups params spec groups w = Some (x, v)"
proof (cases groups)
  case (Cons g gs)
  assume valid: "reducer_IsValid (ag_AcrossGroups spec)"
  obtain ps v where "foldGroupSeries groups (ag_AcrossGroups spec)
      (if gs = [] then w\<lparr>qw_GroupCount := length groups, qw_SingleGroup := True\<rparr> else w\<lparr>qw_GroupCount := length groups\<rparr>) = Some (ps, v)"
    using fold_exact [OF valid] by blast
  then show ?thesis by (simp add: fold_groups_def Cons Let_def split: if_splits)
qed (simp add: fold_groups_def Let_def)

text \<open>
  The panics for unknown reducers are out of reach: an aggregated query returns, with a
  validation error for a bad specification, for every specification, parameters and client.
\<close>

theorem aggregated_query_never_panics: "QueryTimeSeriesAggregated q params spec \<noteq> None"
proof (cases "aggregation_Validate spec")
  case None
  note valid = valid_spec_reducers [OF None]
  then obtain p where p: "buildAggregatedParams params spec = Some p"
    using valid_params [OF None] by blast
  show ?thesis
    using None p valid by (auto simp: QueryTimeSeriesAggregated_def fold_groups_defined split: prod.splits sum.splits)
qed (simp add: QueryTimeSeriesAggregated_def)

text \<open>
  A two-stage query answers with one series whose points are finite and in strictly ascending
  order; the buckets counted as carried forward or departed are among its points, each counted once,
  and no more groups are counted as departed than the first stage returned, at most 500.
\<close>

theorem aggregated_series_sound:
  assumes "QueryTimeSeriesAggregated q params spec = Some (Inr ss, w)" "IsTwoStage spec"
  shows "\<exists>s. ss = [s] \<and> sorted_wrt (\<lambda>a b. pt_Timestamp a < pt_Timestamp b) (ts_Points s) \<and>
    (\<forall>pt \<in> set (ts_Points s). finite64 (pt_Value pt)) \<and>
    qw_CarryForwardBuckets w + qw_DepartedGroupBuckets w \<le> length (ts_Points s) \<and>
    qw_DepartedSeries w \<le> qw_GroupCount w \<and> qw_GroupCount w \<le> 500"
proof -
  have valid: "aggregation_Validate spec = None"
    using assms by (auto simp: QueryTimeSeriesAggregated_def split: option.splits)
  then obtain p where p: "buildAggregatedParams params spec = Some p"
    using valid_params [OF valid] by blast
  obtain groups w0 where g: "QueryTimeSeries q p = (Inr groups, w0)" "fold_groups params spec groups w0 = Some (Inr ss, w)"
    using assms valid p by (auto simp: QueryTimeSeriesAggregated_def split: prod.splits sum.splits)
  have zero: "counted_buckets w0 = 0 \<and> qw_DepartedSeries w0 = 0"
    using query_result [OF g(1)] by simp
  have len: "length groups \<le> 500" using query_result(1) [OF g(1)] by (simp add: MaxTimeSeries_def)
  show ?thesis
  proof (cases groups)
    case Nil
    with g(2) zero show ?thesis
      by (auto simp: fold_groups_def synthetic_series_def counted_buckets_def Let_def)
  next
    case (Cons s0 rest)
    define w1 where "w1 = (if rest = [] then w0\<lparr>qw_GroupCount := length groups, qw_SingleGroup := True\<rparr> else w0\<lparr>qw_GroupCount := length groups\<rparr>)"
    obtain ps w2 where f: "foldGroupSeries groups (ag_AcrossGroups spec) w1 = Some (ps, w2)"
        "ss = [synthetic_series (ts_MetricKind s0) (ts_ValueType s0) ps]" "w = w2"
      using g(2) Cons by (auto simp: fold_groups_def w1_def Let_def split: if_splits)
    have w1: "counted_buckets w1 = 0" "qw_DepartedSeries w1 = 0" "qw_GroupCount w1 = length groups"
      using zero by (auto simp: w1_def counted_buckets_def)
    note c = fold_counts [OF f(1)]
    show ?thesis using c w1 len f(2,3) by (auto simp: synthetic_series_def counted_buckets_def)
  qed
qed


subsection \<open>Example\<close>

text \<open>Two groups; the second one has no value in the second bucket and is carried forward.\<close>

definition ex_raw :: "(gtime \<times> int) list \<Rightarrow> raw_series" where
  "ex_raw ps = \<lparr>rs_MetricKind = MetricKindGauge, rs_ValueType = ''INT64'', rs_MetricLabels = [], rs_ResourceLabels = [],
     rs_SystemLabels = [], rs_UserLabels = [],
     rs_Points = map (\<lambda>(t, n). \<lparr>rp_EndTime = Some t, rp_Value = Some (Int64Value n)\<rparr>) ps\<rparr>"

definition ex_client :: monitoring_client where
  "ex_client = \<lparr>mc_ListTimeSeries = (\<lambda>r. ([ex_raw [(60, 1), (120, 2)], ex_raw [(60, 10)]], None)),
     mc_ListMetricDescriptors = (\<lambda>n f l. ([], None)), mc_ListMonitoredResourceDescriptors = (\<lambda>n. ([], None))\<rparr>"

definition ex_params :: QueryTimeSeriesParams where
  "ex_params = \<lparr>qp_Project = ''p'', qp_MetricType = ''m'', qp_LabelFilter = [], qp_Start = 0, qp_End = 120, qp_StepSeconds = 60,
     qp_MetricKind = MetricKindGauge, qp_ValueType = ''INT64'', qp_GroupByFields = [], qp_Reducer = REDUCE_NONE\<rparr>"

definition ex_spec :: AggregationSpec where
  "ex_spec = \<lparr>ag_GroupBy = [''resource.type''], ag_WithinGroup = ReducerMax, ag_AcrossGroups = ReducerSum\<rparr>"

definition ex_points :: "(gtime \<times> rat) list \<Rightarrow> Point list" where
  "ex_points ps = map (\<lambda>(t, x). \<lparr>pt_Timestamp = t, pt_Value = Fin x\<rparr>) ps"

lemma ex_query: "QueryTimeSeries ex_client p =
  (Inr [synthetic_series MetricKindGauge ''INT64'' (ex_points [(60, 1), (120, 2)]),
        synthetic_series MetricKindGauge ''INT64'' (ex_points [(60, 10)])], no_warnings)"
  by (simp add: QueryTimeSeries_def ex_client_def ex_raw_def ex_points_def MaxTimeSeries_def decode_series_def decode_point_def
      extractValue_def fint_exact is_nan_def is_inf_def synthetic_series_def map_filter_simps)

lemma ex_aggregated: "QueryTimeSeriesAggregated ex_client ex_params ex_spec =
  Some (Inr [synthetic_series MetricKindGauge ''INT64'' (ex_points [(60, 11), (120, 12)])],
    no_warnings\<lparr>qw_CarryForwardBuckets := 1, qw_TotalBuckets := 2, qw_GroupCount := 2\<rparr>)"
proof -
  have valid: "aggregation_Validate ex_spec = None"
    by (simp add: aggregation_Validate_def join_errors_def aggregation_errors_def ex_spec_def group_key_error_def hasKnownGroupByPrefix_def)
  obtain p where p: "buildAggregatedParams ex_params ex_spec = Some p" using valid_params [OF valid] by blast
  have spec: "IsTwoStage ex_spec" "ag_AcrossGroups ex_spec = ReducerSum" by (simp_all add: IsTwoStage_def ex_spec_def)
  let ?groups = "[synthetic_series MetricKindGauge ''INT64'' (ex_points [(60, 1), (120, 2)]),
    synthetic_series MetricKindGauge ''INT64'' (ex_points [(60, 10)])]"
  have times: "bucket_times ?groups = [60, 120]"
    by (simp add: bucket_times_def synthetic_series_def ex_points_def UnixNano_def wrap64_small)
  have idx: "map (\<lambda>s. (series_index s, new_group)) ?groups = [([(120, Fin 2), (60, Fin 1)], new_group), ([(60, Fin 10)], new_group)]"
    by (simp add: series_index_def synthetic_series_def ex_points_def UnixNano_def wrap64_small)
  have "foldGroupSeries ?groups ReducerSum w = Some (ex_points [(60, 11), (120, 12)],
      w\<lparr>qw_CarryForwardBuckets := qw_CarryForwardBuckets w + 1, qw_TotalBuckets := 2\<rparr>)" for w
    unfolding foldGroupSeries_def times idx
    by (simp add: visit_def new_group_def new_bucket_def close_bucket_def applyReducer_def fzero_def round64_grid is_nan_def is_inf_def
        maxCarryForwardBuckets_def ex_points_def Let_def)
  then show ?thesis
    by (simp add: QueryTimeSeriesAggregated_def valid p spec ex_query fold_groups_def Let_def no_warnings_def synthetic_series_def)
qed

theorem query_bounded_witness:
  "\<exists>ss w. QueryTimeSeries ex_client ex_params = (Inr ss, w) \<and> length ss \<le> 500"
  using query_bounded [OF ex_query, of ex_params] ex_query by blast

theorem aggregated_series_sound_witness:
  "\<exists>ss w. QueryTimeSeriesAggregated ex_client ex_params ex_spec = Some (Inr ss, w) \<and> qw_DepartedSeries w \<le> qw_GroupCount w"
  using aggregated_series_sound [OF ex_aggregated] ex_aggregated by (auto simp: IsTwoStage_def ex_spec_def)

end
