(* ===== verification/Error_Reporting.thy ===== *)
theory Error_Reporting
  imports Go_Float Go_Time Log_Types "HOL-Library.AList"
begin

text \<open>
  Error groups, their events and their trends (\<open>internal/gcpdata/errors.go\<close>,
  \<open>errors_trends.go\<close>). The Error Reporting client is a parameter: for a request and a number of
  calls of the iterator it yields the items delivered, the error that ended the reading early (if it
  is not \<open>iterator.Done\<close>), the begin of the time range in the last response and the next page token.
\<close>

subsection \<open>Windows\<close>

text \<open>A window is a string; the supported ones are listed in \<open>errorWindowSpecs\<close>.\<close>

datatype ErrorPeriod = PERIOD_1_HOUR | PERIOD_6_HOURS | PERIOD_1_DAY | PERIOD_1_WEEK | PERIOD_30_DAYS

record ErrorWindowSpec =
  ew_Period :: ErrorPeriod
  ew_Span :: duration
  ew_Bucket :: duration

definition errorWindowSpecs :: "(string \<times> ErrorWindowSpec) list" where
  "errorWindowSpecs =
     [(''1h'', \<lparr>ew_Period = PERIOD_1_HOUR, ew_Span = hour, ew_Bucket = 5 * minute\<rparr>),
      (''6h'', \<lparr>ew_Period = PERIOD_6_HOURS, ew_Span = 6 * hour, ew_Bucket = 30 * minute\<rparr>),
      (''24h'', \<lparr>ew_Period = PERIOD_1_DAY, ew_Span = 24 * hour, ew_Bucket = hour\<rparr>),
      (''7d'', \<lparr>ew_Period = PERIOD_1_WEEK, ew_Span = 7 * 24 * hour, ew_Bucket = 6 * hour\<rparr>),
      (''30d'', \<lparr>ew_Period = PERIOD_30_DAYS, ew_Span = 30 * 24 * hour, ew_Bucket = 24 * hour\<rparr>)]"

definition ErrorWindows :: "string list" where
  "ErrorWindows = map fst errorWindowSpecs"

definition window_Spec :: "string \<Rightarrow> ErrorWindowSpec option" where
  "window_Spec w = map_of errorWindowSpecs w"

subsection \<open>Values of the API\<close>

record timed_count =
  tc_StartTime :: "gtime option"
  tc_EndTime :: "gtime option"
  tc_Count :: int

record error_group_stats =
  gp_GroupId :: "string option"
  gp_Count :: int
  gp_FirstSeenTime :: "gtime option"
  gp_LastSeenTime :: "gtime option"
  gp_AffectedServices :: "(string \<times> string) list"
  gp_Representative :: "string option"
  gp_TimedCounts :: "timed_count list"

record error_http =
  eh_Method :: string
  eh_Url :: string
  eh_UserAgent :: string
  eh_Referrer :: string
  eh_ResponseStatusCode :: int
  eh_RemoteIp :: string

record error_location =
  el_FilePath :: string
  el_LineNumber :: int
  el_FunctionName :: string

record error_context =
  ex_User :: string
  ex_HttpRequest :: "error_http option"
  ex_ReportLocation :: "error_location option"

record error_event =
  ev_EventTime :: "gtime option"
  ev_Message :: string
  ev_ServiceContext :: "(string \<times> string) option"
  ev_Context :: "error_context option"

record 'a page_read =
  pr_items :: "'a list"
  pr_error :: "go_error option"
  pr_TimeRangeBegin :: "gtime option"
  pr_Token :: string

record group_stats_request =
  gr_ProjectName :: string
  gr_Period :: ErrorPeriod
  gr_PageSize :: int
  gr_TimedCountDuration :: "duration option"
  gr_ServiceFilter :: "(string \<times> string) option"

record events_request =
  er_ProjectName :: string
  er_GroupId :: string
  er_PageSize :: int
  er_PageToken :: string

record errors_client =
  ec_ListGroupStats :: "group_stats_request \<Rightarrow> nat \<Rightarrow> error_group_stats page_read"
  ec_ListEvents :: "events_request \<Rightarrow> nat \<Rightarrow> error_event page_read"

text \<open>\<open>fmt.Errorf("...: %w", err)\<close>.\<close>

definition wrap_error :: "string \<Rightarrow> go_error \<Rightarrow> go_error" where
  "wrap_error p e = Wrap (p @ '': '' @ err_text e) [e]"

subsection \<open>Group statistics\<close>

record groupStatsPage =
  sp_stats :: "error_group_stats list"
  sp_timeRangeBegin :: string
  sp_truncated :: bool

definition format_rfc3339 :: "gtime \<Rightarrow> string" where
  "format_rfc3339 t = date_text t @ ''Z''"

definition listGroupStats ::
  "errors_client \<Rightarrow> gtime \<Rightarrow> string \<Rightarrow> string \<Rightarrow> int \<Rightarrow> string \<Rightarrow> string \<Rightarrow> bool \<Rightarrow> go_error + groupStatsPage" where
  "listGroupStats q now project win limit serviceFilter versionFilter bucketed =
     (case window_Spec win of
        None \<Rightarrow> Inl (Sentinel (''invalid error window '' @ quote win))
      | Some spec \<Rightarrow>
          (let read = ec_ListGroupStats q
                 \<lparr>gr_ProjectName = ''projects/'' @ project, gr_Period = ew_Period spec, gr_PageSize = safeInt32 limit,
                  gr_TimedCountDuration = (if bucketed then Some (ew_Bucket spec) else None),
                  gr_ServiceFilter =
                    (if serviceFilter \<noteq> [] \<or> versionFilter \<noteq> [] then Some (serviceFilter, versionFilter) else None)\<rparr>
                 (nat limit)
           in case pr_error read of
                Some err \<Rightarrow> Inl (wrap_error ''iterating error group stats'' err)
              | None \<Rightarrow> Inr \<lparr>sp_stats = pr_items read,
                  sp_timeRangeBegin =
                    (case pr_TimeRangeBegin read of Some t \<Rightarrow> formatTimestamp (Some t) | None \<Rightarrow> format_rfc3339 (now - ew_Span spec)),
                  sp_truncated = (pr_Token read \<noteq> [])\<rparr>))"

record ErrorGroup =
  eg_GroupID :: string
  eg_Service :: string
  eg_Message :: string
  eg_Count :: int
  eg_FirstSeen :: string
  eg_LastSeen :: string
  eg_AffectedVersions :: "string list"

record ErrorGroupList =
  gl_Count :: nat
  gl_Groups :: "ErrorGroup list"
  gl_Window :: string
  gl_TimeRangeBegin :: string
  gl_Truncated :: bool
  gl_TruncationHint :: string

definition opt_string :: "string option \<Rightarrow> string" where
  "opt_string s = (case s of Some x \<Rightarrow> x | None \<Rightarrow> [])"

definition first_service :: "(string \<times> string) list \<Rightarrow> string" where
  "first_service svcs = (case svcs of [] \<Rightarrow> [] | s # _ \<Rightarrow> fst s)"

definition to_group :: "error_group_stats \<Rightarrow> ErrorGroup" where
  "to_group s =
     \<lparr>eg_GroupID = opt_string (gp_GroupId s), eg_Service = first_service (gp_AffectedServices s),
      eg_Message = opt_string (gp_Representative s), eg_Count = gp_Count s,
      eg_FirstSeen = formatTimestamp (gp_FirstSeenTime s), eg_LastSeen = formatTimestamp (gp_LastSeenTime s),
      eg_AffectedVersions = sort (remdups (filter (\<lambda>v. v \<noteq> []) (map snd (gp_AffectedServices s))))\<rparr>"

definition ListErrors ::
  "errors_client \<Rightarrow> gtime \<Rightarrow> string \<Rightarrow> string \<Rightarrow> int \<Rightarrow> string \<Rightarrow> string \<Rightarrow> go_error + ErrorGroupList" where
  "ListErrors q now project win limit serviceFilter versionFilter =
     (case listGroupStats q now project win limit serviceFilter versionFilter False of
        Inl err \<Rightarrow> Inl err
      | Inr p \<Rightarrow>
          Inr \<lparr>gl_Count = length (sp_stats p), gl_Groups = map to_group (sp_stats p), gl_Window = win,
               gl_TimeRangeBegin = sp_timeRangeBegin p, gl_Truncated = sp_truncated p,
               gl_TruncationHint =
                 (if sp_truncated p
                  then ''Showing the first '' @ itoa limit @ '' error group(s). More groups are available for this lookback window; narrow service/version filters or lower the time range for a more focused result.''
                  else [])\<rparr>)"

subsection \<open>One group\<close>

definition splitReportedErrorMessage :: "string \<Rightarrow> string \<times> string" where
  "splitReportedErrorMessage message =
     (let m = trim_space message in
      if m = [] then ([], [])
      else (case cut_char (CHR 0x0A) m of
              Some (line, _) \<Rightarrow> (trim_space line, m)
            | None \<Rightarrow> (trim_space m, [])))"

text \<open>An empty context is left out.\<close>

definition convertErrorContext :: "error_context option \<Rightarrow> error_context option" where
  "convertErrorContext c =
     (case c of
        None \<Rightarrow> None
      | Some ctx \<Rightarrow> if ex_User ctx = [] \<and> ex_HttpRequest ctx = None \<and> ex_ReportLocation ctx = None then None else Some ctx)"

record ErrorInstance =
  ei_Timestamp :: string
  ei_Message :: string
  ei_StackTrace :: string
  ei_Service :: string
  ei_Version :: string
  ei_Context :: "error_context option"

definition to_instance :: "error_event \<Rightarrow> ErrorInstance" where
  "to_instance e =
     (let (headline, stack) = splitReportedErrorMessage (ev_Message e) in
      \<lparr>ei_Timestamp = formatTimestamp (ev_EventTime e), ei_Message = headline, ei_StackTrace = stack,
       ei_Service = (case ev_ServiceContext e of Some (s, _) \<Rightarrow> s | None \<Rightarrow> []),
       ei_Version = (case ev_ServiceContext e of Some (_, v) \<Rightarrow> v | None \<Rightarrow> []),
       ei_Context = convertErrorContext (ev_Context e)\<rparr>)"

record ErrorGroupDetail =
  gd_GroupID :: string
  gd_Message :: string
  gd_Service :: string
  gd_Instances :: "ErrorInstance list"
  gd_Truncated :: bool
  gd_TruncationHint :: string
  gd_NextPageToken :: string
  gd_TimeRangeBegin :: string

definition GetErrorGroup ::
  "errors_client \<Rightarrow> string \<Rightarrow> string \<Rightarrow> int \<Rightarrow> string \<Rightarrow> go_error + ErrorGroupDetail" where
  "GetErrorGroup q project groupID limit pageToken =
     (let read = ec_ListEvents q
            \<lparr>er_ProjectName = ''projects/'' @ project, er_GroupId = groupID, er_PageSize = safeInt32 limit,
             er_PageToken = pageToken\<rparr> (nat limit)
      in case pr_error read of
           Some err \<Rightarrow> Inl (wrap_error ''iterating error events'' err)
         | None \<Rightarrow>
             (case map to_instance (pr_items read) of
                [] \<Rightarrow> Inl (Sentinel (''no events found for error group '' @ quote groupID @
                        '' in the current time window: the group may have been resolved or events may have aged out of retention''))
              | i # is \<Rightarrow>
                  Inr \<lparr>gd_GroupID = groupID, gd_Message = ei_Message i, gd_Service = ei_Service i, gd_Instances = i # is,
                       gd_Truncated = (pr_Token read \<noteq> []),
                       gd_TruncationHint =
                         (if pr_Token read \<noteq> []
                          then ''Showing the first '' @ itoa limit @ '' event(s) for this error group. More events are available; repeat with a larger limit if you need a broader sample.''
                          else []),
                       gd_NextPageToken = pr_Token read,
                       gd_TimeRangeBegin = (case pr_TimeRangeBegin read of Some t \<Rightarrow> formatTimestamp (Some t) | None \<Rightarrow> [])\<rparr>))"

subsection \<open>Trends\<close>

datatype ErrorTrendKind = TrendNew | TrendGrowing | TrendShrinking | TrendDisappeared | TrendFlatCount

record ErrorTrend =
  et_GroupID :: string
  et_Service :: string
  et_Message :: string
  et_Trend :: ErrorTrendKind
  et_OlderCount :: int
  et_RecentCount :: int
  et_Delta :: int
  et_TotalCount :: int
  et_FirstSeen :: string
  et_LastSeen :: string

record ErrorTrendList =
  el_Count :: nat
  el_Window :: string
  el_TimeRangeBegin :: string
  el_Summary :: "(ErrorTrendKind \<times> nat) list"
  el_Trends :: "ErrorTrend list"
  el_Truncated :: bool
  el_TruncationHint :: string

text \<open>The least start and the greatest end of the buckets that have both.\<close>

fun cover :: "(gtime \<times> gtime) option \<Rightarrow> timed_count \<Rightarrow> (gtime \<times> gtime) option" where
  "cover a c =
     (case (tc_StartTime c, tc_EndTime c) of
        (Some s, Some e) \<Rightarrow> (case a of None \<Rightarrow> Some (s, e) | Some (lo, hi) \<Rightarrow> Some (if s < lo then s else lo, if hi < e then e else hi))
      | _ \<Rightarrow> a)"

definition timedCountsMidpoint :: "error_group_stats list \<Rightarrow> gtime option" where
  "timedCountsMidpoint stats =
     map_option (\<lambda>(lo, hi). lo + tquot (sub_time hi lo) 2) (foldl cover None (concat (map gp_TimedCounts stats)))"

definition add_count :: "gtime \<Rightarrow> int \<times> int \<Rightarrow> timed_count \<Rightarrow> int \<times> int" where
  "add_count mid a c =
     (case a of (older, recent) \<Rightarrow>
        (case tc_StartTime c of
           None \<Rightarrow> (older, recent)
         | Some s \<Rightarrow> if s < mid then (wrap64 (older + tc_Count c), recent) else (older, wrap64 (recent + tc_Count c))))"

definition splitTimedCounts :: "timed_count list \<Rightarrow> gtime option \<Rightarrow> int \<times> int" where
  "splitTimedCounts counts mid = (case mid of None \<Rightarrow> (0, 0) | Some m \<Rightarrow> foldl (add_count m) (0, 0) counts)"

definition classifyErrorTrend :: "int \<Rightarrow> int \<Rightarrow> bool \<Rightarrow> ErrorTrendKind" where
  "classifyErrorTrend older recent haveBuckets =
     (if \<not> haveBuckets then TrendFlatCount
      else if older = 0 \<and> 0 < recent then TrendNew
      else if 0 < older \<and> recent = 0 then TrendDisappeared
      else if older < recent then TrendGrowing
      else if recent < older then TrendShrinking
      else TrendFlatCount)"

definition to_trend :: "gtime option \<Rightarrow> error_group_stats \<Rightarrow> ErrorTrend" where
  "to_trend mid s =
     (case splitTimedCounts (gp_TimedCounts s) mid of (older, recent) \<Rightarrow>
        \<lparr>et_GroupID = opt_string (gp_GroupId s), et_Service = first_service (gp_AffectedServices s),
         et_Message = opt_string (gp_Representative s), et_Trend = classifyErrorTrend older recent (mid \<noteq> None),
         et_OlderCount = older, et_RecentCount = recent, et_Delta = wrap64 (recent - older), et_TotalCount = gp_Count s,
         et_FirstSeen = formatTimestamp (gp_FirstSeenTime s), et_LastSeen = formatTimestamp (gp_LastSeenTime s)\<rparr>)"

definition worse :: "ErrorTrend \<Rightarrow> ErrorTrend \<Rightarrow> bool" where
  "worse a b =
     (if et_Delta a \<noteq> et_Delta b then et_Delta b < et_Delta a
      else if et_RecentCount a \<noteq> et_RecentCount b then et_RecentCount b < et_RecentCount a
      else et_GroupID a < et_GroupID b)"

definition summarize :: "ErrorTrend list \<Rightarrow> (ErrorTrendKind \<times> nat) list" where
  "summarize ts = foldl (\<lambda>m t. AList.map_default (et_Trend t) 1 (\<lambda>n. n + 1) m) [] ts"

definition no_buckets_hint :: string where
  "no_buckets_hint = ''Error Reporting returned no timed-count data for this window, so trend direction could not be determined; all groups are reported as flat with their total counts.''"

definition analyzeTrendStats :: "error_group_stats list \<Rightarrow> string \<Rightarrow> ErrorTrendList" where
  "analyzeTrendStats stats win =
     (let mid = timedCountsMidpoint stats; trends = map (to_trend mid) stats
      in \<lparr>el_Count = length trends, el_Window = win, el_TimeRangeBegin = [], el_Summary = summarize trends,
          el_Trends = sort_less worse trends, el_Truncated = False,
          el_TruncationHint = (if mid = None then no_buckets_hint else [])\<rparr>)"

definition AnalyzeErrorTrends ::
  "errors_client \<Rightarrow> gtime \<Rightarrow> string \<Rightarrow> string \<Rightarrow> int \<Rightarrow> string \<Rightarrow> string \<Rightarrow> go_error + ErrorTrendList" where
  "AnalyzeErrorTrends q now project win limit serviceFilter versionFilter =
     (case listGroupStats q now project win limit serviceFilter versionFilter True of
        Inl err \<Rightarrow> Inl err
      | Inr p \<Rightarrow>
          (let r = (analyzeTrendStats (sp_stats p) win)\<lparr>el_TimeRangeBegin := sp_timeRangeBegin p\<rparr> in
           Inr (if sp_truncated p
                then r\<lparr>el_Truncated := True,
                       el_TruncationHint := ''Analyzed the first '' @ itoa limit @ '' error group(s) by total count; more groups exist for this window. Narrow service/version filters or lower the time range for a focused result.''\<rparr>
                else r)))"

interpretation trend_order: strict_weak_order worse
proof
  fix x y z
  show "worse x y \<Longrightarrow> \<not> worse y x"
    by (auto simp: worse_def split: if_splits)
  show "\<not> worse x y \<Longrightarrow> \<not> worse y z \<Longrightarrow> \<not> worse x z"
    by (auto simp: worse_def split: if_splits)
qed

end
