(* ===== verification/Error_Reporting_Props.thy ===== *)
theory Error_Reporting_Props
  imports Error_Reporting
begin

text \<open>
  Correctness of the error trends: the counts of the two halves of the window are exact and decide
  the label of a group, the list is a ranking of all groups and the summary counts them.
\<close>

subsection \<open>Counts of the halves\<close>

definition half_counts :: "(gtime \<Rightarrow> bool) \<Rightarrow> timed_count list \<Rightarrow> int" where
  "half_counts P cs = sum_list (map tc_Count (filter (\<lambda>c. case tc_StartTime c of Some s \<Rightarrow> P s | None \<Rightarrow> False) cs))"

lemma half_counts_simps [simp]:
  "half_counts P [] = 0"
  "half_counts P (c # cs) = (case tc_StartTime c of Some s \<Rightarrow> if P s then tc_Count c else 0 | None \<Rightarrow> 0) + half_counts P cs"
  by (simp_all add: half_counts_def split: option.split)

lemma half_counts_nonneg: "\<forall>c \<in> set cs. 0 \<le> tc_Count c \<Longrightarrow> 0 \<le> half_counts P cs"
  by (induction cs) (auto split: option.split)

lemma half_counts_le: "\<forall>c \<in> set cs. 0 \<le> tc_Count c \<Longrightarrow> half_counts P cs \<le> sum_list (map tc_Count cs)"
  by (induction cs) (auto split: option.split)

lemma add_counts_exact:
  assumes "\<forall>c \<in> set cs. 0 \<le> tc_Count c" "0 \<le> a" "0 \<le> b"
    and "a + sum_list (map tc_Count cs) < 2 ^ 63" "b + sum_list (map tc_Count cs) < 2 ^ 63"
  shows "foldl (add_count m) (a, b) cs = (a + half_counts (\<lambda>s. s < m) cs, b + half_counts (\<lambda>s. \<not> s < m) cs)"
  using assms
proof (induction cs arbitrary: a b)
  case (Cons c cs)
  have c: "0 \<le> tc_Count c" "0 \<le> sum_list (map tc_Count cs)"
    using Cons.prems(1) by (auto intro!: sum_list_nonneg)
  have "wrap64 (a + tc_Count c) = a + tc_Count c" "wrap64 (b + tc_Count c) = b + tc_Count c"
    using c Cons.prems by (auto intro!: wrap64_small)
  then show ?case
    using Cons.IH [of "a + tc_Count c" b] Cons.IH [of a "b + tc_Count c"] Cons.IH [of a b] Cons.prems c
    by (auto simp: add_count_def split: option.split)
qed simp

text \<open>
  The label of a group follows its exact counts: with buckets in the window, the older and the
  recent count are the sums of the buckets that start before the midpoint and from it on, the delta is
  their difference, and the label says new, growing, shrinking or disappeared exactly according to them.
\<close>

theorem trend_label_exact:
  assumes "\<forall>c \<in> set (gp_TimedCounts s). 0 \<le> tc_Count c" "sum_list (map tc_Count (gp_TimedCounts s)) < 2 ^ 63"
  shows "let older = half_counts (\<lambda>t. t < m) (gp_TimedCounts s); recent = half_counts (\<lambda>t. \<not> t < m) (gp_TimedCounts s);
             t = to_trend (Some m) s
         in et_OlderCount t = older \<and> et_RecentCount t = recent \<and> et_Delta t = recent - older \<and>
            (0 < et_Delta t) = (et_Trend t \<in> {TrendNew, TrendGrowing}) \<and>
            (et_Delta t < 0) = (et_Trend t \<in> {TrendDisappeared, TrendShrinking}) \<and>
            (et_Trend t = TrendNew) = (older = 0 \<and> 0 < recent) \<and>
            (et_Trend t = TrendDisappeared) = (0 < older \<and> recent = 0)"
proof -
  let ?older = "half_counts (\<lambda>t. t < m) (gp_TimedCounts s)" and ?recent = "half_counts (\<lambda>t. \<not> t < m) (gp_TimedCounts s)"
  have "splitTimedCounts (gp_TimedCounts s) (Some m) = (?older, ?recent)"
    using add_counts_exact [of "gp_TimedCounts s" 0 0 m] assms by (simp add: splitTimedCounts_def)
  moreover have n: "0 \<le> ?older" "0 \<le> ?recent" "?older < 2 ^ 63" "?recent < 2 ^ 63"
    using half_counts_nonneg [OF assms(1)] half_counts_le [OF assms(1)] assms(2) by (auto intro: le_less_trans)
  moreover have "wrap64 (?recent - ?older) = ?recent - ?older" using n by (intro wrap64_small) linarith
  ultimately show ?thesis by (auto simp: to_trend_def classifyErrorTrend_def Let_def)
qed

theorem trend_label_exact_witness:
  "et_Trend (to_trend (Some 10) \<lparr>gp_GroupId = None, gp_Count = 3, gp_FirstSeenTime = None, gp_LastSeenTime = None,
      gp_AffectedServices = [], gp_Representative = None,
      gp_TimedCounts = [\<lparr>tc_StartTime = Some 10, tc_EndTime = Some 20, tc_Count = 3\<rparr>]\<rparr>) = TrendNew"
  using trend_label_exact [of "\<lparr>gp_GroupId = None, gp_Count = 3, gp_FirstSeenTime = None, gp_LastSeenTime = None,
      gp_AffectedServices = [], gp_Representative = None,
      gp_TimedCounts = [\<lparr>tc_StartTime = Some 10, tc_EndTime = Some 20, tc_Count = 3\<rparr>]\<rparr>" 10]
  by (simp add: Let_def)

subsection \<open>Ranking and summary\<close>

lemma summarize_counts:
  "map_of (foldl (\<lambda>m t. AList.map_default (et_Trend t) 1 (\<lambda>n. n + 1) m) m ts) k =
   (let n = length (filter (\<lambda>t. et_Trend t = k) ts)
    in case map_of m k of Some c \<Rightarrow> Some (c + n) | None \<Rightarrow> if n = 0 then None else Some n)"
proof (induction ts arbitrary: m)
  case Nil
  then show ?case by (simp split: option.split)
next
  case (Cons t ts)
  have "map_of (AList.map_default (et_Trend t) 1 (\<lambda>n. n + 1) m) k =
      (if k = et_Trend t then Some (case map_of m k of Some c \<Rightarrow> c + 1 | None \<Rightarrow> 1) else map_of m k)"
    by (induction m) (auto split: option.split)
  then show ?case
    using Cons [of "AList.map_default (et_Trend t) 1 (\<lambda>n. n + 1) m"]
    by (cases "map_of m k") (auto simp: Let_def)
qed

lemma filter_sort_length: "length (filter P (sort_less lt xs)) = length (filter P xs)"
  by (metis mset_filter mset_sort_less size_mset)

lemma summarize_sorted:
  "map_of (summarize ts) =
   (\<lambda>k. let n = length (filter (\<lambda>t. et_Trend t = k) (sort_less worse ts)) in if n = 0 then None else Some n)"
  unfolding summarize_def by (rule ext) (simp only: summarize_counts filter_sort_length map_of.simps option.case Let_def)

lemma analyze_fields:
  "el_Trends (analyzeTrendStats stats win) = sort_less worse (map (to_trend (timedCountsMidpoint stats)) stats)"
  "el_Count (analyzeTrendStats stats win) = length stats"
  "el_Summary (analyzeTrendStats stats win) = summarize (map (to_trend (timedCountsMidpoint stats)) stats)"
  by (simp_all add: analyzeTrendStats_def Let_def)

text \<open>
  The trend list ranks every group exactly once, the most worsened first, and its summary gives
  for each label the number of groups that have it.
\<close>

theorem trends_ranked_and_summarized:
  "let r = analyzeTrendStats stats win
   in mset (el_Trends r) = mset (map (to_trend (timedCountsMidpoint stats)) stats) \<and>
      sorted_wrt (\<lambda>a b. \<not> worse b a) (el_Trends r) \<and> el_Count r = length (el_Trends r) \<and>
      map_of (el_Summary r) =
        (\<lambda>k. let n = length (filter (\<lambda>t. et_Trend t = k) (el_Trends r)) in if n = 0 then None else Some n)"
  unfolding Let_def analyze_fields summarize_sorted
  by (simp add: trend_order.sorted_sort_less)

subsection \<open>A hint that is overwritten\<close>

text \<open>
  When the list is truncated and no group has timed counts, the hint that says that the direction of
  the trends could not be determined is replaced by the one about the truncation.
\<close>

lemma no_buckets_hint_lost:
  assumes "listGroupStats q now project win limit sf vf True = Inr p" "sp_truncated p" "timedCountsMidpoint (sp_stats p) = None"
  shows "\<exists>r. AnalyzeErrorTrends q now project win limit sf vf = Inr r \<and> el_TruncationHint r \<noteq> no_buckets_hint \<and>
    (\<forall>t \<in> set (el_Trends r). et_Trend t = TrendFlatCount)"
  using assms
  by (simp add: AnalyzeErrorTrends_def analyzeTrendStats_def no_buckets_hint_def to_trend_def splitTimedCounts_def
      classifyErrorTrend_def Let_def)

end
