(* ===== verification/Tool_Common.thy ===== *)
theory Tool_Common
  imports Go_Time Metric_Query "HOL-Library.Monad_Syntax"
begin

text \<open>
  What the tool handlers share (\<open>internal/tools/tools.go\<close>, \<open>gcp_errors.go\<close>, \<open>project_policy.go\<close>):
  the project boundary, limits, time ranges, guidance for failures, notes, tasks run in parallel. A
  handler is a function of its dependencies and its input; its result is a \<open>reply\<close>. Parameters: the
  status that the gRPC package finds in an error, the current time, and what \<open>ctx.Err()\<close> returns when
  a task starts. Progress notifications and logging are left out.
\<close>

subsection \<open>Replies\<close>

text \<open>
  An error with its text; a result with its structured content only; or a result of a chart tool: the
  value whose JSON is the text for the model, the structured content and the URI of the widget.
\<close>

datatype 'r reply = ErrorResult string | Structured 'r | ChartResult 'r 'r string

subsection \<open>Project boundary\<close>

definition lower_letter :: "char \<Rightarrow> bool" where
  "lower_letter c = (97 \<le> byte_of c \<and> byte_of c \<le> 122)"

text \<open>\<open>^[a-z][a-z0-9-]{4,28}[a-z0-9]$\<close>\<close>

definition projectIDPattern :: "string \<Rightarrow> bool" where
  "projectIDPattern s =
     (6 \<le> length s \<and> length s \<le> 30 \<and> lower_letter (hd s) \<and>
      list_all (\<lambda>c. lower_letter c \<or> is_digit10 c \<or> c = CHR ''-'') s \<and>
      (lower_letter (last s) \<or> is_digit10 (last s)))"

record ProjectPolicy =
  pp_pinned :: string

definition NewProjectPolicy :: "string \<Rightarrow> go_error + ProjectPolicy" where
  "NewProjectPolicy pinned =
     (if pinned \<noteq> [] \<and> \<not> projectIDPattern pinned
      then Inl (Sentinel (''invalid GCP_DEFAULT_PROJECT '' @ quote pinned))
      else Inr \<lparr>pp_pinned = pinned\<rparr>)"

definition Pinned :: "ProjectPolicy \<Rightarrow> bool" where
  "Pinned p = (pp_pinned p \<noteq> [])"

definition Resolve :: "ProjectPolicy \<Rightarrow> string \<Rightarrow> go_error + string" where
  "Resolve p requested =
     (if Pinned p then
        (if requested \<noteq> [] then Inl (Sentinel ''project_id is not accepted by a pinned deployment'')
         else Inr (pp_pinned p))
      else if requested = [] then Inl (Sentinel ''project_id is required'')
      else if \<not> projectIDPattern requested then Inl (Sentinel (''invalid project_id '' @ quote requested))
      else Inr requested)"

subsection \<open>Descriptions\<close>

datatype RegistrationMode = ModeStandard | ModeCompact

fun compactDesc :: "string \<Rightarrow> string" where
  "compactDesc (a # b # s) = (if a = CHR ''.'' \<and> b = CHR '' '' then [a] else a # compactDesc (b # s))"
| "compactDesc s = s"

fun applyMode :: "RegistrationMode \<Rightarrow> string \<Rightarrow> string" where
  "applyMode ModeStandard full = full"
| "applyMode ModeCompact full = compactDesc full"

subsection \<open>Limits and notes\<close>

definition clampLimit :: "int \<Rightarrow> int \<Rightarrow> int \<Rightarrow> int" where
  "clampLimit limit fallback maxLimit =
     (if limit \<le> 0 then fallback else if maxLimit < limit then maxLimit else limit)"

definition joinNote :: "string list \<Rightarrow> string" where
  "joinNote parts = join '' '' (filter (\<lambda>s. s \<noteq> []) parts)"

subsection \<open>Failures\<close>

text \<open>A recovered panic is told from other errors by its type: here by a mark.\<close>

definition panic_mark :: go_error where
  "panic_mark = Sentinel ''*tools.panicError''"

definition panicError :: "string \<Rightarrow> go_error" where
  "panicError v = Wrap (''panic: '' @ v) [panic_mark]"

definition isPanic :: "go_error \<Rightarrow> bool" where
  "isPanic e = errors_is e panic_mark"

datatype grpc_code =
    OK | Canceled | Unknown | InvalidArgument | DeadlineExceededCode | NotFound | PermissionDenied
  | ResourceExhausted | Unavailable | Unauthenticated | OtherCode int

definition context_DeadlineExceeded :: go_error where
  "context_DeadlineExceeded = Sentinel ''context deadline exceeded''"

definition context_Canceled :: go_error where
  "context_Canceled = Sentinel ''context canceled''"

definition ErrProfilerScanBudget :: go_error where
  "ErrProfilerScanBudget =
     Wrap ''profiler scan used up its 8m0s time budget: context deadline exceeded'' [context_DeadlineExceeded]"

text \<open>
  \<open>te_Status\<close> is \<open>status.FromError\<close>: the code and message of the status that the error is or wraps,
  if it has one. \<open>te_CtxErr\<close> is \<open>ctx.Err()\<close> when the task at the given place starts: its index
  in its batch, after the number of the batch in the handler or in the task that runs it.
  \<open>te_Points\<close> is the order in which \<open>sort.Slice\<close>, which is not stable, leaves points of equal time.
\<close>

record tool_env =
  te_Now :: gtime
  te_Status :: "go_error \<Rightarrow> (grpc_code \<times> string) option"
  te_CtxErr :: "nat list \<Rightarrow> go_error option"
  te_Project :: ProjectPolicy
  te_Points :: "Point list \<Rightarrow> Point list"

definition errorCode :: "tool_env \<Rightarrow> go_error \<Rightarrow> grpc_code" where
  "errorCode env err =
     (if errors_is err context_DeadlineExceeded then DeadlineExceededCode
      else if errors_is err context_Canceled then Canceled
      else (case te_Status env err of Some (c, msg) \<Rightarrow> c | None \<Rightarrow> Unknown))"

definition causeGuidance :: "((go_error \<Rightarrow> bool) \<times> string) list" where
  "causeGuidance =
     [(isPanic, ''This is a bug in the server, not a GCP failure; retrying will not help. Please report it.''),
      (\<lambda>err. errors_is err ErrProfilerScanBudget,
       ''The profiler scan used up the per-call time budget, so retrying the same request will not help; '' @
       ''lower max_profiles, narrow the filters, or use a shorter time range.'')]"

record codeInfo =
  ci_advice :: string
  ci_benign :: bool
  ci_input :: bool

definition advice :: "string \<Rightarrow> codeInfo" where
  "advice s = \<lparr>ci_advice = s, ci_benign = False, ci_input = False\<rparr>"

fun sharedCodes :: "grpc_code \<Rightarrow> codeInfo option" where
  "sharedCodes Unauthenticated = Some (advice
     (''Hint: GCP rejected the credentials (expired or revoked token). '' @
      ''On the shared HTTP server, re-connect this MCP server so the OAuth login runs again; '' @
      ''locally, run `gcloud auth application-default login`.''))"
| "sharedCodes PermissionDenied = Some (advice
     (''Hint: your identity lacks IAM permission for this project or API. '' @
      ''Ask an administrator for the read-only observability roles '' @
      ''(logging.viewer, monitoring.viewer, cloudtrace.user, errorreporting.viewer, cloudprofiler.user).''))"
| "sharedCodes DeadlineExceededCode = Some (advice ''The GCP API did not respond in time; retry the request or narrow the query.'')"
| "sharedCodes Canceled = Some ((advice ''The request was canceled before the GCP API returned a response.'')\<lparr>ci_benign := True\<rparr>)"
| "sharedCodes Unavailable = Some (advice ''The GCP API is temporarily unavailable or rate-limited; retry shortly.'')"
| "sharedCodes ResourceExhausted = Some (advice ''The GCP API is temporarily unavailable or rate-limited; retry shortly.'')"
| "sharedCodes NotFound = Some ((advice (''GCP found no such resource (check the project_id and the requested metric type, ID or name); '' @
      ''retrying will not help.''))\<lparr>ci_input := True\<rparr>)"
| "sharedCodes InvalidArgument = Some ((advice (''GCP rejected the request as invalid (check the filter and the other inputs); '' @
      ''retrying will not help.''))\<lparr>ci_input := True\<rparr>)"
| "sharedCodes _ = None"

definition isBenign :: "tool_env \<Rightarrow> go_error \<Rightarrow> bool" where
  "isBenign env err = (case sharedCodes (errorCode env err) of Some i \<Rightarrow> ci_benign i | None \<Rightarrow> False)"

type_synonym code_guidance = "(grpc_code \<times> string) list"

definition errorAdvice :: "tool_env \<Rightarrow> string \<Rightarrow> code_guidance \<Rightarrow> go_error \<Rightarrow> string" where
  "errorAdvice env fallback byCode err =
     (case find (\<lambda>(is_cause, a). is_cause err) causeGuidance of
        Some (is_cause, a) \<Rightarrow> a
      | None \<Rightarrow>
          (case map_of byCode (errorCode env err) of
             Some g \<Rightarrow> g
           | None \<Rightarrow>
               (case sharedCodes (errorCode env err) of
                  Some i \<Rightarrow> if \<not> ci_input i \<or> fallback = [] then ci_advice i else fallback
                | None \<Rightarrow> fallback)))"

fun distinct_advice :: "(go_error \<Rightarrow> string) \<Rightarrow> go_error option list \<Rightarrow> string list \<Rightarrow> string list" where
  "distinct_advice f [] acc = acc"
| "distinct_advice f (None # es) acc = distinct_advice f es acc"
| "distinct_advice f (Some e # es) acc =
     distinct_advice f es (if f e \<noteq> [] \<and> f e \<notin> set acc then acc @ [f e] else acc)"

definition errorGuidance :: "tool_env \<Rightarrow> go_error option list \<Rightarrow> string \<Rightarrow> code_guidance \<Rightarrow> string" where
  "errorGuidance env errs fallback byCode = join '' '' (distinct_advice (errorAdvice env fallback byCode) errs [])"

definition gcpErrorsResult :: "tool_env \<Rightarrow> string \<Rightarrow> go_error option list \<Rightarrow> string \<Rightarrow> code_guidance \<Rightarrow> 'r reply" where
  "gcpErrorsResult env msg errs fallback byCode =
     (let g = errorGuidance env errs fallback byCode in ErrorResult (if g = [] then msg else msg @ ''. '' @ g))"

definition gcpErrorResult :: "tool_env \<Rightarrow> string \<Rightarrow> go_error \<Rightarrow> string \<Rightarrow> code_guidance \<Rightarrow> 'r reply" where
  "gcpErrorResult env msg err fallback byCode = gcpErrorsResult env msg [Some err] fallback byCode"

subsection \<open>Times of the input\<close>

text \<open>A parsed time keeps the offset of its zone, in seconds east, for printing.\<close>

record ztime =
  zt_Instant :: gtime
  zt_Offset :: int

definition zero_ztime :: ztime where
  "zero_ztime = \<lparr>zt_Instant = time_zero, zt_Offset = 0\<rparr>"

definition utc :: "gtime \<Rightarrow> ztime" where
  "utc t = \<lparr>zt_Instant = t, zt_Offset = 0\<rparr>"

definition IsZero :: "ztime \<Rightarrow> bool" where
  "IsZero z = (zt_Instant z = time_zero)"

definition zt_Add :: "ztime \<Rightarrow> duration \<Rightarrow> ztime" where
  "zt_Add z d = z\<lparr>zt_Instant := zt_Instant z + d\<rparr>"

definition zone_text :: "int \<Rightarrow> string" where
  "zone_text off =
     (if off = 0 then ''Z''
      else (if off < 0 then ''-'' else ''+'') @ pad0 2 (\<bar>off\<bar> div 3600) @ '':'' @ pad0 2 (\<bar>off\<bar> div 60 mod 60))"

text \<open>The layouts \<open>time.RFC3339\<close> and \<open>time.RFC3339Nano\<close>.\<close>

definition local_clock :: "ztime \<Rightarrow> gtime" where
  "local_clock z = zt_Instant z + zt_Offset z * second"

definition format_3339 :: "ztime \<Rightarrow> string" where
  "format_3339 z = date_text (local_clock z) @ zone_text (zt_Offset z)"

definition format_3339_nano :: "ztime \<Rightarrow> string" where
  "format_3339_nano z =
     date_text (local_clock z) @ fraction 9 (local_clock z mod 1000000000) @ zone_text (zt_Offset z)"

text \<open>
  \<open>time.Parse\<close> with the layout \<open>time.RFC3339\<close>, in full: its strict fast path takes a part of what the
  general parser takes, with the same result. The hour may have one digit, and a fraction may start with
  a comma.
\<close>

definition digit_val :: "char \<Rightarrow> int" where
  "digit_val c = int (byte_of c) - 48"

definition getnum :: "bool \<Rightarrow> string \<Rightarrow> (int \<times> string) option" where
  "getnum fixed s =
     (case s of
        [] \<Rightarrow> None
      | a # r \<Rightarrow>
          if \<not> is_digit10 a then None
          else (case r of
                  b # q \<Rightarrow> if is_digit10 b then Some (10 * digit_val a + digit_val b, q)
                           else if fixed then None else Some (digit_val a, r)
                | [] \<Rightarrow> if fixed then None else Some (digit_val a, r)))"

definition getnum_in :: "bool \<Rightarrow> int \<Rightarrow> int \<Rightarrow> string \<Rightarrow> (int \<times> string) option" where
  "getnum_in fixed lo hi s =
     (case getnum fixed s of Some (n, r) \<Rightarrow> if lo \<le> n \<and> n \<le> hi then Some (n, r) else None | None \<Rightarrow> None)"

definition skip :: "char \<Rightarrow> string \<Rightarrow> string option" where
  "skip c s = (case s of x # r \<Rightarrow> if x = c then Some r else None | [] \<Rightarrow> None)"

definition get_fraction :: "string \<Rightarrow> int \<times> string" where
  "get_fraction s =
     (case s of
        p # d # r \<Rightarrow>
          if (p = CHR ''.'' \<or> p = CHR '','') \<and> is_digit10 d then
            (let ds = takeWhile is_digit10 (d # r)
             in (foldl (\<lambda>n c. 10 * n + digit_val c) 0 (take 9 (ds @ replicate 9 (CHR ''0''))), dropWhile is_digit10 (d # r)))
          else (0, s)
      | _ \<Rightarrow> (0, s))"

definition get_zone :: "string \<Rightarrow> (int \<times> string) option" where
  "get_zone s =
     (case s of
        CHR ''Z'' # r \<Rightarrow> Some (0, r)
      | _ \<Rightarrow>
          if length s < 6 \<or> s ! 3 \<noteq> CHR '':'' then None
          else (case (getnum_in True 0 24 (take 2 (drop 1 s)), getnum_in True 0 60 (take 2 (drop 4 s))) of
                  (Some (h, _), Some (m, _)) \<Rightarrow>
                    if s ! 0 = CHR ''+'' then Some ((h * 60 + m) * 60, drop 6 s)
                    else if s ! 0 = CHR ''-'' then Some (- ((h * 60 + m) * 60), drop 6 s)
                    else None
                | _ \<Rightarrow> None))"

definition time_Parse :: "string \<Rightarrow> ztime option" where
  "time_Parse s = do {
     y \<leftarrow> (if length s < 4 then None else number (take 4 s));
     r \<leftarrow> skip (CHR ''-'') (drop 4 s);
     (mo, r) \<leftarrow> getnum_in True 1 12 r;
     r \<leftarrow> skip (CHR ''-'') r;
     (d, r) \<leftarrow> getnum True r;
     r \<leftarrow> skip (CHR ''T'') r;
     (h, r) \<leftarrow> getnum_in False 0 23 r;
     r \<leftarrow> skip (CHR '':'') r;
     (mi, r) \<leftarrow> getnum_in True 0 59 r;
     r \<leftarrow> skip (CHR '':'') r;
     (se, r) \<leftarrow> getnum_in True 0 59 r;
     (off, q) \<leftarrow> get_zone (snd (get_fraction r));
     if q \<noteq> [] \<or> d < 1 \<or> days_in y mo < d then None
     else Some \<lparr>zt_Instant = (days_from_civil y mo d * 86400 + h * 3600 + mi * 60 + se - off) * 1000000000 + fst (get_fraction r),
                zt_Offset = off\<rparr>
   }"

definition parseRFC3339Opt :: "string \<Rightarrow> string \<Rightarrow> go_error + ztime" where
  "parseRFC3339Opt s field =
     (if s = [] then Inr zero_ztime
      else (case time_Parse s of
              Some z \<Rightarrow> Inr z
            | None \<Rightarrow> Inl (Sentinel (''invalid '' @ field @ '' '' @ quote s @
                              '': must be RFC3339 format (e.g. 2025-01-15T00:00:00Z)''))))"

definition parseTimeRange :: "tool_env \<Rightarrow> string \<Rightarrow> string \<Rightarrow> duration \<Rightarrow> go_error + (ztime \<times> ztime)" where
  "parseTimeRange env startStr endStr defaultSpan =
     (case parseRFC3339Opt startStr ''start_time'' of
        Inl err \<Rightarrow> Inl err
      | Inr start \<Rightarrow>
          (case parseRFC3339Opt endStr ''end_time'' of
             Inl err \<Rightarrow> Inl err
           | Inr endt \<Rightarrow>
               (let endt = (if IsZero endt then utc (te_Now env) else endt);
                    start = (if IsZero start then zt_Add endt (- defaultSpan) else start)
                in if \<not> zt_Instant start < zt_Instant endt
                   then Inl (Sentinel (''end_time must be after start_time (got start='' @ format_3339 start @
                               '', end='' @ format_3339 endt @ '')''))
                   else Inr (start, endt))))"

record TimeFilterInput =
  tf_StartTime :: string
  tf_EndTime :: string

definition stamp_filter :: "string \<Rightarrow> ztime \<Rightarrow> string" where
  "stamp_filter op z = ''timestamp'' @ op @ [CHR 0x22] @ format_3339_nano z @ [CHR 0x22]"

definition buildTimeFilter :: "tool_env \<Rightarrow> TimeFilterInput \<Rightarrow> go_error + string" where
  "buildTimeFilter env inp =
     (case parseTimeRange env (tf_StartTime inp) (tf_EndTime inp) (24 * hour) of
        Inl err \<Rightarrow> Inl err
      | Inr (start, endt) \<Rightarrow>
          Inr (if tf_EndTime inp \<noteq> [] then AppendFilter (stamp_filter ''>='' start) (stamp_filter ''<='' endt)
               else stamp_filter ''>='' start))"

subsection \<open>Tasks in parallel\<close>

text \<open>
  A call that panics or returns. The tasks of \<open>runParallel\<close> write their own slots, so the results do
  not depend on the order in which they run.
\<close>

datatype 'a call = Panics string | Returns 'a

definition run_task :: "go_error option \<Rightarrow> 'a call \<Rightarrow> go_error + 'a" where
  "run_task ctx_err task =
     (case ctx_err of
        Some e \<Rightarrow> Inl (prefix_error ''not started: '' e)
      | None \<Rightarrow> (case task of Panics v \<Rightarrow> Inl (panicError v) | Returns x \<Rightarrow> Inr x))"

definition runParallel :: "tool_env \<Rightarrow> nat list \<Rightarrow> nat \<Rightarrow> (nat \<Rightarrow> 'a call) \<Rightarrow> (go_error + 'a) list" where
  "runParallel env batch n task = map (\<lambda>i. run_task (te_CtxErr env (batch @ [i])) (task i)) [0..<n]"

end
