(* ===== verification/Tool_Handlers.thy ===== *)
theory Tool_Handlers
  imports Tool_Common Log_Traces Trace_Tree Error_Reporting Profile_Service "HOL-Library.AList"
begin

text \<open>
  The tools for logs, traces, errors and profiles (the handlers of the files \<open>internal/tools/logs_*.go\<close>,
  \<open>trace_*.go\<close>, \<open>errors_*.go\<close>, \<open>profiler_*.go\<close>), their inputs (\<open>inputs.go\<close>), and the patches of the
  input schemas (\<open>schema.go\<close>). Each backend is a record of functions, as the interfaces of
  \<open>gcpdata/backends.go\<close>; the constructors at the end of their sections implement them with the model of
  the queries. The profiler backend has a state, its cache.
\<close>

subsection \<open>Logs\<close>

record 'n logs_backend =
  lb_QueryLogs :: "string \<Rightarrow> string \<Rightarrow> int \<Rightarrow> string \<Rightarrow> string \<Rightarrow> go_error + 'n logQueryResult"
  lb_QueryLogsByTrace :: "string \<Rightarrow> string \<Rightarrow> string \<Rightarrow> int \<Rightarrow> string \<Rightarrow> go_error + 'n logQueryResult"
  lb_QueryLogsByRequestID :: "string \<Rightarrow> string \<Rightarrow> string \<Rightarrow> int \<Rightarrow> string \<Rightarrow> go_error + 'n logQueryResult"
  lb_FindRequests :: "findRequestsParams \<Rightarrow> go_error + requestList"
  lb_ListServices :: "string \<Rightarrow> string \<Rightarrow> go_error + serviceList"
  lb_SummarizeLogs :: "string \<Rightarrow> string \<Rightarrow> go_error + 'n logsSummary"
  lb_FindTracesFromLogs :: "string \<Rightarrow> string \<Rightarrow> string \<Rightarrow> int \<Rightarrow> int \<Rightarrow> go_error + traceFromLogsList"

definition LoggingQuerier ::
  "('n, 'p) log_env \<Rightarrow> ('n, 'p, 'i) log_client \<Rightarrow> ((string \<times> serviceInfo) list \<Rightarrow> serviceInfo list) \<Rightarrow> 'n logs_backend" where
  "LoggingQuerier le cl order =
     \<lparr>lb_QueryLogs = QueryLogs le cl, lb_QueryLogsByTrace = QueryLogsByTrace le cl,
      lb_QueryLogsByRequestID = QueryLogsByRequestID le cl, lb_FindRequests = FindRequests cl,
      lb_ListServices = ListServices cl order,
      lb_SummarizeLogs = (\<lambda>project filt. map_sum (\<lambda>e. e) fst (SummarizeLogs le cl project filt)),
      lb_FindTracesFromLogs = (\<lambda>project filt tf scan res. FindTracesFromLogs le cl project filt tf scan (nat res))\<rparr>"

definition ErrorsHardLimit :: int where "ErrorsHardLimit = 100"
definition maxTraceFindResults :: int where "maxTraceFindResults = 100"

text \<open>The end of a handler: the failed call with its message and advice, or the result.\<close>

definition finish :: "tool_env \<Rightarrow> string \<Rightarrow> string \<Rightarrow> code_guidance \<Rightarrow> go_error + 'r \<Rightarrow> 'r reply" where
  "finish env what fallback byCode r =
     (case r of
        Inl err \<Rightarrow> gcpErrorResult env (what @ '': '' @ err_text err) err fallback byCode
      | Inr x \<Rightarrow> Structured x)"

text \<open>The beginning: the project, and for most tools the time filter.\<close>

definition in_project :: "tool_env \<Rightarrow> string \<Rightarrow> (string \<Rightarrow> 'r reply) \<Rightarrow> 'r reply" where
  "in_project env requested k =
     (case Resolve (te_Project env) requested of Inl err \<Rightarrow> ErrorResult (err_text err) | Inr project \<Rightarrow> k project)"

definition with_time_filter :: "tool_env \<Rightarrow> TimeFilterInput \<Rightarrow> (string \<Rightarrow> 'r reply) \<Rightarrow> 'r reply" where
  "with_time_filter env tf k =
     (case buildTimeFilter env tf of Inl err \<Rightarrow> ErrorResult (err_text err) | Inr filt \<Rightarrow> k filt)"

record LogsQueryInput =
  lqi_ProjectID :: string
  lqi_Time :: TimeFilterInput
  lqi_Filter :: string
  lqi_Limit :: int
  lqi_Order :: string
  lqi_PageToken :: string

definition logs_query :: "tool_env \<Rightarrow> 'n logs_backend \<Rightarrow> LogsQueryInput \<Rightarrow> 'n logQueryResult reply" where
  "logs_query env b inp =
     in_project env (lqi_ProjectID inp) (\<lambda>project. with_time_filter env (lqi_Time inp) (\<lambda>timeFilter.
       finish env ''Failed to query logs'' ''Verify the project_id and filter syntax.'' []
         (lb_QueryLogs b project (AppendFilter (lqi_Filter inp) timeFilter) (clampLimit (lqi_Limit inp) 100 LogsHardLimit)
            (lqi_Order inp) (lqi_PageToken inp))))"

record LogsByTraceInput =
  lbt_ProjectID :: string
  lbt_Time :: TimeFilterInput
  lbt_TraceID :: string
  lbt_Limit :: int
  lbt_PageToken :: string

definition logs_by_trace :: "tool_env \<Rightarrow> 'n logs_backend \<Rightarrow> LogsByTraceInput \<Rightarrow> 'n logQueryResult reply" where
  "logs_by_trace env b inp =
     in_project env (lbt_ProjectID inp) (\<lambda>project. with_time_filter env (lbt_Time inp) (\<lambda>timeFilter.
       finish env ''Failed to query logs by trace''
         ''Verify the trace_id format (hex string, not full resource path). Use logs_find_requests to discover valid trace IDs.'' []
         (lb_QueryLogsByTrace b project (lbt_TraceID inp) timeFilter (clampLimit (lbt_Limit inp) 100 LogsHardLimit)
            (lbt_PageToken inp))))"

record LogsByRequestIDInput =
  lbr_ProjectID :: string
  lbr_Time :: TimeFilterInput
  lbr_RequestID :: string
  lbr_Limit :: int
  lbr_PageToken :: string

definition logs_by_request_id :: "tool_env \<Rightarrow> 'n logs_backend \<Rightarrow> LogsByRequestIDInput \<Rightarrow> 'n logQueryResult reply" where
  "logs_by_request_id env b inp =
     in_project env (lbr_ProjectID inp) (\<lambda>project. with_time_filter env (lbr_Time inp) (\<lambda>timeFilter.
       finish env ''Failed to query logs by request ID''
         ''Verify the request_id is correct. Use logs_find_requests to discover valid request IDs.'' []
         (lb_QueryLogsByRequestID b project (lbr_RequestID inp) timeFilter (clampLimit (lbr_Limit inp) 100 LogsHardLimit)
            (lbr_PageToken inp))))"

record LogsFindRequestsInput =
  lfr_ProjectID :: string
  lfr_Time :: TimeFilterInput
  lfr_URLPattern :: string
  lfr_Method :: string
  lfr_StatusCode :: int
  lfr_TracedOnly :: bool
  lfr_Limit :: int

definition logs_find_requests :: "tool_env \<Rightarrow> 'n logs_backend \<Rightarrow> LogsFindRequestsInput \<Rightarrow> requestList reply" where
  "logs_find_requests env b inp =
     (if lfr_StatusCode inp \<noteq> 0 \<and> (lfr_StatusCode inp < 100 \<or> 599 < lfr_StatusCode inp)
      then ErrorResult (''invalid status_code '' @ itoa (lfr_StatusCode inp) @ '': must be in range [100, 599]'')
      else in_project env (lfr_ProjectID inp) (\<lambda>project. with_time_filter env (lfr_Time inp) (\<lambda>timeFilter.
        finish env ''Failed to find requests'' ''Verify the project_id and that the URL pattern is correct.'' []
          (lb_FindRequests b \<lparr>fp_Project = project, fp_URLPattern = lfr_URLPattern inp, fp_Method = lfr_Method inp,
             fp_StatusCode = lfr_StatusCode inp, fp_TracedOnly = lfr_TracedOnly inp, fp_TimeFilter = timeFilter,
             fp_Limit = clampLimit (lfr_Limit inp) 20 LogsHardLimit\<rparr>))))"

record LogsK8sInput =
  lk_ProjectID :: string
  lk_Time :: TimeFilterInput
  lk_Namespace :: string
  lk_PodName :: string
  lk_ContainerName :: string
  lk_Severity :: string
  lk_TextSearch :: string
  lk_Limit :: int
  lk_Order :: string
  lk_PageToken :: string

definition part_if :: "string \<Rightarrow> (string \<Rightarrow> string) \<Rightarrow> string list" where
  "part_if s f = (if s \<noteq> [] then [f s] else [])"

definition k8s_filter :: "LogsK8sInput \<Rightarrow> string" where
  "k8s_filter inp =
     join [CHR 0x0A]
       ([''resource.type='' @ quoted ''k8s_container''] @
        part_if (lk_Namespace inp) (\<lambda>s. ''resource.labels.namespace_name='' @ quoted (EscapeFilterValue s)) @
        part_if (lk_PodName inp) (\<lambda>s. ''resource.labels.pod_name:'' @ quoted (EscapeFilterValue s)) @
        part_if (lk_ContainerName inp) (\<lambda>s. ''resource.labels.container_name='' @ quoted (EscapeFilterValue s)) @
        part_if (lk_Severity inp) (\<lambda>s. ''severity>='' @ s) @
        part_if (lk_TextSearch inp) (\<lambda>s. ''(textPayload:'' @ quoted (EscapeFilterValue s) @ '' OR jsonPayload.message:'' @
          quoted (EscapeFilterValue s) @ '')''))"

definition logs_k8s :: "tool_env \<Rightarrow> 'n logs_backend \<Rightarrow> LogsK8sInput \<Rightarrow> 'n logQueryResult reply" where
  "logs_k8s env b inp =
     in_project env (lk_ProjectID inp) (\<lambda>project. with_time_filter env (lk_Time inp) (\<lambda>timeFilter.
       finish env ''Failed to query K8s logs'' ''Verify the project_id and that K8s logging is enabled.'' []
         (lb_QueryLogs b project (AppendFilter (k8s_filter inp) timeFilter) (clampLimit (lk_Limit inp) 100 LogsHardLimit)
            (lk_Order inp) (lk_PageToken inp))))"

record LogsServicesInput =
  lsv_ProjectID :: string
  lsv_Time :: TimeFilterInput

definition logs_services :: "tool_env \<Rightarrow> 'n logs_backend \<Rightarrow> LogsServicesInput \<Rightarrow> serviceList reply" where
  "logs_services env b inp =
     in_project env (lsv_ProjectID inp) (\<lambda>project. with_time_filter env (lsv_Time inp) (\<lambda>timeFilter.
       finish env ''Failed to list services'' ''Verify the project_id and that Cloud Logging API is enabled.'' []
         (lb_ListServices b project timeFilter)))"

record LogsSummaryInput =
  lsm_ProjectID :: string
  lsm_Time :: TimeFilterInput
  lsm_Filter :: string

definition logs_summary :: "tool_env \<Rightarrow> 'n logs_backend \<Rightarrow> LogsSummaryInput \<Rightarrow> 'n logsSummary reply" where
  "logs_summary env b inp =
     in_project env (lsm_ProjectID inp) (\<lambda>project. with_time_filter env (lsm_Time inp) (\<lambda>timeFilter.
       finish env ''Failed to summarize logs'' ''Verify the project_id and filter syntax.'' []
         (lb_SummarizeLogs b project (AppendFilter (lsm_Filter inp) timeFilter))))"

record TraceFindFromLogsInput =
  tfl_ProjectID :: string
  tfl_Time :: TimeFilterInput
  tfl_Filter :: string
  tfl_ScanLimit :: int
  tfl_Limit :: int

definition trace_find_from_logs :: "tool_env \<Rightarrow> 'n logs_backend \<Rightarrow> TraceFindFromLogsInput \<Rightarrow> traceFromLogsList reply" where
  "trace_find_from_logs env b inp =
     in_project env (tfl_ProjectID inp) (\<lambda>project. with_time_filter env (tfl_Time inp) (\<lambda>timeFilter.
       finish env ''Failed to find traces from logs'' ''Verify the project_id and filter syntax.'' []
         (lb_FindTracesFromLogs b project (tfl_Filter inp) timeFilter (clampLimit (tfl_ScanLimit inp) LogsHardLimit LogsHardLimit)
            (clampLimit (tfl_Limit inp) 20 maxTraceFindResults))))"

subsection \<open>Errors\<close>

record errors_backend =
  eb_ListErrors :: "string \<Rightarrow> string \<Rightarrow> int \<Rightarrow> string \<Rightarrow> string \<Rightarrow> go_error + ErrorGroupList"
  eb_GetErrorGroup :: "string \<Rightarrow> string \<Rightarrow> int \<Rightarrow> string \<Rightarrow> go_error + ErrorGroupDetail"
  eb_AnalyzeErrorTrends :: "string \<Rightarrow> string \<Rightarrow> int \<Rightarrow> string \<Rightarrow> string \<Rightarrow> go_error + ErrorTrendList"

definition ErrorReportingQuerier :: "errors_client \<Rightarrow> gtime \<Rightarrow> errors_backend" where
  "ErrorReportingQuerier cl now =
     \<lparr>eb_ListErrors = ListErrors cl now, eb_GetErrorGroup = GetErrorGroup cl, eb_AnalyzeErrorTrends = AnalyzeErrorTrends cl now\<rparr>"

record ErrorsListInput =
  eli_ProjectID :: string
  eli_Window :: string
  eli_Limit :: int
  eli_ServiceFilter :: string
  eli_VersionFilter :: string

definition errors_list :: "tool_env \<Rightarrow> errors_backend \<Rightarrow> ErrorsListInput \<Rightarrow> ErrorGroupList reply" where
  "errors_list env b inp =
     in_project env (eli_ProjectID inp) (\<lambda>project.
       finish env ''Failed to list errors'' ''Verify the project_id and that Error Reporting API is enabled.'' []
         (eb_ListErrors b project (eli_Window inp) (clampLimit (eli_Limit inp) 50 ErrorsHardLimit) (eli_ServiceFilter inp)
            (eli_VersionFilter inp)))"

definition errors_trends :: "tool_env \<Rightarrow> errors_backend \<Rightarrow> ErrorsListInput \<Rightarrow> ErrorTrendList reply" where
  "errors_trends env b inp =
     in_project env (eli_ProjectID inp) (\<lambda>project.
       finish env ''Failed to analyze error trends'' ''Verify the project_id and that Error Reporting API is enabled.'' []
         (eb_AnalyzeErrorTrends b project (eli_Window inp) (clampLimit (eli_Limit inp) 50 ErrorsHardLimit) (eli_ServiceFilter inp)
            (eli_VersionFilter inp)))"

record ErrorsGetInput =
  egi_ProjectID :: string
  egi_GroupID :: string
  egi_Limit :: int
  egi_PageToken :: string

definition errors_get :: "tool_env \<Rightarrow> errors_backend \<Rightarrow> ErrorsGetInput \<Rightarrow> ErrorGroupDetail reply" where
  "errors_get env b inp =
     in_project env (egi_ProjectID inp) (\<lambda>project.
       finish env ''Failed to get error group''
         (''Verify the group_id is valid '' @ em_dash @ '' use errors_list to find available group IDs.'') []
         (eb_GetErrorGroup b project (egi_GroupID inp) (clampLimit (egi_Limit inp) 20 ErrorsHardLimit) (egi_PageToken inp)))"

subsection \<open>Traces\<close>

record traces_backend =
  tb_GetTrace :: "string \<Rightarrow> string \<Rightarrow> go_error + traceDetail"
  tb_ListTraces :: "string \<Rightarrow> string \<Rightarrow> string \<Rightarrow> string \<Rightarrow> gtime \<Rightarrow> gtime \<Rightarrow> int \<Rightarrow> string \<Rightarrow> go_error + traceListResult"

definition CloudTraceQuerier ::
  "(string \<Rightarrow> string \<Rightarrow> go_error + (string \<times> pbSpan list)) \<Rightarrow> (traceSpan list \<Rightarrow> traceSpan list) \<Rightarrow> 'i trace_client \<Rightarrow> traces_backend" where
  "CloudTraceQuerier get perm cl = \<lparr>tb_GetTrace = GetTrace get perm, tb_ListTraces = ListTraces cl iterator_Done\<rparr>"

record TraceGetInput =
  tgi_ProjectID :: string
  tgi_TraceID :: string

definition trace_get :: "tool_env \<Rightarrow> traces_backend \<Rightarrow> TraceGetInput \<Rightarrow> traceDetail reply" where
  "trace_get env b inp =
     in_project env (tgi_ProjectID inp) (\<lambda>project.
       finish env (''Failed to get trace '' @ quote (tgi_TraceID inp))
         ''Verify the project_id, credentials, and that Cloud Trace API is enabled.''
         [(InvalidArgument, ''Verify the trace_id is a valid 32-character hex string (not the full resource path). '' @
             ''Use logs_find_requests to discover valid trace IDs.''),
          (NotFound, ''The trace does not exist in this project, may have aged out of retention, or the trace_id/project_id pair is wrong.'')]
         (tb_GetTrace b project (tgi_TraceID inp)))"

record TraceListInput =
  tli_ProjectID :: string
  tli_StartTime :: string
  tli_EndTime :: string
  tli_RootName :: string
  tli_SpanName :: string
  tli_MinLatency :: string
  tli_Filter :: string
  tli_OrderBy :: string
  tli_View :: string
  tli_Limit :: int
  tli_PageToken :: string

definition trace_filter :: "float_env \<Rightarrow> TraceListInput \<Rightarrow> go_error + string" where
  "trace_filter fe inp =
     (if tli_Filter inp \<noteq> [] then Inr (tli_Filter inp)
      else BuildTraceFilter fe (tli_RootName inp) (tli_SpanName inp) (tli_MinLatency inp))"

definition trace_list :: "tool_env \<Rightarrow> float_env \<Rightarrow> traces_backend \<Rightarrow> TraceListInput \<Rightarrow> traceListResult reply" where
  "trace_list env fe b inp =
     in_project env (tli_ProjectID inp) (\<lambda>project.
       case trace_filter fe inp of
         Inl err \<Rightarrow> ErrorResult (err_text err)
       | Inr filt \<Rightarrow>
           (case parseTimeRange env (tli_StartTime inp) (tli_EndTime inp) hour of
              Inl err \<Rightarrow> ErrorResult (err_text err)
            | Inr (start, endt) \<Rightarrow>
                finish env ''Failed to list traces'' ''Verify the project_id, filter syntax, and that Cloud Trace API is enabled.'' []
                  (tb_ListTraces b project filt (tli_View inp) (tli_OrderBy inp) (zt_Instant start) (zt_Instant endt)
                     (clampLimit (tli_Limit inp) 50 200) (tli_PageToken inp))))"

subsection \<open>Profiles\<close>

text \<open>
  The state of the backend is its cache. A scan that never ends is \<open>None\<close>; a time filter that is absent
  is the zero time, and only the instant of a given one matters.
\<close>

record 'q profiler_backend =
  fb_ListProfiles :: "listProfilesParams \<Rightarrow> (go_error + profileListResult) option"
  fb_TopProfile :: "'q \<Rightarrow> navigationParams \<Rightarrow> int \<Rightarrow> string \<Rightarrow> string \<Rightarrow> 'q \<times> (navigation_error + profileTopResult)"
  fb_PeekProfile :: "'q \<Rightarrow> navigationParams \<Rightarrow> string \<Rightarrow> int \<Rightarrow> 'q \<times> (navigation_error + profilePeekResult)"
  fb_FlamegraphProfile :: "'q \<Rightarrow> navigationParams \<Rightarrow> string \<Rightarrow> int \<Rightarrow> rat \<Rightarrow> 'q \<times> (navigation_error + profileFlamegraphResult)"
  fb_CompareProfiles :: "'q \<Rightarrow> string \<Rightarrow> string \<Rightarrow> string \<Rightarrow> int \<Rightarrow> int \<Rightarrow> 'q \<times> (go_error + (profileMeta \<times> profileMeta \<times> comparison))"
  fb_ComputeTrends :: "'q \<Rightarrow> computeTrendsParams \<Rightarrow> ('q \<times> (go_error + profileTrendsResult)) option"

definition CloudProfilerQuerier ::
  "profiler_env \<Rightarrow> (peekEntry list \<Rightarrow> peekEntry list) \<Rightarrow> (compareTopEntry list \<Rightarrow> compareTopEntry list) \<Rightarrow>
   (nat \<Rightarrow> go_error option) \<Rightarrow> (profileMeta list \<Rightarrow> profileMeta list) \<Rightarrow>
   ((string \<times> series) list \<Rightarrow> (string \<times> series) list) \<Rightarrow> querier profiler_backend" where
  "CloudProfilerQuerier pe peek_perm compare_perm ended order trend_perm =
     \<lparr>fb_ListProfiles = ListProfiles pe, fb_TopProfile = TopProfile pe, fb_PeekProfile = PeekProfile pe peek_perm,
      fb_FlamegraphProfile = FlamegraphProfile pe, fb_CompareProfiles = CompareProfiles pe compare_perm,
      fb_ComputeTrends = ComputeTrends pe ended order trend_perm\<rparr>"

definition profileNavigationErrorResult :: "tool_env \<Rightarrow> navigation_error \<Rightarrow> string \<Rightarrow> 'r reply" where
  "profileNavigationErrorResult env err analysisMessage =
     (case err of
        ProfileFetchError e \<Rightarrow> gcpErrorResult env (''Failed to fetch profile: '' @ err_text e) e [] []
      | AnalysisError e \<Rightarrow> ErrorResult (analysisMessage @ '' '' @ err_text e))"

definition in_project_q :: "tool_env \<Rightarrow> string \<Rightarrow> 'q \<Rightarrow> (string \<Rightarrow> 'q \<times> 'r reply) \<Rightarrow> 'q \<times> 'r reply" where
  "in_project_q env requested q k =
     (case Resolve (te_Project env) requested of Inl err \<Rightarrow> (q, ErrorResult (err_text err)) | Inr project \<Rightarrow> k project)"

definition finish_navigation :: "tool_env \<Rightarrow> string \<Rightarrow> 'q \<times> (navigation_error + 'r) \<Rightarrow> 'q \<times> 'r reply" where
  "finish_navigation env msg r =
     (case r of
        (q, Inl err) \<Rightarrow> (q, profileNavigationErrorResult env err msg)
      | (q, Inr x) \<Rightarrow> (q, Structured x))"

record ProfilerListInput =
  pli_ProjectID :: string
  pli_StartTime :: string
  pli_EndTime :: string
  pli_ProfileType :: string
  pli_Target :: string
  pli_Limit :: int
  pli_PageToken :: string

definition profiler_list :: "tool_env \<Rightarrow> 'q profiler_backend \<Rightarrow> ProfilerListInput \<Rightarrow> profileListResult reply option" where
  "profiler_list env b inp =
     (case Resolve (te_Project env) (pli_ProjectID inp) of
        Inl err \<Rightarrow> Some (ErrorResult (err_text err))
      | Inr project \<Rightarrow>
          (case parseRFC3339Opt (pli_StartTime inp) ''start_time'' of
             Inl err \<Rightarrow> Some (ErrorResult (err_text err))
           | Inr start \<Rightarrow>
               (case parseRFC3339Opt (pli_EndTime inp) ''end_time'' of
                  Inl err \<Rightarrow> Some (ErrorResult (err_text err))
                | Inr endt \<Rightarrow>
                    map_option (finish env ''Failed to list profiles'' ''Verify the project_id and that Cloud Profiler API is enabled.'' [])
                      (fb_ListProfiles b \<lparr>lp_Project = project, lp_ProfileType = pli_ProfileType inp, lp_Target = pli_Target inp,
                         lp_StartTime = zt_Instant start, lp_EndTime = zt_Instant endt,
                         lp_PageSize = clampLimit (pli_Limit inp) 20 100, lp_PageToken = pli_PageToken inp\<rparr>))))"

record ProfilerInput =
  pfi_ProjectID :: string
  pfi_ProfileID :: string
  pfi_BaseProfileID :: string
  pfi_ValueIndex :: int

definition navigation :: "string \<Rightarrow> ProfilerInput \<Rightarrow> navigationParams" where
  "navigation project inp =
     \<lparr>np_Project = project, np_ProfileID = pfi_ProfileID inp, np_BaseProfileID = pfi_BaseProfileID inp,
      np_ValueIndex = pfi_ValueIndex inp\<rparr>"

record ProfilerTopInput = ProfilerInput +
  pti_Limit :: int
  pti_SortBy :: string
  pti_Filter :: string

definition profiler_top :: "tool_env \<Rightarrow> 'q profiler_backend \<Rightarrow> 'q \<Rightarrow> ProfilerTopInput \<Rightarrow> 'q \<times> profileTopResult reply" where
  "profiler_top env b q inp =
     in_project_q env (pfi_ProjectID inp) q (\<lambda>project.
       finish_navigation env ''Failed to analyze profile:''
         (fb_TopProfile b q (navigation project (ProfilerInput.truncate inp)) (pti_Limit inp) (pti_SortBy inp) (pti_Filter inp)))"

record ProfilerPeekInput = ProfilerInput +
  ppi_FunctionName :: string
  ppi_Limit :: int

definition profiler_peek :: "tool_env \<Rightarrow> 'q profiler_backend \<Rightarrow> 'q \<Rightarrow> ProfilerPeekInput \<Rightarrow> 'q \<times> profilePeekResult reply" where
  "profiler_peek env b q inp =
     in_project_q env (pfi_ProjectID inp) q (\<lambda>project.
       finish_navigation env ''Failed to peek function:''
         (fb_PeekProfile b q (navigation project (ProfilerInput.truncate inp)) (ppi_FunctionName inp) (ppi_Limit inp)))"

record ProfilerFlamegraphInput = ProfilerInput +
  pgi_RootFunction :: string
  pgi_MaxDepth :: int
  pgi_MinPct :: rat

definition profiler_flamegraph ::
  "tool_env \<Rightarrow> 'q profiler_backend \<Rightarrow> 'q \<Rightarrow> ProfilerFlamegraphInput \<Rightarrow> 'q \<times> profileFlamegraphResult reply" where
  "profiler_flamegraph env b q inp =
     in_project_q env (pfi_ProjectID inp) q (\<lambda>project.
       finish_navigation env ''Failed to build flamegraph:''
         (fb_FlamegraphProfile b q (navigation project (ProfilerInput.truncate inp)) (pgi_RootFunction inp) (pgi_MaxDepth inp)
            (pgi_MinPct inp)))"

definition profiler_compare ::
  "tool_env \<Rightarrow> 'q profiler_backend \<Rightarrow> 'q \<Rightarrow> ProfilerInput \<Rightarrow> 'q \<times> (profileMeta \<times> profileMeta \<times> comparison) reply" where
  "profiler_compare env b q inp =
     in_project_q env (pfi_ProjectID inp) q (\<lambda>project.
       case fb_CompareProfiles b q project (pfi_ProfileID inp) (pfi_BaseProfileID inp) (pfi_ValueIndex inp) 10 of
         (q, r) \<Rightarrow> (q, finish env ''Failed to compare profiles'' [] [] r))"

record ProfilerTrendsInput =
  pri_ProjectID :: string
  pri_ProfileType :: string
  pri_Target :: string
  pri_FunctionFilter :: string
  pri_ValueIndex :: int
  pri_MaxProfiles :: int
  pri_MaxFunctions :: int

definition profiler_trends ::
  "tool_env \<Rightarrow> 'q profiler_backend \<Rightarrow> 'q \<Rightarrow> ProfilerTrendsInput \<Rightarrow> ('q \<times> profileTrendsResult reply) option" where
  "profiler_trends env b q inp =
     (case Resolve (te_Project env) (pri_ProjectID inp) of
        Inl err \<Rightarrow> Some (q, ErrorResult (err_text err))
      | Inr project \<Rightarrow>
          map_option (\<lambda>(q, r). (q, finish env ''Failed to compute trends'' [] [] r))
            (fb_ComputeTrends b q \<lparr>ct_Project = project, ct_ProfileType = pri_ProfileType inp, ct_Target = pri_Target inp,
               ct_FunctionFilter = pri_FunctionFilter inp, ct_ValueIndex = pri_ValueIndex inp,
               ct_MaxProfiles = clampLimit (pri_MaxProfiles inp) 30 100, ct_MaxFunctions = clampLimit (pri_MaxFunctions inp) 10 20\<rparr>))"

subsection \<open>Input schemas\<close>

text \<open>
  A schema as \<open>jsonschema.For\<close> generates it is a parameter: its properties, the required ones, and
  whether other properties are allowed. Where the code panics the result is \<open>None\<close>.
\<close>

record prop_schema =
  ps_Description :: string
  ps_Enum :: "string list"
  ps_Default :: "string option"
  ps_MinLength :: "nat option"
  ps_Minimum :: "int option"
  ps_Pattern :: string

record input_schema =
  is_Properties :: "(string \<times> prop_schema) list"
  is_Required :: "string list"
  is_Open :: bool

type_synonym propPatch = "string \<times> (prop_schema \<Rightarrow> prop_schema option)"

definition enumProp :: "string \<Rightarrow> string list \<Rightarrow> string \<Rightarrow> propPatch" where
  "enumProp property values def =
     (property, \<lambda>s.
        (let s = s\<lparr>ps_Enum := values, ps_Description := ps_Description s @ ''. One of: '' @ join '', '' values\<rparr>
         in if def = [] then Some s
            else if def \<notin> set values then None
            else Some (s\<lparr>ps_Default := Some def, ps_Description := ps_Description s @ ''. Default: '' @ def\<rparr>)))"

definition nonEmptyProp :: "string \<Rightarrow> propPatch" where
  "nonEmptyProp property = (property, \<lambda>s. Some (s\<lparr>ps_MinLength := Some 1\<rparr>))"

definition nonNegativeValueIndex :: propPatch where
  "nonNegativeValueIndex = (''value_index'', \<lambda>s. Some (s\<lparr>ps_Minimum := Some 0\<rparr>))"

definition patch_prop :: "input_schema \<Rightarrow> propPatch \<Rightarrow> input_schema option" where
  "patch_prop schema patch =
     (case map_of (is_Properties schema) (fst patch) of
        None \<Rightarrow> None
      | Some prop \<Rightarrow>
          map_option (\<lambda>p. schema\<lparr>is_Properties := AList.update (fst patch) p (is_Properties schema)\<rparr>) (snd patch prop))"

fun inputSchemaFor :: "input_schema \<Rightarrow> propPatch list \<Rightarrow> input_schema option" where
  "inputSchemaFor schema [] = Some schema"
| "inputSchemaFor schema (p # ps) =
     (case patch_prop schema p of None \<Rightarrow> None | Some s \<Rightarrow> inputSchemaFor s ps)"

definition projectInputSchema :: "input_schema \<Rightarrow> ProjectPolicy \<Rightarrow> propPatch list \<Rightarrow> input_schema option" where
  "projectInputSchema generated policy patches =
     (case inputSchemaFor generated patches of
        None \<Rightarrow> None
      | Some schema \<Rightarrow>
          (let schema = schema\<lparr>is_Open := False\<rparr> in
           if Pinned policy then Some (schema\<lparr>is_Properties := AList.delete ''project_id'' (is_Properties schema)\<rparr>)
           else (case map_of (is_Properties schema) ''project_id'' of
                   None \<Rightarrow> None
                 | Some prop \<Rightarrow>
                     Some (schema\<lparr>is_Properties := AList.update ''project_id''
                         (prop\<lparr>ps_Description := ''GCP project ID; required by this unpinned deployment'',
                            ps_Pattern := ''^[a-z][a-z0-9-]{4,28}[a-z0-9]$''\<rparr>) (is_Properties schema),
                       is_Required := is_Required schema @ [''project_id'']\<rparr>))))"

end
