(* ===== verification/Tool_Metrics.thy ===== *)
theory Tool_Metrics
  imports Tool_Common Metric_Registry Metric_Process
begin

text \<open>
  What the metric tools share: the queries they make, available labels and the explanation of invalid
  filters (\<open>internal/tools/metric_labels.go\<close>), query warnings and failures of a query
  (\<open>tools.go\<close>), baseline windows and their failure policy, windows and messages
  (\<open>metrics_snapshot.go\<close>). The backend is a record of functions, as the interface
  \<open>gcpdata.MetricsQuerier\<close>; within one tool call it gives the same answer to the same question.
\<close>

subsection \<open>The backend\<close>

type_synonym query_answer = "(go_error + MetricTimeSeries list) \<times> QueryWarnings"

record metrics_querier =
  mq_ListMetricDescriptors :: "string \<Rightarrow> string \<Rightarrow> int \<Rightarrow> go_error + MetricDescriptorInfo list"
  mq_GetMetricDescriptor :: "string \<Rightarrow> string \<Rightarrow> go_error + MetricDescriptorBasic"
  mq_QueryTimeSeries :: "QueryTimeSeriesParams \<Rightarrow> query_answer call"
  mq_QueryTimeSeriesAggregated :: "QueryTimeSeriesParams \<Rightarrow> AggregationSpec \<Rightarrow> query_answer call"
  mq_GetResourceLabels :: "string \<Rightarrow> string \<Rightarrow> go_error + string list option"

text \<open>
  \<open>MonitoringQuerier\<close> implements the interface over the client of Cloud Monitoring; \<open>c\<close> is the shared
  cache of resource labels when the tool call starts, and \<open>panic\<close> the text of a panic.
\<close>

definition MonitoringQuerier :: "monitoring_client \<Rightarrow> resource_cache \<Rightarrow> string \<Rightarrow> metrics_querier" where
  "MonitoringQuerier cl c panic =
     \<lparr>mq_ListMetricDescriptors = ListMetricDescriptors cl, mq_GetMetricDescriptor = GetMetricDescriptor cl,
      mq_QueryTimeSeries = (\<lambda>p. Returns (QueryTimeSeries cl p)),
      mq_QueryTimeSeriesAggregated =
        (\<lambda>p spec. case QueryTimeSeriesAggregated cl p spec of None \<Rightarrow> Panics panic | Some a \<Rightarrow> Returns a),
      mq_GetResourceLabels = (\<lambda>project rt. snd (GetResourceLabels cl c project rt))\<rparr>"

subsection \<open>Available labels\<close>

record AvailableLabels =
  al_Metric :: "string list"
  al_Resource :: "(string \<times> string list) list"
  al_IncompleteTypes :: "string list"
  al_IncompleteReason :: string

definition incomplete_reason :: "string \<Rightarrow> go_error \<Rightarrow> string list \<Rightarrow> string" where
  "incomplete_reason metricType err types =
     ''Resource label keys of metric '' @ quote metricType @ '' could not be fetched ('' @ err_text err @
     ''); available_labels.resource is incomplete for '' @ join '', '' types @ ''.''"

fun resource_labels ::
  "(string \<Rightarrow> go_error + string list option) \<Rightarrow> string \<Rightarrow> string list \<Rightarrow> AvailableLabels \<Rightarrow> AvailableLabels" where
  "resource_labels get metricType [] r = r"
| "resource_labels get metricType (rt # rts) r =
     (case get rt of
        Inl err \<Rightarrow> r\<lparr>al_IncompleteTypes := rt # rts, al_IncompleteReason := incomplete_reason metricType err (rt # rts)\<rparr>
      | Inr None \<Rightarrow> resource_labels get metricType rts r
      | Inr (Some ls) \<Rightarrow> resource_labels get metricType rts (r\<lparr>al_Resource := AList.update rt (sort ls) (al_Resource r)\<rparr>))"

definition availableLabelsFromDescriptor ::
  "metrics_querier \<Rightarrow> string \<Rightarrow> string \<Rightarrow> LabelDescriptor list \<Rightarrow> string list \<Rightarrow> AvailableLabels" where
  "availableLabelsFromDescriptor q project metricType ls types =
     resource_labels (mq_GetResourceLabels q project) metricType types
       \<lparr>al_Metric = sort (map ld_Key ls), al_Resource = [], al_IncompleteTypes = [], al_IncompleteReason = []\<rparr>"

definition fetchAvailableLabels :: "metrics_querier \<Rightarrow> string \<Rightarrow> string \<Rightarrow> go_error + AvailableLabels option" where
  "fetchAvailableLabels q project metricType =
     (case mq_ListMetricDescriptors q project (metric_filter metricType) 1 of
        Inl err \<Rightarrow> Inl (prefix_error (''listing the descriptor of metric '' @ quote metricType @ '': '') err)
      | Inr [] \<Rightarrow> Inr None
      | Inr (d # _) \<Rightarrow>
          Inr (Some (availableLabelsFromDescriptor q project metricType (md_Labels d) (md_MonitoredResourceTypes d))))"

subsection \<open>Invalid filters\<close>

text \<open>
  \<open>(?i)filter does not specify a valid combination\<close>: case is folded as Go does, so the long s matches
  the letter s.
\<close>

fun fold_long_s :: "string \<Rightarrow> string" where
  "fold_long_s (a # b # s) =
     (if a = CHR 0xC5 \<and> b = CHR 0xBF then CHR ''s'' # fold_long_s s else a # fold_long_s (b # s))"
| "fold_long_s s = s"

definition invalidFilterErrRe :: "string \<Rightarrow> bool" where
  "invalidFilterErrRe s = contains (to_lower (fold_long_s s)) ''filter does not specify a valid combination''"

definition isInvalidFilterError :: "tool_env \<Rightarrow> go_error \<Rightarrow> bool" where
  "isInvalidFilterError env err =
     (case te_Status env err of
        Some (c, msg) \<Rightarrow> c = InvalidArgument \<and> invalidFilterErrRe msg
      | None \<Rightarrow> invalidFilterErrRe (err_text err))"

definition ident_start :: "char \<Rightarrow> bool" where
  "ident_start c = (lower_letter c \<or> 65 \<le> byte_of c \<and> byte_of c \<le> 90 \<or> c = CHR ''_'')"

definition ident_char :: "char \<Rightarrow> bool" where
  "ident_char c = (ident_start c \<or> is_digit10 c)"

text \<open>
  \<open>(metric|resource)\.labels\.([A-Za-z_][A-Za-z0-9_]*)\<close> at the start of a string: the namespace, the
  key and the length of the match. The matches do not overlap: the first argument of \<open>find_keys\<close>
  counts the rest of the last match.
\<close>

definition match_key :: "string \<Rightarrow> (string \<times> string \<times> nat) option" where
  "match_key s =
     (case find (\<lambda>ns. has_prefix s (ns @ ''.labels.'')) [''metric'', ''resource''] of
        None \<Rightarrow> None
      | Some ns \<Rightarrow>
          (let n = length ns + 8; key = takeWhile ident_char (drop n s)
           in if key = [] \<or> \<not> ident_start (hd key) then None else Some (ns, key, n + length key)))"

fun find_keys :: "nat \<Rightarrow> string \<Rightarrow> (string \<times> string) list" where
  "find_keys n [] = []"
| "find_keys (Suc n) (c # s) = find_keys n s"
| "find_keys 0 (c # s) =
     (case match_key (c # s) of
        None \<Rightarrow> find_keys 0 s
      | Some (ns, key, n) \<Rightarrow> (ns, key) # find_keys (n - 1) s)"

definition misplaced :: "string list \<Rightarrow> string list \<Rightarrow> string \<times> string \<Rightarrow> string list" where
  "misplaced metricKeys resourceKeys m =
     (case m of (ns, key) \<Rightarrow>
        if ns = ''resource'' \<and> key \<notin> set resourceKeys \<and> key \<in> set metricKeys then
          [''`resource.labels.'' @ key @ ''` does not exist on this metric's resource types '' @ em_dash @
           '' try `metric.labels.'' @ key @ ''` instead.'']
        else if ns = ''metric'' \<and> key \<notin> set metricKeys \<and> key \<in> set resourceKeys then
          [''`metric.labels.'' @ key @ ''` does not exist on this metric '' @ em_dash @
           '' try `resource.labels.'' @ key @ ''` instead.'']
        else [])"

definition filterMisplaceHint :: "string \<Rightarrow> AvailableLabels \<Rightarrow> string" where
  "filterMisplaceHint labelFilter ls =
     join '' '' (concat (map (misplaced (al_Metric ls) (concat (map snd (al_Resource ls)))) (find_keys 0 labelFilter)))"

definition line :: "string \<Rightarrow> string" where
  "line s = s @ [CHR 10]"

definition resource_lines :: "(string \<times> string list) list \<Rightarrow> string" where
  "resource_lines res =
     concat (map (\<lambda>t. line (''  resource.labels: '' @ join '', '' (case map_of res t of Some ls \<Rightarrow> ls | None \<Rightarrow> []) @
                       ''   ('' @ t @ '')''))
               (sort (map fst res)))"

definition enrichInvalidFilterError ::
  "metrics_querier \<Rightarrow> string \<Rightarrow> string \<Rightarrow> string \<Rightarrow> go_error \<Rightarrow> string" where
  "enrichInvalidFilterError q project metricType labelFilter orig =
     (let failed = ''Failed to query metric: '' @ err_text orig @ [CHR 10, CHR 10] @
            ''(Could not fetch label descriptors for '' @ quote metricType @ '' to suggest a fix''
      in case fetchAvailableLabels q project metricType of
           Inl err \<Rightarrow> failed @ '': '' @ err_text err @ '')''
         | Inr None \<Rightarrow> failed @ ''.)''
         | Inr (Some ls) \<Rightarrow>
             line (''Filter invalid for '' @ metricType @ ''.'') @
             line (''  Your filter: '' @ labelFilter) @
             line (''  GCP said:    '' @ err_text orig) @
             line [] @ line ''Available labels for this metric:'' @
             (if al_Metric ls \<noteq> [] then line (''  metric.labels:   '' @ join '', '' (al_Metric ls))
              else line ''  metric.labels:   (none)'') @
             (if al_Resource ls \<noteq> [] then resource_lines (al_Resource ls) else line ''  resource.labels: (none)'') @
             (if al_IncompleteReason ls \<noteq> [] then line [] @ line (''Note: '' @ al_IncompleteReason ls) else []) @
             (if filterMisplaceHint labelFilter ls \<noteq> [] then line [] @ line (''Hint: '' @ filterMisplaceHint labelFilter ls)
              else []))"

subsection \<open>Query warnings\<close>

definition warning_text :: "string \<Rightarrow> string \<Rightarrow> string \<Rightarrow> string" where
  "warning_text metricType label msg = ''metric '' @ quote metricType @ '' ('' @ label @ ''): '' @ msg"

definition nat_text :: "nat \<Rightarrow> string" where
  "nat_text n = itoa (int n)"

definition of_buckets :: "nat \<Rightarrow> QueryWarnings \<Rightarrow> string" where
  "of_buckets n w = nat_text n @ '' of '' @ nat_text (qw_TotalBuckets w) @ '' folded buckets ''"

definition queryWarningMessages :: "string \<Rightarrow> string \<Rightarrow> QueryWarnings \<Rightarrow> string list" where
  "queryWarningMessages metricType label w =
     map (warning_text metricType label)
       ((if 0 < qw_UnsupportedPoints w then
           [''dropped '' @ nat_text (qw_UnsupportedPoints w) @
            '' point(s) with unsupported or malformed value types during decode.''] else []) @
        (if 0 < qw_NonFinitePoints w then
           [''discarded '' @ nat_text (qw_NonFinitePoints w) @
            '' non-finite point(s) (NaN or infinity); no public numeric field contains a non-finite value.''] else []) @
        (if qw_TruncatedSeries w then
           [''query hit the server-side time-series cap ('' @ nat_text MaxTimeSeries @
            '' series) and the result is truncated; aggregates are computed from a partial set of series only. '' @
            ''Narrow the filter or group cardinality before trusting the numbers.''] else []) @
        (if qw_SingleGroup w then
           [''two-stage aggregation returned '' @ nat_text (qw_GroupCount w) @ '' group(s) '' @ em_dash @
            '' verify the configured group_by label actually exists on this metric (registry typo produces this symptom). '' @
            ''The fold is mathematically safe but operators should re-check the registry entry.''] else []) @
        (if 0 < qw_DepartedGroupBuckets w then
           [of_buckets (qw_DepartedGroupBuckets w) w @
            ''dropped at least one departed group (series went silent longer than the carry-forward bound); '' @
            nat_text (qw_DepartedSeries w) @ '' distinct group series departed during the window. Investigate whether '' @
            ''the upstream publisher (replica, tenant, leader) actually stopped or whether the bound is too tight.''] else []) @
        (if 0 < qw_CarryForwardBuckets w then
           [of_buckets (qw_CarryForwardBuckets w) w @
            ''used carry-forward for at least one group (transient gap, still within the carry-forward bound); '' @
            ''numbers are usable but trend/spike detection may be noisy.''] else []))"

definition queryWarningsNote :: "string \<Rightarrow> string \<Rightarrow> QueryWarnings \<Rightarrow> string" where
  "queryWarningsNote metricType label w = joinNote (queryWarningMessages metricType label w)"

subsection \<open>Failed lookups and queries\<close>

definition invalidAggregationSpecError :: "go_error \<Rightarrow> bool" where
  "invalidAggregationSpecError err = errors_is err ErrInvalidAggregationSpec"

definition formatRegistryMisconfigError :: "string \<Rightarrow> string \<Rightarrow> string" where
  "formatRegistryMisconfigError metricType err =
     ''Registry misconfiguration for metric '' @ quote metricType @ '': '' @ err @
     ''. Fix the metric's aggregation block in the registry YAML '' @ em_dash @ '' retrying will not help.''"

text \<open>The text and value of \<open>errors.Join\<close> of errors that may be nil, one of them not.\<close>

definition joined :: "go_error option list \<Rightarrow> go_error" where
  "joined errs = (case join_errors (List.map_filter (\<lambda>e. e) errs) of Some e \<Rightarrow> e | None \<Rightarrow> Sentinel ''<nil>'')"

definition metricQueryErrorResult ::
  "tool_env \<Rightarrow> metrics_querier \<Rightarrow> string \<Rightarrow> string \<Rightarrow> string \<Rightarrow> string \<Rightarrow> go_error option list \<Rightarrow> 'r reply" where
  "metricQueryErrorResult env q project metricType filt msg errs =
     (if list_ex (\<lambda>e. case e of Some e \<Rightarrow> invalidAggregationSpecError e | None \<Rightarrow> False) errs
      then ErrorResult (formatRegistryMisconfigError metricType (err_text (joined errs)))
      else if list_ex (\<lambda>e. case e of Some e \<Rightarrow> isInvalidFilterError env e | None \<Rightarrow> False) errs
      then ErrorResult (enrichInvalidFilterError q project metricType filt (joined errs))
      else gcpErrorsResult env msg errs [] [])"

definition lookupMetricDescriptor ::
  "tool_env \<Rightarrow> metrics_querier \<Rightarrow> string \<Rightarrow> string \<Rightarrow> 'r reply + MetricDescriptorBasic" where
  "lookupMetricDescriptor env q project metricType =
     (case mq_GetMetricDescriptor q project metricType of
        Inl err \<Rightarrow> Inl (gcpErrorResult env (''Failed to look up metric descriptor: '' @ err_text err) err
                         ''Verify the metric_type.'' [])
      | Inr d \<Rightarrow> Inr d)"

definition resolveValidAggSpec :: "string \<Rightarrow> MetricMeta \<Rightarrow> 'r reply + AggregationSpec" where
  "resolveValidAggSpec metricType meta =
     (case aggregation_Validate (ResolveAggregation meta) of
        Some err \<Rightarrow> Inl (ErrorResult (formatRegistryMisconfigError metricType (err_text err)))
      | None \<Rightarrow> Inr (ResolveAggregation meta))"

subsection \<open>Windows\<close>

definition metricWindows :: "(string \<times> duration) list" where
  "metricWindows = [(''15m'', 15 * minute), (''30m'', 30 * minute), (''1h'', hour), (''3h'', 3 * hour),
     (''6h'', 6 * hour), (''24h'', 24 * hour)]"

text \<open>The \<open>%v\<close> verb on a slice of strings.\<close>

definition list_text :: "string list \<Rightarrow> string" where
  "list_text xs = ''['' @ join '' '' xs @ '']''"

definition parseWindow :: "string \<Rightarrow> go_error + (string \<times> duration)" where
  "parseWindow s =
     (case find (\<lambda>(name, dur). name = s) metricWindows of
        Some w \<Rightarrow> Inr w
      | None \<Rightarrow> Inl (Sentinel (''invalid window '' @ quote s @ '': must be one of '' @ list_text (map fst metricWindows))))"

text \<open>
  The expected number of points; \<open>None\<close> is the panic of a division by zero, when the step in
  nanoseconds wraps around to 0.
\<close>

definition expectedPointsForWindow :: "duration \<Rightarrow> int \<Rightarrow> int option" where
  "expectedPointsForWindow windowDur stepSeconds =
     (let step = wrap64 (stepSeconds * second)
      in if step = 0 then None else Some (wrap64 (tquot windowDur step + 1)))"

definition mergePoints :: "tool_env \<Rightarrow> MetricTimeSeries list \<Rightarrow> Point list" where
  "mergePoints env series = sort_points (te_Points env (concat (map ts_Points series)))"

definition emptyWindowMessage :: "string \<Rightarrow> string \<Rightarrow> GcpMetricKind \<Rightarrow> string \<Rightarrow> string" where
  "emptyWindowMessage metricType window kind labelFilter =
     ''Metric '' @ quote metricType @ '' has no data points in the last '' @ window @
     ''. The metric is registered in Cloud Monitoring but the window is empty. Likely cause: '' @
     EmptyWindowReason kind @ ''.'' @
     (if labelFilter \<noteq> [] then '' The label filter '' @ quote labelFilter @
        '' may also be excluding every series '' @ em_dash @ '' try removing it.''
      else '' Try widening the window or removing any dimension/filter to confirm.'')"

subsection \<open>Baselines\<close>

datatype baselineMode = PrevWindow | SameWeekdayHour | PreEvent

fun mode_text :: "baselineMode \<Rightarrow> string" where
  "mode_text PrevWindow = ''prev_window''"
| "mode_text SameWeekdayHour = ''same_weekday_hour''"
| "mode_text PreEvent = ''pre_event''"

definition baselineModes :: "baselineMode list" where
  "baselineModes = [PrevWindow, SameWeekdayHour, PreEvent]"

record baselineSpec =
  bs_mode :: baselineMode
  bs_eventTime :: gtime

definition parseBaseline :: "string \<Rightarrow> string \<Rightarrow> go_error + baselineSpec" where
  "parseBaseline mode eventTimeStr =
     (case find (\<lambda>m. mode_text m = mode) baselineModes of
        None \<Rightarrow> Inl (Sentinel (''invalid baseline_mode '' @ quote mode @ '': must be one of '' @
                        list_text (map mode_text baselineModes)))
      | Some m \<Rightarrow>
          if m \<noteq> PreEvent then Inr \<lparr>bs_mode = m, bs_eventTime = time_zero\<rparr>
          else if eventTimeStr = [] then Inl (Sentinel (''event_time is required when baseline_mode is '' @ [CHR 0x27] @ ''pre_event'' @ [CHR 0x27]))
          else (case parseRFC3339Opt eventTimeStr ''event_time'' of
                  Inl err \<Rightarrow> Inl err
                | Inr z \<Rightarrow> Inr \<lparr>bs_mode = m, bs_eventTime = zt_Instant z\<rparr>))"

definition weeklyBaselineWeeks :: nat where "weeklyBaselineWeeks = 4"
definition preEventBaselineSpan :: duration where "preEventBaselineSpan = 30 * minute"

record baselineWindow =
  bw_start :: gtime
  bw_end :: gtime
  bw_label :: string

text \<open>The current window is in UTC, where \<open>AddDate\<close> with days adds 24 hours each.\<close>

definition add_days :: "gtime \<Rightarrow> int \<Rightarrow> gtime" where
  "add_days t n = t + n * (24 * hour)"

definition baseline_windows :: "baselineSpec \<Rightarrow> gtime \<Rightarrow> gtime \<Rightarrow> baselineWindow list" where
  "baseline_windows b start endt =
     (case bs_mode b of
        SameWeekdayHour \<Rightarrow>
          map (\<lambda>i. \<lparr>bw_start = add_days start (- 7 * (int i + 1)), bw_end = add_days endt (- 7 * (int i + 1)),
                    bw_label = ''baseline ('' @ mode_text (bs_mode b) @ '' week -'' @ nat_text (i + 1) @ '')''\<rparr>)
            [0..<weeklyBaselineWeeks]
      | PreEvent \<Rightarrow>
          [\<lparr>bw_start = bs_eventTime b - preEventBaselineSpan, bw_end = bs_eventTime b, bw_label = ''baseline (pre_event)''\<rparr>]
      | PrevWindow \<Rightarrow>
          [\<lparr>bw_start = start - sub_time endt start, bw_end = start, bw_label = ''baseline (prev_window)''\<rparr>])"

record windowResult =
  wr_series :: "MetricTimeSeries list"
  wr_warnings :: QueryWarnings
  wr_err :: "go_error option"

definition hasPoints :: "windowResult \<Rightarrow> bool" where
  "hasPoints r = (wr_err r = None \<and> list_ex (\<lambda>s. ts_Points s \<noteq> []) (wr_series r))"

fun window_result :: "go_error + query_answer \<Rightarrow> windowResult" where
  "window_result (Inl e) = \<lparr>wr_series = [], wr_warnings = no_warnings, wr_err = Some e\<rparr>"
| "window_result (Inr (Inl e, w)) = \<lparr>wr_series = [], wr_warnings = w, wr_err = Some e\<rparr>"
| "window_result (Inr (Inr s, w)) = \<lparr>wr_series = s, wr_warnings = w, wr_err = None\<rparr>"

definition runQueries ::
  "tool_env \<Rightarrow> nat list \<Rightarrow> QueryTimeSeriesParams list \<Rightarrow> (QueryTimeSeriesParams \<Rightarrow> query_answer call) \<Rightarrow> windowResult list" where
  "runQueries env batch params query =
     map window_result (runParallel env batch (length params) (\<lambda>i. query (params ! i)))"

text \<open>The current window is batch 0, the baseline windows are batch 1. No baseline query runs for an empty window.\<close>

definition queryWithBaseline ::
  "tool_env \<Rightarrow> nat list \<Rightarrow> QueryTimeSeriesParams \<Rightarrow> baselineWindow list \<Rightarrow> (QueryTimeSeriesParams \<Rightarrow> query_answer call) \<Rightarrow>
   windowResult \<times> windowResult list" where
  "queryWithBaseline env batch current windows query =
     (let cur = hd (runQueries env (batch @ [0]) [current] query)
      in if \<not> hasPoints cur then (cur, [])
         else (cur, runQueries env (batch @ [1])
                 (map (\<lambda>w. current\<lparr>qp_Start := bw_start w, qp_End := bw_end w\<rparr>) windows) query))"

definition window_error :: "baselineWindow \<times> windowResult \<Rightarrow> go_error list" where
  "window_error wr =
     (case wr_err (snd wr) of Some e \<Rightarrow> [prefix_error (bw_label (fst wr) @ '': '') e] | None \<Rightarrow> [])"

definition baselineFailureAdvice :: "tool_env \<Rightarrow> windowResult list \<Rightarrow> string" where
  "baselineFailureAdvice env rs = errorGuidance env (map wr_err rs) [] []"

definition baselineFailureNote :: "tool_env \<Rightarrow> baselineMode \<Rightarrow> go_error \<Rightarrow> windowResult list \<Rightarrow> string" where
  "baselineFailureNote env mode err rs =
     joinNote [''Baseline query ('' @ mode_text mode @ '') failed: '' @ err_text err @ ''.'', baselineFailureAdvice env rs]"

definition collectBaseline ::
  "tool_env \<Rightarrow> string \<Rightarrow> baselineMode \<Rightarrow> baselineWindow list \<Rightarrow> windowResult list \<Rightarrow> go_error + string" where
  "collectBaseline env metricType mode windows rs =
     (let warnings = foldl warnings_Add no_warnings (map wr_warnings rs);
          errs = concat (map window_error (zip windows rs));
          withData = length (filter hasPoints rs);
          label = (if 1 < length windows
                   then ''baseline ('' @ mode_text mode @ '', summed over '' @ nat_text (length windows) @ '' windows)''
                   else bw_label (hd windows));
          note = queryWarningsNote metricType label warnings
      in if errs = [] then Inr note
         else if withData = 0 then
           (let all = joined (map Some errs) in
            if length errs = length windows
            then Inl (prefix_error (''all '' @ nat_text (length windows) @ '' baseline queries failed: '') all)
            else Inl (prefix_error (nat_text (length errs) @ '' of '' @ nat_text (length windows) @
                        '' baseline queries failed and the rest returned no data: '') all))
         else Inr (joinNote
           [''Baseline partial failure ('' @ mode_text mode @ ''): '' @ nat_text (length errs) @ '' of '' @
              nat_text (length windows) @ '' baseline windows could not be fetched ('' @ join ''; '' (map err_text errs) @
              ''); baseline computed from '' @ nat_text withData @ '' windows. Results may be less reliable.'',
            baselineFailureAdvice env rs, note]))"

end
