(* ===== verification/Tool_Snapshot.thy ===== *)
theory Tool_Snapshot
  imports Tool_Metrics Metric_Classify
begin

text \<open>
  The tool \<open>metrics_snapshot\<close> (\<open>internal/tools/metrics_snapshot.go\<close>). The input arrives after the
  schema has filled in defaults and checked the enumerations; the handler checks them again. A panic
  outside the parallel tasks is \<open>None\<close>. The text for the model is the JSON of the second value of
  a \<open>ChartResult\<close>; encoding fails on a number that JSON cannot represent, and on nothing else here.
\<close>

subsection \<open>Labels of the results\<close>

fun class_text :: "Classification \<Rightarrow> string" where
  "class_text ClassStable = ''stable''"
| "class_text ClassNoisy = ''noisy''"
| "class_text ClassSpike = ''spike''"
| "class_text ClassStepRegression = ''step_regression''"
| "class_text ClassSustainedRegression = ''sustained_regression''"
| "class_text ClassRecovery = ''recovery''"
| "class_text ClassSaturation = ''saturation''"
| "class_text ClassImprovement = ''improvement''"
| "class_text ClassFlapping = ''flapping''"
| "class_text ClassInsufficientData = ''insufficient_data''"
| "class_text (OtherClass s) = s"

fun confidence_text :: "Confidence \<Rightarrow> string" where
  "confidence_text ConfidenceHigh = ''high''"
| "confidence_text ConfidenceMedium = ''medium''"
| "confidence_text ConfidenceLow = ''low''"

fun trend_text :: "TrendDirection \<Rightarrow> string" where
  "trend_text TrendFlat = ''flat''"
| "trend_text TrendUp = ''up''"
| "trend_text TrendDown = ''down''"

text \<open>A feature that was never set is an empty string.\<close>

definition label_text :: "('a \<Rightarrow> string) \<Rightarrow> 'a option \<Rightarrow> string" where
  "label_text f x = (case x of None \<Rightarrow> [] | Some a \<Rightarrow> f a)"

subsection \<open>Charts\<close>

record chartPoint =
  cp_TS :: int
  cp_V :: float64

definition toChartPoints :: "Point list \<Rightarrow> chartPoint list" where
  "toChartPoints ps =
     map (\<lambda>p. \<lparr>cp_TS = unix (pt_Timestamp p), cp_V = pt_Value p\<rparr>) (filter (\<lambda>p. finite64 (pt_Value p)) ps)"

text \<open>The numbers of the encoded value, in the order of the encoding.\<close>

definition marshal_error :: "float64 list \<Rightarrow> string option" where
  "marshal_error xs = map_option (\<lambda>x. ''json: unsupported value: '' @ format_g x) (find (\<lambda>x. \<not> finite64 x) xs)"

definition chartCallResult :: "('r \<Rightarrow> float64 list) \<Rightarrow> 'r \<Rightarrow> 'r \<Rightarrow> string \<Rightarrow> 'r reply" where
  "chartCallResult floats r llm uri =
     (case marshal_error (floats llm) of
        Some e \<Rightarrow> ErrorResult (''internal error: failed to marshal result: '' @ e)
      | None \<Rightarrow> ChartResult llm r uri)"

definition chartStaticURI :: string where "chartStaticURI = ''ui://metrics/chart''"
definition compareChartStaticURI :: string where "compareChartStaticURI = ''ui://metrics/compare''"

subsection \<open>The snapshot\<close>

record PercentileInfo =
  pc_P50 :: float64
  pc_P95 :: float64
  pc_P99 :: float64
  pc_TailRatio :: float64

record WindowInfo =
  wi_From :: string
  wi_To :: string

record MetricSnapshotResult =
  sn_MetricType :: string
  sn_Kind :: string
  sn_Unit :: string
  sn_AutoDetected :: bool
  sn_NoData :: bool
  sn_Note :: string
  sn_Current :: float64
  sn_Baseline :: float64
  sn_DeltaPct :: float64
  sn_BaselineMode :: string
  sn_BaselineReliable :: bool
  sn_Stddev :: float64
  sn_CV :: float64
  sn_Trend :: string
  sn_TrendScore :: float64
  sn_Classification :: string
  sn_ClassificationConfidence :: string
  sn_SLOBreach :: bool
  sn_SLOThreshold :: "float64 option"
  sn_BreachDurationSeconds :: int
  sn_CurrentBreachStreakSeconds :: int
  sn_BreachTransitions :: nat
  sn_StepChangeAt :: string
  sn_StepChangePct :: float64
  sn_MaxZScore :: float64
  sn_SpikeCount :: nat
  sn_SpikeRatio :: float64
  sn_SaturationDetected :: bool
  sn_Percentiles :: "PercentileInfo option"
  sn_DataQuality :: DataQuality
  sn_Window :: WindowInfo
  sn_AvailableLabels :: AvailableLabels
  sn_ChartPoints :: "chartPoint list"

definition snapshot_withoutChart :: "MetricSnapshotResult \<Rightarrow> MetricSnapshotResult" where
  "snapshot_withoutChart r = r\<lparr>sn_ChartPoints := []\<rparr>"

definition percentile_floats :: "PercentileInfo option \<Rightarrow> float64 list" where
  "percentile_floats p = (case p of None \<Rightarrow> [] | Some p \<Rightarrow> [pc_P50 p, pc_P95 p, pc_P99 p, pc_TailRatio p])"

definition option_list :: "'a option \<Rightarrow> 'a list" where
  "option_list x = (case x of None \<Rightarrow> [] | Some a \<Rightarrow> [a])"

definition snapshot_floats :: "MetricSnapshotResult \<Rightarrow> float64 list" where
  "snapshot_floats r =
     [sn_Current r, sn_Baseline r, sn_DeltaPct r, sn_Stddev r, sn_CV r, sn_TrendScore r] @ option_list (sn_SLOThreshold r) @
     [sn_StepChangePct r, sn_MaxZScore r, sn_SpikeRatio r] @ percentile_floats (sn_Percentiles r) @ map cp_V (sn_ChartPoints r)"

record MetricsSnapshotInput =
  si_ProjectID :: string
  si_MetricType :: string
  si_Filter :: string
  si_Window :: string
  si_BaselineMode :: string
  si_EventTime :: string
  si_StepSeconds :: int

record snapshot_call =
  sc_project :: string
  sc_input :: MetricsSnapshotInput
  sc_step :: int
  sc_window :: "string \<times> duration"
  sc_baseline :: baselineSpec
  sc_meta :: MetricMeta
  sc_now :: gtime

definition sc_start :: "snapshot_call \<Rightarrow> gtime" where
  "sc_start c = sc_now c - snd (sc_window c)"

definition snapshot_window :: "snapshot_call \<Rightarrow> WindowInfo" where
  "snapshot_window c = \<lparr>wi_From = format_3339 (utc (sc_start c)), wi_To = format_3339 (utc (sc_now c))\<rparr>"

text \<open>The checks on the input.\<close>

definition snapshot_input :: "tool_env \<Rightarrow> Registry \<Rightarrow> MetricsSnapshotInput \<Rightarrow> string + snapshot_call" where
  "snapshot_input env reg inp =
     (case Resolve (te_Project env) (si_ProjectID inp) of
        Inl err \<Rightarrow> Inl (err_text err)
      | Inr project \<Rightarrow>
          (let step = (if si_StepSeconds inp = 0 then DefaultStepSeconds else si_StepSeconds inp) in
           if step < 10 then Inl ''step_seconds must be at least 10''
           else (case parseWindow (si_Window inp) of
                   Inl err \<Rightarrow> Inl (err_text err)
                 | Inr w \<Rightarrow>
                     (case parseBaseline (si_BaselineMode inp) (si_EventTime inp) of
                        Inl err \<Rightarrow> Inl (err_text err)
                      | Inr b \<Rightarrow> Inr \<lparr>sc_project = project, sc_input = inp, sc_step = step, sc_window = w, sc_baseline = b,
                                     sc_meta = Lookup reg (si_MetricType inp), sc_now = te_Now env\<rparr>))))"

definition snapshot_params :: "snapshot_call \<Rightarrow> MetricDescriptorBasic \<Rightarrow> QueryTimeSeriesParams" where
  "snapshot_params c d =
     \<lparr>qp_Project = sc_project c, qp_MetricType = si_MetricType (sc_input c), qp_LabelFilter = si_Filter (sc_input c),
      qp_Start = sc_start c, qp_End = sc_now c, qp_StepSeconds = sc_step c, qp_MetricKind = mb_Kind d,
      qp_ValueType = mb_ValueType d, qp_GroupByFields = [], qp_Reducer = REDUCE_NONE\<rparr>"

definition no_data_snapshot ::
  "snapshot_call \<Rightarrow> MetricDescriptorBasic \<Rightarrow> QueryWarnings \<Rightarrow> AvailableLabels \<Rightarrow> int \<Rightarrow> MetricSnapshotResult" where
  "no_data_snapshot c d w ls expected =
     \<lparr>sn_MetricType = si_MetricType (sc_input c), sn_Kind = kind_text (mm_Kind (sc_meta c)), sn_Unit = mm_Unit (sc_meta c),
      sn_AutoDetected = mm_AutoDetected (sc_meta c), sn_NoData = True,
      sn_Note = joinNote [emptyWindowMessage (si_MetricType (sc_input c)) (fst (sc_window c)) (mb_Kind d) (si_Filter (sc_input c)),
                  queryWarningsNote (si_MetricType (sc_input c)) ''current'' w],
      sn_Current = fzero, sn_Baseline = fzero, sn_DeltaPct = fzero, sn_BaselineMode = mode_text (bs_mode (sc_baseline c)),
      sn_BaselineReliable = False, sn_Stddev = fzero, sn_CV = fzero, sn_Trend = ''unchanged'', sn_TrendScore = fzero,
      sn_Classification = class_text ClassInsufficientData, sn_ClassificationConfidence = confidence_text ConfidenceLow,
      sn_SLOBreach = False, sn_SLOThreshold = None, sn_BreachDurationSeconds = 0, sn_CurrentBreachStreakSeconds = 0,
      sn_BreachTransitions = 0, sn_StepChangeAt = [], sn_StepChangePct = fzero, sn_MaxZScore = fzero, sn_SpikeCount = 0,
      sn_SpikeRatio = fzero, sn_SaturationDetected = False, sn_Percentiles = None,
      sn_DataQuality = zero_DataQuality\<lparr>dq_ExpectedPoints := expected, dq_NonFinitePoints := int (qw_NonFinitePoints w)\<rparr>,
      sn_Window = snapshot_window c, sn_AvailableLabels = ls, sn_ChartPoints = []\<rparr>"

definition baseline_buckets :: "tool_env \<Rightarrow> windowResult list \<Rightarrow> Point list list" where
  "baseline_buckets env rs = map (\<lambda>r. if wr_err r = None then mergePoints env (wr_series r) else []) rs"

definition zero_BaselineStats :: BaselineStats where
  "zero_BaselineStats = \<lparr>bs_Mean = fzero, bs_Stddev = fzero, bs_PointCount = 0, bs_Reliable = False\<rparr>"

text \<open>The baseline: the note on its failure, the note on its warnings, the statistics.\<close>

definition snapshot_baseline ::
  "tool_env \<Rightarrow> snapshot_call \<Rightarrow> baselineWindow list \<Rightarrow> windowResult list \<Rightarrow> (string \<times> string \<times> BaselineStats) option" where
  "snapshot_baseline env c windows rs =
     (let mode = bs_mode (sc_baseline c) in
      case collectBaseline env (si_MetricType (sc_input c)) mode windows rs of
        Inl err \<Rightarrow>
          Some (joinNote [baselineFailureNote env mode err rs,
             ''Returning current-window snapshot with baseline_reliable=false; delta fields are not meaningful.''],
           [], zero_BaselineStats)
      | Inr note \<Rightarrow>
          map_option (\<lambda>expected. ([], note, ComputeRobustBaselineStats (baseline_buckets env rs) expected))
            (expectedPointsForWindow (sub_time (bw_end (hd windows)) (bw_start (hd windows))) (sc_step c)))"

definition snapshot_of ::
  "snapshot_call \<Rightarrow> Point list \<Rightarrow> SignalFeatures \<Rightarrow> string \<Rightarrow> QueryWarnings \<Rightarrow> AvailableLabels \<Rightarrow> MetricSnapshotResult" where
  "snapshot_of c ps f note w ls =
     \<lparr>sn_MetricType = si_MetricType (sc_input c), sn_Kind = kind_text (mm_Kind (sc_meta c)), sn_Unit = mm_Unit (sc_meta c),
      sn_AutoDetected = mm_AutoDetected (sc_meta c), sn_NoData = False, sn_Note = note,
      sn_Current = sf_Current f, sn_Baseline = sf_Baseline f, sn_DeltaPct = sf_DeltaPct f,
      sn_BaselineMode = mode_text (bs_mode (sc_baseline c)), sn_BaselineReliable = sf_BaselineReliable f,
      sn_Stddev = sf_Stddev f, sn_CV = sf_CV f, sn_Trend = label_text trend_text (sf_Trend f), sn_TrendScore = sf_TrendScore f,
      sn_Classification = label_text class_text (sf_Classification f),
      sn_ClassificationConfidence = label_text confidence_text (sf_Confidence f),
      sn_SLOBreach = sf_SLOBreach f, sn_SLOThreshold = mm_SLOThreshold (sc_meta c),
      sn_BreachDurationSeconds = sf_BreachDurationSeconds f, sn_CurrentBreachStreakSeconds = sf_CurrentBreachStreakSeconds f,
      sn_BreachTransitions = sf_BreachTransitions f,
      sn_StepChangeAt = (case sf_StepChangeAt f of None \<Rightarrow> [] | Some t \<Rightarrow> format_3339 (utc t)),
      sn_StepChangePct = sf_StepChangePct f, sn_MaxZScore = sf_MaxZScore f, sn_SpikeCount = sf_SpikeCount f,
      sn_SpikeRatio = sf_SpikeRatio f, sn_SaturationDetected = sf_SaturationDetected f,
      sn_Percentiles = (if mm_Kind (sc_meta c) = KindLatency
        then Some \<lparr>pc_P50 = sf_P50 f, pc_P95 = sf_P95 f, pc_P99 = sf_P99 f, pc_TailRatio = sf_TailRatio f\<rparr> else None),
      sn_DataQuality = (sf_DataQuality f)\<lparr>dq_NonFinitePoints := int (qw_NonFinitePoints w)\<rparr>,
      sn_Window = snapshot_window c, sn_AvailableLabels = ls, sn_ChartPoints = toChartPoints ps\<rparr>"

definition snapshot_reply :: "MetricSnapshotResult \<Rightarrow> MetricSnapshotResult reply" where
  "snapshot_reply r = chartCallResult snapshot_floats r (snapshot_withoutChart r) chartStaticURI"

text \<open>What follows the queries.\<close>

definition snapshot_result ::
  "tool_env \<Rightarrow> metrics_querier \<Rightarrow> snapshot_call \<Rightarrow> MetricDescriptorBasic \<Rightarrow> baselineWindow list \<Rightarrow> windowResult \<Rightarrow>
   windowResult list \<Rightarrow> MetricSnapshotResult reply option" where
  "snapshot_result env q c d windows current baselines =
     (let metricType = si_MetricType (sc_input c); w = wr_warnings current;
          note = queryWarningsNote metricType ''current'' w
      in case wr_err current of
           Some err \<Rightarrow> Some (metricQueryErrorResult env q (sc_project c) metricType (si_Filter (sc_input c))
                                (''Failed to query metric: '' @ err_text err) [Some err])
         | None \<Rightarrow>
             (let ls = availableLabelsFromDescriptor q (sc_project c) metricType (mb_Labels d) (mb_MonitoredResourceTypes d);
                  ps = mergePoints env (wr_series current)
              in if ps = []
                 then map_option (\<lambda>n. snapshot_reply (no_data_snapshot c d w ls n))
                        (expectedPointsForWindow (snd (sc_window c)) (sc_step c))
                 else map_option (\<lambda>(failure, baseline_note, stats).
                        snapshot_reply (snapshot_of c ps
                          (ProcessWithBaselineStats ps stats (sc_meta c) (sc_step c) \<lparr>w_Start = sc_start c, w_End = sc_now c\<rparr>)
                          (joinNote [failure, note, baseline_note]) w ls))
                        (snapshot_baseline env c windows baselines)))"

definition metrics_snapshot ::
  "tool_env \<Rightarrow> metrics_querier \<Rightarrow> Registry \<Rightarrow> MetricsSnapshotInput \<Rightarrow> MetricSnapshotResult reply option" where
  "metrics_snapshot env q reg inp =
     (case snapshot_input env reg inp of
        Inl msg \<Rightarrow> Some (ErrorResult msg)
      | Inr c \<Rightarrow>
          (case lookupMetricDescriptor env q (sc_project c) (si_MetricType inp) of
             Inl err \<Rightarrow> Some err
           | Inr d \<Rightarrow>
               (case resolveValidAggSpec (si_MetricType inp) (sc_meta c) of
                  Inl err \<Rightarrow> Some err
                | Inr spec \<Rightarrow>
                    (let windows = baseline_windows (sc_baseline c) (sc_start c) (sc_now c) in
                     case queryWithBaseline env [] (snapshot_params c d) windows
                            (\<lambda>p. mq_QueryTimeSeriesAggregated q p spec) of
                       (current, baselines) \<Rightarrow> snapshot_result env q c d windows current baselines))))"

end
