(* ===== verification/Tool_Top.thy ===== *)
theory Tool_Top
  imports Tool_Snapshot
begin

text \<open>
  The tool \<open>metrics_top_contributors\<close> (\<open>internal/tools/metrics_top.go\<close>): a metric grouped by one label,
  each group compared with its own baseline, ranked by change. \<open>sort.Slice\<close> is not stable: the order
  in which it leaves equal contributors is a parameter.
\<close>

record Contributor =
  co_LabelValue :: string
  co_Current :: float64
  co_Baseline :: float64
  co_DeltaPct :: float64
  co_ShareOfAnomaly :: float64
  co_CV :: float64
  co_SLOBreach :: bool
  co_Classification :: string
  co_ClassificationConfidence :: string
  co_BaselineReliable :: bool

record TopContributorsResult =
  tc_Dimension :: string
  tc_Contributors :: "Contributor list"
  tc_NoData :: bool
  tc_Note :: string
  tc_NonFinitePoints :: nat
  tc_AvailableLabels :: AvailableLabels

record MetricsTopInput =
  ti_ProjectID :: string
  ti_MetricType :: string
  ti_Dimension :: string
  ti_Filter :: string
  ti_Window :: string
  ti_BaselineMode :: string
  ti_EventTime :: string
  ti_Limit :: int

subsection \<open>Dimensions\<close>

definition missingDimensionLabel :: string where
  "missingDimensionLabel = ''(missing_dimension)''"

definition labelValueFromSeries :: "string \<Rightarrow> MetricTimeSeries \<Rightarrow> string" where
  "labelValueFromSeries dimension s =
     (case SplitLabelKey dimension of
        None \<Rightarrow> missingDimensionLabel
      | Some (prefix, key) \<Rightarrow>
          (let labels =
             (if prefix = MetricLabelsPrefix then ts_MetricLabels s
              else if prefix = ResourceLabelsPrefix then ts_ResourceLabels s
              else if prefix = MetadataSystemLabelsPrefix then ts_MetadataSystemLabels s
              else ts_MetadataUserLabels s)
           in case map_of labels key of Some v \<Rightarrow> v | None \<Rightarrow> missingDimensionLabel))"

definition validateTopContributorDimension :: "string \<Rightarrow> string" where
  "validateTopContributorDimension dimension =
     (if SplitLabelKey dimension = None
      then ''dimension '' @ quote dimension @ '' must be a fully-qualified label key such as `metric.labels.response_code`, '' @
           ''`resource.labels.instance_id`, `metadata.system_labels.machine_type`, or `metadata.user_labels.env`.''
      else [])"

subsection \<open>Baselines by label value\<close>

definition labelled_points :: "string \<Rightarrow> string \<Rightarrow> windowResult \<Rightarrow> Point list" where
  "labelled_points dimension lv r =
     (if wr_err r = None
      then concat (map ts_Points (filter (\<lambda>s. labelValueFromSeries dimension s = lv) (wr_series r))) else [])"

text \<open>The buckets of a label value: none when no successful window has a series of it, else one for each window.\<close>

definition contributorBaselines :: "windowResult list \<Rightarrow> string \<Rightarrow> string \<Rightarrow> Point list list" where
  "contributorBaselines rs dimension lv =
     (if list_ex (\<lambda>r. wr_err r = None \<and> list_ex (\<lambda>s. labelValueFromSeries dimension s = lv) (wr_series r)) rs
      then map (labelled_points dimension lv) rs else [])"

text \<open>The notes on the baseline, whether to rank by the current value, and the baselines by label value.\<close>

record top_baseline =
  tb_failure :: string
  tb_note :: string
  tb_no_data :: string
  tb_by_current :: bool
  tb_buckets :: "string \<Rightarrow> Point list list"

definition top_baselines :: "tool_env \<Rightarrow> MetricsTopInput \<Rightarrow> baselineSpec \<Rightarrow> baselineWindow list \<Rightarrow> windowResult list \<Rightarrow> top_baseline" where
  "top_baselines env inp b windows rs =
     (case collectBaseline env (ti_MetricType inp) (bs_mode b) windows rs of
        Inl err \<Rightarrow>
          \<lparr>tb_failure = joinNote [baselineFailureNote env (bs_mode b) err rs,
             ''Returning current-window contributors only; delta_pct and share_of_anomaly are not meaningful.''],
           tb_note = [], tb_no_data = [], tb_by_current = True, tb_buckets = (\<lambda>lv. [])\<rparr>
      | Inr note \<Rightarrow>
          if \<not> list_ex hasPoints rs then
            \<lparr>tb_failure = [], tb_note = note,
             tb_no_data = ''Baseline ('' @ mode_text (bs_mode b) @ '') had no data in any of its '' @ nat_text (length windows) @
               '' window(s); delta_pct and share_of_anomaly are 0 and contributors are ranked by current value.'',
             tb_by_current = True, tb_buckets = (\<lambda>lv. [])\<rparr>
          else \<lparr>tb_failure = [], tb_note = note, tb_no_data = [], tb_by_current = False,
                tb_buckets = contributorBaselines rs (ti_Dimension inp)\<rparr>)"

subsection \<open>Contributors\<close>

definition contributor_of :: "string \<Rightarrow> SignalFeatures \<Rightarrow> Contributor" where
  "contributor_of lv f =
     \<lparr>co_LabelValue = lv, co_Current = sf_Current f, co_Baseline = sf_Baseline f, co_DeltaPct = sf_DeltaPct f,
      co_ShareOfAnomaly = fzero, co_CV = sf_CV f, co_SLOBreach = sf_SLOBreach f,
      co_Classification = label_text class_text (sf_Classification f),
      co_ClassificationConfidence = label_text confidence_text (sf_Confidence f),
      co_BaselineReliable = sf_BaselineReliable f\<rparr>"

definition attributed :: "string \<Rightarrow> MetricTimeSeries list \<Rightarrow> (string \<times> Point list) list" where
  "attributed dimension series =
     map (\<lambda>s. (labelValueFromSeries dimension s, ts_Points s))
       (filter (\<lambda>s. labelValueFromSeries dimension s \<noteq> missingDimensionLabel) series)"

text \<open>Every contributor with the size of its change, in the order of the series.\<close>

definition process_contributor ::
  "MetricMeta \<Rightarrow> Window \<Rightarrow> (string \<Rightarrow> Point list list) \<Rightarrow> int \<Rightarrow> string \<times> Point list \<Rightarrow> Contributor \<times> float64" where
  "process_contributor meta w buckets expected lp =
     (case lp of (lv, ps) \<Rightarrow>
        (let f = ProcessWithBaselineStats ps (ComputeRobustBaselineStats (buckets lv) expected) meta DefaultStepSeconds w
         in (contributor_of lv f, fabs (sf_DeltaAbs f))))"

definition add_share :: "float64 \<Rightarrow> Contributor \<times> float64 \<Rightarrow> Contributor" where
  "add_share all_deltas cd =
     (if flt fzero all_deltas then (fst cd)\<lparr>co_ShareOfAnomaly := fdiv (snd cd) all_deltas\<rparr> else fst cd)"

definition rank_before :: "bool \<Rightarrow> Contributor \<Rightarrow> Contributor \<Rightarrow> bool" where
  "rank_before by_current a b =
     (if by_current then flt (co_Current b) (co_Current a)
      else flt (fabs (co_DeltaPct b)) (fabs (co_DeltaPct a)))"

definition rank_contributors ::
  "(Contributor list \<Rightarrow> Contributor list) \<Rightarrow> bool \<Rightarrow> int \<Rightarrow> (Contributor \<times> float64) list \<Rightarrow> Contributor list" where
  "rank_contributors order by_current limit cds =
     take (nat limit) (sort_less (rank_before by_current)
       (order (map (add_share (foldl (\<lambda>s cd. fadd s (snd cd)) fzero cds)) cds)))"

subsection \<open>The handler\<close>

record top_call =
  tp_project :: string
  tp_limit :: int
  tp_window :: "string \<times> duration"
  tp_baseline :: baselineSpec

definition top_input :: "tool_env \<Rightarrow> MetricsTopInput \<Rightarrow> string + top_call" where
  "top_input env inp =
     (case Resolve (te_Project env) (ti_ProjectID inp) of
        Inl err \<Rightarrow> Inl (err_text err)
      | Inr project \<Rightarrow>
          (case parseWindow (ti_Window inp) of
             Inl err \<Rightarrow> Inl (err_text err)
           | Inr w \<Rightarrow>
               (case parseBaseline (ti_BaselineMode inp) (ti_EventTime inp) of
                  Inl err \<Rightarrow> Inl (err_text err)
                | Inr b \<Rightarrow>
                    if validateTopContributorDimension (ti_Dimension inp) \<noteq> []
                    then Inl (validateTopContributorDimension (ti_Dimension inp))
                    else Inr \<lparr>tp_project = project, tp_limit = clampLimit (ti_Limit inp) 5 20, tp_window = w, tp_baseline = b\<rparr>)))"

definition top_params ::
  "tool_env \<Rightarrow> MetricsTopInput \<Rightarrow> top_call \<Rightarrow> MetricDescriptorBasic \<Rightarrow> GcpReducer \<Rightarrow> QueryTimeSeriesParams" where
  "top_params env inp c d reducer =
     \<lparr>qp_Project = tp_project c, qp_MetricType = ti_MetricType inp, qp_LabelFilter = ti_Filter inp,
      qp_Start = te_Now env - snd (tp_window c), qp_End = te_Now env, qp_StepSeconds = DefaultStepSeconds,
      qp_MetricKind = mb_Kind d, qp_ValueType = mb_ValueType d, qp_GroupByFields = [ti_Dimension inp], qp_Reducer = reducer\<rparr>"

definition no_data_top ::
  "MetricsTopInput \<Rightarrow> top_call \<Rightarrow> MetricDescriptorBasic \<Rightarrow> QueryWarnings \<Rightarrow> AvailableLabels \<Rightarrow> TopContributorsResult" where
  "no_data_top inp c d w ls =
     \<lparr>tc_Dimension = ti_Dimension inp, tc_Contributors = [], tc_NoData = True,
      tc_Note = joinNote
        [emptyWindowMessage (ti_MetricType inp) (fst (tp_window c)) (mb_Kind d) (ti_Filter inp) @
           '' Also check that dimension '' @ quote (ti_Dimension inp) @ '' actually exists on this metric '' @ em_dash @
           '' see `available_labels` below.'',
         queryWarningsNote (ti_MetricType inp) ''current'' w],
      tc_NonFinitePoints = qw_NonFinitePoints w, tc_AvailableLabels = ls\<rparr>"

definition coverage_note :: "string \<Rightarrow> nat \<Rightarrow> nat \<Rightarrow> nat \<Rightarrow> string" where
  "coverage_note dimension missing every attributable =
     (if 0 < missing
      then ''Partial dimension coverage: '' @ nat_text missing @ '' of '' @ nat_text every @ '' series did not expose '' @
           quote dimension @ '' and were excluded from share_of_anomaly. Shares below sum to 100% over the remaining '' @
           nat_text attributable @ '' attributable series.''
      else [])"

definition two_stage_note :: "AggregationSpec \<Rightarrow> string \<Rightarrow> string" where
  "two_stage_note spec dimension =
     (if IsTwoStage spec
      then ''This metric uses two-stage aggregation in the registry (group_by='' @ list_text (ag_GroupBy spec) @
           '', within_group='' @ reducer_text (ag_WithinGroup spec) @ '', across_groups='' @ reducer_text (ag_AcrossGroups spec) @
           ''). `metrics_top_contributors` applies only '' @ reducer_text (ag_AcrossGroups spec) @
           '' across the requested dimension '' @ quote dimension @ '' and does not run the within_group dedup stage, '' @
           ''so contributor totals may differ from `metrics_snapshot` and `metrics_compare`.''
      else [])"

definition top_expected :: "baselineSpec \<Rightarrow> baselineWindow list \<Rightarrow> int option" where
  "top_expected b windows =
     map_option (\<lambda>n. if bs_mode b = PreEvent then 0 else n)
       (expectedPointsForWindow (sub_time (bw_end (hd windows)) (bw_start (hd windows))) DefaultStepSeconds)"

definition top_contributors ::
  "(Contributor list \<Rightarrow> Contributor list) \<Rightarrow> tool_env \<Rightarrow> MetricsTopInput \<Rightarrow> top_call \<Rightarrow> MetricMeta \<Rightarrow> AggregationSpec \<Rightarrow>
   top_baseline \<Rightarrow> int \<Rightarrow> MetricTimeSeries list \<Rightarrow> QueryWarnings \<Rightarrow> AvailableLabels \<Rightarrow> TopContributorsResult reply" where
  "top_contributors order env inp c meta spec tb expected series w ls =
     (let cs = attributed (ti_Dimension inp) series;
          missing = length series - length cs;
          now = te_Now env
      in if missing = length series
         then ErrorResult (''Dimension '' @ quote (ti_Dimension inp) @
                '' was not found in any series labels. Call metrics_snapshot on this metric_type and check `available_labels` '' @
                ''for the valid keys (e.g. 'metric.labels.response_code' or 'resource.labels.instance_id').'')
         else Structured
           \<lparr>tc_Dimension = ti_Dimension inp,
            tc_Contributors = rank_contributors order (tb_by_current tb) (tp_limit c)
              (map (process_contributor meta \<lparr>w_Start = now - snd (tp_window c), w_End = now\<rparr> (tb_buckets tb) expected) cs),
            tc_NoData = False,
            tc_Note = joinNote [tb_failure tb, tb_note tb, tb_no_data tb,
              coverage_note (ti_Dimension inp) missing (length series) (length cs),
              two_stage_note spec (ti_Dimension inp), queryWarningsNote (ti_MetricType inp) ''current'' w],
            tc_NonFinitePoints = qw_NonFinitePoints w, tc_AvailableLabels = ls\<rparr>)"

definition top_result ::
  "(Contributor list \<Rightarrow> Contributor list) \<Rightarrow> tool_env \<Rightarrow> metrics_querier \<Rightarrow> MetricsTopInput \<Rightarrow> top_call \<Rightarrow> MetricMeta \<Rightarrow>
   AggregationSpec \<Rightarrow> MetricDescriptorBasic \<Rightarrow> baselineWindow list \<Rightarrow> windowResult \<Rightarrow> windowResult list \<Rightarrow>
   TopContributorsResult reply option" where
  "top_result order env q inp c meta spec d windows current rs =
     (let w = wr_warnings current;
          ls = availableLabelsFromDescriptor q (tp_project c) (ti_MetricType inp) (mb_Labels d) (mb_MonitoredResourceTypes d)
      in case wr_err current of
           Some err \<Rightarrow> Some (metricQueryErrorResult env q (tp_project c) (ti_MetricType inp) (ti_Filter inp)
                                (''Failed to query metric: '' @ err_text err) [Some err])
         | None \<Rightarrow>
             if \<not> hasPoints current then Some (Structured (no_data_top inp c d w ls))
             else map_option (\<lambda>expected.
                    top_contributors order env inp c meta spec (top_baselines env inp (tp_baseline c) windows rs) expected
                      (wr_series current) w ls)
                  (top_expected (tp_baseline c) windows))"

definition metrics_top_contributors ::
  "(Contributor list \<Rightarrow> Contributor list) \<Rightarrow> tool_env \<Rightarrow> metrics_querier \<Rightarrow> Registry \<Rightarrow> MetricsTopInput \<Rightarrow>
   TopContributorsResult reply option" where
  "metrics_top_contributors order env q reg inp =
     (case top_input env inp of
        Inl msg \<Rightarrow> Some (ErrorResult msg)
      | Inr c \<Rightarrow>
          (let meta = Lookup reg (ti_MetricType inp) in
           case lookupMetricDescriptor env q (tp_project c) (ti_MetricType inp) of
             Inl err \<Rightarrow> Some err
           | Inr d \<Rightarrow>
               (case resolveValidAggSpec (ti_MetricType inp) meta of
                  Inl err \<Rightarrow> Some err
                | Inr spec \<Rightarrow>
                    (case ReducerToGCP (ag_AcrossGroups spec) of
                       None \<Rightarrow> None
                     | Some reducer \<Rightarrow>
                         (let windows = baseline_windows (tp_baseline c) (te_Now env - snd (tp_window c)) (te_Now env) in
                          case queryWithBaseline env [] (top_params env inp c d reducer) windows (mq_QueryTimeSeries q) of
                            (current, rs) \<Rightarrow> top_result order env q inp c meta spec d windows current rs)))))"

end
