(* ===== verification/Tool_Compare.thy ===== *)
theory Tool_Compare
  imports Tool_Snapshot
begin

text \<open>
  The tools \<open>metrics_compare\<close> (\<open>internal/tools/metrics_compare.go\<close>), which judges one window with
  another as its baseline, and \<open>metrics_list\<close> (\<open>metrics_list.go\<close>), which joins the registry with the
  descriptors of the project.
\<close>

subsection \<open>Comparing two windows\<close>

record CompareResult =
  cr_WindowALabel :: string
  cr_WindowBLabel :: string
  cr_WindowAMean :: float64
  cr_WindowBMean :: float64
  cr_DeltaPct :: float64
  cr_TrendShift :: string
  cr_ClassificationA :: string
  cr_ClassificationB :: string
  cr_ClassificationConfidenceA :: string
  cr_ClassificationConfidenceB :: string
  cr_TrendScoreA :: float64
  cr_TrendScoreB :: float64
  cr_StepChangeAt :: string
  cr_StepChangePct :: float64
  cr_SLOBreachIntroduced :: bool
  cr_NoData :: bool
  cr_NoDataWindows :: "string list"
  cr_Note :: string
  cr_NonFinitePoints :: nat
  cr_MetricType :: string
  cr_Unit :: string
  cr_ChartPointsA :: "chartPoint list"
  cr_ChartPointsB :: "chartPoint list"

definition compare_withoutChart :: "CompareResult \<Rightarrow> CompareResult" where
  "compare_withoutChart r = r\<lparr>cr_ChartPointsA := [], cr_ChartPointsB := []\<rparr>"

definition compare_floats :: "CompareResult \<Rightarrow> float64 list" where
  "compare_floats r =
     [cr_WindowAMean r, cr_WindowBMean r, cr_DeltaPct r, cr_TrendScoreA r, cr_TrendScoreB r, cr_StepChangePct r] @
     map cp_V (cr_ChartPointsA r) @ map cp_V (cr_ChartPointsB r)"

record MetricsCompareInput =
  mi_ProjectID :: string
  mi_MetricType :: string
  mi_Filter :: string
  mi_WindowAFrom :: string
  mi_WindowATo :: string
  mi_WindowBFrom :: string
  mi_WindowBTo :: string
  mi_WindowALabel :: string
  mi_WindowBLabel :: string

record compare_window =
  cw_label :: string
  cw_from :: ztime
  cw_to :: ztime

record compare_call =
  cc_project :: string
  cc_A :: compare_window
  cc_B :: compare_window

definition default_label :: "string \<Rightarrow> string \<Rightarrow> string" where
  "default_label l d = (if l = [] then d else l)"

text \<open>The four times are parsed in order; then both windows must be non-empty.\<close>

definition window_order_error :: "string \<Rightarrow> compare_window \<Rightarrow> string list" where
  "window_order_error name w =
     (if zt_Instant (cw_from w) < zt_Instant (cw_to w) then []
      else [name @ ''_to must be after '' @ name @ ''_from (got '' @ format_3339 (cw_from w) @ '' to '' @
              format_3339 (cw_to w) @ '')''])"

definition parse_window_pair :: "string \<Rightarrow> string \<Rightarrow> string \<Rightarrow> go_error + (ztime \<times> ztime)" where
  "parse_window_pair name s t =
     (case parseRFC3339Opt s (name @ ''_from'') of
        Inl err \<Rightarrow> Inl err
      | Inr a \<Rightarrow> (case parseRFC3339Opt t (name @ ''_to'') of Inl err \<Rightarrow> Inl err | Inr b \<Rightarrow> Inr (a, b)))"

definition compare_input :: "tool_env \<Rightarrow> MetricsCompareInput \<Rightarrow> string + compare_call" where
  "compare_input env inp =
     (case Resolve (te_Project env) (mi_ProjectID inp) of
        Inl err \<Rightarrow> Inl (err_text err)
      | Inr project \<Rightarrow>
          (case parse_window_pair ''window_a'' (mi_WindowAFrom inp) (mi_WindowATo inp) of
             Inl err \<Rightarrow> Inl (err_text err)
           | Inr (aFrom, aTo) \<Rightarrow>
               (case parse_window_pair ''window_b'' (mi_WindowBFrom inp) (mi_WindowBTo inp) of
                  Inl err \<Rightarrow> Inl (err_text err)
                | Inr (bFrom, bTo) \<Rightarrow>
                    (let a = \<lparr>cw_label = default_label (mi_WindowALabel inp) ''window_a'', cw_from = aFrom, cw_to = aTo\<rparr>;
                         b = \<lparr>cw_label = default_label (mi_WindowBLabel inp) ''window_b'', cw_from = bFrom, cw_to = bTo\<rparr>
                     in case window_order_error ''window_a'' a @ window_order_error ''window_b'' b of
                          msg # _ \<Rightarrow> Inl msg
                        | [] \<Rightarrow> Inr \<lparr>cc_project = project, cc_A = a, cc_B = b\<rparr>))))"

definition compare_params ::
  "MetricsCompareInput \<Rightarrow> string \<Rightarrow> MetricDescriptorBasic \<Rightarrow> compare_window \<Rightarrow> QueryTimeSeriesParams" where
  "compare_params inp project d w =
     \<lparr>qp_Project = project, qp_MetricType = mi_MetricType inp, qp_LabelFilter = mi_Filter inp,
      qp_Start = zt_Instant (cw_from w), qp_End = zt_Instant (cw_to w), qp_StepSeconds = DefaultStepSeconds,
      qp_MetricKind = mb_Kind d, qp_ValueType = mb_ValueType d, qp_GroupByFields = [], qp_Reducer = REDUCE_NONE\<rparr>"

definition window_of :: "compare_window \<Rightarrow> Window" where
  "window_of w = \<lparr>w_Start = zt_Instant (cw_from w), w_End = zt_Instant (cw_to w)\<rparr>"

definition window_expected :: "compare_window \<Rightarrow> int option" where
  "window_expected w =
     expectedPointsForWindow (sub_time (zt_Instant (cw_to w)) (zt_Instant (cw_from w))) DefaultStepSeconds"

text \<open>The features of a window that has no baseline: the expected number of points is that of the window itself.\<close>

definition lone_features :: "MetricMeta \<Rightarrow> compare_window \<Rightarrow> Point list \<Rightarrow> SignalFeatures option" where
  "lone_features meta w ps = map_option (\<lambda>n. Process ps [] meta DefaultStepSeconds n (window_of w)) (window_expected w)"

definition failure_texts :: "(string \<times> go_error option) list \<Rightarrow> string list" where
  "failure_texts es =
     List.map_filter (\<lambda>(name, e). map_option (\<lambda>e. name @ '': '' @ err_text e) e) es"

definition empty_window_note :: "MetricsCompareInput \<Rightarrow> MetricDescriptorBasic \<Rightarrow> compare_window \<Rightarrow> string" where
  "empty_window_note inp d w =
     emptyWindowMessage (mi_MetricType inp)
       (cw_label w @ '' ('' @ format_3339 (cw_from w) @ '' to '' @ format_3339 (cw_to w) @ '')'') (mb_Kind d) (mi_Filter inp)"

definition empty_compare ::
  "MetricsCompareInput \<Rightarrow> compare_call \<Rightarrow> MetricMeta \<Rightarrow> string \<Rightarrow> nat \<Rightarrow> CompareResult" where
  "empty_compare inp c meta note nonFinite =
     \<lparr>cr_WindowALabel = cw_label (cc_A c), cr_WindowBLabel = cw_label (cc_B c), cr_WindowAMean = fzero, cr_WindowBMean = fzero,
      cr_DeltaPct = fzero, cr_TrendShift = ''unchanged'',
      cr_ClassificationA = class_text ClassInsufficientData, cr_ClassificationB = class_text ClassInsufficientData,
      cr_ClassificationConfidenceA = confidence_text ConfidenceLow, cr_ClassificationConfidenceB = confidence_text ConfidenceLow,
      cr_TrendScoreA = fzero, cr_TrendScoreB = fzero, cr_StepChangeAt = [], cr_StepChangePct = fzero,
      cr_SLOBreachIntroduced = False, cr_NoData = False, cr_NoDataWindows = [], cr_Note = note,
      cr_NonFinitePoints = nonFinite, cr_MetricType = mi_MetricType inp, cr_Unit = mm_Unit meta,
      cr_ChartPointsA = [], cr_ChartPointsB = []\<rparr>"

definition with_A :: "SignalFeatures \<Rightarrow> CompareResult \<Rightarrow> CompareResult" where
  "with_A f r = r\<lparr>cr_WindowAMean := sf_Mean f, cr_ClassificationA := label_text class_text (sf_Classification f),
     cr_ClassificationConfidenceA := label_text confidence_text (sf_Confidence f)\<rparr>"

definition with_B :: "SignalFeatures \<Rightarrow> CompareResult \<Rightarrow> CompareResult" where
  "with_B f r = r\<lparr>cr_WindowBMean := sf_Mean f, cr_ClassificationB := label_text class_text (sf_Classification f),
     cr_ClassificationConfidenceB := label_text confidence_text (sf_Confidence f)\<rparr>"

definition no_data_compare ::
  "MetricsCompareInput \<Rightarrow> compare_call \<Rightarrow> MetricMeta \<Rightarrow> MetricDescriptorBasic \<Rightarrow> Point list \<Rightarrow> Point list \<Rightarrow> string \<Rightarrow> nat \<Rightarrow>
   CompareResult option" where
  "no_data_compare inp c meta d psA psB note nonFinite =
     (let empties = (if psA = [] then [cc_A c] else []) @ (if psB = [] then [cc_B c] else []);
          r = (empty_compare inp c meta (joinNote (map (empty_window_note inp d) empties @ [note])) nonFinite)
            \<lparr>cr_NoData := True, cr_NoDataWindows := map cw_label empties,
             cr_TrendShift := (if psA = [] \<and> psB \<noteq> [] then ''emerged''
                               else if psA \<noteq> [] \<and> psB = [] then ''disappeared'' else ''unchanged'')\<rparr>
      in do {
        r \<leftarrow> (if psA = [] then Some r else map_option (\<lambda>f. with_A f r) (lone_features meta (cc_A c) psA));
        (if psB = [] then Some r else map_option (\<lambda>f. with_B f r) (lone_features meta (cc_B c) psB))
      })"

definition trend_shift :: "SignalFeatures \<Rightarrow> SignalFeatures \<Rightarrow> string" where
  "trend_shift fA fB =
     (case (sf_Classification fA, sf_Classification fB) of
        (Some a, Some b) \<Rightarrow>
          if Severity a < Severity b then ''degraded'' else if Severity b < Severity a then ''improved'' else ''unchanged''
      | _ \<Rightarrow> ''unchanged'')"

definition compare_features ::
  "MetricMeta \<Rightarrow> compare_call \<Rightarrow> Point list \<Rightarrow> Point list \<Rightarrow> int \<Rightarrow> SignalFeatures \<times> SignalFeatures" where
  "compare_features meta c psA psB expected =
     (Process psA [] meta DefaultStepSeconds 0 (window_of (cc_A c)),
      Process psB psA meta DefaultStepSeconds expected (window_of (cc_B c)))"

definition compare_of ::
  "MetricsCompareInput \<Rightarrow> compare_call \<Rightarrow> MetricMeta \<Rightarrow> SignalFeatures \<Rightarrow> SignalFeatures \<Rightarrow> Point list \<Rightarrow> Point list \<Rightarrow>
   string \<Rightarrow> nat \<Rightarrow> CompareResult" where
  "compare_of inp c meta fA fB psA psB note nonFinite =
     (with_B fB (with_A fA (empty_compare inp c meta note nonFinite)))
       \<lparr>cr_DeltaPct := sf_DeltaPct fB, cr_TrendShift := trend_shift fA fB,
        cr_TrendScoreA := sf_TrendScore fA, cr_TrendScoreB := sf_TrendScore fB,
        cr_StepChangeAt := (case sf_StepChangeAt fB of None \<Rightarrow> [] | Some t \<Rightarrow> format_3339 (utc t)),
        cr_StepChangePct := sf_StepChangePct fB, cr_SLOBreachIntroduced := (sf_SLOBreach fB \<and> \<not> sf_SLOBreach fA),
        cr_ChartPointsA := toChartPoints psA, cr_ChartPointsB := toChartPoints psB\<rparr>"

definition compare_reply :: "CompareResult \<Rightarrow> CompareResult reply" where
  "compare_reply r = chartCallResult compare_floats r (compare_withoutChart r) compareChartStaticURI"

definition compare_result ::
  "tool_env \<Rightarrow> metrics_querier \<Rightarrow> MetricsCompareInput \<Rightarrow> compare_call \<Rightarrow> MetricMeta \<Rightarrow> MetricDescriptorBasic \<Rightarrow>
   windowResult \<Rightarrow> windowResult \<Rightarrow> CompareResult reply option" where
  "compare_result env q inp c meta d ra rb =
     (let note = joinNote [queryWarningsNote (mi_MetricType inp) (cw_label (cc_A c)) (wr_warnings ra),
                           queryWarningsNote (mi_MetricType inp) (cw_label (cc_B c)) (wr_warnings rb)];
          psA = mergePoints env (wr_series ra); psB = mergePoints env (wr_series rb);
          nonFinite = qw_NonFinitePoints (wr_warnings ra) + qw_NonFinitePoints (wr_warnings rb)
      in if wr_err ra \<noteq> None \<or> wr_err rb \<noteq> None
         then Some (metricQueryErrorResult env q (cc_project c) (mi_MetricType inp) (mi_Filter inp)
                (''Failed to query: '' @ join ''; '' (failure_texts [(''window A'', wr_err ra), (''window B'', wr_err rb)]))
                [wr_err ra, wr_err rb])
         else if psA = [] \<or> psB = []
         then map_option compare_reply (no_data_compare inp c meta d psA psB note nonFinite)
         else map_option (\<lambda>n. case compare_features meta c psA psB n of
                (fA, fB) \<Rightarrow> compare_reply (compare_of inp c meta fA fB psA psB note nonFinite))
              (window_expected (cc_A c)))"

definition metrics_compare ::
  "tool_env \<Rightarrow> metrics_querier \<Rightarrow> Registry \<Rightarrow> MetricsCompareInput \<Rightarrow> CompareResult reply option" where
  "metrics_compare env q reg inp =
     (case compare_input env inp of
        Inl msg \<Rightarrow> Some (ErrorResult msg)
      | Inr c \<Rightarrow>
          (case lookupMetricDescriptor env q (cc_project c) (mi_MetricType inp) of
             Inl err \<Rightarrow> Some err
           | Inr d \<Rightarrow>
               (let meta = Lookup reg (mi_MetricType inp) in
                case resolveValidAggSpec (mi_MetricType inp) meta of
                  Inl err \<Rightarrow> Some err
                | Inr spec \<Rightarrow>
                    (let rs = runQueries env [0] (map (compare_params inp (cc_project c) d) [cc_A c, cc_B c])
                               (\<lambda>p. mq_QueryTimeSeriesAggregated q p spec)
                     in compare_result env q inp c meta d (rs ! 0) (rs ! 1)))))"

subsection \<open>Listing metrics\<close>

record MetricsListEntry =
  me_MetricType :: string
  me_DisplayName :: string
  me_Kind :: string
  me_Unit :: string
  me_BetterDirection :: string
  me_SLOThreshold :: "float64 option"
  me_RelatedMetrics :: "string list"
  me_AutoDetected :: bool

record MetricsListResult =
  ml_Count :: nat
  ml_Metrics :: "MetricsListEntry list"
  ml_Truncated :: bool
  ml_TruncationHint :: string

record MetricsListInput =
  li_ProjectID :: string
  li_Match :: string
  li_Kind :: string
  li_Limit :: int

text \<open>The conversion of a string to a kind.\<close>

definition kind_of_text :: "string \<Rightarrow> MetricKind" where
  "kind_of_text s = (case find (\<lambda>k. kind_text k = s) validMetricKinds of Some k \<Rightarrow> k | None \<Rightarrow> OtherKind s)"

definition unitFromDescriptor :: "MetricDescriptorInfo \<Rightarrow> MetricMeta \<Rightarrow> string" where
  "unitFromDescriptor d meta =
     (if mm_Unit meta \<noteq> [] then mm_Unit meta
      else (let u = (case cut_prefix (md_Unit d) ''{'' of Some r \<Rightarrow> r | None \<Rightarrow> md_Unit d);
                u = (case cut_suffix u ''}'' of Some r \<Rightarrow> r | None \<Rightarrow> u)
            in if u = ''1'' \<or> u = [] then [] else u))"

definition registry_entry :: "string \<times> MetricMeta \<Rightarrow> MetricsListEntry" where
  "registry_entry nm =
     (case nm of (name, meta) \<Rightarrow>
        \<lparr>me_MetricType = name, me_DisplayName = [], me_Kind = kind_text (mm_Kind meta), me_Unit = mm_Unit meta,
         me_BetterDirection = direction_text (mm_BetterDirection meta), me_SLOThreshold = mm_SLOThreshold meta,
         me_RelatedMetrics = mm_RelatedMetrics meta, me_AutoDetected = False\<rparr>)"

definition api_entry :: "Registry \<Rightarrow> string list \<Rightarrow> MetricKind \<Rightarrow> MetricDescriptorInfo \<Rightarrow> MetricsListEntry list" where
  "api_entry reg seen kind d =
     (let meta = Lookup reg (md_Type d) in
      if md_Type d \<in> set seen \<or> (kind_text kind \<noteq> [] \<and> mm_Kind meta \<noteq> kind) then []
      else [\<lparr>me_MetricType = md_Type d, me_DisplayName = md_DisplayName d, me_Kind = kind_text (mm_Kind meta),
             me_Unit = unitFromDescriptor d meta, me_BetterDirection = direction_text (mm_BetterDirection meta),
             me_SLOThreshold = None, me_RelatedMetrics = [], me_AutoDetected = mm_AutoDetected meta\<rparr>])"

definition match_filter :: "string \<Rightarrow> string" where
  "match_filter m =
     (if m = [] then []
      else ''metric.type = has_substring('' @ [CHR 0x22] @ EscapeFilterValue m @ [CHR 0x22] @ '')'')"

definition list_result :: "nat \<Rightarrow> MetricsListEntry list \<Rightarrow> MetricsListResult" where
  "list_result limit entries =
     \<lparr>ml_Count = length (take limit entries), ml_Metrics = take limit entries, ml_Truncated = (limit < length entries),
      ml_TruncationHint =
        (if limit < length entries
         then ''Showing '' @ nat_text limit @ '' of '' @ nat_text (length entries) @
              ''+ metrics. Use 'match' to narrow the search or increase 'limit' (max 200).'' else [])\<rparr>"

definition metrics_list ::
  "tool_env \<Rightarrow> metrics_querier \<Rightarrow> Registry \<Rightarrow> MetricsListInput \<Rightarrow> MetricsListResult reply" where
  "metrics_list env q reg inp =
     (case Resolve (te_Project env) (li_ProjectID inp) of
        Inl err \<Rightarrow> ErrorResult (err_text err)
      | Inr project \<Rightarrow>
          (let kind = kind_of_text (li_Kind inp); limit = clampLimit (li_Limit inp) 50 200;
               found = Registry_List reg (li_Match inp) kind;
               apiLimit = limit - int (length found);
               apiLimit = (if kind_text kind \<noteq> [] then apiLimit * 4 else apiLimit)
           in if apiLimit \<le> 0 then Structured (list_result (nat limit) (map registry_entry found))
              else (case mq_ListMetricDescriptors q project (match_filter (li_Match inp)) apiLimit of
                      Inl err \<Rightarrow> gcpErrorResult env (''Failed to list metrics: '' @ err_text err) err [] []
                    | Inr ds \<Rightarrow> Structured (list_result (nat limit)
                        (map registry_entry found @ concat (map (api_entry reg (map fst found) kind) ds))))))"

end
