(* ===== verification/Tool_Related.thy ===== *)
theory Tool_Related
  imports Tool_Snapshot
begin

text \<open>
  The tool \<open>metrics_related\<close> (\<open>internal/tools/metrics_related.go\<close>): the related metrics of a registry
  entry are queried by parallel tasks that append to shared lists under a mutex. A task is the sequence
  of its appends, each atomic, and the error that \<open>runParallel\<close> records for it; the run of the tasks
  follows a schedule that names the task of each step. The bound on running tasks only removes
  schedules. Progress notifications are left out.
\<close>

subsection \<open>Types\<close>

datatype skipCause = skipBenign | skipQueryFailed | skipMisconfig

record SkippedSignal =
  sk_MetricType :: string
  sk_Reason :: string
  sk_cause :: skipCause
  sk_err :: "go_error option"

record RelatedSignal =
  rl_MetricType :: string
  rl_Kind :: string
  rl_Current :: float64
  rl_Baseline :: float64
  rl_DeltaPct :: float64
  rl_Trend :: string
  rl_TrendScore :: float64
  rl_CV :: float64
  rl_Classification :: string
  rl_ClassificationConfidence :: string
  rl_Anomaly :: bool
  rl_NonFinitePoints :: nat

record RelatedSignalsResult =
  rr_RelatedSignals :: "RelatedSignal list"
  rr_Skipped :: "SkippedSignal list"
  rr_Partial :: bool
  rr_Note :: string
  rr_Message :: string

record MetricsRelatedInput =
  ri_ProjectID :: string
  ri_MetricType :: string
  ri_Filter :: string
  ri_Window :: string

subsection \<open>Summary of the failures\<close>

fun skip_count_text :: "skipCause \<Rightarrow> nat \<Rightarrow> string" where
  "skip_count_text skipBenign n = []"
| "skip_count_text skipQueryFailed n = nat_text n @ '' query failure(s)''"
| "skip_count_text skipMisconfig n =
     nat_text n @ '' registry misconfiguration(s) (fix the registry YAML; retrying will not help)''"

definition cause_label :: "SkippedSignal list \<Rightarrow> skipCause \<Rightarrow> string list" where
  "cause_label failed c =
     (let n = length (filter (\<lambda>s. sk_cause s = c) failed) in if 0 < n then [skip_count_text c n] else [])"

fun add_new :: "string list \<Rightarrow> string list \<Rightarrow> string list" where
  "add_new acc [] = acc"
| "add_new acc (x # xs) = add_new (if x \<in> set acc then acc else acc @ [x]) xs"

definition failureSummary :: "SkippedSignal list \<Rightarrow> string \<times> go_error option list" where
  "failureSummary skipped =
     (let failed = filter (\<lambda>s. sk_cause s \<noteq> skipBenign) skipped; reasons = add_new [] (map sk_Reason failed)
      in if reasons = [] then ([], [])
         else (join '', '' (concat (map (cause_label failed) [skipBenign, skipQueryFailed, skipMisconfig])) @
                 ''. Reasons: '' @ join ''; '' reasons,
               map sk_err failed))"

subsection \<open>Tasks\<close>

datatype rel_event = AddSkip SkippedSignal | AddWarningNote string | AddSignal RelatedSignal

record rel_state =
  rs_signals :: "RelatedSignal list"
  rs_skipped :: "SkippedSignal list"
  rs_notes :: "string list"

fun apply_event :: "rel_event \<Rightarrow> rel_state \<Rightarrow> rel_state" where
  "apply_event (AddSkip s) st = st\<lparr>rs_skipped := rs_skipped st @ [s]\<rparr>"
| "apply_event (AddWarningNote n) st =
     (if n \<noteq> [] \<and> n \<notin> set (rs_notes st) then st\<lparr>rs_notes := rs_notes st @ [n]\<rparr> else st)"
| "apply_event (AddSignal s) st = st\<lparr>rs_signals := rs_signals st @ [s]\<rparr>"

definition skipFailure :: "tool_env \<Rightarrow> string \<Rightarrow> go_error \<Rightarrow> SkippedSignal" where
  "skipFailure env relMetric err =
     \<lparr>sk_MetricType = relMetric, sk_Reason = err_text err,
      sk_cause = (if isBenign env err then skipBenign else skipQueryFailed), sk_err = Some err\<rparr>"

definition related_signal :: "string \<Rightarrow> MetricMeta \<Rightarrow> SignalFeatures \<Rightarrow> nat \<Rightarrow> RelatedSignal" where
  "related_signal relMetric meta f nonFinite =
     \<lparr>rl_MetricType = relMetric, rl_Kind = kind_text (mm_Kind meta), rl_Current = sf_Current f, rl_Baseline = sf_Baseline f,
      rl_DeltaPct = sf_DeltaPct f, rl_Trend = label_text trend_text (sf_Trend f), rl_TrendScore = sf_TrendScore f,
      rl_CV = sf_CV f, rl_Classification = label_text class_text (sf_Classification f),
      rl_ClassificationConfidence = label_text confidence_text (sf_Confidence f),
      rl_Anomaly = (case sf_Classification f of Some c \<Rightarrow> IsAnomalous c | None \<Rightarrow> True),
      rl_NonFinitePoints = nonFinite\<rparr>"

record related_call =
  rc_project :: string
  rc_filter :: string
  rc_start :: gtime
  rc_now :: gtime
  rc_windowDur :: duration

definition related_params :: "related_call \<Rightarrow> string \<Rightarrow> MetricDescriptorBasic \<Rightarrow> QueryTimeSeriesParams" where
  "related_params c relMetric d =
     \<lparr>qp_Project = rc_project c, qp_MetricType = relMetric, qp_LabelFilter = rc_filter c, qp_Start = rc_start c,
      qp_End = rc_now c, qp_StepSeconds = DefaultStepSeconds, qp_MetricKind = mb_Kind d, qp_ValueType = mb_ValueType d,
      qp_GroupByFields = [], qp_Reducer = REDUCE_NONE\<rparr>"

definition prev_window :: "related_call \<Rightarrow> baselineWindow list" where
  "prev_window c = baseline_windows \<lparr>bs_mode = PrevWindow, bs_eventTime = time_zero\<rparr> (rc_start c) (rc_now c)"

text \<open>The end of a task, when the current window has points: its appends and the error of the task.\<close>

definition judge_related ::
  "tool_env \<Rightarrow> related_call \<Rightarrow> string \<Rightarrow> MetricMeta \<Rightarrow> windowResult \<Rightarrow> windowResult \<Rightarrow> rel_event list \<times> go_error option" where
  "judge_related env c relMetric meta current baseline =
     (let note = AddWarningNote (queryWarningsNote relMetric (bw_label (hd (prev_window c))) (wr_warnings baseline)) in
      case wr_err baseline of
        Some err \<Rightarrow> ([note, AddSkip (skipFailure env relMetric (prefix_error ''baseline query failed: '' err))], None)
      | None \<Rightarrow>
          (case expectedPointsForWindow (rc_windowDur c) DefaultStepSeconds of
             None \<Rightarrow> ([note], Some (panicError ''runtime error: integer divide by zero''))
           | Some expected \<Rightarrow>
               (let f = Process (mergePoints env (wr_series current)) (mergePoints env (wr_series baseline)) meta
                          DefaultStepSeconds expected \<lparr>w_Start = rc_start c, w_End = rc_now c\<rparr>
                in ([note, AddSignal (related_signal relMetric meta f
                       (qw_NonFinitePoints (wr_warnings current) + qw_NonFinitePoints (wr_warnings baseline)))], None))))"

definition query_related ::
  "tool_env \<Rightarrow> metrics_querier \<Rightarrow> related_call \<Rightarrow> nat \<Rightarrow> string \<Rightarrow> MetricMeta \<Rightarrow> MetricDescriptorBasic \<Rightarrow>
   rel_event list \<times> go_error option" where
  "query_related env q c i relMetric meta d =
     (case queryWithBaseline env [0, i] (related_params c relMetric d) (prev_window c)
             (\<lambda>p. mq_QueryTimeSeriesAggregated q p (ResolveAggregation meta)) of
        (current, baselines) \<Rightarrow>
          (let note = AddWarningNote (queryWarningsNote relMetric ''current'' (wr_warnings current)) in
           case wr_err current of
             Some err \<Rightarrow> ([note, AddSkip (skipFailure env relMetric (prefix_error ''query failed: '' err))], None)
           | None \<Rightarrow>
               if \<not> hasPoints current then
                 ([note, AddSkip \<lparr>sk_MetricType = relMetric, sk_Reason = EmptyWindowReason (mb_Kind d),
                    sk_cause = skipBenign, sk_err = None\<rparr>], None)
               else (case judge_related env c relMetric meta current (hd baselines) of (es, r) \<Rightarrow> (note # es, r))))"

definition related_task ::
  "tool_env \<Rightarrow> metrics_querier \<Rightarrow> Registry \<Rightarrow> related_call \<Rightarrow> nat \<Rightarrow> string \<Rightarrow> rel_event list \<times> go_error option" where
  "related_task env q reg c i relMetric =
     (let meta = Lookup reg relMetric in
      case mq_GetMetricDescriptor q (rc_project c) relMetric of
        Inl err \<Rightarrow> ([AddSkip (skipFailure env relMetric (prefix_error ''failed to get metric descriptor: '' err))], None)
      | Inr d \<Rightarrow>
          (case aggregation_Validate (ResolveAggregation meta) of
             Some err \<Rightarrow> ([AddSkip \<lparr>sk_MetricType = relMetric,
                 sk_Reason = formatRegistryMisconfigError relMetric (err_text err), sk_cause = skipMisconfig,
                 sk_err = Some err\<rparr>], None)
           | None \<Rightarrow> query_related env q c i relMetric meta d))"

text \<open>\<open>runParallel\<close>: a task is not started once the context is done.\<close>

definition start_task ::
  "tool_env \<Rightarrow> metrics_querier \<Rightarrow> Registry \<Rightarrow> related_call \<Rightarrow> nat \<times> string \<Rightarrow> rel_event list \<times> go_error option" where
  "start_task env q reg c ir =
     (case te_CtxErr env [0, fst ir] of
        Some e \<Rightarrow> ([], Some (prefix_error ''not started: '' e))
      | None \<Rightarrow> related_task env q reg c (fst ir) (snd ir))"

subsection \<open>Running the tasks\<close>

fun run_tasks :: "nat list \<Rightarrow> rel_event list list \<Rightarrow> rel_state \<Rightarrow> rel_event list list \<times> rel_state" where
  "run_tasks [] ps st = (ps, st)"
| "run_tasks (i # sched) ps st =
     (if i < length ps then
        (case ps ! i of
           [] \<Rightarrow> run_tasks sched ps st
         | e # es \<Rightarrow> run_tasks sched (ps[i := es]) (apply_event e st))
      else run_tasks sched ps st)"

text \<open>A schedule is complete when every task has done all its steps.\<close>

definition completes :: "nat list \<Rightarrow> rel_event list list \<Rightarrow> bool" where
  "completes sched ps = list_all (\<lambda>i. length (ps ! i) \<le> length (filter (\<lambda>j. j = i) sched)) [0..<length ps]"

definition empty_rel :: rel_state where
  "empty_rel = \<lparr>rs_signals = [], rs_skipped = [], rs_notes = []\<rparr>"

definition task_failures :: "tool_env \<Rightarrow> string list \<Rightarrow> go_error option list \<Rightarrow> SkippedSignal list" where
  "task_failures env related errs =
     List.map_filter (\<lambda>(relMetric, e). map_option (skipFailure env relMetric) e) (zip related errs)"

definition sort_signals :: "RelatedSignal list \<Rightarrow> RelatedSignal list" where
  "sort_signals = sort_less (\<lambda>a b. rl_MetricType a < rl_MetricType b)"

definition related_structured :: "tool_env \<Rightarrow> rel_state \<Rightarrow> string \<Rightarrow> go_error option list \<Rightarrow> RelatedSignalsResult" where
  "related_structured env st failures failedErrs =
     \<lparr>rr_RelatedSignals = rs_signals st, rr_Skipped = rs_skipped st, rr_Partial = (failures \<noteq> [] \<or> rs_notes st \<noteq> []),
      rr_Note = joinNote
        [if failures \<noteq> []
         then joinNote [''Some related signals could not be queried and are excluded from results. '' @ failures,
                errorGuidance env failedErrs [] []] else [],
         joinNote (rs_notes st)],
      rr_Message = []\<rparr>"

definition related_reply :: "tool_env \<Rightarrow> rel_state \<Rightarrow> RelatedSignalsResult reply" where
  "related_reply env st =
     (case (te_CtxErr env [], rs_signals st) of
        (Some err, []) \<Rightarrow>
          gcpErrorResult env (''metrics_related stopped before any related signal was queried: '' @ err_text err) err [] []
      | _ \<Rightarrow>
          (case failureSummary (rs_skipped st) of
             (failures, failedErrs) \<Rightarrow>
               if rs_signals st = [] \<and> failures \<noteq> []
               then gcpErrorsResult env (''Every related signal failed or was skipped '' @ em_dash @
                      '' correlation coverage is unavailable. '' @ failures) failedErrs [] []
               else Structured (related_structured env st failures failedErrs)))"

text \<open>The state when all tasks have ended and their errors have been added.\<close>

definition related_state ::
  "tool_env \<Rightarrow> metrics_querier \<Rightarrow> Registry \<Rightarrow> related_call \<Rightarrow> nat list \<Rightarrow> string list \<Rightarrow> rel_state" where
  "related_state env q reg c sched related =
     (let tasks = map (start_task env q reg c) (enumerate 0 related);
          st = snd (run_tasks sched (map fst tasks) empty_rel)
      in st\<lparr>rs_signals := sort_signals (rs_signals st),
            rs_skipped := rs_skipped st @ task_failures env related (map snd tasks)\<rparr>)"

definition metrics_related ::
  "tool_env \<Rightarrow> metrics_querier \<Rightarrow> Registry \<Rightarrow> nat list \<Rightarrow> MetricsRelatedInput \<Rightarrow> RelatedSignalsResult reply" where
  "metrics_related env q reg sched inp =
     (case Resolve (te_Project env) (ri_ProjectID inp) of
        Inl err \<Rightarrow> ErrorResult (err_text err)
      | Inr project \<Rightarrow>
          (case parseWindow (ri_Window inp) of
             Inl err \<Rightarrow> ErrorResult (err_text err)
           | Inr (name, dur) \<Rightarrow>
               (let related = RelatedMetrics reg (ri_MetricType inp);
                    c = \<lparr>rc_project = project, rc_filter = ri_Filter inp, rc_start = te_Now env - dur, rc_now = te_Now env,
                         rc_windowDur = dur\<rparr>
                in if related = [] then
                     Structured \<lparr>rr_RelatedSignals = [], rr_Skipped = [], rr_Partial = False, rr_Note = [],
                       rr_Message = ''No related metrics configured for '' @ quote (ri_MetricType inp) @
                         ''. Add related_metrics in the registry YAML to use this tool.''\<rparr>
                   else related_reply env (related_state env q reg c sched related))))"

end
