(* ===== verification/Tool_Metrics_Props.thy ===== *)
theory Tool_Metrics_Props
  imports Tool_Top Tool_Compare Tool_Related Metric_Props
begin

text \<open>
  Properties of the metric tools: the project boundary, the policy for failed baselines, verdicts of
  snapshots and comparisons, what reaches the model, the ranking of contributors.
\<close>

subsection \<open>The project boundary\<close>

text \<open>Two backends that give the same answers about one project.\<close>

definition agree_on :: "string \<Rightarrow> metrics_querier \<Rightarrow> metrics_querier \<Rightarrow> bool" where
  "agree_on P q q' =
     (mq_ListMetricDescriptors q P = mq_ListMetricDescriptors q' P \<and>
      mq_GetMetricDescriptor q P = mq_GetMetricDescriptor q' P \<and>
      mq_GetResourceLabels q P = mq_GetResourceLabels q' P \<and>
      (\<forall>p. qp_Project p = P \<longrightarrow> mq_QueryTimeSeries q p = mq_QueryTimeSeries q' p \<and>
        mq_QueryTimeSeriesAggregated q p = mq_QueryTimeSeriesAggregated q' p))"

lemma agree_labels:
  "agree_on P q q' \<Longrightarrow> availableLabelsFromDescriptor q P = availableLabelsFromDescriptor q' P"
  by (intro ext) (simp add: agree_on_def availableLabelsFromDescriptor_def)

lemma agree_fetch: "agree_on P q q' \<Longrightarrow> fetchAvailableLabels q P = fetchAvailableLabels q' P"
  using agree_labels [of P q q'] by (simp add: agree_on_def fetchAvailableLabels_def fun_eq_iff split: sum.split list.split)

lemma agree_enrich: "agree_on P q q' \<Longrightarrow> enrichInvalidFilterError q P = enrichInvalidFilterError q' P"
  unfolding enrichInvalidFilterError_def fun_eq_iff by (simp only: agree_fetch [of P q q'] refl simp_thms)

lemma agree_errors: "agree_on P q q' \<Longrightarrow> metricQueryErrorResult env q P = metricQueryErrorResult env q' P"
  unfolding metricQueryErrorResult_def fun_eq_iff by (simp only: agree_enrich [of P q q'] refl simp_thms)

lemma agree_descriptor:
  "agree_on P q q' \<Longrightarrow> lookupMetricDescriptor env q P = lookupMetricDescriptor env q' P"
  by (simp add: agree_on_def lookupMetricDescriptor_def fun_eq_iff)

lemma runQueries_cong:
  "(\<And>p. p \<in> set ps \<Longrightarrow> f p = g p) \<Longrightarrow> runQueries env b ps f = runQueries env b ps g"
  by (simp add: runQueries_def runParallel_def)

lemma queryWithBaseline_cong:
  assumes "\<And>p. qp_Project p = qp_Project c \<Longrightarrow> f p = g p"
  shows "queryWithBaseline env b c ws f = queryWithBaseline env b c ws g"
proof -
  have "runQueries env b' [c] f = runQueries env b' [c] g" for b'
    by (rule runQueries_cong) (simp add: assms)
  moreover have "runQueries env b' (map (\<lambda>w. c\<lparr>qp_Start := bw_start w, qp_End := bw_end w\<rparr>) ws) f =
      runQueries env b' (map (\<lambda>w. c\<lparr>qp_Start := bw_start w, qp_End := bw_end w\<rparr>) ws) g" for b'
    by (rule runQueries_cong) (auto simp: assms)
  ultimately show ?thesis by (simp add: queryWithBaseline_def Let_def)
qed

lemma agree_query:
  "agree_on P q q' \<Longrightarrow> qp_Project c = P \<Longrightarrow>
   queryWithBaseline env b c ws (\<lambda>p. mq_QueryTimeSeriesAggregated q p s) =
   queryWithBaseline env b c ws (\<lambda>p. mq_QueryTimeSeriesAggregated q' p s)"
  "agree_on P q q' \<Longrightarrow> qp_Project c = P \<Longrightarrow>
   queryWithBaseline env b c ws (mq_QueryTimeSeries q) = queryWithBaseline env b c ws (mq_QueryTimeSeries q')"
  by (rule queryWithBaseline_cong; simp add: agree_on_def)+

text \<open>A pinned deployment resolves to its project or refuses the call.\<close>

lemma pinned_Resolve:
  "pp_pinned p \<noteq> [] \<Longrightarrow> Resolve p r = (if r = [] then Inr (pp_pinned p) else Inl (Sentinel ''project_id is not accepted by a pinned deployment''))"
  by (simp add: Resolve_def Pinned_def)

lemma snapshot_input_project:
  "pp_pinned (te_Project env) \<noteq> [] \<Longrightarrow> snapshot_input env reg inp = Inr c \<Longrightarrow> sc_project c = pp_pinned (te_Project env)"
  by (auto simp: snapshot_input_def pinned_Resolve Let_def split: if_splits sum.splits)

lemma top_input_project:
  "pp_pinned (te_Project env) \<noteq> [] \<Longrightarrow> top_input env inp = Inr c \<Longrightarrow> tp_project c = pp_pinned (te_Project env)"
  by (auto simp: top_input_def pinned_Resolve Let_def split: if_splits sum.splits)

lemma compare_input_project:
  "pp_pinned (te_Project env) \<noteq> [] \<Longrightarrow> compare_input env inp = Inr c \<Longrightarrow> cc_project c = pp_pinned (te_Project env)"
  by (auto simp: compare_input_def pinned_Resolve Let_def split: if_splits sum.splits prod.splits list.splits)

lemma snapshot_boundary:
  assumes "pp_pinned (te_Project env) = P" "P \<noteq> []" "agree_on P q q'"
  shows "metrics_snapshot env q reg inp = metrics_snapshot env q' reg inp"
proof (cases "snapshot_input env reg inp")
  case (Inr c)
  then have [simp]: "sc_project c = P" using assms snapshot_input_project by metis
  have r: "snapshot_result env q c = snapshot_result env q' c"
    unfolding snapshot_result_def fun_eq_iff by (simp only: agree_errors [OF assms(3)] agree_labels [OF assms(3)] \<open>sc_project c = P\<close> simp_thms)
  have w: "queryWithBaseline env [] (snapshot_params c d) ws (\<lambda>p. mq_QueryTimeSeriesAggregated q p s) =
      queryWithBaseline env [] (snapshot_params c d) ws (\<lambda>p. mq_QueryTimeSeriesAggregated q' p s)" for d ws s
    by (rule agree_query(1) [OF assms(3)]) (simp add: snapshot_params_def)
  show ?thesis
    unfolding metrics_snapshot_def Inr sum.case \<open>sc_project c = P\<close> agree_descriptor [OF assms(3)] r w by (rule refl)
qed (simp add: metrics_snapshot_def)

lemma top_boundary:
  assumes "pp_pinned (te_Project env) = P" "P \<noteq> []" "agree_on P q q'"
  shows "metrics_top_contributors order env q reg inp = metrics_top_contributors order env q' reg inp"
proof (cases "top_input env inp")
  case (Inr c)
  then have [simp]: "tp_project c = P" using assms top_input_project by metis
  have r: "top_result order env q inp c = top_result order env q' inp c"
    unfolding top_result_def fun_eq_iff by (simp only: agree_errors [OF assms(3)] agree_labels [OF assms(3)] \<open>tp_project c = P\<close> simp_thms)
  have w: "queryWithBaseline env [] (top_params env inp c d red) ws (mq_QueryTimeSeries q) =
      queryWithBaseline env [] (top_params env inp c d red) ws (mq_QueryTimeSeries q')" for d red ws
    by (rule agree_query(2) [OF assms(3)]) (simp add: top_params_def)
  show ?thesis
    unfolding metrics_top_contributors_def Inr sum.case \<open>tp_project c = P\<close> agree_descriptor [OF assms(3)] r w by (rule refl)
qed (simp add: metrics_top_contributors_def)

lemma compare_boundary:
  assumes "pp_pinned (te_Project env) = P" "P \<noteq> []" "agree_on P q q'"
  shows "metrics_compare env q reg inp = metrics_compare env q' reg inp"
proof (cases "compare_input env inp")
  case (Inr c)
  then have [simp]: "cc_project c = P" using assms compare_input_project by metis
  have w: "runQueries env b (map (compare_params inp P d) ws) (\<lambda>p. mq_QueryTimeSeriesAggregated q p s) =
        runQueries env b (map (compare_params inp P d) ws) (\<lambda>p. mq_QueryTimeSeriesAggregated q' p s)" for b d ws s
    using assms(3) by (intro runQueries_cong) (auto simp: compare_params_def agree_on_def)
  have r: "compare_result env q inp c = compare_result env q' inp c"
    unfolding compare_result_def fun_eq_iff by (simp only: agree_errors [OF assms(3)] \<open>cc_project c = P\<close> simp_thms)
  show ?thesis
    unfolding metrics_compare_def Inr sum.case \<open>cc_project c = P\<close> agree_descriptor [OF assms(3)] r w by (rule refl)
qed (simp add: metrics_compare_def)

lemma related_boundary:
  assumes "pp_pinned (te_Project env) = P" "P \<noteq> []" "agree_on P q q'"
  shows "metrics_related env q reg sched inp = metrics_related env q' reg sched inp"
proof -
  have "start_task env q reg c = start_task env q' reg c" if "rc_project c = P" for c
    using assms(3) that
    by (auto simp: start_task_def related_task_def query_related_def related_params_def agree_query [OF assms(3)] agree_on_def
        fun_eq_iff Let_def split: option.split sum.split)
  moreover have "Resolve (te_Project env) r \<noteq> Inr p" if "p \<noteq> P" for p r
    using that pinned_Resolve [of "te_Project env" r] assms(1,2) by auto
  ultimately show ?thesis
    by (auto simp: metrics_related_def related_state_def Let_def split: sum.split) (metis related_call.select_convs(1))
qed

lemma list_boundary:
  assumes "pp_pinned (te_Project env) = P" "P \<noteq> []" "agree_on P q q'"
  shows "metrics_list env q reg inp = metrics_list env q' reg inp"
  using assms by (simp add: metrics_list_def pinned_Resolve agree_on_def Let_def)

text \<open>
  C29: In a deployment pinned to a project, whatever a caller asks for, the answers of the five metric
  tools depend on the data of that project only: two backends that agree about it cannot be told apart.
\<close>

theorem metric_tools_stay_in_project:
  assumes "NewProjectPolicy pinned = Inr (te_Project env)" "pinned \<noteq> []" "agree_on pinned q q'"
  shows "metrics_snapshot env q reg i1 = metrics_snapshot env q' reg i1 \<and>
    metrics_top_contributors order env q reg i2 = metrics_top_contributors order env q' reg i2 \<and>
    metrics_compare env q reg i3 = metrics_compare env q' reg i3 \<and>
    metrics_related env q reg sched i4 = metrics_related env q' reg sched i4 \<and>
    metrics_list env q reg i5 = metrics_list env q' reg i5"
proof -
  have "pp_pinned (te_Project env) = pinned"
    using assms(1) by (auto simp: NewProjectPolicy_def split: if_splits) (metis ProjectPolicy.select_convs(1))+
  note b = this assms(2,3)
  show ?thesis
    using snapshot_boundary [OF b] top_boundary [OF b] compare_boundary [OF b] related_boundary [OF b] list_boundary [OF b]
    by blast
qed

subsection \<open>What reaches the model and the widget\<close>

lemma chart_result:
  "chartCallResult fl r llm uri = ChartResult l x u \<longleftrightarrow> l = llm \<and> x = r \<and> u = uri \<and> list_all finite64 (fl llm)"
  by (auto simp: chartCallResult_def marshal_error_def list_all_iff find_None_iff find_Some_iff split: option.split)

lemma chart_points_finite: "list_all finite64 (map cp_V (toChartPoints ps))"
  by (simp add: toChartPoints_def list_all_iff)

lemma not_chart [simp]:
  "gcpErrorsResult env m es f b \<noteq> ChartResult l x u" "gcpErrorResult env m e f b \<noteq> ChartResult l x u"
  "metricQueryErrorResult env q P t f' m es \<noteq> ChartResult l x u"
  by (simp_all add: gcpErrorResult_def gcpErrorsResult_def metricQueryErrorResult_def Let_def)

lemma guards_not_chart [simp]:
  "lookupMetricDescriptor env q P t \<noteq> Inl (ChartResult l x u)" "resolveValidAggSpec t m \<noteq> Inl (ChartResult l x u)"
  by (simp_all add: lookupMetricDescriptor_def resolveValidAggSpec_def split: sum.split option.split)

text \<open>The shape of an answer that carries a chart.\<close>

lemma snapshot_chart_cases:
  assumes "metrics_snapshot env q reg inp = Some (ChartResult llm r uri)"
  obtains (no_data) c d w ls n where "snapshot_input env reg inp = Inr c" "r = no_data_snapshot c d w ls n"
      "llm = snapshot_withoutChart r" "uri = chartStaticURI" "list_all finite64 (snapshot_floats llm)"
  | (judged) c d spec cur rs failure bnote stats note' where "snapshot_input env reg inp = Inr c"
      "queryWithBaseline env [] (snapshot_params c d) (baseline_windows (sc_baseline c) (sc_start c) (sc_now c))
         (\<lambda>p. mq_QueryTimeSeriesAggregated q p spec) = (cur, rs)"
      "wr_err cur = None" "mergePoints env (wr_series cur) \<noteq> []"
      "snapshot_baseline env c (baseline_windows (sc_baseline c) (sc_start c) (sc_now c)) rs = Some (failure, bnote, stats)"
      "r = snapshot_of c (mergePoints env (wr_series cur))
             (ProcessWithBaselineStats (mergePoints env (wr_series cur)) stats (sc_meta c) (sc_step c) \<lparr>w_Start = sc_start c, w_End = sc_now c\<rparr>)
             (joinNote [failure, note', bnote]) (wr_warnings cur)
             (availableLabelsFromDescriptor q (sc_project c) (si_MetricType (sc_input c)) (mb_Labels d) (mb_MonitoredResourceTypes d))"
      "llm = snapshot_withoutChart r" "uri = chartStaticURI" "list_all finite64 (snapshot_floats llm)"
proof -
  obtain c where c: "snapshot_input env reg inp = Inr c"
    using assms by (cases "snapshot_input env reg inp") (auto simp: metrics_snapshot_def)
  obtain d where d: "lookupMetricDescriptor env q (sc_project c) (si_MetricType inp) = (Inr d :: MetricSnapshotResult reply + _)"
    using assms c by (cases "lookupMetricDescriptor env q (sc_project c) (si_MetricType inp) :: MetricSnapshotResult reply + _")
      (auto simp: metrics_snapshot_def)
  obtain spec where spec: "resolveValidAggSpec (si_MetricType inp) (sc_meta c) = (Inr spec :: MetricSnapshotResult reply + _)"
    using assms c d by (cases "resolveValidAggSpec (si_MetricType inp) (sc_meta c) :: MetricSnapshotResult reply + _")
      (auto simp: metrics_snapshot_def)
  let ?ws = "baseline_windows (sc_baseline c) (sc_start c) (sc_now c)"
  obtain cur rs where run: "queryWithBaseline env [] (snapshot_params c d) ?ws (\<lambda>p. mq_QueryTimeSeriesAggregated q p spec) = (cur, rs)"
    by fastforce
  have res: "snapshot_result env q c d ?ws cur rs = Some (ChartResult llm r uri)"
    using assms c d spec run by (simp add: metrics_snapshot_def Let_def)
  show thesis
  proof (cases "mergePoints env (wr_series cur) = []")
    case True
    with res show thesis
      by (auto simp: snapshot_result_def Let_def snapshot_reply_def chart_result split: option.splits intro: no_data [OF c])
  next
    case False
    then show thesis
      using res judged [OF c run]
      by (auto simp: snapshot_result_def Let_def snapshot_reply_def chart_result split: option.splits)
  qed
qed


lemma compare_chart_cases:
  assumes "metrics_compare env q reg inp = Some (ChartResult llm r uri)"
  obtains c d ra rb spec where "compare_input env inp = Inr c"
    "compare_result env q inp c (Lookup reg (mi_MetricType inp)) d ra rb = Some (ChartResult llm r uri)"
proof -
  obtain c where c: "compare_input env inp = Inr c"
    using assms by (cases "compare_input env inp") (auto simp: metrics_compare_def)
  obtain d where d: "lookupMetricDescriptor env q (cc_project c) (mi_MetricType inp) = (Inr d :: CompareResult reply + _)"
    using assms c by (cases "lookupMetricDescriptor env q (cc_project c) (mi_MetricType inp) :: CompareResult reply + _")
      (auto simp: metrics_compare_def)
  obtain spec where "resolveValidAggSpec (mi_MetricType inp) (Lookup reg (mi_MetricType inp)) = (Inr spec :: CompareResult reply + _)"
    using assms c d
    by (cases "resolveValidAggSpec (mi_MetricType inp) (Lookup reg (mi_MetricType inp)) :: CompareResult reply + _")
      (auto simp: metrics_compare_def Let_def)
  with assms c d that show thesis by (simp add: metrics_compare_def Let_def)
qed

lemma snapshot_floats_chart:
  "list_all finite64 (snapshot_floats (snapshot_withoutChart r)) \<Longrightarrow> list_all finite64 (map cp_V (sn_ChartPoints r)) \<Longrightarrow>
   list_all finite64 (snapshot_floats r)"
  by (auto simp: snapshot_floats_def snapshot_withoutChart_def)

lemma compare_floats_chart:
  "list_all finite64 (compare_floats (compare_withoutChart r)) \<Longrightarrow> list_all finite64 (map cp_V (cr_ChartPointsA r)) \<Longrightarrow>
   list_all finite64 (map cp_V (cr_ChartPointsB r)) \<Longrightarrow> list_all finite64 (compare_floats r)"
  by (auto simp: compare_floats_def compare_withoutChart_def)

lemma with_AB_chart [simp]:
  "cr_ChartPointsA (with_A f r) = cr_ChartPointsA r" "cr_ChartPointsB (with_A f r) = cr_ChartPointsB r"
  "cr_ChartPointsA (with_B f r) = cr_ChartPointsA r" "cr_ChartPointsB (with_B f r) = cr_ChartPointsB r"
  by (simp_all add: with_A_def with_B_def)

lemma compare_reply_iff:
  "compare_reply x = ChartResult llm r uri \<longleftrightarrow>
   x = r \<and> llm = compare_withoutChart r \<and> uri = compareChartStaticURI \<and> list_all finite64 (compare_floats llm)"
  by (auto simp: compare_reply_def chart_result)

text \<open>The two ways in which a comparison ends with an answer.\<close>

lemma compare_result_cases:
  assumes "compare_result env q inp c meta d ra rb = Some (ChartResult llm r uri)"
  obtains (no_data) note' nf where "compare_reply r = ChartResult llm r uri"
      "no_data_compare inp c meta d (mergePoints env (wr_series ra)) (mergePoints env (wr_series rb)) note' nf = Some r"
  | (judged) n note' nf where "compare_reply r = ChartResult llm r uri"
      "mergePoints env (wr_series ra) \<noteq> []" "mergePoints env (wr_series rb) \<noteq> []" "window_expected (cc_A c) = Some n"
      "r = compare_of inp c meta
         (fst (compare_features meta c (mergePoints env (wr_series ra)) (mergePoints env (wr_series rb)) n))
         (snd (compare_features meta c (mergePoints env (wr_series ra)) (mergePoints env (wr_series rb)) n))
         (mergePoints env (wr_series ra)) (mergePoints env (wr_series rb)) note' nf"
proof -
  let ?psA = "mergePoints env (wr_series ra)" and ?psB = "mergePoints env (wr_series rb)"
  have ok: "wr_err ra = None" "wr_err rb = None"
    using assms by (auto simp: compare_result_def Let_def split: if_splits)
  show thesis
  proof (cases "?psA = [] \<or> ?psB = []")
    case True
    then obtain x note' nf where "no_data_compare inp c meta d ?psA ?psB note' nf = Some x" "compare_reply x = ChartResult llm r uri"
      using assms ok unfolding compare_result_def Let_def by (simp only: simp_thms if_True if_False map_option_eq_Some) blast
    with no_data show thesis by (auto simp: compare_reply_iff)
  next
    case False
    then obtain n note' nf fA fB where "window_expected (cc_A c) = Some n" "compare_features meta c ?psA ?psB n = (fA, fB)"
        "compare_reply (compare_of inp c meta fA fB ?psA ?psB note' nf) = ChartResult llm r uri"
      using assms ok by (auto simp: compare_result_def Let_def compare_features_def)
    moreover from this(3) have "r = compare_of inp c meta fA fB ?psA ?psB note' nf" by (simp add: compare_reply_iff)
    ultimately show thesis using False by (intro judged [of n note' nf]) simp_all
  qed
qed

lemma compare_chart_points:
  assumes "compare_result env q inp c meta d ra rb = Some (ChartResult llm r uri)"
  shows "list_all finite64 (map cp_V (cr_ChartPointsA r)) \<and> list_all finite64 (map cp_V (cr_ChartPointsB r))"
  using assms
proof (cases rule: compare_result_cases)
  case no_data
  then show ?thesis
    by (auto simp: no_data_compare_def Let_def empty_compare_def bind_eq_Some_conv split: if_splits)
next
  case judged
  then show ?thesis by (simp add: compare_of_def chart_points_finite)
qed

lemma snapshot_chart_points:
  assumes "metrics_snapshot env q reg inp = Some (ChartResult llm r uri)"
  shows "llm = snapshot_withoutChart r \<and> list_all finite64 (snapshot_floats (snapshot_withoutChart r)) \<and>
    list_all finite64 (map cp_V (sn_ChartPoints r))"
  using assms
proof (cases rule: snapshot_chart_cases)
  case (no_data c d w ls n)
  have "sn_ChartPoints r = []" unfolding no_data(2) by (simp add: no_data_snapshot_def)
  with no_data(3,5) show ?thesis by simp
next
  case (judged c d spec cur rs failure bnote stats note')
  have "sn_ChartPoints r = toChartPoints (mergePoints env (wr_series cur))" unfolding judged(6) by (simp add: snapshot_of_def)
  with judged(7,9) show ?thesis by (simp only: chart_points_finite simp_thms)
qed


subsection \<open>Verdicts and baselines\<close>

lemma reliable_needs_baseline:
  "sf_BaselineReliable (ProcessWithBaselineStats ps b meta step w) \<Longrightarrow> bs_Reliable b"
  by (auto simp: ProcessWithBaselineStats_def Let_def zero_SignalFeatures_def split: if_splits dest: applyBaselineStats_reliable)

lemma Classify_named: "Classify f meta \<noteq> OtherClass s"
proof -
  have step: "x \<noteq> OtherClass s \<Longrightarrow> y \<noteq> OtherClass s \<Longrightarrow> (if P then x else y) \<noteq> OtherClass s" for P x y by simp
  have "classifyCore f m thr d deg \<noteq> OtherClass s" for f m thr d deg
    unfolding classifyCore_def by (intro step) simp_all
  then show ?thesis unfolding Classify_def applyReliabilityDowngrade_def by (intro step) simp_all
qed

definition change_labels :: "string set" where
  "change_labels = class_text ` {c. isDeltaBased c}"

lemma class_text_change: "class_text c \<in> change_labels \<Longrightarrow> isDeltaBased c \<or> (\<exists>s. c = OtherClass s)"
  by (cases c) (auto simp: change_labels_def isDeltaBased_def)

text \<open>No verdict compares with a baseline that is not reliable.\<close>

lemma unreliable_baseline_label:
  assumes "\<not> bs_Reliable b" "f = ProcessWithBaselineStats ps b meta step w"
  shows "label_text class_text (sf_Classification f) \<notin> change_labels"
proof (cases "ps = []")
  case True
  then show ?thesis
    unfolding assms(2) by (auto simp: ProcessWithBaselineStats_def label_text_def change_labels_def isDeltaBased_def)
next
  case False
  then obtain g where "sf_Classification f = Some (Classify g meta)" "sf_BaselineReliable g \<Longrightarrow> bs_Reliable b"
    unfolding assms(2) using process_classification [OF False, of b meta step w] by metis
  with assms(1) show ?thesis
    using class_text_change [of "Classify g meta"] Classify_named [of g meta] Classify_delta_reliable [of g meta]
    by (auto simp: label_text_def)
qed

lemma runQueries_failed:
  assumes "\<And>p. p \<in> set ps \<Longrightarrow> \<exists>e v. query p = Returns (Inl e, v)"
  shows "length (runQueries env b ps query) = length ps \<and> (\<forall>r \<in> set (runQueries env b ps query). wr_err r \<noteq> None)"
proof -
  have "wr_err (window_result (run_task c (query p))) \<noteq> None" if "p \<in> set ps" for c p
    using assms [OF that] by (auto simp: run_task_def split: option.split)
  then show ?thesis by (auto simp: runQueries_def runParallel_def)
qed

lemma collectBaseline_failed:
  assumes "windows \<noteq> []" "length rs = length windows" "\<forall>r \<in> set rs. wr_err r \<noteq> None"
  shows "\<exists>err. collectBaseline env t mode windows rs = Inl err"
proof -
  obtain w ws r rs' where e: "windows = w # ws" "rs = r # rs'" "wr_err r \<noteq> None"
    using assms by (cases windows; cases rs) auto
  have "filter hasPoints rs = []" using assms(3) by (auto simp: filter_empty_conv hasPoints_def)
  moreover have "concat (map window_error (zip windows rs)) \<noteq> []"
    using e by (auto simp: window_error_def split: option.split)
  ultimately show ?thesis by (simp add: collectBaseline_def Let_def)
qed

lemma baseline_windows_nonempty: "baseline_windows b s e \<noteq> []"
  by (cases "bs_mode b") (simp_all add: baseline_windows_def weeklyBaselineWeeks_def)

lemma merged_has_points:
  assumes "mergePoints env ss \<noteq> []" "\<And>ps. mset (te_Points env ps) = mset ps"
  shows "list_ex (\<lambda>s. ts_Points s \<noteq> []) ss"
proof (rule ccontr)
  assume "\<not> list_ex (\<lambda>s. ts_Points s \<noteq> []) ss"
  then have "concat (map ts_Points ss) = []" by (auto simp: list_ex_iff)
  with assms show False by (metis mergePoints_def mset.simps(1) mset_zero_iff sort_points_def sort_less.simps(1))
qed

lemma failed_baselines:
  assumes run: "queryWithBaseline env b c windows query = (cur, rs)" and pts: "hasPoints cur"
    and fails: "\<And>p. \<exists>w \<in> set windows. qp_Start p = bw_start w \<and> qp_End p = bw_end w \<Longrightarrow>
      \<exists>e v. query p = Returns (Inl e, v)"
  shows "length rs = length windows \<and> (\<forall>r \<in> set rs. wr_err r \<noteq> None)"
proof -
  let ?ps = "map (\<lambda>w. c\<lparr>qp_Start := bw_start w, qp_End := bw_end w\<rparr>) windows"
  have "rs = runQueries env (b @ [1]) ?ps query"
    using run pts by (auto simp: queryWithBaseline_def Let_def split: if_splits)
  moreover have "\<exists>e v. query p = Returns (Inl e, v)" if "p \<in> set ?ps" for p
    by (rule fails) (use that in auto)
  ultimately show ?thesis
    using runQueries_failed [of ?ps query env "b @ [1]"] by simp
qed

text \<open>
  C30: A snapshot whose baseline queries all fail says so: its baseline is not reliable, and its label
  is none of those that compare the window with the baseline.
\<close>

theorem failed_baseline_gives_no_verdict:
  assumes "snapshot_input env reg inp = Inr c"
    and "metrics_snapshot env q reg inp = Some (ChartResult llm r uri)"
    and "\<And>p spec. \<exists>w \<in> set (baseline_windows (sc_baseline c) (sc_start c) (sc_now c)). qp_Start p = bw_start w \<and> qp_End p = bw_end w \<Longrightarrow>
      \<exists>e v. mq_QueryTimeSeriesAggregated q p spec = Returns (Inl e, v)"
    and "\<And>ps. mset (te_Points env ps) = mset ps"
  shows "\<not> sn_BaselineReliable r \<and> sn_Classification r \<notin> class_text ` {k. isDeltaBased k}"
  using assms(2)
proof (cases rule: snapshot_chart_cases)
  case (no_data c d w ls n)
  show ?thesis unfolding no_data(2) by (auto simp: no_data_snapshot_def isDeltaBased_def)
next
  case (judged c' d spec cur rs failure bnote stats note')
  have c: "c' = c" using assms(1) judged(1) by simp
  let ?ws = "baseline_windows (sc_baseline c) (sc_start c) (sc_now c)"
  have "hasPoints cur"
    using merged_has_points [OF judged(4) assms(4)] judged(3) by (simp add: hasPoints_def)
  then have "length rs = length ?ws \<and> (\<forall>r \<in> set rs. wr_err r \<noteq> None)"
    using failed_baselines [OF judged(2) [unfolded c]] assms(3) by blast
  then obtain err where "collectBaseline env (si_MetricType (sc_input c)) (bs_mode (sc_baseline c)) ?ws rs = Inl err"
    using collectBaseline_failed baseline_windows_nonempty by metis
  then have "stats = zero_BaselineStats"
    using judged(5) by (simp add: c snapshot_baseline_def Let_def)
  then have "\<not> bs_Reliable stats" by (simp add: zero_BaselineStats_def)
  then show ?thesis
    using unreliable_baseline_label [OF _ refl, of stats] reliable_needs_baseline
    unfolding judged(6) by (auto simp: snapshot_of_def change_labels_def)
qed

lemma ComputeBaselineStats_reliable:
  "bs_Reliable (ComputeBaselineStats ps n) \<Longrightarrow> 7 \<le> length ps \<and> (0 < n \<longrightarrow> n div 2 \<le> int (length ps))"
  by (auto simp: ComputeBaselineStats_def isBaselineReliable_def minBaselinePoints_def extractValues_def Let_def split: if_splits)

lemma lone_label: "label_text class_text (sf_Classification (Process ps [] meta step n w)) \<notin> change_labels"
  unfolding Process_def
  by (rule unreliable_baseline_label [OF _ refl]) (auto dest: ComputeBaselineStats_reliable)

lemma insufficient_label: "class_text ClassInsufficientData \<notin> change_labels"
  by (auto simp: change_labels_def isDeltaBased_def)

lemma with_AB_classification [simp]:
  "cr_ClassificationA (with_A f r) = label_text class_text (sf_Classification f)"
  "cr_ClassificationB (with_A f r) = cr_ClassificationB r" "cr_ClassificationA (with_B f r) = cr_ClassificationA r"
  "cr_ClassificationB (with_B f r) = label_text class_text (sf_Classification f)"
  "cr_NoData (with_A f r) = cr_NoData r" "cr_NoData (with_B f r) = cr_NoData r"
  by (simp_all add: with_A_def with_B_def)

lemma no_data_labels:
  assumes "no_data_compare inp c meta d psA psB n nf = Some r"
  shows "cr_ClassificationA r \<notin> change_labels \<and> cr_ClassificationB r \<notin> change_labels"
  using assms lone_label insufficient_label
  by (auto simp: no_data_compare_def Let_def lone_features_def empty_compare_def bind_eq_Some_conv split: if_splits)


subsection \<open>Failed baseline windows\<close>

lemma joined_is: "e \<in> set es \<Longrightarrow> errors_is e t \<Longrightarrow> errors_is (joined (map Some es)) t"
  by (cases es) (auto simp: joined_def join_errors_def List.map_filter_def comp_def)

lemma window_errors:
  assumes "length rs = length windows"
  shows "concat (map window_error (zip windows rs)) = [] \<longleftrightarrow> (\<forall>r \<in> set rs. wr_err r = None)"
    and "r \<in> set rs \<Longrightarrow> wr_err r = Some e \<Longrightarrow>
      \<exists>x \<in> set (concat (map window_error (zip windows rs))). errors_is x e"
proof -
  show "concat (map window_error (zip windows rs)) = [] \<longleftrightarrow> (\<forall>r \<in> set rs. wr_err r = None)"
    using assms by (induction rs windows rule: list_induct2) (auto simp: window_error_def split: option.split)
  show "r \<in> set rs \<Longrightarrow> wr_err r = Some e \<Longrightarrow>
      \<exists>x \<in> set (concat (map window_error (zip windows rs))). errors_is x e"
    using assms by (induction rs windows rule: list_induct2) (auto simp: window_error_def prefix_error_def)
qed

text \<open>
  C33: The baseline fails exactly when some of its queries failed and none returned points; its error
  wraps the error of every failed query. Otherwise it goes on with what it has.
\<close>

theorem baseline_failure_policy:
  assumes "length rs = length windows"
  shows "case collectBaseline env t mode windows rs of
      Inl err \<Rightarrow> (\<exists>r \<in> set rs. wr_err r \<noteq> None) \<and> (\<forall>r \<in> set rs. \<not> hasPoints r) \<and>
        (\<forall>r \<in> set rs. \<forall>e. wr_err r = Some e \<longrightarrow> errors_is err e)
    | Inr n \<Rightarrow> (\<forall>r \<in> set rs. wr_err r = None) \<or> (\<exists>r \<in> set rs. hasPoints r)"
proof -
  let ?errs = "concat (map window_error (zip windows rs))"
  have "errors_is (prefix_error p (joined (map Some ?errs))) e" if "r \<in> set rs" "wr_err r = Some e" for p r e
    using window_errors(2) [OF assms that] joined_is [of _ ?errs e] by (auto simp: prefix_error_def)
  moreover have "length (filter hasPoints rs) = 0 \<longleftrightarrow> (\<forall>r \<in> set rs. \<not> hasPoints r)"
    by (simp add: filter_empty_conv)
  ultimately show ?thesis
    using window_errors(1) [OF assms] by (auto simp: collectBaseline_def Let_def simp del: set_concat concat_eq_Nil_conv)
qed

end
