(* ===== verification/Tool_Related_Props.thy ===== *)
theory Tool_Related_Props
  imports Tool_Related
begin

text \<open>
  Properties of \<open>metrics_related\<close>: whatever the schedule of its tasks, every related metric ends up once,
  as a signal or as a skip, and the answer is the same.
\<close>

subsection \<open>What the tasks append\<close>

fun event_signals :: "rel_event \<Rightarrow> RelatedSignal list" where
  "event_signals (AddSignal s) = [s]"
| "event_signals e = []"

fun event_skips :: "rel_event \<Rightarrow> SkippedSignal list" where
  "event_skips (AddSkip s) = [s]"
| "event_skips e = []"

fun event_notes :: "rel_event \<Rightarrow> string set" where
  "event_notes (AddWarningNote n) = (if n = [] then {} else {n})"
| "event_notes e = {}"

definition all_events :: "(rel_event \<Rightarrow> 'a list) \<Rightarrow> rel_event list list \<Rightarrow> 'a list" where
  "all_events f ps = concat (map f (concat ps))"

lemma apply_event_signals [simp]: "rs_signals (apply_event e st) = rs_signals st @ event_signals e"
  by (cases e) auto

lemma apply_event_skips [simp]: "rs_skipped (apply_event e st) = rs_skipped st @ event_skips e"
  by (cases e) auto

lemma apply_event_notes [simp]: "set (rs_notes (apply_event e st)) = set (rs_notes st) \<union> event_notes e"
  by (cases e) auto

lemma mset_concat_step:
  assumes "i < length ps" "ps ! i = e # es"
  shows "mset (concat ps) = add_mset e (mset (concat (ps[i := es])))"
proof -
  have "ps = take i ps @ (e # es) # drop (Suc i) ps"
    using assms by (metis id_take_nth_drop)
  moreover have "ps[i := es] = take i ps @ es # drop (Suc i) ps"
    using assms by (simp add: upd_conv_take_nth_drop)
  ultimately show ?thesis
    by (metis append_Cons concat.simps(2) concat_append mset.simps(2) mset_append union_mset_add_mset_right)
qed

lemma mset_concat_map: "mset (concat (map f xs)) = \<Sum>\<^sub># (image_mset (\<lambda>x. mset (f x)) (mset xs))"
  by (induction xs) auto

lemma all_events_step:
  assumes "i < length ps" "ps ! i = e # es"
  shows "mset (all_events f ps) = mset (f e) + mset (all_events f (ps[i := es]))"
  unfolding all_events_def mset_concat_map mset_concat_step [OF assms] by simp

text \<open>Each step moves one append from the tasks into the state.\<close>

lemma run_tasks_moves:
  assumes move: "\<And>e st. mset (g (apply_event e st)) = mset (g st) + mset (f e)"
  shows "run_tasks sched ps st = (ps', st') \<Longrightarrow>
    mset (g st') + mset (all_events f ps') = mset (g st) + mset (all_events f ps)"
proof (induction sched ps st rule: run_tasks.induct)
  case (2 i sched ps st)
  show ?case
  proof (cases "i < length ps \<and> ps ! i \<noteq> []")
    case True
    then obtain e es where e: "i < length ps" "ps ! i = e # es" by (cases "ps ! i") auto
    from 2(2) [OF e] 2(4) e move [of e st] all_events_step [OF e, of f] show ?thesis by simp
  next
    case False
    with 2(1,3,4) show ?thesis by (cases "i < length ps") simp_all
  qed
qed simp

lemmas run_tasks_signals = run_tasks_moves [of rs_signals event_signals, simplified]
lemmas run_tasks_skips = run_tasks_moves [of rs_skipped event_skips, simplified]

lemma run_tasks_notes:
  "run_tasks sched ps st = (ps', st') \<Longrightarrow>
   set (rs_notes st') \<union> \<Union> (event_notes ` set (concat ps')) = set (rs_notes st) \<union> \<Union> (event_notes ` set (concat ps))"
proof (induction sched ps st rule: run_tasks.induct)
  case (2 i sched ps st)
  show ?case
  proof (cases "i < length ps \<and> ps ! i \<noteq> []")
    case True
    then obtain e es where e: "i < length ps" "ps ! i = e # es" by (cases "ps ! i") auto
    have "set (concat ps) = insert e (set (concat (ps[i := es])))"
      using arg_cong [OF mset_concat_step [OF e], of set_mset] by simp
    with 2(2) [OF e] 2(4) e show ?thesis by (simp del: set_concat) blast
  next
    case False
    with 2(1,3,4) show ?thesis by (cases "i < length ps") (simp_all del: set_concat)
  qed
qed simp

lemma run_tasks_length: "length (fst (run_tasks sched ps st)) = length ps"
  by (induction sched ps st rule: run_tasks.induct) (auto split: list.split)

lemma completes_step:
  assumes "completes (i # sched) ps"
  shows "completes sched (if i < length ps then ps[i := tl (ps ! i)] else ps)"
  using assms by (auto simp: completes_def list_all_iff nth_list_update)

lemma completes_ends:
  "completes sched ps \<Longrightarrow> concat (fst (run_tasks sched ps st)) = []"
proof (induction sched ps st rule: run_tasks.induct)
  case (1 ps st)
  then show ?case by (auto simp: completes_def list_all_iff in_set_conv_nth)
next
  case (2 i sched ps st)
  show ?case
  proof (cases "i < length ps")
    case True
    with completes_step [OF 2(4)] have c: "completes sched (ps[i := tl (ps ! i)])" by simp
    show ?thesis
    proof (cases "ps ! i")
      case Nil
      then have "ps[i := tl (ps ! i)] = ps" by (metis list_update_id tl_Nil)
      with 2(1) True Nil c show ?thesis by simp
    qed (use 2(2) True c in simp)
  qed (use 2 completes_step [OF 2(4)] in auto)
qed

lemma completed_state:
  assumes "completes sched ps"
  shows "mset (rs_signals (snd (run_tasks sched ps empty_rel))) = mset (all_events event_signals ps)"
    and "mset (rs_skipped (snd (run_tasks sched ps empty_rel))) = mset (all_events event_skips ps)"
    and "set (rs_notes (snd (run_tasks sched ps empty_rel))) = \<Union> (event_notes ` set (concat ps))"
proof -
  obtain ps' st' where r: "run_tasks sched ps empty_rel = (ps', st')" by fastforce
  with completes_ends [OF assms, of empty_rel] have "concat ps' = []" by simp
  then have "all_events event_signals ps' = []" "all_events event_skips ps' = []" "\<Union> (event_notes ` set (concat ps')) = {}"
    by (simp_all only: all_events_def list.map concat.simps list.set image_empty Union_empty)
  then show "mset (rs_signals (snd (run_tasks sched ps empty_rel))) = mset (all_events event_signals ps)"
    and "mset (rs_skipped (snd (run_tasks sched ps empty_rel))) = mset (all_events event_skips ps)"
    and "set (rs_notes (snd (run_tasks sched ps empty_rel))) = \<Union> (event_notes ` set (concat ps))"
    using run_tasks_signals [OF r] run_tasks_skips [OF r] run_tasks_notes [OF r] r
    by (simp_all only: snd_conv) (simp_all add: empty_rel_def del: set_concat)
qed

subsection \<open>Every metric is accounted for\<close>

definition event_names :: "rel_event \<Rightarrow> string list" where
  "event_names e = map rl_MetricType (event_signals e) @ map sk_MetricType (event_skips e)"

lemma event_names_simps [simp]:
  "event_names (AddSignal s) = [rl_MetricType s]" "event_names (AddSkip k) = [sk_MetricType k]"
  "event_names (AddWarningNote n) = []"
  by (simp_all add: event_names_def)

lemma skip_names [simp]: "sk_MetricType (skipFailure env m e) = m"
  by (simp add: skipFailure_def)

lemma signal_name [simp]: "rl_MetricType (related_signal m meta f n) = m"
  by (simp add: related_signal_def)

definition accounts :: "string \<Rightarrow> rel_event list \<times> go_error option \<Rightarrow> bool" where
  "accounts m t = (concat (map event_names (fst t)) @ (if snd t = None then [] else [m]) = [m])"

lemma judge_related_accounts: "accounts m (judge_related env c m meta cur b)"
  by (simp add: accounts_def judge_related_def Let_def split: option.split)

lemma accounts_note [simp]:
  "accounts m (AddWarningNote n # es, r) = accounts m (es, r)"
  "accounts m (case t of (es, r) \<Rightarrow> (AddWarningNote n # es, r)) = accounts m t"
  by (simp_all add: accounts_def split: prod.split)

lemma accounts_skip [simp]: "accounts m ([AddSkip k], None) = (sk_MetricType k = m)"
  by (simp add: accounts_def)

lemma query_related_accounts: "accounts m (query_related env q c i m meta d)"
  by (simp add: query_related_def Let_def judge_related_accounts split: option.split prod.split)

lemma start_task_accounts: "accounts (snd ir) (start_task env q reg c ir)"
  by (simp add: start_task_def related_task_def Let_def query_related_accounts accounts_def [of _ "([], _)"] split: option.split sum.split)

lemma task_failures_Cons:
  "map sk_MetricType (task_failures env (m # ms) (e # es)) =
   (if e = None then [] else [m]) @ map sk_MetricType (task_failures env ms es)"
  by (cases e) (simp_all add: task_failures_def List.map_filter_simps)

lemma accounted_names:
  "list_all2 accounts related ts \<Longrightarrow>
   mset (concat (map event_names (concat (map fst ts)))) + mset (map sk_MetricType (task_failures env related (map snd ts))) = mset related"
proof (induction related ts rule: list_all2_induct)
  case (Cons m ms t ts)
  have a: "mset (concat (map event_names (fst t))) + mset (if snd t = None then [] else [m]) = {#m#}"
    using Cons(1) unfolding accounts_def by (metis mset.simps(1) mset.simps(2) mset_append)
  have big: "mset (concat (map event_names (concat (map fst (t # ts))))) + mset (map sk_MetricType (task_failures env (m # ms) (map snd (t # ts)))) =
      (mset (concat (map event_names (fst t))) + mset (if snd t = None then [] else [m])) +
      (mset (concat (map event_names (concat (map fst ts)))) + mset (map sk_MetricType (task_failures env ms (map snd ts))))"
    unfolding list.map task_failures_Cons by simp
  show ?case
    using big unfolding a Cons(3) by (simp only: mset.simps(2) union_mset_add_mset_left add_0)
qed (simp add: task_failures_def List.map_filter_simps)

lemma names_split:
  "mset (map rl_MetricType (all_events event_signals ps)) + mset (map sk_MetricType (all_events event_skips ps)) =
   mset (concat (map event_names (concat ps)))"
proof -
  have "mset (map rl_MetricType (concat (map event_signals es))) + mset (map sk_MetricType (concat (map event_skips es))) =
        mset (concat (map event_names es))" for es
    by (induction es) (auto simp: event_names_def)
  then show ?thesis by (simp add: all_events_def)
qed

abbreviation rel_tasks :: "tool_env \<Rightarrow> metrics_querier \<Rightarrow> Registry \<Rightarrow> related_call \<Rightarrow> string list \<Rightarrow> (rel_event list \<times> go_error option) list" where
  "rel_tasks env q reg c related \<equiv> map (start_task env q reg c) (enumerate 0 related)"

lemma rel_tasks_account: "list_all2 accounts related (rel_tasks env q reg c related)"
  using start_task_accounts by (auto simp: list_all2_conv_all_nth nth_enumerate_eq)

lemma related_accounted:
  assumes "completes sched (map fst (map (start_task env q reg c) (enumerate 0 related)))"
  shows "mset (map rl_MetricType (rs_signals (related_state env q reg c sched related))) +
         mset (map sk_MetricType (rs_skipped (related_state env q reg c sched related))) = mset related"
proof -
  let ?ts = "rel_tasks env q reg c related"
  have "mset (map rl_MetricType (rs_signals (related_state env q reg c sched related))) =
        mset (map rl_MetricType (all_events event_signals (map fst ?ts)))"
    using completed_state(1) [OF assms] by (simp add: related_state_def Let_def sort_signals_def)
  moreover have "mset (map sk_MetricType (rs_skipped (related_state env q reg c sched related))) =
        mset (map sk_MetricType (all_events event_skips (map fst ?ts))) +
        mset (map sk_MetricType (task_failures env related (map snd ?ts)))"
    using completed_state(2) [OF assms] by (simp add: related_state_def Let_def)
  ultimately show ?thesis
    using accounted_names [OF rel_tasks_account [of related env q reg c], of env] names_split [of "map fst ?ts"]
    by (simp only: add.assoc [symmetric])
qed

text \<open>
  C34: Whatever the schedule of the parallel tasks, every related metric of the registry entry is
  reported exactly once: as a signal or as a skipped metric.
\<close>

theorem related_metrics_accounted:
  assumes "completes sched (map fst (map (start_task env q reg c) (enumerate 0 related)))"
  shows "mset (map rl_MetricType (rs_signals (related_state env q reg c sched related))) +
         mset (map sk_MetricType (rs_skipped (related_state env q reg c sched related))) = mset related"
  by (rule related_accounted [OF assms])

subsection \<open>The schedule does not matter\<close>

interpretation signal_order: strict_weak_order "\<lambda>a b. rl_MetricType a < rl_MetricType b"
  by unfold_locales auto

lemma distinct_sub_mset:
  assumes "mset ys \<subseteq># mset xs" "distinct xs"
  shows "distinct ys"
proof -
  obtain zs where "mset xs = mset (ys @ zs)"
    using assms(1) by (metis ex_mset mset_append mset_subset_eq_exists_conv)
  with assms(2) show ?thesis by (metis distinct_append mset_eq_imp_distinct_iff)
qed

lemma sort_signals_unique:
  assumes "mset xs = mset ys" "distinct (map rl_MetricType xs)"
  shows "sort_signals xs = sort_signals ys"
  unfolding sort_signals_def
proof (rule sorted_wrt_unique [OF signal_order.sorted_sort_less signal_order.sorted_sort_less])
  fix a b
  assume "a \<in> set (sort_less (\<lambda>a b. rl_MetricType a < rl_MetricType b) xs)"
    "b \<in> set (sort_less (\<lambda>a b. rl_MetricType a < rl_MetricType b) xs)"
    "\<not> rl_MetricType b < rl_MetricType a" "\<not> rl_MetricType a < rl_MetricType b"
  with assms(2) show "a = b" by (auto simp: distinct_map dest: inj_onD)
qed (use assms in simp)

lemma failureSummary_empty: "fst (failureSummary ks) = [] \<longleftrightarrow> (\<forall>k \<in> set ks. sk_cause k = skipBenign)"
proof -
  have "set (add_new acc xs) = set acc \<union> set xs" for acc xs
    by (induction acc xs rule: add_new.induct) auto
  then have "add_new [] xs = [] \<longleftrightarrow> xs = []" for xs
    by (metis set_empty sup_bot_left)
  then show ?thesis by (auto simp: failureSummary_def Let_def filter_empty_conv)
qed

lemma related_state_agrees:
  fixes env q reg c related
  defines "P \<equiv> map fst (map (start_task env q reg c) (enumerate 0 related))"
  defines "S \<equiv> \<lambda>sched. related_state env q reg c sched related"
  assumes "completes s P" "completes s' P" "distinct related"
  shows "rs_signals (S s) = rs_signals (S s')"
    and "mset (rs_skipped (S s)) = mset (rs_skipped (S s'))"
    and "set (rs_notes (S s)) = set (rs_notes (S s'))"
proof -
  let ?run = "\<lambda>s. snd (run_tasks s P empty_rel)"
  have S: "S s = (?run s)\<lparr>rs_signals := sort_signals (rs_signals (?run s)),
      rs_skipped := rs_skipped (?run s) @ task_failures env related (map snd (rel_tasks env q reg c related))\<rparr>" for s
    by (simp add: S_def related_state_def P_def Let_def)
  have "mset (map rl_MetricType (rs_signals (S s))) \<subseteq># mset related"
    using related_accounted [OF assms(3) [unfolded P_def]] unfolding S_def
    by (metis mset_subset_eq_add_left)
  then have "mset (map rl_MetricType (rs_signals (?run s))) \<subseteq># mset related"
    unfolding S by (simp add: sort_signals_def)
  then have "distinct (map rl_MetricType (rs_signals (?run s)))"
    using \<open>distinct related\<close> by (rule distinct_sub_mset)
  then show "rs_signals (S s) = rs_signals (S s')"
    using completed_state(1) [OF assms(3)] completed_state(1) [OF assms(4)]
    unfolding S by (simp, intro sort_signals_unique) simp_all
  show "mset (rs_skipped (S s)) = mset (rs_skipped (S s'))"
    using completed_state(2) [OF assms(3)] completed_state(2) [OF assms(4)] unfolding S by simp
  show "set (rs_notes (S s)) = set (rs_notes (S s'))"
    using completed_state(3) [OF assms(3)] completed_state(3) [OF assms(4)] unfolding S by (simp del: set_concat)
qed

text \<open>
  The answer of metrics_related does not depend on the order in which its parallel tasks run: any
  two complete schedules both fail, or both give the same signals in the same order, the same skipped
  metrics up to order, and the same partial flag.
\<close>

theorem related_schedule_irrelevant:
  assumes "completes s (map fst (map (start_task env q reg c) (enumerate 0 related)))"
    and "completes s' (map fst (map (start_task env q reg c) (enumerate 0 related)))"
    and "distinct related"
  shows "case (related_reply env (related_state env q reg c s related), related_reply env (related_state env q reg c s' related)) of
      (Structured r, Structured r') \<Rightarrow> rr_RelatedSignals r = rr_RelatedSignals r' \<and>
        mset (rr_Skipped r) = mset (rr_Skipped r') \<and> rr_Partial r = rr_Partial r'
    | (ErrorResult m, ErrorResult m') \<Rightarrow> True
    | _ \<Rightarrow> False"
proof -
  note agree = related_state_agrees [OF assms]
  let ?S = "related_state env q reg c s related" and ?S' = "related_state env q reg c s' related"
  have f: "fst (failureSummary (rs_skipped ?S)) = [] \<longleftrightarrow> fst (failureSummary (rs_skipped ?S')) = []"
    unfolding failureSummary_empty using agree(2) by (metis set_mset_mset)
  have n: "rs_notes ?S = [] \<longleftrightarrow> rs_notes ?S' = []"
    using agree(3) by (metis set_empty)
  show ?thesis
    using agree(1,2) f n
    by (cases "failureSummary (rs_skipped ?S)"; cases "failureSummary (rs_skipped ?S')"; cases "te_CtxErr env []"; cases "rs_signals ?S'")
      (auto simp: related_reply_def related_structured_def gcpErrorResult_def gcpErrorsResult_def Let_def)
qed

subsection \<open>An example\<close>

text \<open>Two related metrics; the backend knows neither. The second task runs first.\<close>

definition ex_tool_env :: tool_env where
  "ex_tool_env = \<lparr>te_Now = 0, te_Status = (\<lambda>e. None), te_CtxErr = (\<lambda>p. None), te_Project = \<lparr>pp_pinned = ''project-1''\<rparr>,
     te_Points = (\<lambda>ps. ps)\<rparr>"

definition ex_no_metrics :: metrics_querier where
  "ex_no_metrics = \<lparr>mq_ListMetricDescriptors = (\<lambda>p f n. Inr []), mq_GetMetricDescriptor = (\<lambda>p t. Inl (Sentinel t)),
     mq_QueryTimeSeries = (\<lambda>p. Panics []), mq_QueryTimeSeriesAggregated = (\<lambda>p s. Panics []),
     mq_GetResourceLabels = (\<lambda>p r. Inr None)\<rparr>"

definition ex_related_call :: related_call where
  "ex_related_call = \<lparr>rc_project = ''project-1'', rc_filter = [], rc_start = - hour, rc_now = 0, rc_windowDur = hour\<rparr>"

lemma ex_related_tasks:
  "completes [1, 0] (map fst (map (start_task ex_tool_env ex_no_metrics (newRegistry []) ex_related_call) (enumerate 0 [''a'', ''b''])))"
  "completes [0, 1] (map fst (map (start_task ex_tool_env ex_no_metrics (newRegistry []) ex_related_call) (enumerate 0 [''a'', ''b''])))"
  by (simp_all add: completes_def start_task_def related_task_def ex_tool_env_def ex_no_metrics_def nth_Cons')

theorem related_metrics_accounted_witness:
  "mset (map rl_MetricType (rs_signals (related_state ex_tool_env ex_no_metrics (newRegistry []) ex_related_call [1, 0] [''a'', ''b'']))) +
   mset (map sk_MetricType (rs_skipped (related_state ex_tool_env ex_no_metrics (newRegistry []) ex_related_call [1, 0] [''a'', ''b'']))) =
   mset [''a'', ''b'']"
  by (rule related_metrics_accounted [OF ex_related_tasks(1)])

theorem related_schedule_irrelevant_witness:
  "case (related_reply ex_tool_env (related_state ex_tool_env ex_no_metrics (newRegistry []) ex_related_call [1, 0] [''a'', ''b'']),
         related_reply ex_tool_env (related_state ex_tool_env ex_no_metrics (newRegistry []) ex_related_call [0, 1] [''a'', ''b''])) of
      (Structured r, Structured r') \<Rightarrow> rr_RelatedSignals r = rr_RelatedSignals r' \<and>
        mset (rr_Skipped r) = mset (rr_Skipped r') \<and> rr_Partial r = rr_Partial r'
    | (ErrorResult m, ErrorResult m') \<Rightarrow> True
    | _ \<Rightarrow> False"
  by (rule related_schedule_irrelevant [OF ex_related_tasks]) simp

end
