(* ===== verification/Tool_Metrics_Examples.thy ===== *)
theory Tool_Metrics_Examples
  imports Tool_Metrics_Props Tool_Related_Props
begin

text \<open>
  One deployment in which the metric tools answer: a metric with one point in the current window and a
  backend that refuses the query of the baseline window. The properties of the metric tools are applied to it.
\<close>

definition ex_point :: Point where "ex_point = \<lparr>pt_Timestamp = - minute, pt_Value = Fin 1\<rparr>"

definition ex_series :: MetricTimeSeries where
  "ex_series = \<lparr>ts_MetricLabels = [], ts_ResourceLabels = [], ts_MetadataSystemLabels = [], ts_MetadataUserLabels = [],
     ts_MetricKind = MetricKindGauge, ts_ValueType = ''DOUBLE'', ts_Points = [ex_point]\<rparr>"

definition ex_backend :: metrics_querier where
  "ex_backend = \<lparr>mq_ListMetricDescriptors = (\<lambda>p f n. Inr []),
     mq_GetMetricDescriptor = (\<lambda>p t. Inr \<lparr>mb_Kind = MetricKindGauge, mb_ValueType = ''DOUBLE'', mb_Labels = [], mb_MonitoredResourceTypes = []\<rparr>),
     mq_QueryTimeSeries = (\<lambda>p. Panics []),
     mq_QueryTimeSeriesAggregated = (\<lambda>p s. if qp_End p = - hour then Returns (Inl (Sentinel ''unavailable''), no_warnings)
        else Returns (Inr [ex_series], no_warnings)),
     mq_GetResourceLabels = (\<lambda>p r. Inr None)\<rparr>"

definition ex_meta :: MetricMeta where "ex_meta = detected KindUnknown [] DirectionNone"
definition ex_metrics :: Registry where "ex_metrics = newRegistry [(''m'', ex_meta)]"

lemma ex_lookup: "Lookup ex_metrics ''m'' = ex_meta"
  by (simp add: Lookup_def ex_metrics_def newRegistry_def)

lemma ex_basic: "basic_features [Fin 1] ex_meta = zero_SignalFeatures\<lparr>sf_Current := Fin 1, sf_Mean := Fin 1, sf_Stddev := Fin 0, sf_CV := Fin 0,
   sf_Min := Fin 1, sf_Max := Fin 1, sf_P50 := Fin 1, sf_P95 := Fin 1, sf_P99 := Fin 1, sf_TailRatio := Fin 0\<rparr>"
proof -
  have "sort_values [Fin 1] = [Fin 1]" by (simp add: sort_values_def)
  moreover have "mean [Fin 1] = Fin 1" by (simp add: float_eval)
  ultimately show ?thesis
    by (simp add: basic_features_def Let_def stddev_def near_zero fmax_def is_nan_def fzero_def round64_grid percentile_def ex_meta_def detected_def zero_MetricMeta_def)
qed

lemma ex_features:
  "ProcessWithBaselineStats [ex_point] b ex_meta step w =
   (let f = applyBaselineStats (basic_features [Fin 1] ex_meta) b;
        f = f\<lparr>sf_Trend := Some TrendFlat, sf_DataQuality := computeDataQuality [ex_point] step w\<rparr>;
        f = f\<lparr>sf_Confidence := Some (deriveConfidence f)\<rparr>
    in f\<lparr>sf_Classification := Some (Classify f ex_meta)\<rparr>)"
proof -
  have "sort_points [ex_point] = [ex_point]" "extractValues [ex_point] = [Fin 1]"
    by (simp_all add: sort_points_def extractValues_def ex_point_def)
  then show ?thesis
  by (simp add: ProcessWithBaselineStats_def Let_def computeTrend_def computeStepChange_def
    computeSpikes_def minPointsForSpikeDetection_def computeSLOBreach_def computeSaturation_def ex_meta_def detected_def zero_MetricMeta_def)
qed

lemma ex_no_baseline:
  "applyBaselineStats (basic_features [Fin 1] ex_meta) zero_BaselineStats = basic_features [Fin 1] ex_meta"
  by (simp add: applyBaselineStats_def zero_BaselineStats_def ex_basic zero_SignalFeatures_def)

definition ex_snapshot_input :: MetricsSnapshotInput where
  "ex_snapshot_input = \<lparr>si_ProjectID = [], si_MetricType = ''m'', si_Filter = [], si_Window = ''1h'', si_BaselineMode = ''prev_window'',
     si_EventTime = [], si_StepSeconds = 60\<rparr>"

definition ex_call :: snapshot_call where
  "ex_call = \<lparr>sc_project = ''project-1'', sc_input = ex_snapshot_input, sc_step = 60, sc_window = (''1h'', hour),
     sc_baseline = \<lparr>bs_mode = PrevWindow, bs_eventTime = time_zero\<rparr>, sc_meta = ex_meta, sc_now = 0\<rparr>"

lemma ex_snapshot_call: "snapshot_input ex_tool_env ex_metrics ex_snapshot_input = Inr ex_call"
  by (simp add: snapshot_input_def ex_tool_env_def Resolve_def Pinned_def ex_snapshot_input_def ex_call_def parseWindow_def metricWindows_def
    parseBaseline_def baselineModes_def ex_lookup Let_def)

lemma ex_windows: "baseline_windows (sc_baseline ex_call) (sc_start ex_call) (sc_now ex_call) =
  [\<lparr>bw_start = - 2 * hour, bw_end = - hour, bw_label = ''baseline (prev_window)''\<rparr>]"
  by (simp add: baseline_windows_def ex_call_def sc_start_def sub_time_def hour_def minute_def second_def)

lemma ex_spec: "resolveValidAggSpec ''m'' ex_meta = Inr (ResolveAggregation ex_meta)"
  by (simp add: resolveValidAggSpec_def ResolveAggregation_def aggregation_Validate_def ex_meta_def detected_def zero_MetricMeta_def
    aggregation_errors_def single_stage_def join_errors_def no_reducer_def)

lemma ex_floats: "finite64 (Fin 1)" "finite64 fzero" by (simp_all add: fzero_def)

lemma ex_snapshot_query: "queryWithBaseline ex_tool_env [] (snapshot_params ex_call d) [\<lparr>bw_start = - 2 * hour, bw_end = - hour, bw_label = l\<rparr>]
      (\<lambda>p. mq_QueryTimeSeriesAggregated ex_backend p spec) =
    (\<lparr>wr_series = [ex_series], wr_warnings = no_warnings, wr_err = None\<rparr>,
     [\<lparr>wr_series = [], wr_warnings = no_warnings, wr_err = Some (Sentinel ''unavailable'')\<rparr>])"
  by (simp add: queryWithBaseline_def runQueries_def runParallel_def run_task_def ex_tool_env_def ex_backend_def snapshot_params_def ex_call_def
    hasPoints_def ex_series_def hour_def minute_def second_def)

definition ex_failure :: string where
  "ex_failure = fst (the (snapshot_baseline ex_tool_env ex_call [\<lparr>bw_start = - 2 * hour, bw_end = - hour, bw_label = ''baseline (prev_window)''\<rparr>] 
     [\<lparr>wr_series = [], wr_warnings = no_warnings, wr_err = Some (Sentinel ''unavailable'')\<rparr>]))"

lemma ex_stats: "snapshot_baseline ex_tool_env ex_call [\<lparr>bw_start = - 2 * hour, bw_end = - hour, bw_label = ''baseline (prev_window)''\<rparr>] 
     [\<lparr>wr_series = [], wr_warnings = no_warnings, wr_err = Some (Sentinel ''unavailable'')\<rparr>] = Some (ex_failure, [], zero_BaselineStats)"
  by (simp add: ex_failure_def snapshot_baseline_def Let_def collectBaseline_def window_error_def hasPoints_def)

lemma ex_merged: "mergePoints ex_tool_env [ex_series] = [ex_point]"
  by (simp add: mergePoints_def ex_tool_env_def ex_series_def sort_points_def)

lemma ex_snapshot: "\<exists>llm r uri. metrics_snapshot ex_tool_env ex_backend ex_metrics ex_snapshot_input = Some (ChartResult llm r uri)"
proof -
  let ?f = "ProcessWithBaselineStats [ex_point] zero_BaselineStats ex_meta 60 \<lparr>w_Start = sc_start ex_call, w_End = sc_now ex_call\<rparr>"
  have f: "list_all finite64 (snapshot_floats (snapshot_withoutChart (snapshot_of ex_call [ex_point] ?f n w ls)))" for n w ls
    unfolding ex_features ex_no_baseline ex_basic
    by (simp add: snapshot_floats_def snapshot_withoutChart_def snapshot_of_def Let_def ex_call_def ex_meta_def detected_def zero_MetricMeta_def
      zero_SignalFeatures_def fzero_def option_list_def percentile_floats_def applyBaselineStats_def zero_BaselineStats_def)
  have c: "sc_project ex_call = ''project-1''" "sc_meta ex_call = ex_meta" "si_MetricType ex_snapshot_input = ''m''" "sc_step ex_call = 60"
    by (simp_all add: ex_call_def ex_snapshot_input_def)
  have "\<exists>d. lookupMetricDescriptor ex_tool_env ex_backend ''project-1'' ''m'' = (Inr d :: MetricSnapshotResult reply + _)"
    by (simp add: lookupMetricDescriptor_def ex_backend_def)
  then obtain d where d: "lookupMetricDescriptor ex_tool_env ex_backend ''project-1'' ''m'' = (Inr d :: MetricSnapshotResult reply + _)" by blast
  show ?thesis
    unfolding metrics_snapshot_def ex_snapshot_call sum.case c d ex_spec ex_windows Let_def ex_snapshot_query [of d] prod.case
      snapshot_result_def windowResult.select_convs option.case ex_merged ex_stats list.distinct if_False option.map snapshot_reply_def
    using f by (simp add: chart_result)
qed

theorem failed_baseline_gives_no_verdict_witness:
  "\<exists>llm r uri. metrics_snapshot ex_tool_env ex_backend ex_metrics ex_snapshot_input = Some (ChartResult llm r uri) \<and>
     \<not> sn_BaselineReliable r \<and> sn_Classification r \<notin> class_text ` {k. isDeltaBased k}"
proof -
  obtain llm r uri where r: "metrics_snapshot ex_tool_env ex_backend ex_metrics ex_snapshot_input = Some (ChartResult llm r uri)"
    using ex_snapshot by blast
  have "\<not> sn_BaselineReliable r \<and> sn_Classification r \<notin> class_text ` {k. isDeltaBased k}"
    by (rule failed_baseline_gives_no_verdict [OF ex_snapshot_call r]) (auto simp: ex_windows ex_backend_def ex_tool_env_def)
  with r show ?thesis by blast
qed

definition ex_compare_input :: MetricsCompareInput where
  "ex_compare_input = \<lparr>mi_ProjectID = [], mi_MetricType = ''m'', mi_Filter = [],
     mi_WindowAFrom = ''1970-01-01T00:00:00Z'', mi_WindowATo = ''1970-01-01T01:00:00Z'',
     mi_WindowBFrom = ''1970-01-01T01:00:00Z'', mi_WindowBTo = ''1970-01-01T02:00:00Z'', mi_WindowALabel = [], mi_WindowBLabel = []\<rparr>"

definition ex_window :: "string \<Rightarrow> int \<Rightarrow> compare_window" where
  "ex_window l n = \<lparr>cw_label = l, cw_from = utc (n * hour), cw_to = utc ((n + 1) * hour)\<rparr>"

lemma ex_times:
  "time_Parse ''1970-01-01T00:00:00Z'' = Some (utc 0)" "time_Parse ''1970-01-01T01:00:00Z'' = Some (utc hour)"
  "time_Parse ''1970-01-01T02:00:00Z'' = Some (utc (2 * hour))"
  by (simp_all add: time_Parse_def number_def is_digit10_def byte_of_def skip_def getnum_in_def getnum_def digit_val_def get_fraction_def get_zone_def
    days_in_def days_from_civil_def utc_def hour_def minute_def second_def)

lemma ex_compare_call: "compare_input ex_tool_env ex_compare_input =
  Inr \<lparr>cc_project = ''project-1'', cc_A = ex_window ''window_a'' 0, cc_B = ex_window ''window_b'' 1\<rparr>"
  by (simp add: compare_input_def ex_tool_env_def Resolve_def Pinned_def ex_compare_input_def parse_window_pair_def parseRFC3339Opt_def ex_times
    window_order_error_def default_label_def ex_window_def utc_def hour_def minute_def second_def)


lemma ex_compare: "\<exists>llm r uri. metrics_compare ex_tool_env ex_backend ex_metrics ex_compare_input = Some (ChartResult llm r uri)"
proof -
  let ?c = "\<lparr>cc_project = ''project-1'', cc_A = ex_window ''window_a'' 0, cc_B = ex_window ''window_b'' 1\<rparr>"
  obtain d where d: "lookupMetricDescriptor ex_tool_env ex_backend ''project-1'' ''m'' = (Inr d :: CompareResult reply + _)"
    by (simp add: lookupMetricDescriptor_def ex_backend_def)
  have m: "Lookup ex_metrics ''m'' = ex_meta" "mi_MetricType ex_compare_input = ''m''"
    by (simp_all add: ex_lookup ex_compare_input_def)
  have q: "runQueries ex_tool_env [0] (map (compare_params ex_compare_input ''project-1'' d) [ex_window ''window_a'' 0, ex_window ''window_b'' 1])
      (\<lambda>p. mq_QueryTimeSeriesAggregated ex_backend p s) =
      [\<lparr>wr_series = [ex_series], wr_warnings = no_warnings, wr_err = None\<rparr>, \<lparr>wr_series = [ex_series], wr_warnings = no_warnings, wr_err = None\<rparr>]" for s
    by (simp add: runQueries_def runParallel_def run_task_def ex_tool_env_def ex_backend_def compare_params_def ex_window_def utc_def
      hour_def minute_def second_def)
  obtain n where n: "window_expected (ex_window ''window_a'' 0) = Some n"
    by (simp add: window_expected_def expectedPointsForWindow_def ex_window_def utc_def DefaultStepSeconds_def second_def wrap64_def Let_def)
  have base: "ComputeBaselineStats [ex_point] n = \<lparr>bs_Mean = Fin 1, bs_Stddev = Fin 0, bs_PointCount = 1, bs_Reliable = False\<rparr>"
    "ComputeBaselineStats [] 0 = zero_BaselineStats"
    by (simp_all add: ComputeBaselineStats_def extractValues_def ex_point_def float_eval Let_def isBaselineReliable_def minBaselinePoints_def zero_BaselineStats_def)
  let ?fs = "compare_features ex_meta ?c [ex_point] [ex_point] n"
  have f: "list_all finite64 (compare_floats (compare_withoutChart (compare_of ex_compare_input ?c ex_meta (fst ?fs) (snd ?fs) [ex_point] [ex_point] nt nf)))" for nt nf
    unfolding compare_features_def Process_def base ex_features ex_basic fst_conv snd_conv
    by (simp add: compare_floats_def compare_withoutChart_def compare_of_def with_A_def with_B_def empty_compare_def Let_def
      zero_SignalFeatures_def fzero_def applyBaselineStats_def zero_BaselineStats_def delta_pct_def near_zero fsub_def round64_grid)
  obtain fA fB where fs: "?fs = (fA, fB)" by fastforce
  show ?thesis
    unfolding metrics_compare_def ex_compare_call sum.case compare_call.select_convs m d ex_spec Let_def q
    using f by (simp add: compare_result_def ex_merged n compare_reply_def chart_result fs Let_def)
qed



text \<open>The same data of the project with other data elsewhere.\<close>

definition ex_other_backend :: metrics_querier where
  "ex_other_backend = ex_backend\<lparr>mq_GetResourceLabels := (\<lambda>p r. if p = ''project-1'' then Inr None else Inr (Some [r])),
     mq_GetMetricDescriptor := (\<lambda>p t. if p = ''project-1'' then mq_GetMetricDescriptor ex_backend p t else Inl (Sentinel ''none''))\<rparr>"

theorem metric_tools_stay_in_project_witness:
  "metrics_snapshot ex_tool_env ex_backend ex_metrics ex_snapshot_input =
     metrics_snapshot ex_tool_env ex_other_backend ex_metrics ex_snapshot_input \<and>
   metrics_compare ex_tool_env ex_backend ex_metrics ex_compare_input =
     metrics_compare ex_tool_env ex_other_backend ex_metrics ex_compare_input"
proof -
  have "NewProjectPolicy ''project-1'' = Inr (te_Project ex_tool_env)"
    by (simp add: NewProjectPolicy_def ex_tool_env_def projectIDPattern_def lower_letter_def is_digit10_def byte_of_def)
  moreover have "agree_on ''project-1'' ex_backend ex_other_backend"
    by (simp add: agree_on_def ex_backend_def ex_other_backend_def)
  ultimately show ?thesis
    using metric_tools_stay_in_project [of "''project-1''" ex_tool_env ex_backend ex_other_backend ex_metrics ex_snapshot_input _ undefined ex_compare_input undefined undefined undefined]
    by simp
qed

theorem baseline_failure_policy_witness:
  "case collectBaseline ex_tool_env ''m'' PrevWindow [\<lparr>bw_start = - hour, bw_end = 0, bw_label = ''baseline''\<rparr>]
       [\<lparr>wr_series = [], wr_warnings = no_warnings, wr_err = Some (Sentinel ''unavailable'')\<rparr>] of
     Inl err \<Rightarrow> errors_is err (Sentinel ''unavailable'') | Inr n \<Rightarrow> False"
  using baseline_failure_policy [of "[\<lparr>wr_series = [], wr_warnings = no_warnings, wr_err = Some (Sentinel ''unavailable'')\<rparr>]"
      "[\<lparr>bw_start = - hour, bw_end = 0, bw_label = ''baseline''\<rparr>]" ex_tool_env "''m''" PrevWindow]
  by (simp add: hasPoints_def split: sum.splits)

end
