(* ===== verification/Server_Limits.thy ===== *)
theory Server_Limits
  imports Tool_Common Go_Time
begin

text \<open>
  The limits on tool calls (\<open>toolLimitsMiddleware\<close> in \<open>internal/server/server.go\<close>) and the table of
  tools they rest on (\<open>toolSpecs\<close> in \<open>variants.go\<close>): slots are buffered channels, one per server
  instance and one of the process for the tools that scan profiles; results must encode within a budget.
  A channel is its number of elements; the concurrent calls, each at one point of the middleware, are
  the steps of a transition system. The encoding of a value is the list of chunks that the encoder
  writes, a parameter.
\<close>

subsection \<open>The table of tools\<close>

record toolSpec =
  tl_name :: string
  tl_core :: bool
  tl_profileScan :: bool

definition plain_tool :: "string \<Rightarrow> toolSpec" where
  "plain_tool name = \<lparr>tl_name = name, tl_core = False, tl_profileScan = False\<rparr>"

definition core_tool :: "string \<Rightarrow> toolSpec" where
  "core_tool name = (plain_tool name)\<lparr>tl_core := True\<rparr>"

definition scan_tool :: "string \<Rightarrow> toolSpec" where
  "scan_tool name = (plain_tool name)\<lparr>tl_profileScan := True\<rparr>"

definition toolSpecs :: "toolSpec list" where
  "toolSpecs =
     [plain_tool ''logs_query'', plain_tool ''logs_by_trace'', plain_tool ''logs_by_request_id'',
      plain_tool ''logs_find_requests'', plain_tool ''logs_k8s'', core_tool ''logs_services'', core_tool ''logs_summary'',
      core_tool ''errors_list'', core_tool ''errors_get'', plain_tool ''errors_trends'',
      core_tool ''trace_get'', core_tool ''trace_list'', plain_tool ''trace_find_from_logs'',
      plain_tool ''metrics_list'', core_tool ''metrics_snapshot'', core_tool ''metrics_top_contributors'',
      plain_tool ''metrics_related'', plain_tool ''metrics_compare'',
      (scan_tool ''profiler_list'')\<lparr>tl_core := True\<rparr>, (scan_tool ''profiler_top'')\<lparr>tl_core := True\<rparr>,
      scan_tool ''profiler_peek'', scan_tool ''profiler_flamegraph'', scan_tool ''profiler_compare'',
      scan_tool ''profiler_trends'']"

definition coreToolNames :: "string list" where
  "coreToolNames = map tl_name (filter tl_core toolSpecs)"

definition profileScanTools :: "string \<Rightarrow> bool" where
  "profileScanTools tool = list_ex (\<lambda>t. tl_profileScan t \<and> tl_name t = tool) toolSpecs"

subsection \<open>Channels as slots\<close>

definition slot_send :: "nat \<Rightarrow> nat \<Rightarrow> nat option" where
  "slot_send capacity n = (if n < capacity then Some (n + 1) else None)"

definition slot_receive :: "nat \<Rightarrow> nat option" where
  "slot_receive n = (if 0 < n then Some (n - 1) else None)"

definition userCallSlots :: nat where "userCallSlots = 4"
definition profilerSlots :: nat where "profilerSlots = 2"
definition ProfilerScanTimeout :: duration where "ProfilerScanTimeout = 8 * minute"

text \<open>\<open>Duration.Round\<close> to milliseconds: half away from zero.\<close>

definition round_ms :: "duration \<Rightarrow> duration" where
  "round_ms d =
     (let r = d mod 1000000 in if r + r < 1000000 then d - r else d + (1000000 - r))"

text \<open>The error of a call that never got a slot.\<close>

definition slot_error :: "string \<Rightarrow> string \<Rightarrow> nat \<Rightarrow> duration \<Rightarrow> go_error \<Rightarrow> go_error" where
  "slot_error kind tool capacity waited err =
     prefix_error (''tool '' @ tool @ '' never got a '' @ kind @ '' slot (limit '' @ itoa (int capacity) @
       '') after waiting '' @ duration_String (round_ms waited) @ '': '') err"

subsection \<open>The size of a result\<close>

datatype 'c content = TextContent string | OtherContent 'c

text \<open>A \<open>CallToolResult\<close> with its other fields, and any other result.\<close>

record ('c, 'v, 'x) tool_result =
  tr_Content :: "'c content list"
  tr_Structured :: "'v option"
  tr_IsError :: bool
  tr_Rest :: 'x

datatype ('c, 'v, 'x, 'o) mcp_result = CallToolResult "('c, 'v, 'x) tool_result" | OtherResult 'o

record ('c, 'v, 'x, 'o) encoder =
  ec_Result :: "('c, 'v, 'x, 'o) mcp_result \<Rightarrow> go_error + string list"
  ec_Value :: "'v \<Rightarrow> go_error + string list"
  ec_Empty :: 'x

definition maxEncodedToolResultBytes :: int where "maxEncodedToolResultBytes = 2 * 2 ^ 20"
definition structuredResultContentNotice :: string where
  "structuredResultContentNotice = ''The complete result is available in structuredContent.''"

text \<open>The chunks that the encoder writes end with a newline.\<close>

definition countingWriter :: "int \<Rightarrow> string list \<Rightarrow> int" where
  "countingWriter n chunks = foldl (\<lambda>n p. n + int (length p)) n chunks"

definition encodedSize :: "go_error + string list \<Rightarrow> go_error + int" where
  "encodedSize e =
     (case e of Inl err \<Rightarrow> Inl (prefix_error ''encoding JSON: '' err) | Inr chunks \<Rightarrow> Inr (countingWriter 0 chunks - 1))"

record compareWriter =
  cw_rest :: string
  cw_newline :: bool

definition compare_Write :: "compareWriter \<Rightarrow> string \<Rightarrow> compareWriter option" where
  "compare_Write w p =
     (let k = min (length p) (length (cw_rest w)); tail = drop k p in
      if take k (cw_rest w) \<noteq> take k p then None
      else if tail = [] then Some (w\<lparr>cw_rest := drop k (cw_rest w)\<rparr>)
      else if cw_newline w \<or> tail \<noteq> [CHR 10] then None
      else Some \<lparr>cw_rest = drop k (cw_rest w), cw_newline = True\<rparr>)"

fun compare_chunks :: "compareWriter \<Rightarrow> string list \<Rightarrow> compareWriter option" where
  "compare_chunks w [] = Some w"
| "compare_chunks w (p # ps) = (case compare_Write w p of None \<Rightarrow> None | Some w' \<Rightarrow> compare_chunks w' ps)"

definition encodesTo :: "go_error + string list \<Rightarrow> string \<Rightarrow> bool" where
  "encodesTo e s =
     (case e of
        Inl err \<Rightarrow> False
      | Inr chunks \<Rightarrow>
          (case compare_chunks \<lparr>cw_rest = s, cw_newline = False\<rparr> chunks of
             None \<Rightarrow> False | Some w \<Rightarrow> cw_rest w = [] \<and> cw_newline w))"

text \<open>The result with the duplicate of its structured content left out, if its content is just that.\<close>

definition compactDuplicatedStructuredContent ::
  "('c, 'v, 'x, 'o) encoder \<Rightarrow> ('c, 'v, 'x, 'o) mcp_result \<Rightarrow> ('c, 'v, 'x, 'o) mcp_result option" where
  "compactDuplicatedStructuredContent ec result =
     (case result of
        OtherResult r \<Rightarrow> None
      | CallToolResult r \<Rightarrow>
          (case (tr_Structured r, tr_Content r) of
             (Some v, [TextContent s]) \<Rightarrow>
               if encodesTo (ec_Value ec v) s
               then Some (CallToolResult (r\<lparr>tr_Content := [TextContent structuredResultContentNotice]\<rparr>)) else None
           | _ \<Rightarrow> None))"

text \<open>What a handler or the middleware ends with: a result and an error, or a panic.\<close>

datatype ('c, 'v, 'x, 'o) call_end =
  Answer "('c, 'v, 'x, 'o) mcp_result option" "go_error option"
| Panicking string

definition error_result :: "('c, 'v, 'x, 'o) encoder \<Rightarrow> string \<Rightarrow> ('c, 'v, 'x, 'o) mcp_result" where
  "error_result ec msg =
     CallToolResult \<lparr>tr_Content = [TextContent msg], tr_Structured = None, tr_IsError = True, tr_Rest = ec_Empty ec\<rparr>"

definition over_budget_text :: "string \<Rightarrow> int \<Rightarrow> string" where
  "over_budget_text tool bytes =
     ''The '' @ tool @ '' result is '' @ itoa bytes @ '' bytes, over the '' @ itoa maxEncodedToolResultBytes @
     ''-byte response budget. Narrow the request: use a shorter time window, a lower limit, or a more specific filter.''"

definition answer_within_budget ::
  "('c, 'v, 'x, 'o) encoder \<Rightarrow> string \<Rightarrow> ('c, 'v, 'x, 'o) mcp_result \<Rightarrow> int \<Rightarrow> ('c, 'v, 'x, 'o) call_end" where
  "answer_within_budget ec tool result bytes =
     (if maxEncodedToolResultBytes < bytes then Answer (Some (error_result ec (over_budget_text tool bytes))) None
      else Answer (Some result) None)"

text \<open>The part of the middleware after the handler.\<close>

fun finish_call ::
  "('c, 'v, 'x, 'o) encoder \<Rightarrow> string \<Rightarrow> ('c, 'v, 'x, 'o) call_end \<Rightarrow> ('c, 'v, 'x, 'o) call_end" where
  "finish_call ec tool (Answer (Some result) None) =
     (case encodedSize (ec_Result ec result) of
        Inl err \<Rightarrow> Answer None (Some (prefix_error ''serialize tool result: '' err))
      | Inr bytes \<Rightarrow>
          (if bytes \<le> maxEncodedToolResultBytes then answer_within_budget ec tool result bytes
           else (case compactDuplicatedStructuredContent ec result of
                   None \<Rightarrow> answer_within_budget ec tool result bytes
                 | Some result' \<Rightarrow>
                     (case encodedSize (ec_Result ec result') of
                        Inl err \<Rightarrow> Answer None (Some (prefix_error ''serialize compacted tool result: '' err))
                      | Inr bytes' \<Rightarrow> answer_within_budget ec tool result' bytes'))))"
| "finish_call ec tool r = r"

text \<open>The middleware that turns a panic of a handler into an error of its method.\<close>

fun panicRecovery :: "string \<Rightarrow> ('c, 'v, 'x, 'o) call_end \<Rightarrow> ('c, 'v, 'x, 'o) call_end" where
  "panicRecovery method (Panicking v) =
     Answer None (Some (Sentinel (''internal server error: panic in handler for '' @ method @ '': '' @ v)))"
| "panicRecovery method r = r"

subsection \<open>Concurrent calls\<close>

text \<open>
  A call of an instance and a tool is at one of these points: it waits for a slot of its instance (since
  when), waits for a slot of the profiler (since when and until when), runs (with the deadline of a
  scan), has ended and gives back its profiler slot, gives back the slot of its instance.
\<close>

datatype 'e call_phase =
  WaitsUser gtime
| WaitsProfiler gtime gtime
| Runs "gtime option"
| LeavesProfiler 'e
| LeavesUser 'e

type_synonym 'e tool_call = "nat \<times> string \<times> 'e call_phase"

text \<open>The channels, the calls, what the ended calls returned, and the clock.\<close>

record 'e limits =
  ls_user :: "nat \<Rightarrow> nat"
  ls_profiler :: nat
  ls_calls :: "'e tool_call multiset"
  ls_ended :: "(string \<times> 'e) list"
  ls_now :: gtime

definition admitted :: "string \<Rightarrow> gtime \<Rightarrow> 'e call_phase" where
  "admitted tool now = (if profileScanTools tool then WaitsProfiler now (now + ProfilerScanTimeout) else Runs None)"

definition slot_refused :: "('c, 'v, 'x, 'o) encoder \<Rightarrow> go_error \<Rightarrow> ('c, 'v, 'x, 'o) call_end" where
  "slot_refused ec err = Answer (Some (error_result ec (err_text err))) None"

text \<open>
  The context of a request may end at any time. While a call waits, both an empty slot and the end of its
  context may be there; then either is taken. The wait for the profiler also ends with the deadline.
\<close>

inductive limit_step ::
  "('c, 'v, 'x, 'o) encoder \<Rightarrow> ('c, 'v, 'x, 'o) call_end limits \<Rightarrow> ('c, 'v, 'x, 'o) call_end limits \<Rightarrow> bool"
  for ec where
  tick: "0 \<le> d \<Longrightarrow> limit_step ec s (s\<lparr>ls_now := ls_now s + d\<rparr>)"
| arrive: "limit_step ec s (s\<lparr>ls_calls := add_mset (i, tool, WaitsUser (ls_now s)) (ls_calls s)\<rparr>)"
| user_slot: "ls_calls s = add_mset (i, tool, WaitsUser t) C \<Longrightarrow> slot_send userCallSlots (ls_user s i) = Some n \<Longrightarrow>
     limit_step ec s (s\<lparr>ls_user := (ls_user s)(i := n), ls_calls := add_mset (i, tool, admitted tool (ls_now s)) C\<rparr>)"
| user_abort: "ls_calls s = add_mset (i, tool, WaitsUser t) C \<Longrightarrow> err \<in> {context_Canceled, context_DeadlineExceeded} \<Longrightarrow>
     limit_step ec s (s\<lparr>ls_calls := C,
       ls_ended := (tool, slot_refused ec (slot_error ''concurrent-call'' tool userCallSlots (ls_now s - t) err)) # ls_ended s\<rparr>)"
| profiler_slot: "ls_calls s = add_mset (i, tool, WaitsProfiler t d) C \<Longrightarrow> slot_send profilerSlots (ls_profiler s) = Some n \<Longrightarrow>
     limit_step ec s (s\<lparr>ls_profiler := n, ls_calls := add_mset (i, tool, Runs (Some d)) C\<rparr>)"
| profiler_abort: "ls_calls s = add_mset (i, tool, WaitsProfiler t d) C \<Longrightarrow>
     err = context_Canceled \<or> err = context_DeadlineExceeded \<Longrightarrow>
     limit_step ec s (s\<lparr>ls_calls := add_mset (i, tool, LeavesUser
         (slot_refused ec (slot_error ''profiler'' tool profilerSlots (ls_now s - t) err))) C\<rparr>)"
| ended: "ls_calls s = add_mset (i, tool, Runs None) C \<Longrightarrow>
     limit_step ec s (s\<lparr>ls_calls := add_mset (i, tool, LeavesUser (finish_call ec tool r)) C\<rparr>)"
| scan_ended: "ls_calls s = add_mset (i, tool, Runs (Some d)) C \<Longrightarrow>
     limit_step ec s (s\<lparr>ls_calls := add_mset (i, tool, LeavesProfiler (finish_call ec tool r)) C\<rparr>)"
| profiler_release: "ls_calls s = add_mset (i, tool, LeavesProfiler e) C \<Longrightarrow> slot_receive (ls_profiler s) = Some n \<Longrightarrow>
     limit_step ec s (s\<lparr>ls_profiler := n, ls_calls := add_mset (i, tool, LeavesUser e) C\<rparr>)"
| user_release: "ls_calls s = add_mset (i, tool, LeavesUser e) C \<Longrightarrow> slot_receive (ls_user s i) = Some n \<Longrightarrow>
     limit_step ec s (s\<lparr>ls_user := (ls_user s)(i := n), ls_calls := C, ls_ended := (tool, e) # ls_ended s\<rparr>)"

definition limits_start :: "gtime \<Rightarrow> 'e limits" where
  "limits_start now = \<lparr>ls_user = (\<lambda>i. 0), ls_profiler = 0, ls_calls = {#}, ls_ended = [], ls_now = now\<rparr>"

definition reachable_limits :: "('c, 'v, 'x, 'o) encoder \<Rightarrow> ('c, 'v, 'x, 'o) call_end limits \<Rightarrow> bool" where
  "reachable_limits ec s = (\<exists>now. (limit_step ec)\<^sup>*\<^sup>* (limits_start now) s)"

subsection \<open>The invariant\<close>

fun holds_user :: "'e call_phase \<Rightarrow> bool" where
  "holds_user (WaitsUser t) = False"
| "holds_user p = True"

fun holds_profiler :: "'e call_phase \<Rightarrow> bool" where
  "holds_profiler (Runs (Some d)) = True"
| "holds_profiler (LeavesProfiler e) = True"
| "holds_profiler p = False"

fun phase_deadline :: "'e call_phase \<Rightarrow> gtime option" where
  "phase_deadline (WaitsProfiler t d) = Some d"
| "phase_deadline (Runs d) = d"
| "phase_deadline p = None"

definition user_holders :: "'e limits \<Rightarrow> nat \<Rightarrow> nat" where
  "user_holders s i = size (filter_mset (\<lambda>c. fst c = i \<and> holds_user (snd (snd c))) (ls_calls s))"

definition profiler_holders :: "'e limits \<Rightarrow> nat" where
  "profiler_holders s = size (filter_mset (\<lambda>c. holds_profiler (snd (snd c))) (ls_calls s))"

definition call_ok :: "gtime \<Rightarrow> 'e tool_call \<Rightarrow> bool" where
  "call_ok now c =
     (case phase_deadline (snd (snd c)) of
        Some d \<Rightarrow> profileScanTools (fst (snd c)) \<and> d \<le> now + ProfilerScanTimeout
      | None \<Rightarrow> (\<forall>d. snd (snd c) = Runs d \<longrightarrow> \<not> profileScanTools (fst (snd c))))"

definition limits_inv :: "'e limits \<Rightarrow> bool" where
  "limits_inv s =
     ((\<forall>i. ls_user s i = user_holders s i) \<and> (\<forall>i. user_holders s i \<le> userCallSlots) \<and>
      ls_profiler s = profiler_holders s \<and> ls_profiler s \<le> profilerSlots \<and> (\<forall>c \<in># ls_calls s. call_ok (ls_now s) c))"

lemma holders_now [simp]:
  "user_holders (s\<lparr>ls_now := x\<rparr>) i = user_holders s i" "profiler_holders (s\<lparr>ls_now := x\<rparr>) = profiler_holders s"
  by (simp_all add: user_holders_def profiler_holders_def)

lemma call_ok_later: "0 \<le> d \<Longrightarrow> call_ok now c \<Longrightarrow> call_ok (now + d) c"
  by (auto simp: call_ok_def split: option.splits)

lemma limit_step_inv: "limit_step ec s s' \<Longrightarrow> limits_inv s \<Longrightarrow> limits_inv s'"
proof (induction rule: limit_step.induct)
  case (tick d s)
  then show ?case
    by (simp add: limits_inv_def call_ok_later)
next
  case (user_release s i tool e C n)
  have "user_holders (s\<lparr>ls_user := (ls_user s)(i := n), ls_calls := C, ls_ended := E\<rparr>) j =
      (if j = i then user_holders s j - 1 else user_holders s j)" for j E
    using user_release(1) by (simp add: user_holders_def)
  with user_release show ?case
    by (auto simp: limits_inv_def profiler_holders_def slot_receive_def split: if_splits) (metis diff_le_self le_trans)
qed (auto simp: limits_inv_def user_holders_def profiler_holders_def call_ok_def admitted_def slot_send_def slot_receive_def
      split: if_splits option.splits)

lemma size_filter_pos: "c \<in># M \<Longrightarrow> P c \<Longrightarrow> 0 < size (filter_mset P M)"
  by (auto dest!: multi_member_split)

lemma limits_start_inv: "limits_inv (limits_start now)"
  by (simp add: limits_inv_def limits_start_def user_holders_def profiler_holders_def)

lemma reachable_limits_inv:
  assumes "reachable_limits ec s"
  shows "limits_inv s"
proof -
  obtain now where "(limit_step ec)\<^sup>*\<^sup>* (limits_start now) s" using assms by (auto simp: reachable_limits_def)
  then show ?thesis by (induction rule: rtranclp_induct) (auto intro: limits_start_inv limit_step_inv)
qed


text \<open>
  C35: However tool calls arrive, wait, run, panic and end, at most four calls of a server instance hold
  its slots and at most two profile scans of the process run; only scanning tools run under a deadline,
  which is at most the scan budget away; and a call that gives back a slot never blocks.
\<close>

theorem tool_calls_bounded:
  assumes "reachable_limits ec s"
  shows "user_holders s i \<le> 4 \<and> profiler_holders s \<le> 2 \<and>
    (\<forall>(j, tool, ph) \<in># ls_calls s. (case ph of
       Runs (Some d) \<Rightarrow> profileScanTools tool \<and> d \<le> ls_now s + ProfilerScanTimeout
     | Runs None \<Rightarrow> \<not> profileScanTools tool
     | LeavesProfiler e \<Rightarrow> slot_receive (ls_profiler s) \<noteq> None
     | LeavesUser e \<Rightarrow> slot_receive (ls_user s j) \<noteq> None
     | _ \<Rightarrow> True))"
proof -
  have inv: "limits_inv s" using assms by (rule reachable_limits_inv)
  have "0 < ls_user s j" if "(j, tool, LeavesUser e) \<in># ls_calls s" for j tool e
    using inv that by (auto simp: limits_inv_def user_holders_def intro!: size_filter_pos)
  moreover have "0 < ls_profiler s" if "(j, tool, LeavesProfiler e) \<in># ls_calls s" for j tool e
    using inv that by (auto simp: limits_inv_def profiler_holders_def intro!: size_filter_pos)
  moreover have "call_ok (ls_now s) c" if "c \<in># ls_calls s" for c
    using inv that by (simp add: limits_inv_def)
  ultimately have "case ph of
       Runs (Some d) \<Rightarrow> profileScanTools tool \<and> d \<le> ls_now s + ProfilerScanTimeout
     | Runs None \<Rightarrow> \<not> profileScanTools tool
     | LeavesProfiler e \<Rightarrow> slot_receive (ls_profiler s) \<noteq> None
     | LeavesUser e \<Rightarrow> slot_receive (ls_user s j) \<noteq> None
     | _ \<Rightarrow> True" if "(j, tool, ph) \<in># ls_calls s" for j tool ph
    using that by (cases ph) (fastforce simp: slot_receive_def call_ok_def split: option.split)+
  moreover have "user_holders s i \<le> 4" "profiler_holders s \<le> 2"
    using inv by (simp_all add: limits_inv_def userCallSlots_def profilerSlots_def)
  ultimately show ?thesis by blast
qed

subsection \<open>Every call can end\<close>

fun phase_weight :: "'e call_phase \<Rightarrow> nat" where
  "phase_weight (WaitsUser t) = 5"
| "phase_weight (WaitsProfiler t d) = 4"
| "phase_weight (Runs d) = 3"
| "phase_weight (LeavesProfiler e) = 2"
| "phase_weight (LeavesUser e) = 1"

definition calls_weight :: "'e limits \<Rightarrow> nat" where
  "calls_weight s = (\<Sum>c \<in># ls_calls s. phase_weight (snd (snd c)))"


text \<open>What a call of the state ends with when its handler returns \<open>R\<close> of its tool.\<close>

fun ends_with ::
  "('c, 'v, 'x, 'o) encoder \<Rightarrow> (string \<Rightarrow> ('c, 'v, 'x, 'o) call_end) \<Rightarrow> ('c, 'v, 'x, 'o) call_end tool_call \<Rightarrow>
   string \<times> ('c, 'v, 'x, 'o) call_end" where
  "ends_with ec R (i, tool, LeavesUser e) = (tool, e)"
| "ends_with ec R (i, tool, LeavesProfiler e) = (tool, e)"
| "ends_with ec R (i, tool, ph) = (tool, finish_call ec tool (R tool))"

definition all_ends ::
  "('c, 'v, 'x, 'o) encoder \<Rightarrow> (string \<Rightarrow> ('c, 'v, 'x, 'o) call_end) \<Rightarrow> ('c, 'v, 'x, 'o) call_end limits \<Rightarrow>
   (string \<times> ('c, 'v, 'x, 'o) call_end) multiset" where
  "all_ends ec R s = mset (ls_ended s) + image_mset (ends_with ec R) (ls_calls s)"

lemma calls_split: "c \<in># M \<Longrightarrow> \<exists>i tool ph C. c = (i, tool, ph) \<and> M = add_mset (i, tool, ph) C"
  by (cases c) (metis mset_add)

lemma no_holders: "(\<And>c. c \<in># M \<Longrightarrow> \<not> P c) \<Longrightarrow> size (filter_mset P M) = 0"
  by (induction M) auto

text \<open>Some call can move on without being refused.\<close>

lemma limit_progress:
  assumes inv: "limits_inv s" and ne: "ls_calls s \<noteq> {#}"
  shows "\<exists>s'. limit_step ec s s' \<and> calls_weight s' < calls_weight s \<and> ls_now s' = ls_now s \<and> all_ends ec R s' = all_ends ec R s"
proof -
  let ?goal = "\<lambda>s'. limit_step ec s s' \<and> calls_weight s' < calls_weight s \<and> ls_now s' = ls_now s \<and> all_ends ec R s' = all_ends ec R s"
  have us: "ls_user s i = user_holders s i" for i using inv by (simp add: limits_inv_def)
  have pr: "ls_profiler s = profiler_holders s" using inv by (simp add: limits_inv_def)
  consider (lu) i tool e C where "ls_calls s = add_mset (i, tool, LeavesUser e) C"
    | (lp) i tool e C where "ls_calls s = add_mset (i, tool, LeavesProfiler e) C"
    | (r) i tool d C where "ls_calls s = add_mset (i, tool, Runs d) C"
    | (wp) i tool u d C where "ls_calls s = add_mset (i, tool, WaitsProfiler u d) C" "profiler_holders s = 0"
    | (wu) i tool u C where "ls_calls s = add_mset (i, tool, WaitsUser u) C" "user_holders s i = 0"
  proof (cases "\<exists>c \<in># ls_calls s. \<forall>u d. snd (snd c) \<noteq> WaitsUser u \<and> snd (snd c) \<noteq> WaitsProfiler u d")
    case True
    then obtain c where "c \<in># ls_calls s" "\<And>u d. snd (snd c) \<noteq> WaitsUser u \<and> snd (snd c) \<noteq> WaitsProfiler u d" by blast
    with calls_split [OF this(1)] that show thesis by (metis call_phase.exhaust snd_conv)
  next
    case False
    then have "holds_profiler (snd (snd c)) \<Longrightarrow> c \<notin># ls_calls s" for c by (cases "snd (snd c)") auto
    then have p0: "profiler_holders s = 0" unfolding profiler_holders_def by (metis no_holders)
    show thesis
    proof (cases "\<exists>c \<in># ls_calls s. \<exists>u d. snd (snd c) = WaitsProfiler u d")
      case True
      with calls_split p0 wp show thesis by (metis snd_conv)
    next
      case no_wp: False
      obtain c where c: "c \<in># ls_calls s" using ne by blast
      then obtain i tool u C where e: "ls_calls s = add_mset (i, tool, WaitsUser u) C"
        using calls_split [OF c] False no_wp by (metis snd_conv)
      have "user_holders s i = 0"
        unfolding user_holders_def by (rule no_holders) (use False no_wp in \<open>metis holds_user.simps(1)\<close>)
      with e wu show thesis by blast
    qed
  qed
  then show ?thesis
  proof cases
    case lu
    then have "0 < ls_user s i" unfolding us user_holders_def by (auto intro!: size_filter_pos)
    then show ?thesis
      using limit_step.user_release [OF lu, of "ls_user s i - 1" ec] lu
      by (intro exI [of _ "s\<lparr>ls_user := (ls_user s)(i := ls_user s i - 1), ls_calls := C, ls_ended := (tool, e) # ls_ended s\<rparr>"])
        (simp add: slot_receive_def calls_weight_def all_ends_def)
  next
    case lp
    then have "0 < ls_profiler s" unfolding pr profiler_holders_def by (auto intro!: size_filter_pos)
    then show ?thesis
      using limit_step.profiler_release [OF lp, of "ls_profiler s - 1" ec] lp
      by (intro exI [of _ "s\<lparr>ls_profiler := ls_profiler s - 1, ls_calls := add_mset (i, tool, LeavesUser e) C\<rparr>"])
        (simp add: slot_receive_def calls_weight_def all_ends_def)
  next
    case r
    show ?thesis
    proof (cases d)
      case None
      with r limit_step.ended [of s i tool C ec "R tool"] show ?thesis
        by (intro exI [of _ "s\<lparr>ls_calls := add_mset (i, tool, LeavesUser (finish_call ec tool (R tool))) C\<rparr>"])
          (simp add: calls_weight_def all_ends_def)
    next
      case (Some dl)
      with r limit_step.scan_ended [of s i tool dl C ec "R tool"] show ?thesis
        by (intro exI [of _ "s\<lparr>ls_calls := add_mset (i, tool, LeavesProfiler (finish_call ec tool (R tool))) C\<rparr>"])
          (simp add: calls_weight_def all_ends_def)
    qed
  next
    case wp
    with limit_step.profiler_slot [OF wp(1), of 1 ec] pr show ?thesis
      by (intro exI [of _ "s\<lparr>ls_profiler := 1, ls_calls := add_mset (i, tool, Runs (Some d)) C\<rparr>"])
        (simp add: slot_send_def profilerSlots_def calls_weight_def all_ends_def)
  next
    case wu
    with limit_step.user_slot [OF wu(1), of 1 ec] us [of i] show ?thesis
      by (intro exI [of _ "s\<lparr>ls_user := (ls_user s)(i := 1), ls_calls := add_mset (i, tool, admitted tool (ls_now s)) C\<rparr>"])
        (simp add: slot_send_def userCallSlots_def calls_weight_def all_ends_def admitted_def)
  qed
qed

lemma limits_drain:
  "limits_inv s \<Longrightarrow> \<exists>s'. (limit_step ec)\<^sup>*\<^sup>* s s' \<and> ls_calls s' = {#} \<and> ls_now s' = ls_now s \<and> all_ends ec R s' = all_ends ec R s"
proof (induction "calls_weight s" arbitrary: s rule: less_induct)
  case less
  show ?case
  proof (cases "ls_calls s = {#}")
    case False
    then obtain s1 where s1: "limit_step ec s s1" "calls_weight s1 < calls_weight s" "ls_now s1 = ls_now s"
        "all_ends ec R s1 = all_ends ec R s"
      using limit_progress [OF less.prems] by blast
    then obtain s2 where "(limit_step ec)\<^sup>*\<^sup>* s1 s2" "ls_calls s2 = {#}" "ls_now s2 = ls_now s1" "all_ends ec R s2 = all_ends ec R s1"
      using less.hyps [OF s1(2) limit_step_inv [OF s1(1) less.prems]] by blast
    with s1 show ?thesis by (metis converse_rtranclp_into_rtranclp)
  qed auto
qed

text \<open>
  C36: No slot is ever lost: in every reachable state, whatever the handlers return, all calls that wait
  or run can go on, without any of them being refused and without time passing, until each has ended
  with the limited result of its handler; then all slots are free.
\<close>

theorem no_slot_lost:
  assumes "reachable_limits ec s"
  shows "\<exists>s'. (limit_step ec)\<^sup>*\<^sup>* s s' \<and> ls_calls s' = {#} \<and> ls_now s' = ls_now s \<and>
    ls_profiler s' = 0 \<and> (\<forall>i. ls_user s' i = 0) \<and>
    mset (ls_ended s') = mset (ls_ended s) + image_mset (ends_with ec R) (ls_calls s)"
proof -
  have inv: "limits_inv s" using assms by (rule reachable_limits_inv)
  obtain s' where s': "(limit_step ec)\<^sup>*\<^sup>* s s'" "ls_calls s' = {#}" "ls_now s' = ls_now s" "all_ends ec R s' = all_ends ec R s"
    using limits_drain [OF inv] by blast
  from s'(1) have "limits_inv s'" by (induction rule: rtranclp_induct) (auto intro: inv limit_step_inv)
  with s' show ?thesis by (auto simp: limits_inv_def user_holders_def profiler_holders_def all_ends_def)
qed

subsection \<open>Results within the budget\<close>

lemma compare_Write_None:
  "compare_Write w p = None \<Longrightarrow> p @ q \<noteq> cw_rest w @ (if cw_newline w then [] else [CHR 10])"
  unfolding compare_Write_def Let_def
  by (auto simp: min_def append_eq_append_conv_if append_eq_Cons_conv split: if_splits)

lemma compare_Write_Some:
  "compare_Write w p = Some w' \<Longrightarrow>
   p @ q = cw_rest w @ (if cw_newline w then [] else [CHR 10]) \<longleftrightarrow>
   q = cw_rest w' @ (if cw_newline w' then [] else [CHR 10])"
  unfolding compare_Write_def Let_def
  by (auto simp: min_def append_eq_append_conv_if split: if_splits)

lemma compare_chunks_iff:
  "(case compare_chunks w chunks of None \<Rightarrow> False | Some v \<Rightarrow> cw_rest v = [] \<and> cw_newline v) \<longleftrightarrow>
   concat chunks = cw_rest w @ (if cw_newline w then [] else [CHR 10])"
proof (induction w chunks rule: compare_chunks.induct)
  case (2 w p ps)
  show ?case
  proof (cases "compare_Write w p")
    case None
    then show ?thesis using compare_Write_None [of w p "concat ps"] by simp
  next
    case (Some w')
    then show ?thesis using 2 compare_Write_Some [OF Some, of "concat ps"] by simp
  qed
qed auto

lemma countingWriter_length: "countingWriter n chunks = n + int (length (concat chunks))"
  unfolding countingWriter_def by (induction chunks arbitrary: n) auto

text \<open>
  However the encoder cuts its output into writes, the streaming comparison accepts exactly the
  encoding of the value followed by one newline, and the streaming count is the length without it.
\<close>

theorem streamed_encoding_exact:
  "(encodesTo (Inr chunks) s \<longleftrightarrow> concat chunks = s @ [CHR 10]) \<and>
   encodedSize (Inr chunks) = Inr (int (length (concat chunks)) - 1)"
  using compare_chunks_iff [of "\<lparr>cw_rest = s, cw_newline = False\<rparr>" chunks]
  by (simp add: encodesTo_def encodedSize_def countingWriter_length)

text \<open>
  C37: What the middleware returns for the result of a handler is within the budget or is the error that
  says it is not; it is the result itself, but for text content that is exactly the encoding of the
  structured content, which a notice replaces only when the result would not fit.
\<close>

theorem tool_results_within_budget:
  assumes "finish_call ec tool (Answer (Some r) None) = Answer (Some r') None"
  shows "(\<exists>n. maxEncodedToolResultBytes < n \<and> r' = error_result ec (over_budget_text tool n)) \<or>
    (\<exists>chunks. ec_Result ec r' = Inr chunks \<and> int (length (concat chunks)) \<le> maxEncodedToolResultBytes + 1 \<and>
      (r' = r \<or> (\<exists>t v s vs big. r = CallToolResult t \<and> tr_Structured t = Some v \<and> tr_Content t = [TextContent s] \<and>
         ec_Value ec v = Inr vs \<and> concat vs = s @ [CHR 10] \<and>
         ec_Result ec r = Inr big \<and> maxEncodedToolResultBytes + 1 < int (length (concat big)) \<and>
         r' = CallToolResult (t\<lparr>tr_Content := [TextContent structuredResultContentNotice]\<rparr>))))"
proof -
  have encoded: "\<exists>chunks. e = Inr chunks \<and> n = int (length (concat chunks)) - 1" if "encodedSize e = Inr n" for e n
    using that by (cases e) (auto simp: encodedSize_def countingWriter_length)
  have exact: "\<exists>vs. e = Inr vs \<and> concat vs = s @ [CHR 10]" if "encodesTo e s" for e s
  proof (cases e)
    case (Inr vs)
    with that compare_chunks_iff [of "\<lparr>cw_rest = s, cw_newline = False\<rparr>" vs] show ?thesis by (simp add: encodesTo_def)
  qed (use that in \<open>simp add: encodesTo_def\<close>)
  obtain n where n: "encodedSize (ec_Result ec r) = Inr n"
    using assms by (cases "encodedSize (ec_Result ec r)") auto
  then obtain big where big: "ec_Result ec r = Inr big" "n = int (length (concat big)) - 1" using encoded by blast
  show ?thesis
  proof (cases "n \<le> maxEncodedToolResultBytes \<or> compactDuplicatedStructuredContent ec r = None")
    case True
    then have "answer_within_budget ec tool r n = Answer (Some r') None" using assms n by (auto split: if_splits)
    with big show ?thesis by (auto simp: answer_within_budget_def split: if_splits)
  next
    case False
    then obtain r1 where r1: "compactDuplicatedStructuredContent ec r = Some r1" by blast
    then obtain n1 where n1: "encodedSize (ec_Result ec r1) = Inr n1" "answer_within_budget ec tool r1 n1 = Answer (Some r') None"
      using assms n False by (cases "encodedSize (ec_Result ec r1)") auto
    then obtain small where small: "ec_Result ec r1 = Inr small" "n1 = int (length (concat small)) - 1" using encoded by blast
    from r1 obtain t v s where r: "r = CallToolResult t" "tr_Structured t = Some v" "tr_Content t = [TextContent s]"
        "encodesTo (ec_Value ec v) s" "r1 = CallToolResult (t\<lparr>tr_Content := [TextContent structuredResultContentNotice]\<rparr>)"
      by (auto simp: compactDuplicatedStructuredContent_def split: mcp_result.splits option.splits list.splits content.splits if_splits)
    show ?thesis
    proof (cases "maxEncodedToolResultBytes < n1")
      case True
      with n1(2) show ?thesis by (auto simp: answer_within_budget_def)
    next
      case small_enough: False
      with n1(2) have "r' = r1" by (simp add: answer_within_budget_def)
      with r exact [OF r(4)] big small small_enough False show ?thesis by fastforce
    qed
  qed
qed

subsection \<open>Examples\<close>

text \<open>A result that fits only without the text that repeats its structured content, which is a character.\<close>

definition ex_encoder :: "(unit, char, unit, unit) encoder" where
  "ex_encoder = \<lparr>ec_Result = (\<lambda>r. case r of
       CallToolResult t \<Rightarrow> (case tr_Content t of [TextContent s] \<Rightarrow>
          Inr [if s = structuredResultContentNotice then s else replicate (2 * 2 ^ 21) (CHR 0x78), [CHR 10]] | _ \<Rightarrow> Inr [[CHR 10]])
     | OtherResult o' \<Rightarrow> Inr [[CHR 10]]),
     ec_Value = (\<lambda>c. Inr [[c], [CHR 10]]), ec_Empty = ()\<rparr>"

definition ex_result :: "(unit, char, unit, unit) mcp_result" where
  "ex_result = CallToolResult \<lparr>tr_Content = [TextContent ''7''], tr_Structured = Some (CHR ''7''), tr_IsError = False, tr_Rest = ()\<rparr>"

definition ex_compacted :: "(unit, char, unit, unit) mcp_result" where
  "ex_compacted = CallToolResult \<lparr>tr_Content = [TextContent structuredResultContentNotice], tr_Structured = Some (CHR ''7''),
     tr_IsError = False, tr_Rest = ()\<rparr>"

lemma ex_finish: "finish_call ex_encoder ''logs_query'' (Answer (Some ex_result) None) = Answer (Some ex_compacted) None"
proof -
  have "compactDuplicatedStructuredContent ex_encoder ex_result = Some ex_compacted"
    by (simp add: compactDuplicatedStructuredContent_def ex_result_def ex_compacted_def ex_encoder_def encodesTo_def compare_Write_def)
  moreover have "encodedSize (ec_Result ex_encoder ex_result) = Inr (2 * 2 ^ 21)"
    by (simp add: ex_encoder_def ex_result_def encodedSize_def countingWriter_def structuredResultContentNotice_def)
  moreover have "encodedSize (ec_Result ex_encoder ex_compacted) = Inr 54"
    by (simp add: ex_encoder_def ex_compacted_def encodedSize_def countingWriter_def structuredResultContentNotice_def)
  ultimately show ?thesis by (simp add: answer_within_budget_def maxEncodedToolResultBytes_def)
qed

theorem tool_results_within_budget_witness:
  "\<exists>chunks. ec_Result ex_encoder ex_compacted = Inr chunks \<and> int (length (concat chunks)) \<le> maxEncodedToolResultBytes + 1"
proof -
  have "ex_compacted \<noteq> error_result ex_encoder (over_budget_text ''logs_query'' n)" for n
    by (simp add: ex_compacted_def error_result_def)
  then show ?thesis using tool_results_within_budget [OF ex_finish] by blast
qed

text \<open>A profile scan that has got both its slots.\<close>

definition ex_scanning :: "(unit, char, unit, unit) call_end limits" where
  "ex_scanning = \<lparr>ls_user = (\<lambda>i. 0)(7 := 1), ls_profiler = 1,
     ls_calls = {#(7, ''profiler_top'', Runs (Some ProfilerScanTimeout))#}, ls_ended = [], ls_now = 0\<rparr>"

lemma ex_reachable: "reachable_limits ex_encoder ex_scanning"
proof -
  let ?step = "limit_step ex_encoder"
  let ?s1 = "(limits_start 0)\<lparr>ls_calls := {#(7, ''profiler_top'', WaitsUser 0)#}\<rparr>"
  let ?s2 = "?s1\<lparr>ls_user := (\<lambda>i. 0)(7 := 1), ls_calls := {#(7, ''profiler_top'', WaitsProfiler 0 ProfilerScanTimeout)#}\<rparr>"
  have scan: "(admitted ''profiler_top'' 0 :: (unit, char, unit, unit) call_end call_phase) = WaitsProfiler 0 ProfilerScanTimeout"
    by (simp add: admitted_def profileScanTools_def toolSpecs_def scan_tool_def plain_tool_def core_tool_def)
  have a: "?step (limits_start 0) ?s1"
    using limit_step.arrive [of ex_encoder "limits_start 0" 7 "''profiler_top''"] by (simp add: limits_start_def)
  have b: "?step ?s1 ?s2"
    using limit_step.user_slot [of ?s1 7 "''profiler_top''" 0 "{#}" 1 ex_encoder] scan
    by (simp add: limits_start_def slot_send_def userCallSlots_def)
  have c: "?step ?s2 ex_scanning"
    using limit_step.profiler_slot [of ?s2 7 "''profiler_top''" 0 ProfilerScanTimeout "{#}" 1 ex_encoder]
    by (simp add: limits_start_def slot_send_def profilerSlots_def ex_scanning_def)
  have "?step\<^sup>*\<^sup>* (limits_start 0) ex_scanning"
    by (rule converse_rtranclp_into_rtranclp [OF a converse_rtranclp_into_rtranclp [OF b r_into_rtranclp [of ?step, OF c]]])
  then show ?thesis unfolding reachable_limits_def by (rule exI)
qed

theorem tool_calls_bounded_witness: "user_holders ex_scanning 7 \<le> 4 \<and> profiler_holders ex_scanning \<le> 2"
  using tool_calls_bounded [OF ex_reachable, of 7] by blast

theorem no_slot_lost_witness:
  "\<exists>s'. (limit_step ex_encoder)\<^sup>*\<^sup>* ex_scanning s' \<and> ls_calls s' = {#} \<and> ls_profiler s' = 0"
  using no_slot_lost [OF ex_reachable, of "\<lambda>tool. Answer None None"] by blast

end
