(* ===== verification/Server_Surface.thy ===== *)
theory Server_Surface
  imports Server_Limits Metric_Registry Profile_List Log_Entries Oauth_Config
begin

text \<open>
  What a server offers besides its tools: the variants (\<open>internal/server/variants.go\<close>), prompts
  (\<open>prompts.go\<close>), completion (\<open>completion.go\<close>), resources (\<open>resources.go\<close>), and how it is started
  (\<open>Run\<close> in \<open>server.go\<close>). URL parsing, the encoders and the backends are parameters.
\<close>

subsection \<open>Variants\<close>

datatype variant_hint = HintUseCase | HintContextSize
datatype VariantStatus = Stable | Experimental

record variantSpec =
  vs_id :: string
  vs_description :: string
  vs_hints :: "(variant_hint \<times> string) list"
  vs_status :: VariantStatus
  vs_register :: "toolSpec list"
  vs_mode :: RegistrationMode

definition registerAllTools :: "toolSpec list" where "registerAllTools = toolSpecs"
definition registerCoreTools :: "toolSpec list" where "registerCoreTools = filter tl_core toolSpecs"

definition buildVariantSpecs :: "variantSpec list" where
  "buildVariantSpecs =
     [\<lparr>vs_id = ''full'',
       vs_description = ''All GCP observability tools ('' @ itoa (int (length toolSpecs)) @
         '') with complete descriptions. Optimized for interactive incident investigation.'',
       vs_hints = [(HintUseCase, ''human-assistant''), (HintContextSize, ''standard'')], vs_status = Stable,
       vs_register = registerAllTools, vs_mode = ModeStandard\<rparr>,
      \<lparr>vs_id = ''compact'',
       vs_description = ''All GCP observability tools ('' @ itoa (int (length toolSpecs)) @
         '') with concise descriptions (~50% shorter). Optimized for autonomous agents and tight context budgets.'',
       vs_hints = [(HintUseCase, ''autonomous-agent''), (HintContextSize, ''compact'')], vs_status = Stable,
       vs_register = registerAllTools, vs_mode = ModeCompact\<rparr>,
      \<lparr>vs_id = ''monitoring'',
       vs_description = ''Core GCP tools only ('' @ itoa (int (length coreToolNames)) @ ''): '' @ join '', '' coreToolNames @
         ''. For automated monitoring bots and scheduled health checks.'',
       vs_hints = [(HintUseCase, ''autonomous-agent''), (HintContextSize, ''compact'')], vs_status = Experimental,
       vs_register = registerCoreTools, vs_mode = ModeCompact\<rparr>]"

definition KnownVariantIDs :: "string list" where
  "KnownVariantIDs = map vs_id buildVariantSpecs"

definition findVariantSpec :: "string \<Rightarrow> variantSpec option" where
  "findVariantSpec vid = find (\<lambda>v. vs_id v = vid) buildVariantSpecs"

subsection \<open>Starting\<close>

datatype auth_setting = NoAuth | WithAuth

record RunOptions =
  ro_Transport :: string
  ro_HTTPAddr :: string
  ro_VariantID :: string
  ro_Auth :: auth_setting

text \<open>What the server probes for the overlay when none is configured: the working directory and its file.\<close>

record probe_env =
  pe_Getwd :: "go_error + string"
  pe_Stat :: "string \<Rightarrow> bool"

definition registry_candidate :: "string \<Rightarrow> string" where
  "registry_candidate cwd = cwd @ ''/.mcp/metrics_registry.yaml''"

definition resolveRegistryPath :: "probe_env \<Rightarrow> string \<Rightarrow> string" where
  "resolveRegistryPath pe configured =
     (if configured \<noteq> [] then configured
      else (case pe_Getwd pe of
              Inl err \<Rightarrow> []
            | Inr cwd \<Rightarrow> if pe_Stat pe (registry_candidate cwd) then registry_candidate cwd else []))"

definition bracket_list :: "string list \<Rightarrow> string" where
  "bracket_list xs = ''['' @ join '' '' xs @ '']''"

text \<open>How the server goes on: HTTP with per-user assemblies, or standard input with one assembly.\<close>

datatype run_plan = ServeHTTP Registry string string | ServeVariant Registry variantSpec | ServeNegotiated Registry "variantSpec list"

definition run_options_error :: "RunOptions \<Rightarrow> go_error option" where
  "run_options_error o' =
     (if ro_VariantID o' \<noteq> [] \<and> findVariantSpec (ro_VariantID o') = None
      then Some (Sentinel (''unknown variant '' @ quote (ro_VariantID o') @ '': must be one of '' @ bracket_list KnownVariantIDs))
      else if ro_Transport o' \<notin> {''stdio'', [], ''http''}
      then Some (Sentinel (''unsupported transport '' @ quote (ro_Transport o') @ '': must be '' @ quote ''stdio'' @ '' or '' @ quote ''http''))
      else if ro_Auth o' = WithAuth \<and> ro_Transport o' \<noteq> ''http''
      then Some (Sentinel ''auth requires --transport http'')
      else if ro_Transport o' = ''http'' \<and> ro_Auth o' = NoAuth
      then Some (Sentinel ''HTTP transport requires Google OAuth and Firestore configuration'')
      else None)"

definition server_Run :: "probe_env \<Rightarrow> registry_env \<Rightarrow> string \<Rightarrow> RunOptions \<Rightarrow> go_error + run_plan" where
  "server_Run pe re configured o' =
     (case run_options_error o' of
        Some err \<Rightarrow> Inl err
      | None \<Rightarrow>
          (case LoadRegistry re (resolveRegistryPath pe configured) of
             Inl err \<Rightarrow> Inl (prefix_error ''loading metrics registry: '' err)
           | Inr reg \<Rightarrow>
               Inr (if ro_Transport o' = ''http'' then ServeHTTP reg (ro_VariantID o') (ro_HTTPAddr o')
                    else (case findVariantSpec (ro_VariantID o') of
                            Some spec \<Rightarrow> ServeVariant reg spec
                          | None \<Rightarrow> ServeNegotiated reg buildVariantSpecs))))"

subsection \<open>Completion\<close>

definition maxCompletionValues :: nat where "maxCompletionValues = 100"
definition serviceCompletionRetryCooldown :: duration where "serviceCompletionRetryCooldown = 30 * second"

record completionCandidates =
  cc_values :: "string list"
  cc_lower :: "string list"

definition newCompletionCandidates :: "string list \<Rightarrow> completionCandidates" where
  "newCompletionCandidates values = \<lparr>cc_values = values, cc_lower = map to_lower values\<rparr>"

definition no_candidates :: completionCandidates where
  "no_candidates = \<lparr>cc_values = [], cc_lower = []\<rparr>"

definition matching :: "completionCandidates \<Rightarrow> string \<Rightarrow> string list" where
  "matching c arg =
     (if arg = [] then cc_values c
      else map fst (filter (\<lambda>(v, l). contains l (to_lower arg)) (zip (cc_values c) (cc_lower c))))"

definition profileTypeCandidates :: completionCandidates where
  "profileTypeCandidates = newCompletionCandidates ProfileTypes"

definition defaultMetricCandidates :: completionCandidates where
  "defaultMetricCandidates = newCompletionCandidates
     [''compute.googleapis.com/instance/cpu/utilization'', ''compute.googleapis.com/instance/disk/read_bytes_count'',
      ''compute.googleapis.com/instance/network/received_bytes_count'', ''loadbalancing.googleapis.com/https/request_count'',
      ''loadbalancing.googleapis.com/https/total_latencies'', ''run.googleapis.com/request_count'',
      ''run.googleapis.com/request_latencies'', ''cloudsql.googleapis.com/database/cpu/utilization'',
      ''cloudsql.googleapis.com/database/memory/utilization'', ''storage.googleapis.com/api/request_count'',
      ''pubsub.googleapis.com/topic/send_request_count'', ''appengine.googleapis.com/http/server/response_latencies'']"

definition metricTypeCandidates :: "Registry \<Rightarrow> completionCandidates" where
  "metricTypeCandidates reg = (if Count reg = 0 then defaultMetricCandidates else newCompletionCandidates (Names reg))"

text \<open>The lister of services: what it has cached, and when it may try again after a failure.\<close>

record service_cache =
  sc_cached :: "string list option"
  sc_nextRetry :: "gtime option"

definition empty_service_cache :: service_cache where
  "empty_service_cache = \<lparr>sc_cached = None, sc_nextRetry = None\<rparr>"

text \<open>
  One call, under the lock: the clock at the check and after the fetch, the outcome of the fetch if there
  is one; the result tells whether it fetched.
\<close>

definition cachedServiceLister ::
  "service_cache \<Rightarrow> gtime \<Rightarrow> gtime \<Rightarrow> go_error + serviceList \<Rightarrow> service_cache \<times> string list \<times> bool" where
  "cachedServiceLister sc now later fetched =
     (case sc_cached sc of
        Some names \<Rightarrow> (sc, names, False)
      | None \<Rightarrow>
          if (case sc_nextRetry sc of Some t \<Rightarrow> now < t | None \<Rightarrow> False) then (sc, [], False)
          else (case fetched of
                  Inl err \<Rightarrow> (sc\<lparr>sc_nextRetry := Some (later + serviceCompletionRetryCooldown)\<rparr>, [], True)
                | Inr l \<Rightarrow> (let names = filter (\<lambda>n. n \<noteq> []) (map si_Name (sl_Services l))
                            in (sc\<lparr>sc_cached := Some names\<rparr>, names, True))))"

subsection \<open>Prompts\<close>

text \<open>The source of the completion of an argument.\<close>

datatype completion_source = completeMetricTypes | completeServices | completeProfileTypes

record promptArg =
  pa_name :: string
  pa_description :: string
  pa_required :: bool
  pa_complete :: "completion_source option"

text \<open>The arguments of a request; an absent one reads as the empty string.\<close>

type_synonym prompt_args = "(string \<times> string) list"

definition arg_of :: "prompt_args \<Rightarrow> string \<Rightarrow> string" where
  "arg_of args name = (case map_of args name of Some v \<Rightarrow> v | None \<Rightarrow> [])"

record promptSpec =
  ps_name :: string
  ps_description :: string
  ps_projectScoped :: bool
  ps_args :: "promptArg list"
  ps_render :: "string \<Rightarrow> prompt_args \<Rightarrow> string"

definition numberedSteps :: "string \<Rightarrow> string list \<Rightarrow> string" where
  "numberedSteps title steps =
     title @ concat (map (\<lambda>(i, step). [CHR 10] @ itoa (int i + 1) @ ''. '' @ step) (enumerate 0 steps))"

definition projectIDPromptArg :: promptArg where
  "projectIDPromptArg = \<lparr>pa_name = ''project_id'',
     pa_description = ''GCP project ID to use for every project-scoped tool call'', pa_required = True, pa_complete = None\<rparr>"

definition investigate_errors_text :: "prompt_args \<Rightarrow> string" where
  "investigate_errors_text args =
     (let service = arg_of args ''service'';
          list = ''Use errors_list to find the most frequent error groups'' @
                 (if service \<noteq> [] then '' (filter by service: '' @ service @ '')'' else [])
      in numberedSteps ''Investigate the top errors in the project:''
        [list, ''Use errors_get on the top error group to see stack traces and individual events'',
         ''Use logs_query or logs_k8s to find related logs around the same time'',
         ''If trace IDs are available, use logs_by_trace to follow the request flow'',
         ''Summarize the root cause and suggest next steps''])"

definition trace_request_text :: "prompt_args \<Rightarrow> string" where
  "trace_request_text args =
     numberedSteps (''Trace a request matching URL pattern '' @ quote (arg_of args ''url_pattern'') @ '':'')
       [''Use logs_find_requests to find matching HTTP requests with their trace IDs'',
        ''Pick the most interesting request (e.g. slowest or with an error status)'',
        ''Use trace_get to see the full span tree and identify slow spans'',
        ''Use logs_by_trace to see all logs associated with that trace'',
        ''Summarize the request flow, highlighting any issues or bottlenecks'']"

definition investigate_metrics_text :: "prompt_args \<Rightarrow> string" where
  "investigate_metrics_text args =
     (let service = arg_of args ''service''; metricType = arg_of args ''metric_type'';
          snapshot = ''Use metrics_snapshot to get a semantic snapshot with baseline comparison'' @
            (if metricType \<noteq> [] \<and> service \<noteq> [] then '' (scope it to '' @ [CHR 0x27] @ service @ [CHR 0x27] @ '' with a label filter)'' else []);
          first = (if metricType \<noteq> [] then [''The metric to investigate is: '' @ metricType]
            else [''Use metrics_list to discover available metrics'' @
                    (if service \<noteq> [] then '' (filter by '' @ [CHR 0x27] @ service @ [CHR 0x27] @ '')'' else []),
                  ''Pick the most relevant metric''])
      in numberedSteps ''Investigate a metric anomaly:''
        (first @ [snapshot,
          ''If the classification shows a regression, use metrics_top_contributors to find which dimension contributes most'',
          ''Use metrics_related to check correlated signals'',
          ''Summarize the findings: what changed, when, likely cause, and recommended action'']))"

definition service_health_text :: "prompt_args \<Rightarrow> string" where
  "service_health_text args =
     numberedSteps ''Check the health of services in the project:''
       [''Use logs_services to discover all available services'',
        ''Use logs_summary to get an overview of severity distribution and top errors'',
        ''Use errors_list to see the most frequent error groups'',
        ''For any concerning services, use logs_k8s or logs_query to investigate further'',
        ''Provide a health summary with any issues found and recommended actions'']"

definition investigate_profile_text :: "prompt_args \<Rightarrow> string" where
  "investigate_profile_text args =
     (let service = arg_of args ''service''; profileType = arg_of args ''profile_type''
      in numberedSteps ''Investigate performance hotspots using Cloud Profiler:''
        [''Use profiler_list to discover available profiles'' @
           (if service \<noteq> [] then '' (filter by target: '' @ service @ '')'' else []) @
           (if profileType \<noteq> [] then '' (filter by type: '' @ profileType @ '')'' else []),
         ''Use profiler_top on the most recent profile to identify the hottest functions'',
         ''Use profiler_peek on the top hotspot to understand who calls it and what it calls'',
         ''Use profiler_flamegraph to see the call subtree around the hotspot'',
         ''Summarize the findings: which functions consume the most resources, potential optimizations''])"

text \<open>The path of the server's binary is the empty string when it could not be determined.\<close>

definition registry_prompt_text :: "string \<Rightarrow> string \<Rightarrow> string \<Rightarrow> string" where
  "registry_prompt_text projectPath outputPath serverBinary =
      ''Generate a metrics registry overlay for the mcp-gcp-observability MCP server.'' @ [CHR 10] @
      [CHR 10] @
      ''TARGET PROJECT: '' @
      projectPath @
      [CHR 10] @
      ''OUTPUT FILE:    '' @
      outputPath @
      [CHR 10] @
      [CHR 10] @
      ''STEP 1 '' @ em_dash @ '' Discover custom metric definitions in the target project.'' @ [CHR 10] @
      ''Search the codebase for metric client-library calls. Cover multiple languages:'' @ [CHR 10] @
      ''  - Go:     promauto.NewCounter/Gauge/Histogram/Summary, prometheus.NewCounter/Gauge/Histogram/Summary, *Vec variants, otel metric.Meter.Int64Counter/Float64Histogram/...'' @ [CHR 10] @
      ''  - JS/TS:  new client.Counter/Gauge/Histogram/Summary from 'prom-client'' @ [CHR 0x27] @ [CHR 10] @
      ''  - Python: Counter/Gauge/Histogram/Summary from prometheus_client'' @ [CHR 10] @
      ''  - Java:   Micrometer Counter/Timer/Gauge, io.prometheus.client.*'' @ [CHR 10] @
      ''  - Rust:   prometheus or metrics crate register_counter!/histogram!/...'' @ [CHR 10] @
      ''For each hit record: metric name, type (counter/gauge/histogram/summary), label names, help text, unit, and the code context.'' @ [CHR 10] @
      [CHR 10] @
      ''STEP 2 '' @ em_dash @ '' Map each metric to how it ACTUALLY appears in GCP using metrics_list.'' @ [CHR 10] @
      [CHR 10] @
      ''STEP 3 '' @ em_dash @ '' Produce a YAML overlay. Required fields: kind, better_direction. Optional: unit, slo_threshold, saturation_cap, related_metrics, keywords, thresholds, aggregation.'' @ [CHR 10] @
      [CHR 10] @
      ''Aggregation: optional; declares how to collapse the metric's time series. Only add when the per-kind default is wrong:'' @ [CHR 10] @
      ''  (a) Ratio/hit-ratio gauges classified as business_kpi '' @ em_dash @ '' use '' @ [CHR 0x22] @ ''across_groups: mean'' @ [CHR 0x22] @ ''.'' @ [CHR 10] @
      ''  (b) Peak/worst-case gauges '' @ em_dash @ '' use '' @ [CHR 0x22] @ ''across_groups: max'' @ [CHR 0x22] @ ''.'' @ [CHR 10] @
      ''  (c) Per-entity gauges with entity labels (e.g. game_id, tenant_id) '' @ em_dash @ '' use two-stage:'' @ [CHR 10] @
      ''      aggregation:'' @ [CHR 10] @
      ''        group_by: [metric.labels.entity_label]'' @ [CHR 10] @
      ''        within_group: max'' @ [CHR 10] @
      ''        across_groups: sum'' @ [CHR 10] @
      [CHR 10] @
      ''Example:'' @ [CHR 10] @
      ''  prometheus.googleapis.com/myservice_online_users_count/gauge:'' @ [CHR 10] @
      ''    kind: business_kpi'' @ [CHR 10] @
      ''    better_direction: up'' @ [CHR 10] @
      ''    unit: users'' @ [CHR 10] @
      ''    aggregation:'' @ [CHR 10] @
      ''      group_by: [metric.labels.tenant_id]'' @ [CHR 10] @
      ''      within_group: max'' @ [CHR 10] @
      ''      across_groups: sum'' @ [CHR 10] @
      [CHR 10] @
      ''STEP 4 '' @ em_dash @ '' Save the file to: '' @
      outputPath @
      [CHR 10] @
      [CHR 10] @
      ''STEP 5 '' @ em_dash @ '' Validate: '' @
      serverBinary @
      '' validate-registry <path>'' @ [CHR 10] @
      [CHR 10] @
      ''STEP 6 '' @ em_dash @ '' Report results.''"

definition generate_registry_text :: "string \<Rightarrow> prompt_args \<Rightarrow> string" where
  "generate_registry_text executable args =
     registry_prompt_text
       (if arg_of args ''project_path'' = [] then ''the current working directory'' else arg_of args ''project_path'')
       (if arg_of args ''output_path'' = [] then ''.mcp/metrics_registry.yaml'' else arg_of args ''output_path'')
       (if executable = [] then ''<path-to-mcp-gcp-observability>'' else executable)"

definition optional_arg :: "string \<Rightarrow> string \<Rightarrow> completion_source option \<Rightarrow> promptArg" where
  "optional_arg name description source =
     \<lparr>pa_name = name, pa_description = description, pa_required = False, pa_complete = source\<rparr>"

definition promptSpecs :: "promptSpec list" where
  "promptSpecs =
     [\<lparr>ps_name = ''investigate-errors'',
       ps_description = ''Investigate top errors: list error groups, get details for the worst one, and find related logs'',
       ps_projectScoped = True,
       ps_args = [optional_arg ''service'' ''Optional service name to filter errors'' (Some completeServices)],
       ps_render = (\<lambda>s. investigate_errors_text)\<rparr>,
      \<lparr>ps_name = ''trace-request'',
       ps_description = ''Trace a specific HTTP request end-to-end: find it by URL, follow its trace, and analyze spans'',
       ps_projectScoped = True,
       ps_args = [(optional_arg ''url_pattern'' (''URL pattern to search for (e.g. '' @ [CHR 0x27] @ ''/api/users'' @ [CHR 0x27] @ '')'') None)
                    \<lparr>pa_required := True\<rparr>],
       ps_render = (\<lambda>s. trace_request_text)\<rparr>,
      \<lparr>ps_name = ''investigate-metrics'',
       ps_description = ''Investigate a metric anomaly: discover metrics, get snapshot, drill down by dimension, check related signals'',
       ps_projectScoped = True,
       ps_args = [optional_arg ''metric_type'' (''Metric type to investigate (e.g. '' @ [CHR 0x27] @
                      ''compute.googleapis.com/instance/cpu/utilization'' @ [CHR 0x27] @ '')'') (Some completeMetricTypes),
                  optional_arg ''service'' ''Optional service or resource filter'' (Some completeServices)],
       ps_render = (\<lambda>s. investigate_metrics_text)\<rparr>,
      \<lparr>ps_name = ''service-health'',
       ps_description = ''Check the health of services: discover services, summarize logs, and identify issues'',
       ps_projectScoped = True, ps_args = [], ps_render = (\<lambda>s. service_health_text)\<rparr>,
      \<lparr>ps_name = ''investigate-profile'',
       ps_description = ''Investigate performance hotspots using Cloud Profiler: list profiles, find top functions, and drill into call paths'',
       ps_projectScoped = True,
       ps_args = [optional_arg ''service'' ''Service/target name to investigate'' (Some completeServices),
                  optional_arg ''profile_type'' ''Profile type (CPU, HEAP, WALL, CONTENTION, etc.)'' (Some completeProfileTypes)],
       ps_render = (\<lambda>s. investigate_profile_text)\<rparr>,
      \<lparr>ps_name = ''generate-metrics-registry'',
       ps_description = ''Scan a project for custom Prometheus/OTel metric definitions and generate a metrics registry overlay YAML for this MCP server'',
       ps_projectScoped = False,
       ps_args = [optional_arg ''project_path'' ''Path to the target project root (defaults to current working directory)'' None,
                  optional_arg ''output_path'' ''Where to write the overlay YAML (defaults to .mcp/metrics_registry.yaml in the target project)'' None],
       ps_render = generate_registry_text\<rparr>]"

definition findPromptSpec :: "string \<Rightarrow> promptSpec option" where
  "findPromptSpec name = find (\<lambda>p. ps_name p = name) promptSpecs"

definition prompt_arguments :: "promptSpec \<Rightarrow> bool \<Rightarrow> promptArg list" where
  "prompt_arguments p pinned =
     (if ps_projectScoped p \<and> \<not> pinned then projectIDPromptArg # ps_args p else ps_args p)"

definition promptProjectHeader :: "ProjectPolicy \<Rightarrow> string \<Rightarrow> string" where
  "promptProjectHeader policy project =
     (if Pinned policy
      then ''GCP PROJECT: '' @ project @ '' (server-pinned)'' @ [CHR 10] @
           ''Do not send project_id; pinned tool schemas reject it.'' @ [CHR 10, CHR 10]
      else ''GCP PROJECT: '' @ project @ [CHR 10] @ ''Pass this exact project_id to every project-scoped tool.'' @ [CHR 10, CHR 10])"

text \<open>The handler of a prompt; the arguments are in the order in which the loop over the map meets them.\<close>

definition get_prompt :: "ProjectPolicy \<Rightarrow> string \<Rightarrow> promptSpec \<Rightarrow> prompt_args \<Rightarrow> go_error + string" where
  "get_prompt policy executable spec args =
     (case find (\<lambda>(name, v). name \<notin> set (map pa_name (prompt_arguments spec (Pinned policy)))) args of
        Some (name, v) \<Rightarrow> Inl (Sentinel (''unknown prompt argument '' @ quote name))
      | None \<Rightarrow>
          if \<not> ps_projectScoped spec then Inr (ps_render spec executable args)
          else (case Resolve policy (arg_of args ''project_id'') of
                  Inl err \<Rightarrow> Inl (prefix_error ''project policy: '' err)
                | Inr project \<Rightarrow> Inr (promptProjectHeader policy project @ ps_render spec executable args)))"

subsection \<open>The completion handler\<close>

text \<open>\<open>pc_loadServices\<close> is the answer of the lister; there is none on a server that is not pinned.\<close>

record promptCompleter =
  pc_metricTypes :: completionCandidates
  pc_loadServices :: "string list option"
  pc_project :: ProjectPolicy

definition wireCompleter :: "ProjectPolicy \<Rightarrow> Registry \<Rightarrow> string list \<Rightarrow> promptCompleter" where
  "wireCompleter policy reg services =
     \<lparr>pc_metricTypes = metricTypeCandidates reg, pc_loadServices = (if Pinned policy then Some services else None),
      pc_project = policy\<rparr>"

fun complete_from :: "promptCompleter \<Rightarrow> completion_source \<Rightarrow> completionCandidates" where
  "complete_from p completeMetricTypes = pc_metricTypes p"
| "complete_from p completeServices =
     (case pc_loadServices p of None \<Rightarrow> no_candidates | Some s \<Rightarrow> newCompletionCandidates s)"
| "complete_from p completeProfileTypes = profileTypeCandidates"

definition promptArgCandidates :: "promptCompleter \<Rightarrow> string \<Rightarrow> string \<Rightarrow> completionCandidates" where
  "promptArgCandidates p prompt arg =
     (case findPromptSpec prompt of
        None \<Rightarrow> no_candidates
      | Some spec \<Rightarrow>
          (case find (\<lambda>a. pa_name a = arg \<and> pa_complete a \<noteq> None) (ps_args spec) of
             Some a \<Rightarrow> complete_from p (the (pa_complete a))
           | None \<Rightarrow> no_candidates))"

definition candidatesFor :: "promptCompleter \<Rightarrow> string \<Rightarrow> string \<Rightarrow> string \<Rightarrow> completionCandidates" where
  "candidatesFor p refType refName argName =
     (if refType = ''ref/prompt'' then promptArgCandidates p refName argName
      else if refType = ''ref/resource'' \<and> argName = ''project'' \<and> Pinned (pc_project p)
        then newCompletionCandidates [pp_pinned (pc_project p)]
      else no_candidates)"

text \<open>The reference of a request: its type and name, if it has one.\<close>

definition completion_Handle ::
  "promptCompleter \<Rightarrow> (string \<times> string) option \<Rightarrow> string \<Rightarrow> string \<Rightarrow> string list \<times> bool" where
  "completion_Handle p ref argName argValue =
     (let values = (case ref of None \<Rightarrow> [] | Some (refType, refName) \<Rightarrow> matching (candidatesFor p refType refName argName) argValue)
      in (take maxCompletionValues values, maxCompletionValues < length values))"

subsection \<open>Resources\<close>

definition projectFromResourceURI :: "netlib \<Rightarrow> string \<Rightarrow> string \<Rightarrow> string \<Rightarrow> ProjectPolicy \<Rightarrow> go_error + string" where
  "projectFromResourceURI net raw scheme path policy =
     (case url_parse net raw of
        None \<Rightarrow> Inl (Sentinel (''invalid resource URI '' @ quote raw))
      | Some u \<Rightarrow>
          if \<not> u_IsAbs u \<or> u_Scheme u \<noteq> scheme \<or> u_Path u \<noteq> path \<or> u_RawQuery u \<noteq> [] \<or> u_Fragment u \<noteq> [] \<or> u_HasUser u
          then Inl (Sentinel (''invalid resource URI '' @ quote raw))
          else if Pinned policy then
            (if u_Host u \<noteq> pp_pinned policy then Inl (Sentinel ''resource URI is outside the pinned project'') else Resolve policy [])
          else Resolve policy (u_Host u))"

text \<open>The three resources of a project: what they fetch from the backends, and how it is encoded.\<close>

record 'd resource_spec =
  rs_scheme :: string
  rs_path :: string
  rs_name :: string
  rs_description :: string
  rs_fetch :: "string \<Rightarrow> go_error + 'd"

record 'd resource_env =
  re_SummarizeLogs :: "string \<Rightarrow> string \<Rightarrow> go_error + 'd"
  re_ListErrors :: "string \<Rightarrow> string \<Rightarrow> int \<Rightarrow> string \<Rightarrow> string \<Rightarrow> go_error + 'd"
  re_ListTraces :: "string \<Rightarrow> string \<Rightarrow> string \<Rightarrow> string \<Rightarrow> gtime \<Rightarrow> gtime \<Rightarrow> int \<Rightarrow> string \<Rightarrow> go_error + 'd"
  re_Marshal :: "'d \<Rightarrow> go_error + string"
  re_Now :: gtime

definition resource_specs :: "'d resource_env \<Rightarrow> 'd resource_spec list" where
  "resource_specs e =
     [\<lparr>rs_scheme = ''gcp-logs'', rs_path = ''/recent'', rs_name = ''Recent Logs Summary'',
       rs_description = ''Severity distribution, top errors and top services from recent logs for the given project.'',
       rs_fetch = (\<lambda>project. re_SummarizeLogs e project [])\<rparr>,
      \<lparr>rs_scheme = ''gcp-errors'', rs_path = ''/groups'', rs_name = ''Error Reporting Groups'',
       rs_description = ''Current Error Reporting groups for the given project over the last 24 hours, by count.'',
       rs_fetch = (\<lambda>project. re_ListErrors e project ''24h'' 50 [] [])\<rparr>,
      \<lparr>rs_scheme = ''gcp-traces'', rs_path = ''/recent'', rs_name = ''Recent Traces'',
       rs_description = ''Traces from the last hour for the given project.'',
       rs_fetch = (\<lambda>project. re_ListTraces e project [] [] [] (re_Now e - hour) (re_Now e) 50 [])\<rparr>]"

definition read_resource ::
  "netlib \<Rightarrow> 'd resource_env \<Rightarrow> ProjectPolicy \<Rightarrow> 'd resource_spec \<Rightarrow> string \<Rightarrow> go_error + string" where
  "read_resource net e policy item uri =
     (case projectFromResourceURI net uri (rs_scheme item) (rs_path item) policy of
        Inl err \<Rightarrow> Inl err
      | Inr project \<Rightarrow>
          (case rs_fetch item project of
             Inl err \<Rightarrow> Inl (prefix_error (''reading resource '' @ quote uri @ '': '') err)
           | Inr d \<Rightarrow>
               (case re_Marshal e d of
                  Inl err \<Rightarrow> Inl (prefix_error (''marshaling resource '' @ quote uri @ '': '') err)
                | Inr payload \<Rightarrow> Inr payload)))"

text \<open>Where a resource is offered: an exact URI in a pinned deployment, else a template.\<close>

definition resource_uri :: "ProjectPolicy \<Rightarrow> 'd resource_spec \<Rightarrow> string" where
  "resource_uri policy item =
     rs_scheme item @ ''://'' @ (if Pinned policy then pp_pinned policy else ''{project}'') @ rs_path item"

text \<open>The project configuration: the fields of its JSON object.\<close>

datatype config_value = ConfigText string | ConfigNumber int

definition projectConfig :: "ProjectPolicy \<Rightarrow> string \<Rightarrow> Registry \<Rightarrow> (string \<times> config_value) list" where
  "projectConfig policy registryFile reg =
     [(''project_mode'', ConfigText (if Pinned policy then ''pinned'' else ''required'')),
      (''metrics_registry_file'', ConfigText registryFile),
      (''metrics_registry_count'', ConfigNumber (int (Count reg))),
      (''logs_hard_limit'', ConfigNumber LogsHardLimit),
      (''errors_hard_limit'', ConfigNumber 100)] @
     (if Pinned policy then [(''project'', ConfigText (pp_pinned policy))] else [])"

subsection \<open>A server\<close>

text \<open>
  What a variant's server offers: its tools with the verbosity of their descriptions, the resources (or,
  in an unpinned deployment, templates) and the prompts with their arguments.
\<close>

record mcp_server =
  ms_tools :: "string list"
  ms_mode :: RegistrationMode
  ms_resources :: "string list"
  ms_templates :: "string list"
  ms_prompts :: "(string \<times> promptArg list) list"

definition build_server :: "ProjectPolicy \<Rightarrow> 'd resource_env \<Rightarrow> variantSpec \<Rightarrow> mcp_server" where
  "build_server policy e spec =
     (let uris = map (resource_uri policy) (resource_specs e)
      in \<lparr>ms_tools = map tl_name (vs_register spec), ms_mode = vs_mode spec,
          ms_resources = [''config://project'', ''ui://metrics/chart'', ''ui://metrics/compare''] @ (if Pinned policy then uris else []),
          ms_templates = (if Pinned policy then [] else uris),
          ms_prompts = map (\<lambda>p. (ps_name p, prompt_arguments p (Pinned policy))) promptSpecs\<rparr>)"

definition buildSingleVariantServer :: "ProjectPolicy \<Rightarrow> 'd resource_env \<Rightarrow> string \<Rightarrow> go_error + mcp_server" where
  "buildSingleVariantServer policy e variantID =
     (case findVariantSpec variantID of
        None \<Rightarrow> Inl (Sentinel (''unknown variant '' @ quote variantID @ '': must be one of '' @ bracket_list KnownVariantIDs))
      | Some spec \<Rightarrow> Inr (build_server policy e spec))"

text \<open>All variants with their priorities.\<close>

definition buildVariantsServer :: "ProjectPolicy \<Rightarrow> 'd resource_env \<Rightarrow> (variantSpec \<times> mcp_server \<times> nat) list" where
  "buildVariantsServer policy e = map (\<lambda>(i, spec). (spec, build_server policy e spec, i)) (enumerate 0 buildVariantSpecs)"

end
