(* ===== verification/Server_Surface_Props.thy ===== *)
theory Server_Surface_Props
  imports Server_Surface
begin

text \<open>
  Properties of prompts, resources and completion: the project boundary, exact completion, and how often
  the services of a project are looked up for it.
\<close>

subsection \<open>The project boundary\<close>

lemma policy_pinned: "NewProjectPolicy pinned = Inr policy \<Longrightarrow> pp_pinned policy = pinned \<and> (pinned \<noteq> [] \<longrightarrow> projectIDPattern pinned)"
  by (auto simp: NewProjectPolicy_def split: if_splits)

lemma Resolve_valid:
  assumes "NewProjectPolicy pinned = Inr policy" "Resolve policy requested = Inr project"
  shows "projectIDPattern project \<and> (if pinned = [] then project = requested else project = pinned \<and> requested = [])"
  using assms policy_pinned [OF assms(1)] by (auto simp: Resolve_def Pinned_def split: if_splits)

lemma resource_project:
  assumes "NewProjectPolicy pinned = Inr policy" "projectFromResourceURI net uri scheme path policy = Inr project"
  shows "\<exists>u. url_parse net uri = Some u \<and> u_Scheme u = scheme \<and> u_Path u = path \<and> u_Host u = project \<and>
    projectIDPattern project \<and> (pinned \<noteq> [] \<longrightarrow> project = pinned)"
proof -
  obtain u where u: "url_parse net uri = Some u" "u_Scheme u = scheme" "u_Path u = path"
      "if Pinned policy then u_Host u = pp_pinned policy \<and> Resolve policy [] = Inr project else Resolve policy (u_Host u) = Inr project"
    using assms(2) by (auto simp: projectFromResourceURI_def split: option.splits if_splits)
  then show ?thesis
    using Resolve_valid [OF assms(1)] policy_pinned [OF assms(1)]
    by (cases "Pinned policy") (force simp: Pinned_def)+
qed

lemma prompt_cases:
  assumes "get_prompt policy executable spec args = Inr text"
  shows "fst ` set args \<subseteq> set (map pa_name (prompt_arguments spec (Pinned policy))) \<and>
    (if ps_projectScoped spec
     then \<exists>project. Resolve policy (arg_of args ''project_id'') = Inr project \<and>
            text = promptProjectHeader policy project @ ps_render spec executable args
     else text = ps_render spec executable args)"
  using assms by (auto simp: get_prompt_def find_None_iff split: option.splits sum.splits if_splits)


subsection \<open>Completion\<close>

definition candidates_ok :: "completionCandidates \<Rightarrow> bool" where
  "candidates_ok c = (cc_lower c = map to_lower (cc_values c))"

lemma candidates_ok [simp]:
  "candidates_ok (newCompletionCandidates vs)" "candidates_ok no_candidates" "candidates_ok profileTypeCandidates"
  "candidates_ok (metricTypeCandidates reg)"
  by (simp_all add: candidates_ok_def newCompletionCandidates_def no_candidates_def profileTypeCandidates_def
      metricTypeCandidates_def defaultMetricCandidates_def)

lemma matching_exact:
  assumes "candidates_ok c"
  shows "matching c arg = filter (\<lambda>v. contains (to_lower v) (to_lower arg)) (cc_values c)"
proof -
  have "map fst (filter (\<lambda>(v, l). P l) (zip vs (map f vs))) = filter (\<lambda>v. P (f v)) vs" for P vs and f :: "string \<Rightarrow> string"
    by (induction vs) auto
  then show ?thesis using assms by (simp add: matching_def candidates_ok_def to_lower_def)
qed

lemma wired_candidates_ok: "candidates_ok (candidatesFor (wireCompleter policy reg services) t n a)"
proof -
  have "candidates_ok (complete_from (wireCompleter policy reg services) s)" for s
    by (cases s) (simp_all add: wireCompleter_def)
  then show ?thesis by (simp add: candidatesFor_def promptArgCandidates_def split: option.split)
qed

text \<open>
  A completion consists of the candidates of the argument that contain what was typed, whatever the
  case, in their order, cut to 100, and says whether it was cut.
\<close>

theorem completion_exact:
  "completion_Handle (wireCompleter policy reg services) (Some (refType, refName)) argName typed =
     (let found = filter (\<lambda>v. contains (to_lower v) (to_lower typed))
                    (cc_values (candidatesFor (wireCompleter policy reg services) refType refName argName))
      in (take 100 found, 100 < length found))"
  by (simp add: completion_Handle_def matching_exact wired_candidates_ok maxCompletionValues_def Let_def)

subsection \<open>Looking up services\<close>

text \<open>A history of calls of the lister: the clock before and after, and what a fetch would bring.\<close>

type_synonym lookup_call = "gtime \<times> gtime \<times> (go_error + serviceList)"

fun lookups :: "service_cache \<Rightarrow> lookup_call list \<Rightarrow> (string list \<times> bool) list" where
  "lookups sc [] = []"
| "lookups sc ((now, later, f) # cs) =
     (case cachedServiceLister sc now later f of (sc', names, fetched) \<Rightarrow> (names, fetched) # lookups sc' cs)"

fun in_order :: "gtime \<Rightarrow> lookup_call list \<Rightarrow> bool" where
  "in_order t [] = True"
| "in_order t ((now, later, f) # cs) = (t \<le> now \<and> now \<le> later \<and> in_order later cs)"

definition service_names :: "serviceList \<Rightarrow> string list" where
  "service_names l = filter (\<lambda>n. n \<noteq> []) (map si_Name (sl_Services l))"

lemma length_lookups [simp]: "length (lookups sc cs) = length cs"
  by (induction sc cs rule: lookups.induct) (auto split: prod.split)

lemma lookups_cached: "sc_cached sc = Some names \<Longrightarrow> lookups sc cs = replicate (length cs) (names, False)"
  by (induction cs) (auto simp: cachedServiceLister_def)

lemma in_order_le: "in_order t cs \<Longrightarrow> j < length cs \<Longrightarrow> t \<le> fst (cs ! j)"
proof (induction t cs arbitrary: j rule: in_order.induct)
  case (2 t now later f cs)
  then show ?case by (cases j) fastforce+
qed simp

lemma lookups_wait:
  "sc_cached sc = None \<Longrightarrow> sc_nextRetry sc = Some t \<Longrightarrow> j < length cs \<Longrightarrow> snd (lookups sc cs ! j) \<Longrightarrow> in_order u cs \<Longrightarrow>
   t \<le> fst (cs ! j)"
proof (induction cs arbitrary: j u)
  case (Cons c cs)
  obtain now later f where c: "c = (now, later, f)" by (cases c) auto
  show ?case
  proof (cases "now < t")
    case True
    then have "lookups sc (c # cs) = ([], False) # lookups sc cs" using Cons.prems(1,2) c by (simp add: cachedServiceLister_def)
    with Cons c True show ?thesis by (cases j) auto
  next
    case False
    then show ?thesis using in_order_le [of later cs] Cons.prems(3,5) c by (cases j) fastforce+
  qed
qed simp

lemma lookups_after_fetch:
  assumes "cachedServiceLister sc now later f = (sc', names, True)"
  shows "case f of Inl err \<Rightarrow> names = [] \<and> sc_cached sc' = None \<and> sc_nextRetry sc' = Some (later + serviceCompletionRetryCooldown)
    | Inr l \<Rightarrow> names = service_names l \<and> sc_cached sc' = Some names"
  using assms by (auto simp: cachedServiceLister_def service_names_def Let_def split: option.splits if_splits sum.splits)

text \<open>
  Completion never looks services up again after it found them, and answers with them from then on;
  after a lookup that failed it waits 30 seconds before the next.
\<close>

theorem service_lookups_throttled:
  assumes "in_order t cs" "i < j" "j < length cs" "snd (lookups sc cs ! i)"
  shows "case snd (snd (cs ! i)) of
      Inr l \<Rightarrow> lookups sc cs ! j = (service_names l, False)
    | Inl err \<Rightarrow> snd (lookups sc cs ! j) \<longrightarrow> fst (snd (cs ! i)) + 30 * second \<le> fst (cs ! j)"
  using assms
proof (induction cs arbitrary: i j sc t)
  case (Cons c cs)
  obtain now later f where c: "c = (now, later, f)" by (cases c) auto
  obtain sc' names fetched where s: "cachedServiceLister sc now later f = (sc', names, fetched)" by (metis prod_cases3)
  have l: "lookups sc (c # cs) = (names, fetched) # lookups sc' cs" using c s by simp
  obtain j' where j: "j = Suc j'" "j' < length cs" using Cons.prems(2,3) by (cases j) auto
  have order: "in_order later cs" using Cons.prems(1) c by simp
  show ?case
  proof (cases i)
    case 0
    then have "fetched" using Cons.prems(4) l by simp
    note after = lookups_after_fetch [OF s [unfolded this [THEN eqTrueI]]]
    show ?thesis
    proof (cases f)
      case (Inl err)
      then show ?thesis
        using after lookups_wait [OF _ _ j(2) _ order, of sc'] l c 0 j by (simp add: serviceCompletionRetryCooldown_def)
    next
      case (Inr l')
      then show ?thesis using after lookups_cached [of sc' names cs] l c 0 j by simp
    qed
  next
    case (Suc i')
    then show ?thesis using Cons.IH [OF order, of i' j' sc'] Cons.prems(2,4) j l by (simp split: sum.splits)
  qed
qed simp

subsection \<open>Examples\<close>

definition ex_health :: promptSpec where
  "ex_health = \<lparr>ps_name = ''service-health'', ps_description = [], ps_projectScoped = True, ps_args = [],
     ps_render = (\<lambda>s. service_health_text)\<rparr>"

definition ex_resource_env :: "unit resource_env" where
  "ex_resource_env = \<lparr>re_SummarizeLogs = (\<lambda>p f. Inr ()), re_ListErrors = (\<lambda>p w n s v. Inr ()),
     re_ListTraces = (\<lambda>p f v order s e n tok. Inr ()), re_Marshal = (\<lambda>d. Inr ''{}''), re_Now = 0\<rparr>"

definition ex_urls :: netlib where
  "ex_urls = \<lparr>url_parse = (\<lambda>raw. Some \<lparr>u_Scheme = ''gcp-logs'', u_Opaque = [], u_HasUser = False, u_Host = ''project-1'', u_Path = ''/recent'',
     u_RawQuery = [], u_Fragment = []\<rparr>), loopback_ip = (\<lambda>h. False)\<rparr>"


theorem service_lookups_throttled_witness:
  "\<not> snd (lookups empty_service_cache
     [(0, 1, Inl (Sentinel ''timeout'')), (second, second, Inr \<lparr>sl_Count = 0, sl_Services = [], sl_Truncated = False, sl_TruncationHint = []\<rparr>)] ! 1)"
  using service_lookups_throttled [of 0 "[(0, 1, Inl (Sentinel ''timeout'')),
      (second, second, Inr \<lparr>sl_Count = 0, sl_Services = [], sl_Truncated = False, sl_TruncationHint = []\<rparr>)]" 0 1 empty_service_cache]
  by (simp add: second_def empty_service_cache_def cachedServiceLister_def)

end
