(* ===== verification/Http_Diag.thy ===== *)
theory Http_Diag
  imports Go_Time
begin

text \<open>
  HTTP diagnostics (\<open>internal/httpdiag/httpdiag.go\<close>): the wrapper around the response writer, the
  classification of rejections and the record of a rejected request. A handler is a function of the
  request that gives the calls it makes on its response writer, in order, and whether it ends in a panic.
  The response writer of \<open>net/http\<close> below it is the state \<open>conn\<close>. The decoding of JSON and the error codes of
  the packages \<open>jsonrpc\<close> and \<open>mcp\<close> are the parameter \<open>rpc_lib\<close>.
\<close>

subsection \<open>Requests and response writers\<close>

text \<open>
  The header gives the first value of a field, the empty string when it is absent. A body is what the
  reader yields and whether it ends in an error instead of the end of the input.
\<close>

record http_request =
  rq_Method :: string
  rq_Path :: string
  rq_Host :: string
  rq_Header :: "string \<Rightarrow> string"
  rq_ContentLength :: int
  rq_Body :: "(string \<times> bool) option"

text \<open>
  \<open>Observe\<close> is a call of \<open>ObserveBody\<close>, which finds the information of the request in its context;
  \<open>SetContentLength\<close> is an assignment to the request, which all handlers share.
\<close>

datatype writer_call =
    SetHeader string string
  | WriteHeader int
  | WriteBytes string
  | Flush
  | Reject string string
  | Observe string string
  | SetContentLength int

type_synonym http_handler = "http_request \<Rightarrow> writer_call list \<times> bool"

text \<open>
  The writer of \<open>net/http\<close>: status codes from 100 to 199 other than 101 are informational and may be
  repeated; the first other one is final; a body is not allowed for some codes and left out for \<open>HEAD\<close>;
  \<open>cn_room\<close> is the number of bytes that the connection still takes before it fails.
\<close>

record conn =
  cn_head :: bool
  cn_headers :: "(string \<times> string) list"
  cn_informational :: "int list"
  cn_status :: int
  cn_sent :: string
  cn_room :: nat

definition net_SetHeader :: "string \<Rightarrow> string \<Rightarrow> conn \<Rightarrow> conn" where
  "net_SetHeader k v c = (if cn_status c \<noteq> 0 then c else c\<lparr>cn_headers := (k, v) # filter (\<lambda>h. fst h \<noteq> k) (cn_headers c)\<rparr>)"

definition final_status :: "int \<Rightarrow> bool" where
  "final_status s = (200 \<le> s \<or> s = 101)"

definition net_WriteHeader :: "int \<Rightarrow> conn \<Rightarrow> conn" where
  "net_WriteHeader s c =
     (if cn_status c \<noteq> 0 then c
      else if final_status s then c\<lparr>cn_status := s\<rparr>
      else c\<lparr>cn_informational := cn_informational c @ [s]\<rparr>)"

definition body_allowed :: "int \<Rightarrow> bool" where
  "body_allowed s = (\<not> (100 \<le> s \<and> s \<le> 199) \<and> s \<noteq> 204 \<and> s \<noteq> 304)"

definition net_Write :: "string \<Rightarrow> conn \<Rightarrow> conn \<times> nat" where
  "net_Write p c0 =
     (let c = (if cn_status c0 = 0 then net_WriteHeader 200 c0 else c0);
          n = min (length p) (cn_room c)
      in if p = [] \<or> \<not> body_allowed (cn_status c) then (c, 0)
         else if cn_head c then (c, length p)
         else (c\<lparr>cn_sent := cn_sent c @ take n p, cn_room := cn_room c - n\<rparr>, n))"

definition net_Flush :: "conn \<Rightarrow> conn" where
  "net_Flush c = (if cn_status c = 0 then net_WriteHeader 200 c else c)"

text \<open>What a handler's calls do without the diagnostics.\<close>

fun net_call :: "writer_call \<Rightarrow> conn \<Rightarrow> conn" where
  "net_call (SetHeader k v) c = net_SetHeader k v c"
| "net_call (WriteHeader s) c = net_WriteHeader s c"
| "net_call (WriteBytes p) c = fst (net_Write p c)"
| "net_call Flush c = net_Flush c"
| "net_call (Reject _ _) c = c"
| "net_call (Observe _ _) c = c"
| "net_call (SetContentLength _) c = c"

text \<open>\<open>http.Error\<close>, preceded by the reason as in \<open>httpdiag.Error\<close>.\<close>

definition http_Error :: "string \<Rightarrow> int \<Rightarrow> writer_call list" where
  "http_Error msg status =
     [SetHeader ''Content-Type'' ''text/plain; charset=utf-8'', SetHeader ''X-Content-Type-Options'' ''nosniff'',
      WriteHeader status, WriteBytes (msg @ [CHR 0x0A])]"

definition diag_Error :: "string \<Rightarrow> string \<Rightarrow> int \<Rightarrow> writer_call list" where
  "diag_Error reason msg status = Reject [] reason # http_Error msg status"

subsection \<open>Classification\<close>

record rpc_lib =
  rl_method :: "string \<Rightarrow> string option"
  rl_error :: "string \<Rightarrow> (int \<times> string) option"
  CodeUnsupportedProtocolVersion :: int
  CodeHeaderMismatch :: int
  CodeMissingRequiredClientCapabilities :: int
  CodeMethodNotFound :: int
  CodeInvalidParams :: int
  CodeInvalidRequest :: int

definition safe_methods :: "string list" where
  "safe_methods =
     [''initialize'', ''ping'', ''tools/list'', ''tools/call'', ''resources/list'', ''resources/read'',
      ''resources/templates/list'', ''resources/subscribe'', ''resources/unsubscribe'', ''prompts/list'',
      ''prompts/get'', ''completion/complete'', ''logging/setLevel'', ''notifications/initialized'',
      ''notifications/cancelled'', ''notifications/progress'', ''notifications/roots/list_changed'',
      ''tasks/get'', ''tasks/list'', ''tasks/result'', ''tasks/cancel'', ''server/discover'', ''subscriptions/listen'']"

definition safeMethod :: "string \<Rightarrow> string" where
  "safeMethod m = (if m \<in> set safe_methods then m else ''unknown'')"

definition safeHTTPMethod :: "string \<Rightarrow> string" where
  "safeHTTPMethod m =
     (if m \<in> {''GET'', ''POST'', ''DELETE'', ''PUT'', ''PATCH'', ''HEAD'', ''OPTIONS''} then m else ''other'')"

definition safeRoute :: "string list \<Rightarrow> string \<Rightarrow> string" where
  "safeRoute known path = (if path \<in> set known then path else ''other'')"

definition clientClass :: "string \<Rightarrow> string" where
  "clientClass agent =
     (if has_prefix agent ''codex-mcp-client/'' then ''codex''
      else if agent = ''Claude-User'' then ''claude'' else ''other'')"

text \<open>\<open>time.Parse\<close> with the layout \<open>2006-01-02\<close>: fixed widths and an existing day.\<close>

definition iso_date :: "string \<Rightarrow> bool" where
  "iso_date s =
     (length s = 10 \<and> s ! 4 = CHR ''-'' \<and> s ! 7 = CHR ''-'' \<and>
      (case (number (take 4 s), in_range 1 12 (number (take 2 (drop 5 s)))) of
         (Some y, Some m) \<Rightarrow> in_range 1 (days_in y m) (number (drop 8 s)) \<noteq> None
       | _ \<Rightarrow> False))"

definition protocolVersion :: "string \<Rightarrow> string" where
  "protocolVersion v = (if v = [] then ''absent'' else if iso_date v then v else ''invalid'')"

definition rpcRejectionReasons :: "rpc_lib \<Rightarrow> (int \<times> string \<times> string) list" where
  "rpcRejectionReasons lib =
     [(CodeUnsupportedProtocolVersion lib, [], ''unsupported_protocol_version''),
      (CodeHeaderMismatch lib, ''Mcp-Protocol-Version header is required'', ''missing_protocol_version_header''),
      (CodeHeaderMismatch lib, ''Mcp-Protocol-Version header '', ''protocol_version_header_mismatch''),
      (CodeHeaderMismatch lib, ''missing required Mcp-Method header'', ''missing_mcp_method_header''),
      (CodeHeaderMismatch lib, ''missing required Mcp-Name header'', ''missing_mcp_name_header''),
      (CodeHeaderMismatch lib, ''header mismatch: Mcp-Method'', ''mcp_method_header_mismatch''),
      (CodeHeaderMismatch lib, ''header mismatch: Mcp-Name'', ''mcp_name_header_mismatch''),
      (CodeHeaderMismatch lib, ''failed to extract name from parameters'', ''invalid_mcp_name_parameters''),
      (CodeHeaderMismatch lib, [], ''mcp_param_header_mismatch''),
      (CodeMissingRequiredClientCapabilities lib, [], ''missing_client_capabilities''),
      (CodeMethodNotFound lib, [], ''unsupported_rpc_method''),
      (CodeInvalidParams lib, ''missing or invalid _meta field'', ''invalid_request_meta''),
      (CodeInvalidParams lib, ''invalid _meta field'', ''invalid_request_meta''),
      (CodeInvalidParams lib, [], ''invalid_params''),
      (CodeInvalidRequest lib, ''duplicate in-flight request ID'', ''duplicate_request_id''),
      (CodeInvalidRequest lib, [], ''invalid_request'')]"

definition rejectionReasons :: "(string \<times> string) list" where
  "rejectionReasons =
     [(''Accept must contain both'', ''accept_requires_json_and_sse''),
      (''Content-Type must be'', ''unsupported_content_type''),
      (''Bad Request: Unsupported protocol version'', ''unsupported_protocol_version''),
      (''JSON-RPC batching is not supported'', ''jsonrpc_batch_not_supported''),
      (''malformed payload:'', ''malformed_jsonrpc''),
      (''JSON RPC not handled:'', ''unsupported_rpc_method''),
      (''invalid request: unexpected id'', ''notification_has_id''),
      (''invalid request: missing id'', ''request_missing_id''),
      (''invalid request: missing required'', ''request_missing_params''),
      (''POST requires a non-empty body'', ''empty_request_body''),
      (''can'' @ [CHR 0x27] @ ''t send Last-Event-ID for POST'', ''last_event_id_on_post''),
      (''Forbidden: invalid Host header'', ''invalid_host''),
      (''Method Not Allowed'', ''method_not_allowed'')]"

definition unclassified :: string where
  "unclassified = ''unclassified_http_error''"

text \<open>\<open>rl_error\<close> is \<open>None\<close> when the body does not decode or has no error object.\<close>

definition classifyError :: "rpc_lib \<Rightarrow> string \<Rightarrow> string" where
  "classifyError lib body =
     (case rl_error lib body of
        Some (code, msg) \<Rightarrow>
          (case find (\<lambda>(c, prefix, _). c = code \<and> has_prefix msg prefix) (rpcRejectionReasons lib) of
             Some (_, _, reason) \<Rightarrow> reason
           | None \<Rightarrow> unclassified)
      | None \<Rightarrow>
          (case find (\<lambda>(prefix, _). has_prefix body prefix) rejectionReasons of
             Some (_, reason) \<Rightarrow> reason
           | None \<Rightarrow> unclassified))"

subsection \<open>Observing the body\<close>

text \<open>\<open>bytes.TrimSpace\<close>: the white space of Unicode in UTF-8.\<close>

definition space_runes :: "string list" where
  "space_runes =
     [[CHR 0x09], [CHR 0x0A], [CHR 0x0B], [CHR 0x0C], [CHR 0x0D], [CHR 0x20], [CHR 0xC2, CHR 0x85], [CHR 0xC2, CHR 0xA0],
      [CHR 0xE1, CHR 0x9A, CHR 0x80]] @
     map (\<lambda>c. [CHR 0xE2, CHR 0x80, c])
       [CHR 0x80, CHR 0x81, CHR 0x82, CHR 0x83, CHR 0x84, CHR 0x85, CHR 0x86, CHR 0x87, CHR 0x88, CHR 0x89, CHR 0x8A,
        CHR 0xA8, CHR 0xA9, CHR 0xAF] @
     [[CHR 0xE2, CHR 0x81, CHR 0x9F], [CHR 0xE3, CHR 0x80, CHR 0x80]]"

fun strip_runes :: "string list \<Rightarrow> nat \<Rightarrow> string \<Rightarrow> string" where
  "strip_runes rs 0 s = s"
| "strip_runes rs (Suc n) s =
     (case find (\<lambda>r. has_prefix s r) rs of None \<Rightarrow> s | Some r \<Rightarrow> strip_runes rs n (drop (length r) s))"

definition bytes_TrimSpace :: "string \<Rightarrow> string" where
  "bytes_TrimSpace s =
     (let l = strip_runes space_runes (length s) s
      in rev (strip_runes (map rev space_runes) (length l) (rev l)))"

record requestInfo =
  ri_method :: string
  ri_shape :: string

definition ObserveBody :: "rpc_lib \<Rightarrow> string \<Rightarrow> string \<Rightarrow> requestInfo \<Rightarrow> requestInfo" where
  "ObserveBody lib path body info =
     (if path \<noteq> ''/'' \<and> path \<noteq> ''/mcp'' then info
      else (let trimmed = bytes_TrimSpace body in
        case trimmed of
          [] \<Rightarrow> info\<lparr>ri_shape := ''empty''\<rparr>
        | b # _ \<Rightarrow>
            if b = CHR ''['' then info\<lparr>ri_shape := ''batch''\<rparr>
            else (case rl_method lib trimmed of
                    None \<Rightarrow> info\<lparr>ri_shape := ''invalid_json''\<rparr>
                  | Some m \<Rightarrow> info\<lparr>ri_shape := ''single'', ri_method := safeMethod m\<rparr>)))"

subsection \<open>The wrapped response writer\<close>

record responseWriter =
  rw_ResponseWriter :: conn
  rw_status :: int
  rw_body :: string
  rw_truncated :: bool
  rw_code :: string
  rw_reason :: string

definition maxErrorBytes :: nat where
  "maxErrorBytes = 4096"

definition rw_WriteHeader :: "int \<Rightarrow> responseWriter \<Rightarrow> responseWriter" where
  "rw_WriteHeader status w =
     (if rw_status w \<noteq> 0 then w
      else w\<lparr>rw_status := (if final_status status then status else 0),
             rw_ResponseWriter := net_WriteHeader status (rw_ResponseWriter w)\<rparr>)"

definition rw_Write :: "string \<Rightarrow> responseWriter \<Rightarrow> responseWriter" where
  "rw_Write p w0 =
     (let w = (if rw_status w0 = 0 then rw_WriteHeader 200 w0 else w0);
          (c, n) = net_Write p (rw_ResponseWriter w);
          took = min n (maxErrorBytes - length (rw_body w));
          w' = w\<lparr>rw_ResponseWriter := c\<rparr>
      in if 400 \<le> rw_status w
         then w'\<lparr>rw_body := rw_body w @ take took p, rw_truncated := (rw_truncated w \<or> took < n)\<rparr>
         else w')"

definition rw_FlushError :: "responseWriter \<Rightarrow> responseWriter" where
  "rw_FlushError w0 =
     (let w = (if rw_status w0 = 0 then rw_WriteHeader 200 w0 else w0)
      in w\<lparr>rw_ResponseWriter := net_Flush (rw_ResponseWriter w)\<rparr>)"

definition RejectOAuth :: "string \<Rightarrow> string \<Rightarrow> responseWriter \<Rightarrow> responseWriter" where
  "RejectOAuth code reason w = w\<lparr>rw_code := code, rw_reason := reason\<rparr>"

text \<open>The state of a request under the diagnostics: the writer, the information and the content length.\<close>

record diag_state =
  ds_writer :: responseWriter
  ds_info :: requestInfo
  ds_length :: int

fun diag_call :: "rpc_lib \<Rightarrow> writer_call \<Rightarrow> diag_state \<Rightarrow> diag_state" where
  "diag_call lib (SetHeader k v) d =
     d\<lparr>ds_writer := (ds_writer d)\<lparr>rw_ResponseWriter := net_SetHeader k v (rw_ResponseWriter (ds_writer d))\<rparr>\<rparr>"
| "diag_call lib (WriteHeader s) d = d\<lparr>ds_writer := rw_WriteHeader s (ds_writer d)\<rparr>"
| "diag_call lib (WriteBytes p) d = d\<lparr>ds_writer := rw_Write p (ds_writer d)\<rparr>"
| "diag_call lib Flush d = d\<lparr>ds_writer := rw_FlushError (ds_writer d)\<rparr>"
| "diag_call lib (Reject code reason) d = d\<lparr>ds_writer := RejectOAuth code reason (ds_writer d)\<rparr>"
| "diag_call lib (Observe path body) d = d\<lparr>ds_info := ObserveBody lib path body (ds_info d)\<rparr>"
| "diag_call lib (SetContentLength n) d = d\<lparr>ds_length := n\<rparr>"

subsection \<open>The diagnostic record\<close>

datatype attr = AStr string | AInt int | ABool bool

datatype log_level = LevelWarn | LevelError

record diagnostic =
  dg_level :: log_level
  dg_attrs :: "(string \<times> attr) list"

definition hex_digit :: "char \<Rightarrow> bool" where
  "hex_digit c = (is_digit10 c \<or> byte_of c \<in> {65..70} \<or> byte_of c \<in> {97..102})"

text \<open>\<open>hex.DecodeString\<close> succeeds with 16 bytes.\<close>

definition trace_id_text :: "string \<Rightarrow> bool" where
  "trace_id_text s = (length s = 32 \<and> list_all hex_digit s)"

definition rejected_reason :: "rpc_lib \<Rightarrow> responseWriter \<Rightarrow> string" where
  "rejected_reason lib w = (if rw_reason w = [] then classifyError lib (rw_body w) else rw_reason w)"

definition diag_attrs ::
    "rpc_lib \<Rightarrow> string list \<Rightarrow> string \<Rightarrow> int \<Rightarrow> http_request \<Rightarrow> diag_state \<Rightarrow> (string \<times> attr) list" where
  "diag_attrs lib routes reqid ms r d =
     (let w = ds_writer d; info = ds_info d; has = (\<lambda>k. ABool (rq_Header r k \<noteq> []));
          trace = takeWhile (\<lambda>c. c \<noteq> CHR ''/'') (rq_Header r ''X-Cloud-Trace-Context'')
      in [(''logging.googleapis.com/operation.id'', AStr reqid), (''http_method'', AStr (safeHTTPMethod (rq_Method r))),
          (''route'', AStr (safeRoute routes (rq_Path r))), (''status'', AInt (rw_status w)),
          (''reason'', AStr (rejected_reason lib w)), (''duration_ms'', AInt ms),
          (''client'', AStr (clientClass (rq_Header r ''User-Agent''))), (''rpc_method'', AStr (ri_method info)),
          (''body_shape'', AStr (ri_shape info)), (''request_bytes'', AInt (ds_length d)),
          (''protocol_version'', AStr (protocolVersion (rq_Header r ''Mcp-Protocol-Version''))),
          (''has_session_id'', has ''Mcp-Session-Id''), (''has_last_event_id'', has ''Last-Event-ID''),
          (''has_mcp_method'', has ''Mcp-Method''), (''has_mcp_name'', has ''Mcp-Name''),
          (''error_body_truncated'', ABool (rw_truncated w))] @
         (if rw_code w \<noteq> [] then [(''oauth_error'', AStr (rw_code w))] else []) @
         (if trace_id_text trace then [(''trace_id'', AStr trace)] else []) @
         [(''severity'', AStr (if 500 \<le> rw_status w then ''ERROR'' else ''WARNING''))])"

text \<open>
  \<open>Handler\<close>: the deferred function writes the record whether the handler returns or panics. The result is
  the connection, the record if one is written, and whether the panic goes on.
\<close>

definition diag_Handler ::
    "rpc_lib \<Rightarrow> string list \<Rightarrow> string \<Rightarrow> int \<Rightarrow> http_handler \<Rightarrow> http_request \<Rightarrow> conn \<Rightarrow> conn \<times> diagnostic option \<times> bool" where
  "diag_Handler lib routes reqid ms next_handler r c =
     (let w0 = \<lparr>rw_ResponseWriter = net_SetHeader ''X-Request-ID'' reqid c, rw_status = 0, rw_body = [], rw_truncated = False,
                rw_code = [], rw_reason = []\<rparr>;
          (calls, panics) = next_handler r;
          d = fold (diag_call lib) calls
            \<lparr>ds_writer = w0, ds_info = \<lparr>ri_method = [], ri_shape = []\<rparr>, ds_length = rq_ContentLength r\<rparr>;
          status = rw_status (ds_writer d)
      in (rw_ResponseWriter (ds_writer d),
          if status < 400 then None
          else Some \<lparr>dg_level = (if 500 \<le> status then LevelError else LevelWarn),
                     dg_attrs = diag_attrs lib routes reqid ms r d\<rparr>,
          panics))"

end
