(* ===== verification/Http_Entry.thy ===== *)
theory Http_Entry
  imports Http_Diag Oauth_Http
begin

text \<open>
  The way of an HTTP request to its handler (\<open>internal/server/transport.go\<close>, \<open>internal/authsrv/metadata.go\<close>,
  \<open>server.go\<close> of the authorization server): construction of the server, routes and metadata, the cross-origin
  check, the body limit, the bearer middleware around the MCP handler, and serving until the end. The
  handlers of the OAuth endpoints, which \<open>Oauth_Http\<close> models on their own types, the MCP handler and the
  answer of the SDK to an unauthenticated request are arguments.
\<close>

subsection \<open>Construction of the authorization server\<close>

text \<open>
  The access checker of the configuration is set by tests only, so an access check exists exactly for pinned
  deployments. Copies that protect against later changes by the caller have no counterpart here.
\<close>

definition newAuthServer :: "runtime \<Rightarrow> netlib \<Rightarrow> Config \<Rightarrow> go_error + auth_server" where
  "newAuthServer rt net cfg =
     (case Validate rt net cfg of
        Inl e \<Rightarrow> Inl (Wrap ''invalid auth config'' [e])
      | Inr c \<Rightarrow>
          (case newKeyRing rt (cf_TokenKeys c) of
             Inl e \<Rightarrow> Inl (Wrap ''building key ring'' [e])
           | Inr ring \<Rightarrow> Inr \<lparr>sv_cfg = c, sv_sealer = \<lparr>sl_ring = ring, sl_issuer = cf_IssuerURL c\<rparr>,
               sv_policy = newRedirectPolicy (cf_ExtraRedirects c), sv_hasAccess = (cf_PinnedProject c \<noteq> [])\<rparr>))"

text \<open>
  \<open>New\<close>: the state store is opened for the project and database of the validated configuration, and closed
  when the construction fails afterwards. The second component counts these calls of \<open>Close\<close>.
\<close>

definition AuthServer_New ::
    "runtime \<Rightarrow> netlib \<Rightarrow> (string \<Rightarrow> string \<Rightarrow> go_error option) \<Rightarrow> Config option \<Rightarrow> (go_error + auth_server) \<times> nat" where
  "AuthServer_New rt net newFirestoreStateStore cfg =
     (case cfg of
        None \<Rightarrow> (Inl (Sentinel ''invalid auth config: auth config must not be nil''), 0)
      | Some c0 \<Rightarrow>
          (case Validate rt net c0 of
             Inl e \<Rightarrow> (Inl (Wrap ''invalid auth config'' [e]), 0)
           | Inr c \<Rightarrow>
               (case newFirestoreStateStore (cf_StateProject c) (cf_StateDatabase c) of
                  Some e \<Rightarrow> (Inl e, 0)
                | None \<Rightarrow>
                    (case newAuthServer rt net (c\<lparr>cf_hasStore := True\<rparr>) of
                       Inl e \<Rightarrow> (Inl e, 1)
                     | Inr a \<Rightarrow> (Inr a, 0)))))"

subsection \<open>Paths and metadata documents\<close>

definition ProtectedResourceMetadataPath :: string where
  "ProtectedResourceMetadataPath = ''/.well-known/oauth-protected-resource''"
definition AuthServerMetadataPath :: string where
  "AuthServerMetadataPath = ''/.well-known/oauth-authorization-server''"
definition OpenIDConfigurationPath :: string where "OpenIDConfigurationPath = ''/.well-known/openid-configuration''"
definition JWKSPath :: string where "JWKSPath = ''/jwks.json''"
definition RegisterPath :: string where "RegisterPath = ''/register''"
definition AuthorizePath :: string where "AuthorizePath = ''/authorize''"
definition AuthorizeConfirmPath :: string where "AuthorizeConfirmPath = ''/authorize/confirm''"
definition CallbackPath :: string where "CallbackPath = ''/callback''"
definition TokenPath :: string where "TokenPath = ''/token''"
definition RevokePath :: string where "RevokePath = ''/revoke''"

definition RoutePaths :: "string list" where
  "RoutePaths =
     [ProtectedResourceMetadataPath, AuthServerMetadataPath, OpenIDConfigurationPath, JWKSPath,
      RegisterPath, AuthorizePath, AuthorizeConfirmPath, CallbackPath, TokenPath, RevokePath]"

record ProtectedResourceMetadata =
  pm_Resource :: string
  pm_AuthorizationServers :: "string list"
  pm_ScopesSupported :: "string list"
  pm_BearerMethodsSupported :: "string list"
  pm_ResourceName :: string

record AuthServerMeta =
  am_Issuer :: string
  am_AuthorizationEndpoint :: string
  am_TokenEndpoint :: string
  am_RegistrationEndpoint :: string
  am_RevocationEndpoint :: string
  am_JWKSURI :: string
  am_ScopesSupported :: "string list"
  am_ResponseTypesSupported :: "string list"
  am_GrantTypesSupported :: "string list"
  am_TokenEndpointAuthMethodsSupported :: "string list"
  am_CodeChallengeMethodsSupported :: "string list"

datatype metadata_doc = ResourceDoc ProtectedResourceMetadata | ServerDoc AuthServerMeta | EmptyJWKS

definition protectedResourceMetadata :: "Config \<Rightarrow> ProtectedResourceMetadata" where
  "protectedResourceMetadata c =
     \<lparr>pm_Resource = cf_IssuerURL c, pm_AuthorizationServers = [cf_IssuerURL c], pm_ScopesSupported = cfg_scopes c,
      pm_BearerMethodsSupported = [''header''], pm_ResourceName = ''GCP Observability MCP''\<rparr>"

definition authServerMetadata :: "Config \<Rightarrow> AuthServerMeta" where
  "authServerMetadata c =
     (let iss = cf_IssuerURL c
      in \<lparr>am_Issuer = iss, am_AuthorizationEndpoint = iss @ AuthorizePath, am_TokenEndpoint = iss @ TokenPath,
          am_RegistrationEndpoint = iss @ RegisterPath, am_RevocationEndpoint = iss @ RevokePath, am_JWKSURI = iss @ JWKSPath,
          am_ScopesSupported = cfg_scopes c, am_ResponseTypesSupported = [''code''],
          am_GrantTypesSupported = [''authorization_code'', ''refresh_token''],
          am_TokenEndpointAuthMethodsSupported = [''none''], am_CodeChallengeMethodsSupported = [''S256'']\<rparr>)"

definition metadataDocuments :: "Config \<Rightarrow> (string \<times> metadata_doc) list" where
  "metadataDocuments c =
     [(ProtectedResourceMetadataPath, ResourceDoc (protectedResourceMetadata c)),
      (AuthServerMetadataPath, ServerDoc (authServerMetadata c)),
      (OpenIDConfigurationPath, ServerDoc (authServerMetadata c)), (JWKSPath, EmptyJWKS)]"

text \<open>The JSON encoder is a parameter except for the document that encodes itself.\<close>

definition metadata_body :: "(metadata_doc \<Rightarrow> string) \<Rightarrow> metadata_doc \<Rightarrow> string" where
  "metadata_body encode d = (if d = EmptyJWKS then ''{\"keys\":[]}'' else encode d) @ [CHR 0x0A]"

definition jsonMetadataHandler :: "(metadata_doc \<Rightarrow> string) \<Rightarrow> metadata_doc \<Rightarrow> http_handler" where
  "jsonMetadataHandler encode d r =
     ([SetHeader ''Access-Control-Allow-Origin'' ''*'', SetHeader ''Access-Control-Allow-Methods'' ''GET, OPTIONS'',
       SetHeader ''Access-Control-Allow-Headers'' ''Content-Type, MCP-Protocol-Version''] @
      (if rq_Method r = ''OPTIONS'' then [WriteHeader 204]
       else [SetHeader ''Content-Type'' ''application/json'', WriteBytes (metadata_body encode d)]), False)"

subsection \<open>Google as identity provider\<close>

text \<open>The OAuth client this service is registered as; the endpoint of Google is that of the library.\<close>

record oauth2_config =
  oc_ClientID :: string
  oc_ClientSecret :: string
  oc_RedirectURL :: string
  oc_Scopes :: "string list"

definition oauth2Config :: "Config \<Rightarrow> oauth2_config" where
  "oauth2Config c =
     \<lparr>oc_ClientID = cf_GoogleClientID c, oc_ClientSecret = cf_GoogleClientSecret c,
      oc_RedirectURL = cf_IssuerURL c @ CallbackPath, oc_Scopes = cfg_scopes c\<rparr>"

text \<open>
  The calls of the libraries \<open>oauth2\<close> and \<open>idtoken\<close> are parameters. A claim of the payload counts only when it has the
  expected type.
\<close>

datatype claim_value = ClaimString string | ClaimBool bool | ClaimOther

record google_lib =
  gl_Exchange :: "oauth2_config \<Rightarrow> string \<Rightarrow> go_error + idp_token"
  gl_Token :: "oauth2_config \<Rightarrow> string \<Rightarrow> go_error + idp_token"
  gl_Validate :: "string \<Rightarrow> string \<Rightarrow> go_error + string \<times> (string \<Rightarrow> claim_value option)"
  gl_Post :: "string \<Rightarrow> go_error + nat"
  gl_isRetrieveError :: "go_error \<Rightarrow> bool"
  gl_HasProjectAccess :: "string \<Rightarrow> string \<Rightarrow> go_error + bool"

definition text_claim :: "claim_value option \<Rightarrow> string" where
  "text_claim v = (case v of Some (ClaimString s) \<Rightarrow> s | _ \<Rightarrow> [])"

definition google_claims :: "string \<times> (string \<Rightarrow> claim_value option) \<Rightarrow> identityClaims" where
  "google_claims payload =
     (let claim = snd payload
      in \<lparr>id_Subject = fst payload, id_Email = text_claim (claim ''email''),
          id_EmailVerified = (claim ''email_verified'' = Some (ClaimBool True)), id_HostedDomain = text_claim (claim ''hd'')\<rparr>)"

definition wrap_result :: "string \<Rightarrow> go_error + 'a \<Rightarrow> go_error + 'a" where
  "wrap_result m r = (case r of Inl e \<Rightarrow> Inl (Wrap m [e]) | Inr x \<Rightarrow> Inr x)"

definition googleIdP :: "google_lib \<Rightarrow> oauth2_config \<Rightarrow> idp" where
  "googleIdP lib c =
     \<lparr>idp_Exchange = (\<lambda>code. wrap_result ''exchanging code at Google'' (gl_Exchange lib c code)),
      idp_Refresh = (\<lambda>token. wrap_result ''refreshing token at Google'' (gl_Token lib c token)),
      idp_ValidateIDToken = (\<lambda>raw. map_sum (\<lambda>e. e) google_claims (wrap_result ''validating id_token'' (gl_Validate lib raw (oc_ClientID c)))),
      idp_Revoke = google_Revoke (gl_Post lib), idp_isRetrieveError = gl_isRetrieveError lib,
      idp_HasProjectAccess = gl_HasProjectAccess lib\<rparr>"

subsection \<open>Routes\<close>

definition healthzPath :: string where "healthzPath = ''/healthz''"
definition readyzPath :: string where "readyzPath = ''/readyz''"
definition candidateReadyzPath :: string where "candidateReadyzPath = ''/__candidate/readyz''"

definition diagnosticRoutes :: "string list" where
  "diagnosticRoutes = [''/'', ''/mcp'', healthzPath, readyzPath, candidateReadyzPath] @ RoutePaths"

definition authCORSBypassPaths :: "string list" where
  "authCORSBypassPaths = [TokenPath, RegisterPath, RevokePath]"

datatype endpoint =
    MetadataEndpoint string | RegisterEndpoint | AuthorizeEndpoint | ConfirmEndpoint | CallbackEndpoint
  | TokenEndpoint | RevokeEndpoint | HealthEndpoint | ReadyEndpoint | McpEndpoint | CleanPath string

text \<open>
  \<open>http.ServeMux\<close>: a path that is not clean is redirected; a pattern with the method GET also matches HEAD;
  the pattern \<open>/\<close> takes what no other pattern matches, a known path with another method included. Paths
  are given decoded, without escaped dots and slashes.
\<close>

fun path_segments :: "string list \<Rightarrow> string list \<Rightarrow> string list" where
  "path_segments acc [] = rev acc"
| "path_segments acc (s # ss) =
     (if s = [] \<or> s = ''.'' then path_segments acc ss
      else if s = ''..'' then path_segments (drop 1 acc) ss
      else path_segments (s # acc) ss)"

definition cleanPath :: "string \<Rightarrow> string" where
  "cleanPath p =
     (let segs = path_segments [] (split_char CHR ''/'' p); np = ''/'' @ Go_Strings.join ''/'' segs
      in if p \<noteq> [] \<and> last p = CHR ''/'' \<and> segs \<noteq> [] then np @ ''/'' else np)"

definition auth_route :: "string \<Rightarrow> string \<Rightarrow> endpoint option" where
  "auth_route m p =
     (let get = (m = ''GET'' \<or> m = ''HEAD'')
      in if p \<in> {ProtectedResourceMetadataPath, AuthServerMetadataPath, OpenIDConfigurationPath, JWKSPath} \<and>
             (get \<or> m = ''OPTIONS'') then Some (MetadataEndpoint p)
         else if m = ''POST'' \<and> p = RegisterPath then Some RegisterEndpoint
         else if get \<and> p = AuthorizePath then Some AuthorizeEndpoint
         else if m = ''POST'' \<and> p = AuthorizeConfirmPath then Some ConfirmEndpoint
         else if get \<and> p = CallbackPath then Some CallbackEndpoint
         else if m = ''POST'' \<and> p = TokenPath then Some TokenEndpoint
         else if m = ''POST'' \<and> p = RevokePath then Some RevokeEndpoint
         else None)"

definition mux_route :: "string \<Rightarrow> string \<Rightarrow> endpoint" where
  "mux_route m p =
     (if m \<noteq> ''CONNECT'' \<and> cleanPath p \<noteq> p then CleanPath (cleanPath p)
      else (case auth_route m p of
              Some e \<Rightarrow> e
            | None \<Rightarrow>
                if (m = ''GET'' \<or> m = ''HEAD'') \<and> p = healthzPath then HealthEndpoint
                else if (m = ''GET'' \<or> m = ''HEAD'') \<and> p \<in> {readyzPath, candidateReadyzPath} then ReadyEndpoint
                else McpEndpoint))"

subsection \<open>The policy of the entry\<close>

text \<open>
  \<open>http.CrossOriginProtection.Check\<close> with exact paths as bypass patterns and no trusted origins.
\<close>

definition CrossOrigin_Check :: "netlib \<Rightarrow> string list \<Rightarrow> http_request \<Rightarrow> string option" where
  "CrossOrigin_Check net bypass r =
     (let exempt = (rq_Path r \<in> set bypass); origin = rq_Header r ''Origin''
      in if rq_Method r \<in> {''GET'', ''HEAD'', ''OPTIONS''} then None
         else if rq_Header r ''Sec-Fetch-Site'' \<in> {''same-origin'', ''none''} then None
         else if rq_Header r ''Sec-Fetch-Site'' \<noteq> [] then
           (if exempt then None else Some ''cross-origin request detected from Sec-Fetch-Site header'')
         else if origin = [] then None
         else (case url_parse net origin of
                 Some u \<Rightarrow> if u_Host u = rq_Host r \<or> exempt then None
                           else Some ''cross-origin request detected, and/or browser is out of date: Sec-Fetch-Site is missing, and Origin does not match Host''
               | None \<Rightarrow> if exempt then None
                         else Some ''cross-origin request detected, and/or browser is out of date: Sec-Fetch-Site is missing, and Origin does not match Host''))"

definition withCrossOriginProtection :: "netlib \<Rightarrow> string list \<Rightarrow> http_handler \<Rightarrow> http_handler" where
  "withCrossOriginProtection net bypass handler r =
     (case CrossOrigin_Check net bypass r of
        Some msg \<Rightarrow> (diag_Error ''cross_origin_rejected'' msg 403, False)
      | None \<Rightarrow> handler r)"

definition maxMCPRequestBytes :: int where "maxMCPRequestBytes = 2 ^ 20"

text \<open>\<open>io.ReadAll\<close> of an \<open>io.LimitReader\<close>: a failure behind the limit is not reached.\<close>

definition read_limited :: "nat \<Rightarrow> string \<times> bool \<Rightarrow> string option" where
  "read_limited n b = (if snd b \<and> length (fst b) < n then None else Some (take n (fst b)))"

definition tooLarge :: "writer_call list" where
  "tooLarge = diag_Error ''request_body_too_large'' ''request body exceeds 1 MiB'' 413"

definition limitRequestBody :: "http_handler \<Rightarrow> http_handler" where
  "limitRequestBody next_handler r =
     (if maxMCPRequestBytes < rq_ContentLength r then (tooLarge, False)
      else (case rq_Body r of
              None \<Rightarrow> next_handler r
            | Some b \<Rightarrow>
                (case read_limited (nat (maxMCPRequestBytes + 1)) b of
                   None \<Rightarrow> (diag_Error ''request_body_read_failed'' ''failed to read request body'' 400, False)
                 | Some body \<Rightarrow>
                     if maxMCPRequestBytes < int (length body) then (tooLarge, False)
                     else (let (calls, panics) = next_handler (r\<lparr>rq_Body := Some (body, False), rq_ContentLength := int (length body)\<rparr>)
                           in (SetContentLength (int (length body)) # Observe (rq_Path r) body # calls, panics)))))"

definition httpEntryHandler ::
    "rpc_lib \<Rightarrow> netlib \<Rightarrow> string \<Rightarrow> int \<Rightarrow> http_handler \<Rightarrow> http_request \<Rightarrow> conn \<Rightarrow> conn \<times> diagnostic option \<times> bool" where
  "httpEntryHandler lib net reqid ms handler =
     diag_Handler lib diagnosticRoutes reqid ms
       (withCrossOriginProtection net authCORSBypassPaths (limitRequestBody handler))"

subsection \<open>The authenticated surface\<close>

text \<open>
  \<open>RequireBearerToken\<close> around a handler that finds the verified token in its context. The answer 401 is
  written by the middleware of the SDK after the reason was recorded.
\<close>

definition bearer_handler ::
    "(http_request \<Rightarrow> writer_call list) \<Rightarrow> (string \<Rightarrow> bearer_outcome) \<Rightarrow> (tokenInfo \<Rightarrow> http_handler) \<Rightarrow> http_handler" where
  "bearer_handler sdk401 verify next_handler r =
     (case verify (rq_Header r ''Authorization'') of
        Serve info \<Rightarrow> next_handler info r
      | Deny status reason \<Rightarrow>
          if status = 503 then (SetHeader ''Retry-After'' ''5'' # diag_Error reason ''OAuth state store unavailable'' 503, False)
          else (Reject [] reason # sdk401 r, False))"

definition health_handler :: http_handler where
  "health_handler r = ([WriteHeader 200, WriteBytes ''ok''], False)"

text \<open>\<open>CheckStore\<close> asks the state store for its health.\<close>

definition ready_handler :: "go_error option \<Rightarrow> tokenInfo \<Rightarrow> http_handler" where
  "ready_handler health info r =
     (if health \<noteq> None then (diag_Error ''oauth_store_unavailable'' ''OAuth state store unavailable'' 503, False)
      else ([WriteHeader 200, WriteBytes ''ready''], False))"

text \<open>The environment: the JSON encoder, the endpoints of OAuth, the redirect of the mux, the 401 of the SDK, and the health of the store.\<close>

record mux_env =
  mx_marshal :: "metadata_doc \<Rightarrow> string"
  mx_oauth :: "endpoint \<Rightarrow> http_handler"
  mx_redirect :: "string \<Rightarrow> http_handler"
  mx_sdk401 :: "http_request \<Rightarrow> writer_call list"
  mx_health :: "go_error option"

definition buildAuthMux ::
    "mux_env \<Rightarrow> Config \<Rightarrow> (string \<Rightarrow> bearer_outcome) \<Rightarrow> (tokenInfo \<Rightarrow> http_handler) \<Rightarrow> http_handler" where
  "buildAuthMux env cfg verify mcpHandler r =
     (case mux_route (rq_Method r) (rq_Path r) of
        CleanPath p \<Rightarrow> mx_redirect env p r
      | MetadataEndpoint p \<Rightarrow>
          (case map_of (metadataDocuments cfg) p of
             Some d \<Rightarrow> jsonMetadataHandler (mx_marshal env) d r
           | None \<Rightarrow> ([], False))
      | HealthEndpoint \<Rightarrow> health_handler r
      | ReadyEndpoint \<Rightarrow> bearer_handler (mx_sdk401 env) verify (ready_handler (mx_health env)) r
      | McpEndpoint \<Rightarrow> bearer_handler (mx_sdk401 env) verify mcpHandler r
      | e \<Rightarrow> mx_oauth env e r)"

subsection \<open>Serving until the end\<close>

text \<open>
  \<open>serveHTTP\<close> ends when listening fails or when its context is cancelled: then the graceful shutdown
  succeeds, fails, or runs into its deadline of five seconds, after which all connections are closed.
\<close>

datatype shutdown_outcome = Drained | DrainTimedOut "go_error option" | ShutdownFailed go_error

datatype listen_outcome = ListenFailed go_error | ListenClosed shutdown_outcome

definition shutdown_error :: "shutdown_outcome \<Rightarrow> go_error option" where
  "shutdown_error o' = (case o' of Drained \<Rightarrow> None | DrainTimedOut close_err \<Rightarrow> close_err | ShutdownFailed e \<Rightarrow> Some e)"

definition serveHTTP :: "listen_outcome \<Rightarrow> go_error option" where
  "serveHTTP l =
     (case l of
        ListenFailed e \<Rightarrow> Some (Wrap ''http server'' [e])
      | ListenClosed s \<Rightarrow> map_option (\<lambda>e. Wrap ''http server shutdown'' [e]) (shutdown_error s))"

definition runStdio :: "go_error option \<Rightarrow> go_error option" where
  "runStdio run = map_option (\<lambda>e. Wrap ''stdio server'' [e]) run"

text \<open>
  \<open>runHTTPWithAuth\<close>: what it closes, in order, and its result. A panic in a stage is recovered after the
  deferred calls of the stages before it.
\<close>

datatype run_stage = BuildAuth | BuildPool | ServeStage
datatype closing = ClosePool | CloseAuth

definition init_panic :: "string \<Rightarrow> go_error" where
  "init_panic m = Sentinel (''auth HTTP init panic: '' @ m)"

definition runHTTPWithAuth ::
    "(run_stage \<Rightarrow> string option) \<Rightarrow> go_error + auth_server \<Rightarrow> (auth_server \<Rightarrow> listen_outcome) \<Rightarrow> go_error option \<times> closing list" where
  "runHTTPWithAuth panics built serving =
     (case panics BuildAuth of
        Some m \<Rightarrow> (Some (init_panic m), [])
      | None \<Rightarrow>
          (case built of
             Inl e \<Rightarrow> (Some (Wrap ''building auth server'' [e]), [])
           | Inr a \<Rightarrow>
               (case panics BuildPool of
                  Some m \<Rightarrow> (Some (init_panic m), [CloseAuth])
                | None \<Rightarrow>
                    (case panics ServeStage of
                       Some m \<Rightarrow> (Some (init_panic m), [ClosePool, CloseAuth])
                     | None \<Rightarrow> (serveHTTP (serving a), [ClosePool, CloseAuth])))))"

end
