(* ===== verification/Http_Diag_Props.thy ===== *)
theory Http_Diag_Props
  imports Http_Diag
begin

text \<open>
  Properties of the HTTP diagnostics: they do not change the response, they write a record exactly for
  rejections, and a record holds no text of the request or the response outside a fixed vocabulary.
\<close>

subsection \<open>The response is unchanged\<close>

definition in_step :: "diag_state \<Rightarrow> bool" where
  "in_step d = (rw_status (ds_writer d) = cn_status (rw_ResponseWriter (ds_writer d)))"

lemma net_status_kept [simp]:
  "cn_status (net_SetHeader k v c) = cn_status c"
  "cn_status (net_Flush c) = (if cn_status c = 0 then 200 else cn_status c)"
  "cn_status (fst (net_Write p c)) = (if cn_status c = 0 then 200 else cn_status c)"
  "cn_status (net_WriteHeader s c) = (if cn_status c \<noteq> 0 then cn_status c else if final_status s then s else 0)"
  by (auto simp: net_SetHeader_def net_Flush_def net_Write_def net_WriteHeader_def final_status_def Let_def)

lemma rw_calls_in_step:
  "rw_status w = cn_status (rw_ResponseWriter w) \<Longrightarrow>
     rw_ResponseWriter (rw_WriteHeader s w) = net_WriteHeader s (rw_ResponseWriter w) \<and>
     rw_status (rw_WriteHeader s w) = cn_status (net_WriteHeader s (rw_ResponseWriter w))"
  by (simp add: rw_WriteHeader_def) (simp add: net_WriteHeader_def)

lemma net_implicit_header:
  "cn_status c = 0 \<Longrightarrow> net_Write p (net_WriteHeader 200 c) = net_Write p c"
  "cn_status c = 0 \<Longrightarrow> net_Flush (net_WriteHeader 200 c) = net_Flush c"
  by (simp_all add: net_Write_def net_Flush_def net_WriteHeader_def final_status_def)

lemma rw_write_in_step:
  assumes "rw_status w = cn_status (rw_ResponseWriter w)"
  shows "rw_ResponseWriter (rw_Write p w) = fst (net_Write p (rw_ResponseWriter w)) \<and>
         rw_status (rw_Write p w) = cn_status (rw_ResponseWriter (rw_Write p w))"
proof -
  define w' where "w' = (if rw_status w = 0 then rw_WriteHeader 200 w else w)"
  have "rw_status w' = cn_status (rw_ResponseWriter w')" "rw_status w' \<noteq> 0"
    "net_Write p (rw_ResponseWriter w') = net_Write p (rw_ResponseWriter w)"
    using assms rw_calls_in_step [OF assms, of 200]
    by (auto simp: w'_def net_implicit_header final_status_def)
  note w' = this
  have "rw_ResponseWriter (rw_Write p w) = fst (net_Write p (rw_ResponseWriter w'))" "rw_status (rw_Write p w) = rw_status w'"
    by (simp_all add: rw_Write_def w'_def [symmetric] Let_def split_beta)
  with w' show ?thesis by (metis net_status_kept(3))
qed

lemma rw_flush_in_step:
  assumes "rw_status w = cn_status (rw_ResponseWriter w)"
  shows "rw_ResponseWriter (rw_FlushError w) = net_Flush (rw_ResponseWriter w) \<and>
         rw_status (rw_FlushError w) = cn_status (rw_ResponseWriter (rw_FlushError w))"
proof -
  define w' where "w' = (if rw_status w = 0 then rw_WriteHeader 200 w else w)"
  have "rw_status w' = cn_status (rw_ResponseWriter w')" "rw_status w' \<noteq> 0"
    "net_Flush (rw_ResponseWriter w') = net_Flush (rw_ResponseWriter w)"
    using assms rw_calls_in_step [OF assms, of 200]
    by (auto simp: w'_def net_implicit_header final_status_def)
  note w' = this
  have "rw_ResponseWriter (rw_FlushError w) = net_Flush (rw_ResponseWriter w')" "rw_status (rw_FlushError w) = rw_status w'"
    by (simp_all add: rw_FlushError_def w'_def [symmetric] Let_def)
  with w' show ?thesis by (metis net_status_kept(2))
qed

lemma diag_call_in_step:
  assumes "in_step d"
  shows "in_step (diag_call lib e d)"
    and "rw_ResponseWriter (ds_writer (diag_call lib e d)) = net_call e (rw_ResponseWriter (ds_writer d))"
  using assms
  by (cases e; simp add: in_step_def rw_calls_in_step rw_write_in_step rw_flush_in_step RejectOAuth_def del: net_status_kept(3,4))+

lemma diag_run:
  assumes "in_step d"
  shows "in_step (fold (diag_call lib) es d)"
    and "rw_ResponseWriter (ds_writer (fold (diag_call lib) es d)) = fold net_call es (rw_ResponseWriter (ds_writer d))"
  using assms by (induction es arbitrary: d) (simp_all add: diag_call_in_step)

text \<open>What a request with its response leaves behind: the connection and, for a rejection only, a record.\<close>

lemma diagnostics_transparent:
  fixes h :: http_handler and r reqid
  assumes "cn_status c = 0"
  defines "c' \<equiv> fold net_call (fst (h r)) (net_SetHeader ''X-Request-ID'' reqid c)"
  shows "fst (diag_Handler lib routes reqid ms h r c) = c'"
    and "fst (snd (diag_Handler lib routes reqid ms h r c)) = None \<longleftrightarrow> cn_status c' < 400"
    and "snd (snd (diag_Handler lib routes reqid ms h r c)) = snd (h r)"
proof -
  let ?d = "\<lparr>ds_writer = \<lparr>rw_ResponseWriter = net_SetHeader ''X-Request-ID'' reqid c, rw_status = 0, rw_body = [], rw_truncated = False,
                rw_code = [], rw_reason = []\<rparr>, ds_info = \<lparr>ri_method = [], ri_shape = []\<rparr>, ds_length = rq_ContentLength r\<rparr>"
  have "in_step ?d" using assms(1) by (simp add: in_step_def)
  note run = diag_run [OF this, of lib "fst (h r)"]
  from run show "fst (diag_Handler lib routes reqid ms h r c) = c'"
    and "snd (snd (diag_Handler lib routes reqid ms h r c)) = snd (h r)"
    by (simp_all add: diag_Handler_def split_beta Let_def c'_def)
  from run show "fst (snd (diag_Handler lib routes reqid ms h r c)) = None \<longleftrightarrow> cn_status c' < 400"
    by (simp add: diag_Handler_def split_beta Let_def c'_def in_step_def)
qed

subsection \<open>What a record may hold\<close>

text \<open>The arguments of the calls of \<open>Reject\<close>, \<open>RejectOAuth\<close> and \<open>Error\<close>, which are constants of the callers.\<close>

fun rejections :: "writer_call list \<Rightarrow> string list" where
  "rejections [] = []"
| "rejections (Reject code reason # es) = code # reason # rejections es"
| "rejections (_ # es) = rejections es"

definition diagnostic_vocabulary :: "string list" where
  "diagnostic_vocabulary =
     [[], ''unknown'', ''other'', ''GET'', ''POST'', ''DELETE'', ''PUT'', ''PATCH'', ''HEAD'', ''OPTIONS'', ''codex'', ''claude'',
      ''absent'', ''invalid'', ''empty'', ''batch'', ''invalid_json'', ''single'', ''WARNING'', ''ERROR'', unclassified,
      ''unsupported_protocol_version'', ''missing_protocol_version_header'', ''protocol_version_header_mismatch'',
      ''missing_mcp_method_header'', ''missing_mcp_name_header'', ''mcp_method_header_mismatch'', ''mcp_name_header_mismatch'',
      ''invalid_mcp_name_parameters'', ''mcp_param_header_mismatch'', ''missing_client_capabilities'', ''unsupported_rpc_method'',
      ''invalid_request_meta'', ''invalid_params'', ''duplicate_request_id'', ''invalid_request'',
      ''accept_requires_json_and_sse'', ''unsupported_content_type'', ''jsonrpc_batch_not_supported'', ''malformed_jsonrpc'',
      ''notification_has_id'', ''request_missing_id'', ''request_missing_params'', ''empty_request_body'', ''last_event_id_on_post'',
      ''invalid_host'', ''method_not_allowed''] @ safe_methods"

lemma find_mem: "find P xs = Some x \<Longrightarrow> x \<in> set xs"
  by (auto simp: find_Some_iff)

lemma rpc_reasons_known: "snd ` snd ` set (rpcRejectionReasons lib) \<subseteq> set diagnostic_vocabulary"
  by (simp add: rpcRejectionReasons_def diagnostic_vocabulary_def)

lemma reasons_known: "snd ` set rejectionReasons \<subseteq> set diagnostic_vocabulary"
  by (simp add: rejectionReasons_def diagnostic_vocabulary_def)

lemma unclassified_known: "unclassified \<in> set diagnostic_vocabulary"
  by (simp add: diagnostic_vocabulary_def)

lemma classifyError_known: "classifyError lib body \<in> set diagnostic_vocabulary"
proof (cases "rl_error lib body")
  case None
  then show ?thesis using reasons_known unclassified_known
    by (force simp: classifyError_def dest!: find_mem split: option.splits prod.splits)
next
  case (Some e)
  then show ?thesis using rpc_reasons_known [of lib] unclassified_known
    by (force simp: classifyError_def dest!: find_mem split: option.splits prod.splits)
qed

lemma safe_known:
  "safeMethod m \<in> set diagnostic_vocabulary" "safeHTTPMethod m \<in> set diagnostic_vocabulary"
  "clientClass a \<in> set diagnostic_vocabulary" "safeRoute routes p \<in> set diagnostic_vocabulary \<union> set routes"
  "protocolVersion v \<in> set diagnostic_vocabulary \<or> iso_date (protocolVersion v)"
  by (auto simp: safeMethod_def safeHTTPMethod_def clientClass_def safeRoute_def protocolVersion_def diagnostic_vocabulary_def)

definition info_known :: "requestInfo \<Rightarrow> bool" where
  "info_known i = (ri_method i \<in> set diagnostic_vocabulary \<and> ri_shape i \<in> set diagnostic_vocabulary)"

lemma shapes_known: "{[], ''empty'', ''batch'', ''invalid_json'', ''single''} \<subseteq> set diagnostic_vocabulary"
  by (simp add: diagnostic_vocabulary_def)

lemma ObserveBody_known: "info_known i \<Longrightarrow> info_known (ObserveBody lib path body i)"
  using shapes_known by (auto simp: ObserveBody_def Let_def info_known_def safe_known split: list.splits option.splits)

lemma writer_reasons [simp]:
  "rw_code (rw_WriteHeader s w) = rw_code w" "rw_reason (rw_WriteHeader s w) = rw_reason w"
  "rw_code (rw_Write p w) = rw_code w" "rw_reason (rw_Write p w) = rw_reason w"
  "rw_code (rw_FlushError w) = rw_code w" "rw_reason (rw_FlushError w) = rw_reason w"
  by (simp_all add: rw_WriteHeader_def rw_Write_def rw_FlushError_def Let_def split_beta)

lemma run_known:
  fixes lib es and d :: diag_state
  assumes "info_known (ds_info d)" "{rw_code (ds_writer d), rw_reason (ds_writer d)} \<subseteq> K"
  defines "d' \<equiv> fold (diag_call lib) es d"
  shows "info_known (ds_info d') \<and> {rw_code (ds_writer d'), rw_reason (ds_writer d')} \<subseteq> K \<union> set (rejections es)"
  using assms(1,2) unfolding d'_def
proof (induction es arbitrary: d K)
  case (Cons e es)
  show ?case
  proof (cases "\<exists>code reason. e = Reject code reason")
    case True
    then obtain code reason where e: "e = Reject code reason" by blast
    from Cons.IH [of "diag_call lib e d" "{code, reason}"] Cons.prems show ?thesis
      by (auto simp: e RejectOAuth_def)
  next
    case False
    then have r: "rejections (e # es) = rejections es" by (cases e) auto
    have "info_known (ds_info (diag_call lib e d)) \<and>
        {rw_code (ds_writer (diag_call lib e d)), rw_reason (ds_writer (diag_call lib e d))} \<subseteq> K"
      using Cons.prems False by (cases e) (auto simp: ObserveBody_known)
    with Cons.IH [of "diag_call lib e d" K] show ?thesis by (simp add: r)
  qed
qed simp



subsection \<open>An example\<close>

definition ex_lib :: rpc_lib where
  "ex_lib = \<lparr>rl_method = (\<lambda>_. None), rl_error = (\<lambda>_. None), CodeUnsupportedProtocolVersion = -32022,
     CodeHeaderMismatch = -32020, CodeMissingRequiredClientCapabilities = -32021, CodeMethodNotFound = -32601,
     CodeInvalidParams = -32602, CodeInvalidRequest = -32600\<rparr>"

definition ex_anonymous :: http_request where
  "ex_anonymous = \<lparr>rq_Method = ''POST'', rq_Path = ''/mcp'', rq_Host = ''mcp.example'', rq_Header = (\<lambda>_. []),
     rq_ContentLength = 2, rq_Body = Some (''[]'', False)\<rparr>"

definition ex_conn :: conn where
  "ex_conn = \<lparr>cn_head = False, cn_headers = [], cn_informational = [], cn_status = 0, cn_sent = [], cn_room = 1000\<rparr>"

text \<open>A handler that refuses with a body of the SDK, which the record classifies without quoting it.\<close>

definition ex_refusal :: http_handler where
  "ex_refusal r = ([Observe ''/mcp'' ''[]'', WriteHeader 400, WriteBytes ''malformed payload: [] of alice''], False)"

definition ex_record :: diagnostic where
  "ex_record = \<lparr>dg_level = LevelWarn, dg_attrs =
       [(''logging.googleapis.com/operation.id'', AStr ''id''), (''http_method'', AStr ''POST''), (''route'', AStr ''/mcp''),
        (''status'', AInt 400), (''reason'', AStr ''malformed_jsonrpc''), (''duration_ms'', AInt 3), (''client'', AStr ''other''),
        (''rpc_method'', AStr []), (''body_shape'', AStr ''batch''), (''request_bytes'', AInt 2), (''protocol_version'', AStr ''absent''),
        (''has_session_id'', ABool False), (''has_last_event_id'', ABool False), (''has_mcp_method'', ABool False),
        (''has_mcp_name'', ABool False), (''error_body_truncated'', ABool False), (''severity'', AStr ''WARNING'')]\<rparr>"

lemma ex_refused:
  "diag_Handler ex_lib [''/mcp''] ''id'' 3 ex_refusal ex_anonymous ex_conn =
    (\<lparr>cn_head = False, cn_headers = [(''X-Request-ID'', ''id'')], cn_informational = [], cn_status = 400,
      cn_sent = ''malformed payload: [] of alice'', cn_room = 970\<rparr>, Some ex_record, False)"
  by code_simp


end
