(* ===== verification/Http_Entry_Props.thy ===== *)
theory Http_Entry_Props
  imports Http_Entry Http_Diag_Props Oauth_Http_Props
begin

text \<open>
  Properties of the way to the handlers: which requests reach the MCP handler, what the entry answers to the
  others, the advertised endpoints, and the construction and end of the server.
\<close>

subsection \<open>Which requests reach the MCP handler\<close>

text \<open>
  The bearer token of the request verifies to the token information; no cross-origin protection is left out,
  except for methods other than POST on the three bypassed paths; the body is at most 1 MiB and its length
  is the declared one.
\<close>

definition token_verified ::
    "runtime \<Rightarrow> auth_server \<Rightarrow> 's oauthStateStore \<Rightarrow> 's \<Rightarrow> gtime \<Rightarrow> tokenInfo \<Rightarrow> http_request \<Rightarrow> bool" where
  "token_verified rt srv ops s now info q =
     (\<exists>scheme token claims. Go_Strings.fields (rq_Header q ''Authorization'') = [scheme, token] \<and>
        equal_fold scheme ''bearer'' \<and> VerifyAccess rt srv ops s now token = Inr claims \<and>
        ti_UserID info = ac_Subject claims \<and> ti_Domain info = ac_Domain claims \<and>
        ti_GoogleAccessToken info = ac_GoogleAccessToken claims)"

definition same_origin :: "netlib \<Rightarrow> http_request \<Rightarrow> bool" where
  "same_origin net q =
     (CrossOrigin_Check net [] q = None \<or> rq_Path q \<in> set authCORSBypassPaths \<and> rq_Method q \<noteq> ''POST'')"

definition body_bounded :: "http_request \<Rightarrow> bool" where
  "body_bounded q =
     (rq_ContentLength q \<le> maxMCPRequestBytes \<and>
      (case rq_Body q of None \<Rightarrow> True
       | Some (b, failed) \<Rightarrow> \<not> failed \<and> int (length b) = rq_ContentLength q \<and> int (length b) \<le> maxMCPRequestBytes))"

lemma limitRequestBody_cong:
  assumes "\<And>q. \<lbrakk>body_bounded q; rq_Method q = rq_Method r; rq_Path q = rq_Path r; rq_Host q = rq_Host r;
                 rq_Header q = rq_Header r\<rbrakk> \<Longrightarrow> h q = h' q"
  shows "limitRequestBody h r = limitRequestBody h' r"
  using assms
  by (cases r) (auto simp: limitRequestBody_def body_bounded_def read_limited_def Let_def split: option.splits)

lemma CrossOrigin_Check_exempt:
  "CrossOrigin_Check net bypass q = None \<Longrightarrow> rq_Path q \<in> set bypass \<or> CrossOrigin_Check net [] q = None"
  by (auto simp: CrossOrigin_Check_def Let_def split: if_splits option.splits)

lemma CrossOrigin_Check_head:
  "\<lbrakk>rq_Method q = rq_Method r; rq_Path q = rq_Path r; rq_Host q = rq_Host r; rq_Header q = rq_Header r\<rbrakk> \<Longrightarrow>
     CrossOrigin_Check net bypass q = CrossOrigin_Check net bypass r"
  by (simp only: CrossOrigin_Check_def)

lemma bypassed_post_route:
  "p \<in> set authCORSBypassPaths \<Longrightarrow> mux_route ''POST'' p \<in> {TokenEndpoint, RegisterEndpoint, RevokeEndpoint}"
  by (auto simp: authCORSBypassPaths_def mux_route_def auth_route_def cleanPath_def Let_def TokenPath_def RegisterPath_def
      RevokePath_def AuthorizePath_def AuthorizeConfirmPath_def CallbackPath_def ProtectedResourceMetadataPath_def
      AuthServerMetadataPath_def OpenIDConfigurationPath_def JWKSPath_def)

lemma bearer_serves_token:
  "RequireBearerToken rt srv ops s now (rq_Header q ''Authorization'') = Serve info \<Longrightarrow>
     token_verified rt srv ops s now info q"
  by (auto simp: RequireBearerToken_def token_verified_def verifyAccessToken_def
      split: list.splits if_splits sum.splits access_error.splits)

lemma bearer_handler_cong:
  "(\<And>info. verify (rq_Header q ''Authorization'') = Serve info \<Longrightarrow> h info q = h' info q) \<Longrightarrow>
     bearer_handler sdk verify h q = bearer_handler sdk verify h' q"
  by (simp add: bearer_handler_def split: bearer_outcome.splits)

lemma buildAuthMux_cong:
  assumes "\<And>info. \<lbrakk>verify (rq_Header q ''Authorization'') = Serve info; mux_route (rq_Method q) (rq_Path q) = McpEndpoint\<rbrakk> \<Longrightarrow>
             mcp info q = mcp' info q"
  shows "buildAuthMux env cfg verify mcp q = buildAuthMux env cfg verify mcp' q"
  using assms by (auto simp: buildAuthMux_def intro!: bearer_handler_cong split: endpoint.splits)


subsection \<open>The other answers\<close>

text \<open>The entry's own rejections: cross-origin requests, and bodies that are too large or cannot be read.\<close>

lemma entry_rejects:
  "CrossOrigin_Check net bypass r = Some msg \<Longrightarrow>
     withCrossOriginProtection net bypass h r = (diag_Error ''cross_origin_rejected'' msg 403, False)"
  "maxMCPRequestBytes < rq_ContentLength r \<Longrightarrow> limitRequestBody h r = (tooLarge, False)"
  "\<lbrakk>rq_Body r = Some (b, failed); maxMCPRequestBytes < int (length b)\<rbrakk> \<Longrightarrow> limitRequestBody h r = (tooLarge, False)"
  "\<lbrakk>rq_Body r = Some (b, True); int (length b) \<le> maxMCPRequestBytes; rq_ContentLength r \<le> maxMCPRequestBytes\<rbrakk> \<Longrightarrow>
     limitRequestBody h r = (diag_Error ''request_body_read_failed'' ''failed to read request body'' 400, False)"
  by (auto simp: withCrossOriginProtection_def limitRequestBody_def read_limited_def maxMCPRequestBytes_def)

text \<open>The MCP handler can be reached without the cross-origin check: a PUT to a bypassed path.\<close>

lemma bypassed_put_reaches_mcp:
  "mux_route ''PUT'' TokenPath = McpEndpoint"
  "rq_Path r = TokenPath \<Longrightarrow> CrossOrigin_Check net authCORSBypassPaths r = None"
  by (auto simp: mux_route_def auth_route_def cleanPath_def Let_def TokenPath_def RegisterPath_def healthzPath_def
      readyzPath_def candidateReadyzPath_def RevokePath_def AuthorizePath_def AuthorizeConfirmPath_def CallbackPath_def
      ProtectedResourceMetadataPath_def AuthServerMetadataPath_def OpenIDConfigurationPath_def JWKSPath_def
      CrossOrigin_Check_def authCORSBypassPaths_def split: option.splits)

subsection \<open>Advertised endpoints\<close>

text \<open>
  Every endpoint that the metadata of the authorization server advertises is the issuer followed by a path
  that the mux routes to the handler of that endpoint, and the metadata documents are served to every origin.
\<close>

lemmas path_defs = TokenPath_def RegisterPath_def RevokePath_def AuthorizePath_def AuthorizeConfirmPath_def CallbackPath_def
  ProtectedResourceMetadataPath_def AuthServerMetadataPath_def OpenIDConfigurationPath_def JWKSPath_def
  healthzPath_def readyzPath_def candidateReadyzPath_def

lemma advertised_endpoints_served:
  fixes cfg :: Config
  defines "m \<equiv> authServerMetadata cfg" and "iss \<equiv> cf_IssuerURL cfg"
  shows "am_Issuer m = iss \<and> am_AuthorizationEndpoint m = iss @ AuthorizePath \<and> am_TokenEndpoint m = iss @ TokenPath \<and>
    am_RegistrationEndpoint m = iss @ RegisterPath \<and> am_RevocationEndpoint m = iss @ RevokePath \<and> am_JWKSURI m = iss @ JWKSPath"
  by (simp add: authServerMetadata_def Let_def m_def iss_def)

lemma endpoint_routes:
  "mux_route ''GET'' AuthorizePath = AuthorizeEndpoint" "mux_route ''POST'' TokenPath = TokenEndpoint"
  "mux_route ''POST'' RegisterPath = RegisterEndpoint" "mux_route ''POST'' RevokePath = RevokeEndpoint"
  "mux_route ''GET'' JWKSPath = MetadataEndpoint JWKSPath" "mux_route ''POST'' ''/mcp'' = McpEndpoint"
  by code_simp+

subsection \<open>Construction and end\<close>

text \<open>A validated configuration is valid and unchanged by a second validation, also once it has a store.\<close>

lemma Validate_again:
  assumes "Validate rt net c0 = Inr c"
  shows "Validate rt net (c\<lparr>cf_hasStore := True\<rparr>) = Inr (c\<lparr>cf_hasStore := True\<rparr>)"
proof -
  from assms obtain u ring where c: "c = c0\<lparr>cf_IssuerURL := trim_right CHR ''/'' (cf_IssuerURL c0),
             cf_StateDatabase := (if cf_StateDatabase c0 = [] then ''(default)'' else cf_StateDatabase c0)\<rparr>"
    and facts: "url_parse net (cf_IssuerURL c) = Some u" "u_IsAbs u" "\<not> u_HasUser u" "u_RawQuery u = []" "u_Fragment u = []"
    "u_Scheme u = ''https'' \<and> u_Host u \<noteq> [] \<or> u_Scheme u = ''http'' \<and> isLoopbackHost net (u_Hostname u)"
    "cf_GoogleClientID c \<noteq> []" "cf_GoogleClientSecret c \<noteq> []"
    "cf_PinnedProject c \<noteq> [] \<or> cf_AllowedDomains c \<noteq> []"
    "cf_PinnedProject c = [] \<or> gcpProjectIDPattern (cf_PinnedProject c)"
    "cf_StateProject c = [] \<or> gcpProjectIDPattern (cf_StateProject c)"
    "\<not> list_ex blank (cf_AllowedDomains c)" "cf_TokenKeys c \<noteq> []"
    "newKeyRing rt (cf_TokenKeys c) = Inr ring" "list_all (validAllowlistedRedirect net) (cf_ExtraRedirects c)"
    "0 \<le> cf_RefreshTokenTTL c"
    by (rule Validate_ok)
  have same: "c\<lparr>cf_hasStore := True\<rparr>\<lparr>cf_IssuerURL := trim_right CHR ''/'' (cf_IssuerURL (c\<lparr>cf_hasStore := True\<rparr>))\<rparr> =
      c\<lparr>cf_hasStore := True\<rparr>"
    and database: "cf_StateDatabase c \<noteq> []"
    using c by (cases c0; simp)+
  show ?thesis
    unfolding Validate_def same using facts database by (auto simp: Let_def)
qed

lemma Validate_ring:
  "Validate rt net c0 = Inr c \<Longrightarrow> \<exists>ring. newKeyRing rt (cf_TokenKeys c) = Inr ring"
  by (erule Validate_ok) blast

text \<open>
  The construction fails only in its validation and in opening the store, so the store it opens is never
  closed again by it; the constructed server works on the validated configuration.
\<close>

lemma new_keeps_store:
  "snd (AuthServer_New rt net open_store cfg) = 0"
  "fst (AuthServer_New rt net open_store cfg) = Inr a \<Longrightarrow>
     \<exists>c0 c. cfg = Some c0 \<and> Validate rt net c0 = Inr c \<and> sv_cfg a = c\<lparr>cf_hasStore := True\<rparr> \<and>
       open_store (cf_StateProject c) (cf_StateDatabase c) = None"
  using Validate_again Validate_ring
  by (fastforce simp: AuthServer_New_def newAuthServer_def split: option.splits sum.splits)+

text \<open>Everything that was built is closed exactly once, the pool before the server, also after a panic.\<close>

lemma auth_run_closes:
  "snd (runHTTPWithAuth panics built serving) =
     (if panics BuildAuth \<noteq> None \<or> (\<exists>e. built = Inl e) then []
      else if panics BuildPool \<noteq> None then [CloseAuth] else [ClosePool, CloseAuth])"
  by (auto simp: runHTTPWithAuth_def split: option.splits sum.splits)

text \<open>
  What Google's identity provider tells of a user: the verified flag only from a boolean claim, domain and
  email only from texts.
\<close>

lemma google_identity:
  assumes "idp_ValidateIDToken (googleIdP lib c) raw = Inr claims"
  shows "\<exists>claim. gl_Validate lib raw (oc_ClientID c) = Inr (id_Subject claims, claim) \<and>
    (id_EmailVerified claims \<longleftrightarrow> claim ''email_verified'' = Some (ClaimBool True)) \<and>
    (id_HostedDomain claims \<noteq> [] \<longrightarrow> claim ''hd'' = Some (ClaimString (id_HostedDomain claims)))"
  using assms
  by (auto simp: googleIdP_def wrap_result_def google_claims_def text_claim_def Let_def
      split: sum.splits option.splits claim_value.splits)

subsection \<open>An example\<close>

text \<open>A request without a token: what the MCP handler would do with it does not matter.\<close>

definition ex_no_net :: netlib where
  "ex_no_net = \<lparr>url_parse = (\<lambda>_. None), loopback_ip = (\<lambda>_. False)\<rparr>"

definition ex_mux_env :: mux_env where
  "ex_mux_env = \<lparr>mx_marshal = (\<lambda>_. []), mx_oauth = (\<lambda>_ _. ([], False)), mx_redirect = (\<lambda>_ _. ([], False)),
     mx_sdk401 = (\<lambda>_. http_Error ''no bearer token'' 401), mx_health = None\<rparr>"

definition ex_mcp :: "tokenInfo \<Rightarrow> http_handler" where
  "ex_mcp info q = ([WriteHeader 200, WriteBytes (ti_UserID info)], False)"

definition ex_trusting_mcp :: "tokenInfo \<Rightarrow> http_handler" where
  "ex_trusting_mcp info q = (if rq_Header q ''Authorization'' = [] then ([WriteBytes ''open''], False) else ex_mcp info q)"

lemma ex_mcps_agree:
  "token_verified rt srv ops s now info q \<Longrightarrow> ex_mcp info q = ex_trusting_mcp info q"
  by (auto simp: token_verified_def Go_Strings.fields_def ex_trusting_mcp_def)


end
