(* ===== verification/App_Start.thy ===== *)
theory App_Start
  imports Server_Surface
begin

text \<open>
  How the process starts (\<open>internal/flags.go\<close>, \<open>internal/app.go\<close>) and how the clients and the assembly of a
  user are built and released (\<open>internal/gcpclient/client.go\<close>, \<open>userAssemblyBuilder\<close> in
  \<open>internal/server/server.go\<close>). The values that the package \<open>cli\<close> found for the flags, the constructors of the
  Cloud clients with their \<open>Close\<close> and panics of tool registrations are parameters.
\<close>

subsection \<open>Flags\<close>

datatype flag_kind = StringFlag string | StringSliceFlag | BoolFlag

record cli_flag =
  fl_Name :: string
  fl_EnvVar :: string
  fl_Kind :: flag_kind

text \<open>The flags of the command \<open>run\<close>, in its order, with the default of a string flag.\<close>

definition run_flags :: "cli_flag list" where
  "run_flags = map (\<lambda>(n, e, k). \<lparr>fl_Name = n, fl_EnvVar = e, fl_Kind = k\<rparr>)
     [(''gcp-default-project'', ''GCP_DEFAULT_PROJECT'', StringFlag []),
      (''dns-server'', ''DNS_SERVER'', StringFlag []),
      (''metrics-registry'', ''METRICS_REGISTRY_FILE'', StringFlag []),
      (''transport'', ''MCP_TRANSPORT'', StringFlag ''stdio''),
      (''http-addr'', ''MCP_HTTP_ADDR'', StringFlag '':8080''),
      (''variant'', ''MCP_VARIANT'', StringFlag []),
      (''auth-issuer-url'', ''AUTH_ISSUER_URL'', StringFlag []),
      (''auth-google-client-id'', ''AUTH_GOOGLE_CLIENT_ID'', StringFlag []),
      (''auth-google-client-secret'', ''AUTH_GOOGLE_CLIENT_SECRET'', StringFlag []),
      (''auth-allowed-domains'', ''AUTH_ALLOWED_DOMAINS'', StringSliceFlag),
      (''auth-state-project'', ''AUTH_STATE_PROJECT'', StringFlag []),
      (''auth-state-database'', ''AUTH_STATE_DATABASE'', StringFlag ''(default)''),
      (''auth-token-key'', ''AUTH_TOKEN_KEY'', StringSliceFlag),
      (''auth-allowed-redirects'', ''AUTH_ALLOWED_REDIRECTS'', StringSliceFlag),
      (''auth-google-scopes'', ''AUTH_GOOGLE_SCOPES'', StringSliceFlag),
      (''auth-skip-consent'', ''AUTH_SKIP_CONSENT'', BoolFlag)]"

text \<open>
  The parsed command line: what the arguments or else the environment give for a flag. A string flag that is
  set nowhere has its default.
\<close>

record cli_command =
  cm_strings :: "string \<Rightarrow> string option"
  cm_slices :: "string \<Rightarrow> string list"
  cm_bools :: "string \<Rightarrow> bool"
  cm_args :: "string list"

definition cmd_String :: "cli_command \<Rightarrow> string \<Rightarrow> string" where
  "cmd_String cmd name =
     (case find (\<lambda>f. fl_Name f = name) run_flags of
        Some f \<Rightarrow>
          (case fl_Kind f of
             StringFlag dflt \<Rightarrow> (case cm_strings cmd name of Some v \<Rightarrow> v | None \<Rightarrow> dflt)
           | _ \<Rightarrow> [])
      | None \<Rightarrow> [])"

definition authConfigFromFlags :: "cli_command \<Rightarrow> string \<Rightarrow> Config" where
  "authConfigFromFlags cmd pinnedProject =
     \<lparr>cf_IssuerURL = cmd_String cmd ''auth-issuer-url'', cf_GoogleClientID = cmd_String cmd ''auth-google-client-id'',
      cf_GoogleClientSecret = cmd_String cmd ''auth-google-client-secret'',
      cf_AllowedDomains = cm_slices cmd ''auth-allowed-domains'', cf_PinnedProject = pinnedProject,
      cf_StateProject = cmd_String cmd ''auth-state-project'', cf_StateDatabase = cmd_String cmd ''auth-state-database'',
      cf_TokenKeys = cm_slices cmd ''auth-token-key'', cf_ExtraRedirects = cm_slices cmd ''auth-allowed-redirects'',
      cf_Scopes = cm_slices cmd ''auth-google-scopes'', cf_RefreshTokenTTL = 0,
      cf_SkipConsent = cm_bools cmd ''auth-skip-consent'', cf_hasStore = False\<rparr>"

subsection \<open>Commands\<close>

record client_config =
  gc_DefaultProject :: string
  gc_DNSServer :: string
  gc_MetricsRegistryFile :: string

text \<open>\<open>Server\<close>: the parts of its state that decisions depend on.\<close>

record server_state =
  ss_cfg :: client_config
  ss_version :: string
  ss_project :: ProjectPolicy
  ss_profilerSlots :: nat

definition Server_New :: "client_config \<Rightarrow> string \<Rightarrow> go_error + server_state" where
  "Server_New cfg version =
     (case NewProjectPolicy (gc_DefaultProject cfg) of
        Inl e \<Rightarrow> Inl e
      | Inr policy \<Rightarrow> Inr \<lparr>ss_cfg = cfg, ss_version = version, ss_project = policy, ss_profilerSlots = 2\<rparr>)"

text \<open>The action of \<open>run\<close>: the server, how it goes on, and the configuration of its OAuth server.\<close>

definition run_action ::
    "probe_env \<Rightarrow> registry_env \<Rightarrow> string \<Rightarrow> cli_command \<Rightarrow> go_error + server_state \<times> run_plan \<times> Config option" where
  "run_action pe re version cmd =
     (let cfg = \<lparr>gc_DefaultProject = cmd_String cmd ''gcp-default-project'', gc_DNSServer = cmd_String cmd ''dns-server'',
                 gc_MetricsRegistryFile = cmd_String cmd ''metrics-registry''\<rparr>;
          transport = cmd_String cmd ''transport'';
          auth = (if transport = ''http'' then Some (authConfigFromFlags cmd (gc_DefaultProject cfg)) else None)
      in case Server_New cfg version of
           Inl e \<Rightarrow> Inl e
         | Inr srv \<Rightarrow>
             (case server_Run pe re (gc_MetricsRegistryFile cfg)
                     \<lparr>ro_Transport = transport, ro_HTTPAddr = cmd_String cmd ''http-addr'', ro_VariantID = cmd_String cmd ''variant'',
                      ro_Auth = (if auth = None then NoAuth else WithAuth)\<rparr> of
                Inl e \<Rightarrow> Inl e
              | Inr plan \<Rightarrow> Inr (srv, plan, auth)))"

text \<open>The action of \<open>validate-registry\<close> with its output.\<close>

definition validate_registry_action :: "registry_env \<Rightarrow> cli_command \<Rightarrow> go_error + string" where
  "validate_registry_action re cmd =
     (case cm_args cmd of
        [path] \<Rightarrow>
          (case LoadRegistry re path of
             Inl err \<Rightarrow> Inl (prefix_error (''registry '' @ quote path @ '' is invalid: '') err)
           | Inr reg \<Rightarrow> Inr (''OK: '' @ path @ '' loaded successfully ('' @ itoa (int (Count reg)) @
               '' metrics total after merge with embedded defaults)'' @ [CHR 0x0A]))
      | _ \<Rightarrow> Inl (Sentinel ''validate-registry requires exactly one argument: the path to the registry YAML file''))"

subsection \<open>Cloud clients\<close>

datatype cloud_service = LoggingService | ErrorStatsService | TraceService | MonitoringService | ProfilerService

datatype client_option = WithDialer string | WithTokenSource string

definition client_name :: "cloud_service \<Rightarrow> string" where
  "client_name s =
     (case s of LoggingService \<Rightarrow> ''logging'' | ErrorStatsService \<Rightarrow> ''error stats'' | TraceService \<Rightarrow> ''trace''
      | MonitoringService \<Rightarrow> ''monitoring'' | ProfilerService \<Rightarrow> ''profiler'')"

definition all_services :: "cloud_service list" where
  "all_services = [LoggingService, ErrorStatsService, TraceService, MonitoringService, ProfilerService]"

record cloud_env =
  ce_create :: "cloud_service \<Rightarrow> client_option list \<Rightarrow> go_error option"
  ce_close :: "cloud_service \<Rightarrow> go_error option"

text \<open>\<open>errors.Join\<close> of the errors of closing some clients in order.\<close>

definition close_errors :: "cloud_env \<Rightarrow> cloud_service list \<Rightarrow> go_error list" where
  "close_errors env = List.map_filter (ce_close env)"

definition clientOptions :: "string \<Rightarrow> client_option list" where
  "clientOptions dnsServer = (if dnsServer = [] then [] else [WithDialer dnsServer])"

text \<open>
  The clients are created one after the other; when one fails, those before it are closed. The second
  component lists the calls of \<open>Close\<close>. The error of the first client is not joined with others.
\<close>

fun create_clients ::
    "cloud_env \<Rightarrow> client_option list \<Rightarrow> cloud_service list \<Rightarrow> cloud_service list \<Rightarrow> (go_error + cloud_service list) \<times> cloud_service list" where
  "create_clients env opts created [] = (Inr created, [])"
| "create_clients env opts created (s # ss) =
     (case ce_create env s opts of
        None \<Rightarrow> create_clients env opts (created @ [s]) ss
      | Some e \<Rightarrow>
          (let err = Wrap (''creating '' @ client_name s @ '' client'') [e]
           in (Inl (if created = [] then err else Wrap ''join'' (err # close_errors env created)), created)))"

record Client =
  cl_services :: "cloud_service list"
  cl_closed :: "go_error option option"

definition newWithOpts ::
    "cloud_env \<Rightarrow> client_config option \<Rightarrow> client_option list \<Rightarrow> (go_error + Client) \<times> cloud_service list" where
  "newWithOpts env cfg extra =
     (case cfg of
        None \<Rightarrow> (Inl (Sentinel ''config must not be nil''), [])
      | Some c \<Rightarrow>
          (case create_clients env (clientOptions (gc_DNSServer c) @ extra) [] all_services of
             (Inl e, shut) \<Rightarrow> (Inl e, shut)
           | (Inr ss, shut) \<Rightarrow> (Inr \<lparr>cl_services = ss, cl_closed = None\<rparr>, shut)))"

definition NewWithTokenSource ::
    "cloud_env \<Rightarrow> client_config option \<Rightarrow> string option \<Rightarrow> (go_error + Client) \<times> cloud_service list" where
  "NewWithTokenSource env cfg ts =
     (case ts of
        None \<Rightarrow> (Inl (Sentinel ''token source must not be nil''), [])
      | Some t \<Rightarrow> newWithOpts env cfg [WithTokenSource t])"

text \<open>\<open>Close\<close> under its \<open>sync.Once\<close>: the client afterwards, the result, and the calls of \<open>Close\<close> below it.\<close>

definition Client_Close :: "cloud_env \<Rightarrow> Client \<Rightarrow> Client \<times> go_error option \<times> cloud_service list" where
  "Client_Close env c =
     (case cl_closed c of
        Some err \<Rightarrow> (c, err, [])
      | None \<Rightarrow>
          (let err = errors_join (close_errors env (cl_services c))
           in (c\<lparr>cl_closed := Some err\<rparr>, err, cl_services c)))"

subsection \<open>The assembly of a user\<close>

text \<open>What an assembly holds that must be released: the variants server, the profile cache, and the clients.\<close>

datatype held = HeldVariants | HeldCache | HeldClient cloud_service

datatype assembly = Single mcp_server | Negotiated "(variantSpec \<times> mcp_server \<times> nat) list"

definition registration_panic :: "string \<Rightarrow> go_error" where
  "registration_panic m = Sentinel (''tool registration panic: '' @ m)"

text \<open>
  The builder gives the assembly and its closer, the list of what it closes, or an error; the second
  component is what it closed itself. \<open>panics\<close> tells whether the registration of the tools panics, which the
  builders of the variants recover into an error.
\<close>

definition userAssemblyBuilder ::
    "cloud_env \<Rightarrow> server_state \<Rightarrow> 'd resource_env \<Rightarrow> string option \<Rightarrow> string \<Rightarrow> string option \<Rightarrow>
     (go_error + assembly \<times> held list) \<times> held list" where
  "userAssemblyBuilder env srv e panics variantID ts =
     (case NewWithTokenSource env (Some (ss_cfg srv)) ts of
        (Inl err, shut) \<Rightarrow> (Inl (Wrap ''creating per-user GCP client'' [err]), map HeldClient shut)
      | (Inr client, _) \<Rightarrow>
          (let deps = HeldCache # map HeldClient (cl_services client);
               close_err = (case errors_join (close_errors env (cl_services client)) of None \<Rightarrow> [] | Some ce \<Rightarrow> [Wrap ''join'' [ce]]);
               fail = (\<lambda>m err. (Inl (Wrap ''join'' (Wrap m [err] # close_err)), deps))
           in if variantID \<noteq> [] then
                (case panics of
                   Some m \<Rightarrow> fail ''building variant server'' (registration_panic m)
                 | None \<Rightarrow>
                     (case buildSingleVariantServer (ss_project srv) e variantID of
                        Inl err \<Rightarrow> fail ''building variant server'' err
                      | Inr ms \<Rightarrow> (Inr (Single ms, deps), [])))
              else
                (case panics of
                   Some m \<Rightarrow> fail ''building variants server'' (registration_panic m)
                 | None \<Rightarrow> (Inr (Negotiated (buildVariantsServer (ss_project srv) e), HeldVariants # deps), []))))"

subsection \<open>What is released, and when\<close>

lemma create_clients_result:
  "create_clients env opts created ss = (r, shut) \<Longrightarrow>
     (case r of
        Inr all_of \<Rightarrow> all_of = created @ ss \<and> shut = [] \<and> (\<forall>s \<in> set ss. ce_create env s opts = None)
      | Inl _ \<Rightarrow> \<exists>done_before s rest. ss = done_before @ s # rest \<and> shut = created @ done_before \<and>
          (\<forall>t \<in> set done_before. ce_create env t opts = None) \<and> ce_create env s opts \<noteq> None)"
proof (induction env opts created ss arbitrary: r shut rule: create_clients.induct)
  case (2 env opts created s ss)
  show ?case
  proof (cases "ce_create env s opts")
    case None
    with 2 have "case r of
        Inr all_of \<Rightarrow> all_of = (created @ [s]) @ ss \<and> shut = [] \<and> (\<forall>s \<in> set ss. ce_create env s opts = None)
      | Inl _ \<Rightarrow> \<exists>done_before t rest. ss = done_before @ t # rest \<and> shut = (created @ [s]) @ done_before \<and>
          (\<forall>t \<in> set done_before. ce_create env t opts = None) \<and> ce_create env t opts \<noteq> None" by simp
    then show ?thesis
    proof (cases r)
      case (Inl x)
      with \<open>case r of Inr _ \<Rightarrow> _ | Inl _ \<Rightarrow> _\<close> obtain done_before t rest where
        "ss = done_before @ t # rest" "shut = (created @ [s]) @ done_before"
        "\<forall>t \<in> set done_before. ce_create env t opts = None" "ce_create env t opts \<noteq> None" by auto
      then have "s # ss = (s # done_before) @ t # rest" "shut = created @ (s # done_before)"
        "\<forall>t \<in> set (s # done_before). ce_create env t opts = None" using None by auto
      then show ?thesis using Inl \<open>ce_create env t opts \<noteq> None\<close> by (simp only: sum.case) blast
    qed (use None in auto)
  next
    case (Some e)
    with 2(2) show ?thesis by (auto simp: Let_def intro!: exI [of _ "[]"])
  qed
qed auto

text \<open>
  A client set that cannot be completed is taken down again: exactly the clients that were created are
  closed, each once. A complete set holds every service, and its \<open>Close\<close> closes each of them once however
  often it is called, always with the same result.
\<close>

lemma clients_released:
  assumes "newWithOpts env (Some cfg) extra = (r, shut)"
  shows "distinct shut"
    and "r = Inl e \<Longrightarrow> \<exists>s rest. all_services = shut @ s # rest \<and> ce_create env s (clientOptions (gc_DNSServer cfg) @ extra) \<noteq> None"
    and "r = Inr c \<Longrightarrow> shut = [] \<and> cl_services c = all_services \<and> cl_closed c = None"
proof -
  obtain q cl where q: "create_clients env (clientOptions (gc_DNSServer cfg) @ extra) [] all_services = (q, cl)" by fastforce
  note res = create_clients_result [OF q]
  have d: "distinct all_services" by (simp add: all_services_def)
  from assms q have rq: "shut = cl" "r = (case q of Inl e \<Rightarrow> Inl e | Inr ss \<Rightarrow> Inr \<lparr>cl_services = ss, cl_closed = None\<rparr>)"
    by (auto simp: newWithOpts_def split: sum.splits)
  have "\<exists>rest. all_services = cl @ rest" using res by (cases q) auto
  then have "distinct cl" using d by (metis distinct_append)
  then show "distinct shut" by (simp add: rq)
  show "r = Inl e \<Longrightarrow> \<exists>s rest. all_services = shut @ s # rest \<and> ce_create env s (clientOptions (gc_DNSServer cfg) @ extra) \<noteq> None"
    using res rq by (auto split: sum.splits)
  show "r = Inr c \<Longrightarrow> shut = [] \<and> cl_services c = all_services \<and> cl_closed c = None"
    using res rq by (auto split: sum.splits)
qed

lemma close_once:
  "cl_closed c = None \<Longrightarrow>
     (let (c1, err1, closed1) = Client_Close env c; (c2, err2, closed2) = Client_Close env c1
      in closed1 = cl_services c \<and> closed2 = [] \<and> err2 = err1 \<and> c2 = c1)"
  by (simp add: Client_Close_def Let_def)

text \<open>
  The builder of an assembly either hands over everything it opened to the closer of the assembly, or has
  closed it: the cache and all clients exactly once, whatever fails.
\<close>

lemma assembly_released:
  assumes "userAssemblyBuilder env srv e panics variantID ts = (r, shut)"
  shows "distinct shut"
    and "r = Inr (a, closer) \<Longrightarrow> shut = [] \<and> distinct closer \<and>
           set closer = set (HeldCache # map HeldClient all_services) \<union> (case a of Single _ \<Rightarrow> {} | Negotiated _ \<Rightarrow> {HeldVariants})"
proof -
  have inj: "distinct (map HeldClient xs) = distinct xs" for xs by (simp add: distinct_map inj_on_def)
  obtain q cl where q: "NewWithTokenSource env (Some (ss_cfg srv)) ts = (q, cl)" by fastforce
  have no_ts: "ts = None \<Longrightarrow> q = Inl (Sentinel ''token source must not be nil'') \<and> cl = []"
    using q by (auto simp: NewWithTokenSource_def)
  have with_ts: "ts = Some t \<Longrightarrow> newWithOpts env (Some (ss_cfg srv)) [WithTokenSource t] = (q, cl)" for t
    using q by (auto simp: NewWithTokenSource_def)
  have cl: "distinct cl" by (cases ts) (use no_ts clients_released(1) [OF with_ts] in auto)
  have services: "q = Inr c \<Longrightarrow> cl_services c = all_services" for c
    by (cases ts) (use no_ts clients_released(3) [OF with_ts] in auto)
  have all: "distinct (HeldVariants # HeldCache # map HeldClient all_services)"
    by (simp add: all_services_def)
  show "distinct shut"
  proof (cases q)
    case (Inl x)
    with assms q have "shut = map HeldClient cl" by (simp add: userAssemblyBuilder_def)
    with cl show ?thesis by (simp only: inj)
  next
    case (Inr c)
    with assms q all services [OF Inr] show ?thesis
      by (auto simp: userAssemblyBuilder_def Let_def split: option.splits sum.splits if_splits)
  qed
  show "r = Inr (a, closer) \<Longrightarrow> shut = [] \<and> distinct closer \<and>
           set closer = set (HeldCache # map HeldClient all_services) \<union> (case a of Single _ \<Rightarrow> {} | Negotiated _ \<Rightarrow> {HeldVariants})"
  proof (cases q)
    case (Inl x)
    then show "r = Inr (a, closer) \<Longrightarrow> ?thesis" using assms q by (simp add: userAssemblyBuilder_def)
  next
    case (Inr c)
    then show "r = Inr (a, closer) \<Longrightarrow> ?thesis" using assms q all services [OF Inr]
      by (auto simp: userAssemblyBuilder_def Let_def split: option.splits sum.splits if_splits)
  qed
qed

text \<open>HTTP is served only with an OAuth configuration, and pinned exactly as the tools are.\<close>

lemma server_Run_http:
  "server_Run pe re file opts = Inr (ServeHTTP reg v addr) \<Longrightarrow> ro_Transport opts = ''http''"
  unfolding server_Run_def by (simp split: option.split_asm sum.split_asm if_split_asm)

lemma Server_New_pinned:
  "Server_New cfg version = Inr srv \<Longrightarrow> pp_pinned (ss_project srv) = gc_DefaultProject cfg"
  unfolding Server_New_def NewProjectPolicy_def by (simp split: if_split_asm) auto

lemma http_needs_auth:
  assumes "run_action pe re version cmd = Inr (srv, ServeHTTP reg v addr, auth)"
  shows "\<exists>cfg. auth = Some cfg \<and> cf_PinnedProject cfg = pp_pinned (ss_project srv)"
proof -
  have "cf_PinnedProject (authConfigFromFlags cmd p) = p" for p by (simp add: authConfigFromFlags_def)
  then show ?thesis
    using assms unfolding run_action_def Let_def
    by (auto dest!: server_Run_http Server_New_pinned split: sum.split_asm if_split_asm)
qed

end
