(* ===== verification/Tool_Progress.thy ===== *)
theory Tool_Progress
  imports Obs_Prelude
begin

text \<open>
  Progress notifications (\<open>sendProgress\<close>, \<open>startProgressHeartbeat\<close> and \<open>profileNavigationProgress\<close> in
  \<open>internal/tools/tools.go\<close>): the goroutine that keeps the client from timing out, and the handler that stops
  it, as a step relation over their interleavings.
\<close>

subsection \<open>Notifications\<close>

record notification =
  nt_Progress :: int
  nt_Total :: int
  nt_Message :: string

text \<open>A request without a session or a progress token gets none. A failed notification is dropped and logged.\<close>

record progress_request =
  pr_HasSession :: bool
  pr_Token :: "string option"

definition sendProgress :: "progress_request option \<Rightarrow> int \<Rightarrow> int \<Rightarrow> string \<Rightarrow> notification list" where
  "sendProgress req progress tot message =
     (case req of
        None \<Rightarrow> []
      | Some r \<Rightarrow>
          if \<not> pr_HasSession r \<or> pr_Token r = None then []
          else [\<lparr>nt_Progress = progress, nt_Total = tot, nt_Message = message\<rparr>])"

subsection \<open>The heartbeat\<close>

text \<open>
  \<open>hb_done\<close>: the channel \<open>done\<close> is closed; \<open>hb_running\<close>: the goroutine has not closed \<open>stopped\<close>; \<open>hb_returned\<close>: the
  stop function has returned.
\<close>

record heartbeat =
  hb_ticks :: int
  hb_done :: bool
  hb_running :: bool
  hb_returned :: bool
  hb_sent :: "notification list"

text \<open>Without a progress token no goroutine is started and the stop function does nothing.\<close>

definition startProgressHeartbeat :: "progress_request option \<Rightarrow> heartbeat" where
  "startProgressHeartbeat req =
     \<lparr>hb_ticks = 0, hb_done = False, hb_running = (case req of None \<Rightarrow> False | Some r \<Rightarrow> pr_Token r \<noteq> None),
      hb_returned = False, hb_sent = []\<rparr>"

text \<open>
  The goroutine may take a tick although \<open>done\<close> is closed, since \<open>select\<close> chooses any ready case; it ends when it
  takes \<open>done\<close> or the cancelled context. The stop function closes \<open>done\<close> and waits for the goroutine. After that,
  \<open>profileNavigationProgress\<close> reports the analysis, and it calls the stop function before each report, the
  first call being the only one that does something.
\<close>

inductive hb_step :: "progress_request option \<Rightarrow> string \<Rightarrow> heartbeat \<Rightarrow> heartbeat \<Rightarrow> bool" for req message where
  hb_tick: "hb_running h \<Longrightarrow>
     hb_step req message h (h\<lparr>hb_ticks := hb_ticks h + 1, hb_sent := hb_sent h @ sendProgress req (hb_ticks h + 1) 0 message\<rparr>)"
| hb_cancelled: "hb_running h \<Longrightarrow> hb_step req message h (h\<lparr>hb_running := False\<rparr>)"
| hb_take_done: "hb_running h \<Longrightarrow> hb_done h \<Longrightarrow> hb_step req message h (h\<lparr>hb_running := False\<rparr>)"
| hb_stop: "\<not> hb_done h \<Longrightarrow> hb_step req message h (h\<lparr>hb_done := True\<rparr>)"
| hb_return: "hb_done h \<Longrightarrow> \<not> hb_running h \<Longrightarrow> hb_step req message h (h\<lparr>hb_returned := True\<rparr>)"
| hb_report: "hb_returned h \<Longrightarrow> m \<noteq> message \<Longrightarrow>
     hb_step req message h (h\<lparr>hb_sent := hb_sent h @ sendProgress req current tot m\<rparr>)"

inductive_cases hb_stepE [elim]: "hb_step req message h h'"

definition beats :: "string \<Rightarrow> notification list \<Rightarrow> notification list" where
  "beats message = filter (\<lambda>n. nt_Message n = message)"

definition heartbeats :: "progress_request option \<Rightarrow> string \<Rightarrow> int \<Rightarrow> notification list" where
  "heartbeats req message n = concat (map (\<lambda>k. sendProgress req k 0 message) [1..n])"

definition hb_inv :: "progress_request option \<Rightarrow> string \<Rightarrow> heartbeat \<Rightarrow> bool" where
  "hb_inv req message h =
     ((hb_returned h \<longrightarrow> hb_done h \<and> \<not> hb_running h) \<and> 0 \<le> hb_ticks h \<and>
      (\<exists>others. hb_sent h = heartbeats req message (hb_ticks h) @ others \<and> beats message others = [] \<and>
         (\<not> hb_returned h \<longrightarrow> others = [])))"

lemma beats_append [simp]: "beats m (xs @ ys) = beats m xs @ beats m ys"
  by (simp add: beats_def)

lemma beats_sendProgress [simp]:
  "beats m (sendProgress req p t m') = (if m = m' then sendProgress req p t m' else [])"
  by (auto simp: beats_def sendProgress_def split: option.splits)

lemma heartbeats_simps:
  "heartbeats req message 0 = []"
  "0 \<le> n \<Longrightarrow> heartbeats req message (n + 1) = heartbeats req message n @ sendProgress req (n + 1) 0 message"
  by (simp_all add: heartbeats_def upto_rec2)

lemma beats_heartbeats [simp]: "beats m (heartbeats req m n) = heartbeats req m n"
  by (auto simp: beats_def heartbeats_def sendProgress_def filter_id_conv split: option.splits)

lemma hb_step_inv: "hb_step req message h h' \<Longrightarrow> hb_inv req message h \<Longrightarrow> hb_inv req message h'"
proof (induction rule: hb_step.induct)
  case (hb_tick h)
  then have "\<not> hb_returned h" "hb_sent h = heartbeats req message (hb_ticks h)" "0 \<le> hb_ticks h" by (auto simp: hb_inv_def)
  then show ?case by (simp add: hb_inv_def heartbeats_simps beats_def)
next
  case (hb_report h m current tot)
  then obtain others where "hb_sent h = heartbeats req message (hb_ticks h) @ others" "beats message others = []"
    "hb_done h \<and> \<not> hb_running h" "0 \<le> hb_ticks h" by (auto simp: hb_inv_def)
  then show ?case using hb_report(1,2)
    by (auto simp: hb_inv_def intro!: exI [of _ "others @ sendProgress req current tot m"])
qed (auto simp: hb_inv_def)

lemma hb_reachable_inv:
  "(hb_step req message)\<^sup>*\<^sup>* (startProgressHeartbeat req) h \<Longrightarrow> hb_inv req message h"
proof (induction rule: rtranclp_induct)
  case base
  show ?case by (simp add: startProgressHeartbeat_def hb_inv_def heartbeats_simps beats_def)
next
  case (step y z)
  then show ?case by (blast intro: hb_step_inv)
qed

text \<open>
  However the goroutine and the handler interleave: the heartbeats are sent with the progress 1, 2, 3 and so
  on without a gap, none is sent after the stop function returned, and none follows a report of the handler.
  Once the stop function was called, it can always return.
\<close>

theorem heartbeat_ends_with_stop:
  assumes "(hb_step req message)\<^sup>*\<^sup>* (startProgressHeartbeat req) h"
  shows "(\<exists>others. hb_sent h = heartbeats req message (hb_ticks h) @ others \<and> beats message others = []) \<and>
         (hb_returned h \<longrightarrow> (\<forall>h'. (hb_step req message)\<^sup>*\<^sup>* h h' \<longrightarrow> beats message (hb_sent h') = beats message (hb_sent h))) \<and>
         (hb_done h \<longrightarrow> (\<exists>h'. (hb_step req message)\<^sup>*\<^sup>* h h' \<and> hb_returned h'))"
proof -
  have inv: "hb_inv req message h" by (rule hb_reachable_inv [OF assms])
  have frozen: "(hb_step req message)\<^sup>*\<^sup>* h h' \<Longrightarrow> hb_returned h \<Longrightarrow>
      hb_returned h' \<and> hb_inv req message h' \<and> hb_ticks h' = hb_ticks h" for h'
  proof (induction rule: rtranclp_induct)
    case (step y z)
    then have y: "hb_returned y" "hb_inv req message y" "hb_ticks y = hb_ticks h" by auto
    then have "\<not> hb_running y" "hb_done y" by (auto simp: hb_inv_def)
    with step(2) y have "hb_returned z \<and> hb_ticks z = hb_ticks h" by (auto elim!: hb_stepE)
    with step(2) y show ?case using hb_step_inv by blast
  qed (simp add: inv)
  have returns: "\<exists>h'. (hb_step req message)\<^sup>*\<^sup>* h h' \<and> hb_returned h'" if d: "hb_done h"
  proof -
    define h1 where "h1 = h\<lparr>hb_running := False\<rparr>"
    have "(hb_step req message)\<^sup>*\<^sup>* h h1"
    proof (cases "hb_running h")
      case True
      then show ?thesis unfolding h1_def using d by (blast intro: hb_take_done)
    next
      case False
      then have "h1 = h" by (simp add: h1_def)
      then show ?thesis by simp
    qed
    moreover have "hb_step req message h1 (h1\<lparr>hb_returned := True\<rparr>)"
      by (rule hb_return) (use d in \<open>simp_all add: h1_def\<close>)
    ultimately show ?thesis
      by (intro exI [of _ "h1\<lparr>hb_returned := True\<rparr>"]) (auto intro: rtranclp.rtrancl_into_rtrancl)
  qed
  have all_beats: "hb_inv req message g \<Longrightarrow> beats message (hb_sent g) = heartbeats req message (hb_ticks g)" for g
    by (auto simp: hb_inv_def)
  have same: "beats message (hb_sent h') = beats message (hb_sent h)"
    if "hb_returned h" "(hb_step req message)\<^sup>*\<^sup>* h h'" for h'
    using frozen [OF that(2,1)] inv by (simp add: all_beats)
  have "\<exists>others. hb_sent h = heartbeats req message (hb_ticks h) @ others \<and> beats message others = []"
    using inv by (auto simp: hb_inv_def)
  with same returns show ?thesis by blast
qed

end
