(* ===== verification/Repo_Tests.thy ===== *)
theory Repo_Tests
  imports Error_Reporting Log_Entries Tool_Metrics Http_Diag
begin

text \<open>
  Test vectors of the repository (\<open>*_test.go\<close>), evaluated on the model: the tables of \<open>helpers_test.go\<close>,
  \<open>errors_test.go\<close>, \<open>tools_test.go\<close>, \<open>metric_labels_test.go\<close> and
  \<open>metrics_snapshot_test.go\<close>. They guard the definitions against slips of translation.
\<close>

lemma safeInt32_vectors:
  "map safeInt32 [100, 0, -5, 2147483647, 2147483648] = [100, 0, 0, 2147483647, 2147483647]"
  by code_simp

lemma EscapeFilterValue_vectors:
  "map EscapeFilterValue [''hello'', ''say \"hi\"'', [CHR ''a'', CHR 0x5C, CHR 0x22, CHR ''b'']] =
     [''hello'', ''say '' @ [CHR 0x5C, CHR 0x22] @ ''hi'' @ [CHR 0x5C, CHR 0x22],
      [CHR ''a'', CHR 0x5C, CHR 0x5C, CHR 0x5C, CHR 0x22, CHR ''b'']]"
  by code_simp

lemma extractTraceID_vectors:
  "map extractTraceID [''projects/my-project/traces/abc123'', ''abc123'', []] = [''abc123'', ''abc123'', []]"
  by code_simp

lemma AppendFilter_vectors:
  "map (\<lambda>(a, b). AppendFilter a b) [([], []), ([], ''part''), (''base'', []), (''base'', ''part'')] =
     [[], ''part'', ''base'', ''base'' @ [CHR 0x0A] @ ''part'']"
  by code_simp

lemma splitReportedErrorMessage_vectors:
  "splitReportedErrorMessage ''boom'' = (''boom'', [])"
  "splitReportedErrorMessage (''panic: boom'' @ [CHR 0x0A] @ ''main.main()'') = (''panic: boom'', ''panic: boom'' @ [CHR 0x0A] @ ''main.main()'')"
  by code_simp+

lemma compactDesc_vectors:
  "map compactDesc [''First sentence. Second sentence.'', ''Only sentence.'', ''No period here'', [], ''Fetches logs (e.g. ERROR level). Returns''] =
     [''First sentence.'', ''Only sentence.'', ''No period here'', [], ''Fetches logs (e.g.'']"
  by code_simp

lemma clampLimit_vectors:
  "map (\<lambda>n. clampLimit n 100 1000) [50, 0, -5, 2000, 1000, 1] = [50, 100, 100, 1000, 1000, 1]"
  by code_simp

lemma invalidFilterErrRe_vectors:
  "map invalidFilterErrRe [''timeout'', ''Filter does not specify a valid combination''] = [False, True]"
  by code_simp

lemma baseline_windows_vectors:
  "map (\<lambda>w. (bw_label w, bw_start w, bw_end w))
     (concat (map (\<lambda>m. baseline_windows \<lparr>bs_mode = m, bs_eventTime = 1773827100000000000\<rparr> 1773828000000000000 1773831600000000000)
        [PrevWindow, PreEvent])) =
     [(''baseline (prev_window)'', 1773824400000000000, 1773828000000000000),
      (''baseline (pre_event)'', 1773825300000000000, 1773827100000000000)]"
  by (simp add: baseline_windows_def preEventBaselineSpan_def minute_def second_def sub_time_def)

lemma protocolVersion_vectors:
  "map protocolVersion [[], ''2026-07-28'', ''2025-02-30'', ''2025-2-03'', ''2026-07-28x''] =
     [''absent'', ''2026-07-28'', ''invalid'', ''invalid'', ''invalid'']"
  by code_simp

end
