(* ===== verification/Spec2Isabelle.thy ===== *)
theory Spec2Isabelle
  imports Oauth_Adapters Oauth_Lifecycle_Props Profile_Cache User_Pool Trace_Tree Log_Props Profile_Service_Props
    Metric_Props Metric_Registry_Props Metric_Query_Props Error_Reporting_Props
    Tool_Handlers Tool_Metrics_Examples Server_Surface_Props Http_Entry_Props App_Start Tool_Progress Repo_Tests
begin

text \<open>
  A verification development of the GCP observability MCP server (Go, module
  \<open>github.com/tolmachov/mcp-gcp-observability\<close>).

  \<^bold>\<open>The program.\<close> The server answers Model Context Protocol requests about logs, traces,
  errors, metrics and profiles of Google Cloud projects. Over stdio it serves one operator with the
  credentials of the machine. Over HTTP it is its own OAuth authorization server
  (\<open>internal/authsrv\<close>): a client registers, the user logs in with Google, and every authenticated
  user gets an assembly of clients of their own from a pool (\<open>internal/server/userpool.go\<close>), so that
  the permissions of the user decide what is visible. A request passes the HTTP diagnostics, the
  cross-origin check and the body limit (\<open>internal/httpdiag\<close>, \<open>internal/server/transport.go\<close>), the
  bearer middleware, the pool, the limits on tool calls (\<open>internal/server/server.go\<close>) and reaches a
  tool handler (\<open>internal/tools\<close>); the handler resolves the project, parses its input and calls the
  query layer (\<open>internal/gcpdata\<close>), and, for metrics, the signal processor and the registry of metric
  metadata (\<open>internal/metrics\<close>).

  \<^bold>\<open>How code becomes definitions.\<close> A struct is a record whose selectors carry a short prefix, an
  enumeration a datatype, an error a value (\<open>Inl\<close> of a sum, or \<open>Some\<close> message), a method an
  operation that returns the new state. Names follow the source; a definition stands for one function
  or, where the function is long, for one step of it, and the composed definition has the name of the
  function. Locks appear as the granularity of the steps: what the code does under one lock is one
  operation, and the interleavings of operations are step relations (\<open>Oauth_Protocol\<close>,
  \<open>User_Pool\<close>, \<open>Server_Limits\<close>) or lists of events (\<open>Tool_Related\<close>). What is not in this repository
  (Cloud clients, AES-GCM, HMAC, HKDF, SHA-256, JSON, YAML, URL and protojson codecs, gzip, the pprof
  parser, the MCP SDK) is an argument of the definitions that call it; laws about it are locale
  assumptions or premises of the theorem, and each such theorem has a witness with a concrete instance.

  \<^bold>\<open>Foundations.\<close>
  \<^item> \<open>Obs_Prelude\<close>: time as nanoseconds, errors, ordered maps, generic lemmas, the collection of
    simplification rules that the component proofs share.
  \<^item> \<open>Go_Strings\<close>, \<open>Go_Format\<close>, \<open>Go_Base64\<close>, \<open>Go_Time\<close>: the functions of \<open>strings\<close>, \<open>strconv\<close>, \<open>fmt\<close>,
    \<open>encoding/base64\<close> and \<open>time\<close> that the program calls. Strings are lists of bytes.
  \<^item> \<open>Go_Float\<close>: \<open>float64\<close> as a datatype of finite reals, infinities and not-a-number, with one rounding
    per operation. The sign of a zero is not represented; no modelled decision depends on it.

  \<^bold>\<open>The authorization server\<close> (\<open>internal/authsrv\<close>).
  \<^item> \<open>Oauth_Store\<close> (\<open>store.go\<close>): the records, the transition rules (\<open>grantRotationDecision\<close>,
    \<open>codeRedemptionDecision\<close>), the in-memory adapter \<open>mem_...\<close>, and the contract of the store as the
    locale \<open>oauth_state_store\<close>, interpreted on that adapter. \<open>Oauth_Firestore\<close> (\<open>firestore_store.go\<close>): the
    Firestore adapter \<open>fs_...\<close> over a client parameter with the locale \<open>firestore_client\<close>.
    \<open>Oauth_Adapters\<close> shows that it meets the same contract and answers like the in-memory adapter.
  \<^item> \<open>Oauth_Seal\<close> (\<open>keys.go\<close>, \<open>seal.go\<close>, \<open>tokens.go\<close>), \<open>Oauth_Config\<close> (\<open>config.go\<close>, \<open>redirect.go\<close>),
    \<open>Oauth_Grants\<close> (\<open>grants.go\<close>, \<open>verifier.go\<close>, \<open>accesscheck.go\<close>), \<open>Oauth_Http\<close> (\<open>authorize.go\<close>,
    \<open>callback.go\<close>, \<open>token.go\<close>, \<open>dcr.go\<close>, \<open>revoke.go\<close>).
  \<^item> \<open>Oauth_Lifecycle\<close> proves the laws of grants once, for every store that meets the contract;
    \<open>Oauth_Lifecycle_Props\<close>, \<open>Oauth_Http_Props\<close> and \<open>Oauth_Config_Props\<close> state the properties of the
    operations; \<open>Oauth_Protocol\<close> lets any number of servers interleave their handlers on one store and
    proves what no interleaving can break. \<open>Oauth_Examples\<close> is the deployment of the witnesses.

  \<^bold>\<open>The query layer\<close> (\<open>internal/gcpdata\<close>).
  \<^item> \<open>Log_Types\<close>, \<open>Log_Entries\<close>, \<open>Log_Traces\<close> (\<open>types.go\<close>, \<open>logs.go\<close>, \<open>helpers.go\<close>,
    \<open>traces_from_logs.go\<close>) with \<open>Log_Props\<close>: the 8 KiB budget of an entry, resuming a scan.
  \<^item> \<open>Trace_Tree\<close> (\<open>traces.go\<close>): the span tree holds exactly the spans whose parents lead to a root.
  \<^item> \<open>Profile_Analysis\<close>, \<open>Profile_List\<close>, \<open>Profile_Service\<close> (\<open>profiler.go\<close>,
    \<open>profiler_navigation.go\<close>, \<open>profiler_types.go\<close>), \<open>Profile_Cache\<close> (\<open>profiler_cache.go\<close>), with
    \<open>Profile_Props\<close>, \<open>Profile_List_Props\<close>, \<open>Profile_Service_Props\<close>: exact costs and call trees, bounded
    flame graphs, paging without loss, eviction by least recent use.
  \<^item> \<open>Metric_Query\<close> (\<open>metrics.go\<close>, \<open>querier.go\<close>) with \<open>Metric_Query_Props\<close>: the fold of the groups equals
    a direct definition over held values; no aggregated query panics.
  \<^item> \<open>Error_Reporting\<close> (\<open>errors.go\<close>, \<open>errors_trends.go\<close>) with \<open>Error_Reporting_Props\<close>.

  \<^bold>\<open>Metrics\<close> (\<open>internal/metrics\<close>).
  \<^item> \<open>Metric_Types\<close> (\<open>types.go\<close>, \<open>aggregation.go\<close>), \<open>Metric_Classify\<close> (\<open>classify.go\<close>),
    \<open>Metric_Process\<close> (\<open>processor.go\<close>, \<open>baseline.go\<close>), \<open>Metric_Registry\<close> (\<open>registry.go\<close>) with
    \<open>Metric_Props\<close> and \<open>Metric_Registry_Props\<close>: thresholds are always usable, every verdict has its
    grounds, breaches are accounted exactly, an overlay changes exactly what it names.

  \<^bold>\<open>Tools\<close> (\<open>internal/tools\<close>).
  \<^item> \<open>Tool_Common\<close> (\<open>tools.go\<close>, \<open>gcp_errors.go\<close>, \<open>project_policy.go\<close>, \<open>inputs.go\<close>, \<open>schema.go\<close>),
    \<open>Tool_Metrics\<close> (\<open>metric_labels.go\<close> and the backends of the metric tools), \<open>Tool_Snapshot\<close>,
    \<open>Tool_Top\<close>, \<open>Tool_Compare\<close>, \<open>Tool_Related\<close> (\<open>metrics_*.go\<close>), \<open>Tool_Handlers\<close> (the tools for logs,
    traces, errors and profiles).
  \<^item> \<open>Tool_Metrics_Props\<close>, \<open>Tool_Related_Props\<close>: the project boundary, the policy for failed baselines,
    verdicts that need data, answers without infinities, every related metric accounted for once.
    \<open>Tool_Metrics_Examples\<close> holds the deployment of their witnesses.
  \<^item> \<open>Tool_Progress\<close> (\<open>tools.go\<close>): the heartbeat goroutine and its stop as a step relation.

  \<^bold>\<open>The server\<close> (\<open>internal/server\<close>, \<open>internal/httpdiag\<close>).
  \<^item> \<open>User_Pool\<close> (\<open>userpool.go\<close>): the pool as a transition system over its critical sections.
  \<^item> \<open>Server_Limits\<close> (\<open>server.go\<close>): concurrent-call slots, profile scan slots, deadlines, the budget of a
    result, recovery from panics. \<open>Server_Surface\<close> (\<open>variants.go\<close>, \<open>completion.go\<close>, \<open>prompts.go\<close>,
    \<open>resources.go\<close> and the options of \<open>server.go\<close>) with \<open>Server_Surface_Props\<close>.
  \<^item> \<open>Http_Diag\<close> (\<open>httpdiag.go\<close>), \<open>Http_Entry\<close> (\<open>transport.go\<close>, and \<open>metadata.go\<close> and \<open>server.go\<close> of
    \<open>internal/authsrv\<close>): handlers are functions from a request to the calls on their response writer, the
    middlewares compose them as the code does. \<open>Http_Diag_Props\<close>: a diagnostic record repeats no text of
    the client and leaves the response as it is; \<open>Http_Entry_Props\<close>: which requests reach the MCP handler.
  \<^item> \<open>App_Start\<close> (\<open>app.go\<close>, \<open>flags.go\<close>, \<open>internal/gcpclient\<close>, \<open>userAssemblyBuilder\<close>): the start of the process,
    the creation of the clients of a user and their release on every path.
  \<^item> \<open>Repo_Tests\<close>: test vectors of the repository's own tests, evaluated on the model.

  \<^bold>\<open>Interfaces.\<close> Each locale is interpreted on the model's own definitions:
  \<^item> \<open>strict_weak_order\<close> (prelude): the comparisons of the sorts; interpreted for logs, traces, spans, error
    trends, profiles, related signals and floating point numbers.
  \<^item> \<open>oauth_state_store\<close>: the state store; interpreted on the in-memory adapter, and a sublocale of
    \<open>firestore_client\<close>, whose interpretation is the reference client over the tables.
  \<^item> \<open>log_pager\<close> and \<open>profile_listing\<close>: what a paging service promises; interpreted on services that hold a list
    of pages.

  \<^bold>\<open>Bounds and fuel.\<close> Loops over data are structural recursions. A listing that follows page tokens of
  a service may never end, so \<open>list_pages\<close> is a \<open>partial_function (option)\<close> and \<open>listing_returns\<close> shows
  when it returns; scans of log pages recurse over the pages the service gives within the time budget.
  Scan limits, byte budgets and slot counts are the constants of the code (20000 profiles, 8 KiB per
  entry, 2 MiB per result, 1 MiB per request, 4 KiB of a refused body, four calls, two scans). Counters and costs
  that the code keeps in \<open>int64\<close> wrap where the code can overflow (\<open>Profile_Analysis\<close>); lengths of series
  are taken to be below \<open>2 ^ 53\<close>, so that they are exact as \<open>float64\<close>.

  \<^bold>\<open>Not modelled.\<close> Logging, progress notifications, JSON schemas of the tools and their descriptions
  (texts handed to the SDK); the HTML pages of the authorization server and the one that draws charts;
  help texts of the command line; \<open>main.go\<close>, which handles signals and the exit code; constructors and
  helpers that only tests use. Contexts appear as the errors their cancellation causes. Memory and real time
  are not modelled. The handlers of the OAuth endpoints are modelled with responses as values in
  \<open>Oauth_Http\<close>; the mux of \<open>Http_Entry\<close> takes them as arguments, since their pages are not modelled.
\<close>

end
